(* ===== verification/Prelude.thy ===== *)
theory Prelude
  imports Main "HOL-Library.AList" "HOL-Library.Multiset" "HOL-Library.Monad_Syntax"
begin

text \<open>
  What every component of the store shares: the JavaScript values the reducers work on
  (objects used as dictionaries, arrays, sorting by a comparator, numbers that may be
  \<open>undefined\<close> or \<open>NaN\<close>), the shape of a reducer's result, and the interfaces
  (locales) the components are proved against.

  An exception is the value \<open>None\<close>: the only exception the modelled code can raise is
  the \<open>TypeError\<close> of reading a property of \<open>undefined\<close>, so a definition of type
  \<open>'a option\<close> is one that can throw, and \<open>None\<close> is the throw.
\<close>

named_theorems obj_simps \<open>reading JavaScript objects after writes, deletions and spreads\<close>
named_theorems wf_intros \<open>operations that keep the keys of an object distinct\<close>

section \<open>Objects used as dictionaries\<close>

text \<open>
  A JavaScript object with string keys is the association list of its own properties in
  insertion order: \<open>put\<close> overwrites in place or appends, as an assignment does, and
  \<open>del\<close> is \<open>Reflect.deleteProperty\<close>. Identifiers are 26-letter strings, so the
  integer-like keys that JavaScript would enumerate first do not occur.
\<close>

type_synonym 'v obj = "(string \<times> 'v) list"

abbreviation get :: "'v obj \<Rightarrow> string \<Rightarrow> 'v option" where
  "get \<equiv> map_of"

abbreviation put :: "string \<Rightarrow> 'v \<Rightarrow> 'v obj \<Rightarrow> 'v obj" where
  "put \<equiv> AList.update"

abbreviation del :: "string \<Rightarrow> 'v obj \<Rightarrow> 'v obj" where
  "del \<equiv> AList.delete"

definition obj_keys :: "'v obj \<Rightarrow> string list" where
  "obj_keys ob = map fst ob"

definition obj_values :: "'v obj \<Rightarrow> 'v list" where
  "obj_values ob = map snd ob"

text \<open>\<open>{...a, ...b}\<close>\<close>

definition obj_spread :: "'v obj \<Rightarrow> 'v obj \<Rightarrow> 'v obj" where
  "obj_spread a b = fold (\<lambda>(k, v). put k v) b a"

definition del_all :: "string list \<Rightarrow> 'v obj \<Rightarrow> 'v obj" where
  "del_all ks ob = fold del ks ob"

definition wf_obj :: "'v obj \<Rightarrow> bool" where
  "wf_obj ob \<longleftrightarrow> distinct (map fst ob)"

text \<open>\<open>state[k] || d\<close> on an object of arrays or objects.\<close>

definition get_or :: "'v \<Rightarrow> 'v obj \<Rightarrow> string \<Rightarrow> 'v" where
  "get_or d ob k = (case get ob k of None \<Rightarrow> d | Some v \<Rightarrow> v)"

text \<open>A property name computed from a value that may be \<open>undefined\<close>.\<close>

definition key_of :: "string option \<Rightarrow> string" where
  "key_of k = (case k of None \<Rightarrow> ''undefined'' | Some s \<Rightarrow> s)"

lemma get_put [simp, obj_simps]: "get (put k v ob) j = (if j = k then Some v else get ob j)"
  by (simp add: update_conv')

lemma get_del [simp, obj_simps]: "get (del k ob) j = (if j = k then None else get ob j)"
  by (simp add: delete_conv')

lemma wf_obj_Nil [simp, wf_intros]: "wf_obj []"
  by (simp add: wf_obj_def)

lemma wf_obj_put [simp, wf_intros]: "wf_obj ob \<Longrightarrow> wf_obj (put k v ob)"
  by (simp add: wf_obj_def distinct_update)

lemma wf_obj_del [simp, wf_intros]: "wf_obj ob \<Longrightarrow> wf_obj (del k ob)"
  by (simp add: wf_obj_def distinct_delete)

lemma get_del_all [simp, obj_simps]:
  "get (del_all ks ob) j = (if j \<in> set ks then None else get ob j)"
  unfolding del_all_def by (induction ks arbitrary: ob) auto

lemma wf_obj_del_all [simp, wf_intros]: "wf_obj ob \<Longrightarrow> wf_obj (del_all ks ob)"
  unfolding del_all_def by (induction ks arbitrary: ob) auto

lemma obj_spread_Nil [simp]: "obj_spread a [] = a"
  by (simp add: obj_spread_def)

lemma get_obj_spread_wf [obj_simps]:
  "wf_obj b \<Longrightarrow> get (obj_spread a b) k = (case get b k of None \<Rightarrow> get a k | Some v \<Rightarrow> Some v)"
proof (induction b arbitrary: a)
  case Nil
  then show ?case by simp
next
  case (Cons kv b)
  obtain k' v' where kv: "kv = (k', v')" by (cases kv)
  from Cons.prems kv have wf: "wf_obj b" and fresh: "get b k' = None"
    by (auto simp: wf_obj_def map_of_eq_None_iff)
  have "get (obj_spread a (kv # b)) k = get (obj_spread (put k' v' a) b) k"
    by (simp add: obj_spread_def kv)
  also have "\<dots> = (case get b k of None \<Rightarrow> get (put k' v' a) k | Some v \<Rightarrow> Some v)"
    using Cons.IH wf by blast
  finally show ?case using fresh kv by (auto split: option.splits)
qed

lemma wf_obj_spread [simp, wf_intros]: "wf_obj a \<Longrightarrow> wf_obj (obj_spread a b)"
  unfolding obj_spread_def by (induction b arbitrary: a) auto

lemma get_in_values: "get ob k = Some v \<Longrightarrow> v \<in> set (obj_values ob)"
  by (force simp: obj_values_def dest: map_of_SomeD)

lemma values_in_get: "wf_obj ob \<Longrightarrow> v \<in> set (obj_values ob) \<Longrightarrow> \<exists>k. get ob k = Some v"
  by (force simp: obj_values_def wf_obj_def)

lemma keys_iff_get: "k \<in> set (obj_keys ob) \<longleftrightarrow> get ob k \<noteq> None"
  by (auto simp: obj_keys_def map_of_eq_None_iff)

lemma dom_get: "dom (get ob) = set (obj_keys ob)"
  by (auto simp: keys_iff_get dom_def)

lemma get_map_obj: "get (map (\<lambda>(k, v). (k, f v)) ob) j = map_option f (get ob j)"
  by (induction ob) auto

lemma get_filter_obj:
  "wf_obj ob \<Longrightarrow> get (filter (\<lambda>(k, v). P v) ob) j = (case get ob j of None \<Rightarrow> None | Some v \<Rightarrow> if P v then Some v else None)"
  by (induction ob) (auto simp: wf_obj_def map_of_eq_None_iff split: option.splits)

lemma get_or_put [simp, obj_simps]: "get_or d (put k v ob) j = (if j = k then v else get_or d ob j)"
  by (simp add: get_or_def)

lemma get_or_del [simp, obj_simps]: "get_or d (del k ob) j = (if j = k then d else get_or d ob j)"
  by (simp add: get_or_def)

lemma get_or_Nil [simp]: "get_or d [] j = d"
  by (simp add: get_or_def)

section \<open>What a reducer returns\<close>

text \<open>
  A reducer either returns the very state object it was given (\<open>return state\<close>) or a new
  object. Redux compares the two with \<open>===\<close>, so the difference is observable and kept.
\<close>

datatype 's nxt = Same | New 's

fun upd :: "'s \<Rightarrow> 's nxt \<Rightarrow> 's" where
  "upd s Same = s"
| "upd s (New s') = s'"

fun is_same :: "'s nxt \<Rightarrow> bool" where
  "is_same Same = True"
| "is_same (New s) = False"

lemma upd_same: "is_same n \<Longrightarrow> upd s n = s"
  by (cases n) auto

text \<open>\<open>xs.reduce(f, state)\<close> where \<open>f\<close> may return the very state it was given.\<close>

definition nxt_fold :: "('s \<Rightarrow> 'x \<Rightarrow> 's nxt) \<Rightarrow> 's \<Rightarrow> 'x list \<Rightarrow> 's nxt" where
  "nxt_fold f st xs =
     foldl (\<lambda>n x. case f (upd st n) x of Same \<Rightarrow> n | New s \<Rightarrow> New s) Same xs"

lemma nxt_fold_Nil [simp]: "nxt_fold f st [] = Same"
  by (simp add: nxt_fold_def)

lemma nxt_fold_snoc:
  "nxt_fold f st (xs @ [x]) =
     (case f (upd st (nxt_fold f st xs)) x of Same \<Rightarrow> nxt_fold f st xs | New s \<Rightarrow> New s)"
  by (simp add: nxt_fold_def split: nxt.split)

lemma upd_nxt_fold_snoc:
  "upd st (nxt_fold f st (xs @ [x])) =
     upd (upd st (nxt_fold f st xs)) (f (upd st (nxt_fold f st xs)) x)"
  by (simp add: nxt_fold_snoc split: nxt.splits)

section \<open>Arrays\<close>

text \<open>\<open>xs.indexOf(x)\<close>, with \<open>None\<close> for \<open>-1\<close>; \<open>xs.splice(i, 1)\<close>.\<close>

fun indexOf :: "'a list \<Rightarrow> 'a \<Rightarrow> nat option" where
  "indexOf [] x = None"
| "indexOf (y # ys) x = (if y = x then Some 0 else map_option Suc (indexOf ys x))"

fun findIndex :: "('a \<Rightarrow> bool) \<Rightarrow> 'a list \<Rightarrow> nat option" where
  "findIndex P [] = None"
| "findIndex P (y # ys) = (if P y then Some 0 else map_option Suc (findIndex P ys))"

definition remove_at :: "nat \<Rightarrow> 'a list \<Rightarrow> 'a list" where
  "remove_at i xs = take i xs @ drop (Suc i) xs"

text \<open>\<open>xs[0]\<close> and \<open>xs[xs.length - 1]\<close>, \<open>undefined\<close> on an empty array.\<close>

definition first_of :: "'a list \<Rightarrow> 'a option" where
  "first_of xs = (case xs of [] \<Rightarrow> None | x # _ \<Rightarrow> Some x)"

definition last_of :: "'a list \<Rightarrow> 'a option" where
  "last_of xs = (if xs = [] then None else Some (last xs))"

lemma indexOf_None: "indexOf xs x = None \<longleftrightarrow> x \<notin> set xs"
  by (induction xs) auto

lemma indexOf_Some: "indexOf xs x = Some i \<Longrightarrow> i < length xs \<and> xs ! i = x \<and> x \<in> set xs"
  by (induction xs arbitrary: i) (auto split: if_splits)

lemma remove_at_indexOf: "indexOf xs x = Some i \<Longrightarrow> remove_at i xs = remove1 x xs"
proof (induction xs arbitrary: i)
  case Nil
  then show ?case by simp
next
  case (Cons y ys)
  then show ?case by (auto simp: remove_at_def split: if_splits)
qed

lemma set_remove_at: "set (remove_at i xs) \<subseteq> set xs"
  by (auto simp: remove_at_def dest: in_set_takeD in_set_dropD)

lemma findIndex_None: "findIndex P xs = None \<longleftrightarrow> (\<forall>x \<in> set xs. \<not> P x)"
  by (induction xs) auto

lemma findIndex_Some: "findIndex P xs = Some i \<Longrightarrow> i < length xs \<and> P (xs ! i)"
  by (induction xs arbitrary: i) (auto split: if_splits)

lemma findIndex_indexOf: "findIndex (\<lambda>y. y = x) xs = indexOf xs x"
  by (induction xs) auto

lemma findIndex_first: "findIndex P xs = Some i \<Longrightarrow> j < i \<Longrightarrow> \<not> P (xs ! j)"
proof (induction xs arbitrary: i j)
  case (Cons x xs)
  then show ?case by (cases j) (auto split: if_splits)
qed simp

text \<open>Loops: what the body keeps holds after the loop.\<close>

lemma foldl_invariant:
  "(\<And>s x. x \<in> set xs \<Longrightarrow> I s \<Longrightarrow> I (f s x)) \<Longrightarrow> I s \<Longrightarrow> I (foldl f s xs)"
  by (induction xs arbitrary: s) auto

lemma wf_foldl_put: "wf_obj st \<Longrightarrow> wf_obj (foldl (\<lambda>next x. put (k x) (f x) next) st xs)"
  by (rule foldl_invariant) auto

lemma dom_foldl_put:
  "get (foldl (\<lambda>next x. put (k x) (f x) next) st xs) i \<noteq> None \<longleftrightarrow> get st i \<noteq> None \<or> i \<in> k ` set xs"
  by (induction xs arbitrary: st) auto

lemma wf_foldl_del [simp, wf_intros]: "wf_obj ob \<Longrightarrow> wf_obj (foldl (\<lambda>ns x. del (g x) ns) ob xs)"
  by (rule foldl_invariant) auto

lemma get_foldl_del [simp, obj_simps]:
  "get (foldl (\<lambda>ns x. del (g x) ns) ob xs) k = (if k \<in> g ` set xs then None else get ob k)"
  by (induction xs arbitrary: ob) auto

lemma get_foldl_del_if [simp, obj_simps]:
  "get (foldl (\<lambda>ns x. if P x then del (g x) ns else ns) ob xs) k
     = (if \<exists>x \<in> set xs. P x \<and> g x = k then None else get ob k)"
  by (induction xs arbitrary: ob) auto

lemma wf_foldl_del_if [simp, wf_intros]:
  "wf_obj ob \<Longrightarrow> wf_obj (foldl (\<lambda>ns x. if P x then del (g x) ns else ns) ob xs)"
  by (rule foldl_invariant) auto

lemma length_filter_eq: "length (filter P xs) = length xs \<longleftrightarrow> filter P xs = xs"
  by (metis filter_id_conv length_filter_less less_irrefl)

text \<open>
  \<open>Set\<close>s, in insertion order: \<open>set_add\<close> is \<open>add\<close>, and \<open>[...new Set(xs)]\<close> keeps the first
  occurrence of every element.
\<close>

definition set_add :: "'a \<Rightarrow> 'a list \<Rightarrow> 'a list" where
  "set_add x xs = (if x \<in> set xs then xs else xs @ [x])"

definition remdups_js :: "'a list \<Rightarrow> 'a list" where
  "remdups_js xs = foldl (\<lambda>acc x. set_add x acc) [] xs"

lemma set_set_add [simp]: "set (set_add x xs) = insert x (set xs)"
  by (auto simp: set_add_def)

lemma distinct_set_add [simp]: "distinct (set_add x xs) \<longleftrightarrow> distinct xs"
  by (auto simp: set_add_def)

lemma set_foldl_set_add [simp]: "set (foldl (\<lambda>acc x. set_add (f x) acc) acc xs) = set acc \<union> f ` set xs"
  by (induction xs arbitrary: acc) auto

lemma distinct_foldl_set_add [simp]: "distinct (foldl (\<lambda>acc x. set_add (f x) acc) acc xs) \<longleftrightarrow> distinct acc"
  by (induction xs arbitrary: acc) auto

lemma set_remdups_js [simp]: "set (remdups_js xs) = set xs"
  using set_foldl_set_add [of "\<lambda>x. x" "[]" xs] by (simp add: remdups_js_def)

lemma distinct_remdups_js [simp]: "distinct (remdups_js xs)"
  using distinct_foldl_set_add [of "\<lambda>x. x" "[]" xs] by (simp add: remdups_js_def)

text \<open>\<open>s.split(c)\<close>\<close>

fun split_on :: "char \<Rightarrow> string \<Rightarrow> string list" where
  "split_on c [] = [[]]"
| "split_on c (x # xs) =
     (if x = c then [] # split_on c xs
      else case split_on c xs of [] \<Rightarrow> [[x]] | ys # yss \<Rightarrow> (x # ys) # yss)"

section \<open>Sorting by a comparator\<close>

text \<open>
  \<open>Array.prototype.sort\<close> is stable; for a consistent comparator its result is therefore
  determined (\<open>stable_sort_unique\<close> below), and insertion into a sorted list computes it.
\<close>

fun insert_by :: "('a \<Rightarrow> 'a \<Rightarrow> int) \<Rightarrow> 'a \<Rightarrow> 'a list \<Rightarrow> 'a list" where
  "insert_by cmp x [] = [x]"
| "insert_by cmp x (y # ys) = (if cmp x y \<le> 0 then x # y # ys else y # insert_by cmp x ys)"

definition js_sort :: "('a \<Rightarrow> 'a \<Rightarrow> int) \<Rightarrow> 'a list \<Rightarrow> 'a list" where
  "js_sort cmp xs = foldr (insert_by cmp) xs []"

text \<open>
  Sorting identifiers by what they look up: the comparator dereferences \<open>lookup x\<close>, which
  throws when it is \<open>undefined\<close>. With two or more elements each one is compared at least
  once; with fewer the comparator is not called.
\<close>

definition js_sort_lookup ::
  "('a \<Rightarrow> 'k option) \<Rightarrow> ('k \<Rightarrow> 'k \<Rightarrow> int) \<Rightarrow> 'a list \<Rightarrow> 'a list option" where
  "js_sort_lookup lookup cmp xs =
     (if length xs < 2 then Some xs
      else if list_all (\<lambda>x. lookup x \<noteq> None) xs
      then Some (js_sort (\<lambda>a b. cmp (the (lookup a)) (the (lookup b))) xs)
      else None)"

lemma mset_insert_by: "mset (insert_by cmp x xs) = add_mset x (mset xs)"
  by (induction xs) auto

lemma mset_js_sort [simp]: "mset (js_sort cmp xs) = mset xs"
  unfolding js_sort_def by (induction xs) (auto simp: mset_insert_by)

lemma set_js_sort [simp]: "set (js_sort cmp xs) = set xs"
  by (metis mset_js_sort set_mset_mset)

lemma length_js_sort [simp]: "length (js_sort cmp xs) = length xs"
  by (metis mset_js_sort size_mset)

lemma distinct_js_sort [simp]: "distinct (js_sort cmp xs) \<longleftrightarrow> distinct xs"
  by (metis mset_eq_imp_distinct_iff mset_js_sort)

lemma js_sort_lookup_mset: "js_sort_lookup f cmp xs = Some ys \<Longrightarrow> mset ys = mset xs"
  by (auto simp: js_sort_lookup_def split: if_splits)

lemma js_sort_lookup_set: "js_sort_lookup f cmp xs = Some ys \<Longrightarrow> set ys = set xs"
  by (metis js_sort_lookup_mset set_mset_mset)

lemma js_sort_lookup_length: "js_sort_lookup f cmp xs = Some ys \<Longrightarrow> length ys = length xs"
  by (metis js_sort_lookup_mset size_mset)

lemma js_sort_lookup_distinct: "js_sort_lookup f cmp xs = Some ys \<Longrightarrow> distinct ys = distinct xs"
  by (metis js_sort_lookup_mset mset_eq_imp_distinct_iff)

lemma js_sort_lookup_total: "\<forall>x \<in> set xs. f x \<noteq> None \<Longrightarrow> \<exists>ys. js_sort_lookup f cmp xs = Some ys"
  by (auto simp: js_sort_lookup_def list_all_iff)

text \<open>The contract \<open>sort\<close> asks of a comparator, and what it then promises.\<close>

locale comparator_contract =
  fixes cmp :: "'a \<Rightarrow> 'a \<Rightarrow> int"
  assumes cmp_flip: "cmp x y \<le> 0 \<longleftrightarrow> 0 \<le> cmp y x"
    and cmp_trans: "cmp x y \<le> 0 \<Longrightarrow> cmp y z \<le> 0 \<Longrightarrow> cmp x z \<le> 0"
begin

lemma cmp_refl: "cmp x x \<le> 0"
  by (metis cmp_flip linear)

lemma cmp_total: "\<not> cmp x y \<le> 0 \<Longrightarrow> cmp y x \<le> 0"
  using cmp_flip by force

lemma sorted_insert_by:
  "sorted_wrt (\<lambda>a b. cmp a b \<le> 0) xs \<Longrightarrow> sorted_wrt (\<lambda>a b. cmp a b \<le> 0) (insert_by cmp x xs)"
proof (induction xs)
  case (Cons y ys)
  have elems: "set (insert_by cmp x ys) = insert x (set ys)"
    by (metis mset_insert_by set_mset_add_mset_insert set_mset_mset)
  show ?case
  proof (cases "cmp x y \<le> 0")
    case True
    then have "\<forall>z \<in> set ys. cmp x z \<le> 0" using Cons.prems by (auto intro: cmp_trans)
    with True Cons.prems show ?thesis by simp
  next
    case False
    then show ?thesis using Cons elems by (simp add: cmp_total)
  qed
qed simp

lemma sorted_js_sort: "sorted_wrt (\<lambda>a b. cmp a b \<le> 0) (js_sort cmp xs)"
  unfolding js_sort_def by (induction xs) (auto simp: sorted_insert_by)

lemma filter_insert_by:
  "filter (\<lambda>y. cmp x y \<le> 0 \<and> cmp y x \<le> 0) (insert_by cmp z ys)
     = filter (\<lambda>y. cmp x y \<le> 0 \<and> cmp y x \<le> 0) (z # ys)"
proof (induction ys)
  case (Cons y ys)
  have "\<not> cmp z y \<le> 0 \<Longrightarrow> \<not> (cmp x y \<le> 0 \<and> cmp y x \<le> 0 \<and> cmp x z \<le> 0 \<and> cmp z x \<le> 0)"
    using cmp_trans by blast
  then show ?case using Cons by auto
qed simp

text \<open>Elements the comparator does not separate keep their order.\<close>

lemma stable_js_sort:
  "filter (\<lambda>y. cmp x y \<le> 0 \<and> cmp y x \<le> 0) (js_sort cmp ys)
     = filter (\<lambda>y. cmp x y \<le> 0 \<and> cmp y x \<le> 0) ys"
  unfolding js_sort_def by (induction ys) (auto simp: filter_insert_by)

text \<open>A sorted array is left as it is, so sorting twice is sorting once.\<close>

lemma js_sort_sorted: "sorted_wrt (\<lambda>a b. cmp a b \<le> 0) xs \<Longrightarrow> js_sort cmp xs = xs"
proof (induction xs)
  case (Cons x xs)
  then have "js_sort cmp (x # xs) = insert_by cmp x xs" by (simp add: js_sort_def)
  also have "\<dots> = x # xs" using Cons.prems by (cases xs) auto
  finally show ?case .
qed (simp add: js_sort_def)

lemma js_sort_idem: "js_sort cmp (js_sort cmp xs) = js_sort cmp xs"
  by (simp add: js_sort_sorted sorted_js_sort)

end

text \<open>
  Two sorted arrays with the same stable content are equal: the result of a stable sort is
  unique, whatever algorithm the engine uses.
\<close>

context comparator_contract
begin

lemma stable_sort_unique:
  assumes "sorted_wrt (\<lambda>a b. cmp a b \<le> 0) xs" "sorted_wrt (\<lambda>a b. cmp a b \<le> 0) ys"
    and "\<And>x. filter (\<lambda>y. cmp x y \<le> 0 \<and> cmp y x \<le> 0) xs = filter (\<lambda>y. cmp x y \<le> 0 \<and> cmp y x \<le> 0) ys"
  shows "xs = ys"
  using assms
proof (induction xs arbitrary: ys)
  case Nil
  show ?case
  proof (cases ys)
    case (Cons y ys')
    then show ?thesis using Nil.prems(3)[of y] cmp_refl[of y] by simp
  qed simp
next
  case (Cons x xs)
  let ?E = "\<lambda>x y. cmp x y \<le> 0 \<and> cmp y x \<le> 0"
  from Cons.prems(3)[of x] obtain ys0 where ne: "x # ys0 = filter (?E x) ys"
    using cmp_refl by auto
  then have "x \<in> set (filter (?E x) ys)" by (metis list.set_intros(1))
  then have xin: "x \<in> set ys" by simp
  then obtain y ys' where ys: "ys = y # ys'" by (cases ys) auto
  have "y \<in> set (filter (?E y) (x # xs))"
    using Cons.prems(3)[of y] cmp_refl[of y] ys by simp
  then have yin: "y \<in> set (x # xs)" by (metis filter_is_subset subsetD)
  have "cmp x y \<le> 0" using Cons.prems(1) yin cmp_refl by auto
  moreover have "cmp y x \<le> 0" using Cons.prems(2) xin ys cmp_refl by auto
  ultimately have xy: "x = y" using ne ys by auto
  have "xs = ys'"
  proof (rule Cons.IH)
    show "filter (?E z) xs = filter (?E z) ys'" for z
      using Cons.prems(3)[of z] ys xy by (auto split: if_splits)
  qed (use Cons.prems ys in auto)
  with ys xy show ?case by simp
qed

end

section \<open>Numbers that may be missing\<close>

text \<open>
  Where the code computes with a property that may be absent, a number is \<open>undefined\<close>,
  \<open>NaN\<close> or an integer (counts and timestamps stay far below $2^{53}$, where doubles are
  exact). Arithmetic on anything but two integers is \<open>NaN\<close>; so is \<open>Math.max\<close>.
\<close>

datatype jsnum = Undefined | NaN | Num int

instantiation jsnum :: "{plus, minus, zero}"
begin

definition zero_jsnum :: jsnum where
  "zero_jsnum = Num 0"

fun plus_jsnum :: "jsnum \<Rightarrow> jsnum \<Rightarrow> jsnum" where
  "plus_jsnum (Num a) (Num b) = Num (a + b)"
| "plus_jsnum _ _ = NaN"

fun minus_jsnum :: "jsnum \<Rightarrow> jsnum \<Rightarrow> jsnum" where
  "minus_jsnum (Num a) (Num b) = Num (a - b)"
| "minus_jsnum _ _ = NaN"

instance ..

end

fun js_max :: "jsnum \<Rightarrow> jsnum \<Rightarrow> jsnum" where
  "js_max (Num a) (Num b) = Num (max a b)"
| "js_max _ _ = NaN"

text \<open>\<open>n || 0\<close>\<close>

fun or_zero :: "jsnum \<Rightarrow> jsnum" where
  "or_zero (Num a) = Num a"
| "or_zero _ = Num 0"

fun nonneg :: "jsnum \<Rightarrow> bool" where
  "nonneg (Num a) = (0 \<le> a)"
| "nonneg _ = False"

lemma plus_jsnum_not_Num: "(\<nexists>i. a = Num i) \<Longrightarrow> a + b = NaN"
  by (cases a; cases b) auto

lemma nonneg_max_zero: "nonneg (js_max a (Num 0)) \<longleftrightarrow> (\<exists>i. a = Num i)"
  by (cases a) auto

section \<open>The store\<close>

text \<open>
  A Redux store applies its reducer to one dispatched action after the other. \<open>step\<close> is the
  reducer (\<open>None\<close>: it throws), \<open>admissible\<close> what the dispatching code guarantees of an
  action in a state, \<open>inv\<close> the invariant a component claims.
\<close>

fun dispatch_all :: "('s \<Rightarrow> 'a \<Rightarrow> 's option) \<Rightarrow> 's \<Rightarrow> 'a list \<Rightarrow> 's option" where
  "dispatch_all step s [] = Some s"
| "dispatch_all step s (a # as) =
     (case step s a of None \<Rightarrow> None | Some s' \<Rightarrow> dispatch_all step s' as)"

fun all_admissible :: "('s \<Rightarrow> 'a \<Rightarrow> 's option) \<Rightarrow> ('s \<Rightarrow> 'a \<Rightarrow> bool) \<Rightarrow> 's \<Rightarrow> 'a list \<Rightarrow> bool" where
  "all_admissible step adm s [] = True"
| "all_admissible step adm s (a # as) =
     (adm s a \<and> (case step s a of None \<Rightarrow> True | Some s' \<Rightarrow> all_admissible step adm s' as))"

inductive reachable ::
  "('s \<Rightarrow> 'a \<Rightarrow> 's option) \<Rightarrow> ('s \<Rightarrow> 'a \<Rightarrow> bool) \<Rightarrow> 's \<Rightarrow> 's \<Rightarrow> bool"
  for step adm init where
  start: "reachable step adm init init"
| dispatch: "reachable step adm init s \<Longrightarrow> adm s a \<Longrightarrow> step s a = Some s' \<Longrightarrow>
    reachable step adm init s'"

lemma reachable_one: "adm init a \<Longrightarrow> step init a = Some s \<Longrightarrow> reachable step adm init s"
  by (blast intro: reachable.start reachable.dispatch)

lemma dispatch_all_reachable:
  "reachable step adm init s \<Longrightarrow> all_admissible step adm s as \<Longrightarrow> dispatch_all step s as = Some s' \<Longrightarrow>
    reachable step adm init s'"
  by (induction as arbitrary: s) (auto split: option.splits intro: reachable.dispatch)

lemma dispatch_all_append:
  "dispatch_all step s (as @ bs) =
     (case dispatch_all step s as of None \<Rightarrow> None | Some s' \<Rightarrow> dispatch_all step s' bs)"
  by (induction as arbitrary: s) (auto split: option.splits)

locale redux_store =
  fixes step :: "'s \<Rightarrow> 'a \<Rightarrow> 's option"
    and admissible :: "'s \<Rightarrow> 'a \<Rightarrow> bool"
    and inv :: "'s \<Rightarrow> bool"
    and init :: "'s"
  assumes inv_init: "inv init"
    and inv_step: "inv s \<Longrightarrow> admissible s a \<Longrightarrow> step s a = Some s' \<Longrightarrow> inv s'"
begin

lemma reachable_inv: "reachable step admissible init s \<Longrightarrow> inv s"
  by (induction rule: reachable.induct) (auto intro: inv_init inv_step)

lemma dispatch_all_inv:
  "inv s \<Longrightarrow> all_admissible step admissible s as \<Longrightarrow> dispatch_all step s as = Some s' \<Longrightarrow> inv s'"
  by (induction as arbitrary: s) (auto split: option.splits intro: inv_step)

end

text \<open>A store whose reducer, in addition, never throws on an admissible action.\<close>

locale total_store = redux_store +
  assumes step_total: "inv s \<Longrightarrow> admissible s a \<Longrightarrow> step s a \<noteq> None"
begin

lemma dispatch_all_total:
  "inv s \<Longrightarrow> all_admissible step admissible s as \<Longrightarrow> \<exists>s'. dispatch_all step s as = Some s' \<and> inv s'"
proof (induction as arbitrary: s)
  case (Cons a as)
  then obtain s' where s': "step s a = Some s'"
    using step_total[of s a] by auto
  with Cons.prems have "inv s'" "all_admissible step admissible s' as" by (auto intro: inv_step)
  then show ?case using Cons.IH s' by simp
qed simp

end

section \<open>Reactive components\<close>

text \<open>
  A component that reacts to events with outputs. \<open>spec\<close> reads a list of outputs from an abstract
  state and accepts it (with the next abstract state) or not; a component refines it when every
  reaction is accepted from the abstraction of its state.
\<close>

fun run :: "('s \<Rightarrow> 'e \<Rightarrow> 's \<times> 'o list) \<Rightarrow> 's \<Rightarrow> 'e list \<Rightarrow> 's \<times> 'o list" where
  "run react s [] = (s, [])"
| "run react s (e # es) =
     (let (s', out) = react s e; (s'', outs) = run react s' es in (s'', out @ outs))"

locale trace_refinement =
  fixes react :: "'s \<Rightarrow> 'e \<Rightarrow> 's \<times> 'o list"
    and spec :: "'a \<Rightarrow> 'o list \<Rightarrow> 'a option"
    and abs :: "'s \<Rightarrow> 'a"
  assumes spec_nil: "spec a [] = Some a"
    and spec_append: "spec a xs = Some a' \<Longrightarrow> spec a (xs @ ys) = spec a' ys"
    and react_refines: "spec (abs s) (snd (react s e)) = Some (abs (fst (react s e)))"
begin

lemma run_refines: "spec (abs s) (snd (run react s es)) = Some (abs (fst (run react s es)))"
proof (induction es arbitrary: s)
  case (Cons e es)
  show ?case
    using spec_append [OF react_refines [of s e], of "snd (run react (fst (react s e)) es)"]
      Cons [of "fst (react s e)"]
    by (simp add: split_beta Let_def)
qed (simp add: spec_nil)

end

end
