(* ===== verification/Entities.thy ===== *)
theory Entities
  imports Prelude
begin

text \<open>
  The data the store holds and the actions it is told about: the types of
  \<open>webapp/platform/types/src\<close> (\<open>posts.ts\<close>, \<open>reactions.ts\<close>, \<open>files.ts\<close>,
  \<open>emojis.ts\<close>, \<open>threads.ts\<close>, \<open>channel_categories.ts\<close>, \<open>schedule_post.ts\<close>), the
  constants of \<open>mattermost-redux/src/constants/posts.ts\<close> and one datatype of actions per
  namespace of \<open>mattermost-redux/src/action_types\<close>.

  Numbers are integers (millisecond timestamps and counts, exact in a double); a string
  that the code tests for being present is the empty string when it is not, and an optional
  property the code tells apart from a present one is an \<open>option\<close>.
\<close>

section \<open>Posts\<close>

record reaction =
  r_user_id :: string
  r_post_id :: string
  r_emoji_name :: string
  r_create_at :: int

record post_acknowledgement =
  a_post_id :: string
  a_user_id :: string
  a_acknowledged_at :: int

record file_info =
  f_id :: string
  f_user_id :: string
  f_channel_id :: string
  f_create_at :: int
  f_update_at :: int
  f_delete_at :: int
  f_name :: string
  f_extension :: string
  f_size :: int
  f_mime_type :: string
  f_width :: int
  f_height :: int
  f_has_preview_image :: bool
  f_clientId :: string
  f_post_id :: "string option"
  f_mini_preview :: "string option"
  f_archived :: bool
  f_link :: "string option"

record custom_emoji =
  em_id :: string
  em_name :: string
  em_create_at :: int
  em_update_at :: int
  em_delete_at :: int
  em_creator_id :: string

record post_image =
  im_format :: string
  im_frameCount :: int
  im_height :: int
  im_width :: int

record post_priority_metadata =
  pr_priority :: string
  pr_requested_ack :: "bool option"
  pr_persistent_notifications :: "bool option"

record open_graph_image =
  oi_secure_url :: "string option"
  oi_url :: string
  oi_type :: "string option"
  oi_height :: "int option"
  oi_width :: "int option"

record open_graph_metadata =
  og_type :: "string option"
  og_title :: "string option"
  og_description :: "string option"
  og_site_name :: "string option"
  og_url :: "string option"
  og_images :: "open_graph_image list"

text \<open>A value of \<open>post.props\<close>, which the type declares \<open>unknown\<close>.\<close>

datatype prop_value = PropString string | PropNumber int | PropBool bool | PropOther

text \<open>An element of \<open>participants\<close>: a profile object with an \<open>id\<close>, or a bare id.\<close>

datatype participant = Profile (profile_id: string) | BareId string

text \<open>
  The properties of a post that are not themselves posts. \<open>last_update_at\<close> and
  \<open>has_reactions\<close> are not in the declared type; reducers write them all the same.
\<close>

record post_core =
  p_id :: string
  p_create_at :: int
  p_update_at :: int
  p_edit_at :: int
  p_delete_at :: int
  p_is_pinned :: bool
  p_user_id :: string
  p_channel_id :: string
  p_root_id :: string
  p_original_id :: string
  p_message :: string
  p_type :: string
  p_props :: "prop_value obj option"
  p_hashtags :: string
  p_pending_post_id :: string
  p_reply_count :: int
  p_file_ids :: "string list option"
  p_failed :: "bool option"
  p_state :: "string option"
  p_last_reply_at :: "int option"
  p_participants :: "participant list option"
  p_is_following :: "bool option"
  p_filenames :: "string list option"
  p_message_source :: "string option"
  p_exists :: "bool option"
  p_remote_id :: "string option"
  p_last_update_at :: "int option"
  p_has_reactions :: "bool option"

record metadata_core =
  m_emojis :: "custom_emoji list option"
  m_files :: "file_info list option"
  m_images :: "post_image obj option"
  m_reactions :: "reaction list option"
  m_priority :: "post_priority_metadata option"
  m_acknowledgements :: "post_acknowledgement list option"

record preview_core =
  v_post_id :: string
  v_channel_display_name :: string
  v_team_name :: string
  v_channel_type :: string
  v_channel_id :: string

text \<open>
  A post embeds posts: the preview of a permalink holds the post it links to, and a combined
  activity post its parts. \<open>spread_metadata\<close> is the metadata whose properties were spread
  onto the post itself (\<open>handlePostReceived\<close> writes \<open>{...stored, ...post.metadata}\<close>);
  no property of a post is named like one of metadata's.
\<close>

datatype post =
    Post (core: post_core) (metadata: "post_metadata option")
      (user_activity_posts: "post list option") (spread_metadata: "post_metadata option")
and post_metadata = PostMetadata (meta_core: metadata_core) (embeds: "post_embed list option")
and post_embed = PostEmbed (embed_type: string) (embed_url: string) (embed_data: "embed_data option")
and embed_data =
    OpenGraphData open_graph_metadata
  | PreviewData preview_core "post option"

abbreviation post_id :: "post \<Rightarrow> string" where "post_id p \<equiv> p_id (core p)"
abbreviation root_id :: "post \<Rightarrow> string" where "root_id p \<equiv> p_root_id (core p)"
abbreviation channel_id :: "post \<Rightarrow> string" where "channel_id p \<equiv> p_channel_id (core p)"
abbreviation user_id :: "post \<Rightarrow> string" where "user_id p \<equiv> p_user_id (core p)"
abbreviation create_at :: "post \<Rightarrow> int" where "create_at p \<equiv> p_create_at (core p)"
abbreviation update_at :: "post \<Rightarrow> int" where "update_at p \<equiv> p_update_at (core p)"
abbreviation delete_at :: "post \<Rightarrow> int" where "delete_at p \<equiv> p_delete_at (core p)"
abbreviation pending_post_id :: "post \<Rightarrow> string" where "pending_post_id p \<equiv> p_pending_post_id (core p)"
abbreviation reply_count :: "post \<Rightarrow> int" where "reply_count p \<equiv> p_reply_count (core p)"
abbreviation post_type :: "post \<Rightarrow> string" where "post_type p \<equiv> p_type (core p)"

definition upd_core :: "(post_core \<Rightarrow> post_core) \<Rightarrow> post \<Rightarrow> post" where
  "upd_core f p = Post (f (core p)) (metadata p) (user_activity_posts p) (spread_metadata p)"

definition set_metadata :: "post_metadata option \<Rightarrow> post \<Rightarrow> post" where
  "set_metadata m p = Post (core p) m (user_activity_posts p) (spread_metadata p)"

lemma upd_core_simps [simp]:
  "core (upd_core f p) = f (core p)" "metadata (upd_core f p) = metadata p"
  "user_activity_posts (upd_core f p) = user_activity_posts p"
  "spread_metadata (upd_core f p) = spread_metadata p"
  by (simp_all add: upd_core_def)

lemma set_metadata_simps [simp]:
  "core (set_metadata m p) = core p" "metadata (set_metadata m p) = m"
  "user_activity_posts (set_metadata m p) = user_activity_posts p"
  "spread_metadata (set_metadata m p) = spread_metadata p"
  by (simp_all add: set_metadata_def)

text \<open>
  \<open>{}\<close> as the start of a post or of a metadata object: every property absent. What the code
  then reads of it is falsy, as here.
\<close>

definition no_core :: post_core where
  "no_core = \<lparr>p_id = [], p_create_at = 0, p_update_at = 0, p_edit_at = 0, p_delete_at = 0,
     p_is_pinned = False, p_user_id = [], p_channel_id = [], p_root_id = [], p_original_id = [],
     p_message = [], p_type = [], p_props = None, p_hashtags = [], p_pending_post_id = [],
     p_reply_count = 0, p_file_ids = None, p_failed = None, p_state = None, p_last_reply_at = None,
     p_participants = None, p_is_following = None, p_filenames = None, p_message_source = None,
     p_exists = None, p_remote_id = None, p_last_update_at = None, p_has_reactions = None\<rparr>"

definition no_post :: post where
  "no_post = Post no_core None None None"

definition no_metadata_core :: metadata_core where
  "no_metadata_core = \<lparr>m_emojis = None, m_files = None, m_images = None, m_reactions = None,
     m_priority = None, m_acknowledgements = None\<rparr>"

definition no_metadata :: post_metadata where
  "no_metadata = PostMetadata no_metadata_core None"

record post_list =
  l_order :: "string list"
  l_posts :: "post obj"
  l_next_post_id :: string
  l_prev_post_id :: string
  l_first_inaccessible_post_time :: int

record post_order_block =
  order :: "string list"
  recent :: "bool option"
  oldest :: "bool option"

text \<open>\<open>a || b\<close> on an optional flag, and the truth of one.\<close>

definition truthy :: "bool option \<Rightarrow> bool" where
  "truthy b \<longleftrightarrow> b = Some True"

definition flag_or :: "bool option \<Rightarrow> bool option \<Rightarrow> bool option" where
  "flag_or a b = (if truthy a then a else b)"

lemma truthy_simps [simp]: "truthy (Some b) = b" "truthy None = False"
  by (simp_all add: truthy_def)

lemma truthy_flag_or [simp]: "truthy (flag_or a b) \<longleftrightarrow> truthy a \<or> truthy b"
  by (simp add: flag_or_def)

record message_history =
  h_messages :: "string list option"
  h_index :: "int obj option"

record limited_views =
  lv_channels :: "int obj"
  lv_threads :: "int obj"

record posts_state =
  s_posts :: "post obj"
  s_postsReplies :: "int obj"
  s_postsInChannel :: "post_order_block list obj"
  s_postsInThread :: "string list obj"
  s_reactions :: "reaction obj obj"
  s_openGraph :: "embed_data obj obj"
  s_pendingPostIds :: "string list"
  s_postEditHistory :: "post list"
  s_currentFocusedPostId :: string
  s_messagesHistory :: message_history
  s_limitedViews :: limited_views
  s_acknowledgements :: "int obj obj"

section \<open>Threads\<close>

record thread_post =
  tp_channel_id :: string
  tp_user_id :: string

record user_thread =
  t_id :: string
  t_reply_count :: int
  t_last_reply_at :: "int option"
  t_last_viewed_at :: int
  t_participants :: "participant list option"
  t_unread_replies :: int
  t_unread_mentions :: int
  t_is_following :: bool
  t_is_urgent :: bool
  t_type :: "string option"
  t_post :: "thread_post option"

definition no_thread :: user_thread where
  "no_thread = \<lparr>t_id = [], t_reply_count = 0, t_last_reply_at = None, t_last_viewed_at = 0,
     t_participants = None, t_unread_replies = 0, t_unread_mentions = 0, t_is_following = False,
     t_is_urgent = False, t_type = None, t_post = None\<rparr>"

record thread_counts =
  c_total :: jsnum
  c_total_unread_threads :: jsnum
  c_total_unread_mentions :: jsnum
  c_total_unread_urgent_mentions :: jsnum

record team_unread =
  u_team_id :: string
  u_mention_count :: int
  u_mention_count_root :: int
  u_msg_count :: int
  u_msg_count_root :: int
  u_thread_count :: jsnum
  u_thread_mention_count :: jsnum
  u_thread_urgent_mention_count :: jsnum

record threads_state =
  ts_threads :: "user_thread obj"
  ts_threadsInTeam :: "string list obj"
  ts_unreadThreadsInTeam :: "string list obj"
  ts_counts :: "thread_counts obj"
  ts_countsIncludingDirect :: "thread_counts obj"

section \<open>Channel categories, scheduled posts, bookmarks\<close>

record channel_category =
  cat_id :: string
  cat_user_id :: string
  cat_team_id :: string
  cat_type :: string
  cat_display_name :: string
  cat_sorting :: string
  cat_channel_ids :: "string list"
  cat_muted :: bool
  cat_collapsed :: bool

record scheduled_post =
  sp_id :: string
  sp_create_at :: int
  sp_update_at :: int
  sp_user_id :: string
  sp_channel_id :: string
  sp_root_id :: string
  sp_message :: string
  sp_props :: "prop_value obj option"
  sp_file_ids :: "string list option"
  sp_metadata :: "post_metadata option"
  sp_priority :: "post_priority_metadata option"
  sp_scheduled_at :: int
  sp_processed_at :: "int option"
  sp_error_code :: string

record read_changed =
  rc_id :: string
  rc_teamId :: string
  rc_channelId :: string
  rc_lastViewedAt :: int
  rc_prevUnreadMentions :: "int option"
  rc_newUnreadMentions :: int
  rc_prevUnreadReplies :: "int option"
  rc_newUnreadReplies :: int
  rc_channelType :: string
  rc_isUrgent :: bool

section \<open>Actions\<close>

text \<open>
  One constructor per action type the modelled reducers handle, with the properties of the
  action that they read; \<open>action.features?.crtEnabled\<close> is the boolean of the first two.
\<close>

datatype post_action =
    RECEIVED_POST post bool
  | RECEIVED_NEW_POST post bool
  | RECEIVED_POSTS post_list string
  | RECEIVED_POSTS_AFTER post_list string string "bool option"
  | RECEIVED_POSTS_BEFORE post_list string string "bool option"
  | RECEIVED_POSTS_IN_CHANNEL post_list string "bool option" "bool option"
  | RECEIVED_POSTS_SINCE post_list string
  | RECEIVED_POSTS_IN_THREAD post_list string
  | RECEIVED_POST_HISTORY "post list"
  | RECEIVED_FOCUSED_POST string
  | RECEIVED_REACTION reaction
  | REACTION_DELETED reaction
  | POST_DELETED post
  | POST_REMOVED post
  | POST_PINNED_CHANGED string bool int
  | ADD_MESSAGE_INTO_HISTORY string
  | RESET_HISTORY_INDEX string
  | MOVE_HISTORY_INDEX_BACK string
  | MOVE_HISTORY_INDEX_FORWARD string
  | RESET_POSTS_IN_CHANNEL
  | CREATE_ACK_POST_SUCCESS post_acknowledgement
  | DELETE_ACK_POST_SUCCESS post_acknowledgement

text \<open>\<open>LEAVE_CHANNEL\<close> and \<open>RECEIVED_CHANNEL_DELETED\<close> carry \<open>id\<close> and \<open>team_id\<close>.\<close>

datatype channel_action =
    LEAVE_CHANNEL string string
  | RECEIVED_CHANNEL_DELETED string string
  | GM_CONVERTED_TO_CHANNEL string string

datatype thread_action =
    RECEIVED_THREAD user_thread string
  | RECEIVED_THREADS "user_thread list" string
  | RECEIVED_UNREAD_THREADS "user_thread list" string
  | FOLLOW_CHANGED_THREAD string string bool
  | READ_CHANGED_THREAD read_changed
  | ALL_TEAM_THREADS_READ string
  | RECEIVED_THREAD_COUNTS string thread_counts
  | DECREMENT_THREAD_COUNTS string int int string

datatype team_action =
    LEAVE_TEAM string
  | RECEIVED_MY_TEAM_UNREADS "team_unread list"

datatype user_action = LOGOUT_SUCCESS

text \<open>\<open>limits?.messages?.history\<close> and \<open>serverLimits?.postHistoryLimit\<close>.\<close>

datatype limits_action =
    RECEIVED_CLOUD_LIMITS "int option"
  | RECEIVED_APP_LIMITS "int option"

datatype category_action =
    RECEIVED_CATEGORIES "channel_category list" bool
  | RECEIVED_CATEGORY channel_category
  | RECEIVED_CATEGORY_ORDER string "string list"
  | CATEGORY_DELETED string

datatype scheduled_action =
    SCHEDULED_POSTS_RECEIVED "scheduled_post list obj" bool
  | SINGLE_SCHEDULED_POST_RECEIVED scheduled_post string
  | SCHEDULED_POST_UPDATED scheduled_post
  | SCHEDULED_POST_DELETED scheduled_post

datatype file_action =
    RECEIVED_UPLOAD_FILES "file_info list"
  | RECEIVED_FILES_FOR_POST "file_info list" string
  | RECEIVED_FILES_FOR_SEARCH "file_info obj"
  | REMOVED_FILE "string list option"
  | RECEIVED_FILE_PUBLIC_LINK string
  | RECEIVED_BOOKMARKS "file_info option list"
  | RECEIVED_BOOKMARK "file_info option"
  | BOOKMARK_DELETED "file_info option"

datatype action =
    PostTypes post_action
  | ChannelTypes channel_action
  | ThreadTypes thread_action
  | TeamTypes team_action
  | UserTypes user_action
  | LimitsTypes limits_action
  | ChannelCategoryTypes category_action
  | ScheduledPostTypes scheduled_action
  | FileTypes file_action
  | OtherTypes string

section \<open>Constants\<close>

definition POST_DELETED_STATE :: string where "POST_DELETED_STATE = ''DELETED''"
definition MAX_PREV_MSGS :: nat where "MAX_PREV_MSGS = 100"

definition IGNORE_POST_TYPES :: "string list" where
  "IGNORE_POST_TYPES = [''system_add_remove'', ''system_add_to_channel'', ''system_channel_deleted'',
     ''system_channel_restored'', ''system_join_leave'', ''system_join_channel'', ''system_leave_channel'',
     ''system_remove_from_channel'', ''system_join_team'', ''system_leave_team'', ''system_add_to_team'',
     ''system_remove_from_team'']"

definition USER_ACTIVITY_POST_TYPES :: "string list" where
  "USER_ACTIVITY_POST_TYPES = [''system_add_to_channel'', ''system_join_channel'', ''system_leave_channel'',
     ''system_remove_from_channel'', ''system_add_to_team'', ''system_join_team'', ''system_leave_team'',
     ''system_remove_from_team'']"

end
