(* ===== verification/PostUtils.thy ===== *)
theory PostUtils
  imports Entities
begin

text \<open>
  \<open>mattermost-redux/src/utils/post_utils.ts\<close>: the predicates on posts the reducers and the
  post list rely on, and the order \<open>comparePosts\<close> they sort by. \<open>canEditPost\<close> is left out:
  it only forwards to the permission selectors.
\<close>

definition starts_with :: "string \<Rightarrow> string \<Rightarrow> bool" where
  "starts_with p s \<longleftrightarrow> take (length p) s = p"

text \<open>\<open>post.props?.[k]\<close>\<close>

definition prop_at :: "post \<Rightarrow> string \<Rightarrow> prop_value option" where
  "prop_at p k = (case p_props (core p) of None \<Rightarrow> None | Some ps \<Rightarrow> get ps k)"

definition isSystemMessage :: "post \<Rightarrow> bool" where
  "isSystemMessage p \<longleftrightarrow> post_type p \<noteq> [] \<and> starts_with ''system_'' (post_type p)"

definition isMeMessage :: "post \<Rightarrow> bool" where
  "isMeMessage p \<longleftrightarrow> post_type p \<noteq> [] \<and> post_type p = ''me''"

definition isFromWebhook :: "post \<Rightarrow> bool" where
  "isFromWebhook p \<longleftrightarrow> prop_at p ''from_webhook'' = Some (PropString ''true'')"

definition isPostEphemeral :: "post \<Rightarrow> bool" where
  "isPostEphemeral p \<longleftrightarrow> post_type p = ''system_ephemeral'' \<or>
     post_type p = ''system_ephemeral_add_to_channel'' \<or> p_state (core p) = Some POST_DELETED_STATE"

definition isUserAddedInChannel :: "post \<Rightarrow> string option \<Rightarrow> bool" where
  "isUserAddedInChannel p userId \<longleftrightarrow> post_type p = ''system_add_to_channel'' \<and>
     (case prop_at p ''addedUserId'' of Some (PropString a) \<Rightarrow> a \<noteq> [] \<and> Some a = userId | _ \<Rightarrow> False)"

definition shouldIgnorePost :: "post \<Rightarrow> string option \<Rightarrow> bool" where
  "shouldIgnorePost p userId \<longleftrightarrow>
     (if isUserAddedInChannel p userId then False else post_type p \<in> set IGNORE_POST_TYPES)"

definition isUserActivityPost :: "string \<Rightarrow> bool" where
  "isUserActivityPost ty \<longleftrightarrow> ty \<in> set USER_ACTIVITY_POST_TYPES"

definition isPostOwner :: "string \<Rightarrow> post \<Rightarrow> bool" where
  "isPostOwner userId p \<longleftrightarrow> userId = user_id p"

definition isEdited :: "post \<Rightarrow> bool" where
  "isEdited p \<longleftrightarrow> 0 < p_edit_at (core p)"

fun getLastCreateAt :: "post list \<Rightarrow> int" where
  "getLastCreateAt [] = 0"
| "getLastCreateAt (p # ps) = foldl (\<lambda>m q. max m (create_at q)) (create_at p) ps"

definition joinLeavePostTypes :: "string list" where
  "joinLeavePostTypes = [''system_join_leave'', ''system_join_channel'', ''system_leave_channel'',
     ''system_add_remove'', ''system_add_to_channel'', ''system_remove_from_channel'',
     ''system_join_team'', ''system_leave_team'', ''system_add_to_team'',
     ''system_remove_from_team'', ''system_combined_user_activity'']"

text \<open>A combined post is about a user when one of the posts it is made of is.\<close>

fun isJoinLeavePostForUsername :: "post \<Rightarrow> string \<Rightarrow> bool" where
  "isJoinLeavePostForUsername (Post c m ua sp) currentUsername =
     (case p_props c of
        None \<Rightarrow> False
      | Some props \<Rightarrow>
          if currentUsername = [] then False
          else if (case ua of None \<Rightarrow> False
                   | Some children \<Rightarrow> list_ex (\<lambda>q. isJoinLeavePostForUsername q currentUsername) children)
          then True
          else get props ''username'' = Some (PropString currentUsername) \<or>
               get props ''addedUsername'' = Some (PropString currentUsername) \<or>
               get props ''removedUsername'' = Some (PropString currentUsername))"

definition shouldFilterJoinLeavePost :: "post \<Rightarrow> bool \<Rightarrow> string \<Rightarrow> bool" where
  "shouldFilterJoinLeavePost p showJoinLeave currentUsername =
     (if showJoinLeave then False
      else if post_type p \<notin> set joinLeavePostTypes then False
      else \<not> isJoinLeavePostForUsername p currentUsername)"

definition isPostPendingOrFailed :: "post \<Rightarrow> bool" where
  "isPostPendingOrFailed p \<longleftrightarrow> truthy (p_failed (core p)) \<or> post_id p = pending_post_id p"

definition comparePosts :: "post \<Rightarrow> post \<Rightarrow> int" where
  "comparePosts a b =
     (let aIsPendingOrFailed = isPostPendingOrFailed a; bIsPendingOrFailed = isPostPendingOrFailed b
      in if aIsPendingOrFailed \<and> \<not> bIsPendingOrFailed then -1
         else if \<not> aIsPendingOrFailed \<and> bIsPendingOrFailed then 1
         else if create_at a > create_at b then -1
         else if create_at a < create_at b then 1
         else 0)"

text \<open>\<open>posts[b].create_at - posts[a].create_at\<close>, the other order posts are sorted by.\<close>

definition compareCreateAt :: "post \<Rightarrow> post \<Rightarrow> int" where
  "compareCreateAt a b = create_at b - create_at a"

definition isPostCommentMention ::
  "post \<Rightarrow> string \<Rightarrow> string option \<Rightarrow> bool \<Rightarrow> post option \<Rightarrow> bool" where
  "isPostCommentMention p currentUserId notifyComments threadRepliedToByCurrentUser rootPost =
     (let threadCreatedByCurrentUser =
            (case rootPost of None \<Rightarrow> False | Some r \<Rightarrow> user_id r = currentUserId);
          commentsNotifyLevel =
            (case notifyComments of None \<Rightarrow> ''never'' | Some c \<Rightarrow> if c = [] then ''never'' else c);
          notCurrentUser = (user_id p \<noteq> currentUserId \<or> isFromWebhook p)
      in if notCurrentUser then
           (if commentsNotifyLevel = ''any'' \<and> (threadCreatedByCurrentUser \<or> threadRepliedToByCurrentUser)
            then True
            else commentsNotifyLevel = ''root'' \<and> threadCreatedByCurrentUser)
         else False)"

definition fromAutoResponder :: "post \<Rightarrow> bool" where
  "fromAutoResponder p \<longleftrightarrow> post_type p \<noteq> [] \<and> post_type p = ''system_auto_responder''"

definition getEmbedFromMetadata :: "post_metadata option \<Rightarrow> post_embed option" where
  "getEmbedFromMetadata md =
     (case md of None \<Rightarrow> None
      | Some m \<Rightarrow> (case embeds m of None \<Rightarrow> None | Some [] \<Rightarrow> None | Some (e # es) \<Rightarrow> Some e))"

text \<open>\<open>post.metadata?.embeds\<close>, the empty list when there are none.\<close>

definition post_embeds :: "post \<Rightarrow> post_embed list" where
  "post_embeds p =
     (case metadata p of None \<Rightarrow> []
      | Some m \<Rightarrow> (case embeds m of None \<Rightarrow> [] | Some es \<Rightarrow> es))"

definition isPermalink :: "post \<Rightarrow> bool" where
  "isPermalink p \<longleftrightarrow> list_ex (\<lambda>e. embed_type e = ''permalink'') (post_embeds p)"

definition shouldUpdatePost :: "post \<Rightarrow> post option \<Rightarrow> bool" where
  "shouldUpdatePost receivedPost storedPost =
     (case storedPost of
        None \<Rightarrow> True
      | Some stored \<Rightarrow>
          if update_at stored > update_at receivedPost then False
          else if update_at stored \<noteq> 0 \<and> update_at receivedPost \<noteq> 0 \<and>
                  update_at stored = update_at receivedPost then
            (if p_is_following (core stored) \<noteq> p_is_following (core receivedPost) \<or>
                reply_count stored \<noteq> reply_count receivedPost \<or>
                map_option length (p_participants (core stored))
                  \<noteq> map_option length (p_participants (core receivedPost)) then True
             else if metadata stored = None \<and> metadata receivedPost \<noteq> None then True
             else False)
          else True)"

definition ensureString :: "prop_value option \<Rightarrow> string" where
  "ensureString v = (case v of Some (PropString s) \<Rightarrow> s | _ \<Rightarrow> [])"

definition ensureNumber :: "prop_value option \<Rightarrow> int" where
  "ensureNumber v = (case v of Some (PropNumber n) \<Rightarrow> n | _ \<Rightarrow> 0)"

definition secureGetFromRecord :: "'v obj option \<Rightarrow> string \<Rightarrow> 'v option" where
  "secureGetFromRecord v k = (case v of None \<Rightarrow> None | Some ob \<Rightarrow> get ob k)"

section \<open>The two orders\<close>

text \<open>Both comparators keep the contract of \<open>sort\<close>, so the locale's facts hold of them.\<close>

interpretation byCompare: comparator_contract comparePosts
  by unfold_locales (auto simp: comparePosts_def Let_def split: if_splits)

interpretation byCreateAt: comparator_contract compareCreateAt
  by unfold_locales (auto simp: compareCreateAt_def)

lemma comparePosts_le:
  "comparePosts a b \<le> 0 \<longleftrightarrow>
     isPostPendingOrFailed a \<and> \<not> isPostPendingOrFailed b \<or>
     isPostPendingOrFailed a = isPostPendingOrFailed b \<and> create_at b \<le> create_at a"
  by (auto simp: comparePosts_def Let_def)

lemma compareCreateAt_le: "compareCreateAt a b \<le> 0 \<longleftrightarrow> create_at b \<le> create_at a"
  by (auto simp: compareCreateAt_def)

lemma comparator_via: "comparator_contract cmp \<Longrightarrow> comparator_contract (\<lambda>a b. cmp (f a) (f b))"
  unfolding comparator_contract_def by blast

text \<open>Sorting identifiers by the posts they name.\<close>

lemma js_sort_lookup_sorted:
  assumes "comparator_contract cmp" and "js_sort_lookup f cmp xs = Some ys" and "2 \<le> length xs"
  shows "sorted_wrt (\<lambda>a b. cmp (the (f a)) (the (f b)) \<le> 0) ys"
proof -
  have "ys = js_sort (\<lambda>a b. cmp (the (f a)) (the (f b))) xs"
    using assms(2,3) by (auto simp: js_sort_lookup_def split: if_splits)
  then show ?thesis
    using comparator_contract.sorted_js_sort [OF comparator_via [OF assms(1), of "\<lambda>x. the (f x)"]]
    by simp
qed

lemma js_sort_lookup_found:
  "js_sort_lookup f cmp xs = Some ys \<Longrightarrow> 2 \<le> length xs \<Longrightarrow> x \<in> set xs \<Longrightarrow> f x \<noteq> None"
  by (auto simp: js_sort_lookup_def list_all_iff split: if_splits)

lemma isPermalink_set_core [simp]: "isPermalink (upd_core f p) = isPermalink p"
  by (simp add: isPermalink_def post_embeds_def)

end
