(* ===== verification/PostMap.thy ===== *)
theory PostMap
  imports PostUtils
begin

text \<open>
  The map of posts, \<open>state.posts\<close> of \<open>reducers/entities/posts.ts\<close>:
  \<open>removeUnneededMetadata\<close>, \<open>nextPostsReplies\<close>, \<open>handlePosts\<close> with its recursive helper
  \<open>handlePostReceived\<close>, and \<open>handlePendingPosts\<close>.

  \<open>handlePostReceived\<close> writes to the post of the action in place (\<open>post.is_following = ...\<close>,
  \<open>Reflect.deleteProperty(permalinkEmbed.data, 'post')\<close>), and reducers that run later on the
  same action see it. The model therefore returns the post as the call leaves it, next to the
  state. The post of an action is a tree fresh from the server: none of its objects is shared
  with the store or with another part of it.
\<close>

section \<open>removeUnneededMetadata\<close>

definition remove_preview_post :: "post_embed \<Rightarrow> post_embed" where
  "remove_preview_post e =
     (case embed_data e of
        Some (PreviewData pv q) \<Rightarrow> PostEmbed (embed_type e) (embed_url e) (Some (PreviewData pv None))
      | _ \<Rightarrow> e)"

definition strip_embed :: "post_embed \<Rightarrow> post_embed" where
  "strip_embed e =
     (if embed_type e = ''opengraph'' then PostEmbed (embed_type e) (embed_url e) None
      else if embed_type e = ''permalink'' then remove_preview_post e
      else e)"

text \<open>
  The second deletion tests \<open>reactions\<close>, which the line before it has just deleted, and so
  never deletes \<open>acknowledgements\<close>; the code is modelled as it is.
\<close>

definition remove_stored_fields :: "metadata_core \<Rightarrow> metadata_core" where
  "remove_stored_fields m =
     (let m = (if m_emojis m \<noteq> None then m\<lparr>m_emojis := None\<rparr> else m);
          m = (if m_files m \<noteq> None then m\<lparr>m_files := None\<rparr> else m);
          m = (if m_reactions m \<noteq> None then m\<lparr>m_reactions := None\<rparr> else m);
          m = (if m_reactions m \<noteq> None then m\<lparr>m_acknowledgements := None\<rparr> else m)
      in m)"

definition removeUnneededMetadata :: "post \<Rightarrow> post" where
  "removeUnneededMetadata p =
     (case metadata p of
        None \<Rightarrow> p
      | Some m \<Rightarrow>
          set_metadata (Some (PostMetadata (remove_stored_fields (meta_core m))
                               (map_option (map strip_embed) (embeds m)))) p)"

text \<open>
  What the call does to its argument: the clone of a permalink embed shares its \<open>data\<close>, so the
  preview's post is deleted from the argument too.
\<close>

definition without_previews :: "post \<Rightarrow> post" where
  "without_previews p =
     (case metadata p of
        None \<Rightarrow> p
      | Some m \<Rightarrow>
          set_metadata (Some (PostMetadata (meta_core m)
             (map_option (map (\<lambda>e. if embed_type e = ''permalink'' then remove_preview_post e else e))
                (embeds m)))) p)"

section \<open>nextPostsReplies\<close>

definition reply_step :: "int obj \<Rightarrow> post \<Rightarrow> int obj" where
  "reply_step st p =
     (if root_id p \<noteq> [] then put (root_id p) (reply_count p) st
      else put (post_id p) (reply_count p) st)"

definition replies_received :: "int obj \<Rightarrow> post \<Rightarrow> int obj nxt" where
  "replies_received st p =
     (if post_id p = [] \<or> root_id p = [] \<or> reply_count p = 0 then Same
      else New (put (root_id p) (reply_count p) st))"

definition replies_deleted :: "int obj \<Rightarrow> post \<Rightarrow> int obj nxt" where
  "replies_deleted st p =
     (if get_or 0 st (root_id p) = 0 \<and> get_or 0 st (post_id p) = 0 then Same
      else
        let st1 = (if root_id p \<noteq> [] \<and> get_or 0 st (root_id p) \<noteq> 0
                   then put (root_id p) (get_or 0 st (root_id p) - 1) st else st);
            st2 = (if root_id p = [] \<and> get_or 0 st (post_id p) \<noteq> 0 then del (post_id p) st1 else st1)
        in New st2)"

fun nextPostsReplies :: "int obj \<Rightarrow> action \<Rightarrow> int obj nxt" where
  "nextPostsReplies st (PostTypes (RECEIVED_POST p crt)) = replies_received st p"
| "nextPostsReplies st (PostTypes (RECEIVED_NEW_POST p crt)) = replies_received st p"
| "nextPostsReplies st (PostTypes (RECEIVED_POSTS l ch)) =
     (if obj_values (l_posts l) = [] then Same
      else New (foldl reply_step st (obj_values (l_posts l))))"
| "nextPostsReplies st (PostTypes (POST_DELETED p)) = replies_deleted st p"
| "nextPostsReplies st (UserTypes LOGOUT_SUCCESS) = New []"
| "nextPostsReplies st _ = Same"

section \<open>handlePostReceived\<close>

text \<open>The previewed post of the \<open>i\<close>-th embed, when the embed is a permalink with one.\<close>

definition preview_at :: "post \<Rightarrow> nat \<Rightarrow> post option" where
  "preview_at p i =
     (let e = post_embeds p ! i
      in if i < length (post_embeds p) \<and> embed_type e = ''permalink'' then
           (case embed_data e of Some (PreviewData pv q) \<Rightarrow> q | _ \<Rightarrow> None)
         else None)"

text \<open>\<open>embed.data.post\<close> after a callee wrote to it.\<close>

definition set_preview :: "nat \<Rightarrow> post \<Rightarrow> post \<Rightarrow> post" where
  "set_preview i q p =
     (case metadata p of
        None \<Rightarrow> p
      | Some m \<Rightarrow>
          (case embeds m of
             None \<Rightarrow> p
           | Some es \<Rightarrow>
               (case embed_data (es ! i) of
                  Some (PreviewData pv _) \<Rightarrow>
                    set_metadata (Some (PostMetadata (meta_core m)
                      (Some (es[i := PostEmbed (embed_type (es ! i)) (embed_url (es ! i))
                                        (Some (PreviewData pv (Some q)))])))) p
                | _ \<Rightarrow> p)))"

text \<open>A permalink seen again whose stored copy has no metadata: \<open>{...stored, ...post.metadata}\<close>.\<close>

definition spread_onto_stored :: "post obj \<Rightarrow> post \<Rightarrow> nat \<Rightarrow> post obj" where
  "spread_onto_stored st p level =
     (case get st (post_id p) of
        Some stored \<Rightarrow>
          if level = 0 \<and> isPermalink p \<and> metadata stored = None \<and> metadata p \<noteq> None
          then put (post_id p) (Post (core stored) (metadata stored) (user_activity_posts stored) (metadata p)) st
          else st
      | None \<Rightarrow> st)"

text \<open>Edited posts without \<open>is_following\<close> keep the stored one.\<close>

definition keep_following :: "post obj \<Rightarrow> post \<Rightarrow> post" where
  "keep_following st p =
     (case get st (post_id p) of
        Some stored \<Rightarrow>
          if 0 < update_at p \<and> p_is_following (core p) = None
          then upd_core (p_is_following_update (\<lambda>_. p_is_following (core stored))) p
          else p
      | None \<Rightarrow> p)"

definition mark_deleted :: "post \<Rightarrow> post" where
  "mark_deleted p = upd_core (\<lambda>c. c\<lparr>p_state := Some POST_DELETED_STATE, p_file_ids := Some [],
                                    p_has_reactions := Some False\<rparr>) p"

definition drop_pending :: "post obj \<Rightarrow> post \<Rightarrow> post obj" where
  "drop_pending st p =
     (if pending_post_id p \<noteq> [] \<and> post_id p \<noteq> pending_post_id p \<and> get st (pending_post_id p) \<noteq> None
      then del (pending_post_id p) st else st)"

definition has_participant :: "string \<Rightarrow> participant list \<Rightarrow> bool" where
  "has_participant u ps \<longleftrightarrow> Profile u \<in> set ps"

definition update_root :: "post obj \<Rightarrow> post \<Rightarrow> post obj" where
  "update_root st p =
     (if root_id p = [] then st
      else case get st (root_id p) of
        None \<Rightarrow> st
      | Some rootPost \<Rightarrow>
          let participants = (case p_participants (core rootPost) of None \<Rightarrow> [] | Some ps \<Rightarrow> ps);
              r1 = (if has_participant (user_id p) participants then rootPost
                    else upd_core (\<lambda>c. c\<lparr>p_participants := Some (participants @ [Profile (user_id p)])\<rparr>) rootPost);
              r2 = (if reply_count p \<noteq> 0 then upd_core (\<lambda>c. c\<lparr>p_reply_count := reply_count p\<rparr>) r1 else r1)
          in put (root_id p) r2 st)"

text \<open>
  One round of the loop over the embeds; \<open>rec\<close> is the recursive call on the previewed post.
  The deleted previews make the later rounds see no post.
\<close>

definition embed_step ::
  "(post obj \<Rightarrow> post \<Rightarrow> post obj \<times> post) \<Rightarrow> post obj \<times> post \<Rightarrow> nat \<Rightarrow> post obj \<times> post" where
  "embed_step rec = (\<lambda>(st, p) i.
     (case preview_at p i of
        None \<Rightarrow> (st, p)
      | Some q \<Rightarrow>
          let (st, q) = rec st q;
              p = set_preview i q p
          in if isPermalink q
             then (put (post_id p) (removeUnneededMetadata p) st, without_previews p)
             else (st, p)))"

text \<open>The three ways a received post is stored: deleted, with embeds, without.\<close>

definition store_received ::
  "(post obj \<Rightarrow> post \<Rightarrow> post obj \<times> post) \<Rightarrow> post obj \<Rightarrow> post \<Rightarrow> post obj \<times> post" where
  "store_received rec st p =
     (if 0 < delete_at p then
        (if get st (post_id p) \<noteq> None
         then (put (post_id p) (mark_deleted (removeUnneededMetadata p)) st, without_previews p)
         else (st, p))
      else case metadata p of
        None \<Rightarrow> (put (post_id p) (removeUnneededMetadata p) st, p)
      | Some m \<Rightarrow>
          (case embeds m of
             None \<Rightarrow> (put (post_id p) (removeUnneededMetadata p) st, p)
           | Some es \<Rightarrow>
               let (st, p) = foldl (embed_step rec) (st, p) [0..<length es]
               in (put (post_id p) p st, p)))"

lemma embed_step_cong:
  "(\<And>st q. rec st q = rec' st q) \<Longrightarrow> embed_step rec = embed_step rec'"
  by (simp add: embed_step_def fun_eq_iff split: option.splits)

lemma store_received_cong [fundef_cong]:
  "(\<And>st q. rec st q = rec' st q) \<Longrightarrow> st = st' \<Longrightarrow> p = p' \<Longrightarrow>
    store_received rec st p = store_received rec' st' p'"
  by (simp add: store_received_def embed_step_cong [of rec rec'] split: option.splits)

text \<open>
  \<open>level\<close> is \<open>nestedPermalinkLevel\<close>, 0 when it is \<open>undefined\<close>; the call returns at once above 1,
  so the recursion into previewed posts stops.
\<close>

function handlePostReceived :: "nat \<Rightarrow> post obj \<Rightarrow> post \<Rightarrow> post obj \<times> post" where
  "handlePostReceived level st p =
     (if \<not> shouldUpdatePost p (get st (post_id p)) \<or> 1 < level then (st, p)
      else
        let st = spread_onto_stored st p level;
            p = keep_following st p;
            (st, p) = store_received (\<lambda>st q. handlePostReceived (Suc level) st q) st p;
            st = drop_pending st p;
            st = update_root st p
        in (st, p))"
  by pat_completeness auto
termination
  by (relation "measure (\<lambda>(level, st, p). 2 - level)") auto

declare handlePostReceived.simps [simp del]

section \<open>handlePosts\<close>

text \<open>The loop over \<open>Object.values(action.data.posts)\<close>; the second result is that object afterwards.\<close>

fun receive_all :: "post obj \<Rightarrow> post obj \<Rightarrow> post obj \<times> post obj" where
  "receive_all st [] = (st, [])"
| "receive_all st ((k, p) # ps) =
     (let (st, p) = handlePostReceived 0 st p;
          (st, ps) = receive_all st ps
      in (st, (k, p) # ps))"

definition quotes :: "string \<Rightarrow> post_embed \<Rightarrow> bool" where
  "quotes pid e \<longleftrightarrow> embed_type e = ''permalink'' \<and>
     (case embed_data e of Some (PreviewData pv q) \<Rightarrow> v_post_id pv = pid | _ \<Rightarrow> False)"

text \<open>
  One round of the loop of \<open>POST_DELETED\<close>. A comment of the deleted post has just been removed
  from \<open>nextState\<close>; when it also quotes the deleted post, \<open>nextState[otherPost.id].metadata\<close>
  reads a property of \<open>undefined\<close> and throws.
\<close>

definition deleted_step :: "string \<Rightarrow> post obj \<Rightarrow> post \<Rightarrow> post obj option" where
  "deleted_step pid nextState otherPost =
     (let ns = (if root_id otherPost = pid then del (post_id otherPost) nextState else nextState);
          newEmbeds = filter (\<lambda>e. \<not> quotes pid e) (post_embeds otherPost)
      in if length newEmbeds \<noteq> length (post_embeds otherPost) then
           (case get ns (post_id otherPost) of
              None \<Rightarrow> None
            | Some q \<Rightarrow>
                Some (put (post_id otherPost)
                  (set_metadata (Some (PostMetadata
                     (case metadata q of None \<Rightarrow> no_metadata_core | Some m \<Rightarrow> meta_core m)
                     (Some newEmbeds))) q) ns))
         else Some ns)"

fun deleted_loop :: "string \<Rightarrow> post obj \<Rightarrow> post list \<Rightarrow> post obj option" where
  "deleted_loop pid ns [] = Some ns"
| "deleted_loop pid ns (q # qs) =
     (case deleted_step pid ns q of None \<Rightarrow> None | Some ns' \<Rightarrow> deleted_loop pid ns' qs)"

definition tombstone :: "post \<Rightarrow> post" where
  "tombstone p = upd_core (\<lambda>c. c\<lparr>p_state := Some POST_DELETED_STATE, p_message := [],
                                 p_file_ids := Some [], p_has_reactions := Some False\<rparr>) p"

definition posts_deleted :: "post obj \<Rightarrow> post \<Rightarrow> post obj nxt option" where
  "posts_deleted st p =
     (case get st (post_id p) of
        None \<Rightarrow> Some Same
      | Some stored \<Rightarrow>
          map_option New (deleted_loop (post_id p) (put (post_id p) (tombstone stored) st) (obj_values st)))"

definition posts_removed :: "post obj \<Rightarrow> post \<Rightarrow> post obj nxt" where
  "posts_removed st p =
     (case get st (post_id p) of
        None \<Rightarrow> Same
      | Some _ \<Rightarrow>
          New (foldl (\<lambda>ns q. if root_id q = post_id p then del (post_id q) ns else ns)
                 (del (post_id p) st) (obj_values st)))"

definition posts_pinned :: "post obj \<Rightarrow> string \<Rightarrow> bool \<Rightarrow> int \<Rightarrow> post obj nxt" where
  "posts_pinned st postId isPinned updateAt =
     (case get st postId of
        None \<Rightarrow> Same
      | Some q \<Rightarrow>
          New (put postId (upd_core (\<lambda>c. c\<lparr>p_is_pinned := isPinned,
                                          p_last_update_at := Some updateAt\<rparr>) q) st))"

definition posts_left_channel :: "post obj \<Rightarrow> string \<Rightarrow> post obj nxt" where
  "posts_left_channel st channelId =
     (let gone = filter (\<lambda>q. channel_id q = channelId) (obj_values st)
      in if gone = [] then Same
         else New (foldl (\<lambda>ns q. del (post_id q) ns) st gone))"

text \<open>\<open>{...state[id], is_following}\<close>, also when there is no \<open>state[id]\<close>.\<close>

definition posts_follow_changed :: "post obj \<Rightarrow> string \<Rightarrow> bool \<Rightarrow> post obj nxt" where
  "posts_follow_changed st i following =
     New (put i (upd_core (p_is_following_update (\<lambda>_. Some following)) (get_or no_post st i)) st)"

text \<open>The result and the action as the reducer leaves it; \<open>None\<close> when it throws.\<close>

fun handlePosts :: "post obj \<Rightarrow> action \<Rightarrow> (post obj nxt \<times> action) option" where
  "handlePosts st (PostTypes (RECEIVED_POST p crt)) =
     (let (st, p) = handlePostReceived 0 st p in Some (New st, PostTypes (RECEIVED_POST p crt)))"
| "handlePosts st (PostTypes (RECEIVED_NEW_POST p crt)) =
     (let (st, p) = handlePostReceived 0 st p in Some (New st, PostTypes (RECEIVED_NEW_POST p crt)))"
| "handlePosts st (PostTypes (RECEIVED_POSTS l ch)) =
     (if obj_values (l_posts l) = [] then Some (Same, PostTypes (RECEIVED_POSTS l ch))
      else let (st, ps) = receive_all st (l_posts l)
           in Some (New st, PostTypes (RECEIVED_POSTS (l\<lparr>l_posts := ps\<rparr>) ch)))"
| "handlePosts st (PostTypes (POST_DELETED p)) =
     map_option (\<lambda>n. (n, PostTypes (POST_DELETED p))) (posts_deleted st p)"
| "handlePosts st (PostTypes (POST_REMOVED p)) = Some (posts_removed st p, PostTypes (POST_REMOVED p))"
| "handlePosts st (PostTypes (POST_PINNED_CHANGED i b t)) =
     Some (posts_pinned st i b t, PostTypes (POST_PINNED_CHANGED i b t))"
| "handlePosts st (ChannelTypes (LEAVE_CHANNEL i t)) =
     Some (posts_left_channel st i, ChannelTypes (LEAVE_CHANNEL i t))"
| "handlePosts st (ThreadTypes (FOLLOW_CHANGED_THREAD i t f)) =
     Some (posts_follow_changed st i f, ThreadTypes (FOLLOW_CHANGED_THREAD i t f))"
| "handlePosts st (UserTypes LOGOUT_SUCCESS) = Some (New [], UserTypes LOGOUT_SUCCESS)"
| "handlePosts st a = Some (Same, a)"

section \<open>handlePendingPosts\<close>

definition drop_pending_id :: "string list \<Rightarrow> string \<Rightarrow> string list nxt" where
  "drop_pending_id st i =
     (case indexOf st i of None \<Rightarrow> Same | Some n \<Rightarrow> New (remove_at n st))"

fun handlePendingPosts :: "string list \<Rightarrow> action \<Rightarrow> string list nxt" where
  "handlePendingPosts st (PostTypes (RECEIVED_NEW_POST p crt)) =
     (if pending_post_id p = [] then Same
      else case indexOf st (pending_post_id p) of
        Some n \<Rightarrow> Same
      | None \<Rightarrow> New (st @ [pending_post_id p]))"
| "handlePendingPosts st (PostTypes (POST_REMOVED p)) = drop_pending_id st (post_id p)"
| "handlePendingPosts st (PostTypes (RECEIVED_POST p crt)) =
     (if pending_post_id p = [] then Same else drop_pending_id st (pending_post_id p))"
| "handlePendingPosts st _ = Same"

end
