(* ===== verification/Samples.thy ===== *)
theory Samples
  imports PostUtils
begin

text \<open>Small concrete posts, on which the other theories apply their theorems.\<close>

definition sample :: "string \<Rightarrow> string \<Rightarrow> string \<Rightarrow> int \<Rightarrow> post" where
  "sample i channel root t =
     upd_core (\<lambda>c. c\<lparr>p_id := i, p_channel_id := channel, p_root_id := root, p_user_id := ''u1'',
                     p_create_at := t, p_update_at := t\<rparr>) no_post"

definition no_preview_core :: "string \<Rightarrow> preview_core" where
  "no_preview_core i = \<lparr>v_post_id = i, v_channel_display_name = [], v_team_name = [],
     v_channel_type = [], v_channel_id = []\<rparr>"

text \<open>A post whose message links to post \<open>q\<close>.\<close>

definition quoting_sample :: "post \<Rightarrow> post \<Rightarrow> post" where
  "quoting_sample q p =
     set_metadata (Some (PostMetadata no_metadata_core
       (Some [PostEmbed ''permalink'' ''/pl'' (Some (PreviewData (no_preview_core (post_id q)) (Some q)))]))) p"

lemma core_quoting_sample [simp]: "core (quoting_sample q p) = core p"
  by (simp add: quoting_sample_def)

definition sample_list :: "string list \<Rightarrow> post obj \<Rightarrow> post_list" where
  "sample_list ord ps = \<lparr>l_order = ord, l_posts = ps, l_next_post_id = [], l_prev_post_id = [],
     l_first_inaccessible_post_time = 0\<rparr>"

lemmas sample_defs = sample_def quoting_sample_def no_preview_core_def sample_list_def
  no_post_def no_core_def no_metadata_core_def

end
