(* ===== verification/PostMapProps.thy ===== *)
theory PostMapProps
  imports PostMap Samples
begin

text \<open>
  What holds of the map of posts: every entry is filed under its own identifier, what
  \<open>handlePostReceived\<close> stores, what a deletion leaves behind and when it throws.
\<close>

section \<open>Properties of single entries\<close>

text \<open>
  The interface between \<open>handlePostReceived\<close> and a property \<open>Q\<close> of the entries: \<open>good\<close> is
  what is known of a received post, and every write the code makes keeps the two. \<open>entries Q A\<close>
  exempts the keys in \<open>A\<close>, for the entry that is overwritten before the call returns.
\<close>

definition entries :: "(string \<Rightarrow> post \<Rightarrow> bool) \<Rightarrow> string set \<Rightarrow> post obj \<Rightarrow> bool" where
  "entries Q A st \<longleftrightarrow> (\<forall>k q. get st k = Some q \<longrightarrow> k \<notin> A \<longrightarrow> Q k q)"

lemma entries_put: "entries Q A st \<Longrightarrow> (k \<notin> A \<Longrightarrow> Q k q) \<Longrightarrow> entries Q A (put k q st)"
  by (auto simp: entries_def)

lemma entries_put_exempt: "entries Q (insert k A) st \<Longrightarrow> Q k q \<Longrightarrow> entries Q A (put k q st)"
  by (auto simp: entries_def)

lemma entries_del: "entries Q A st \<Longrightarrow> entries Q A (del k st)"
  by (auto simp: entries_def)

lemma entries_mono: "entries Q A st \<Longrightarrow> A \<subseteq> B \<Longrightarrow> entries Q B st"
  by (auto simp: entries_def)

lemma entries_get: "entries Q A st \<Longrightarrow> get st k = Some q \<Longrightarrow> k \<notin> A \<Longrightarrow> Q k q"
  by (auto simp: entries_def)

lemma core_removeUnneededMetadata [simp]: "core (removeUnneededMetadata p) = core p"
  by (simp add: removeUnneededMetadata_def split: option.splits)

lemma core_without_previews [simp]: "core (without_previews p) = core p"
  by (simp add: without_previews_def split: option.splits)

lemma core_set_preview [simp]: "core (set_preview i q p) = core p"
  by (simp add: set_preview_def split: option.splits embed_data.splits)

lemma id_keep_following [simp]: "p_id (core (keep_following st p)) = post_id p"
  by (simp add: keep_following_def split: option.splits)

lemma wf_spread_onto_stored [simp]: "wf_obj st \<Longrightarrow> wf_obj (spread_onto_stored st p l)"
  by (simp add: spread_onto_stored_def split: option.splits)

lemma wf_drop_pending [simp]: "wf_obj st \<Longrightarrow> wf_obj (drop_pending st p)"
  by (simp add: drop_pending_def)

lemma wf_update_root [simp]: "wf_obj st \<Longrightarrow> wf_obj (update_root st p)"
  by (simp add: update_root_def Let_def split: option.splits)

definition kept ::
  "(string \<Rightarrow> post \<Rightarrow> bool) \<Rightarrow> (post \<Rightarrow> bool) \<Rightarrow> string \<Rightarrow> string set \<Rightarrow> post obj \<times> post \<Rightarrow> bool" where
  "kept Q good i A r \<longleftrightarrow> wf_obj (fst r) \<and> entries Q A (fst r) \<and> good (snd r) \<and> post_id (snd r) = i"

locale stored_property =
  fixes Q :: "string \<Rightarrow> post \<Rightarrow> bool" and good :: "post \<Rightarrow> bool"
  assumes good_stored: "good p \<Longrightarrow> Q (post_id p) p"
    and good_unneeded: "good p \<Longrightarrow> good (removeUnneededMetadata p)"
    and good_without: "good p \<Longrightarrow> good (without_previews p)"
    and good_core: "good p \<Longrightarrow> (\<And>c. p_id (f c) = p_id c) \<Longrightarrow> good (upd_core f p)"
    and good_preview: "good p \<Longrightarrow> preview_at p i = Some q \<Longrightarrow> good q"
    and good_set_preview: "good p \<Longrightarrow> good q \<Longrightarrow> good (set_preview i q p)"
    and stored_core: "Q k p \<Longrightarrow> (\<And>c. p_id (f c) = p_id c) \<Longrightarrow> Q k (upd_core f p)"
    and stored_metadata: "Q k p \<Longrightarrow> Q k (set_metadata m p)"
begin

lemma spread_entries: "entries Q A st \<Longrightarrow> entries Q (insert (post_id p) A) (spread_onto_stored st p l)"
  by (auto simp: entries_def spread_onto_stored_def split: option.splits if_splits)

lemma good_keep: "good p \<Longrightarrow> good (keep_following st p)"
  by (auto simp: keep_following_def split: option.splits intro: good_core)

lemma entries_update_root: "entries Q A st \<Longrightarrow> entries Q A (update_root st p)"
  by (auto simp: update_root_def Let_def split: option.splits
      intro!: entries_put stored_core dest: entries_get)

lemma entries_drop_pending: "entries Q A st \<Longrightarrow> entries Q A (drop_pending st p)"
  by (simp add: drop_pending_def entries_del)

lemma stored_unneeded: "good p \<Longrightarrow> Q (post_id p) (removeUnneededMetadata p)"
  using good_stored [OF good_unneeded, of p] by simp

lemma kept_embed_step:
  assumes "\<And>A st q. wf_obj st \<Longrightarrow> entries Q A st \<Longrightarrow> good q \<Longrightarrow> kept Q good (post_id q) A (rec st q)"
    and "kept Q good i (insert i A) r"
  shows "kept Q good i (insert i A) (embed_step rec r n)"
proof -
  obtain st p where r: "r = (st, p)" by (cases r)
  show ?thesis
  proof (cases "preview_at p n")
    case None
    then show ?thesis using assms(2) r by (simp add: embed_step_def)
  next
    case (Some q)
    obtain st1 q1 where rec: "rec st q = (st1, q1)" by (cases "rec st q")
    have "good q" using assms(2) Some r by (auto simp: kept_def intro: good_preview)
    then have "kept Q good (post_id q) (insert i A) (st1, q1)"
      using assms(1) [of st "insert i A" q] assms(2) r rec by (simp add: kept_def)
    then show ?thesis
      using assms(2) r rec Some
      by (auto simp: kept_def embed_step_def Let_def intro!: good_set_preview good_without entries_put)
  qed
qed

lemma kept_store_received:
  assumes rec: "\<And>A st q. wf_obj st \<Longrightarrow> entries Q A st \<Longrightarrow> good q \<Longrightarrow> kept Q good (post_id q) A (rec st q)"
    and p: "kept Q good i (insert i A) (st, p)" and absent: "get st i = None \<Longrightarrow> entries Q A st"
  shows "kept Q good i A (store_received rec st p)"
proof -
  let ?r = "\<lambda>es. foldl (embed_step rec) (st, p) [0..<length es]"
  have loop: "kept Q good i (insert i A) (?r es)" for es :: "post_embed list"
    using p by (intro foldl_invariant [where I = "kept Q good i (insert i A)"] kept_embed_step rec)
  have put: "kept Q good i A (put (post_id q) x s, q)"
    if "kept Q good i (insert i A) (s, q)" "Q i x" for s q x
    using that by (auto simp: kept_def intro: entries_put_exempt)
  have dead: "Q i (mark_deleted (removeUnneededMetadata p))"
    using p stored_unneeded [of p] by (auto simp: kept_def mark_deleted_def intro: stored_core)
  show ?thesis
  proof (cases "0 < delete_at p")
    case True
    then show ?thesis
      using p absent dead put [OF p dead]
      by (auto simp: store_received_def kept_def intro: good_without)
  next
    case False
    have plain: "kept Q good i A (put (post_id p) (removeUnneededMetadata p) st, p)"
      using p stored_unneeded [of p] by (intro put) (auto simp: kept_def)
    have "kept Q good i A (put (post_id (snd (?r es))) (snd (?r es)) (fst (?r es)), snd (?r es))"
      for es :: "post_embed list"
      using loop [of es] good_stored by (intro put) (auto simp: kept_def)
    with plain False show ?thesis
      by (auto simp: store_received_def split_beta split: option.splits)
  qed
qed

text \<open>One call, given what the nested calls do; then by induction on the levels left.\<close>

lemma kept_step:
  assumes rec: "\<And>A st q. wf_obj st \<Longrightarrow> entries Q A st \<Longrightarrow> good q \<Longrightarrow>
      kept Q good (post_id q) A (handlePostReceived (Suc level) st q)"
    and st: "wf_obj st" "entries Q A st" and p: "good p"
  shows "kept Q good (post_id p) A (handlePostReceived level st p)"
proof (cases "\<not> shouldUpdatePost p (get st (post_id p)) \<or> 1 < level")
  case True
  then show ?thesis using st p by (simp add: handlePostReceived.simps [of level] kept_def)
next
  case False
  let ?st = "spread_onto_stored st p level"
  let ?p = "keep_following ?st p"
  let ?r = "store_received (\<lambda>st q. handlePostReceived (Suc level) st q) ?st ?p"
  have "get ?st (post_id p) = None \<Longrightarrow> entries Q A ?st"
    using spread_entries [OF st(2), of p level]
    by (metis (no_types, lifting) entries_def insert_iff option.distinct(1))
  then have "kept Q good (post_id p) A ?r"
    using st p spread_entries [OF st(2)] by (intro kept_store_received rec) (auto simp: kept_def good_keep)
  moreover obtain s q where r: "?r = (s, q)" by (cases ?r)
  moreover have "handlePostReceived level st p = (update_root (drop_pending s q) q, q)"
    using False r by (simp add: handlePostReceived.simps [of level] Let_def)
  ultimately show ?thesis
    by (simp add: kept_def entries_update_root entries_drop_pending)
qed

lemma handlePostReceived_kept:
  "wf_obj st \<Longrightarrow> entries Q A st \<Longrightarrow> good p \<Longrightarrow> kept Q good (post_id p) A (handlePostReceived level st p)"
proof (induction "2 - level" arbitrary: level A st p)
  case 0
  then show ?case by (simp add: handlePostReceived.simps [of level] kept_def)
next
  case (Suc n)
  show ?case
  proof (rule kept_step)
    show "kept Q good (post_id q) A (handlePostReceived (Suc level) st q)"
      if "wf_obj st" "entries Q A st" "good q" for A st q
      using that Suc.hyps by simp
  qed (use Suc.prems in auto)
qed

end

context stored_property
begin

lemma receive_all_entries:
  "wf_obj st \<Longrightarrow> entries Q {} st \<Longrightarrow> (\<forall>q \<in> set (obj_values ps). good q) \<Longrightarrow>
   wf_obj (fst (receive_all st ps)) \<and> entries Q {} (fst (receive_all st ps))"
proof (induction st ps rule: receive_all.induct)
  case (2 st k p ps)
  obtain st1 p1 where r: "handlePostReceived 0 st p = (st1, p1)" by (cases "handlePostReceived 0 st p")
  have "kept Q good (post_id p) {} (st1, p1)"
    using handlePostReceived_kept [of st "{}" p 0] 2 r by (simp add: obj_values_def)
  then show ?case
    using "2.IH" [of "(st1, p1)" st1 p1] "2.prems" r
    by (auto simp: kept_def obj_values_def split_beta Let_def)
qed simp

lemma deleted_step_entries:
  "wf_obj ns \<and> entries Q {} ns \<Longrightarrow> deleted_step i ns q = Some ns' \<Longrightarrow> wf_obj ns' \<and> entries Q {} ns'"
  by (auto simp: deleted_step_def Let_def split: if_splits option.splits
      intro!: entries_put entries_del stored_metadata dest: entries_get)

lemma deleted_loop_entries:
  "wf_obj ns \<and> entries Q {} ns \<Longrightarrow> deleted_loop i ns qs = Some ns' \<Longrightarrow> wf_obj ns' \<and> entries Q {} ns'"
  by (induction qs arbitrary: ns) (simp, simp split: option.splits, metis deleted_step_entries)

text \<open>The posts an action brings, and the entries after the reducer has run.\<close>

lemma handlePosts_entries:
  assumes st: "wf_obj st" "entries Q {} st" and step: "handlePosts st a = Some (n, a')"
    and posts: "\<And>p crt. a = PostTypes (RECEIVED_POST p crt) \<Longrightarrow> good p"
      "\<And>p crt. a = PostTypes (RECEIVED_NEW_POST p crt) \<Longrightarrow> good p"
      "\<And>l ch. a = PostTypes (RECEIVED_POSTS l ch) \<Longrightarrow> \<forall>q \<in> set (obj_values (l_posts l)). good q"
    and follow: "\<And>i t f. a = ThreadTypes (FOLLOW_CHANGED_THREAD i t f) \<Longrightarrow> get st i \<noteq> None \<or> Q i no_post"
  shows "wf_obj (upd st n) \<and> entries Q {} (upd st n)"
proof -
  have received: "wf_obj (fst (handlePostReceived 0 st p)) \<and> entries Q {} (fst (handlePostReceived 0 st p))"
    if "good p" for p
    using handlePostReceived_kept [of st "{}" p 0] st that by (simp add: kept_def)
  have deleted: "wf_obj (upd st n) \<and> entries Q {} (upd st n)" if "posts_deleted st p = Some n" for p n
    using that st
    by (auto simp: posts_deleted_def tombstone_def split: option.splits
        dest!: deleted_loop_entries [rotated] intro!: entries_put stored_core dest: entries_get)
  have removed: "wf_obj (upd st (posts_removed st p)) \<and> entries Q {} (upd st (posts_removed st p))" for p
    using st by (auto simp: posts_removed_def entries_def split: option.splits)
  have pinned: "wf_obj (upd st (posts_pinned st i b t)) \<and> entries Q {} (upd st (posts_pinned st i b t))" for i b t
    using st by (auto simp: posts_pinned_def split: option.splits intro!: entries_put stored_core dest: entries_get)
  have left: "wf_obj (upd st (posts_left_channel st i)) \<and> entries Q {} (upd st (posts_left_channel st i))" for i
    using st by (auto simp: posts_left_channel_def Let_def entries_def)
  have followed: "wf_obj (upd st (posts_follow_changed st i f)) \<and> entries Q {} (upd st (posts_follow_changed st i f))"
    if "get st i \<noteq> None \<or> Q i no_post" for i f
    using st that
    by (auto simp: posts_follow_changed_def get_or_def split: option.splits
        intro!: entries_put stored_core dest: entries_get)
  from step show ?thesis
    using st received deleted removed pinned left followed posts follow
      receive_all_entries [OF st]
    by (cases "(st, a)" rule: handlePosts.cases)
      (auto simp: split_beta Let_def entries_def [of Q "{}" "[]"] split: if_splits)
qed

end

section \<open>Every post is filed under its identifier\<close>

definition filed :: "post obj \<Rightarrow> bool" where
  "filed st \<longleftrightarrow> wf_obj st \<and> (\<forall>k q. get st k = Some q \<longrightarrow> post_id q = k)"

interpretation filed: stored_property "\<lambda>k p. post_id p = k" "\<lambda>_. True"
  by unfold_locales auto

lemma filed_entries: "filed st \<longleftrightarrow> wf_obj st \<and> entries (\<lambda>k p. post_id p = k) {} st"
  by (simp add: filed_def entries_def)

lemma filed_get: "filed st \<Longrightarrow> get st k = Some q \<Longrightarrow> post_id q = k"
  by (simp add: filed_def)

lemma filed_values: "filed st \<Longrightarrow> q \<in> set (obj_values st) \<longleftrightarrow> get st (post_id q) = Some q"
  by (metis filed_def get_in_values values_in_get)

lemma posts_stay_filed:
  assumes "filed st" and "handlePosts st a = Some (n, a')"
    and "\<And>i t f. a = ThreadTypes (FOLLOW_CHANGED_THREAD i t f) \<Longrightarrow> get st i \<noteq> None"
  shows "filed (upd st n)"
  using assms filed.handlePosts_entries [of st a n a'] by (auto simp: filed_entries)

section \<open>What a received post stores\<close>

lemma keep_following_spread [simp]: "keep_following (spread_onto_stored st p l) p = keep_following st p"
  by (auto simp: keep_following_def spread_onto_stored_def split: option.splits)

lemma core_embed_step [simp]: "core (snd (embed_step rec r n)) = core (snd r)"
  by (cases r) (simp add: embed_step_def split_beta Let_def split: option.splits)

lemma core_embed_loop [simp]: "core (snd (foldl (embed_step rec) r ns)) = core (snd r)"
  by (induction ns arbitrary: r) auto

lemma core_store_received [simp]: "core (snd (store_received rec st p)) = core p"
  by (auto simp: store_received_def split_beta split: option.splits)

lemma store_received_stores:
  assumes "delete_at p \<le> 0"
  shows "\<exists>q. get (fst (store_received rec st p)) (post_id p) = Some q \<and> core q = core p"
  using assms by (auto simp: store_received_def split_beta split: option.splits)

lemma get_drop_pending: "post_id p = i \<Longrightarrow> get (drop_pending st p) i = get st i"
  by (simp add: drop_pending_def)

lemma get_update_root: "root_id p \<noteq> i \<Longrightarrow> get (update_root st p) i = get st i"
  by (simp add: update_root_def Let_def split: option.splits)

lemma core_keep_following:
  "p_id (core (keep_following st p)) = post_id p" "p_delete_at (core (keep_following st p)) = delete_at p"
  "p_root_id (core (keep_following st p)) = root_id p" "p_channel_id (core (keep_following st p)) = channel_id p"
  "p_pending_post_id (core (keep_following st p)) = pending_post_id p"
  by (simp_all add: keep_following_def split: option.splits)

text \<open>How a call that does not return at once ends.\<close>

lemma handlePostReceived_end:
  assumes "shouldUpdatePost p (get st (post_id p))"
  obtains s q where "handlePostReceived 0 st p = (update_root (drop_pending s q) q, q)"
    "core q = core (keep_following st p)"
    "store_received (\<lambda>st q. handlePostReceived (Suc 0) st q) (spread_onto_stored st p 0)
       (keep_following st p) = (s, q)"
proof -
  let ?r = "store_received (\<lambda>st q. handlePostReceived (Suc 0) st q) (spread_onto_stored st p 0) (keep_following st p)"
  obtain s q where r: "?r = (s, q)" by (cases ?r)
  show thesis
    by (rule that [OF _ _ r]) (use assms r core_store_received [of "\<lambda>st q. handlePostReceived (Suc 0) st q"
        "spread_onto_stored st p 0" "keep_following st p"] in \<open>simp_all add: handlePostReceived.simps [of 0] Let_def\<close>)
qed

text \<open>
  A received post either is stale and changes nothing, or is what the store then holds
  under its id: its own properties, with \<open>is_following\<close> taken over from the stored copy when
  the post does not say. Neither the posts it previews nor the ones previewed there, nor the
  replacement of its pending copy, nor the update of its thread's root get in the way.
\<close>

theorem received_post_is_stored:
  assumes "delete_at p \<le> 0" and "root_id p \<noteq> post_id p"
  shows "if shouldUpdatePost p (get st (post_id p))
         then \<exists>q. get (fst (handlePostReceived 0 st p)) (post_id p) = Some q \<and>
                  core q = core (keep_following st p)
         else handlePostReceived 0 st p = (st, p)"
proof (cases "shouldUpdatePost p (get st (post_id p))")
  case True
  then obtain s q where end_: "handlePostReceived 0 st p = (update_root (drop_pending s q) q, q)"
    and q: "core q = core (keep_following st p)"
    and r: "store_received (\<lambda>st q. handlePostReceived (Suc 0) st q) (spread_onto_stored st p 0)
      (keep_following st p) = (s, q)"
    by (rule handlePostReceived_end)
  have "\<exists>x. get s (post_id p) = Some x \<and> core x = core (keep_following st p)"
    using store_received_stores [of "keep_following st p" "\<lambda>st q. handlePostReceived (Suc 0) st q"
        "spread_onto_stored st p 0"] assms(1) r by (simp add: core_keep_following)
  with True assms(2) end_ q show ?thesis
    by (auto simp: get_update_root get_drop_pending core_keep_following)
next
  case False
  then show ?thesis by (simp add: handlePostReceived.simps [of 0])
qed

section \<open>The spread of metadata onto a stored post is a dead write\<close>

primrec spread_free :: "post \<Rightarrow> bool"
  and spread_free_metadata :: "post_metadata \<Rightarrow> bool"
  and spread_free_embed :: "post_embed \<Rightarrow> bool"
  and spread_free_data :: "embed_data \<Rightarrow> bool" where
  "spread_free (Post c m ua sp) =
     (sp = None \<and> (case map_option spread_free_metadata m of None \<Rightarrow> True | Some b \<Rightarrow> b))"
| "spread_free_metadata (PostMetadata mc es) =
     (case map_option (map spread_free_embed) es of None \<Rightarrow> True | Some bs \<Rightarrow> list_all (\<lambda>b. b) bs)"
| "spread_free_embed (PostEmbed t u d) =
     (case map_option spread_free_data d of None \<Rightarrow> True | Some b \<Rightarrow> b)"
| "spread_free_data (OpenGraphData g) = True"
| "spread_free_data (PreviewData pv q) = (case map_option spread_free q of None \<Rightarrow> True | Some b \<Rightarrow> b)"

lemma spread_free_iff:
  "spread_free p \<longleftrightarrow> spread_metadata p = None \<and> (\<forall>e \<in> set (post_embeds p). spread_free_embed e)"
proof (cases p)
  case (Post c m ua sp)
  show ?thesis
  proof (cases m)
    case (Some md)
    then show ?thesis
      by (cases md) (auto simp: Post post_embeds_def list_all_iff split: option.splits)
  qed (simp add: Post post_embeds_def)
qed

lemma spread_free_preview_post [simp]: "spread_free_embed e \<Longrightarrow> spread_free_embed (remove_preview_post e)"
  by (cases e) (auto simp: remove_preview_post_def split: option.splits embed_data.splits)

lemma spread_free_strip [simp]: "spread_free_embed e \<Longrightarrow> spread_free_embed (strip_embed e)"
  by (simp add: strip_embed_def)

lemma post_embeds_removeUnneeded [simp]:
  "post_embeds (removeUnneededMetadata p) = map strip_embed (post_embeds p)"
  by (simp add: removeUnneededMetadata_def post_embeds_def split: option.splits)

lemma post_embeds_without_previews [simp]:
  "post_embeds (without_previews p)
     = map (\<lambda>e. if embed_type e = ''permalink'' then remove_preview_post e else e) (post_embeds p)"
  by (simp add: without_previews_def post_embeds_def split: option.splits)

lemma spread_removeUnneeded [simp]:
  "spread_metadata (removeUnneededMetadata p) = spread_metadata p"
  "spread_metadata (without_previews p) = spread_metadata p"
  "spread_metadata (set_preview i q p) = spread_metadata p"
  by (simp_all add: removeUnneededMetadata_def without_previews_def set_preview_def
      split: option.splits embed_data.splits)

lemma post_embeds_upd_core [simp]: "post_embeds (upd_core f p) = post_embeds p"
  by (simp add: post_embeds_def)

lemma spread_free_preview: "spread_free p \<Longrightarrow> preview_at p i = Some q \<Longrightarrow> spread_free q"
  unfolding spread_free_iff [of p] preview_at_def Let_def
  by (cases "post_embeds p ! i")
    (fastforce split: if_splits option.splits embed_data.splits dest: bspec [OF _ nth_mem])

lemma spread_free_set_metadata [simp]:
  "spread_free (set_metadata (Some (PostMetadata mc (Some es))) p)
     \<longleftrightarrow> spread_metadata p = None \<and> (\<forall>e \<in> set es. spread_free_embed e)"
  by (simp add: spread_free_iff [of "set_metadata _ p"] post_embeds_def)

lemma spread_free_set_preview: "spread_free p \<Longrightarrow> spread_free q \<Longrightarrow> spread_free (set_preview i q p)"
  using spread_free_iff [of p]
  by (auto simp: set_preview_def post_embeds_def split: option.splits embed_data.splits
      dest!: set_update_subset_insert [THEN subsetD])

interpretation unspread: stored_property "\<lambda>k p. spread_metadata p = None" spread_free
proof unfold_locales
  show "spread_metadata p = None" if "spread_free p" for p
    using that by (simp add: spread_free_iff)
  show "spread_free (removeUnneededMetadata p)" "spread_free (without_previews p)" if "spread_free p" for p
    using that by (auto simp: spread_free_iff)
  show "spread_free (upd_core f p)" if "spread_free p" for f p
    using that by (simp add: spread_free_iff)
qed (simp_all add: spread_free_preview spread_free_set_preview)

text \<open>
  \<open>handlePostReceived\<close> spreads the metadata of a permalink post onto its stored copy; the
  write never survives the reducer: when no stored and no received post carries spread
  metadata before, no stored post does after, on every action.
\<close>

theorem spread_metadata_is_dead:
  assumes "wf_obj st" and "\<And>k q. get st k = Some q \<Longrightarrow> spread_metadata q = None"
    and "handlePosts st a = Some (n, a')"
    and "\<And>p crt. a = PostTypes (RECEIVED_POST p crt) \<or> a = PostTypes (RECEIVED_NEW_POST p crt) \<Longrightarrow> spread_free p"
    and "\<And>l ch. a = PostTypes (RECEIVED_POSTS l ch) \<Longrightarrow> \<forall>q \<in> set (obj_values (l_posts l)). spread_free q"
  shows "get (upd st n) k = Some q \<Longrightarrow> spread_metadata q = None"
  using assms unspread.handlePosts_entries [of st a n a'] by (auto simp: entries_def no_post_def)

section \<open>Deleting a post\<close>

definition has_quote :: "string \<Rightarrow> post \<Rightarrow> bool" where
  "has_quote i q \<longleftrightarrow> (\<exists>e \<in> set (post_embeds q). quotes i e)"

text \<open>A post with the embeds that quote post \<open>i\<close> taken out.\<close>

definition unquote :: "string \<Rightarrow> post \<Rightarrow> post" where
  "unquote i q =
     (if has_quote i q
      then set_metadata (Some (PostMetadata
             (case metadata q of None \<Rightarrow> no_metadata_core | Some m \<Rightarrow> meta_core m)
             (Some (filter (\<lambda>e. \<not> quotes i e) (post_embeds q))))) q
      else q)"

lemma length_filter_quotes:
  "length (filter (\<lambda>e. \<not> quotes i e) (post_embeds q)) \<noteq> length (post_embeds q) \<longleftrightarrow> has_quote i q"
  by (auto simp: length_filter_eq filter_id_conv has_quote_def)

lemma deleted_step_eq:
  assumes "get ns (post_id q) = Some r" and "metadata r = metadata q"
  shows "deleted_step i ns q =
    (if root_id q = i then (if has_quote i q then None else Some (del (post_id q) ns))
     else Some (if has_quote i q then put (post_id q) (unquote i r) ns else ns))"
proof -
  have "post_embeds r = post_embeds q" "has_quote i r = has_quote i q"
    using assms(2) by (simp_all add: post_embeds_def has_quote_def)
  then show ?thesis
    using assms by (simp add: deleted_step_def length_filter_quotes unquote_def Let_def)
qed

text \<open>What the loop leaves under each key, for posts with distinct ids.\<close>

lemma deleted_loop_eq:
  assumes "distinct (map post_id qs)"
    and "\<And>q. q \<in> set qs \<Longrightarrow> \<exists>r. get ns (post_id q) = Some r \<and> metadata r = metadata q"
  shows "case deleted_loop i ns qs of
      None \<Rightarrow> \<exists>q \<in> set qs. root_id q = i \<and> has_quote i q
    | Some ns' \<Rightarrow> (\<forall>q \<in> set qs. \<not> (root_id q = i \<and> has_quote i q)) \<and>
        (\<forall>k. get ns' k =
          (case find (\<lambda>q. post_id q = k) qs of
             None \<Rightarrow> get ns k
           | Some q \<Rightarrow> if root_id q = i then None else map_option (unquote i) (get ns k)))"
  using assms
proof (induction qs arbitrary: ns)
  case (Cons q qs)
  from Cons.prems(2) [of q] obtain r where r: "get ns (post_id q) = Some r" "metadata r = metadata q" by auto
  show ?case
  proof (cases "root_id q = i \<and> has_quote i q")
    case True
    then show ?thesis using deleted_step_eq [OF r] by simp
  next
    case False
    define ns1 where "ns1 = (if root_id q = i then del (post_id q) ns
      else if has_quote i q then put (post_id q) (unquote i r) ns else ns)"
    have step: "deleted_step i ns q = Some ns1"
      using deleted_step_eq [OF r] False by (auto simp: ns1_def)
    have other: "get ns1 k = get ns k" if "k \<noteq> post_id q" for k
      using that by (simp add: ns1_def)
    have "\<exists>r. get ns1 (post_id q') = Some r \<and> metadata r = metadata q'" if "q' \<in> set qs" for q'
    proof -
      have "post_id q' \<noteq> post_id q" using that Cons.prems(1) by (auto simp: image_iff)
      then show ?thesis using that Cons.prems(2) [of q'] other by simp
    qed
    then have IH: "case deleted_loop i ns1 qs of
      None \<Rightarrow> \<exists>q \<in> set qs. root_id q = i \<and> has_quote i q
    | Some ns' \<Rightarrow> (\<forall>q \<in> set qs. \<not> (root_id q = i \<and> has_quote i q)) \<and>
        (\<forall>k. get ns' k =
          (case find (\<lambda>q. post_id q = k) qs of
             None \<Rightarrow> get ns1 k
           | Some q \<Rightarrow> if root_id q = i then None else map_option (unquote i) (get ns1 k)))"
      using Cons.IH [of ns1] Cons.prems(1) by simp
    have fresh: "find (\<lambda>q'. post_id q' = post_id q) qs = None"
      using Cons.prems(1) by (auto simp: find_None_iff image_iff)
    have here: "get ns1 (post_id q) = (if root_id q = i then None else map_option (unquote i) (get ns (post_id q)))"
      using r False by (auto simp: ns1_def unquote_def has_quote_def post_embeds_def)
    show ?thesis
    proof (cases "deleted_loop i ns1 qs")
      case None
      then show ?thesis using IH step by auto
    next
      case (Some ns')
      have "get ns' k = (case find (\<lambda>q. post_id q = k) (q # qs) of
             None \<Rightarrow> get ns k
           | Some q \<Rightarrow> if root_id q = i then None else map_option (unquote i) (get ns k))" for k
        using IH Some other [of k] here fresh by (cases "k = post_id q") (auto split: option.splits)
      with Some step IH False show ?thesis by simp
    qed
  qed
qed simp

lemma find_filed:
  assumes "filed st"
  shows "find (\<lambda>q. post_id q = k) (obj_values st) = get st k"
proof (cases "get st k")
  case None
  then show ?thesis using filed_values [OF assms] by (auto simp: find_None_iff)
next
  case (Some q)
  then have q: "q \<in> set (obj_values st)" "post_id q = k"
    using filed_get [OF assms] get_in_values by auto
  then have "find (\<lambda>q. post_id q = k) (obj_values st) \<noteq> None" by (auto simp: find_None_iff)
  then obtain q' where q': "find (\<lambda>q. post_id q = k) (obj_values st) = Some q'" by auto
  then have "q' \<in> set (obj_values st)" "post_id q' = k"
    by (auto simp: find_Some_iff intro: nth_mem)
  then have "get st k = Some q'" using filed_values [OF assms] by auto
  with Some q' show ?thesis by simp
qed

lemma filed_distinct: "filed st \<Longrightarrow> distinct (map post_id (obj_values st))"
proof -
  assume "filed st"
  then have "map post_id (obj_values st) = map fst st"
    by (auto simp: obj_values_def filed_def wf_obj_def)
  then show ?thesis using \<open>filed st\<close> by (simp add: filed_def wf_obj_def)
qed

lemma metadata_tombstone [simp]: "metadata (tombstone q) = metadata q" "core (unquote i q) = core q"
  by (simp_all add: tombstone_def unquote_def)

text \<open>
  C34. Deleting a known post throws exactly when one of its comments quotes it by permalink.
  Otherwise the post stays as an empty tombstone, its comments are gone, every other post
  stays, and no embed anywhere still quotes the deleted post.
\<close>

theorem post_deletion:
  assumes "filed st" and "get st (post_id p) = Some stored"
  shows "case posts_deleted st p of
      None \<Rightarrow> \<exists>k q. get st k = Some q \<and> root_id q = post_id p \<and> has_quote (post_id p) q
    | Some n \<Rightarrow> (\<forall>k q. get st k = Some q \<longrightarrow> root_id q = post_id p \<longrightarrow> \<not> has_quote (post_id p) q) \<and>
        (\<forall>k. get (upd st n) k =
          (case get st k of
             None \<Rightarrow> None
           | Some q \<Rightarrow> if root_id q = post_id p then None
                       else Some (unquote (post_id p) (if k = post_id p then tombstone q else q))))"
proof -
  let ?i = "post_id p" and ?ns = "put (post_id p) (tombstone stored) st"
  have "\<exists>r. get ?ns (post_id q) = Some r \<and> metadata r = metadata q" if "q \<in> set (obj_values st)" for q
    using that assms filed_values [OF assms(1)] by auto
  note loop = deleted_loop_eq [OF filed_distinct [OF assms(1)] this, of ?i]
  have ex_values: "(\<exists>q \<in> set (obj_values st). P q) \<longleftrightarrow> (\<exists>k q. get st k = Some q \<and> P q)" for P
    using filed_values [OF assms(1)] get_in_values by metis
  have all_values: "(\<forall>q \<in> set (obj_values st). P q) \<longleftrightarrow> (\<forall>k q. get st k = Some q \<longrightarrow> P q)" for P
    using filed_values [OF assms(1)] get_in_values by metis
  show ?thesis
    using loop assms(2)
    by (auto simp: posts_deleted_def find_filed [OF assms(1)] ex_values all_values
        split: option.splits)
qed

text \<open>Removing a post removes it and its comments, and leaves every other post as it was.\<close>

lemma get_posts_removed:
  assumes "filed st" and "get st (post_id p) \<noteq> None"
  shows "get (upd st (posts_removed st p)) k =
    (case get st k of
       None \<Rightarrow> None
     | Some q \<Rightarrow> if k = post_id p \<or> root_id q = post_id p then None else Some q)"
proof -
  have "(\<exists>q \<in> set (obj_values st). root_id q = post_id p \<and> post_id q = k) \<longleftrightarrow>
        (\<exists>q. get st k = Some q \<and> root_id q = post_id p)"
    using filed_values [OF assms(1)] filed_get [OF assms(1)] get_in_values by metis
  then show ?thesis using assms(2) by (auto simp: posts_removed_def split: option.splits)
qed

section \<open>Metadata kept in the map\<close>

lemma remove_stored_fields_simps [simp]:
  "m_emojis (remove_stored_fields m) = None" "m_files (remove_stored_fields m) = None"
  "m_reactions (remove_stored_fields m) = None"
  "m_acknowledgements (remove_stored_fields m) = m_acknowledgements m"
  by (auto simp: remove_stored_fields_def Let_def)

lemma metadata_removeUnneeded:
  "metadata p = Some m \<Longrightarrow> metadata (removeUnneededMetadata p) =
     Some (PostMetadata (remove_stored_fields (meta_core m)) (map_option (map strip_embed) (embeds m)))"
  by (simp add: removeUnneededMetadata_def)

text \<open>
  What \<open>removeUnneededMetadata\<close> takes out of a post: the emojis, files and reactions, the
  data of every opengraph embed and the post of every permalink preview. The
  acknowledgements, which it is written to remove as well, stay.
\<close>

theorem unneeded_metadata:
  assumes "metadata p = Some m"
  shows "\<exists>m'. metadata (removeUnneededMetadata p) = Some m' \<and>
    m_emojis (meta_core m') = None \<and> m_files (meta_core m') = None \<and> m_reactions (meta_core m') = None \<and>
    m_acknowledgements (meta_core m') = m_acknowledgements (meta_core m) \<and>
    (\<forall>e \<in> set (post_embeds (removeUnneededMetadata p)). embed_type e = ''opengraph'' \<longrightarrow> embed_data e = None) \<and>
    (\<forall>i. preview_at (removeUnneededMetadata p) i = None)"
proof -
  have "embed_data (strip_embed e) = None" if "embed_type (strip_embed e) = ''opengraph''" for e
    using that by (auto simp: strip_embed_def remove_preview_post_def split: if_splits option.splits embed_data.splits)
  moreover have "preview_at (removeUnneededMetadata p) i = None" for i
    by (auto simp: preview_at_def Let_def strip_embed_def remove_preview_post_def
        split: option.splits embed_data.splits)
  ultimately show ?thesis
    using metadata_removeUnneeded [OF assms] by auto
qed

text \<open>
  A thread that is followed or unfollowed while its root post is not loaded makes the
  reducer file a post without an id under the thread's id.
\<close>

theorem follow_files_stub:
  assumes "get st i = None" and "i \<noteq> []"
  shows "\<exists>q. get (upd st (posts_follow_changed st i f)) i = Some q \<and> post_id q = [] \<and>
    \<not> filed (upd st (posts_follow_changed st i f))"
  using assms by (auto simp: posts_follow_changed_def get_or_def no_post_def no_core_def filed_def)

section \<open>Pending posts\<close>

text \<open>
  A post being sent is pending from the moment its local copy arrives until the server's
  copy does; then the list of pending ids is what it was, and no id is ever listed twice.
\<close>

theorem pending_until_created:
  assumes "distinct st" and "pending_post_id p \<notin> set st" and "pending_post_id p \<noteq> []"
    and "pending_post_id q = pending_post_id p"
  shows "let sending = upd st (handlePendingPosts st (PostTypes (RECEIVED_NEW_POST p crt)))
    in pending_post_id p \<in> set sending \<and> distinct sending \<and>
       upd sending (handlePendingPosts sending (PostTypes (RECEIVED_POST q crt'))) = st"
proof -
  have none: "indexOf st (pending_post_id p) = None" using assms(2) by (simp add: indexOf_None)
  let ?s = "st @ [pending_post_id p]"
  obtain n where n: "indexOf ?s (pending_post_id p) = Some n"
    by (metis indexOf_None in_set_conv_decomp not_None_eq)
  have "remove_at n ?s = st" using remove_at_indexOf [OF n] assms(2) by (simp add: remove1_append)
  with n none assms show ?thesis by (simp add: drop_pending_id_def Let_def)
qed

section \<open>Witnesses\<close>

definition quoted :: post where "quoted = sample ''p1'' ''ch'' [] 5"
definition comment :: post where "comment = sample ''p2'' ''ch'' ''p1'' 6"
definition quoting_comment :: post where "quoting_comment = quoting_sample quoted comment"
definition quoting_other :: post where "quoting_other = quoting_sample quoted (sample ''p3'' ''ch'' [] 7)"
definition sample_store :: "post obj" where
  "sample_store = [(''p1'', quoted), (''p2'', comment), (''p3'', quoting_other)]"

lemmas sample_store_defs = sample_store_def quoted_def comment_def quoting_other_def
  quoting_comment_def sample_defs

lemma filed_sample_store: "filed sample_store"
  by (auto simp: filed_def wf_obj_def sample_store_defs)

theorem received_post_is_stored_witness:
  "\<exists>q. get (fst (handlePostReceived 0 sample_store (sample ''p2'' ''ch'' ''p1'' 9))) ''p2'' = Some q \<and>
       p_update_at (core q) = 9"
  using received_post_is_stored [of "sample ''p2'' ''ch'' ''p1'' 9" sample_store]
  by (auto simp: shouldUpdatePost_def keep_following_def sample_store_defs)

definition unlinked_store :: "post obj" where
  "unlinked_store = [(''p3'', sample ''p3'' ''ch'' [] 6)]"

theorem spread_metadata_is_dead_witness:
  "map_option spread_metadata (get (spread_onto_stored unlinked_store quoting_other 0) ''p3'') = Some (metadata quoting_other) \<and>
   map_option spread_metadata (get (fst (handlePostReceived 0 unlinked_store quoting_other)) ''p3'') = Some None"
proof
  show "map_option spread_metadata (get (spread_onto_stored unlinked_store quoting_other 0) ''p3'') = Some (metadata quoting_other)"
    by code_simp
  define st where "st = fst (handlePostReceived 0 unlinked_store quoting_other)"
  have "get st ''p3'' \<noteq> None"
    unfolding st_def by code_simp
  then obtain q where q: "get st ''p3'' = Some q"
    by auto
  have "spread_free quoting_other"
    by code_simp
  moreover have "\<exists>a. handlePosts unlinked_store (PostTypes (RECEIVED_POST quoting_other False)) = Some (New st, a)"
    by (simp add: st_def split_beta)
  ultimately have "spread_metadata q = None"
    using q by (auto intro!: spread_metadata_is_dead [of unlinked_store "PostTypes (RECEIVED_POST quoting_other False)"
        "New st" _ "''p3''" q] simp: unlinked_store_def wf_obj_def sample_defs upd_core_def split: if_splits)
  then show "map_option spread_metadata (get (fst (handlePostReceived 0 unlinked_store quoting_other)) ''p3'') = Some None"
    using q by (simp add: st_def)
qed

theorem post_deletion_witness:
  "posts_deleted (put ''p2'' quoting_comment sample_store) quoted = None \<and>
   (\<exists>n. posts_deleted sample_store quoted = Some n \<and> get (upd sample_store n) ''p2'' = None)"
proof
  show "posts_deleted (put ''p2'' quoting_comment sample_store) quoted = None" by code_simp
  have "posts_deleted sample_store quoted \<noteq> None" by code_simp
  then show "\<exists>n. posts_deleted sample_store quoted = Some n \<and> get (upd sample_store n) ''p2'' = None"
    using post_deletion [OF filed_sample_store, of quoted quoted]
    by (auto simp: sample_store_defs split: option.splits)
qed

theorem unneeded_metadata_witness: "\<forall>i. preview_at (removeUnneededMetadata quoting_other) i = None"
  using unneeded_metadata [of quoting_other] by (auto simp: quoting_other_def quoting_sample_def)

theorem follow_files_stub_witness: "\<not> filed (upd [] (posts_follow_changed [] ''t'' True))"
  using follow_files_stub [of "[]" "''t''" True] by auto

definition sending_sample :: post where
  "sending_sample = upd_core (p_pending_post_id_update (\<lambda>_. ''u1:5'')) (sample ''u1:5'' ''ch'' [] 5)"

theorem pending_until_created_witness:
  "''u1:5'' \<in> set (upd [] (handlePendingPosts [] (PostTypes (RECEIVED_NEW_POST sending_sample False))))"
  using pending_until_created [of "[]" sending_sample sending_sample False False]
  by (simp add: sending_sample_def sample_defs Let_def)

end
