(* ===== verification/PostOrder.thy ===== *)
theory PostOrder
  imports PostUtils Samples
begin

text \<open>
  The order of the posts of a channel, \<open>state.postsInChannel\<close> of \<open>reducers/entities/posts.ts\<close>:
  for each channel a list of blocks, each a run of post ids from the most recent to the oldest.
  \<open>postsInChannel\<close> has one definition per case; \<open>mergePostBlocks\<close> joins blocks that turn out
  to overlap in time and \<open>mergePostOrder\<close> two runs.

  \<open>posts[id].create_at\<close> throws when the id, or the position it is read from, is missing.
\<close>

definition created :: "post obj \<Rightarrow> string option \<Rightarrow> int option" where
  "created posts i = (case i of None \<Rightarrow> None | Some i \<Rightarrow> map_option create_at (get posts i))"

definition block_start :: "post obj \<Rightarrow> post_order_block \<Rightarrow> int option" where
  "block_start posts b = created posts (first_of (order b))"

definition block_end :: "post obj \<Rightarrow> post_order_block \<Rightarrow> int option" where
  "block_end posts b = created posts (last_of (order b))"

section \<open>Merging\<close>

definition removeNonRecentEmptyPostBlocks :: "post_order_block list \<Rightarrow> post_order_block list" where
  "removeNonRecentEmptyPostBlocks blocks = filter (\<lambda>b. length (order b) \<noteq> 0 \<or> truthy (recent b)) blocks"

text \<open>\<open>seen\<close> is the set of the left ids and does not grow: only those are skipped.\<close>

definition mergePostOrder :: "string list \<Rightarrow> string list \<Rightarrow> post obj \<Rightarrow> string list option" where
  "mergePostOrder left right posts =
     (let result = left @ filter (\<lambda>i. i \<notin> set left) right
      in if length result = length left then Some left
         else js_sort_lookup (get posts) compareCreateAt result)"

text \<open>The \<open>while\<close> loop: the blocks before index \<open>i\<close> are done, the list is the rest.\<close>

fun mergeAdjacent :: "post obj \<Rightarrow> post_order_block list \<Rightarrow> post_order_block list option" where
  "mergeAdjacent posts (a # b # rest) =
     (case block_end posts a of
        None \<Rightarrow> None
      | Some aEndsAt \<Rightarrow>
          (case block_start posts b of
             None \<Rightarrow> None
           | Some bStartsAt \<Rightarrow>
               if aEndsAt \<le> bStartsAt then
                 (case mergePostOrder (order a) (order b) posts of
                    None \<Rightarrow> None
                  | Some ord \<Rightarrow>
                      mergeAdjacent posts
                        (\<lparr>order = ord, recent = flag_or (recent a) (recent b),
                          oldest = flag_or (oldest a) (oldest b)\<rparr> # rest))
               else map_option ((#) a) (mergeAdjacent posts (b # rest))))"
| "mergeAdjacent posts blocks = Some blocks"

definition mergePostBlocks :: "post_order_block list \<Rightarrow> post obj \<Rightarrow> post_order_block list option" where
  "mergePostBlocks blocks posts =
     (let nextBlocks = removeNonRecentEmptyPostBlocks blocks
      in if nextBlocks = [] then Some blocks
         else case js_sort_lookup (block_start posts) (\<lambda>a b. b - a) nextBlocks of
           None \<Rightarrow> None
         | Some sortedBlocks \<Rightarrow>
             (case mergeAdjacent posts sortedBlocks of
                None \<Rightarrow> None
              | Some merged \<Rightarrow> if length blocks = length merged then Some blocks else Some merged))"

section \<open>postsInChannel\<close>

type_synonym channel_orders = "post_order_block list obj"

definition recent_index :: "post_order_block list \<Rightarrow> nat option" where
  "recent_index blocks = findIndex (\<lambda>b. truthy (recent b)) blocks"

text \<open>\<open>RECEIVED_NEW_POST\<close>\<close>

definition order_new_post :: "channel_orders \<Rightarrow> post \<Rightarrow> bool \<Rightarrow> post obj \<Rightarrow> channel_orders nxt option" where
  "order_new_post st p crtEnabled nextPosts =
     (if crtEnabled \<and> root_id p \<noteq> [] then Some Same
      else case get st (channel_id p) of
        None \<Rightarrow> Some Same
      | Some postsForChannel \<Rightarrow>
          let recentBlockIndex = recent_index postsForChannel;
              nextRecentBlock = (case recentBlockIndex of
                  None \<Rightarrow> \<lparr>order = [], recent = Some True, oldest = None\<rparr>
                | Some i \<Rightarrow> postsForChannel ! i);
              ord = order nextRecentBlock;
              changed = (post_id p \<notin> set ord);
              ord = (if changed then post_id p # ord else ord)
          in (case (if pending_post_id p \<noteq> [] \<and> post_id p \<noteq> pending_post_id p
                    then (case indexOf ord (pending_post_id p) of
                            None \<Rightarrow> Some (ord, changed)
                          | Some n \<Rightarrow> map_option (\<lambda>o'. (o', True))
                              (js_sort_lookup (get nextPosts) comparePosts (remove_at n ord)))
                    else Some (ord, changed)) of
                None \<Rightarrow> None
              | Some (ord, changed) \<Rightarrow>
                  if \<not> changed then Some Same
                  else let nextBlock = nextRecentBlock\<lparr>order := ord\<rparr>
                       in Some (New (put (channel_id p)
                            (case recentBlockIndex of
                               None \<Rightarrow> postsForChannel @ [nextBlock]
                             | Some i \<Rightarrow> postsForChannel[i := nextBlock]) st))))"

text \<open>\<open>RECEIVED_POST\<close>\<close>

definition order_post :: "channel_orders \<Rightarrow> post \<Rightarrow> bool \<Rightarrow> channel_orders nxt" where
  "order_post st p crtEnabled =
     (if crtEnabled \<and> root_id p \<noteq> [] then Same
      else if pending_post_id p = [] then Same
      else
        let postsForChannel = get_or [] st (channel_id p)
        in case recent_index postsForChannel of
             None \<Rightarrow> Same
           | Some r \<Rightarrow>
               let recentBlock = postsForChannel ! r
               in (case indexOf (order recentBlock) (pending_post_id p) of
                     None \<Rightarrow> Same
                   | Some index \<Rightarrow>
                       New (put (channel_id p)
                         (postsForChannel[r := recentBlock\<lparr>order := (order recentBlock)[index := post_id p]\<rparr>])
                         st)))"

text \<open>\<open>RECEIVED_POSTS_IN_CHANNEL\<close>\<close>

definition order_posts_in_channel ::
  "channel_orders \<Rightarrow> string list \<Rightarrow> string \<Rightarrow> bool option \<Rightarrow> bool option \<Rightarrow> post obj \<Rightarrow>
     channel_orders nxt option" where
  "order_posts_in_channel st ord channelId recent' oldest' nextPosts =
     (if ord = [] \<and> get st channelId \<noteq> None then Some Same
      else
        let postsForChannel = get_or [] st channelId;
            recentBlockIndex = (if truthy recent' then recent_index postsForChannel else None);
            identical = (case recentBlockIndex of
                None \<Rightarrow> False
              | Some i \<Rightarrow> let r = order (postsForChannel ! i)
                  in length r = length ord \<and> first_of r = first_of ord \<and> last_of r = last_of ord);
            nextPostsForChannel = (case recentBlockIndex of
                None \<Rightarrow> postsForChannel
              | Some i \<Rightarrow> postsForChannel[i := (postsForChannel ! i)\<lparr>recent := Some False\<rparr>])
        in if identical then Some Same
           else map_option (\<lambda>bs. New (put channelId bs st))
                  (mergePostBlocks (nextPostsForChannel @ [\<lparr>order = ord, recent = recent', oldest = oldest'\<rparr>])
                     nextPosts))"

text \<open>\<open>RECEIVED_POSTS_AFTER\<close> and \<open>RECEIVED_POSTS_BEFORE\<close>\<close>

definition order_posts_after ::
  "channel_orders \<Rightarrow> string list \<Rightarrow> string \<Rightarrow> string \<Rightarrow> bool option \<Rightarrow> post obj \<Rightarrow> channel_orders nxt option" where
  "order_posts_after st ord channelId afterPostId recent' nextPosts =
     (if ord = [] then Some Same
      else map_option (\<lambda>bs. New (put channelId bs st))
             (mergePostBlocks
                (get_or [] st channelId @ [\<lparr>order = ord @ [afterPostId], recent = recent', oldest = None\<rparr>])
                nextPosts))"

definition order_posts_before ::
  "channel_orders \<Rightarrow> string list \<Rightarrow> string \<Rightarrow> string \<Rightarrow> bool option \<Rightarrow> post obj \<Rightarrow> channel_orders nxt option" where
  "order_posts_before st ord channelId beforePostId oldest' nextPosts =
     (if ord = [] then Some Same
      else map_option (\<lambda>bs. New (put channelId bs st))
             (mergePostBlocks
                (get_or [] st channelId @ [\<lparr>order = beforePostId # ord, recent = Some False, oldest = oldest'\<rparr>])
                nextPosts))"

text \<open>\<open>RECEIVED_POSTS_SINCE\<close>: from the oldest received id to the newest, each one not seen yet goes in front.\<close>

definition since_step :: "post obj \<Rightarrow> int \<Rightarrow> string list \<Rightarrow> string \<Rightarrow> string list" where
  "since_step nextPosts mostOldestCreateAt ord postId =
     (case get nextPosts postId of
        None \<Rightarrow> ord
      | Some p \<Rightarrow>
          if create_at p \<le> mostOldestCreateAt then ord
          else if postId \<in> set ord then ord
          else postId # ord)"

definition order_posts_since ::
  "channel_orders \<Rightarrow> string list \<Rightarrow> string \<Rightarrow> post obj \<Rightarrow> channel_orders nxt option" where
  "order_posts_since st ord channelId nextPosts =
     (if ord = [] \<and> get st channelId \<noteq> None then Some Same
      else
        let postsForChannel = get_or [] st channelId
        in case recent_index postsForChannel of
             None \<Rightarrow> Some Same
           | Some i \<Rightarrow>
               let recentBlock = postsForChannel ! i
               in (case block_end nextPosts recentBlock of
                     None \<Rightarrow> None
                   | Some mostOldestCreateAt \<Rightarrow>
                       let nextOrder = foldl (since_step nextPosts mostOldestCreateAt) (order recentBlock) (rev ord)
                       in if length nextOrder = length (order recentBlock) then Some Same
                          else map_option
                            (\<lambda>sortedOrder. New (put channelId (postsForChannel[i := recentBlock\<lparr>order := sortedOrder\<rparr>]) st))
                            (js_sort_lookup (get nextPosts) comparePosts nextOrder)))"

text \<open>\<open>POST_DELETED\<close> and \<open>POST_REMOVED\<close>: \<open>filter\<close> with a predicate that can throw.\<close>

fun filter_throwing :: "('a \<Rightarrow> bool option) \<Rightarrow> 'a list \<Rightarrow> 'a list option" where
  "filter_throwing P [] = Some []"
| "filter_throwing P (x # xs) =
     (case P x of
        None \<Rightarrow> None
      | Some b \<Rightarrow> map_option (\<lambda>ys. if b then x # ys else ys) (filter_throwing P xs))"

fun filter_blocks :: "(string \<Rightarrow> bool option) \<Rightarrow> post_order_block list \<Rightarrow> post_order_block list option" where
  "filter_blocks P [] = Some []"
| "filter_blocks P (b # bs) =
     (case filter_throwing P (order b) of
        None \<Rightarrow> None
      | Some ord \<Rightarrow> map_option ((#) (b\<lparr>order := ord\<rparr>)) (filter_blocks P bs))"

definition not_comment_on :: "post obj \<Rightarrow> string \<Rightarrow> string \<Rightarrow> bool option" where
  "not_comment_on prevPosts i postId = map_option (\<lambda>p. root_id p \<noteq> i) (get prevPosts postId)"

definition neither_post_nor_comment :: "post obj \<Rightarrow> string \<Rightarrow> string \<Rightarrow> bool option" where
  "neither_post_nor_comment prevPosts i postId =
     (if postId = i then Some False else not_comment_on prevPosts i postId)"

definition order_filtered ::
  "channel_orders \<Rightarrow> string \<Rightarrow> (string \<Rightarrow> bool option) \<Rightarrow> channel_orders nxt option" where
  "order_filtered st channelId P =
     (let postsForChannel = get_or [] st channelId
      in if postsForChannel = [] then Some Same
         else case filter_blocks P postsForChannel of
           None \<Rightarrow> None
         | Some bs \<Rightarrow>
             if map (length \<circ> order) bs = map (length \<circ> order) postsForChannel then Some Same
             else Some (New (put channelId (removeNonRecentEmptyPostBlocks bs) st)))"

definition order_post_deleted :: "channel_orders \<Rightarrow> post \<Rightarrow> post obj \<Rightarrow> channel_orders nxt option" where
  "order_post_deleted st p prevPosts = order_filtered st (channel_id p) (not_comment_on prevPosts (post_id p))"

definition order_post_removed :: "channel_orders \<Rightarrow> post \<Rightarrow> post obj \<Rightarrow> channel_orders nxt option" where
  "order_post_removed st p prevPosts =
     order_filtered st (channel_id p) (neither_post_nor_comment prevPosts (post_id p))"

definition order_left_channel :: "channel_orders \<Rightarrow> string \<Rightarrow> channel_orders nxt" where
  "order_left_channel st channelId =
     (if get st channelId = None then Same else New (del channelId st))"

fun postsInChannel :: "channel_orders \<Rightarrow> action \<Rightarrow> post obj \<Rightarrow> post obj \<Rightarrow> channel_orders nxt option" where
  "postsInChannel st (PostTypes RESET_POSTS_IN_CHANNEL) prev next' = Some (New [])"
| "postsInChannel st (PostTypes (RECEIVED_NEW_POST p crt)) prev next' = order_new_post st p crt next'"
| "postsInChannel st (PostTypes (RECEIVED_POST p crt)) prev next' = Some (order_post st p crt)"
| "postsInChannel st (PostTypes (RECEIVED_POSTS_IN_CHANNEL l ch r old)) prev next' =
     order_posts_in_channel st (l_order l) ch r old next'"
| "postsInChannel st (PostTypes (RECEIVED_POSTS_AFTER l ch i r)) prev next' =
     order_posts_after st (l_order l) ch i r next'"
| "postsInChannel st (PostTypes (RECEIVED_POSTS_BEFORE l ch i old)) prev next' =
     order_posts_before st (l_order l) ch i old next'"
| "postsInChannel st (PostTypes (RECEIVED_POSTS_SINCE l ch)) prev next' =
     order_posts_since st (l_order l) ch next'"
| "postsInChannel st (PostTypes (POST_DELETED p)) prev next' = order_post_deleted st p prev"
| "postsInChannel st (PostTypes (POST_REMOVED p)) prev next' = order_post_removed st p prev"
| "postsInChannel st (ChannelTypes (LEAVE_CHANNEL ch t)) prev next' = Some (order_left_channel st ch)"
| "postsInChannel st (UserTypes LOGOUT_SUCCESS) prev next' = Some (New [])"
| "postsInChannel st _ prev next' = Some Same"

end
