(* ===== verification/PostOrderProps.thy ===== *)
theory PostOrderProps
  imports PostOrder
begin

text \<open>
  What holds of the blocks of a channel: merging loses and invents no post, leaves blocks that
  do not overlap in time and at most one of them the most recent; and where the code throws.
\<close>

section \<open>Newest first\<close>

abbreviation cr :: "post obj \<Rightarrow> string \<Rightarrow> int" where
  "cr posts i \<equiv> create_at (the (get posts i))"

definition newest_first :: "post obj \<Rightarrow> string list \<Rightarrow> bool" where
  "newest_first posts ord \<longleftrightarrow> sorted_wrt (\<lambda>a b. cr posts b \<le> cr posts a) ord"

definition block_ids :: "post_order_block list \<Rightarrow> string set" where
  "block_ids bs = (\<Union>b \<in> set bs. set (order b))"

lemma block_ids_simps [simp]:
  "block_ids [] = {}" "block_ids (b # bs) = set (order b) \<union> block_ids bs"
  "block_ids (bs @ cs) = block_ids bs \<union> block_ids cs"
  by (auto simp: block_ids_def)

lemma block_ids_cong: "set bs = set cs \<Longrightarrow> block_ids bs = block_ids cs"
  by (simp add: block_ids_def)

lemma block_ids_removeEmpty [simp]: "block_ids (removeNonRecentEmptyPostBlocks bs) = block_ids bs"
  by (auto simp: block_ids_def removeNonRecentEmptyPostBlocks_def)

lemma merge_result:
  "mergePostOrder l r posts = Some m \<Longrightarrow>
     (set r \<subseteq> set l \<and> m = l) \<or>
     (\<not> set r \<subseteq> set l \<and> js_sort_lookup (get posts) compareCreateAt (l @ filter (\<lambda>i. i \<notin> set l) r) = Some m)"
  by (auto simp: mergePostOrder_def filter_empty_conv split: if_splits)

lemma sorted_by_create_at:
  assumes "js_sort_lookup (get posts) compareCreateAt xs = Some ys"
  shows "newest_first posts ys"
proof (cases "2 \<le> length xs")
  case True
  from js_sort_lookup_sorted [OF byCreateAt.comparator_contract_axioms assms True]
  show ?thesis by (simp add: newest_first_def compareCreateAt_le)
next
  case False
  then have "length ys < 2" using js_sort_lookup_length [OF assms] by simp
  then show ?thesis
    by (cases ys; cases "tl ys") (auto simp: newest_first_def)
qed

text \<open>
  Merging two runs of posts: the result holds exactly the posts of both, none twice when
  neither run had one twice, and is ordered newest first; a right run that brings nothing new
  leaves the left one as it was.
\<close>

theorem mergePostOrder_merges:
  assumes "mergePostOrder l r posts = Some m"
  shows "set m = set l \<union> set r \<and> (distinct l \<longrightarrow> distinct r \<longrightarrow> distinct m) \<and>
    (if set r \<subseteq> set l then m = l else newest_first posts m)"
proof -
  let ?x = "l @ filter (\<lambda>i. i \<notin> set l) r"
  from merge_result [OF assms] show ?thesis
  proof (elim disjE conjE)
    assume new: "\<not> set r \<subseteq> set l" and s: "js_sort_lookup (get posts) compareCreateAt ?x = Some m"
    have "set m = set l \<union> set r" using js_sort_lookup_set [OF s] by auto
    moreover have "distinct l \<longrightarrow> distinct r \<longrightarrow> distinct m" using js_sort_lookup_distinct [OF s] by auto
    ultimately show ?thesis using new sorted_by_create_at [OF s] by simp
  qed auto
qed

lemma mergePostOrder_set: "mergePostOrder l r posts = Some m \<Longrightarrow> set m = set l \<union> set r"
  using merge_result js_sort_lookup_set by fastforce

lemma mergePostOrder_newest_first:
  "mergePostOrder l r posts = Some m \<Longrightarrow> newest_first posts l \<Longrightarrow> newest_first posts m"
  using merge_result sorted_by_create_at by blast

lemma mergePostOrder_total:
  "\<forall>i \<in> set l \<union> set r. get posts i \<noteq> None \<Longrightarrow> \<exists>m. mergePostOrder l r posts = Some m"
  by (auto simp: mergePostOrder_def Let_def intro!: js_sort_lookup_total)

section \<open>Adjacent blocks\<close>

text \<open>Every post of block \<open>a\<close> is strictly newer than every post of block \<open>b\<close>.\<close>

definition newer :: "post obj \<Rightarrow> post_order_block \<Rightarrow> post_order_block \<Rightarrow> bool" where
  "newer posts a b \<longleftrightarrow> (\<forall>i \<in> set (order a). \<forall>j \<in> set (order b). cr posts j < cr posts i)"

definition proper :: "post obj \<Rightarrow> post_order_block \<Rightarrow> bool" where
  "proper posts b \<longleftrightarrow> order b \<noteq> [] \<and> newest_first posts (order b)"

definition newest :: "post obj \<Rightarrow> post_order_block \<Rightarrow> int" where
  "newest posts b = cr posts (hd (order b))"

lemma block_start_Some: "block_start posts b = Some t \<Longrightarrow> order b \<noteq> [] \<and> t = newest posts b"
  by (auto simp: block_start_def created_def first_of_def newest_def split: list.splits option.splits)

lemma block_end_Some: "block_end posts b = Some t \<Longrightarrow> order b \<noteq> [] \<and> t = cr posts (last (order b))"
  by (auto simp: block_end_def created_def last_of_def split: if_splits option.splits)

lemma newest_first_top: "proper posts b \<Longrightarrow> i \<in> set (order b) \<Longrightarrow> cr posts i \<le> newest posts b"
  by (cases "order b") (auto simp: proper_def newest_first_def newest_def)

lemma newest_first_last: "proper posts b \<Longrightarrow> i \<in> set (order b) \<Longrightarrow> cr posts (last (order b)) \<le> cr posts i"
  unfolding proper_def newest_first_def
  by (cases "order b" rule: rev_cases) (auto simp: sorted_wrt_append)

lemma mergeAdjacent_ids: "mergeAdjacent posts bs = Some rs \<Longrightarrow> block_ids rs = block_ids bs"
proof (induction posts bs arbitrary: rs rule: mergeAdjacent.induct)
  case (1 posts a b rest)
  then show ?case by (auto split: option.splits if_splits simp: mergePostOrder_set)
qed auto

lemma mergeAdjacent_nonempty: "mergeAdjacent posts bs = Some rs \<Longrightarrow> bs \<noteq> [] \<Longrightarrow> rs \<noteq> []"
  by (induction posts bs arbitrary: rs rule: mergeAdjacent.induct) (auto split: option.splits if_splits)

lemma mergeAdjacent_shorter: "mergeAdjacent posts bs = Some rs \<Longrightarrow> length rs \<le> length bs"
  by (induction posts bs arbitrary: rs rule: mergeAdjacent.induct)
    (fastforce split: option.splits if_splits)+

text \<open>As many as before means none was merged.\<close>

lemma mergeAdjacent_same: "mergeAdjacent posts bs = Some rs \<Longrightarrow> length rs = length bs \<Longrightarrow> rs = bs"
proof (induction posts bs arbitrary: rs rule: mergeAdjacent.induct)
  case (1 posts a b rest)
  then show ?case
    by (force split: option.splits if_splits dest: mergeAdjacent_shorter)
qed auto

definition recents :: "post_order_block list \<Rightarrow> nat" where
  "recents bs = length (filter (\<lambda>b. truthy (recent b)) bs)"

lemma recents_simps [simp]:
  "recents [] = 0" "recents (b # bs) = (if truthy (recent b) then Suc (recents bs) else recents bs)"
  "recents (bs @ cs) = recents bs + recents cs"
  by (auto simp: recents_def)

lemma recents_mset: "mset bs = mset cs \<Longrightarrow> recents bs = recents cs"
  unfolding recents_def by (metis mset_filter size_mset)

lemma recents_removeEmpty [simp]: "recents (removeNonRecentEmptyPostBlocks bs) = recents bs"
  by (induction bs) (auto simp: removeNonRecentEmptyPostBlocks_def)

lemma mergeAdjacent_recents:
  "mergeAdjacent posts bs = Some rs \<Longrightarrow> recents rs \<le> recents bs \<and> (recents rs = 0 \<longleftrightarrow> recents bs = 0)"
proof (induction posts bs arbitrary: rs rule: mergeAdjacent.induct)
  case (1 posts a b rest)
  show ?case
  proof (cases "mergeAdjacent posts (b # rest)")
    case None
    with 1 show ?thesis by (fastforce split: option.splits if_splits)
  next
    case (Some r)
    with 1 show ?thesis by (fastforce split: option.splits if_splits)
  qed
qed auto

lemma mergeAdjacent_separates:
  "mergeAdjacent posts bs = Some rs \<Longrightarrow> (\<forall>b \<in> set bs. proper posts b) \<Longrightarrow>
   sorted_wrt (\<lambda>a b. newest posts b \<le> newest posts a) bs \<Longrightarrow>
   (\<forall>b \<in> set rs. proper posts b) \<and> sorted_wrt (newer posts) rs"
proof (induction posts bs arbitrary: rs rule: mergeAdjacent.induct)
  case (1 posts a b rest)
  obtain ea sb where ea: "block_end posts a = Some ea" and sb: "block_start posts b = Some sb"
    using "1.prems"(1) by (auto split: option.splits)
  show ?case
  proof (cases "ea \<le> sb")
    case True
    then obtain ord where ord: "mergePostOrder (order a) (order b) posts = Some ord"
      and rs: "mergeAdjacent posts (\<lparr>order = ord, recent = flag_or (recent a) (recent b),
                 oldest = flag_or (oldest a) (oldest b)\<rparr> # rest) = Some rs"
      using "1.prems"(1) ea sb by (auto split: option.splits)
    let ?c = "\<lparr>order = ord, recent = flag_or (recent a) (recent b), oldest = flag_or (oldest a) (oldest b)\<rparr>"
    have set_ord: "set ord = set (order a) \<union> set (order b)" by (rule mergePostOrder_set [OF ord])
    have a: "proper posts a" using "1.prems"(2) by simp
    then have c: "proper posts ?c"
      using mergePostOrder_newest_first [OF ord] set_ord by (auto simp: proper_def)
    have "newest posts a \<le> newest posts ?c"
      using newest_first_top [OF c, of "hd (order a)"] a set_ord by (auto simp: newest_def proper_def)
    then have "sorted_wrt (\<lambda>a b. newest posts b \<le> newest posts a) (?c # rest)"
      using "1.prems"(3) by auto
    then show ?thesis
      using "1.IH"(1) [OF ea sb True ord rs] c "1.prems"(2) by auto
  next
    case False
    then obtain rs' where rs': "mergeAdjacent posts (b # rest) = Some rs'" and rs: "rs = a # rs'"
      using "1.prems"(1) ea sb by (auto split: option.splits)
    have IH: "(\<forall>b \<in> set rs'. proper posts b) \<and> sorted_wrt (newer posts) rs'"
      using "1.IH"(2) [OF ea sb False rs'] "1.prems"(2,3) by auto
    have "cr posts j < cr posts i" if "i \<in> set (order a)" "c \<in> set rs'" "j \<in> set (order c)" for i c j
    proof -
      have "j \<in> block_ids (b # rest)"
        using that mergeAdjacent_ids [OF rs'] by (auto simp: block_ids_def)
      then obtain d where d: "d \<in> set (b # rest)" "j \<in> set (order d)" by (auto simp: block_ids_def)
      then have "cr posts j \<le> newest posts d" using "1.prems"(2) newest_first_top by auto
      also have "\<dots> \<le> newest posts b" using "1.prems"(3) d by auto
      also have "\<dots> < cr posts (last (order a))"
        using False block_start_Some [OF sb] block_end_Some [OF ea] by simp
      also have "\<dots> \<le> cr posts i" using newest_first_last "1.prems"(2) that(1) by auto
      finally show ?thesis .
    qed
    then have "\<forall>c \<in> set rs'. newer posts a c" by (auto simp: newer_def)
    then show ?thesis using IH rs "1.prems"(2) by simp
  qed
qed auto

section \<open>mergePostBlocks\<close>

lemma merge_blocks_cases:
  assumes "mergePostBlocks blocks posts = Some res"
  obtains (unchanged) "removeNonRecentEmptyPostBlocks blocks = []" "res = blocks"
  | (merged) sortedBlocks ms where
      "js_sort_lookup (block_start posts) (\<lambda>a b. b - a) (removeNonRecentEmptyPostBlocks blocks) = Some sortedBlocks"
      "mergeAdjacent posts sortedBlocks = Some ms" "mset res = mset ms"
proof (cases "removeNonRecentEmptyPostBlocks blocks = []")
  case True
  then have "res = blocks" using assms by (simp add: mergePostBlocks_def)
  then show ?thesis using unchanged True by blast
next
  case False
  let ?nb = "removeNonRecentEmptyPostBlocks blocks"
  obtain sb where sb: "js_sort_lookup (block_start posts) (\<lambda>a b. b - a) ?nb = Some sb"
    using assms False by (cases "js_sort_lookup (block_start posts) (\<lambda>a b. b - a) ?nb")
      (simp_all add: mergePostBlocks_def Let_def)
  obtain ms where ms: "mergeAdjacent posts sb = Some ms"
    using assms False sb by (cases "mergeAdjacent posts sb") (simp_all add: mergePostBlocks_def Let_def)
  have res: "res = (if length blocks = length ms then blocks else ms)"
    using assms False sb ms by (simp add: mergePostBlocks_def Let_def split: if_splits)
  have "mset blocks = mset ms" if "length blocks = length ms"
  proof -
    have "length sb = length (removeNonRecentEmptyPostBlocks blocks)" using js_sort_lookup_length [OF sb] .
    moreover have "\<dots> \<le> length blocks" by (simp add: removeNonRecentEmptyPostBlocks_def)
    ultimately have "length ms = length sb" "length (removeNonRecentEmptyPostBlocks blocks) = length blocks"
      using mergeAdjacent_shorter [OF ms] that by auto
    then have "ms = sb" "removeNonRecentEmptyPostBlocks blocks = blocks"
      using mergeAdjacent_same [OF ms] length_filter_eq [of _ blocks]
      unfolding removeNonRecentEmptyPostBlocks_def by auto
    then show ?thesis using js_sort_lookup_mset [OF sb] by simp
  qed
  then show ?thesis using merged [OF sb ms] res by (auto split: if_splits)
qed

lemma merged_mset:
  "js_sort_lookup f cmp xs = Some ys \<Longrightarrow> mset zs = mset rs \<Longrightarrow> block_ids zs = block_ids rs"
  by (metis block_ids_cong mset_eq_setD)

lemma mergePostBlocks_ids:
  assumes "mergePostBlocks blocks posts = Some res"
  shows "block_ids res = block_ids blocks"
  using assms
proof (cases rule: merge_blocks_cases)
  case (merged sb ms)
  have "block_ids res = block_ids ms" using merged(3) by (metis block_ids_cong mset_eq_setD)
  also have "\<dots> = block_ids sb" using mergeAdjacent_ids [OF merged(2)] .
  also have "\<dots> = block_ids blocks"
    using block_ids_cong [OF js_sort_lookup_set [OF merged(1)]] by simp
  finally show ?thesis .
qed simp

lemma mergePostBlocks_recents:
  assumes "mergePostBlocks blocks posts = Some res"
  shows "recents res \<le> recents blocks \<and> (recents res = 0 \<longleftrightarrow> recents blocks = 0)"
  using assms
proof (cases rule: merge_blocks_cases)
  case (merged sb ms)
  have "recents sb = recents blocks"
    using recents_mset [OF js_sort_lookup_mset [OF merged(1)]] by simp
  then show ?thesis
    using mergeAdjacent_recents [OF merged(2)] recents_mset [OF merged(3)] by simp
qed simp

interpretation descending: comparator_contract "\<lambda>a b. b - a :: int"
  by unfold_locales auto

text \<open>
  C14. When \<open>mergePostBlocks\<close> returns, no post is lost or invented, the channel has a most
  recent block exactly when it had one, and, if every block was newest first, the blocks can
  be put in an order in which all posts of an earlier block are strictly newer than all posts
  of a later one: no two of them overlap any more.
\<close>

theorem mergePostBlocks_merges:
  assumes "mergePostBlocks blocks posts = Some res"
    and "\<forall>b \<in> set blocks. newest_first posts (order b)"
  shows "block_ids res = block_ids blocks \<and> recents res \<le> recents blocks \<and>
    (recents res = 0 \<longleftrightarrow> recents blocks = 0) \<and>
    (\<exists>bs. mset bs = mset res \<and> sorted_wrt (newer posts) bs)"
proof -
  let ?nb = "removeNonRecentEmptyPostBlocks blocks"
  have "\<exists>bs. mset bs = mset res \<and> sorted_wrt (newer posts) bs"
    using assms(1)
  proof (cases rule: merge_blocks_cases)
    case unchanged
    then have "\<forall>b \<in> set res. order b = []"
      by (auto simp: removeNonRecentEmptyPostBlocks_def filter_empty_conv)
    then have "sorted_wrt (newer posts) res" by (induction res) (auto simp: newer_def)
    then show ?thesis by blast
  next
    case (merged sb ms)
    show ?thesis
    proof (cases "2 \<le> length ?nb")
      case True
      have starts: "block_start posts b \<noteq> None" if "b \<in> set sb" for b
        using js_sort_lookup_found [OF merged(1) True] that js_sort_lookup_set [OF merged(1)] by auto
      have start: "the (block_start posts b) = newest posts b" if "b \<in> set sb" for b
        using starts [OF that] block_start_Some by fastforce
      have "set sb \<subseteq> set blocks"
        using js_sort_lookup_set [OF merged(1)] by (auto simp: removeNonRecentEmptyPostBlocks_def)
      then have "\<forall>b \<in> set sb. proper posts b"
        using assms(2) starts block_start_Some by (fastforce simp: proper_def)
      moreover have "sorted_wrt (\<lambda>a b. newest posts b \<le> newest posts a) sb"
        using js_sort_lookup_sorted [OF descending.comparator_contract_axioms merged(1) True] start
        by (auto intro: sorted_wrt_mono_rel [rotated])
      ultimately show ?thesis using mergeAdjacent_separates [OF merged(2)] merged(3) by metis
    next
      case False
      then have "length ms < 2"
        using js_sort_lookup_length [OF merged(1)] mergeAdjacent_shorter [OF merged(2)] by simp
      then have "sorted_wrt (newer posts) ms" by (cases ms; cases "tl ms") auto
      then show ?thesis using merged(3) by metis
    qed
  qed
  then show ?thesis using mergePostBlocks_ids [OF assms(1)] mergePostBlocks_recents [OF assms(1)] by simp
qed

section \<open>When the code throws\<close>

lemma known_start: "\<forall>i \<in> set (order b). get posts i \<noteq> None \<Longrightarrow> order b \<noteq> [] \<Longrightarrow> block_start posts b \<noteq> None"
  by (cases "order b") (auto simp: block_start_def created_def first_of_def)

lemma known_end: "\<forall>i \<in> set (order b). get posts i \<noteq> None \<Longrightarrow> order b \<noteq> [] \<Longrightarrow> block_end posts b \<noteq> None"
  by (auto simp: block_end_def created_def last_of_def)

lemma mergeAdjacent_total:
  "\<forall>b \<in> set bs. order b \<noteq> [] \<Longrightarrow> \<forall>i \<in> block_ids bs. get posts i \<noteq> None \<Longrightarrow>
     \<exists>rs. mergeAdjacent posts bs = Some rs"
proof (induction posts bs rule: mergeAdjacent.induct)
  case (1 posts a b rest)
  obtain ea sb where ea: "block_end posts a = Some ea" and sb: "block_start posts b = Some sb"
    using 1 known_end [of a posts] known_start [of b posts] by auto
  have "\<forall>i \<in> set (order a) \<union> set (order b). get posts i \<noteq> None" using "1.prems"(2) by auto
  then obtain ord where ord: "mergePostOrder (order a) (order b) posts = Some ord"
    using mergePostOrder_total by blast
  show ?case
  proof (cases "ea \<le> sb")
    case True
    moreover have "ord \<noteq> []" using 1 mergePostOrder_set [OF ord] by auto
    ultimately show ?thesis
      using "1.IH"(1) [OF ea sb True ord] "1.prems" mergePostOrder_set [OF ord] ea sb ord by auto
  next
    case False
    then show ?thesis using "1.IH"(2) [OF ea sb False] "1.prems" ea sb by auto
  qed
qed auto

text \<open>
  \<open>mergePostBlocks\<close> returns whenever the posts of its blocks are loaded and the most
  recent block is not empty.
\<close>

theorem mergePostBlocks_total:
  assumes "\<forall>i \<in> block_ids blocks. get posts i \<noteq> None"
    and "\<forall>b \<in> set blocks. truthy (recent b) \<longrightarrow> order b \<noteq> []"
  shows "\<exists>res. mergePostBlocks blocks posts = Some res"
proof -
  let ?nb = "removeNonRecentEmptyPostBlocks blocks"
  have nb: "\<forall>b \<in> set ?nb. order b \<noteq> []" using assms(2) by (auto simp: removeNonRecentEmptyPostBlocks_def)
  have "block_start posts b \<noteq> None" if "b \<in> set ?nb" for b
  proof (rule known_start)
    show "\<forall>i \<in> set (order b). get posts i \<noteq> None"
      using that assms(1) by (auto simp: block_ids_def removeNonRecentEmptyPostBlocks_def)
  qed (use nb that in auto)
  then obtain sb where sb: "js_sort_lookup (block_start posts) (\<lambda>a b. b - a) ?nb = Some sb"
    using js_sort_lookup_total [of ?nb "block_start posts" "\<lambda>a b. b - a"] by auto
  have "set sb = set ?nb" by (rule js_sort_lookup_set [OF sb])
  then obtain ms where "mergeAdjacent posts sb = Some ms"
    using mergeAdjacent_total [of sb posts] nb assms(1) block_ids_cong [of sb ?nb] by auto
  with sb show ?thesis by (auto simp: mergePostBlocks_def Let_def)
qed

text \<open>
  An empty most recent block, which \<open>removeNonRecentEmptyPostBlocks\<close> keeps when its last
  post is removed, makes the next batch of newer posts throw: \<open>RECEIVED_POSTS_SINCE\<close> whenever it
  brings a post, \<open>RECEIVED_POSTS_AFTER\<close> too, since sorting the blocks reads the first post of
  each.
\<close>

theorem empty_recent_block_throws:
  assumes "get st ch = Some [\<lparr>order = [], recent = Some True, oldest = old\<rparr>]" and "l_order l \<noteq> []"
  shows "postsInChannel st (PostTypes (RECEIVED_POSTS_SINCE l ch)) prev posts = None \<and>
    postsInChannel st (PostTypes (RECEIVED_POSTS_AFTER l ch i r)) prev posts = None"
  using assms
  by (auto simp: order_posts_since_def order_posts_after_def get_or_def recent_index_def block_end_def
      block_start_def created_def last_of_def first_of_def mergePostBlocks_def Let_def
      removeNonRecentEmptyPostBlocks_def js_sort_lookup_def)

section \<open>At most one most recent block\<close>

lemma recent_index_None: "recent_index bs = None \<longleftrightarrow> recents bs = 0"
  by (simp add: recent_index_def findIndex_None recents_def filter_empty_conv)

lemma recent_index_Some: "recent_index bs = Some i \<Longrightarrow> i < length bs \<and> truthy (recent (bs ! i))"
  unfolding recent_index_def by (rule findIndex_Some)

lemma recents_update:
  assumes "i < length bs"
  shows "recents (bs[i := b]) + (if truthy (recent (bs ! i)) then 1 else 0)
           = recents bs + (if truthy (recent b) then 1 else 0)"
proof -
  have "recents bs = recents (take i bs @ bs ! i # drop (Suc i) bs)"
    using id_take_nth_drop [OF assms] by simp
  then show ?thesis using assms by (simp add: upd_conv_take_nth_drop)
qed

lemma recents_update_same [simp]:
  "i < length bs \<Longrightarrow> recents (bs[i := (bs ! i)\<lparr>order := ord\<rparr>]) = recents bs"
  using recents_update [of i bs "(bs ! i)\<lparr>order := ord\<rparr>"] by (auto split: if_splits)

lemma recents_unmark:
  "recent_index bs = Some i \<Longrightarrow> recents (bs[i := (bs ! i)\<lparr>recent := Some False\<rparr>]) = recents bs - 1"
  using recents_update [of i bs "(bs ! i)\<lparr>recent := Some False\<rparr>"] recent_index_Some [of bs i] by simp

lemma filter_blocks_recents: "filter_blocks P bs = Some cs \<Longrightarrow> recents cs = recents bs"
  by (induction bs arbitrary: cs) (auto split: option.splits)

definition one_recent :: "channel_orders \<Rightarrow> bool" where
  "one_recent st \<longleftrightarrow> (\<forall>ch bs. get st ch = Some bs \<longrightarrow> recents bs \<le> 1)"

lemma one_recent_put [intro]: "one_recent st \<Longrightarrow> recents bs \<le> 1 \<Longrightarrow> one_recent (put ch bs st)"
  by (auto simp: one_recent_def)

lemma one_recent_del [intro]: "one_recent st \<Longrightarrow> one_recent (del ch st)"
  by (auto simp: one_recent_def)

lemma one_recent_get: "one_recent st \<Longrightarrow> recents (get_or [] st ch) \<le> 1"
  by (auto simp: one_recent_def get_or_def split: option.splits)

lemma one_recent_new_post:
  assumes st: "one_recent st" and step: "order_new_post st p crt posts = Some n"
  shows "one_recent (upd st n)"
proof (cases n)
  case (New st')
  then obtain bs ord where bs: "get st (channel_id p) = Some bs"
    and st': "st' = put (channel_id p) (case recent_index bs of
          None \<Rightarrow> bs @ [\<lparr>order = ord, recent = Some True, oldest = None\<rparr>]
        | Some i \<Rightarrow> bs[i := (bs ! i)\<lparr>order := ord\<rparr>]) st"
    using step by (fastforce simp: order_new_post_def Let_def split: if_splits option.splits)
  have "recents bs \<le> 1" using st bs by (auto simp: one_recent_def)
  then have "one_recent st'"
    using st st' recent_index_None [of bs] recent_index_Some [of bs] by (auto split: option.splits)
  then show ?thesis using New by simp
qed (use st in simp)

lemma one_recent_merged:
  assumes "one_recent st" "mergePostBlocks bs posts = Some res" "recents bs \<le> 1"
  shows "one_recent (put ch res st)"
  using assms mergePostBlocks_recents [of bs posts res] by auto

text \<open>
  Every step keeps at most one most recent block per channel, if posts loaded after a known
  one are marked as the most recent only while the channel has no most recent block.
\<close>

lemma channel_keeps_one_recent_block:
  assumes st: "one_recent st" and step: "postsInChannel st a prev posts = Some n"
    and after: "\<And>l ch i r. a = PostTypes (RECEIVED_POSTS_AFTER l ch i r) \<Longrightarrow> truthy r \<Longrightarrow>
      recents (get_or [] st ch) = 0"
  shows "one_recent (upd st n)"
proof -
  have received: "one_recent (upd st (order_post st p crt))" for p crt
    using st one_recent_get [OF st] recent_index_Some
    by (auto simp: order_post_def Let_def split: option.splits)
  have in_channel: "one_recent (upd st n)" if "order_posts_in_channel st ord ch r old posts = Some n" for ord ch r old n
    using that st one_recent_get [OF st, of ch] recents_unmark [of "get_or [] st ch"]
      recent_index_None [of "get_or [] st ch"]
    by (auto simp: order_posts_in_channel_def Let_def split: if_splits option.splits
        intro!: one_recent_merged)
  have before: "one_recent (upd st n)" if "order_posts_before st ord ch i old posts = Some n" for ord ch i old n
    using that st one_recent_get [OF st, of ch]
    by (auto simp: order_posts_before_def split: if_splits intro!: one_recent_merged)
  have afterwards: "one_recent (upd st n)"
    if "order_posts_after st ord ch i r posts = Some n" "truthy r \<Longrightarrow> recents (get_or [] st ch) = 0" for ord ch i r n
    using that st one_recent_get [OF st, of ch]
    by (auto simp: order_posts_after_def split: if_splits intro!: one_recent_merged)
  have since: "one_recent (upd st n)" if "order_posts_since st ord ch posts = Some n" for ord ch n
    using that st one_recent_get [OF st, of ch] recent_index_Some [of "get_or [] st ch"]
    by (auto simp: order_posts_since_def Let_def split: if_splits option.splits intro!: one_recent_put)
  have filtered: "one_recent (upd st n)" if "order_filtered st ch P = Some n" for ch P n
    using that st one_recent_get [OF st, of ch] filter_blocks_recents
    by (fastforce simp: order_filtered_def Let_def split: if_splits option.splits)
  from step st show ?thesis
    by (cases "(st, a, prev, posts)" rule: postsInChannel.cases)
      (auto simp: order_post_deleted_def order_post_removed_def order_left_channel_def one_recent_def [of "[]"]
        intro: received in_channel before afterwards after since filtered one_recent_new_post)
qed

section \<open>New posts in a loaded channel\<close>

lemma sorted_by_comparePosts:
  assumes "js_sort_lookup (get posts) comparePosts xs = Some ys"
  shows "sorted_wrt (\<lambda>a b. comparePosts (the (get posts a)) (the (get posts b)) \<le> 0) ys"
proof (cases "2 \<le> length xs")
  case True
  then show ?thesis by (rule js_sort_lookup_sorted [OF byCompare.comparator_contract_axioms assms])
next
  case False
  then have "length ys < 2" using js_sort_lookup_length [OF assms] by simp
  then show ?thesis by (cases ys; cases "tl ys") auto
qed

text \<open>
  When the created copy of a pending post arrives in a loaded channel, the most recent
  block holds its id once and the pending id no more, everything else it held, and is in
  the order of \<open>comparePosts\<close>: posts still pending or failed first, the others newest first.
\<close>

theorem created_post_replaces_pending:
  assumes bs: "get st (channel_id p) = Some bs" and i: "recent_index bs = Some i"
    and pending: "pending_post_id p \<in> set (order (bs ! i))" "pending_post_id p \<noteq> []" "post_id p \<noteq> pending_post_id p"
    and distinct: "distinct (order (bs ! i))" and listed: "\<not> (crt \<and> root_id p \<noteq> [])"
    and known: "\<forall>j \<in> insert (post_id p) (set (order (bs ! i)) - {pending_post_id p}). get posts j \<noteq> None"
  shows "\<exists>ord. postsInChannel st (PostTypes (RECEIVED_NEW_POST p crt)) prev posts
        = Some (New (put (channel_id p) (bs[i := (bs ! i)\<lparr>order := ord\<rparr>]) st)) \<and>
      distinct ord \<and> set ord = insert (post_id p) (set (order (bs ! i)) - {pending_post_id p}) \<and>
      sorted_wrt (\<lambda>a b. comparePosts (the (get posts a)) (the (get posts b)) \<le> 0) ord"
proof -
  let ?o = "order (bs ! i)"
  define ord where "ord = (if post_id p \<notin> set ?o then post_id p # ?o else ?o)"
  have ord: "distinct ord" "set ord = insert (post_id p) (set ?o)" using distinct by (auto simp: ord_def)
  obtain n where n: "indexOf ord (pending_post_id p) = Some n"
    using pending ord by (cases "indexOf ord (pending_post_id p)") (auto simp: indexOf_None)
  have left: "remove_at n ord = remove1 (pending_post_id p) ord" by (rule remove_at_indexOf [OF n])
  have set_left: "set (remove_at n ord) = insert (post_id p) (set ?o - {pending_post_id p})"
    using ord pending left by auto
  obtain ys where ys: "js_sort_lookup (get posts) comparePosts (remove_at n ord) = Some ys"
    using js_sort_lookup_total [of "remove_at n ord" "get posts" comparePosts] known set_left by auto
  have "distinct ys" "set ys = set (remove_at n ord)"
    using js_sort_lookup_distinct [OF ys] js_sort_lookup_set [OF ys] ord left by auto
  moreover have "postsInChannel st (PostTypes (RECEIVED_NEW_POST p crt)) prev posts
      = Some (New (put (channel_id p) (bs[i := (bs ! i)\<lparr>order := ys\<rparr>]) st))"
  proof (cases "post_id p \<in> set ?o")
    case True
    then show ?thesis
      using bs i pending listed n ys by (auto simp: order_new_post_def Let_def ord_def)
  next
    case False
    then show ?thesis
      using bs i pending listed n ys by (auto simp: order_new_post_def Let_def ord_def)
  qed
  ultimately show ?thesis using set_left sorted_by_comparePosts [OF ys] by metis
qed

lemma since_loop_set:
  "set (foldl (since_step posts t) ord xs)
     = set ord \<union> {j \<in> set xs. \<exists>q. get posts j = Some q \<and> t < create_at q}"
  by (induction xs arbitrary: ord) (auto simp: since_step_def split: option.splits if_splits)

lemma since_loop_distinct: "distinct ord \<Longrightarrow> distinct (foldl (since_step posts t) ord xs)"
  by (induction xs arbitrary: ord) (auto simp: since_step_def split: option.splits if_splits)

lemma since_loop_length: "length ord \<le> length (foldl (since_step posts t) ord xs)"
proof (induction xs arbitrary: ord)
  case (Cons x xs)
  have "length ord \<le> length (since_step posts t ord x)"
    by (simp add: since_step_def split: option.splits)
  then show ?case using Cons [of "since_step posts t ord x"] by simp
qed simp

lemma since_loop_same:
  "length (foldl (since_step posts t) ord xs) = length ord \<Longrightarrow> foldl (since_step posts t) ord xs = ord"
proof (induction xs arbitrary: ord)
  case (Cons x xs)
  show ?case
  proof (cases "since_step posts t ord x = ord")
    case False
    then have "length (since_step posts t ord x) = Suc (length ord)"
      by (auto simp: since_step_def split: option.splits if_splits)
    then show ?thesis using since_loop_length [of "since_step posts t ord x" posts t xs] Cons.prems by simp
  qed (use Cons in simp)
qed simp

text \<open>
  Posts received since the last disconnect: the most recent block keeps what it had and
  gains exactly the received posts that are loaded and newer than its oldest one, once each.
\<close>

theorem posts_since_added:
  assumes bs: "get st ch = Some bs" and i: "recent_index bs = Some i" and ord: "l_order l \<noteq> []"
    and start: "block_end posts (bs ! i) = Some t" and distinct: "distinct (order (bs ! i))"
    and known: "\<forall>j \<in> set (order (bs ! i)). get posts j \<noteq> None"
  shows "\<exists>n b. postsInChannel st (PostTypes (RECEIVED_POSTS_SINCE l ch)) prev posts = Some n \<and>
    get (upd st n) ch = Some (bs[i := b]) \<and> distinct (order b) \<and>
    set (order b) = set (order (bs ! i)) \<union> {j \<in> set (l_order l). \<exists>q. get posts j = Some q \<and> t < create_at q}"
proof -
  let ?new = "foldl (since_step posts t) (order (bs ! i)) (rev (l_order l))"
  have i': "i < length bs" using recent_index_Some [OF i] by simp
  show ?thesis
  proof (cases "length ?new = length (order (bs ! i))")
    case True
    then have "set ?new = set (order (bs ! i))" using since_loop_same by metis
    with True show ?thesis
      using bs i i' ord start distinct
      by (auto simp: order_posts_since_def get_or_def Let_def since_loop_set intro!: exI [of _ Same] exI [of _ "bs ! i"])
  next
    case False
    have "\<forall>j \<in> set ?new. get posts j \<noteq> None" using known by (auto simp: since_loop_set)
    then obtain ys where ys: "js_sort_lookup (get posts) comparePosts ?new = Some ys"
      using js_sort_lookup_total by blast
    have "set ys = set ?new" "distinct ys"
      using js_sort_lookup_set [OF ys] js_sort_lookup_distinct [OF ys] since_loop_distinct [OF distinct] by auto
    with False show ?thesis
      using bs i i' ord start ys
      by (auto simp: order_posts_since_def get_or_def Let_def since_loop_set
          intro!: exI [of _ "New _"] exI [of _ "(bs ! i)\<lparr>order := ys\<rparr>"])
  qed
qed

section \<open>Witnesses\<close>

definition loaded :: "post obj" where
  "loaded = [(''a'', sample ''a'' ''ch'' [] 1), (''b'', sample ''b'' ''ch'' [] 2),
             (''c'', sample ''c'' ''ch'' [] 3), (''d'', sample ''d'' ''ch'' [] 4)]"

definition run :: "string list \<Rightarrow> bool \<Rightarrow> post_order_block" where
  "run ids r = \<lparr>order = ids, recent = Some r, oldest = None\<rparr>"

lemmas loaded_defs = loaded_def run_def sample_defs

theorem mergePostOrder_merges_witness:
  "mergePostOrder [''d'', ''b''] [''c'', ''b''] loaded = Some [''d'', ''c'', ''b''] \<and>
   newest_first loaded [''d'', ''c'', ''b'']"
proof -
  have m: "mergePostOrder [''d'', ''b''] [''c'', ''b''] loaded = Some [''d'', ''c'', ''b'']" by code_simp
  from mergePostOrder_merges [OF m] show ?thesis using m by simp
qed

theorem mergePostBlocks_merges_witness:
  "\<exists>res. mergePostBlocks [run [''b'', ''a''] False, run [''d'', ''c'', ''b''] True] loaded = Some res \<and>
     block_ids res = {''a'', ''b'', ''c'', ''d''}"
proof -
  let ?bs = "[run [''b'', ''a''] False, run [''d'', ''c'', ''b''] True]"
  obtain res where res: "mergePostBlocks ?bs loaded = Some res"
    using mergePostBlocks_total [of ?bs loaded] by (auto simp: loaded_defs)
  have "\<forall>b \<in> set ?bs. newest_first loaded (order b)"
    by (simp add: newest_first_def loaded_defs)
  from mergePostBlocks_merges [OF res this] res show ?thesis by (auto simp: run_def)
qed

theorem mergePostBlocks_total_witness:
  "\<exists>res. mergePostBlocks [run [''b'', ''a''] False, run [''d''] True] loaded = Some res"
  by (rule mergePostBlocks_total) (auto simp: loaded_defs)

theorem empty_recent_block_throws_witness:
  "postsInChannel [(''ch'', [run [] True])]
     (PostTypes (RECEIVED_POSTS_SINCE (sample_list [''d''] []) ''ch'')) [] loaded = None"
  using empty_recent_block_throws [of "[(''ch'', [run [] True])]" "''ch''" None "sample_list [''d''] []"]
  by (simp add: run_def sample_list_def)

theorem created_post_replaces_pending_witness:
  "\<exists>ord. postsInChannel [(''ch'', [run [''tmp'', ''b''] True])]
      (PostTypes (RECEIVED_NEW_POST (upd_core (p_pending_post_id_update (\<lambda>_. ''tmp'')) (sample ''d'' ''ch'' [] 4)) False))
      [] loaded = Some (New [(''ch'', [run ord True])]) \<and> set ord = {''d'', ''b''}"
  using created_post_replaces_pending
    [of "[(''ch'', [run [''tmp'', ''b''] True])]"
      "upd_core (p_pending_post_id_update (\<lambda>_. ''tmp'')) (sample ''d'' ''ch'' [] 4)"
      "[run [''tmp'', ''b''] True]" 0 False loaded "[]"]
  by (auto simp: recent_index_def loaded_defs)

theorem posts_since_added_witness:
  "\<exists>n b. postsInChannel [(''ch'', [run [''b''] True])]
      (PostTypes (RECEIVED_POSTS_SINCE (sample_list [''d'', ''c'', ''a''] []) ''ch'')) [] loaded = Some n \<and>
    get (upd [(''ch'', [run [''b''] True])] n) ''ch'' = Some [b] \<and> {''d'', ''b''} \<subseteq> set (order b)"
  using posts_since_added [of "[(''ch'', [run [''b''] True])]" "''ch''" "[run [''b''] True]" 0
      "sample_list [''d'', ''c'', ''a''] []" loaded 2 "[]"]
  by (fastforce simp: recent_index_def block_end_def created_def last_of_def loaded_defs)

end
