(* ===== verification/PostThreads.thy ===== *)
theory PostThreads
  imports PostUtils Samples
begin

text \<open>
  What \<open>reducers/entities/posts.ts\<close> keeps beside the posts and their order: the comments of a
  thread (\<open>postsInThread\<close>), reactions, acknowledgements, link previews (\<open>openGraph\<close>), the edit
  history, the message history and the markers of views the plan limits hide messages in.
\<close>

section \<open>postsInThread\<close>

type_synonym threads = "string list obj"

text \<open>\<open>RECEIVED_NEW_POST\<close> and \<open>RECEIVED_POST\<close>\<close>

definition thread_new_post :: "threads \<Rightarrow> post \<Rightarrow> threads nxt" where
  "thread_new_post st p =
     (if root_id p = [] then Same
      else
        let postsForThread = get_or [] st (root_id p);
            changed = post_id p \<notin> set postsForThread;
            nextPostsForThread = (if changed then postsForThread @ [post_id p] else postsForThread);
            (nextPostsForThread, changed) =
              (if pending_post_id p \<noteq> [] \<and> post_id p \<noteq> pending_post_id p
               then (case indexOf nextPostsForThread (pending_post_id p) of
                       None \<Rightarrow> (nextPostsForThread, changed)
                     | Some n \<Rightarrow> (remove_at n nextPostsForThread, True))
               else (nextPostsForThread, changed))
        in if \<not> changed then Same else New (put (root_id p) nextPostsForThread st))"

definition push_new :: "string \<Rightarrow> string list \<Rightarrow> string list" where
  "push_new i ids = (if i \<in> set ids then ids else ids @ [i])"

text \<open>\<open>RECEIVED_POSTS_AFTER\<close>, \<open>_BEFORE\<close>, \<open>_IN_CHANNEL\<close>, \<open>_SINCE\<close>\<close>

definition group_step :: "threads \<Rightarrow> threads \<Rightarrow> post \<Rightarrow> threads" where
  "group_step st nextState p =
     (if root_id p = [] then nextState
      else put (root_id p)
             (push_new (post_id p)
                (case get nextState (root_id p) of Some ids \<Rightarrow> ids | None \<Rightarrow> get_or [] st (root_id p)))
             nextState)"

definition thread_posts :: "threads \<Rightarrow> post list \<Rightarrow> threads nxt" where
  "thread_posts st newPosts =
     (if newPosts = [] then Same
      else
        let nextState = foldl (group_step st) [] newPosts
        in if obj_keys nextState = [] then Same else New (obj_spread st nextState))"

text \<open>\<open>RECEIVED_POSTS_IN_THREAD\<close>\<close>

definition thread_posts_in_thread :: "threads \<Rightarrow> post list \<Rightarrow> string \<Rightarrow> threads nxt" where
  "thread_posts_in_thread st newPosts rootId =
     (if newPosts = [] then Same
      else New (put rootId
             (foldl (\<lambda>ids p. if root_id p \<noteq> rootId then ids else push_new (post_id p) ids)
                (get_or [] st rootId) newPosts) st))"

definition thread_drop_root :: "threads \<Rightarrow> string \<Rightarrow> threads nxt" where
  "thread_drop_root st i = (if get st i = None then Same else New (del i st))"

definition thread_post_removed :: "threads \<Rightarrow> post \<Rightarrow> threads nxt" where
  "thread_post_removed st p =
     (if root_id p \<noteq> [] then
        (case get st (root_id p) of
           None \<Rightarrow> Same
         | Some postsForThread \<Rightarrow>
             (case findIndex (\<lambda>i. i = post_id p) postsForThread of
                None \<Rightarrow> Same
              | Some n \<Rightarrow> New (put (root_id p) (remove_at n postsForThread) st)))
      else thread_drop_root st (post_id p))"

definition thread_left_channel :: "threads \<Rightarrow> string \<Rightarrow> post obj \<Rightarrow> threads nxt" where
  "thread_left_channel st channelId prevPosts =
     (let gone = filter (\<lambda>i. case get prevPosts i of None \<Rightarrow> False | Some q \<Rightarrow> channel_id q = channelId)
                   (obj_keys st)
      in if gone = [] then Same else New (foldl (\<lambda>ns i. del i ns) st gone))"

fun postsInThread :: "threads \<Rightarrow> action \<Rightarrow> post obj \<Rightarrow> threads nxt" where
  "postsInThread st (PostTypes (RECEIVED_NEW_POST p crt)) prev = thread_new_post st p"
| "postsInThread st (PostTypes (RECEIVED_POST p crt)) prev = thread_new_post st p"
| "postsInThread st (PostTypes (RECEIVED_POSTS_AFTER l ch i r)) prev = thread_posts st (obj_values (l_posts l))"
| "postsInThread st (PostTypes (RECEIVED_POSTS_BEFORE l ch i old)) prev = thread_posts st (obj_values (l_posts l))"
| "postsInThread st (PostTypes (RECEIVED_POSTS_IN_CHANNEL l ch r old)) prev = thread_posts st (obj_values (l_posts l))"
| "postsInThread st (PostTypes (RECEIVED_POSTS_SINCE l ch)) prev = thread_posts st (obj_values (l_posts l))"
| "postsInThread st (PostTypes (RECEIVED_POSTS_IN_THREAD l i)) prev =
     thread_posts_in_thread st (obj_values (l_posts l)) i"
| "postsInThread st (PostTypes (POST_DELETED p)) prev = thread_drop_root st (post_id p)"
| "postsInThread st (PostTypes (POST_REMOVED p)) prev = thread_post_removed st p"
| "postsInThread st (ChannelTypes (LEAVE_CHANNEL ch t)) prev = thread_left_channel st ch prev"
| "postsInThread st (UserTypes LOGOUT_SUCCESS) prev = New []"
| "postsInThread st _ prev = Same"

section \<open>postEditHistory and currentFocusedPostId\<close>

fun postEditHistory :: "post list \<Rightarrow> action \<Rightarrow> post list nxt" where
  "postEditHistory st (PostTypes (RECEIVED_POST_HISTORY ps)) = New ps"
| "postEditHistory st (UserTypes LOGOUT_SUCCESS) = New []"
| "postEditHistory st _ = Same"

text \<open>Strings are compared by value: an equal one is the same.\<close>

definition next_string :: "string \<Rightarrow> string \<Rightarrow> string nxt" where
  "next_string st s = (if s = st then Same else New s)"

fun currentFocusedPostId :: "string \<Rightarrow> action \<Rightarrow> string nxt" where
  "currentFocusedPostId st (PostTypes (RECEIVED_FOCUSED_POST i)) = next_string st i"
| "currentFocusedPostId st (UserTypes LOGOUT_SUCCESS) = next_string st []"
| "currentFocusedPostId st _ = Same"

section \<open>Reactions\<close>

type_synonym reactions_state = "reaction obj obj"

definition reaction_key :: "reaction \<Rightarrow> string" where
  "reaction_key r = r_user_id r @ ''-'' @ r_emoji_name r"

definition reaction_received :: "reactions_state \<Rightarrow> reaction \<Rightarrow> reactions_state nxt" where
  "reaction_received st r =
     New (put (r_post_id r) (put (reaction_key r) r (get_or [] st (r_post_id r))) st)"

definition reaction_deleted :: "reactions_state \<Rightarrow> reaction \<Rightarrow> reactions_state nxt" where
  "reaction_deleted st r =
     (let nextReactions = get_or [] st (r_post_id r)
      in if get nextReactions (reaction_key r) = None then Same
         else New (put (r_post_id r) (del (reaction_key r) nextReactions) st))"

definition reactions_by_key :: "reaction list \<Rightarrow> reaction obj" where
  "reactions_by_key rs = foldl (\<lambda>ob r. put (reaction_key r) r ob) [] rs"

definition storeReactionsForPost :: "reactions_state \<Rightarrow> post \<Rightarrow> reactions_state nxt" where
  "storeReactionsForPost st p =
     (case metadata p of
        None \<Rightarrow> Same
      | Some m \<Rightarrow>
          if 0 < delete_at p then Same
          else New (put (post_id p)
                 (reactions_by_key (case m_reactions (meta_core m) of None \<Rightarrow> [] | Some rs \<Rightarrow> rs)) st))"

text \<open>\<open>posts.reduce(f, state)\<close>: the very state when no step changes it.\<close>

fun reduce_nxt :: "('s \<Rightarrow> 'a \<Rightarrow> 's nxt) \<Rightarrow> 's \<Rightarrow> 'a list \<Rightarrow> 's nxt" where
  "reduce_nxt f st [] = Same"
| "reduce_nxt f st (x # xs) =
     (case f st x of
        Same \<Rightarrow> reduce_nxt f st xs
      | New st' \<Rightarrow> New (upd st' (reduce_nxt f st' xs)))"

text \<open>\<open>POST_DELETED\<close> and \<open>POST_REMOVED\<close> of \<open>reactions\<close> and \<open>acknowledgements\<close>\<close>

definition drop_entry :: "'v obj \<Rightarrow> string \<Rightarrow> 'v obj nxt" where
  "drop_entry st i = (if get st i = None then Same else New (del i st))"

fun reactions :: "reactions_state \<Rightarrow> action \<Rightarrow> reactions_state nxt" where
  "reactions st (PostTypes (RECEIVED_REACTION r)) = reaction_received st r"
| "reactions st (PostTypes (REACTION_DELETED r)) = reaction_deleted st r"
| "reactions st (PostTypes (RECEIVED_NEW_POST p crt)) = storeReactionsForPost st p"
| "reactions st (PostTypes (RECEIVED_POST p crt)) = storeReactionsForPost st p"
| "reactions st (PostTypes (RECEIVED_POSTS l ch)) =
     reduce_nxt storeReactionsForPost st (obj_values (l_posts l))"
| "reactions st (PostTypes (POST_DELETED p)) = drop_entry st (post_id p)"
| "reactions st (PostTypes (POST_REMOVED p)) = drop_entry st (post_id p)"
| "reactions st (UserTypes LOGOUT_SUCCESS) = New []"
| "reactions st _ = Same"

section \<open>Acknowledgements\<close>

type_synonym acks_state = "int obj obj"

definition ack_created :: "acks_state \<Rightarrow> post_acknowledgement \<Rightarrow> acks_state nxt" where
  "ack_created st a =
     New (put (a_post_id a) (put (a_user_id a) (a_acknowledged_at a) (get_or [] st (a_post_id a))) st)"

text \<open>A stored time of 0 counts as none; a later one wins over the deletion.\<close>

definition ack_deleted :: "acks_state \<Rightarrow> post_acknowledgement \<Rightarrow> acks_state nxt" where
  "ack_deleted st a =
     (case get st (a_post_id a) of
        None \<Rightarrow> Same
      | Some acks \<Rightarrow>
          if get_or 0 acks (a_user_id a) = 0 then Same
          else if get_or 0 acks (a_user_id a) > a_acknowledged_at a then Same
          else New (put (a_post_id a) (del (a_user_id a) acks) st))"

definition acks_by_user :: "post_acknowledgement list \<Rightarrow> int obj" where
  "acks_by_user as = foldl (\<lambda>ob a. put (a_user_id a) (a_acknowledged_at a) ob) [] as"

definition storeAcknowledgementsForPost :: "acks_state \<Rightarrow> post \<Rightarrow> acks_state nxt" where
  "storeAcknowledgementsForPost st p =
     (case metadata p of
        None \<Rightarrow> Same
      | Some m \<Rightarrow>
          (case m_acknowledgements (meta_core m) of
             None \<Rightarrow> Same
           | Some as \<Rightarrow>
               if as = [] \<or> 0 < delete_at p then Same
               else New (put (post_id p) (acks_by_user as) st)))"

fun acknowledgements :: "acks_state \<Rightarrow> action \<Rightarrow> acks_state nxt" where
  "acknowledgements st (PostTypes (CREATE_ACK_POST_SUCCESS a)) = ack_created st a"
| "acknowledgements st (PostTypes (DELETE_ACK_POST_SUCCESS a)) = ack_deleted st a"
| "acknowledgements st (PostTypes (RECEIVED_POST p crt)) = storeAcknowledgementsForPost st p"
| "acknowledgements st (PostTypes (RECEIVED_POSTS l ch)) =
     reduce_nxt storeAcknowledgementsForPost st (obj_values (l_posts l))"
| "acknowledgements st (PostTypes (POST_DELETED p)) = drop_entry st (post_id p)"
| "acknowledgements st (PostTypes (POST_REMOVED p)) = drop_entry st (post_id p)"
| "acknowledgements st (UserTypes LOGOUT_SUCCESS) = New []"
| "acknowledgements st _ = Same"

section \<open>Link previews\<close>

type_synonym opengraph_state = "embed_data obj obj"

text \<open>The reducer over the embeds of a previewed post: its first link preview, once.\<close>

definition opengraph_of_preview :: "string \<Rightarrow> opengraph_state \<Rightarrow> post_embed \<Rightarrow> opengraph_state nxt" where
  "opengraph_of_preview i nextState e =
     (if embed_type e \<noteq> ''opengraph'' \<or> get nextState i \<noteq> None then Same
      else case embed_data e of
        None \<Rightarrow> Same
      | Some d \<Rightarrow> New (put i [(embed_url e, d)] nextState))"

text \<open>The embeds to look at when the embed is a permalink with a previewed post that has some.\<close>

definition previewed_embeds :: "post_embed \<Rightarrow> (string \<times> post_embed list) option" where
  "previewed_embeds e =
     (if embed_type e = ''permalink'' then
        (case embed_data e of
           Some (PreviewData pv (Some q)) \<Rightarrow>
             (case metadata q of
                None \<Rightarrow> None
              | Some m \<Rightarrow> map_option (Pair (post_id q)) (embeds m))
         | _ \<Rightarrow> None)
      else None)"

definition opengraph_of_embed :: "string \<Rightarrow> opengraph_state \<Rightarrow> post_embed \<Rightarrow> opengraph_state nxt" where
  "opengraph_of_embed postId nextState e =
     (case previewed_embeds e of
        Some (i, es) \<Rightarrow> reduce_nxt (opengraph_of_preview i) nextState es
      | None \<Rightarrow>
          if embed_type e \<noteq> ''opengraph'' then Same
          else case embed_data e of
            None \<Rightarrow> Same
          | Some d \<Rightarrow> New (put postId (put (embed_url e) d (get_or [] nextState postId)) nextState))"

definition storeOpenGraphForPost :: "opengraph_state \<Rightarrow> post \<Rightarrow> opengraph_state nxt" where
  "storeOpenGraphForPost st p =
     (case metadata p of
        None \<Rightarrow> Same
      | Some m \<Rightarrow>
          (case embeds m of
             None \<Rightarrow> Same
           | Some es \<Rightarrow> reduce_nxt (opengraph_of_embed (post_id p)) st es))"

fun openGraph :: "opengraph_state \<Rightarrow> action \<Rightarrow> opengraph_state nxt" where
  "openGraph st (PostTypes (RECEIVED_NEW_POST p crt)) = storeOpenGraphForPost st p"
| "openGraph st (PostTypes (RECEIVED_POST p crt)) = storeOpenGraphForPost st p"
| "openGraph st (PostTypes (RECEIVED_POSTS l ch)) =
     reduce_nxt storeOpenGraphForPost st (obj_values (l_posts l))"
| "openGraph st (UserTypes LOGOUT_SUCCESS) = New []"
| "openGraph st _ = Same"

section \<open>The message history\<close>

text \<open>Both index objects the code builds have the properties \<open>post\<close> and \<open>comment\<close>.\<close>

definition history_index :: "int \<Rightarrow> int obj" where
  "history_index n = [(''post'', n), (''comment'', n)]"

definition history_add :: "message_history \<Rightarrow> string \<Rightarrow> message_history" where
  "history_add st s =
     (let nextMessages = (case h_messages st of None \<Rightarrow> [] | Some ms \<Rightarrow> ms) @ [s];
          nextIndex = history_index (int (length nextMessages));
          nextMessages = (if length nextMessages > MAX_PREV_MSGS
                          then take MAX_PREV_MSGS (drop 1 nextMessages) else nextMessages)
      in \<lparr>h_messages = Some nextMessages, h_index = Some nextIndex\<rparr>)"

definition history_length :: "message_history \<Rightarrow> int" where
  "history_length st = (case h_messages st of None \<Rightarrow> 0 | Some ms \<Rightarrow> int (length ms))"

definition history_current :: "message_history \<Rightarrow> int obj" where
  "history_current st = (case h_index st of None \<Rightarrow> history_index (- 1) | Some ix \<Rightarrow> ix)"

definition history_reset :: "message_history \<Rightarrow> string \<Rightarrow> message_history" where
  "history_reset st ty = st\<lparr>h_index := Some (put ty (history_length st) (history_current st))\<rparr>"

text \<open>Comparing an \<open>undefined\<close> index with a number is false, so the index then stays.\<close>

definition history_back :: "message_history \<Rightarrow> string \<Rightarrow> message_history" where
  "history_back st ty =
     (let nextIndex = history_current st
      in st\<lparr>h_index := Some (case get nextIndex ty of
           None \<Rightarrow> nextIndex
         | Some n \<Rightarrow> if n > 0 then put ty (n - 1) nextIndex else nextIndex)\<rparr>)"

definition history_forward :: "message_history \<Rightarrow> string \<Rightarrow> message_history" where
  "history_forward st ty =
     (let nextIndex = history_current st
      in st\<lparr>h_index := Some (case get nextIndex ty of
           None \<Rightarrow> nextIndex
         | Some n \<Rightarrow> if n < history_length st then put ty (n + 1) nextIndex else nextIndex)\<rparr>)"

definition empty_history :: message_history where
  "empty_history = \<lparr>h_messages = Some [], h_index = Some (history_index (- 1))\<rparr>"

fun messagesHistory :: "message_history \<Rightarrow> action \<Rightarrow> message_history nxt" where
  "messagesHistory st (PostTypes (ADD_MESSAGE_INTO_HISTORY s)) = New (history_add st s)"
| "messagesHistory st (PostTypes (RESET_HISTORY_INDEX ty)) = New (history_reset st ty)"
| "messagesHistory st (PostTypes (MOVE_HISTORY_INDEX_BACK ty)) = New (history_back st ty)"
| "messagesHistory st (PostTypes (MOVE_HISTORY_INDEX_FORWARD ty)) = New (history_forward st ty)"
| "messagesHistory st (UserTypes LOGOUT_SUCCESS) = New empty_history"
| "messagesHistory st _ = Same"

text \<open>
  \<open>makeGetMessageInHistoryItem\<close> of \<open>selectors/entities/posts.ts\<close>, what the input box shows.
  It throws when there is no index object; an index that is \<open>undefined\<close> fails both comparisons.
\<close>

definition getMessageInHistoryItem :: "string \<Rightarrow> message_history \<Rightarrow> string option" where
  "getMessageInHistoryItem ty st =
     (case h_index st of
        None \<Rightarrow> None
      | Some ix \<Rightarrow>
          Some (case (get ix ty, h_messages st) of
             (Some idx, Some messages) \<Rightarrow>
               if idx \<ge> 0 \<and> int (length messages) > idx then messages ! nat idx else []
           | _ \<Rightarrow> []))"

section \<open>Limited views\<close>

definition zeroStateLimitedViews :: limited_views where
  "zeroStateLimitedViews = \<lparr>lv_channels = [], lv_threads = []\<rparr>"

definition limited_channel :: "limited_views \<Rightarrow> post_list \<Rightarrow> string \<Rightarrow> limited_views nxt" where
  "limited_channel st l channelId =
     (if l_first_inaccessible_post_time l \<noteq> 0 \<and> channelId \<noteq> []
      then New (st\<lparr>lv_channels := put channelId (l_first_inaccessible_post_time l) (lv_channels st)\<rparr>)
      else Same)"

definition limited_thread :: "limited_views \<Rightarrow> post_list \<Rightarrow> string \<Rightarrow> limited_views nxt" where
  "limited_thread st l rootId =
     (if l_first_inaccessible_post_time l \<noteq> 0 \<and> rootId \<noteq> []
      then New (st\<lparr>lv_threads := put rootId (l_first_inaccessible_post_time l) (lv_threads st)\<rparr>)
      else Same)"

fun limitedViews :: "limited_views \<Rightarrow> action \<Rightarrow> limited_views nxt" where
  "limitedViews st (PostTypes (RECEIVED_POSTS l ch)) = limited_channel st l ch"
| "limitedViews st (PostTypes (RECEIVED_POSTS_AFTER l ch i r)) = limited_channel st l ch"
| "limitedViews st (PostTypes (RECEIVED_POSTS_BEFORE l ch i old)) = limited_channel st l ch"
| "limitedViews st (PostTypes (RECEIVED_POSTS_SINCE l ch)) = limited_channel st l ch"
| "limitedViews st (PostTypes (RECEIVED_POSTS_IN_CHANNEL l ch r old)) = limited_channel st l ch"
| "limitedViews st (PostTypes (RECEIVED_POSTS_IN_THREAD l i)) = limited_thread st l i"
| "limitedViews st (LimitsTypes (RECEIVED_CLOUD_LIMITS h)) =
     (if h = None then New zeroStateLimitedViews else Same)"
| "limitedViews st (LimitsTypes (RECEIVED_APP_LIMITS h)) =
     (case h of
        None \<Rightarrow> New zeroStateLimitedViews
      | Some n \<Rightarrow> if n \<le> 0 then New zeroStateLimitedViews else Same)"
| "limitedViews st (ChannelTypes (LEAVE_CHANNEL ch t)) =
     (if get_or 0 (lv_channels st) ch = 0 then Same
      else New (st\<lparr>lv_channels := del ch (lv_channels st)\<rparr>))"
| "limitedViews st _ = Same"

end
