(* ===== verification/PostThreadsProps.thy ===== *)
theory PostThreadsProps
  imports PostThreads
begin

text \<open>
  What holds of the threads, reactions, acknowledgements, link previews and message history
  kept beside the posts.
\<close>

section \<open>Comments of a thread\<close>

lemma set_push_new [simp]: "set (push_new i ids) = insert i (set ids)"
  by (auto simp: push_new_def)

lemma distinct_push_new [simp]: "distinct (push_new i ids) \<longleftrightarrow> distinct ids"
  by (auto simp: push_new_def)

text \<open>What a loop of pushes appends.\<close>

lemma push_new_loop:
  "\<exists>new. foldl (\<lambda>ids p. push_new (post_id p) ids) ids ps = ids @ new \<and>
     set new = {post_id p | p. p \<in> set ps} - set ids \<and> distinct new"
proof (induction ps arbitrary: ids)
  case (Cons p ps)
  show ?case
  proof (cases "post_id p \<in> set ids")
    case True
    with Cons[of ids] show ?thesis by (auto simp: push_new_def)
  next
    case False
    from Cons[of "ids @ [post_id p]"] obtain new
      where "foldl (\<lambda>ids p. push_new (post_id p) ids) (ids @ [post_id p]) ps = (ids @ [post_id p]) @ new"
        and "set new = {post_id p | p. p \<in> set ps} - set (ids @ [post_id p])" and "distinct new"
      by blast
    with False show ?thesis
      by (intro exI [of _ "post_id p # new"]) (auto simp: push_new_def)
  qed
qed simp

lemma foldl_if_filter: "foldl (\<lambda>s x. if P x then s else f x s) s xs = foldl (\<lambda>s x. f x s) s (filter (\<lambda>x. \<not> P x) xs)"
  by (induction xs arbitrary: s) auto

text \<open>The grouping loop, seen at one thread.\<close>

lemma get_group_loop:
  assumes "r \<noteq> []"
  shows "get (foldl (group_step st) ns ps) r =
    (if filter (\<lambda>p. root_id p = r) ps = [] then get ns r
     else Some (foldl (\<lambda>ids p. push_new (post_id p) ids)
            (case get ns r of Some ids \<Rightarrow> ids | None \<Rightarrow> get_or [] st r) (filter (\<lambda>p. root_id p = r) ps)))"
  using assms by (induction ps arbitrary: ns) (auto simp: group_step_def)

lemma get_group_loop_Nil: "get (foldl (group_step st) ns ps) [] = get ns []"
  by (induction ps arbitrary: ns) (auto simp: group_step_def)

lemma wf_group_loop: "wf_obj ns \<Longrightarrow> wf_obj (foldl (group_step st) ns ps)"
  by (rule foldl_invariant) (auto simp: group_step_def)

lemma get_thread_posts:
  "get (upd st (thread_posts st ps)) r =
     (if r = [] \<or> filter (\<lambda>p. root_id p = r) ps = [] then get st r
      else Some (foldl (\<lambda>ids p. push_new (post_id p) ids) (get_or [] st r) (filter (\<lambda>p. root_id p = r) ps)))"
proof -
  let ?ns = "foldl (group_step st) [] ps"
  have wf: "wf_obj ?ns" by (rule wf_group_loop) simp
  have none: "?ns = [] \<Longrightarrow> r \<noteq> [] \<Longrightarrow> filter (\<lambda>p. root_id p = r) ps = []"
    using get_group_loop [of r st "[]" ps] by (auto split: if_splits)
  show ?thesis
    using none get_group_loop [of r st "[]" ps] get_group_loop_Nil [of st "[]" ps]
    by (cases "r = []") (auto simp: thread_posts_def obj_keys_def Let_def get_obj_spread_wf [OF wf] split: if_splits option.splits)
qed

text \<open>
  A page of posts adds to each thread, behind the comments already listed, exactly the
  comments of that thread the page brings and that were not listed, each once; root posts and
  other threads change nothing.
\<close>

theorem thread_comments_added:
  assumes "r \<noteq> []"
  shows "\<exists>new. get_or [] (upd st (thread_posts st ps)) r = get_or [] st r @ new \<and> distinct new \<and>
    set new = {post_id p | p. p \<in> set ps \<and> root_id p = r} - set (get_or [] st r)"
proof (cases "filter (\<lambda>p. root_id p = r) ps = []")
  case True
  then have "\<And>p. p \<in> set ps \<Longrightarrow> root_id p \<noteq> r" by (simp add: filter_empty_conv)
  with True show ?thesis
    by (intro exI [of _ "[]"]) (auto simp: get_or_def get_thread_posts)
next
  case False
  with assms have "get_or [] (upd st (thread_posts st ps)) r =
      foldl (\<lambda>ids p. push_new (post_id p) ids) (get_or [] st r) (filter (\<lambda>p. root_id p = r) ps)"
    by (simp add: get_or_def get_thread_posts)
  with push_new_loop [of "get_or [] st r" "filter (\<lambda>p. root_id p = r) ps"] show ?thesis by auto
qed

lemma new_comment_ids:
  assumes "root_id p \<noteq> []" and "pending_post_id p \<noteq> []" and "post_id p \<noteq> pending_post_id p"
    and "distinct (get_or [] st (root_id p))"
  shows "let ids = get_or [] (upd st (thread_new_post st p)) (root_id p)
    in distinct ids \<and>
       set ids = insert (post_id p) (set (get_or [] st (root_id p))) - {pending_post_id p}"
proof -
  define ids where "ids = push_new (post_id p) (get_or [] st (root_id p))"
  have ids: "distinct ids" "set ids = insert (post_id p) (set (get_or [] st (root_id p)))"
    using assms(4) by (simp_all add: ids_def)
  have new: "upd st (thread_new_post st p) =
    (case indexOf ids (pending_post_id p) of
       None \<Rightarrow> if post_id p \<in> set (get_or [] st (root_id p)) then st else put (root_id p) ids st
     | Some n \<Rightarrow> put (root_id p) (remove_at n ids) st)"
    using assms by (simp add: thread_new_post_def ids_def push_new_def split: option.splits)
  show ?thesis
  proof (cases "indexOf ids (pending_post_id p)")
    case None
    then have "pending_post_id p \<notin> set ids" by (simp add: indexOf_None)
    with None new ids show ?thesis by (auto simp: insert_absorb assms(4))
  next
    case (Some n)
    with new ids show ?thesis by (simp add: remove_at_indexOf)
  qed
qed

definition distinct_threads :: "threads \<Rightarrow> bool" where
  "distinct_threads st \<longleftrightarrow> (\<forall>r. distinct (get_or [] st r))"

lemma distinct_threads_get: "distinct_threads st \<Longrightarrow> distinct (get_or [] st r)"
  by (simp add: distinct_threads_def)

lemma distinct_threads_entry: "distinct_threads st \<Longrightarrow> get st r = Some ids \<Longrightarrow> distinct ids"
  using distinct_threads_get [of st r] by (simp add: get_or_def)

lemma distinct_threads_put: "distinct_threads st \<Longrightarrow> distinct ids \<Longrightarrow> distinct_threads (put r ids st)"
  by (simp add: distinct_threads_def)

lemma distinct_threads_del: "distinct_threads st \<Longrightarrow> distinct_threads (del r st)"
  by (simp add: distinct_threads_def)

lemma distinct_remove_at: "distinct xs \<Longrightarrow> distinct (remove_at n xs)"
  by (simp add: remove_at_def set_take_disj_set_drop_if_distinct)

lemma distinct_push_loop: "distinct ids \<Longrightarrow> distinct (foldl (\<lambda>ids p. push_new (post_id p) ids) ids ps)"
  by (rule foldl_invariant) auto

lemma distinct_thread_new_post: "distinct_threads st \<Longrightarrow> distinct_threads (upd st (thread_new_post st p))"
  by (auto simp: thread_new_post_def Let_def distinct_threads_get distinct_threads_put distinct_remove_at
      split: option.split)

lemma distinct_thread_posts: "distinct_threads st \<Longrightarrow> distinct_threads (upd st (thread_posts st ps))"
  using distinct_threads_get [of st]
  by (simp add: distinct_threads_def get_or_def [of _ "upd _ _"] get_thread_posts distinct_push_loop
      flip: get_or_def)

lemma distinct_thread_posts_in_thread:
  "distinct_threads st \<Longrightarrow> distinct_threads (upd st (thread_posts_in_thread st ps r))"
  by (simp add: thread_posts_in_thread_def foldl_if_filter distinct_threads_put distinct_push_loop
      distinct_threads_get)

lemma distinct_foldl_del: "distinct_threads st \<Longrightarrow> distinct_threads (foldl (\<lambda>ns i. del i ns) st is)"
  by (rule foldl_invariant) (auto simp: distinct_threads_del)

lemma distinct_thread_post_removed:
  "distinct_threads st \<Longrightarrow> distinct_threads (upd st (thread_post_removed st p))"
  by (auto simp: thread_post_removed_def thread_drop_root_def distinct_threads_del split: option.split
      intro!: distinct_threads_put distinct_remove_at elim: distinct_threads_entry)

text \<open>No reducer step makes a thread list a comment twice.\<close>

lemma postsInThread_distinct: "distinct_threads st \<Longrightarrow> distinct_threads (upd st (postsInThread st a prev))"
  by (cases "(st, a, prev)" rule: postsInThread.cases)
    (simp_all add: distinct_thread_new_post distinct_thread_posts distinct_thread_posts_in_thread
      thread_drop_root_def distinct_thread_post_removed thread_left_channel_def Let_def distinct_foldl_del
      distinct_threads_del, simp_all add: distinct_threads_def)

section \<open>Reactions\<close>

text \<open>The last element with a property.\<close>

definition last_with :: "('a \<Rightarrow> bool) \<Rightarrow> 'a list \<Rightarrow> 'a option" where
  "last_with P xs = last_of (filter P xs)"

lemma last_with_snoc: "last_with P (xs @ [x]) = (if P x then Some x else last_with P xs)"
  by (simp add: last_with_def last_of_def)

lemma get_reactions_by_key: "get (reactions_by_key rs) k = last_with (\<lambda>r. reaction_key r = k) rs"
  by (induction rs rule: rev_induct) (auto simp: reactions_by_key_def last_with_snoc, simp add: last_with_def last_of_def)

text \<open>User ids hold no \<open>-\<close>, so a key determines the user and the emoji.\<close>

lemma reaction_key_inj:
  assumes "CHR ''-'' \<notin> set (r_user_id r)" and "CHR ''-'' \<notin> set (r_user_id r')"
  shows "reaction_key r = reaction_key r' \<longleftrightarrow> r_user_id r = r_user_id r' \<and> r_emoji_name r = r_emoji_name r'"
proof
  assume "reaction_key r = reaction_key r'"
  then have eq: "r_user_id r @ CHR ''-'' # r_emoji_name r = r_user_id r' @ CHR ''-'' # r_emoji_name r'"
    by (simp add: reaction_key_def)
  have "r_user_id x = takeWhile (\<lambda>c. c \<noteq> CHR ''-'') (r_user_id x @ CHR ''-'' # r_emoji_name x)"
    if "CHR ''-'' \<notin> set (r_user_id x)" for x
    using that by (subst takeWhile_append2) auto
  with assms eq have "r_user_id r = r_user_id r'" by metis
  with eq show "r_user_id r = r_user_id r' \<and> r_emoji_name r = r_emoji_name r'" by simp
qed (simp add: reaction_key_def)

text \<open>
  Receiving a post that is not deleted and carries metadata replaces its stored reactions
  by those of the metadata: the store answers for a user and an emoji with the last such
  reaction, and with none when there is none; user ids without a hyphen never collide.
\<close>

theorem post_reactions_stored:
  assumes "metadata p = Some m" and "delete_at p \<le> 0"
    and "m_reactions (meta_core m) = Some rs"
    and "\<forall>r \<in> insert x (set rs). CHR ''-'' \<notin> set (r_user_id r)"
  shows "get (get_or [] (upd st (reactions st (PostTypes (RECEIVED_POST p crt)))) (post_id p)) (reaction_key x)
    = last_with (\<lambda>r. r_user_id r = r_user_id x \<and> r_emoji_name r = r_emoji_name x) rs"
proof -
  have "filter (\<lambda>r. reaction_key r = reaction_key x) rs
      = filter (\<lambda>r. r_user_id r = r_user_id x \<and> r_emoji_name r = r_emoji_name x) rs"
    using assms(4) reaction_key_inj by (intro filter_cong) auto
  with assms show ?thesis
    by (simp add: storeReactionsForPost_def get_reactions_by_key last_with_def)
qed

text \<open>
  A reaction added and taken away again leaves the reactions of every post as they were,
  unless the user had already reacted so, and then that reaction is gone too.
\<close>

theorem reaction_toggled:
  "get (get_or [] (let st' = upd st (reactions st (PostTypes (RECEIVED_REACTION r)))
        in upd st' (reactions st' (PostTypes (REACTION_DELETED r)))) i) k
   = (if i = r_post_id r \<and> k = reaction_key r then None else get (get_or [] st i) k)"
  by (simp add: reaction_received_def reaction_deleted_def Let_def)

section \<open>Acknowledgements\<close>

text \<open>
  A deletion of an acknowledgement that raced a newer one changes nothing; any other
  deletion removes that user's acknowledgement of that post and no other.
\<close>

theorem ack_deletion_race:
  assumes "a_acknowledged_at new > 0" and "a_post_id old = a_post_id new" and "a_user_id old = a_user_id new"
  shows "let created = upd st (acknowledgements st (PostTypes (CREATE_ACK_POST_SUCCESS new)));
      after = upd created (acknowledgements created (PostTypes (DELETE_ACK_POST_SUCCESS old)))
    in if a_acknowledged_at old < a_acknowledged_at new then after = created
       else get (get_or [] after i) u =
         (if i = a_post_id new \<and> u = a_user_id new then None else get (get_or [] st i) u)"
  using assms by (simp add: ack_created_def ack_deleted_def Let_def)

section \<open>Link previews\<close>

lemma upd_reduce_nxt: "upd st (reduce_nxt f st xs) = foldl (\<lambda>s x. upd s (f s x)) st xs"
  by (induction xs arbitrary: st) (auto split: nxt.splits)

lemma reduce_nxt_invariant:
  "(\<And>s x. x \<in> set xs \<Longrightarrow> I s \<Longrightarrow> I (upd s (f s x))) \<Longrightarrow> I st \<Longrightarrow> I (upd st (reduce_nxt f st xs))"
  unfolding upd_reduce_nxt by (rule foldl_invariant)

lemma opengraph_of_embed_keeps:
  assumes "get (get_or [] st i) url = Some d"
  shows "\<exists>d'. get (get_or [] (upd st (opengraph_of_embed j st e)) i) url = Some d'"
proof (cases "previewed_embeds e")
  case None
  with assms show ?thesis by (auto simp: opengraph_of_embed_def split: option.splits)
next
  case (Some a)
  obtain k es where a: "a = (k, es)" by (cases a)
  have "\<exists>d'. get (get_or [] (upd st (reduce_nxt (opengraph_of_preview k) st es)) i) url = Some d'"
    by (rule reduce_nxt_invariant)
      (use assms in \<open>auto simp: opengraph_of_preview_def get_or_def split: option.splits if_splits\<close>)
  with Some a show ?thesis by (simp add: opengraph_of_embed_def)
qed

lemma storeOpenGraph_keeps:
  assumes "get (get_or [] st i) url = Some d"
  shows "\<exists>d'. get (get_or [] (upd st (storeOpenGraphForPost st p)) i) url = Some d'"
proof -
  have "\<exists>d'. get (get_or [] (upd st (reduce_nxt (opengraph_of_embed (post_id p)) st es)) i) url = Some d'" for es
    by (rule reduce_nxt_invariant) (use assms opengraph_of_embed_keeps in auto)
  with assms show ?thesis by (auto simp: storeOpenGraphForPost_def split: option.splits)
qed

text \<open>
  A link preview, once stored, is only ever replaced by one for the same post and link:
  nothing but a logout loses it, deleting or removing the post included.
\<close>

theorem link_previews_stay:
  assumes "get (get_or [] st i) url = Some d" and "a \<noteq> UserTypes LOGOUT_SUCCESS"
  shows "\<exists>d'. get (get_or [] (upd st (openGraph st a)) i) url = Some d'"
proof -
  have "\<exists>d'. get (get_or [] (upd st (reduce_nxt storeOpenGraphForPost st ps)) i) url = Some d'" for ps
    by (rule reduce_nxt_invariant) (use assms storeOpenGraph_keeps in auto)
  then show ?thesis
    using assms storeOpenGraph_keeps by (cases "(st, a)" rule: openGraph.cases) auto
qed

section \<open>The message history\<close>

definition sent_messages :: "message_history \<Rightarrow> string list" where
  "sent_messages st = (case h_messages st of None \<Rightarrow> [] | Some ms \<Rightarrow> ms)"

text \<open>Pressing \<open>up\<close> in an input box of the given type, and what the box then shows.\<close>

definition recall :: "string \<Rightarrow> message_history \<Rightarrow> string option" where
  "recall ty st = getMessageInHistoryItem ty (upd st (messagesHistory st (PostTypes (MOVE_HISTORY_INDEX_BACK ty))))"

text \<open>
  After a message was sent, \<open>up\<close> shows it again as long as the history was not full. Once
  it holds 100 messages the index is set behind the sliced list, and the first \<open>up\<close> shows
  the empty string instead; the second one shows the message.
\<close>

theorem sent_message_recalled:
  assumes "ty = ''post'' \<or> ty = ''comment''" and "length (sent_messages st) \<le> MAX_PREV_MSGS"
  shows "let sent = upd st (messagesHistory st (PostTypes (ADD_MESSAGE_INTO_HISTORY s)));
      up = upd sent (messagesHistory sent (PostTypes (MOVE_HISTORY_INDEX_BACK ty)))
    in if length (sent_messages st) < MAX_PREV_MSGS then recall ty sent = Some s
       else recall ty sent = Some [] \<and> recall ty up = Some s"
proof -
  define ms where "ms = sent_messages st"
  have add: "history_add st s = \<lparr>h_messages = Some (if MAX_PREV_MSGS < Suc (length ms)
        then take MAX_PREV_MSGS (drop 1 (ms @ [s])) else ms @ [s]),
      h_index = Some (history_index (int (length ms) + 1))\<rparr>"
    by (simp add: history_add_def ms_def sent_messages_def Let_def add.commute)
  have full: "drop 1 (ms @ [s]) ! 99 = s" "length (drop 1 (ms @ [s])) = 100" if "length ms = 100"
    using that by (simp_all add: nth_append)
  show ?thesis
    using assms full
    by (auto simp: add recall_def history_back_def history_current_def history_index_def
        getMessageInHistoryItem_def MAX_PREV_MSGS_def Let_def nth_append simp flip: ms_def)
qed

section \<open>The theorems at work\<close>

definition comment_sample :: post where
  "comment_sample = upd_core (p_pending_post_id_update (\<lambda>_. ''u1:5'')) (sample ''c1'' ''ch'' ''r'' 5)"

theorem thread_comments_added_witness:
  "\<exists>new. get_or [] (upd [] (thread_posts [] [comment_sample])) ''r'' = new \<and> set new = {''c1''}"
  using thread_comments_added [of "''r''" "[]" "[comment_sample]"]
  by (simp add: comment_sample_def sample_defs)

definition sample_reaction :: "string \<Rightarrow> string \<Rightarrow> int \<Rightarrow> reaction" where
  "sample_reaction u e t = \<lparr>r_user_id = u, r_post_id = ''c1'', r_emoji_name = e, r_create_at = t\<rparr>"

definition reacted_sample :: post where
  "reacted_sample = set_metadata (Some (PostMetadata (no_metadata_core\<lparr>m_reactions :=
     Some [sample_reaction ''u1'' ''+1'' 1, sample_reaction ''u2'' ''+1'' 2]\<rparr>) None)) comment_sample"

theorem post_reactions_stored_witness:
  "get (get_or [] (upd [] (reactions [] (PostTypes (RECEIVED_POST reacted_sample True)))) ''c1'') ''u1-+1''
     = Some (sample_reaction ''u1'' ''+1'' 1)"
  using post_reactions_stored [of reacted_sample _ _ "sample_reaction ''u1'' ''+1'' 1" "[]" True]
  by (simp add: reacted_sample_def comment_sample_def sample_reaction_def sample_defs reaction_key_def
      last_with_def last_of_def)

definition sample_ack :: "int \<Rightarrow> post_acknowledgement" where
  "sample_ack t = \<lparr>a_post_id = ''c1'', a_user_id = ''u1'', a_acknowledged_at = t\<rparr>"

theorem ack_deletion_race_witness:
  "get (get_or [] (let created = upd [] (acknowledgements [] (PostTypes (CREATE_ACK_POST_SUCCESS (sample_ack 5))))
     in upd created (acknowledgements created (PostTypes (DELETE_ACK_POST_SUCCESS (sample_ack 7))))) ''c1'') ''u1'' = None"
  using ack_deletion_race [of "sample_ack 5" "sample_ack 7" "[]" "''c1''" "''u1''"]
  by (simp add: sample_ack_def Let_def)

theorem link_previews_stay_witness:
  "\<exists>d. get (get_or [] (upd [(''c1'', [(''x'', PreviewData (no_preview_core []) None)])]
     (openGraph [(''c1'', [(''x'', PreviewData (no_preview_core []) None)])]
        (PostTypes (POST_REMOVED comment_sample)))) ''c1'') ''x'' = Some d"
  by (rule link_previews_stay) (simp_all add: get_or_def)

theorem sent_message_recalled_witness:
  "recall ''post'' (history_add empty_history ''hi'') = Some ''hi''"
  using sent_message_recalled [of "''post''" empty_history "''hi''"]
  by (simp add: sent_messages_def empty_history_def MAX_PREV_MSGS_def Let_def)

end
