(* ===== verification/PostsReducer.thy ===== *)
theory PostsReducer
  imports PostMapProps PostOrderProps PostThreadsProps
begin

text \<open>
  The reducer of \<open>state.entities.posts\<close>, the default export of \<open>reducers/entities/posts.ts\<close>, and
  what holds of the whole state it keeps.
\<close>

definition initial_posts :: posts_state where
  "initial_posts = \<lparr>s_posts = [], s_postsReplies = [], s_postsInChannel = [], s_postsInThread = [],
     s_reactions = [], s_openGraph = [], s_pendingPostIds = [], s_postEditHistory = [],
     s_currentFocusedPostId = [], s_messagesHistory = empty_history,
     s_limitedViews = zeroStateLimitedViews, s_acknowledgements = []\<rparr>"

text \<open>
  The reducers of the parts run one after the other on the same action object, so all but the
  first see the action as \<open>handlePosts\<close> left it. \<open>postsReplies\<close> is not among the parts that are
  compared: when it is the only one that changed, the old state is returned.
\<close>

definition reducer :: "posts_state \<Rightarrow> action \<Rightarrow> posts_state nxt option" where
  "reducer s a =
     (case handlePosts (s_posts s) a of
        None \<Rightarrow> None
      | Some (posts, a) \<Rightarrow>
          (case postsInChannel (s_postsInChannel s) a (s_posts s) (upd (s_posts s) posts) of
             None \<Rightarrow> None
           | Some inChannel \<Rightarrow>
               let replies = nextPostsReplies (s_postsReplies s) a;
                   pending = handlePendingPosts (s_pendingPostIds s) a;
                   inThread = postsInThread (s_postsInThread s) a (s_posts s);
                   editHistory = postEditHistory (s_postEditHistory s) a;
                   focused = currentFocusedPostId (s_currentFocusedPostId s) a;
                   reacts = reactions (s_reactions s) a;
                   graph = openGraph (s_openGraph s) a;
                   history = messagesHistory (s_messagesHistory s) a;
                   acks = acknowledgements (s_acknowledgements s) a;
                   limited = limitedViews (s_limitedViews s) a
               in Some
                 (if is_same posts \<and> is_same inChannel \<and> is_same inThread \<and> is_same pending \<and>
                     is_same editHistory \<and> is_same focused \<and> is_same reacts \<and> is_same acks \<and>
                     is_same graph \<and> is_same history \<and> is_same limited
                  then Same
                  else New \<lparr>s_posts = upd (s_posts s) posts,
                    s_postsReplies = upd (s_postsReplies s) replies,
                    s_postsInChannel = upd (s_postsInChannel s) inChannel,
                    s_postsInThread = upd (s_postsInThread s) inThread,
                    s_reactions = upd (s_reactions s) reacts,
                    s_openGraph = upd (s_openGraph s) graph,
                    s_pendingPostIds = upd (s_pendingPostIds s) pending,
                    s_postEditHistory = upd (s_postEditHistory s) editHistory,
                    s_currentFocusedPostId = upd (s_currentFocusedPostId s) focused,
                    s_messagesHistory = upd (s_messagesHistory s) history,
                    s_limitedViews = upd (s_limitedViews s) limited,
                    s_acknowledgements = upd (s_acknowledgements s) acks\<rparr>)))"

definition store_step :: "posts_state \<Rightarrow> action \<Rightarrow> posts_state option" where
  "store_step s a = map_option (upd s) (reducer s a)"

section \<open>The parts of the next state\<close>

text \<open>Whether or not the old state is returned, every part but \<open>postsReplies\<close> is its own reducer's.\<close>

lemma store_step_parts:
  assumes "store_step s a = Some s'"
  obtains n a' c where "handlePosts (s_posts s) a = Some (n, a')"
    "postsInChannel (s_postsInChannel s) a' (s_posts s) (upd (s_posts s) n) = Some c"
    "s_posts s' = upd (s_posts s) n" "s_postsInChannel s' = upd (s_postsInChannel s) c"
    "s_postsInThread s' = upd (s_postsInThread s) (postsInThread (s_postsInThread s) a' (s_posts s))"
    "s_pendingPostIds s' = upd (s_pendingPostIds s) (handlePendingPosts (s_pendingPostIds s) a')"
    "s_reactions s' = upd (s_reactions s) (reactions (s_reactions s) a')"
    "s_acknowledgements s' = upd (s_acknowledgements s) (acknowledgements (s_acknowledgements s) a')"
    "s_limitedViews s' = upd (s_limitedViews s) (limitedViews (s_limitedViews s) a')"
proof -
  obtain n a' where h: "handlePosts (s_posts s) a = Some (n, a')"
    using assms by (auto simp: store_step_def reducer_def split: option.splits)
  then obtain c where c: "postsInChannel (s_postsInChannel s) a' (s_posts s) (upd (s_posts s) n) = Some c"
    using assms by (auto simp: store_step_def reducer_def split: option.splits)
  show thesis
    by (rule that [OF h c]) (use assms h c in \<open>auto simp: store_step_def reducer_def Let_def upd_same
        split: if_splits\<close>)
qed

section \<open>The invariant of the store\<close>

definition posts_ok :: "posts_state \<Rightarrow> bool" where
  "posts_ok s \<longleftrightarrow> filed (s_posts s) \<and> one_recent (s_postsInChannel s) \<and>
     distinct_threads (s_postsInThread s) \<and> distinct (s_pendingPostIds s)"

text \<open>What the dispatching code has to ensure.\<close>

fun admissible :: "posts_state \<Rightarrow> action \<Rightarrow> bool" where
  "admissible s (ThreadTypes (FOLLOW_CHANGED_THREAD i t f)) = (get (s_posts s) i \<noteq> None)"
| "admissible s (PostTypes (RECEIVED_POSTS_AFTER l ch i r)) =
     (truthy r \<longrightarrow> recents (get_or [] (s_postsInChannel s) ch) = 0)"
| "admissible s _ = True"

lemma handlePosts_action_after:
  "handlePosts st a = Some (n, PostTypes (RECEIVED_POSTS_AFTER l ch i r)) \<Longrightarrow>
     a = PostTypes (RECEIVED_POSTS_AFTER l ch i r)"
  by (cases "(st, a)" rule: handlePosts.cases) (auto simp: split_beta Let_def split: if_splits)

lemma distinct_drop_pending_id: "distinct st \<Longrightarrow> distinct (upd st (drop_pending_id st i))"
  by (simp add: drop_pending_id_def distinct_remove_at split: option.split)

lemma handlePendingPosts_distinct: "distinct st \<Longrightarrow> distinct (upd st (handlePendingPosts st a))"
  by (cases "(st, a)" rule: handlePendingPosts.cases)
    (auto simp: distinct_drop_pending_id indexOf_None split: option.split)

lemma posts_ok_step:
  assumes "posts_ok s" and "admissible s a" and "store_step s a = Some s'"
  shows "posts_ok s'"
  using assms(3)
proof (cases rule: store_step_parts)
  case (1 n a' c)
  have "get (s_posts s) i \<noteq> None" if "a = ThreadTypes (FOLLOW_CHANGED_THREAD i t f)" for i t f
    using assms(2) that by simp
  then have "filed (s_posts s')"
    using posts_stay_filed [OF _ 1(1)] assms(1) 1(3) by (simp add: posts_ok_def)
  moreover have "one_recent (s_postsInChannel s')"
  proof -
    have "recents (get_or [] (s_postsInChannel s) ch) = 0"
      if "a' = PostTypes (RECEIVED_POSTS_AFTER l ch i r)" "truthy r" for l ch i r
      using that handlePosts_action_after 1(1) assms(2) by fastforce
    then show ?thesis
      using channel_keeps_one_recent_block [OF _ 1(2)] assms(1) 1(4) by (auto simp: posts_ok_def)
  qed
  ultimately show ?thesis
    using assms(1) 1 by (simp add: posts_ok_def postsInThread_distinct handlePendingPosts_distinct)
qed

interpretation posts_store: redux_store store_step admissible posts_ok initial_posts
proof unfold_locales
  show "posts_ok initial_posts"
    by (simp add: posts_ok_def initial_posts_def filed_def one_recent_def distinct_threads_def)
qed (rule posts_ok_step)

text \<open>
  C1. In every state the store can reach, each post is filed under its own id, no channel has
  two most recent blocks, no thread lists a comment twice and no pending id is listed twice, as
  long as following changes only for loaded threads and a page of newer posts is marked the
  most recent only for a channel without a most recent block.
\<close>

theorem reachable_posts_ok:
  assumes "reachable store_step admissible initial_posts s"
  shows "filed (s_posts s) \<and> one_recent (s_postsInChannel s) \<and>
     (\<forall>r. distinct (get_or [] (s_postsInThread s) r)) \<and> distinct (s_pendingPostIds s)"
  using posts_store.reachable_inv [OF assms] by (simp add: posts_ok_def distinct_threads_def)

section \<open>A removed post\<close>

lemma filter_throwing_Some:
  "filter_throwing P xs = Some ys \<Longrightarrow> ys = filter (\<lambda>x. P x = Some True) xs"
  by (induction xs arbitrary: ys) (auto split: option.splits)

lemma filter_blocks_ids:
  "filter_blocks P bs = Some cs \<Longrightarrow> block_ids cs = {i \<in> block_ids bs. P i = Some True}"
  by (induction bs arbitrary: cs) (auto split: option.splits dest!: filter_throwing_Some)

lemma filter_blocks_same:
  "filter_blocks P bs = Some cs \<Longrightarrow> map (length \<circ> order) cs = map (length \<circ> order) bs \<Longrightarrow>
     \<forall>i \<in> block_ids bs. P i = Some True"
proof (induction bs arbitrary: cs)
  case (Cons b bs)
  then obtain ord cs' where o: "filter_throwing P (order b) = Some ord" "filter_blocks P bs = Some cs'"
    "cs = b\<lparr>order := ord\<rparr> # cs'"
    by (auto split: option.splits)
  then have "filter (\<lambda>x. P x = Some True) (order b) = order b"
    using Cons.prems(2) filter_throwing_Some [OF o(1)] by (simp add: length_filter_eq)
  with Cons o show ?case by (auto simp: filter_id_conv)
qed simp

lemma order_filtered_ids:
  "order_filtered st ch P = Some n \<Longrightarrow>
     block_ids (get_or [] (upd st n) ch) = {i \<in> block_ids (get_or [] st ch). P i = Some True}"
  by (auto simp: order_filtered_def Let_def filter_blocks_ids split: if_splits option.splits
      dest: filter_blocks_same)

lemma removed_from_thread:
  assumes "distinct_threads st" and "root_id p \<noteq> []"
  shows "post_id p \<notin> set (get_or [] (upd st (thread_post_removed st p)) (root_id p))"
proof (cases "get st (root_id p)")
  case None
  with assms(2) show ?thesis by (simp add: thread_post_removed_def get_or_def)
next
  case (Some ids)
  have "distinct ids" using distinct_threads_entry [OF assms(1) Some] .
  with Some assms(2) show ?thesis
    by (auto simp: thread_post_removed_def findIndex_indexOf remove_at_indexOf indexOf_None get_or_def
        split: option.splits)
qed

lemma get_drop_entry: "get (upd st (drop_entry st i)) i = None"
  by (simp add: drop_entry_def)

text \<open>
  C5. Removing a loaded post leaves no trace of it: not in the comments of its thread, the
  blocks of its channel, the pending ids, the reactions or the acknowledgements; among the
  posts it and its comments are gone, and every other post is exactly what it was.
\<close>

theorem removed_post_leaves_no_trace:
  assumes "posts_ok s" and "get (s_posts s) (post_id p) \<noteq> None"
    and "store_step s (PostTypes (POST_REMOVED p)) = Some s'"
  shows "post_id p \<notin> set (s_pendingPostIds s') \<and>
    (root_id p \<noteq> [] \<longrightarrow> post_id p \<notin> set (get_or [] (s_postsInThread s') (root_id p))) \<and>
    get (s_reactions s') (post_id p) = None \<and> get (s_acknowledgements s') (post_id p) = None \<and>
    (\<forall>i \<in> block_ids (get_or [] (s_postsInChannel s') (channel_id p)).
       i \<noteq> post_id p \<and> (\<exists>q. get (s_posts s) i = Some q \<and> root_id q \<noteq> post_id p)) \<and>
    get (s_posts s') k =
      (case get (s_posts s) k of
         None \<Rightarrow> None
       | Some q \<Rightarrow> if k = post_id p \<or> root_id q = post_id p then None else Some q)"
  using assms(3)
proof (cases rule: store_step_parts)
  case (1 n a' c)
  then have n: "n = posts_removed (s_posts s) p" and a': "a' = PostTypes (POST_REMOVED p)" by auto
  have ok: "filed (s_posts s)" "distinct_threads (s_postsInThread s)" "distinct (s_pendingPostIds s)"
    using assms(1) by (simp_all add: posts_ok_def)
  have "post_id p \<notin> set (s_pendingPostIds s')"
    using ok(3) 1(6) a'
    by (auto simp: drop_pending_id_def indexOf_None remove_at_indexOf split: option.splits)
  moreover have "post_id p \<notin> set (get_or [] (s_postsInThread s') (root_id p))" if "root_id p \<noteq> []"
    using that 1(5) a' removed_from_thread [OF ok(2)] by simp
  moreover have "block_ids (get_or [] (s_postsInChannel s') (channel_id p)) =
      {i \<in> block_ids (get_or [] (s_postsInChannel s) (channel_id p)).
        neither_post_nor_comment (s_posts s) (post_id p) i = Some True}"
    using 1(2,4) a' by (simp add: order_post_removed_def order_filtered_ids)
  ultimately show ?thesis
    using get_posts_removed [OF ok(1) assms(2), of k] 1(3,7,8) n a'
    by (auto simp: get_drop_entry neither_post_nor_comment_def not_comment_on_def split: if_splits)
qed

section \<open>Leaving a channel, logging out\<close>

lemma get_posts_left_channel:
  assumes "filed st"
  shows "get (upd st (posts_left_channel st ch)) k =
    (case get st k of None \<Rightarrow> None | Some q \<Rightarrow> if channel_id q = ch then None else Some q)"
proof -
  have "(\<exists>q \<in> set (obj_values st). channel_id q = ch \<and> post_id q = k) \<longleftrightarrow>
        (\<exists>q. get st k = Some q \<and> channel_id q = ch)"
    using filed_values [OF assms] filed_get [OF assms] get_in_values by metis
  then show ?thesis
    by (auto simp: posts_left_channel_def Let_def filter_empty_conv image_iff split: option.splits)
qed

lemma get_thread_left_channel:
  "get (upd st (thread_left_channel st ch prev)) k =
    (if \<exists>q. get prev k = Some q \<and> channel_id q = ch then None else get st k)"
proof -
  let ?gone = "\<lambda>i. case get prev i of None \<Rightarrow> False | Some q \<Rightarrow> channel_id q = ch"
  have left: "thread_left_channel st ch prev =
      (if filter ?gone (obj_keys st) = [] then Same
       else New (foldl (\<lambda>ns i. del i ns) st (filter ?gone (obj_keys st))))"
    by (simp add: thread_left_channel_def Let_def)
  have "get (upd st (thread_left_channel st ch prev)) k = (if ?gone k \<and> k \<in> set (obj_keys st) then None else get st k)"
    using get_foldl_del [of "\<lambda>i. i" st "filter ?gone (obj_keys st)" k]
    by (auto simp: left filter_empty_conv)
  then show ?thesis by (auto simp: keys_iff_get split: option.splits)
qed

text \<open>
  Leaving a channel removes its posts, the threads under its loaded root posts, its order
  and its limit marker, and keeps the posts, threads, orders and markers of all the others.
\<close>

theorem left_channel:
  assumes "posts_ok s" and "store_step s (ChannelTypes (LEAVE_CHANNEL ch t)) = Some s'"
  shows "get (s_posts s') k =
      (case get (s_posts s) k of None \<Rightarrow> None | Some q \<Rightarrow> if channel_id q = ch then None else Some q) \<and>
    get (s_postsInThread s') k =
      (if \<exists>q. get (s_posts s) k = Some q \<and> channel_id q = ch then None else get (s_postsInThread s) k) \<and>
    get (s_postsInChannel s') k = (if k = ch then None else get (s_postsInChannel s) k) \<and>
    get_or 0 (lv_channels (s_limitedViews s')) k =
      (if k = ch then 0 else get_or 0 (lv_channels (s_limitedViews s)) k)"
  using assms(2)
proof (cases rule: store_step_parts)
  case (1 n a' c)
  then have "n = posts_left_channel (s_posts s) ch" "a' = ChannelTypes (LEAVE_CHANNEL ch t)"
    "c = order_left_channel (s_postsInChannel s) ch" by auto
  moreover have "filed (s_posts s)" using assms(1) by (simp add: posts_ok_def)
  ultimately show ?thesis
    using 1 get_posts_left_channel [of "s_posts s" ch k]
    by (simp add: get_thread_left_channel order_left_channel_def)
qed

text \<open>
  A logout never throws and resets every part of the state except the pending ids and the
  markers of limited views, which survive it.
\<close>

theorem logout_resets:
  "store_step s (UserTypes LOGOUT_SUCCESS) =
     Some (initial_posts\<lparr>s_pendingPostIds := s_pendingPostIds s, s_limitedViews := s_limitedViews s\<rparr>)"
  by (simp add: store_step_def reducer_def initial_posts_def next_string_def Let_def)

section \<open>A lost reply count\<close>

text \<open>
  When a comment that is not loaded is deleted, \<open>nextPostsReplies\<close> counts one reply less
  for its thread, but the reducer returns the old state: the count is compared nowhere.
\<close>

theorem reply_count_lost:
  assumes "get (s_posts s) (post_id p) = None" and "root_id p \<noteq> []"
    and count: "get (s_postsReplies s) (root_id p) = Some n" "n \<noteq> 0"
    and "get (s_postsInThread s) (post_id p) = None" and "get (s_reactions s) (post_id p) = None"
    and "get (s_acknowledgements s) (post_id p) = None"
    and blocks: "order_post_deleted (s_postsInChannel s) p (s_posts s) = Some Same"
  shows "reducer s (PostTypes (POST_DELETED p)) = Some Same \<and>
    get (upd (s_postsReplies s) (nextPostsReplies (s_postsReplies s) (PostTypes (POST_DELETED p)))) (root_id p)
      = Some (n - 1)"
  using assms
  by (simp add: reducer_def posts_deleted_def thread_drop_root_def drop_entry_def Let_def
      replies_deleted_def get_or_def)

section \<open>A created post\<close>

lemma replaced_not_in:
  "indexOf xs x = Some n \<Longrightarrow> distinct xs \<Longrightarrow> y \<noteq> x \<Longrightarrow> x \<notin> set (xs[n := y])"
  using indexOf_Some [of xs x n]
  by (auto simp: in_set_conv_nth nth_list_update nth_eq_iff_index_eq split: if_splits)

text \<open>
  The server's answer to a post being sent clears its pending copy everywhere: from the
  posts, the pending ids, the channel's most recent block and the comments of its thread.
\<close>

theorem created_post_leaves_no_pending:
  assumes ok: "posts_ok s" and step: "store_step s (PostTypes (RECEIVED_POST p crt)) = Some s'"
    and fresh: "shouldUpdatePost p (get (s_posts s) (post_id p))" "delete_at p \<le> 0"
    and ids: "pending_post_id p \<noteq> []" "post_id p \<noteq> pending_post_id p" "root_id p \<noteq> pending_post_id p"
    and block: "recent_index (get_or [] (s_postsInChannel s) (channel_id p)) = Some i"
      "distinct (order (get_or [] (s_postsInChannel s) (channel_id p) ! i))"
      "crt \<longrightarrow> root_id p = []"
  shows "get (s_posts s') (pending_post_id p) = None \<and> pending_post_id p \<notin> set (s_pendingPostIds s') \<and>
    pending_post_id p \<notin> set (order (get_or [] (s_postsInChannel s') (channel_id p) ! i)) \<and>
    (root_id p \<noteq> [] \<longrightarrow> pending_post_id p \<notin> set (get_or [] (s_postsInThread s') (root_id p)))"
  using step
proof (cases rule: store_step_parts)
  case (1 n a' c)
  obtain st q where h: "handlePostReceived 0 (s_posts s) p = (update_root (drop_pending st q) q, q)"
    and "core q = core (keep_following (s_posts s) p)"
    using handlePostReceived_end [OF fresh(1)] by metis
  then have q: "post_id q = post_id p" "root_id q = root_id p" "channel_id q = channel_id p"
    "pending_post_id q = pending_post_id p"
    by (simp_all add: core_keep_following)
  have a': "a' = PostTypes (RECEIVED_POST q crt)" and n: "n = New (update_root (drop_pending st q) q)"
    using 1(1) h by auto
  have "get (s_posts s') (pending_post_id p) = None"
    using 1(3) n q ids by (simp add: get_update_root drop_pending_def)
  moreover have "pending_post_id p \<notin> set (s_pendingPostIds s')"
    using 1(6) a' q ids ok
    by (auto simp: posts_ok_def drop_pending_id_def indexOf_None remove_at_indexOf split: option.splits)
  moreover have "pending_post_id p \<notin> set (order (get_or [] (s_postsInChannel s') (channel_id p) ! i))"
    using 1(2,4) a' q ids block recent_index_Some [OF block(1)]
    by (auto simp: order_post_def Let_def indexOf_None split: option.splits dest: replaced_not_in)
  moreover have "pending_post_id p \<notin> set (get_or [] (s_postsInThread s') (root_id p))" if "root_id p \<noteq> []"
    using new_comment_ids [of q "s_postsInThread s"] that 1(5) a' q ids ok
    by (simp add: posts_ok_def distinct_threads_get Let_def)
  ultimately show ?thesis by blast
qed

section \<open>The theorems at work\<close>

definition sample_root :: post where "sample_root = sample ''r'' ''ch'' [] 1"
definition sample_comment :: post where "sample_comment = sample ''c'' ''ch'' ''r'' 2"

definition sample_posts_state :: posts_state where
  "sample_posts_state = initial_posts\<lparr>s_posts := [(''r'', sample_root), (''c'', sample_comment)],
     s_postsReplies := [(''r'', 3)], s_postsInThread := [(''r'', [''c''])],
     s_postsInChannel := [(''ch'', [\<lparr>order = [''c'', ''r''], recent = Some True, oldest = None\<rparr>])]\<rparr>"

lemmas sample_state_defs = sample_posts_state_def sample_root_def sample_comment_def initial_posts_def sample_defs

lemma posts_ok_sample: "posts_ok sample_posts_state"
  by (auto simp: posts_ok_def filed_def wf_obj_def one_recent_def distinct_threads_def get_or_def
      sample_state_defs split: if_splits)

theorem reachable_posts_ok_witness:
  "\<exists>s. store_step initial_posts (PostTypes (RECEIVED_POST sample_root False)) = Some s \<and>
     get (s_posts s) ''r'' \<noteq> None \<and> filed (s_posts s)"
proof -
  let ?a = "PostTypes (RECEIVED_POST sample_root False)"
  have "case store_step initial_posts ?a of None \<Rightarrow> False | Some s \<Rightarrow> get (s_posts s) ''r'' \<noteq> None"
    by code_simp
  then obtain s where s: "store_step initial_posts ?a = Some s" "get (s_posts s) ''r'' \<noteq> None"
    by (auto split: option.splits)
  then have "reachable store_step admissible initial_posts s"
    using reachable.dispatch [OF reachable.start, of admissible initial_posts ?a store_step s] by simp
  from reachable_posts_ok [OF this] s show ?thesis by blast
qed

theorem removed_post_leaves_no_trace_witness:
  "\<exists>s'. store_step sample_posts_state (PostTypes (POST_REMOVED sample_root)) = Some s' \<and>
     get (s_posts s') ''c'' = None"
proof -
  let ?a = "PostTypes (POST_REMOVED sample_root)"
  have "store_step sample_posts_state ?a \<noteq> None" by code_simp
  then obtain s' where s': "store_step sample_posts_state ?a = Some s'" by blast
  have "get (s_posts sample_posts_state) (post_id sample_root) \<noteq> None" by (simp add: sample_state_defs)
  from removed_post_leaves_no_trace [OF posts_ok_sample this s', of "''c''"]
  have "get (s_posts s') ''c'' = None" by (simp add: sample_state_defs)
  with s' show ?thesis by blast
qed

theorem left_channel_witness:
  "\<exists>s'. store_step sample_posts_state (ChannelTypes (LEAVE_CHANNEL ''ch'' ''t'')) = Some s' \<and>
     get (s_postsInThread s') ''r'' = None"
proof -
  let ?a = "ChannelTypes (LEAVE_CHANNEL ''ch'' ''t'')"
  have "store_step sample_posts_state ?a \<noteq> None" by code_simp
  then obtain s' where s': "store_step sample_posts_state ?a = Some s'" by blast
  from left_channel [OF posts_ok_sample s', of "''r''"] s' show ?thesis by (simp add: sample_state_defs)
qed

theorem reply_count_lost_witness:
  "reducer sample_posts_state (PostTypes (POST_DELETED (sample ''x'' ''ch'' ''r'' 3))) = Some Same"
proof -
  have "order_post_deleted (s_postsInChannel sample_posts_state) (sample ''x'' ''ch'' ''r'' 3)
      (s_posts sample_posts_state) = Some Same"
    by code_simp
  then show ?thesis
    by (intro conjunct1 [OF reply_count_lost [of _ _ 3]]) (simp_all add: sample_state_defs)
qed

theorem created_post_leaves_no_pending_witness:
  "\<exists>s'. store_step (sample_posts_state\<lparr>s_pendingPostIds := [''c'']\<rparr>)
       (PostTypes (RECEIVED_POST (upd_core (p_pending_post_id_update (\<lambda>_. ''c'')) (sample ''d'' ''ch'' ''r'' 4)) False))
       = Some s' \<and> s_pendingPostIds s' = [] \<and> get (s_posts s') ''c'' = None"
proof -
  let ?p = "upd_core (p_pending_post_id_update (\<lambda>_. ''c'')) (sample ''d'' ''ch'' ''r'' 4)"
  let ?s = "sample_posts_state\<lparr>s_pendingPostIds := [''c'']\<rparr>"
  have "case store_step ?s (PostTypes (RECEIVED_POST ?p False)) of None \<Rightarrow> False | Some s' \<Rightarrow> s_pendingPostIds s' = []"
    by code_simp
  then obtain s' where s': "store_step ?s (PostTypes (RECEIVED_POST ?p False)) = Some s'" "s_pendingPostIds s' = []"
    by (auto split: option.splits)
  have ok: "posts_ok ?s" using posts_ok_sample by (simp add: posts_ok_def)
  have "shouldUpdatePost ?p (get (s_posts ?s) (post_id ?p))"
    by (simp add: shouldUpdatePost_def sample_state_defs)
  from created_post_leaves_no_pending [OF ok s'(1) this, of 0] s'
  show ?thesis by (auto simp: sample_state_defs recent_index_def get_or_def)
qed

end
