(* ===== verification/ThreadsReducer.thy ===== *)
theory ThreadsReducer
  imports PostMap
begin

text \<open>
  The followed threads, \<open>state.entities.threads\<close>: \<open>reducers/entities/threads/index.ts\<close> (the thread
  objects and the reducer that hands them to the others), \<open>threadsInTeam.ts\<close> (which threads each
  team lists) and \<open>counts.ts\<close> (the unread counters of each team).
\<close>

section \<open>index.ts: the thread objects\<close>

type_synonym thread_map = "user_thread obj"

definition threads_received :: "thread_map \<Rightarrow> user_thread list \<Rightarrow> thread_map nxt" where
  "threads_received st ts = New (obj_spread st (foldl (\<lambda>results t. put (t_id t) t results) [] ts))"

definition thread_removed :: "thread_map \<Rightarrow> post \<Rightarrow> thread_map nxt" where
  "thread_removed st p =
     (if root_id p \<noteq> [] \<or> get st (post_id p) = None then Same else New (del (post_id p) st))"

definition thread_read :: "thread_map \<Rightarrow> read_changed \<Rightarrow> thread_map nxt" where
  "thread_read st rc =
     New (put (rc_id rc)
       ((get_or no_thread st (rc_id rc))\<lparr>t_last_viewed_at := rc_lastViewedAt rc,
          t_unread_mentions := rc_newUnreadMentions rc, t_unread_replies := rc_newUnreadReplies rc,
          t_is_following := True\<rparr>) st)"

definition thread_followed :: "thread_map \<Rightarrow> string \<Rightarrow> bool \<Rightarrow> thread_map nxt" where
  "thread_followed st i following =
     (case get st i of
        None \<Rightarrow> Same
      | Some t \<Rightarrow> New (put i (t\<lparr>t_is_following := following\<rparr>) st))"

definition thread_replied :: "thread_map \<Rightarrow> post \<Rightarrow> thread_map nxt" where
  "thread_replied st p =
     (if root_id p = [] then Same
      else case get st (root_id p) of
        None \<Rightarrow> Same
      | Some thread \<Rightarrow>
          let participants = (case t_participants thread of None \<Rightarrow> [] | Some ps \<Rightarrow> ps);
              t1 = (if has_participant (user_id p) participants then thread
                    else thread\<lparr>t_participants := Some (participants @ [Profile (user_id p)])\<rparr>);
              t2 = (if reply_count p \<noteq> 0 then t1\<lparr>t_reply_count := reply_count p\<rparr> else t1)
          in New (put (root_id p) t2 st))"

definition threads_deleted :: "thread_map \<Rightarrow> user_thread list option \<Rightarrow> thread_map nxt" where
  "threads_deleted st threadsToDelete =
     (case threadsToDelete of
        None \<Rightarrow> Same
      | Some ts \<Rightarrow> if ts = [] then Same else New (foldl (\<lambda>ns t. del (t_id t) ns) st ts))"

text \<open>\<open>extra\<close> is the third argument: the threads before the action, and those of the left channel.\<close>

record extra_data =
  x_threads :: thread_map
  x_threadsToDelete :: "user_thread list option"

fun threadsReducer :: "thread_map \<Rightarrow> action \<Rightarrow> extra_data \<Rightarrow> thread_map nxt" where
  "threadsReducer st (ThreadTypes (RECEIVED_UNREAD_THREADS ts team)) x = threads_received st ts"
| "threadsReducer st (ThreadTypes (RECEIVED_THREADS ts team)) x = threads_received st ts"
| "threadsReducer st (PostTypes (POST_DELETED p)) x = thread_removed st p"
| "threadsReducer st (PostTypes (POST_REMOVED p)) x = thread_removed st p"
| "threadsReducer st (ThreadTypes (RECEIVED_THREAD t team)) x = New (put (t_id t) t st)"
| "threadsReducer st (ThreadTypes (READ_CHANGED_THREAD rc)) x = thread_read st rc"
| "threadsReducer st (ThreadTypes (FOLLOW_CHANGED_THREAD i team f)) x = thread_followed st i f"
| "threadsReducer st (PostTypes (RECEIVED_NEW_POST p crt)) x = thread_replied st p"
| "threadsReducer st (ThreadTypes (ALL_TEAM_THREADS_READ team)) x =
     New (map (\<lambda>(i, t). (i, t\<lparr>t_unread_mentions := 0, t_unread_replies := 0\<rparr>)) st)"
| "threadsReducer st (UserTypes LOGOUT_SUCCESS) x = New []"
| "threadsReducer st (ChannelTypes (RECEIVED_CHANNEL_DELETED ch team)) x = threads_deleted st (x_threadsToDelete x)"
| "threadsReducer st (ChannelTypes (LEAVE_CHANNEL ch team)) x = threads_deleted st (x_threadsToDelete x)"
| "threadsReducer st _ x = Same"

section \<open>threadsInTeam.ts: the threads a team lists\<close>

type_synonym team_threads = "string list obj"

text \<open>\<open>a > b\<close> where either side may be \<open>undefined\<close>, and then it is false.\<close>

fun js_greater :: "int option \<Rightarrow> int option \<Rightarrow> bool" where
  "js_greater (Some a) (Some b) = (a > b)"
| "js_greater _ _ = False"

text \<open>
  \<open>ids.some(...)\<close> stops at the first older thread; reading \<open>last_reply_at\<close> of a listed thread
  that is not loaded throws.
\<close>

fun shouldAddThreadId :: "string list \<Rightarrow> user_thread \<Rightarrow> thread_map \<Rightarrow> bool option" where
  "shouldAddThreadId [] thread threads = Some False"
| "shouldAddThreadId (i # ids) thread threads =
     (case get threads i of
        None \<Rightarrow> None
      | Some t \<Rightarrow>
          if js_greater (t_last_reply_at thread) (t_last_reply_at t) then Some True
          else shouldAddThreadId ids thread threads)"

definition handlePostRemoved :: "team_threads \<Rightarrow> post \<Rightarrow> team_threads nxt" where
  "handlePostRemoved st p =
     (if root_id p \<noteq> [] then Same
      else
        let teams = filter (\<lambda>i. indexOf (get_or [] st i) (post_id p) \<noteq> None) (obj_keys st)
        in if teams = [] then Same
           else New (obj_spread st
             (foldl (\<lambda>ns i. put i (case indexOf (get_or [] st i) (post_id p) of
                                     None \<Rightarrow> get_or [] st i
                                   | Some n \<Rightarrow> remove_at n (get_or [] st i)) ns) [] teams)))"

definition handleSingleTeamReceivedThread ::
  "team_threads \<Rightarrow> user_thread \<Rightarrow> string \<Rightarrow> extra_data \<Rightarrow> team_threads nxt option" where
  "handleSingleTeamReceivedThread st thread teamId x =
     (let ids = remdups_js (get_or [] st teamId)
      in if t_id thread \<in> set ids then Some Same
         else case shouldAddThreadId ids thread (x_threads x) of
           None \<Rightarrow> None
         | Some b \<Rightarrow> if b then Some (New (put teamId (ids @ [t_id thread]) st)) else Some Same)"

text \<open>A loop over the teams that threads the state through calls that may throw.\<close>

fun for_teams :: "('s \<Rightarrow> string \<Rightarrow> 's nxt option) \<Rightarrow> 's \<Rightarrow> string list \<Rightarrow> 's option" where
  "for_teams f st [] = Some st"
| "for_teams f st (i # is) =
     (case f st i of None \<Rightarrow> None | Some n \<Rightarrow> for_teams f (upd st n) is)"

definition handleAllTeamsReceivedThread ::
  "team_threads \<Rightarrow> user_thread \<Rightarrow> extra_data \<Rightarrow> team_threads nxt option" where
  "handleAllTeamsReceivedThread st thread x =
     map_option New (for_teams (\<lambda>st i. handleSingleTeamReceivedThread st thread i x) st (obj_keys st))"

definition handleReceivedThread ::
  "team_threads \<Rightarrow> user_thread \<Rightarrow> string \<Rightarrow> extra_data \<Rightarrow> team_threads nxt option" where
  "handleReceivedThread st thread teamId x =
     (if teamId = [] then handleAllTeamsReceivedThread st thread x
      else handleSingleTeamReceivedThread st thread teamId x)"

definition handleFollowChanged ::
  "team_threads \<Rightarrow> string \<Rightarrow> string \<Rightarrow> bool \<Rightarrow> extra_data \<Rightarrow> team_threads nxt option" where
  "handleFollowChanged st i teamId following x =
     (let ids = remdups_js (get_or [] st teamId)
      in case get (x_threads x) i of
           None \<Rightarrow> Some Same
         | Some thread \<Rightarrow>
             if i \<in> set ids then
               (if \<not> following then Some (New (put teamId (removeAll i ids) st)) else Some Same)
             else case shouldAddThreadId ids thread (x_threads x) of
               None \<Rightarrow> None
             | Some shouldAdd \<Rightarrow>
                 if shouldAdd \<and> following then Some (New (put teamId (set_add (t_id thread) ids) st))
                 else Some Same)"

definition handleReceiveThreads :: "team_threads \<Rightarrow> user_thread list \<Rightarrow> string \<Rightarrow> team_threads nxt" where
  "handleReceiveThreads st ts teamId =
     New (put teamId (foldl (\<lambda>ids t. set_add (t_id t) ids) (remdups_js (get_or [] st teamId)) ts) st)"

definition leave_step :: "string \<Rightarrow> team_threads \<times> bool \<Rightarrow> user_thread \<Rightarrow> team_threads \<times> bool" where
  "leave_step teamId = (\<lambda>(nextState, threadDeleted) thread.
     (case get nextState teamId of
        None \<Rightarrow> (nextState, threadDeleted)
      | Some ids \<Rightarrow>
          (case indexOf ids (t_id thread) of
             None \<Rightarrow> (nextState, threadDeleted)
           | Some index \<Rightarrow> (put teamId (remove_at index ids) nextState, True))))"

definition handleLeaveChannel :: "team_threads \<Rightarrow> string \<Rightarrow> extra_data \<Rightarrow> team_threads nxt" where
  "handleLeaveChannel st teamId x =
     (case x_threadsToDelete x of
        None \<Rightarrow> Same
      | Some ts \<Rightarrow>
          if ts = [] then Same
          else let (nextState, threadDeleted) = foldl (leave_step teamId) (st, False) ts
               in if \<not> threadDeleted then Same else New nextState)"

definition handleLeaveTeam :: "'v obj \<Rightarrow> string \<Rightarrow> 'v obj nxt" where
  "handleLeaveTeam st teamId = (if get st teamId = None then Same else New (del teamId st))"

definition handleSingleTeamThreadRead ::
  "team_threads \<Rightarrow> read_changed \<Rightarrow> string \<Rightarrow> extra_data \<Rightarrow> team_threads nxt option" where
  "handleSingleTeamThreadRead st rc teamId x =
     (let team = get_or [] st teamId;
          unread = (rc_newUnreadReplies rc > 0 \<or> rc_newUnreadMentions rc > 0)
      in case indexOf team (rc_id rc) of
           None \<Rightarrow>
             (case get (x_threads x) (rc_id rc) of
                None \<Rightarrow> Some Same
              | Some thread \<Rightarrow>
                  if unread then
                    (case shouldAddThreadId team thread (x_threads x) of
                       None \<Rightarrow> None
                     | Some b \<Rightarrow> if b then Some (New (put teamId (team @ [rc_id rc]) st)) else Some Same)
                  else Some Same)
         | Some index \<Rightarrow>
             if unread then Some Same
             else Some (New (put teamId (remove_at index team) st)))"

fun threadsInTeamReducer :: "team_threads \<Rightarrow> action \<Rightarrow> extra_data \<Rightarrow> team_threads nxt option" where
  "threadsInTeamReducer st (ThreadTypes (RECEIVED_THREAD t team)) x = handleReceivedThread st t team x"
| "threadsInTeamReducer st (PostTypes (POST_DELETED p)) x = Some (handlePostRemoved st p)"
| "threadsInTeamReducer st (PostTypes (POST_REMOVED p)) x = Some (handlePostRemoved st p)"
| "threadsInTeamReducer st (ThreadTypes (RECEIVED_THREADS ts team)) x = Some (handleReceiveThreads st ts team)"
| "threadsInTeamReducer st (TeamTypes (LEAVE_TEAM team)) x = Some (handleLeaveTeam st team)"
| "threadsInTeamReducer st (UserTypes LOGOUT_SUCCESS) x = Some (New [])"
| "threadsInTeamReducer st (ChannelTypes (RECEIVED_CHANNEL_DELETED ch team)) x = Some (handleLeaveChannel st team x)"
| "threadsInTeamReducer st (ChannelTypes (LEAVE_CHANNEL ch team)) x = Some (handleLeaveChannel st team x)"
| "threadsInTeamReducer st _ x = Some Same"

definition is_unread :: "user_thread \<Rightarrow> bool" where
  "is_unread t \<longleftrightarrow> t_unread_replies t > 0 \<or> t_unread_mentions t > 0"

fun unreadThreadsInTeamReducer :: "team_threads \<Rightarrow> action \<Rightarrow> extra_data \<Rightarrow> team_threads nxt option" where
  "unreadThreadsInTeamReducer st (ThreadTypes (READ_CHANGED_THREAD rc)) x =
     (if rc_teamId rc = []
      then map_option New (for_teams (\<lambda>st i. handleSingleTeamThreadRead st rc i x) st (obj_keys st))
      else handleSingleTeamThreadRead st rc (rc_teamId rc) x)"
| "unreadThreadsInTeamReducer st (ThreadTypes (RECEIVED_THREAD t team)) x =
     (if is_unread t then handleReceivedThread st t team x else Some Same)"
| "unreadThreadsInTeamReducer st (ThreadTypes (RECEIVED_THREADS ts team)) x =
     Some (handleReceiveThreads st (filter is_unread ts) team)"
| "unreadThreadsInTeamReducer st (PostTypes (POST_DELETED p)) x = Some (handlePostRemoved st p)"
| "unreadThreadsInTeamReducer st (PostTypes (POST_REMOVED p)) x = Some (handlePostRemoved st p)"
| "unreadThreadsInTeamReducer st (ThreadTypes (RECEIVED_UNREAD_THREADS ts team)) x =
     Some (handleReceiveThreads st ts team)"
| "unreadThreadsInTeamReducer st (TeamTypes (LEAVE_TEAM team)) x = Some (handleLeaveTeam st team)"
| "unreadThreadsInTeamReducer st (UserTypes LOGOUT_SUCCESS) x = Some (New [])"
| "unreadThreadsInTeamReducer st (ChannelTypes (RECEIVED_CHANNEL_DELETED ch team)) x =
     Some (handleLeaveChannel st team x)"
| "unreadThreadsInTeamReducer st (ChannelTypes (LEAVE_CHANNEL ch team)) x = Some (handleLeaveChannel st team x)"
| "unreadThreadsInTeamReducer st (ThreadTypes (FOLLOW_CHANGED_THREAD i team f)) x =
     handleFollowChanged st i team f x"
| "unreadThreadsInTeamReducer st _ x = Some Same"

section \<open>counts.ts: the unread counters\<close>

type_synonym team_counts = "thread_counts obj"

definition isDmGmChannel :: "string \<Rightarrow> bool" where
  "isDmGmChannel channelType \<longleftrightarrow> channelType = ''D'' \<or> channelType = ''G''"

text \<open>\<open>{}\<close> as counters.\<close>

definition no_counts :: thread_counts where
  "no_counts = \<lparr>c_total = Undefined, c_total_unread_threads = Undefined,
     c_total_unread_mentions = Undefined, c_total_unread_urgent_mentions = Undefined\<rparr>"

definition handleAllTeamThreadsRead :: "team_counts \<Rightarrow> string \<Rightarrow> team_counts nxt" where
  "handleAllTeamThreadsRead st teamId =
     New (put teamId ((get_or no_counts st teamId)\<lparr>c_total_unread_mentions := Num 0,
       c_total_unread_threads := Num 0, c_total_unread_urgent_mentions := Num 0\<rparr>) st)"

text \<open>\<open>!==\<close> on numbers: \<open>NaN\<close> differs from everything, itself included.\<close>

fun js_same :: "jsnum \<Rightarrow> jsnum \<Rightarrow> bool" where
  "js_same (Num a) (Num b) = (a = b)"
| "js_same Undefined Undefined = True"
| "js_same _ _ = False"

definition isEqual :: "team_counts \<Rightarrow> string \<Rightarrow> thread_counts \<Rightarrow> bool \<Rightarrow> bool" where
  "isEqual st teamId data unreads =
     (let counts = get_or no_counts st teamId
      in if \<not> js_same (c_total_unread_mentions data) (c_total_unread_mentions counts) \<or>
            \<not> js_same (c_total_unread_threads data) (c_total_unread_threads counts) \<or>
            \<not> js_same (c_total_unread_urgent_mentions data) (c_total_unread_urgent_mentions counts)
         then False
         else if \<not> unreads \<and> \<not> js_same (c_total data) (c_total counts) then False
         else True)"

definition or_0 :: "int option \<Rightarrow> int" where
  "or_0 n = (case n of None \<Rightarrow> 0 | Some i \<Rightarrow> i)"

definition handleReadChangedThread ::
  "team_counts \<Rightarrow> read_changed \<Rightarrow> string \<Rightarrow> bool \<Rightarrow> team_counts nxt" where
  "handleReadChangedThread st rc teamId isUrgent =
     (let prevUnreadMentions = or_0 (rc_prevUnreadMentions rc);
          prevUnreadReplies = or_0 (rc_prevUnreadReplies rc);
          counts = (case get st teamId of
              Some c \<Rightarrow> c
            | None \<Rightarrow> \<lparr>c_total = Num 0, c_total_unread_threads = Num prevUnreadReplies,
                c_total_unread_mentions = Num prevUnreadMentions,
                c_total_unread_urgent_mentions = Num (if isUrgent then prevUnreadMentions else 0)\<rparr>);
          unreadMentionDiff = Num (rc_newUnreadMentions rc - prevUnreadMentions);
          counts = counts\<lparr>c_total_unread_mentions := js_max (c_total_unread_mentions counts + unreadMentionDiff) (Num 0)\<rparr>;
          counts = (if isUrgent then counts\<lparr>c_total_unread_urgent_mentions :=
              js_max (c_total_unread_urgent_mentions counts + unreadMentionDiff) (Num 0)\<rparr> else counts);
          counts = (if rc_newUnreadReplies rc > 0 \<and> prevUnreadReplies = 0
                    then counts\<lparr>c_total_unread_threads := c_total_unread_threads counts + Num 1\<rparr>
                    else if prevUnreadReplies > 0 \<and> rc_newUnreadReplies rc = 0
                    then counts\<lparr>c_total_unread_threads := js_max (c_total_unread_threads counts - Num 1) (Num 0)\<rparr>
                    else counts)
      in New (put teamId counts st))"

definition count_deleted :: "int \<times> int \<times> int \<Rightarrow> user_thread \<Rightarrow> int \<times> int \<times> int" where
  "count_deleted = (\<lambda>(unreadMentions, unreadThreads, unreadUrgentMentions) t.
     (unreadMentions + t_unread_mentions t,
      if t_unread_replies t > 0 then unreadThreads + 1 else unreadThreads,
      if t_is_urgent t then unreadUrgentMentions + t_unread_mentions t else unreadUrgentMentions))"

definition counts_left_channel :: "team_counts \<Rightarrow> string \<Rightarrow> extra_data \<Rightarrow> team_counts nxt" where
  "counts_left_channel st teamId x =
     (case x_threadsToDelete x of
        None \<Rightarrow> Same
      | Some ts \<Rightarrow>
          if ts = [] \<or> teamId = [] then Same
          else case get st teamId of
            None \<Rightarrow> Same
          | Some c \<Rightarrow>
              let (unreadMentions, unreadThreads, unreadUrgentMentions) = foldl count_deleted (0, 0, 0) ts
              in New (put teamId
                   \<lparr>c_total = js_max (c_total c - Num (int (length ts))) (Num 0),
                    c_total_unread_threads = js_max (c_total_unread_threads c - Num unreadThreads) (Num 0),
                    c_total_unread_mentions = js_max (c_total_unread_mentions c - Num unreadMentions) (Num 0),
                    c_total_unread_urgent_mentions =
                      js_max (or_zero (c_total_unread_urgent_mentions c) - Num unreadUrgentMentions) (Num 0)\<rparr> st))"

text \<open>The new object has no \<open>total_unread_urgent_mentions\<close>.\<close>

definition handleDecrementThreadCounts :: "team_counts \<Rightarrow> string \<Rightarrow> int \<Rightarrow> int \<Rightarrow> team_counts nxt" where
  "handleDecrementThreadCounts st teamId replies mentions =
     (case get st teamId of
        None \<Rightarrow> Same
      | Some c \<Rightarrow> New (put teamId
          \<lparr>c_total = js_max (c_total c - Num 1) (Num 0),
           c_total_unread_threads = js_max (c_total_unread_threads c - Num replies) (Num 0),
           c_total_unread_mentions = js_max (c_total_unread_mentions c - Num mentions) (Num 0),
           c_total_unread_urgent_mentions = Undefined\<rparr> st))"

definition counts_follow_changed :: "team_counts \<Rightarrow> string \<Rightarrow> bool \<Rightarrow> team_counts nxt" where
  "counts_follow_changed st teamId following =
     (case get st teamId of
        None \<Rightarrow> Same
      | Some c \<Rightarrow>
          if c_total c = Undefined then Same
          else New (put teamId (c\<lparr>c_total := (if following then c_total c + Num 1 else c_total c - Num 1)\<rparr>) st))"

text \<open>The teams of the state and the action's own, in the order of a \<open>Set\<close>.\<close>

definition all_team_ids :: "team_counts \<Rightarrow> string \<Rightarrow> string list" where
  "all_team_ids st teamId = (if teamId = [] then obj_keys st else set_add teamId (obj_keys st))"

fun countsIncludingDirectReducer :: "team_counts \<Rightarrow> action \<Rightarrow> extra_data \<Rightarrow> team_counts nxt" where
  "countsIncludingDirectReducer st (ThreadTypes (ALL_TEAM_THREADS_READ team)) x = handleAllTeamThreadsRead st team"
| "countsIncludingDirectReducer st (ThreadTypes (READ_CHANGED_THREAD rc)) x =
     (if isDmGmChannel (rc_channelType rc)
      then New (foldl (\<lambda>ns i. upd ns (handleReadChangedThread ns rc i (rc_isUrgent rc))) st
                  (all_team_ids st (rc_teamId rc)))
      else handleReadChangedThread st rc (rc_teamId rc) (rc_isUrgent rc))"
| "countsIncludingDirectReducer st (ThreadTypes (FOLLOW_CHANGED_THREAD i team f)) x = counts_follow_changed st team f"
| "countsIncludingDirectReducer st (TeamTypes (LEAVE_TEAM team)) x = handleLeaveTeam st team"
| "countsIncludingDirectReducer st (ChannelTypes (RECEIVED_CHANNEL_DELETED ch team)) x = counts_left_channel st team x"
| "countsIncludingDirectReducer st (ChannelTypes (LEAVE_CHANNEL ch team)) x = counts_left_channel st team x"
| "countsIncludingDirectReducer st (ThreadTypes (RECEIVED_THREAD_COUNTS team c)) x =
     (if isEqual st team c False then Same else New (put team c st))"
| "countsIncludingDirectReducer st (ThreadTypes (DECREMENT_THREAD_COUNTS team replies mentions channelType)) x =
     handleDecrementThreadCounts st team replies mentions"
| "countsIncludingDirectReducer st (UserTypes LOGOUT_SUCCESS) x = New []"
| "countsIncludingDirectReducer st _ x = Same"

definition counts_team_unreads :: "team_counts \<Rightarrow> team_unread list \<Rightarrow> team_counts nxt" where
  "counts_team_unreads st members =
     New (obj_spread st
       (foldl (\<lambda>result m. put (u_team_id m)
          ((get_or no_counts st (u_team_id m))\<lparr>c_total_unread_threads := or_zero (u_thread_count m),
             c_total_unread_mentions := or_zero (u_thread_mention_count m),
             c_total_unread_urgent_mentions := or_zero (u_thread_urgent_mention_count m)\<rparr>) result) [] members))"

fun countsReducer :: "team_counts \<Rightarrow> action \<Rightarrow> extra_data \<Rightarrow> team_counts nxt" where
  "countsReducer st (ThreadTypes (ALL_TEAM_THREADS_READ team)) x = handleAllTeamThreadsRead st team"
| "countsReducer st (ThreadTypes (READ_CHANGED_THREAD rc)) x =
     (if isDmGmChannel (rc_channelType rc) then Same
      else handleReadChangedThread st rc (rc_teamId rc) (rc_isUrgent rc))"
| "countsReducer st (TeamTypes (LEAVE_TEAM team)) x = handleLeaveTeam st team"
| "countsReducer st (UserTypes LOGOUT_SUCCESS) x = New []"
| "countsReducer st (ChannelTypes (RECEIVED_CHANNEL_DELETED ch team)) x = counts_left_channel st team x"
| "countsReducer st (ChannelTypes (LEAVE_CHANNEL ch team)) x = counts_left_channel st team x"
| "countsReducer st (TeamTypes (RECEIVED_MY_TEAM_UNREADS members)) x = counts_team_unreads st members"
| "countsReducer st (ThreadTypes (DECREMENT_THREAD_COUNTS team replies mentions channelType)) x =
     (if isDmGmChannel channelType then Same else handleDecrementThreadCounts st team replies mentions)"
| "countsReducer st _ x = Same"

section \<open>The reducer\<close>

definition getThreadsOfChannel :: "thread_map \<Rightarrow> string \<Rightarrow> user_thread list" where
  "getThreadsOfChannel threads channelId =
     filter (\<lambda>t. case t_post t of None \<Rightarrow> False | Some p \<Rightarrow> tp_channel_id p = channelId) (obj_values threads)"

definition initial_threads :: threads_state where
  "initial_threads = \<lparr>ts_threads = [], ts_threadsInTeam = [], ts_unreadThreadsInTeam = [],
     ts_counts = [], ts_countsIncludingDirect = []\<rparr>"

text \<open>Only \<open>LEAVE_CHANNEL\<close> sets \<open>threadsToDelete\<close>.\<close>

fun extra_for :: "threads_state \<Rightarrow> action \<Rightarrow> extra_data" where
  "extra_for s (ChannelTypes (LEAVE_CHANNEL ch team)) =
     \<lparr>x_threads = ts_threads s, x_threadsToDelete = Some (getThreadsOfChannel (ts_threads s) ch)\<rparr>"
| "extra_for s a = \<lparr>x_threads = ts_threads s, x_threadsToDelete = None\<rparr>"

definition threads_root_reducer :: "threads_state \<Rightarrow> action \<Rightarrow> threads_state nxt option" where
  "threads_root_reducer s a =
     (let x = extra_for s a;
          threads = threadsReducer (ts_threads s) a x
      in case threadsInTeamReducer (ts_threadsInTeam s) a x of
           None \<Rightarrow> None
         | Some inTeam \<Rightarrow>
             (case unreadThreadsInTeamReducer (ts_unreadThreadsInTeam s) a x of
                None \<Rightarrow> None
              | Some unread \<Rightarrow>
                  let counts = countsReducer (ts_counts s) a x;
                      direct = countsIncludingDirectReducer (ts_countsIncludingDirect s) a x
                  in Some
                    (if is_same threads \<and> is_same inTeam \<and> is_same unread \<and> is_same counts \<and> is_same direct
                     then Same
                     else New \<lparr>ts_threads = upd (ts_threads s) threads,
                       ts_threadsInTeam = upd (ts_threadsInTeam s) inTeam,
                       ts_unreadThreadsInTeam = upd (ts_unreadThreadsInTeam s) unread,
                       ts_counts = upd (ts_counts s) counts,
                       ts_countsIncludingDirect = upd (ts_countsIncludingDirect s) direct\<rparr>)))"

end
