(* ===== verification/ThreadsProps.thy ===== *)
theory ThreadsProps
  imports ThreadsReducer PostsReducer
begin

text \<open>
  What holds of the followed threads: the teams list only loaded threads, so the reducer never
  throws; when it does throw after all; and what the unread counters keep.
\<close>

section \<open>The lists of the teams\<close>

definition lists_ok :: "string set \<Rightarrow> team_threads \<Rightarrow> bool" where
  "lists_ok K st \<longleftrightarrow> (\<forall>team. distinct (get_or [] st team) \<and> set (get_or [] st team) \<subseteq> K)"

definition loaded_ids :: "thread_map \<Rightarrow> string set" where
  "loaded_ids threads = {i. get threads i \<noteq> None}"

lemma lists_ok_Nil [simp]: "lists_ok K []"
  by (simp add: lists_ok_def)

lemma lists_ok_put: "lists_ok K st \<Longrightarrow> distinct ids \<Longrightarrow> set ids \<subseteq> K \<Longrightarrow> lists_ok K (put team ids st)"
  by (simp add: lists_ok_def)

lemma lists_ok_del: "lists_ok K st \<Longrightarrow> lists_ok K (del team st)"
  by (simp add: lists_ok_def)

lemma lists_ok_mono: "lists_ok K st \<Longrightarrow> K \<subseteq> K' \<Longrightarrow> lists_ok K' st"
  by (auto simp: lists_ok_def)

lemma lists_ok_get: "lists_ok K st \<Longrightarrow> distinct (get_or [] st team) \<and> set (get_or [] st team) \<subseteq> K"
  by (simp add: lists_ok_def)

lemma shouldAdd_total: "set ids \<subseteq> loaded_ids threads \<Longrightarrow> \<exists>b. shouldAddThreadId ids t threads = Some b"
  by (induction ids) (auto simp: loaded_ids_def)

lemma shouldAdd_dated: "shouldAddThreadId ids t threads = Some True \<Longrightarrow> t_last_reply_at t \<noteq> None"
  by (induction ids) (auto split: option.splits if_splits elim: js_greater.elims)

text \<open>A handler that, on lists of loaded threads, does not throw and keeps them so.\<close>

definition sound :: "string set \<Rightarrow> team_threads \<Rightarrow> team_threads nxt option \<Rightarrow> bool" where
  "sound K st r \<longleftrightarrow> (\<exists>n. r = Some n \<and> lists_ok K (upd st n))"

lemma sound_Some [simp]: "sound K st (Some n) \<longleftrightarrow> lists_ok K (upd st n)"
  by (simp add: sound_def)

lemma soundE:
  assumes "sound K st r"
  obtains n where "r = Some n" "lists_ok K (upd st n)"
  using assms by (auto simp: sound_def)

lemma for_teams_total:
  assumes "\<And>st i. lists_ok K st \<Longrightarrow> sound K st (f st i)"
  shows "lists_ok K st \<Longrightarrow> \<exists>st'. for_teams f st is = Some st' \<and> lists_ok K st'"
proof (induction "is" arbitrary: st)
  case (Cons i "is")
  obtain n where "f st i = Some n" "lists_ok K (upd st n)"
    using assms [OF Cons.prems] by (rule soundE)
  with Cons.IH [of "upd st n"] show ?case by simp
qed simp

lemma for_teams_sound:
  assumes "\<And>st i. lists_ok K st \<Longrightarrow> sound K st (f st i)" and "lists_ok K st"
  shows "sound K st (map_option New (for_teams f st is))"
  using for_teams_total [of K f st "is"] assms by (auto simp: sound_def)

lemma single_received_sound:
  assumes "lists_ok (insert (t_id t) (loaded_ids (x_threads x))) st"
  shows "sound (insert (t_id t) (loaded_ids (x_threads x))) st (handleSingleTeamReceivedThread st t team x)"
proof -
  let ?ids = "remdups_js (get_or [] st team)"
  have ids: "set ?ids \<subseteq> insert (t_id t) (loaded_ids (x_threads x))" using lists_ok_get [OF assms] by simp
  show ?thesis
  proof (cases "t_id t \<in> set ?ids")
    case False
    with ids obtain b where "shouldAddThreadId ?ids t (x_threads x) = Some b"
      using shouldAdd_total [of ?ids "x_threads x" t] by blast
    with False assms ids show ?thesis
      by (cases b) (simp_all add: handleSingleTeamReceivedThread_def Let_def lists_ok_put)
  qed (use assms in \<open>simp add: handleSingleTeamReceivedThread_def Let_def\<close>)
qed

lemma received_thread_sound:
  "lists_ok (insert (t_id t) (loaded_ids (x_threads x))) st \<Longrightarrow>
     sound (insert (t_id t) (loaded_ids (x_threads x))) st (handleReceivedThread st t team x)"
  unfolding handleReceivedThread_def handleAllTeamsReceivedThread_def
  by (auto intro!: for_teams_sound single_received_sound)

lemma thread_read_sound:
  assumes "lists_ok (loaded_ids (x_threads x)) st"
  shows "sound (loaded_ids (x_threads x)) st (handleSingleTeamThreadRead st rc team x)"
proof -
  obtain b where "get (x_threads x) (rc_id rc) = Some t \<Longrightarrow>
      shouldAddThreadId (get_or [] st team) t (x_threads x) = Some (b t)" for t
    using shouldAdd_total [of "get_or [] st team" "x_threads x"] lists_ok_get [OF assms, of team] by metis
  with assms lists_ok_get [OF assms, of team] show ?thesis
    by (auto simp: handleSingleTeamThreadRead_def Let_def indexOf_None loaded_ids_def distinct_remove_at
        split: option.split dest: subsetD [OF set_remove_at] intro!: lists_ok_put)
qed

definition filed_threads :: "thread_map \<Rightarrow> bool" where
  "filed_threads st \<longleftrightarrow>
     (\<forall>k t. get st k = Some t \<longrightarrow> t_id t = k \<or> t_last_reply_at t = None \<and> t_post t = None)"

lemma filed_threads_get:
  "filed_threads st \<Longrightarrow> get st k = Some t \<Longrightarrow> t_last_reply_at t \<noteq> None \<or> t_post t \<noteq> None \<Longrightarrow> t_id t = k"
  by (drule filed_threads_def [THEN iffD1, rule_format]) auto

lemma follow_changed_sound:
  assumes "lists_ok (loaded_ids (x_threads x)) st" and "filed_threads (x_threads x)"
  shows "sound (loaded_ids (x_threads x)) st (handleFollowChanged st i team f x)"
proof (cases "get (x_threads x) i")
  case None
  with assms show ?thesis by (simp add: handleFollowChanged_def)
next
  case (Some t)
  let ?ids = "remdups_js (get_or [] st team)"
  obtain b where b: "shouldAddThreadId ?ids t (x_threads x) = Some b"
    using shouldAdd_total [of ?ids "x_threads x"] lists_ok_get [OF assms(1), of team] by fastforce
  have "t_id t = i" if b
    using that b shouldAdd_dated [of ?ids t "x_threads x"] filed_threads_get [OF assms(2) Some] by simp
  with Some b assms(1) lists_ok_get [OF assms(1), of team] show ?thesis
    by (auto simp: handleFollowChanged_def Let_def loaded_ids_def distinct_removeAll intro!: lists_ok_put)
qed

lemma receive_threads_sound:
  "lists_ok K st \<Longrightarrow> lists_ok (K \<union> t_id ` set ts) (upd st (handleReceiveThreads st ts team))"
  using lists_ok_get [of K st team]
  by (auto simp: handleReceiveThreads_def intro!: lists_ok_put intro: lists_ok_mono)

lemma leave_team_sound: "lists_ok K st \<Longrightarrow> lists_ok K (upd st (handleLeaveTeam st team))"
  by (simp add: handleLeaveTeam_def lists_ok_del)

lemma get_foldl_put:
  "get (foldl (\<lambda>ns i. put i (f i) ns) ob is) k = (if k \<in> set is then Some (f k) else get ob k)"
  by (induction "is" arbitrary: ob) auto

text \<open>A removed root post leaves every list that has it.\<close>

lemma get_handlePostRemoved:
  assumes "root_id p = []"
  shows "get_or [] (upd st (handlePostRemoved st p)) team = remove1 (post_id p) (get_or [] st team)"
proof -
  let ?has = "\<lambda>i. indexOf (get_or [] st i) (post_id p) \<noteq> None"
  let ?teams = "filter ?has (obj_keys st)"
  let ?ns = "foldl (\<lambda>ns i. put i (case indexOf (get_or [] st i) (post_id p) of
      None \<Rightarrow> get_or [] st i | Some n \<Rightarrow> remove_at n (get_or [] st i)) ns) [] ?teams"
  have wf: "wf_obj ?ns" by (rule wf_foldl_put) simp
  have team: "?has team \<Longrightarrow> team \<in> set ?teams"
    by (cases "get st team") (auto simp: indexOf_None keys_iff_get get_or_def)
  have spread: "get (obj_spread st ?ns) team =
      (case indexOf (get_or [] st team) (post_id p) of
         None \<Rightarrow> get st team | Some n \<Rightarrow> Some (remove_at n (get_or [] st team)))"
    using team by (subst get_obj_spread_wf [OF wf]) (auto simp: get_foldl_put split: option.splits)
  have "get_or [] (obj_spread st ?ns) team = remove1 (post_id p) (get_or [] st team)"
  proof (cases "indexOf (get_or [] st team) (post_id p)")
    case None
    then have "get_or [] (obj_spread st ?ns) team = get_or [] st team"
      using spread by (simp add: get_or_def)
    with None show ?thesis by (simp add: indexOf_None remove1_idem)
  next
    case (Some n)
    then have "get_or [] (obj_spread st ?ns) team = remove_at n (get_or [] st team)"
      unfolding get_or_def [of _ "obj_spread st ?ns"] spread by simp
    with Some show ?thesis by (simp add: remove_at_indexOf)
  qed
  moreover have "remove1 (post_id p) (get_or [] st team) = get_or [] st team" if "?teams = []"
    using that team by (auto simp: indexOf_None intro!: remove1_idem)
  ultimately show ?thesis using assms by (simp add: handlePostRemoved_def Let_def)
qed

lemma post_removed_sound:
  assumes "lists_ok K st"
  shows "lists_ok (if root_id p = [] then K - {post_id p} else K) (upd st (handlePostRemoved st p))"
proof (cases "root_id p = []")
  case True
  then show ?thesis using assms by (auto simp: lists_ok_def get_handlePostRemoved)
qed (use assms in \<open>simp add: handlePostRemoved_def\<close>)

text \<open>Leaving a channel takes its threads out of the list of the action's team, and of no other.\<close>

lemma leave_loop:
  "foldl (leave_step team) (st, d) ts = (st', d') \<Longrightarrow>
     get_or [] st' T = (if T = team then foldl (\<lambda>ids t. remove1 (t_id t) ids) (get_or [] st team) ts
                        else get_or [] st T) \<and> (\<not> d' \<longrightarrow> \<not> d \<and> st' = st)"
proof (induction ts arbitrary: st d)
  case (Cons t ts)
  obtain s1 d1 where step: "leave_step team (st, d) t = (s1, d1)" by (cases "leave_step team (st, d) t")
  then have "get_or [] s1 T = (if T = team then remove1 (t_id t) (get_or [] st team) else get_or [] st T)"
    "\<not> d1 \<longrightarrow> \<not> d \<and> s1 = st" "get_or [] s1 team = remove1 (t_id t) (get_or [] st team)"
    by (auto simp: leave_step_def get_or_def indexOf_None remove_at_indexOf remove1_idem split: option.splits)
  with Cons.IH [of s1 d1] Cons.prems step show ?case by auto
qed simp

lemma set_foldl_remove1:
  "distinct ids \<Longrightarrow> set (foldl (\<lambda>ids t. remove1 (f t) ids) ids ts) = set ids - f ` set ts \<and>
     distinct (foldl (\<lambda>ids t. remove1 (f t) ids) ids ts)"
  by (induction ts arbitrary: ids) auto

lemma get_handleLeaveChannel:
  "get_or [] (upd st (handleLeaveChannel st team x)) T =
     (if T = team then foldl (\<lambda>ids t. remove1 (t_id t) ids) (get_or [] st team)
           (case x_threadsToDelete x of None \<Rightarrow> [] | Some ts \<Rightarrow> ts)
      else get_or [] st T)"
proof -
  have "get_or [] (upd st (let (st', d) = foldl (leave_step team) (st, False) ts
            in if \<not> d then Same else New st')) T =
      (if T = team then foldl (\<lambda>ids t. remove1 (t_id t) ids) (get_or [] st team) ts else get_or [] st T)" for ts
    using leave_loop [of team st False ts _ _ T] by (cases "foldl (leave_step team) (st, False) ts") auto
  then show ?thesis by (auto simp: handleLeaveChannel_def split: option.split)
qed

definition unlisted_elsewhere :: "team_threads \<Rightarrow> string \<Rightarrow> user_thread list \<Rightarrow> bool" where
  "unlisted_elsewhere st team ts \<longleftrightarrow>
     list_all (\<lambda>(other, ids). other = team \<or> list_all (\<lambda>t. t_id t \<notin> set ids) ts) st"

lemma unlisted_elsewhere_get:
  assumes "unlisted_elsewhere st team ts" and "T \<noteq> team"
  shows "set (get_or [] st T) \<inter> t_id ` set ts = {}"
proof (cases "get st T")
  case (Some ids)
  then have "(T, ids) \<in> set st" by (rule map_of_SomeD)
  with assms have "list_all (\<lambda>t. t_id t \<notin> set ids) ts" by (auto simp: unlisted_elsewhere_def list_all_iff)
  with Some show ?thesis by (auto simp: list_all_iff get_or_def)
qed (simp add: get_or_def)

lemma leave_channel_sound:
  assumes st: "lists_ok K st" and x: "x_threadsToDelete x = Some ts" and "unlisted_elsewhere st team ts"
  shows "lists_ok (K - t_id ` set ts) (upd st (handleLeaveChannel st team x))"
  unfolding lists_ok_def
proof
  fix T
  show "distinct (get_or [] (upd st (handleLeaveChannel st team x)) T) \<and>
      set (get_or [] (upd st (handleLeaveChannel st team x)) T) \<subseteq> K - t_id ` set ts"
    using lists_ok_get [OF st, of T] unlisted_elsewhere_get [OF assms(3), of T]
      set_foldl_remove1 [of "get_or [] st team" t_id ts]
    by (auto simp: get_handleLeaveChannel x)
qed

lemma deleted_channel_sound:
  "lists_ok K st \<Longrightarrow> x_threadsToDelete x = None \<Longrightarrow> upd st (handleLeaveChannel st team x) = st"
  by (simp add: handleLeaveChannel_def)

section \<open>The store of threads never throws\<close>

definition threads_step :: "threads_state \<Rightarrow> action \<Rightarrow> threads_state option" where
  "threads_step s a = map_option (upd s) (threads_root_reducer s a)"

definition threads_ok :: "threads_state \<Rightarrow> bool" where
  "threads_ok s \<longleftrightarrow> filed_threads (ts_threads s) \<and>
     lists_ok (loaded_ids (ts_threads s)) (ts_threadsInTeam s) \<and>
     lists_ok (loaded_ids (ts_threads s)) (ts_unreadThreadsInTeam s)"

text \<open>A left channel's threads may be listed by the team the action names only.\<close>

fun threads_admissible :: "threads_state \<Rightarrow> action \<Rightarrow> bool" where
  "threads_admissible s (ChannelTypes (LEAVE_CHANNEL ch team)) =
     (unlisted_elsewhere (ts_threadsInTeam s) team (getThreadsOfChannel (ts_threads s) ch) \<and>
      unlisted_elsewhere (ts_unreadThreadsInTeam s) team (getThreadsOfChannel (ts_threads s) ch))"
| "threads_admissible s a = True"

lemma threads_step_cases:
  assumes "threadsInTeamReducer (ts_threadsInTeam s) a (extra_for s a) = Some i"
    and "unreadThreadsInTeamReducer (ts_unreadThreadsInTeam s) a (extra_for s a) = Some u"
  obtains s' where "threads_step s a = Some s'"
    "ts_threads s' = upd (ts_threads s) (threadsReducer (ts_threads s) a (extra_for s a))"
    "ts_threadsInTeam s' = upd (ts_threadsInTeam s) i"
    "ts_unreadThreadsInTeam s' = upd (ts_unreadThreadsInTeam s) u"
    "ts_counts s' = upd (ts_counts s) (countsReducer (ts_counts s) a (extra_for s a))"
    "ts_countsIncludingDirect s' =
       upd (ts_countsIncludingDirect s) (countsIncludingDirectReducer (ts_countsIncludingDirect s) a (extra_for s a))"
  by (rule that [of "the (threads_step s a)"])
    (use assms in \<open>auto simp: threads_step_def threads_root_reducer_def Let_def upd_same\<close>)

lemma x_threads_extra_for [simp]: "x_threads (extra_for s a) = ts_threads s"
  by (cases "(s, a)" rule: extra_for.cases) auto

lemma loaded_ids_put [simp]: "loaded_ids (put k t st) = insert k (loaded_ids st)"
  by (auto simp: loaded_ids_def)

lemma loaded_ids_del [simp]: "loaded_ids (del k st) = loaded_ids st - {k}"
  by (auto simp: loaded_ids_def)

lemma threads_received_props:
  "loaded_ids (upd st (threads_received st ts)) = loaded_ids st \<union> t_id ` set ts \<and>
   (filed_threads st \<longrightarrow> filed_threads (upd st (threads_received st ts)))"
proof -
  let ?ns = "foldl (\<lambda>results t. put (t_id t) t results) [] ts"
  have wf: "wf_obj ?ns" by (rule wf_foldl_put) simp
  have dom: "get (foldl (\<lambda>results t. put (t_id t) t results) ob ts) k \<noteq> None \<longleftrightarrow>
      k \<in> t_id ` set ts \<or> get ob k \<noteq> None" for ob k
    by (induction ts arbitrary: ob) auto
  have ns: "\<forall>k t. get ?ns k = Some t \<longrightarrow> t_id t = k"
    by (rule foldl_invariant) auto
  have spread: "get (upd st (threads_received st ts)) k = (case get ?ns k of None \<Rightarrow> get st k | Some t \<Rightarrow> Some t)" for k
    by (simp add: threads_received_def get_obj_spread_wf [OF wf])
  have "filed_threads (upd st (threads_received st ts))" if "filed_threads st"
    unfolding filed_threads_def
  proof (intro allI impI)
    fix k t
    assume "get (upd st (threads_received st ts)) k = Some t"
    then have "get ?ns k = Some t \<or> get st k = Some t" by (simp add: spread split: option.splits)
    then show "t_id t = k \<or> t_last_reply_at t = None \<and> t_post t = None"
      using ns that unfolding filed_threads_def by blast
  qed
  moreover have "k \<in> loaded_ids (upd st (threads_received st ts)) \<longleftrightarrow> k \<in> loaded_ids st \<union> t_id ` set ts" for k
    using dom [of "[]" k] by (auto simp: loaded_ids_def spread split: option.split)
  ultimately show ?thesis by blast
qed

lemma filed_threads_put:
  "filed_threads st \<Longrightarrow> t_id t = k \<or> t_last_reply_at t = None \<and> t_post t = None \<Longrightarrow> filed_threads (put k t st)"
  by (simp add: filed_threads_def)

lemma filed_threads_del: "filed_threads st \<Longrightarrow> filed_threads (del k st)"
  by (simp add: filed_threads_def)

lemma filed_threads_entry:
  "filed_threads st \<Longrightarrow> get st k = Some t \<Longrightarrow> t_id t = k \<or> t_last_reply_at t = None \<and> t_post t = None"
  by (rule filed_threads_def [THEN iffD1, rule_format])

lemma filed_foldl_del: "filed_threads st \<Longrightarrow> filed_threads (foldl (\<lambda>ns t. del (t_id t) ns) st ts)"
  by (rule foldl_invariant) (auto intro: filed_threads_del)

text \<open>Every action keeps the threads filed; deletions and departures apart, none is forgotten.\<close>

lemma threadsReducer_filed:
  assumes "filed_threads st"
  shows "filed_threads (upd st (threadsReducer st a x))"
proof -
  have read: "filed_threads (upd st (thread_read st rc))" for rc
    using assms filed_threads_entry [OF assms, of "rc_id rc"]
    by (auto simp: thread_read_def get_or_def no_thread_def split: option.split intro!: filed_threads_put)
  have followed: "filed_threads (upd st (thread_followed st i f))" for i f
    using assms filed_threads_entry [OF assms, of i]
    by (auto simp: thread_followed_def split: option.split intro!: filed_threads_put)
  have replied: "filed_threads (upd st (thread_replied st p))" for p
    using assms filed_threads_entry [OF assms, of "root_id p"]
    by (auto simp: thread_replied_def Let_def split: option.split intro!: filed_threads_put)
  have all_read: "filed_threads (map (\<lambda>(i, t). (i, t\<lparr>t_unread_mentions := 0, t_unread_replies := 0\<rparr>)) st)"
    using filed_threads_entry [OF assms] by (fastforce simp: filed_threads_def get_map_obj)
  show ?thesis
    using assms read followed replied all_read
    by (cases "(st, a, x)" rule: threadsReducer.cases)
      (auto simp: threads_received_props thread_removed_def threads_deleted_def filed_foldl_del
        filed_threads_del filed_threads_put split: option.split, simp_all add: filed_threads_def)
qed

lemma loaded_ids_simps [simp]:
  "loaded_ids (upd st (thread_followed st i f)) = loaded_ids st"
  "loaded_ids (upd st (thread_replied st p)) = loaded_ids st"
  "loaded_ids (upd st (thread_read st rc)) = insert (rc_id rc) (loaded_ids st)"
  "loaded_ids (map (\<lambda>(i, t). (i, g t)) st) = loaded_ids st"
  "loaded_ids (upd st (thread_removed st p)) = (if root_id p = [] then loaded_ids st - {post_id p} else loaded_ids st)"
  by (auto simp: thread_followed_def thread_replied_def thread_read_def thread_removed_def Let_def
      get_map_obj loaded_ids_def split: option.splits)

lemma channel_thread_ids:
  assumes "filed_threads st"
  shows "loaded_ids (upd st (threads_deleted st (Some (getThreadsOfChannel st ch)))) =
    loaded_ids st - t_id ` set (getThreadsOfChannel st ch)"
  by (auto simp: threads_deleted_def loaded_ids_def)

lemma threads_ok_stepI:
  assumes "sound K (ts_threadsInTeam s) (threadsInTeamReducer (ts_threadsInTeam s) a (extra_for s a))"
    and "sound K (ts_unreadThreadsInTeam s) (unreadThreadsInTeamReducer (ts_unreadThreadsInTeam s) a (extra_for s a))"
    and "K \<subseteq> loaded_ids (upd (ts_threads s) (threadsReducer (ts_threads s) a (extra_for s a)))"
    and "filed_threads (ts_threads s)"
  shows "\<exists>s'. threads_step s a = Some s' \<and> threads_ok s'"
proof -
  obtain i u where "threadsInTeamReducer (ts_threadsInTeam s) a (extra_for s a) = Some i"
    "unreadThreadsInTeamReducer (ts_unreadThreadsInTeam s) a (extra_for s a) = Some u"
    and lists: "lists_ok K (upd (ts_threadsInTeam s) i)" "lists_ok K (upd (ts_unreadThreadsInTeam s) u)"
    using assms(1,2) by (auto elim!: soundE)
  then obtain s' where "threads_step s a = Some s'"
    "ts_threads s' = upd (ts_threads s) (threadsReducer (ts_threads s) a (extra_for s a))"
    "ts_threadsInTeam s' = upd (ts_threadsInTeam s) i" "ts_unreadThreadsInTeam s' = upd (ts_unreadThreadsInTeam s) u"
    by (metis threads_step_cases)
  then show ?thesis
    using lists assms(3,4) threadsReducer_filed by (auto simp: threads_ok_def intro: lists_ok_mono)
qed

lemma threads_ok_step:
  assumes ok: "threads_ok s" and adm: "threads_admissible s a"
  shows "\<exists>s'. threads_step s a = Some s' \<and> threads_ok s'"
proof -
  let ?K = "loaded_ids (ts_threads s)"
  from ok have filed: "filed_threads (ts_threads s)" and
    L: "lists_ok ?K (ts_threadsInTeam s)" "lists_ok ?K (ts_unreadThreadsInTeam s)"
    by (simp_all add: threads_ok_def)
  note step = threads_ok_stepI [OF _ _ _ filed]
  have received: ?thesis if a: "a = ThreadTypes (RECEIVED_THREAD t team)" for t team
    using received_thread_sound [of t "extra_for s a" _ team] L lists_ok_mono [OF L(1)] lists_ok_mono [OF L(2)]
    by (intro step [of "insert (t_id t) ?K"]) (simp_all add: a subset_insertI)
  have removed: ?thesis if a: "a = PostTypes (POST_DELETED p) \<or> a = PostTypes (POST_REMOVED p)" for p
    using a post_removed_sound [OF L(1), of p] post_removed_sound [OF L(2), of p]
    by (intro step [of "if root_id p = [] then ?K - {post_id p} else ?K"]) auto
  have many: ?thesis if a: "a = ThreadTypes (RECEIVED_THREADS ts team) \<or> a = ThreadTypes (RECEIVED_UNREAD_THREADS ts team)" for ts team
    using a receive_threads_sound [OF L(1), of ts team] receive_threads_sound [OF L(2), of ts team]
      receive_threads_sound [OF L(2), of "filter is_unread ts" team]
    by (intro step [of "?K \<union> t_id ` set ts"])
      (auto simp: threads_received_props intro: lists_ok_mono [OF L(1)] elim!: lists_ok_mono)
  have left: ?thesis if a: "a = ChannelTypes (LEAVE_CHANNEL ch team)" for ch team
    using adm leave_channel_sound [OF L(1), of "extra_for s a" "getThreadsOfChannel (ts_threads s) ch" team]
      leave_channel_sound [OF L(2), of "extra_for s a" "getThreadsOfChannel (ts_threads s) ch" team]
    by (intro step [of "?K - t_id ` set (getThreadsOfChannel (ts_threads s) ch)"])
      (simp_all add: a channel_thread_ids [OF filed])
  have read: ?thesis if a: "a = ThreadTypes (READ_CHANGED_THREAD rc)" for rc
    using L thread_read_sound [of "extra_for s a"]
    by (intro step [of ?K]) (auto simp: a intro!: for_teams_sound)
  have followed: ?thesis if a: "a = ThreadTypes (FOLLOW_CHANGED_THREAD i team f)" for i team f
    using L filed follow_changed_sound [of "extra_for s a"] by (intro step [of ?K]) (auto simp: a)
  have logout: ?thesis if a: "a = UserTypes LOGOUT_SUCCESS"
    by (intro step [of "{}"]) (simp_all add: a)
  have team: ?thesis if a: "a = TeamTypes v" for v
    using L by (intro step [of ?K]; cases v) (simp_all add: a leave_team_sound)
  have kept: ?thesis
    if "threadsInTeamReducer (ts_threadsInTeam s) a (extra_for s a) = Some Same"
      "unreadThreadsInTeamReducer (ts_unreadThreadsInTeam s) a (extra_for s a) = Some Same"
      "?K \<subseteq> loaded_ids (upd (ts_threads s) (threadsReducer (ts_threads s) a (extra_for s a)))"
    by (rule step [OF _ _ that(3)]) (use that L in simp_all)
  show ?thesis
    using received removed many left read followed logout team kept
    by (cases "(ts_threads s, a, extra_for s a)" rule: threadsReducer.cases)
      (simp_all add: handleLeaveChannel_def threads_deleted_def)
qed

interpretation threads_store: total_store threads_step threads_admissible threads_ok initial_threads
proof unfold_locales
  show "threads_ok initial_threads"
    by (simp add: threads_ok_def initial_threads_def filed_threads_def)
next
  show "threads_step s a \<noteq> None" if "threads_ok s" "threads_admissible s a" for s a
    using threads_ok_step [OF that] by auto
next
  show "threads_ok s'" if "threads_ok s" "threads_admissible s a" "threads_step s a = Some s'" for s a s'
    using threads_ok_step [OF that(1,2)] that(3) by auto
qed

text \<open>
  C7. The reducer of the followed threads never throws, in any state it can reach, as long as
  no team but the one a \<open>LEAVE_CHANNEL\<close> names lists threads of the left channel; and every
  thread a team lists is loaded and listed once.
\<close>

theorem threads_never_throw:
  assumes "all_admissible threads_step threads_admissible initial_threads as"
  shows "\<exists>s. dispatch_all threads_step initial_threads as = Some s \<and>
    (\<forall>team i. i \<in> set (get_or [] (ts_threadsInTeam s) team) \<union> set (get_or [] (ts_unreadThreadsInTeam s) team)
       \<longrightarrow> get (ts_threads s) i \<noteq> None) \<and>
    (\<forall>team. distinct (get_or [] (ts_threadsInTeam s) team) \<and> distinct (get_or [] (ts_unreadThreadsInTeam s) team))"
proof -
  obtain s where "dispatch_all threads_step initial_threads as = Some s" "threads_ok s"
    using threads_store.dispatch_all_total [OF threads_store.inv_init assms] by blast
  then show ?thesis by (fastforce simp: threads_ok_def lists_ok_def loaded_ids_def)
qed

section \<open>When it throws\<close>

lemma remdups_js_Cons: "\<exists>ys. remdups_js (x # xs) = x # ys"
proof -
  have "\<exists>zs. foldl (\<lambda>acc x. set_add x acc) (x # ys) xs = x # zs" for ys
    by (induction xs arbitrary: ys) (auto simp: set_add_def)
  then show ?thesis by (simp add: remdups_js_def set_add_def)
qed

lemma shouldAdd_missing: "get threads i = None \<Longrightarrow> shouldAddThreadId (i # ids) t threads = None"
  by simp

text \<open>
  Leaving a direct or group channel (the action names no team) forgets its threads but
  leaves them listed by the teams; if the first thread a team lists is one of them, the next
  new thread received for that team makes the reducer throw.
\<close>

theorem left_direct_channel_throws:
  assumes "threads_step s (ChannelTypes (LEAVE_CHANNEL ch [])) = Some s'"
    and "get_or [] (ts_threadsInTeam s) T = i # ids" and "T \<noteq> []"
    and "get (ts_threads s) i = Some t0" and "t_id t0 = i" and "t_post t0 = Some tp" and "tp_channel_id tp = ch"
    and "t_id t \<notin> set (i # ids)"
  shows "threads_step s' (ThreadTypes (RECEIVED_THREAD t T)) = None"
proof -
  let ?a = "ChannelTypes (LEAVE_CHANNEL ch [])"
  let ?x = "extra_for s ?a"
  have s': "ts_threads s' = upd (ts_threads s) (threads_deleted (ts_threads s) (x_threadsToDelete ?x))"
    "ts_threadsInTeam s' = upd (ts_threadsInTeam s) (handleLeaveChannel (ts_threadsInTeam s) [] ?x)"
    using assms(1) by (auto simp: threads_step_def threads_root_reducer_def Let_def upd_same split: if_splits)
  have "t0 \<in> set (getThreadsOfChannel (ts_threads s) ch)"
    using assms by (simp add: getThreadsOfChannel_def get_in_values)
  then have "get (ts_threads s') i = None"
    using assms(5) by (auto simp: s' threads_deleted_def)
  moreover have "get_or [] (ts_threadsInTeam s') T = i # ids"
    using assms(2,3) by (simp add: s' get_handleLeaveChannel)
  moreover obtain ys where "remdups_js (i # ids) = i # ys" using remdups_js_Cons by metis
  moreover have "t_id t \<notin> set (remdups_js (i # ids))" using assms(8) by simp
  ultimately show ?thesis
    using assms(3) by (simp add: threads_step_def threads_root_reducer_def handleReceivedThread_def
        handleSingleTeamReceivedThread_def Let_def)
qed

text \<open>
  Only \<open>LEAVE_CHANNEL\<close> fills \<open>threadsToDelete\<close>: the reducers' cases for a deleted channel do
  nothing.
\<close>

lemma deleted_channel_keeps_threads:
  "threads_root_reducer s (ChannelTypes (RECEIVED_CHANNEL_DELETED ch team)) = Some Same"
  by (simp add: threads_root_reducer_def threads_deleted_def handleLeaveChannel_def counts_left_channel_def Let_def)

section \<open>Read threads\<close>

lemma single_read:
  assumes "handleSingleTeamThreadRead st rc team x = Some n" and "distinct (get_or [] st team)"
    and "rc_newUnreadReplies rc = 0" and "rc_newUnreadMentions rc = 0"
  shows "get_or [] (upd st n) T =
    (if T = team then remove1 (rc_id rc) (get_or [] st T) else get_or [] st T)"
  using assms by (auto simp: handleSingleTeamThreadRead_def Let_def indexOf_None remove1_idem remove_at_indexOf
      split: option.splits)

lemma all_teams_read:
  assumes "rc_newUnreadReplies rc = 0" and "rc_newUnreadMentions rc = 0"
  shows "for_teams (\<lambda>st i. handleSingleTeamThreadRead st rc i x) st is = Some st' \<Longrightarrow>
    \<forall>T. distinct (get_or [] st T) \<Longrightarrow>
    set (get_or [] st' T) = set (get_or [] st T) - (if T \<in> set is then {rc_id rc} else {})"
proof (induction "is" arbitrary: st)
  case (Cons i "is")
  then obtain n where n: "handleSingleTeamThreadRead st rc i x = Some n"
    and rest: "for_teams (\<lambda>st i. handleSingleTeamThreadRead st rc i x) (upd st n) is = Some st'"
    by (auto split: option.splits)
  note read = single_read [OF n _ assms]
  have "\<forall>T. distinct (get_or [] (upd st n) T)" using Cons.prems(2) read by simp
  from Cons.IH [OF rest this] read Cons.prems(2) show ?case by auto
qed simp

text \<open>
  A thread marked as read is in no unread list of the teams concerned (the one named, or
  every one when none is), and its own unread numbers are zero; the lists lose no other
  thread.
\<close>

theorem read_thread_not_unread:
  assumes "threads_ok s" and "rc_newUnreadReplies rc = 0" and "rc_newUnreadMentions rc = 0"
    and "threads_step s (ThreadTypes (READ_CHANGED_THREAD rc)) = Some s'"
  shows "(\<exists>t. get (ts_threads s') (rc_id rc) = Some t \<and> t_unread_replies t = 0 \<and> t_unread_mentions t = 0) \<and>
    set (get_or [] (ts_unreadThreadsInTeam s') T) =
      set (get_or [] (ts_unreadThreadsInTeam s) T) - (if rc_teamId rc = [] \<or> rc_teamId rc = T then {rc_id rc} else {})"
proof -
  let ?st = "ts_unreadThreadsInTeam s"
  let ?x = "extra_for s (ThreadTypes (READ_CHANGED_THREAD rc))"
  have distinct: "\<forall>T. distinct (get_or [] ?st T)" using assms(1) by (simp add: threads_ok_def lists_ok_def)
  obtain n where n: "unreadThreadsInTeamReducer ?st (ThreadTypes (READ_CHANGED_THREAD rc)) ?x = Some n"
    and s': "ts_threads s' = upd (ts_threads s) (thread_read (ts_threads s) rc)"
      "ts_unreadThreadsInTeam s' = upd ?st n"
    using assms(4) by (auto simp: threads_step_def threads_root_reducer_def Let_def upd_same
        simp del: unreadThreadsInTeamReducer.simps split: if_splits option.splits)
  have "set (get_or [] (upd ?st n) T) = set (get_or [] ?st T) -
      (if rc_teamId rc = [] \<or> rc_teamId rc = T then {rc_id rc} else {})"
  proof (cases "rc_teamId rc = []")
    case True
    then obtain st' where st': "n = New st'"
      "for_teams (\<lambda>st i. handleSingleTeamThreadRead st rc i ?x) ?st (obj_keys ?st) = Some st'"
      using n by auto
    have "T \<notin> set (obj_keys ?st) \<Longrightarrow> get_or [] ?st T = []" by (simp add: keys_iff_get get_or_def)
    with all_teams_read [OF assms(2,3) st'(2) distinct, of T] True st'(1) show ?thesis by auto
  next
    case False
    with n single_read [of ?st rc "rc_teamId rc" ?x n T] distinct assms(2,3) show ?thesis by auto
  qed
  with s' assms(2,3) show ?thesis by (simp add: thread_read_def)
qed

section \<open>The unread counters\<close>

definition count_fine :: "thread_counts \<Rightarrow> bool" where
  "count_fine c \<longleftrightarrow> nonneg (c_total_unread_mentions c) \<and> nonneg (c_total_unread_threads c)"

definition counts_ok :: "team_counts \<Rightarrow> bool" where
  "counts_ok st \<longleftrightarrow> list_all (\<lambda>(team, c). count_fine c) st"

text \<open>The numbers the server sends, and the optional ones with their defaults.\<close>

fun counts_admissible :: "action \<Rightarrow> bool" where
  "counts_admissible (ThreadTypes (RECEIVED_THREAD_COUNTS team c)) =
     (nonneg (c_total_unread_mentions c) \<and> nonneg (c_total_unread_threads c))"
| "counts_admissible (ThreadTypes (READ_CHANGED_THREAD rc)) =
     (or_0 (rc_prevUnreadMentions rc) \<ge> 0 \<and> or_0 (rc_prevUnreadReplies rc) \<ge> 0)"
| "counts_admissible (TeamTypes (RECEIVED_MY_TEAM_UNREADS ms)) =
     list_all (\<lambda>m. nonneg (or_zero (u_thread_count m)) \<and> nonneg (or_zero (u_thread_mention_count m))) ms"
| "counts_admissible _ = True"

lemma counts_ok_simps [simp]: "counts_ok []" "counts_ok ((team, c) # st) \<longleftrightarrow> count_fine c \<and> counts_ok st"
  by (simp_all add: counts_ok_def)

lemma counts_ok_get: "counts_ok st \<Longrightarrow> get st team = Some c \<Longrightarrow> count_fine c"
  by (auto simp: counts_ok_def list_all_iff dest!: map_of_SomeD)

lemma counts_ok_put: "counts_ok st \<Longrightarrow> count_fine c \<Longrightarrow> counts_ok (put team c st)"
  by (induction st) (auto split: if_splits)

lemma counts_ok_del: "counts_ok st \<Longrightarrow> counts_ok (del team st)"
  by (induction st) auto

lemma counts_ok_spread: "counts_ok a \<Longrightarrow> counts_ok b \<Longrightarrow> counts_ok (obj_spread a b)"
  unfolding obj_spread_def by (induction b arbitrary: a) (auto simp: counts_ok_put)

lemma nonneg_Num: "nonneg n \<longleftrightarrow> (\<exists>i \<ge> 0. n = Num i)"
  by (cases n) auto

lemma read_counts_ok:
  assumes "counts_ok st" and "or_0 (rc_prevUnreadMentions rc) \<ge> 0" and "or_0 (rc_prevUnreadReplies rc) \<ge> 0"
  shows "counts_ok (upd st (handleReadChangedThread st rc team urgent))"
proof (cases "get st team")
  case None
  with assms show ?thesis
    by (auto simp: handleReadChangedThread_def Let_def count_fine_def intro!: counts_ok_put)
next
  case (Some c)
  then obtain m n where "c_total_unread_mentions c = Num m" "c_total_unread_threads c = Num n" "0 \<le> n"
    using counts_ok_get [OF assms(1) Some] by (auto simp: count_fine_def nonneg_Num)
  with Some assms show ?thesis
    by (auto simp: handleReadChangedThread_def Let_def count_fine_def intro!: counts_ok_put)
qed

lemma other_counts_ok:
  assumes "counts_ok st"
  shows "counts_ok (upd st (handleAllTeamThreadsRead st team))" "counts_ok (upd st (handleLeaveTeam st team))"
    "counts_ok (upd st (counts_left_channel st team x))" "counts_ok (upd st (handleDecrementThreadCounts st team r m))"
    "counts_ok (upd st (counts_follow_changed st team f))"
  using assms counts_ok_get [OF assms, of team]
  by (auto simp: handleAllTeamThreadsRead_def handleLeaveTeam_def counts_left_channel_def split_beta
      handleDecrementThreadCounts_def counts_follow_changed_def counts_ok_del count_fine_def nonneg_Num Let_def
      split: option.split intro!: counts_ok_put)

lemma team_unreads_ok:
  assumes "counts_ok st" and "counts_admissible (TeamTypes (RECEIVED_MY_TEAM_UNREADS ms))"
  shows "counts_ok (upd st (counts_team_unreads st ms))"
proof -
  have "counts_ok (foldl (\<lambda>result m. put (u_team_id m)
      ((get_or no_counts st (u_team_id m))\<lparr>c_total_unread_threads := or_zero (u_thread_count m),
         c_total_unread_mentions := or_zero (u_thread_mention_count m),
         c_total_unread_urgent_mentions := or_zero (u_thread_urgent_mention_count m)\<rparr>) result) [] ms)"
    by (rule foldl_invariant) (use assms(2) in \<open>auto simp: list_all_iff count_fine_def intro!: counts_ok_put\<close>)
  then show ?thesis by (simp add: counts_team_unreads_def counts_ok_spread assms(1))
qed

lemma direct_read_ok:
  "counts_ok st \<Longrightarrow> counts_admissible (ThreadTypes (READ_CHANGED_THREAD rc)) \<Longrightarrow>
     counts_ok (foldl (\<lambda>ns i. upd ns (handleReadChangedThread ns rc i u)) st is)"
  by (rule foldl_invariant) (auto intro: read_counts_ok)

text \<open>
  C40. The numbers of unread threads and of unread mentions stay non-negative numbers in both
  counters, whatever the order of reads, departures and server updates.
\<close>

theorem counters_stay_nonnegative:
  assumes "counts_ok (ts_counts s)" and "counts_ok (ts_countsIncludingDirect s)" and "counts_admissible a"
    and "threads_step s a = Some s'"
  shows "counts_ok (ts_counts s') \<and> counts_ok (ts_countsIncludingDirect s')"
proof -
  have "counts_ok (upd (ts_counts s) (countsReducer (ts_counts s) a x))" for x
    using assms(1,3) other_counts_ok [OF assms(1)] read_counts_ok [OF assms(1)] team_unreads_ok [OF assms(1)]
    by (cases "(ts_counts s, a, x)" rule: countsReducer.cases) simp_all
  moreover have "counts_ok (upd (ts_countsIncludingDirect s)
      (countsIncludingDirectReducer (ts_countsIncludingDirect s) a x))" for x
    using assms(2,3) other_counts_ok [OF assms(2)] read_counts_ok [OF assms(2)] direct_read_ok [OF assms(2)]
    by (cases "(ts_countsIncludingDirect s, a, x)" rule: countsIncludingDirectReducer.cases)
      (simp_all add: counts_ok_put count_fine_def)
  moreover have "ts_counts s' = upd (ts_counts s) (countsReducer (ts_counts s) a (extra_for s a))"
    "ts_countsIncludingDirect s' =
       upd (ts_countsIncludingDirect s) (countsIncludingDirectReducer (ts_countsIncludingDirect s) a (extra_for s a))"
    using assms(4) by (auto simp: threads_step_def threads_root_reducer_def Let_def upd_same split: if_splits option.splits)
  ultimately show ?thesis by simp
qed

text \<open>
  \<open>DECREMENT_THREAD_COUNTS\<close> for one thread takes its unread replies, not one thread, off
  the number of unread threads, and drops the urgent mentions: the next urgent read of the
  team turns them into \<open>NaN\<close>.
\<close>

theorem decremented_counts:
  assumes "get st team = Some c" and "c_total_unread_threads c = Num n" and "\<not> isDmGmChannel ty"
    and "\<not> isDmGmChannel (rc_channelType rc)" and "rc_teamId rc = team" and "rc_isUrgent rc"
  shows "let st1 = upd st (countsReducer st (ThreadTypes (DECREMENT_THREAD_COUNTS team replies mentions ty)) x);
      st2 = upd st1 (countsReducer st1 (ThreadTypes (READ_CHANGED_THREAD rc)) x)
    in map_option c_total_unread_threads (get st1 team) = Some (Num (max (n - replies) 0)) \<and>
       map_option c_total_unread_urgent_mentions (get st2 team) = Some NaN"
  using assms by (simp add: handleDecrementThreadCounts_def handleReadChangedThread_def Let_def)

section \<open>The theorems at work\<close>

definition sample_thread :: "string \<Rightarrow> string \<Rightarrow> int \<Rightarrow> user_thread" where
  "sample_thread i ch t = no_thread\<lparr>t_id := i, t_last_reply_at := Some t, t_unread_replies := 2,
     t_post := Some \<lparr>tp_channel_id = ch, tp_user_id = ''u1''\<rparr>\<rparr>"

definition sample_threads :: threads_state where
  "sample_threads = \<lparr>ts_threads = [(''t1'', sample_thread ''t1'' ''dm'' 5)],
     ts_threadsInTeam = [(''T'', [''t1''])], ts_unreadThreadsInTeam = [(''T'', [''t1''])],
     ts_counts = [], ts_countsIncludingDirect = []\<rparr>"

definition sample_read :: read_changed where
  "sample_read = \<lparr>rc_id = ''t1'', rc_teamId = ''T'', rc_channelId = ''dm'', rc_lastViewedAt = 6,
     rc_prevUnreadMentions = Some 1, rc_newUnreadMentions = 0, rc_prevUnreadReplies = Some 2,
     rc_newUnreadReplies = 0, rc_channelType = ''O'', rc_isUrgent = True\<rparr>"

definition sample_counts :: thread_counts where
  "sample_counts = \<lparr>c_total = Num 4, c_total_unread_threads = Num 3, c_total_unread_mentions = Num 2,
     c_total_unread_urgent_mentions = Num 1\<rparr>"

lemmas sample_threads_defs = sample_threads_def sample_thread_def no_thread_def

lemma threads_ok_sample: "threads_ok sample_threads"
  by (auto simp: threads_ok_def filed_threads_def lists_ok_def loaded_ids_def get_or_def sample_threads_defs
      split: if_splits)

theorem threads_never_throw_witness:
  "\<exists>s. dispatch_all threads_step initial_threads
     [ThreadTypes (RECEIVED_THREADS [sample_thread ''t1'' ''ch'' 5] ''T''),
      ThreadTypes (RECEIVED_THREAD (sample_thread ''t2'' ''ch'' 7) ''T'')] = Some s"
proof -
  have "all_admissible threads_step threads_admissible initial_threads
     [ThreadTypes (RECEIVED_THREADS [sample_thread ''t1'' ''ch'' 5] ''T''),
      ThreadTypes (RECEIVED_THREAD (sample_thread ''t2'' ''ch'' 7) ''T'')]"
    by (simp split: option.split)
  from threads_never_throw [OF this] show ?thesis by blast
qed

theorem left_direct_channel_throws_witness:
  "\<exists>s'. threads_step sample_threads (ChannelTypes (LEAVE_CHANNEL ''dm'' [])) = Some s' \<and>
     threads_step s' (ThreadTypes (RECEIVED_THREAD (sample_thread ''t2'' ''ch'' 7) ''T'')) = None"
proof -
  have "threads_step sample_threads (ChannelTypes (LEAVE_CHANNEL ''dm'' [])) \<noteq> None" by code_simp
  then obtain s' where s': "threads_step sample_threads (ChannelTypes (LEAVE_CHANNEL ''dm'' [])) = Some s'"
    by blast
  from left_direct_channel_throws [OF s', of "''T''" "''t1''" "[]" _ _ "sample_thread ''t2'' ''ch'' 7"] s'
  show ?thesis by (auto simp: sample_threads_defs get_or_def)
qed

theorem read_thread_not_unread_witness:
  "\<exists>s'. threads_step sample_threads (ThreadTypes (READ_CHANGED_THREAD sample_read)) = Some s' \<and>
     set (get_or [] (ts_unreadThreadsInTeam s') ''T'') = {}"
proof -
  have "threads_step sample_threads (ThreadTypes (READ_CHANGED_THREAD sample_read)) \<noteq> None" by code_simp
  then obtain s' where s': "threads_step sample_threads (ThreadTypes (READ_CHANGED_THREAD sample_read)) = Some s'"
    by blast
  from read_thread_not_unread [OF threads_ok_sample _ _ s', of "''T''"] s'
  show ?thesis by (simp add: sample_read_def sample_threads_defs get_or_def)
qed

theorem counters_stay_nonnegative_witness:
  "\<exists>s'. threads_step sample_threads (ThreadTypes (READ_CHANGED_THREAD sample_read)) = Some s' \<and>
     counts_ok (ts_counts s')"
proof -
  have "threads_step sample_threads (ThreadTypes (READ_CHANGED_THREAD sample_read)) \<noteq> None" by code_simp
  then obtain s' where s': "threads_step sample_threads (ThreadTypes (READ_CHANGED_THREAD sample_read)) = Some s'"
    by blast
  from counters_stay_nonnegative [OF _ _ _ s'] s'
  show ?thesis by (simp add: sample_read_def sample_threads_defs or_0_def)
qed

theorem decremented_counts_witness:
  "map_option c_total_unread_threads (get (upd [(''T'', sample_counts)] (countsReducer [(''T'', sample_counts)]
     (ThreadTypes (DECREMENT_THREAD_COUNTS ''T'' 2 0 ''O'')) \<lparr>x_threads = [], x_threadsToDelete = None\<rparr>)) ''T'')
   = Some (Num 1)"
  using decremented_counts [of "[(''T'', sample_counts)]" "''T''" sample_counts 3 "''O''" sample_read 2 0
      "\<lparr>x_threads = [], x_threadsToDelete = None\<rparr>"]
  by (simp add: sample_counts_def sample_read_def isDmGmChannel_def Let_def)

end
