(* ===== verification/NumberStrings.thy ===== *)
theory NumberStrings
  imports Prelude
begin

text \<open>
  Numbers in template strings (decimal, as \<open>String(n)\<close> prints an integer), \<open>parseInt\<close> with radix
  10, and that reading a printed number gives the number back.
\<close>

definition digit :: "nat \<Rightarrow> char" where
  "digit d = char_of (48 + d)"

fun show_nat :: "nat \<Rightarrow> string" where
  "show_nat n = (if n < 10 then [digit n] else show_nat (n div 10) @ [digit (n mod 10)])"

declare show_nat.simps [simp del]

definition show_int :: "int \<Rightarrow> string" where
  "show_int n = (if n < 0 then ''-'' @ show_nat (nat (- n)) else show_nat (nat n))"

definition is_digit :: "char \<Rightarrow> bool" where
  "is_digit c \<longleftrightarrow> 48 \<le> (of_char c :: nat) \<and> (of_char c :: nat) \<le> 57"

definition digits_value :: "string \<Rightarrow> int" where
  "digits_value s = foldl (\<lambda>n c. 10 * n + (of_char c - 48)) 0 s"

definition is_blank :: "char \<Rightarrow> bool" where
  "is_blank c \<longleftrightarrow> c \<in> {CHR '' '', CHR 0x09, CHR 0x0A, CHR 0x0B, CHR 0x0C, CHR 0x0D}"

text \<open>\<open>parseInt(s, 10)\<close>: blanks, a sign, then as many digits as there are.\<close>

definition parseInt10 :: "string \<Rightarrow> jsnum" where
  "parseInt10 s =
     (let s = dropWhile is_blank s;
          negative = (take 1 s = ''-'');
          s = (if negative \<or> take 1 s = ''+'' then drop 1 s else s);
          ds = takeWhile is_digit s
      in if ds = [] then NaN else Num (if negative then - digits_value ds else digits_value ds))"

lemma of_char_digit: "d < 10 \<Longrightarrow> (of_char (digit d) :: nat) = 48 + d"
  by (simp add: digit_def)

lemma of_char_digit_int: "d < 10 \<Longrightarrow> (of_char (digit d) :: int) = 48 + int d"
  using of_char_digit [of d] by (metis of_nat_add of_nat_numeral of_nat_of_char)

lemma is_digit_digit: "d < 10 \<Longrightarrow> is_digit (digit d)"
  by (simp add: is_digit_def of_char_digit)

lemma digits_value_snoc: "digits_value (s @ [c]) = 10 * digits_value s + (of_char c - 48)"
  by (simp add: digits_value_def)

lemma show_nat_props: "digits_value (show_nat n) = int n \<and> list_all is_digit (show_nat n) \<and> show_nat n \<noteq> []"
proof (induction n rule: show_nat.induct)
  case (1 n)
  show ?case
  proof (cases "n < 10")
    case True
    then show ?thesis
      by (simp add: show_nat.simps [of n] digits_value_def of_char_digit_int is_digit_digit)
  next
    case False
    have "10 * (int n div 10) + int n mod 10 = int n" by simp
    with 1 False show ?thesis
      by (simp add: show_nat.simps [of n] digits_value_snoc of_char_digit_int is_digit_digit zdiv_int zmod_int)
  qed
qed

lemma digit_not_other: "is_digit c \<Longrightarrow> \<not> is_blank c \<and> c \<noteq> CHR ''-'' \<and> c \<noteq> CHR ''+''"
  by (auto simp: is_digit_def is_blank_def)

lemma minus_not_blank: "\<not> is_blank (CHR ''-'')"
  by (simp add: is_blank_def)

lemma parse_show: "parseInt10 (show_int n) = Num n"
proof -
  have first: "\<exists>c cs. show_nat k = c # cs \<and> is_digit c" for k
    using show_nat_props [of k] by (cases "show_nat k") auto
  have plus: "parseInt10 (show_nat k) = Num (int k)" for k
  proof -
    obtain c cs where c: "show_nat k = c # cs" "is_digit c" using first by blast
    with show_nat_props [of k] digit_not_other [OF c(2)] show ?thesis
      by (simp add: parseInt10_def Let_def list_all_iff takeWhile_eq_all_conv [THEN iffD2])
  qed
  have "parseInt10 (''-'' @ show_nat k) = Num (- int k)" for k
    using show_nat_props [of k] minus_not_blank
    by (simp add: parseInt10_def Let_def list_all_iff takeWhile_eq_all_conv [THEN iffD2])
  then show ?thesis using plus by (simp add: show_int_def)
qed

end
