(* ===== verification/PostList.thy ===== *)
theory PostList
  imports PostUtils Samples NumberStrings
begin

text \<open>
  \<open>mattermost-redux/src/utils/post_list.ts\<close>: the list of a channel as it is shown. The posts get
  day separators and the marker of new messages, runs of join and leave messages are combined
  into one item, and a combined item is turned into a post that sums up who did what.

  The selectors memoize; what is modelled is the function they memoize. The day of a time
  depends on the time zones: \<open>local\<close> is \<open>Date.getTimezoneOffset\<close> of the browser (in minutes) and
  \<open>zone_of\<close> is \<open>moment.tz.zone\<close>, which is not part of the repository.
\<close>

section \<open>Items of the list\<close>

definition COMBINED_USER_ACTIVITY :: string where "COMBINED_USER_ACTIVITY = ''user-activity-''"
definition CREATE_COMMENT :: string where "CREATE_COMMENT = ''create-comment''"
definition DATE_LINE :: string where "DATE_LINE = ''date-''"
definition START_OF_NEW_MESSAGES :: string where "START_OF_NEW_MESSAGES = ''start-of-new-messages-''"
definition MAX_COMBINED_SYSTEM_POSTS :: nat where "MAX_COMBINED_SYSTEM_POSTS = 100"

definition isStartOfNewMessages :: "string \<Rightarrow> bool" where
  "isStartOfNewMessages item = starts_with START_OF_NEW_MESSAGES item"

definition getTimestampForStartOfNewMessages :: "string \<Rightarrow> jsnum" where
  "getTimestampForStartOfNewMessages item = parseInt10 (drop (length START_OF_NEW_MESSAGES) item)"

definition getNewMessagesIndex :: "string list \<Rightarrow> nat option" where
  "getNewMessagesIndex postListIds = findIndex isStartOfNewMessages postListIds"

definition isCreateComment :: "string \<Rightarrow> bool" where
  "isCreateComment item \<longleftrightarrow> item = CREATE_COMMENT"

definition isDateLine :: "string \<Rightarrow> bool" where
  "isDateLine item = starts_with DATE_LINE item"

definition getDateForDateLine :: "string \<Rightarrow> jsnum" where
  "getDateForDateLine item = parseInt10 (drop (length DATE_LINE) item)"

definition is_separator :: "string \<Rightarrow> bool" where
  "is_separator item \<longleftrightarrow> isStartOfNewMessages item \<or> isDateLine item \<or> isCreateComment item"

text \<open>\<open>/^user-activity-(?:[^_]+_)*[^_]+$/\<close>: non-empty parts between underscores.\<close>

definition isCombinedUserActivityPost :: "string \<Rightarrow> bool" where
  "isCombinedUserActivityPost item \<longleftrightarrow> starts_with COMBINED_USER_ACTIVITY item \<and>
     list_all (\<lambda>part. part \<noteq> []) (split_on (CHR ''_'') (drop (length COMBINED_USER_ACTIVITY) item))"

definition getPostIdsForCombinedUserActivityPost :: "string \<Rightarrow> string list" where
  "getPostIdsForCombinedUserActivityPost item =
     split_on (CHR ''_'') (drop (length COMBINED_USER_ACTIVITY) item)"

text \<open>\<open>getFirstPostId\<close> and \<open>getLastPostId\<close> return the empty string when there is no post.\<close>

fun getFirstPostId :: "string list \<Rightarrow> string" where
  "getFirstPostId [] = []"
| "getFirstPostId (item # items) =
     (if is_separator item then getFirstPostId items
      else if isCombinedUserActivityPost item then hd (getPostIdsForCombinedUserActivityPost item)
      else item)"

fun last_post_from_end :: "string list \<Rightarrow> string" where
  "last_post_from_end [] = []"
| "last_post_from_end (item # items) =
     (if is_separator item then last_post_from_end items
      else if isCombinedUserActivityPost item then last (getPostIdsForCombinedUserActivityPost item)
      else item)"

definition getLastPostId :: "string list \<Rightarrow> string" where
  "getLastPostId items = last_post_from_end (rev items)"

text \<open>From the end down to index 1; 0 when none is found there.\<close>

fun last_index_from :: "string list \<Rightarrow> nat \<Rightarrow> nat" where
  "last_index_from postIds 0 = 0"
| "last_index_from postIds (Suc i) =
     (if \<not> is_separator (postIds ! Suc i) then Suc i else last_index_from postIds i)"

definition getLastPostIndex :: "string list \<Rightarrow> nat" where
  "getLastPostIndex postIds = last_index_from postIds (length postIds - 1)"

section \<open>Day separators and the marker of new messages\<close>

record user_timezone =
  useAutomaticTimezone :: "string + bool"
  automaticTimezone :: string
  manualTimezone :: string

record current_user =
  cu_id :: string
  cu_username :: string
  cu_timezone :: "user_timezone option"

definition getUserCurrentTimezone :: "user_timezone option \<Rightarrow> string" where
  "getUserCurrentTimezone userTimezone =
     (case userTimezone of
        None \<Rightarrow> ''UTC''
      | Some tz \<Rightarrow>
          let useAutomatic = (case useAutomaticTimezone tz of Inl s \<Rightarrow> s = ''true'' | Inr b \<Rightarrow> b);
              chosen = (if useAutomatic then automaticTimezone tz else manualTimezone tz)
          in if chosen = [] then ''UTC'' else chosen)"

text \<open>Two dates have the same \<open>toDateString\<close> when they fall on the same local day.\<close>

definition day_of :: "(int \<Rightarrow> int) \<Rightarrow> int \<Rightarrow> int" where
  "day_of local t = (t - local t * 60000) div 86400000"

text \<open>The time of the post moved so that the browser's zone shows the user's day.\<close>

definition post_date :: "(int \<Rightarrow> int) \<Rightarrow> (string \<Rightarrow> (int \<Rightarrow> int) option) \<Rightarrow> current_user \<Rightarrow> post \<Rightarrow> int" where
  "post_date local zone_of user p =
     (let t = create_at p; currentOffset = local t * 60 * 1000
      in case zone_of (getUserCurrentTimezone (cu_timezone user)) of
           None \<Rightarrow> t
         | Some utcOffset \<Rightarrow> t + (currentOffset - utcOffset t * 60 * 1000))"

text \<open>What is pushed on the list, and the date of the last separator.\<close>

definition pushPostDateIfNeeded ::
  "(int \<Rightarrow> int) \<Rightarrow> (string \<Rightarrow> (int \<Rightarrow> int) option) \<Rightarrow> current_user \<Rightarrow> post \<Rightarrow> int option \<Rightarrow> string list \<times> int option" where
  "pushPostDateIfNeeded local zone_of user p lastDate =
     (let postDate = post_date local zone_of user p
      in if lastDate = None \<or> day_of local (the lastDate) \<noteq> day_of local postDate
         then ([DATE_LINE @ show_int postDate], Some postDate)
         else ([], lastDate))"

text \<open>The selected post id is always the empty string, so these ephemeral posts never show.\<close>

definition shown :: "bool \<Rightarrow> current_user \<Rightarrow> post \<Rightarrow> bool" where
  "shown showJoinLeave user p \<longleftrightarrow> post_type p \<noteq> ''system_ephemeral_add_to_channel'' \<and>
     \<not> shouldFilterJoinLeavePost p showJoinLeave (cu_username user)"

definition is_new_for :: "current_user \<Rightarrow> int \<Rightarrow> bool \<Rightarrow> post \<Rightarrow> bool" where
  "is_new_for user lastViewedAt indicateNewMessages p \<longleftrightarrow> lastViewedAt \<noteq> 0 \<and> create_at p > lastViewedAt \<and>
     (user_id p \<noteq> cu_id user \<or> isFromWebhook p) \<and> indicateNewMessages"

fun list_step ::
  "(int \<Rightarrow> int) \<Rightarrow> (string \<Rightarrow> (int \<Rightarrow> int) option) \<Rightarrow> current_user \<Rightarrow> bool \<Rightarrow> int \<Rightarrow> bool \<Rightarrow>
     string list \<times> int option \<times> bool \<Rightarrow> post option \<Rightarrow> string list \<times> int option \<times> bool" where
  "list_step local zone_of user showJoinLeave lastViewedAt indicate (out, lastDate, added) None = (out, lastDate, added)"
| "list_step local zone_of user showJoinLeave lastViewedAt indicate (out, lastDate, added) (Some p) =
     (if \<not> shown showJoinLeave user p then (out, lastDate, added)
      else
        let (date, lastDate) = pushPostDateIfNeeded local zone_of user p lastDate;
            mark = is_new_for user lastViewedAt indicate p \<and> \<not> added
        in (out @ date @ (if mark then [START_OF_NEW_MESSAGES @ show_int lastViewedAt] else []) @ [post_id p],
            lastDate, added \<or> mark))"

definition filterPostsAndAddSeparators ::
  "(int \<Rightarrow> int) \<Rightarrow> (string \<Rightarrow> (int \<Rightarrow> int) option) \<Rightarrow> post option list \<Rightarrow> int \<Rightarrow> bool \<Rightarrow>
     current_user option \<Rightarrow> bool \<Rightarrow> string list" where
  "filterPostsAndAddSeparators local zone_of posts lastViewedAt indicateNewMessages currentUser showJoinLeave =
     (case currentUser of
        None \<Rightarrow> []
      | Some user \<Rightarrow>
          rev (fst (foldl (list_step local zone_of user showJoinLeave lastViewedAt indicateNewMessages)
                 ([], None, False) (rev posts))))"

text \<open>Search results keep their order and are posts themselves between the separators.\<close>

fun search_step ::
  "(int \<Rightarrow> int) \<Rightarrow> (string \<Rightarrow> (int \<Rightarrow> int) option) \<Rightarrow> current_user \<Rightarrow>
     (string + post) list \<times> int option \<Rightarrow> post \<Rightarrow> (string + post) list \<times> int option" where
  "search_step local zone_of user (out, lastDate) p =
     (let (date, lastDate) = pushPostDateIfNeeded local zone_of user p lastDate
      in (out @ map Inl date @ [Inr p], lastDate))"

definition addDateSeparatorsForSearchResults ::
  "(int \<Rightarrow> int) \<Rightarrow> (string \<Rightarrow> (int \<Rightarrow> int) option) \<Rightarrow> post list \<Rightarrow> current_user option \<Rightarrow> (string + post) list" where
  "addDateSeparatorsForSearchResults local zone_of posts currentUser =
     (case currentUser of
        None \<Rightarrow> []
      | Some user \<Rightarrow> fst (foldl (search_step local zone_of user) ([], None) posts))"

section \<open>Combining runs of user activity\<close>

text \<open>The loop variables; a post that is not loaded throws when its type is read.\<close>

record combine_state =
  cs_out :: "string list"
  cs_last :: bool
  cs_count :: nat
  cs_changed :: bool

definition combine_step :: "combine_state \<Rightarrow> string \<Rightarrow> post option \<Rightarrow> combine_state option" where
  "combine_step s postId p =
     (if is_separator postId
      then Some (s\<lparr>cs_out := cs_out s @ [postId], cs_last := False, cs_count := 0\<rparr>)
      else case p of
        None \<Rightarrow> None
      | Some post \<Rightarrow>
          let activity = isUserActivityPost (post_type post)
          in Some
            (if activity \<and> cs_last s \<and> cs_count s < MAX_COMBINED_SYSTEM_POSTS
             then \<lparr>cs_out = butlast (cs_out s) @ [last (cs_out s) @ ''_'' @ postId], cs_last = activity,
                   cs_count = cs_count s + 1, cs_changed = True\<rparr>
             else if activity
             then \<lparr>cs_out = cs_out s @ [COMBINED_USER_ACTIVITY @ postId], cs_last = activity,
                   cs_count = 1, cs_changed = True\<rparr>
             else \<lparr>cs_out = cs_out s @ [postId], cs_last = activity, cs_count = 0,
                   cs_changed = cs_changed s\<rparr>))"

fun combine_loop :: "combine_state \<Rightarrow> (string \<times> post option) list \<Rightarrow> combine_state option" where
  "combine_loop s [] = Some s"
| "combine_loop s ((postId, p) # rest) =
     (case combine_step s postId p of None \<Rightarrow> None | Some s' \<Rightarrow> combine_loop s' rest)"

definition combineUserActivityPosts :: "post obj \<Rightarrow> string list \<Rightarrow> string list option" where
  "combineUserActivityPosts allPosts postIds =
     (case combine_loop \<lparr>cs_out = [], cs_last = False, cs_count = 0, cs_changed = False\<rparr>
             (map (\<lambda>i. (i, get allPosts i)) postIds) of
        None \<Rightarrow> None
      | Some s \<Rightarrow> if \<not> cs_changed s then Some postIds else Some (cs_out s))"

text \<open>\<open>makePreparePostIdsForPostList\<close>, on the posts and the selectors' other inputs.\<close>

definition preparePostIdsForPostList ::
  "(int \<Rightarrow> int) \<Rightarrow> (string \<Rightarrow> (int \<Rightarrow> int) option) \<Rightarrow> post obj \<Rightarrow> string list \<Rightarrow> int \<Rightarrow> bool \<Rightarrow>
     current_user option \<Rightarrow> bool \<Rightarrow> string list option" where
  "preparePostIdsForPostList local zone_of allPosts postIds lastViewedAt indicate currentUser showJoinLeave =
     combineUserActivityPosts allPosts
       (filterPostsAndAddSeparators local zone_of (map (get allPosts) postIds) lastViewedAt indicate
          currentUser showJoinLeave)"

section \<open>The summary of a combined post\<close>

record activity_entry =
  ae_postType :: string
  ae_actorId :: "string list"
  ae_userIds :: "string list"
  ae_usernames :: "string list"

record message_data =
  md_actorId :: "string option"
  md_postType :: string
  md_userIds :: "string list"

record user_activity_prop =
  ua_allUserIds :: "string list"
  ua_allUsernames :: "string list"
  ua_messageData :: "message_data list"

definition isUsersRelatedPost :: "string \<Rightarrow> bool" where
  "isUsersRelatedPost ty \<longleftrightarrow> ty = ''system_add_to_team'' \<or> ty = ''system_add_to_channel'' \<or>
     ty = ''system_remove_from_channel''"

definition first_actor :: "activity_entry \<Rightarrow> string list" where
  "first_actor e = (case ae_actorId e of [] \<Rightarrow> [] | a # _ \<Rightarrow> [a])"

definition activity_user_ids :: "activity_entry \<Rightarrow> string list" where
  "activity_user_ids e =
     (if isUsersRelatedPost (ae_postType e)
      then filter (\<lambda>i. i \<noteq> []) (ae_userIds e) @ first_actor e
      else ae_actorId e)"

definition activity_usernames :: "activity_entry \<Rightarrow> string list" where
  "activity_usernames e =
     (if isUsersRelatedPost (ae_postType e) then filter (\<lambda>i. i \<noteq> []) (ae_usernames e) else [])"

definition activity_message :: "activity_entry \<Rightarrow> message_data" where
  "activity_message e =
     (if isUsersRelatedPost (ae_postType e)
      then \<lparr>md_actorId = first_of (ae_actorId e), md_postType = ae_postType e, md_userIds = ae_userIds e\<rparr>
      else \<lparr>md_actorId = None, md_postType = ae_postType e, md_userIds = ae_actorId e\<rparr>)"

text \<open>Every entry has its two arrays, so the inner test of the source always holds.\<close>

definition extractUserActivityData :: "activity_entry list \<Rightarrow> user_activity_prop" where
  "extractUserActivityData userActivities =
     \<lparr>ua_allUserIds = remdups_js (concat (map activity_user_ids userActivities)),
      ua_allUsernames = remdups_js (concat (map activity_usernames userActivities)),
      ua_messageData = map activity_message userActivities\<rparr>"

text \<open>The array \<open>userActivities\<close> is kept from its end, the last entry first.\<close>

fun mergeLastSimilarPosts :: "activity_entry list \<Rightarrow> activity_entry list" where
  "mergeLastSimilarPosts (prevPost # prePrevPost # rest) =
     (if ae_postType prevPost = ae_postType prePrevPost
      then prePrevPost\<lparr>ae_actorId := ae_actorId prePrevPost @ ae_actorId prevPost\<rparr> # rest
      else prevPost # prePrevPost # rest)"
| "mergeLastSimilarPosts es = es"

definition isSameActorsInUserActivities :: "activity_entry \<Rightarrow> activity_entry \<Rightarrow> bool" where
  "isSameActorsInUserActivities prevActivity curActivity \<longleftrightarrow>
     length (remdups_js (ae_actorId prevActivity)) = length (remdups_js (ae_actorId curActivity)) \<and>
     list_all (\<lambda>a. a \<in> set (ae_actorId prevActivity)) (ae_actorId curActivity)"

definition string_prop :: "post \<Rightarrow> string \<Rightarrow> string" where
  "string_prop p k = ensureString (prop_at p k)"

definition or_string :: "string \<Rightarrow> string \<Rightarrow> string" where
  "or_string a b = (if a = [] then b else a)"

definition related_user :: "post \<Rightarrow> string" where
  "related_user p =
     (if isUsersRelatedPost (post_type p)
      then or_string (string_prop p ''addedUserId'') (string_prop p ''removedUserId'') else [])"

definition related_username :: "post \<Rightarrow> string" where
  "related_username p =
     (if isUsersRelatedPost (post_type p)
      then or_string (string_prop p ''addedUsername'') (string_prop p ''removedUsername'') else [])"

definition activity_of :: "post \<Rightarrow> activity_entry" where
  "activity_of p = \<lparr>ae_postType = post_type p, ae_actorId = [user_id p], ae_userIds = [related_user p],
     ae_usernames = [related_username p]\<rparr>"

text \<open>Consecutive joins followed by the same users' departures become joins and departures.\<close>

definition another_actor :: "activity_entry \<Rightarrow> activity_entry list \<Rightarrow> string \<Rightarrow> activity_entry list" where
  "another_actor prevPost before actorId =
     (let prevPost = prevPost\<lparr>ae_actorId := ae_actorId prevPost @ [actorId]\<rparr>
      in case before of
           [] \<Rightarrow> [prevPost]
         | prePrevPost # rest \<Rightarrow>
             if ae_postType prePrevPost = ''system_join_channel'' \<and>
                ae_postType prevPost = ''system_leave_channel'' \<and>
                isSameActorsInUserActivities prePrevPost prevPost
             then mergeLastSimilarPosts (prePrevPost\<lparr>ae_postType := ''system_join_leave_channel''\<rparr> # rest)
             else prevPost # before)"

fun activity_step :: "activity_entry list \<Rightarrow> post \<Rightarrow> activity_entry list" where
  "activity_step [] p = [activity_of p]"
| "activity_step (prevPost # before) p =
     (let isSamePostType = (ae_postType prevPost = post_type p);
          isSameActor = (first_of (ae_actorId prevPost) = Some (user_id p))
      in if isSamePostType \<and> (isSameActor \<or> post_type p = ''system_remove_from_channel'')
         then prevPost\<lparr>ae_userIds := ae_userIds prevPost @ [related_user p],
                ae_usernames := ae_usernames prevPost @ [related_username p]\<rparr> # before
         else if isSamePostType \<and> \<not> isSameActor \<and> \<not> isUsersRelatedPost (post_type p)
         then another_actor prevPost before (user_id p)
         else if ae_postType prevPost = ''system_join_channel'' \<and> post_type p = ''system_leave_channel'' \<and>
                 length (ae_actorId prevPost) = 1 \<and> isSameActor
         then mergeLastSimilarPosts (prevPost\<lparr>ae_postType := ''system_join_leave_channel''\<rparr> # before)
         else activity_of p # prevPost # before)"

text \<open>\<open>systemPosts\<close> is reversed in place; the reversed array is the second result.\<close>

definition combineUserActivitySystemPost :: "post list \<Rightarrow> user_activity_prop option \<times> post list" where
  "combineUserActivitySystemPost systemPosts =
     (if systemPosts = [] then (None, systemPosts)
      else (Some (extractUserActivityData (rev (foldl activity_step [] (rev systemPosts)))), rev systemPosts))"

text \<open>A combined post and the properties it has beyond those of a post.\<close>

record combined_post =
  cp_post :: post
  cp_messages :: "string list"
  cp_user_activity :: "user_activity_prop option"
  cp_system_post_ids :: "string list"

fun join_lines :: "string list \<Rightarrow> string" where
  "join_lines [] = []"
| "join_lines [s] = s"
| "join_lines (s # ss) = s @ CHR 0x0A # join_lines ss"

text \<open>
  \<open>makeGenerateCombinedPost\<close>. The object literal is evaluated from top to bottom, so the
  messages are taken before \<open>combineUserActivitySystemPost\<close> reverses the array, and the ids
  and the posts after.
\<close>

definition generateCombinedPost :: "post obj \<Rightarrow> string \<Rightarrow> combined_post option" where
  "generateCombinedPost allPosts combinedId =
     (let found = map (get allPosts) (getPostIdsForCombinedUserActivityPost combinedId)
      in if \<not> list_all (\<lambda>p. p \<noteq> None) found then None
         else
           let posts = map the found;
               messages = map (\<lambda>p. p_message (core p)) posts;
               (activity, reversed) = combineUserActivitySystemPost posts
           in Some \<lparr>cp_post = Post (no_core\<lparr>p_id := combinedId, p_create_at := create_at (last posts),
                   p_channel_id := channel_id (hd posts), p_message := join_lines messages,
                   p_type := ''system_combined_user_activity'', p_props := Some []\<rparr>)
                   (Some (PostMetadata (no_metadata_core\<lparr>m_emojis := Some [], m_files := Some [],
                      m_images := Some [], m_reactions := Some []\<rparr>) (Some [])))
                   (Some reversed) None,
                 cp_messages = messages, cp_user_activity = activity,
                 cp_system_post_ids = map post_id reversed\<rparr>)"

end
