(* ===== verification/PostListProps.thy ===== *)
theory PostListProps
  imports PostList
begin

text \<open>
  What holds of the shown list: combining loses no post, the separators stand where the days
  change, the marker of new messages stands once and before the oldest new post, and the
  summary of a combined post names everybody involved.
\<close>

section \<open>Splitting what was joined\<close>

lemma split_on_no_sep: "c \<notin> set xs \<Longrightarrow> split_on c xs = [xs]"
  by (induction xs) auto

lemma split_on_append: "c \<notin> set xs \<Longrightarrow> split_on c (xs @ c # ys) = xs # split_on c ys"
  by (induction xs) auto

fun join_ids :: "string list \<Rightarrow> string" where
  "join_ids [] = []"
| "join_ids [i] = i"
| "join_ids (i # is) = i @ CHR ''_'' # join_ids is"

lemma join_ids_snoc: "is \<noteq> [] \<Longrightarrow> join_ids (is @ [i]) = join_ids is @ CHR ''_'' # i"
  by (induction "is" rule: join_ids.induct) auto

lemma split_join_ids: "is \<noteq> [] \<Longrightarrow> \<forall>i \<in> set is. CHR ''_'' \<notin> set i \<Longrightarrow> split_on (CHR ''_'') (join_ids is) = is"
  by (induction "is" rule: join_ids.induct) (auto simp: split_on_no_sep split_on_append)

definition expand :: "string \<Rightarrow> string list" where
  "expand item = (if isCombinedUserActivityPost item then getPostIdsForCombinedUserActivityPost item else [item])"

text \<open>An id that is neither a separator nor a combined item and has no underscore.\<close>

definition plain_id :: "string \<Rightarrow> bool" where
  "plain_id i \<longleftrightarrow> i \<noteq> [] \<and> CHR ''_'' \<notin> set i \<and> \<not> starts_with COMBINED_USER_ACTIVITY i"

lemma starts_with_append [simp]: "starts_with p (p @ s)"
  by (simp add: starts_with_def)

lemma expand_combined:
  assumes "is \<noteq> []" and "\<forall>i \<in> set is. plain_id i"
  shows "expand (COMBINED_USER_ACTIVITY @ join_ids is) = is"
proof -
  have "split_on (CHR ''_'') (join_ids is) = is"
    using assms by (intro split_join_ids) (auto simp: plain_id_def)
  with assms(2) show ?thesis
    by (simp add: expand_def isCombinedUserActivityPost_def getPostIdsForCombinedUserActivityPost_def
        list_all_iff plain_id_def)
qed

lemma expand_plain: "\<not> starts_with COMBINED_USER_ACTIVITY i \<Longrightarrow> expand i = [i]"
  by (simp add: expand_def isCombinedUserActivityPost_def)

lemma separator_not_combined: "is_separator i \<Longrightarrow> \<not> starts_with COMBINED_USER_ACTIVITY i"
  by (cases i) (auto simp: is_separator_def isStartOfNewMessages_def isDateLine_def isCreateComment_def
      starts_with_def COMBINED_USER_ACTIVITY_def START_OF_NEW_MESSAGES_def DATE_LINE_def CREATE_COMMENT_def)

section \<open>Combining\<close>

text \<open>After the ids \<open>done\<close>: what the items expand to, and the run that may still grow.\<close>

definition combined_ok :: "string list \<Rightarrow> combine_state \<Rightarrow> bool" where
  "combined_ok done' s \<longleftrightarrow> concat (map expand (cs_out s)) = done' \<and>
     (\<forall>item \<in> set (cs_out s). length (expand item) \<le> MAX_COMBINED_SYSTEM_POSTS) \<and>
     (\<not> cs_changed s \<longrightarrow> cs_out s = done') \<and>
     (cs_last s \<longrightarrow> (\<exists>out is. is \<noteq> [] \<and> (\<forall>i \<in> set is. plain_id i) \<and> length is = cs_count s \<and>
        cs_out s = out @ [COMBINED_USER_ACTIVITY @ join_ids is]))"

lemma combine_step_ok:
  assumes ok: "combined_ok done' s" and i: "is_separator i \<or> plain_id i \<and> p \<noteq> None"
  shows "\<exists>s'. combine_step s i p = Some s' \<and> combined_ok (done' @ [i]) s'"
proof (cases "is_separator i")
  case True
  then show ?thesis
    using ok expand_plain [OF separator_not_combined [OF True]]
    by (auto simp: combine_step_def combined_ok_def MAX_COMBINED_SYSTEM_POSTS_def)
next
  case False
  with i obtain post where p: "p = Some post" and plain: "plain_id i" by auto
  let ?act = "isUserActivityPost (post_type post)"
  have single: "expand (COMBINED_USER_ACTIVITY @ i) = [i]" using expand_combined [of "[i]"] plain by simp
  consider "?act" "cs_last s" "cs_count s < MAX_COMBINED_SYSTEM_POSTS"
    | "?act" "\<not> (cs_last s \<and> cs_count s < MAX_COMBINED_SYSTEM_POSTS)" | "\<not> ?act" by blast
  then show ?thesis
  proof cases
    case 1
    then obtain out "is" where run: "is \<noteq> []" "\<forall>i \<in> set is. plain_id i" "length is = cs_count s"
      and out: "cs_out s = out @ [COMBINED_USER_ACTIVITY @ join_ids is]"
      using ok by (auto simp: combined_ok_def)
    have run': "\<forall>j \<in> set (is @ [i]). plain_id j" using run(2) plain by simp
    have "last (cs_out s) @ ''_'' @ i = COMBINED_USER_ACTIVITY @ join_ids (is @ [i])"
      using out join_ids_snoc [OF run(1)] by simp
    with 1 False p out have step: "combine_step s i p =
      Some \<lparr>cs_out = out @ [COMBINED_USER_ACTIVITY @ join_ids (is @ [i])], cs_last = True,
        cs_count = cs_count s + 1, cs_changed = True\<rparr>"
      by (simp add: combine_step_def)
    show ?thesis
      using ok out run run' 1(3) expand_combined [OF run(1,2)] expand_combined [OF _ run']
      by (auto simp: step combined_ok_def intro!: exI [of _ "is @ [i]"])
  next
    case 2
    with False p have step: "combine_step s i p = Some \<lparr>cs_out = cs_out s @ [COMBINED_USER_ACTIVITY @ i],
        cs_last = True, cs_count = 1, cs_changed = True\<rparr>"
      by (auto simp: combine_step_def)
    show ?thesis
      using ok plain single
      by (auto simp: step combined_ok_def MAX_COMBINED_SYSTEM_POSTS_def intro!: exI [of _ "[i]"])
  next
    case 3
    with False p show ?thesis
      using ok plain
      by (auto simp: combine_step_def combined_ok_def expand_plain plain_id_def MAX_COMBINED_SYSTEM_POSTS_def)
  qed
qed

lemma combine_loop_ok:
  "combined_ok done' s \<Longrightarrow> \<forall>(i, p) \<in> set ips. is_separator i \<or> plain_id i \<and> p \<noteq> None \<Longrightarrow>
     \<exists>s'. combine_loop s ips = Some s' \<and> combined_ok (done' @ map fst ips) s'"
proof (induction ips arbitrary: done' s)
  case (Cons ip ips)
  obtain i p where ip: "ip = (i, p)" by (cases ip)
  with Cons.prems obtain s1 where "combine_step s i p = Some s1" "combined_ok (done' @ [i]) s1"
    using combine_step_ok [of done' s i p] by auto
  with Cons.IH [of "done' @ [i]" s1] Cons.prems ip show ?case by simp
qed simp

text \<open>
  C32. Combining user activity always returns when the posts are loaded, and loses nothing:
  splitting the combined items of the result gives back the very list of ids, and no item
  stands for more than a hundred posts.
\<close>

theorem combining_loses_nothing:
  assumes "\<forall>i \<in> set postIds. is_separator i \<or> plain_id i \<and> get allPosts i \<noteq> None"
  shows "\<exists>out. combineUserActivityPosts allPosts postIds = Some out \<and>
    concat (map expand out) = postIds \<and> (\<forall>item \<in> set out. length (expand item) \<le> 100)"
proof -
  let ?s = "\<lparr>cs_out = [], cs_last = False, cs_count = 0, cs_changed = False\<rparr>"
  have "combined_ok [] ?s" by (simp add: combined_ok_def)
  then obtain s where "combine_loop ?s (map (\<lambda>i. (i, get allPosts i)) postIds) = Some s"
    and "combined_ok postIds s"
    using combine_loop_ok [of "[]" ?s "map (\<lambda>i. (i, get allPosts i)) postIds"] assms
    by (fastforce simp: comp_def)
  moreover have "concat (map expand (cs_out s)) = postIds" "\<forall>item \<in> set (cs_out s). length (expand item) \<le> 100"
    "\<not> cs_changed s \<Longrightarrow> cs_out s = postIds"
    using \<open>combined_ok postIds s\<close> unfolding combined_ok_def MAX_COMBINED_SYSTEM_POSTS_def by blast+
  ultimately show ?thesis by (cases "cs_changed s") (simp_all add: combineUserActivityPosts_def)
qed

section \<open>Separators\<close>

lemma date_line_not_start: "\<not> isStartOfNewMessages (DATE_LINE @ s)" "\<not> isDateLine (START_OF_NEW_MESSAGES @ s)"
  "isDateLine (DATE_LINE @ s)" "isStartOfNewMessages (START_OF_NEW_MESSAGES @ s)"
  by (simp_all add: isStartOfNewMessages_def isDateLine_def starts_with_def DATE_LINE_def START_OF_NEW_MESSAGES_def)

text \<open>The posts that show, oldest first.\<close>

definition shown_in_order :: "bool \<Rightarrow> current_user \<Rightarrow> post option list \<Rightarrow> post list" where
  "shown_in_order showJoinLeave user ps =
     filter (shown showJoinLeave user) (map the (filter (\<lambda>p. p \<noteq> None) ps))"

lemma shown_in_order_snoc:
  "shown_in_order sjl user (ps @ [None]) = shown_in_order sjl user ps"
  "shown_in_order sjl user (ps @ [Some p]) =
     shown_in_order sjl user ps @ (if shown sjl user p then [p] else [])"
  by (simp_all add: shown_in_order_def)

lemma filter_date_push:
  "filter (\<lambda>i. \<not> isDateLine i) (fst (pushPostDateIfNeeded local zone_of user p d)) = []"
  by (simp add: pushPostDateIfNeeded_def Let_def date_line_not_start)

lemma marker_loop:
  assumes "foldl (list_step local zone_of user sjl t ind) ([], None, False) ps = (out, d, added)"
    and "\<forall>p \<in> set (shown_in_order sjl user ps). \<not> isDateLine (post_id p)"
  shows "(added \<longleftrightarrow> (\<exists>p \<in> set (shown_in_order sjl user ps). is_new_for user t ind p)) \<and>
    filter (\<lambda>i. \<not> isDateLine i) out =
      map post_id (takeWhile (\<lambda>p. \<not> is_new_for user t ind p) (shown_in_order sjl user ps)) @
      (if added then [START_OF_NEW_MESSAGES @ show_int t] else []) @
      map post_id (dropWhile (\<lambda>p. \<not> is_new_for user t ind p) (shown_in_order sjl user ps))"
  using assms
proof (induction ps arbitrary: out d added rule: rev_induct)
  case Nil
  then show ?case by (simp add: shown_in_order_def)
next
  case (snoc q ps)
  obtain out0 d0 added0 where loop: "foldl (list_step local zone_of user sjl t ind) ([], None, False) ps = (out0, d0, added0)"
    by (cases "foldl (list_step local zone_of user sjl t ind) ([], None, False) ps")
  let ?new = "is_new_for user t ind" and ?ps = "shown_in_order sjl user ps"
  have ids: "\<forall>p \<in> set ?ps. \<not> isDateLine (post_id p)"
    using snoc.prems(2) by (cases q) (simp_all add: shown_in_order_snoc)
  note IH = snoc.IH [OF loop ids]
  show ?case
  proof (cases "\<exists>p. q = Some p \<and> shown sjl user p")
    case False
    then show ?thesis
      using IH loop snoc.prems(1) by (cases q) (auto simp: shown_in_order_snoc)
  next
    case True
    then obtain p where q: "q = Some p" and shown: "shown sjl user p" by blast
    have pid: "\<not> isDateLine (post_id p)" using snoc.prems(2) q shown by (simp add: shown_in_order_snoc)
    let ?mark = "?new p \<and> \<not> added0"
    from snoc.prems(1) loop q shown have step: "added = (added0 \<or> ?mark)"
      "filter (\<lambda>i. \<not> isDateLine i) out = filter (\<lambda>i. \<not> isDateLine i) out0 @
        (if ?mark then [START_OF_NEW_MESSAGES @ show_int t] else []) @ [post_id p]"
      using filter_date_push [of local zone_of user p d0] pid
      by (auto simp: split_beta Let_def date_line_not_start)
    show ?thesis
    proof (cases added0)
      case True
      with IH step q shown show ?thesis
        by (auto simp: shown_in_order_snoc dropWhile_append takeWhile_append dropWhile_eq_Nil_conv)
    next
      case False
      then have "\<forall>r \<in> set ?ps. \<not> ?new r" using IH by blast
      then show ?thesis
        using False IH step q shown
        by (auto simp: shown_in_order_snoc takeWhile_eq_all_conv [THEN iffD2] dropWhile_eq_Nil_conv [THEN iffD2])
    qed
  qed
qed

text \<open>
  Day separators aside, the list is the posts that show, with the marker of new messages
  once, directly before the oldest post that is new to the user, or not at all when none is.
\<close>

theorem new_messages_marker:
  assumes "\<forall>p \<in> set (shown_in_order sjl user (rev posts)). \<not> isDateLine (post_id p)"
  shows "let old = (\<lambda>p. \<not> is_new_for user t ind p); ps = shown_in_order sjl user (rev posts)
    in rev (filter (\<lambda>i. \<not> isDateLine i)
         (filterPostsAndAddSeparators local zone_of posts t ind (Some user) sjl)) =
       map post_id (takeWhile old ps) @
       (if list_all old ps then [] else [START_OF_NEW_MESSAGES @ show_int t]) @
       map post_id (dropWhile old ps)"
proof -
  obtain out d added where loop:
    "foldl (list_step local zone_of user sjl t ind) ([], None, False) (rev posts) = (out, d, added)"
    by (cases "foldl (list_step local zone_of user sjl t ind) ([], None, False) (rev posts)")
  from marker_loop [OF loop assms] loop show ?thesis
    by (auto simp: filterPostsAndAddSeparators_def rev_filter list_all_iff Let_def)
qed

definition same_day :: "(int \<Rightarrow> int) \<Rightarrow> (string \<Rightarrow> (int \<Rightarrow> int) option) \<Rightarrow> current_user \<Rightarrow> post \<Rightarrow> post \<Rightarrow> bool" where
  "same_day local zone_of user p q \<longleftrightarrow>
     day_of local (post_date local zone_of user p) = day_of local (post_date local zone_of user q)"

definition day_group :: "(int \<Rightarrow> int) \<Rightarrow> (string \<Rightarrow> (int \<Rightarrow> int) option) \<Rightarrow> current_user \<Rightarrow> post list \<Rightarrow> string list" where
  "day_group local zone_of user g =
     (DATE_LINE @ show_int (post_date local zone_of user (hd g))) # map post_id g"

text \<open>Runs of posts of one day, each day different from the one before.\<close>

definition day_runs :: "(post \<Rightarrow> post \<Rightarrow> bool) \<Rightarrow> post list list \<Rightarrow> bool" where
  "day_runs same gs \<longleftrightarrow> (\<forall>g \<in> set gs. g \<noteq> [] \<and> (\<forall>p \<in> set g. same (hd g) p)) \<and>
     successively (\<lambda>g h. \<not> same (hd g) (hd h)) gs"

lemma day_loop:
  assumes "foldl (list_step local zone_of user sjl t ind) ([], None, False) ps = (out, d, added)"
    and "\<forall>p \<in> set (shown_in_order sjl user ps). \<not> isStartOfNewMessages (post_id p)"
  shows "\<exists>gs. concat gs = shown_in_order sjl user ps \<and> day_runs (same_day local zone_of user) gs \<and>
    d = (if gs = [] then None else Some (post_date local zone_of user (hd (last gs)))) \<and>
    filter (\<lambda>i. \<not> isStartOfNewMessages i) out = concat (map (day_group local zone_of user) gs)"
  using assms
proof (induction ps arbitrary: out d added rule: rev_induct)
  case Nil
  then show ?case by (intro exI [of _ "[]"]) (simp add: shown_in_order_def day_runs_def)
next
  case (snoc q ps)
  let ?same = "same_day local zone_of user" and ?date = "post_date local zone_of user"
  obtain out0 d0 added0 where loop: "foldl (list_step local zone_of user sjl t ind) ([], None, False) ps = (out0, d0, added0)"
    by (cases "foldl (list_step local zone_of user sjl t ind) ([], None, False) ps")
  have "\<forall>p \<in> set (shown_in_order sjl user ps). \<not> isStartOfNewMessages (post_id p)"
    using snoc.prems(2) by (cases q) (simp_all add: shown_in_order_snoc)
  from snoc.IH [OF loop this] obtain gs where gs: "concat gs = shown_in_order sjl user ps" "day_runs ?same gs"
    "d0 = (if gs = [] then None else Some (?date (hd (last gs))))"
    "filter (\<lambda>i. \<not> isStartOfNewMessages i) out0 = concat (map (day_group local zone_of user) gs)"
    by blast
  show ?case
  proof (cases "\<exists>p. q = Some p \<and> shown sjl user p")
    case False
    then show ?thesis
      using gs loop snoc.prems(1) by (intro exI [of _ gs], cases q) (auto simp: shown_in_order_snoc)
  next
    case True
    then obtain p where q: "q = Some p" and shown: "shown sjl user p" by blast
    have pid: "\<not> isStartOfNewMessages (post_id p)"
      using snoc.prems(2) q shown by (simp add: shown_in_order_snoc)
    have kept: "filter (\<lambda>i. \<not> isStartOfNewMessages i) out = filter (\<lambda>i. \<not> isStartOfNewMessages i) out0 @
        fst (pushPostDateIfNeeded local zone_of user p d0) @ [post_id p] \<and>
        d = snd (pushPostDateIfNeeded local zone_of user p d0)"
      using snoc.prems(1) loop q shown pid
      by (auto simp: pushPostDateIfNeeded_def Let_def date_line_not_start split: if_splits)
    show ?thesis
    proof (cases "gs = [] \<or> \<not> ?same (hd (last gs)) p")
      case True
      with gs q shown kept show ?thesis
        by (intro exI [of _ "gs @ [[p]]"])
          (auto simp: shown_in_order_snoc pushPostDateIfNeeded_def Let_def day_runs_def successively_append_iff
            day_group_def [of _ _ _ "[p]"] same_day_def)
    next
      case False
      then obtain gs' g where g: "gs = gs' @ [g]" "?same (hd g) p" by (cases gs rule: rev_cases) auto
      with gs(2) have "g \<noteq> []" by (simp add: day_runs_def)
      with g gs q shown kept show ?thesis
        by (intro exI [of _ "gs' @ [g @ [p]]"])
          (auto simp: shown_in_order_snoc pushPostDateIfNeeded_def Let_def day_runs_def successively_append_iff
            day_group_def [of _ _ _ g] day_group_def [of _ _ _ "g @ [p]"] same_day_def)
    qed
  qed
qed

text \<open>
  The day separators split the posts that show into runs of one day each, no two
  neighbouring runs of the same day; a separator carries the time of the first post of its
  run, and reading it back gives that time.
\<close>

theorem day_separators:
  assumes "\<forall>p \<in> set (shown_in_order sjl user (rev posts)). \<not> isStartOfNewMessages (post_id p)"
  shows "\<exists>gs. concat gs = shown_in_order sjl user (rev posts) \<and> day_runs (same_day local zone_of user) gs \<and>
    rev (filter (\<lambda>i. \<not> isStartOfNewMessages i)
      (filterPostsAndAddSeparators local zone_of posts t ind (Some user) sjl)) =
      concat (map (day_group local zone_of user) gs) \<and>
    (\<forall>g \<in> set gs. getDateForDateLine (hd (day_group local zone_of user g)) = Num (post_date local zone_of user (hd g)))"
proof -
  obtain out d added where loop:
    "foldl (list_step local zone_of user sjl t ind) ([], None, False) (rev posts) = (out, d, added)"
    by (cases "foldl (list_step local zone_of user sjl t ind) ([], None, False) (rev posts)")
  from day_loop [OF loop assms] loop show ?thesis
    by (auto simp: filterPostsAndAddSeparators_def rev_filter getDateForDateLine_def day_group_def parse_show)
qed

section \<open>Who a combined post names\<close>

text \<open>Post \<open>p\<close> is accounted for by an entry, and an entry names only people of the posts \<open>ps\<close>.\<close>

definition accounts_for :: "activity_entry list \<Rightarrow> post \<Rightarrow> bool" where
  "accounts_for es p \<longleftrightarrow>
     (if isUsersRelatedPost (post_type p)
      then \<exists>e \<in> set es. isUsersRelatedPost (ae_postType e) \<and> related_user p \<in> set (ae_userIds e)
      else \<exists>e \<in> set es. \<not> isUsersRelatedPost (ae_postType e) \<and> user_id p \<in> set (ae_actorId e))"

definition names_only :: "post set \<Rightarrow> activity_entry \<Rightarrow> bool" where
  "names_only ps e \<longleftrightarrow> ae_actorId e \<noteq> [] \<and> set (ae_actorId e) \<subseteq> user_id ` ps \<and>
     set (ae_userIds e) \<subseteq> related_user ` ps"

lemma not_related [simp]: "\<not> isUsersRelatedPost ''system_join_leave_channel''"
  "\<not> isUsersRelatedPost ''system_join_channel''" "\<not> isUsersRelatedPost ''system_leave_channel''"
  by (simp_all add: isUsersRelatedPost_def)

lemma accounts_for_Cons:
  "accounts_for (e # es) p \<longleftrightarrow> accounts_for [e] p \<or> accounts_for es p"
  by (auto simp: accounts_for_def)

lemma merge_accounts:
  "\<not> isUsersRelatedPost (ae_postType e) \<Longrightarrow> accounts_for (e # es) p \<Longrightarrow>
     accounts_for (mergeLastSimilarPosts (e # es)) p"
  by (cases es) (auto simp: accounts_for_def split: if_splits)

lemma merge_names: "\<forall>e \<in> set es. names_only ps e \<Longrightarrow> \<forall>e \<in> set (mergeLastSimilarPosts es). names_only ps e"
  by (induction es rule: mergeLastSimilarPosts.induct) (auto simp: names_only_def)

text \<open>A join entry that becomes joins and departures accounts for the same posts.\<close>

lemma joined_left_accounts:
  "ae_postType e = ''system_join_channel'' \<Longrightarrow>
     accounts_for (e\<lparr>ae_postType := ''system_join_leave_channel''\<rparr> # es) p = accounts_for (e # es) p"
  by (simp add: accounts_for_def)

lemma joined_left_names: "names_only ps (e\<lparr>ae_postType := ty\<rparr>) = names_only ps e"
  by (simp add: names_only_def)

lemma another_actor_accounts:
  assumes "\<not> isUsersRelatedPost (ae_postType e)" and "\<not> isUsersRelatedPost (post_type p)"
  shows "(accounts_for (e # es) q \<or> q = p) \<Longrightarrow> accounts_for (another_actor e es (user_id p)) q"
proof -
  let ?e = "e\<lparr>ae_actorId := ae_actorId e @ [user_id p]\<rparr>"
  assume "accounts_for (e # es) q \<or> q = p"
  then have q: "accounts_for (?e # es) q" using assms by (auto simp: accounts_for_def)
  show ?thesis
  proof (cases "\<exists>d ds. es = d # ds \<and> ae_postType d = ''system_join_channel'' \<and>
      ae_postType e = ''system_leave_channel'' \<and> isSameActorsInUserActivities d ?e")
    case False
    then show ?thesis using q by (cases es) (auto simp: another_actor_def Let_def)
  next
    case True
    then obtain d ds where d: "es = d # ds" "ae_postType d = ''system_join_channel''"
      "ae_postType e = ''system_leave_channel''" "isSameActorsInUserActivities d ?e" by blast
    then have "set (ae_actorId ?e) \<subseteq> set (ae_actorId d)"
      by (auto simp: isSameActorsInUserActivities_def list_all_iff)
    with q d have "accounts_for (d # ds) q" by (auto simp: accounts_for_def split: if_splits)
    then have "accounts_for (mergeLastSimilarPosts (d\<lparr>ae_postType := ''system_join_leave_channel''\<rparr> # ds)) q"
      by (intro merge_accounts) (simp_all add: joined_left_accounts d(2))
    with d show ?thesis by (simp add: another_actor_def Let_def)
  qed
qed

lemma another_actor_names:
  assumes "\<forall>d \<in> set (e # es). names_only ps d" and "p \<in> ps"
  shows "\<forall>d \<in> set (another_actor e es (user_id p)). names_only ps d"
proof -
  have "names_only ps (e\<lparr>ae_actorId := ae_actorId e @ [user_id p]\<rparr>)"
    using assms by (auto simp: names_only_def)
  moreover have "\<forall>x \<in> set (mergeLastSimilarPosts (d\<lparr>ae_postType := ty\<rparr> # ds)). names_only ps x"
    if "es = d # ds" for d ds ty
    using assms that by (intro merge_names) (simp add: joined_left_names)
  ultimately show ?thesis
    using assms by (auto simp: another_actor_def Let_def split: list.splits)
qed

lemma activity_step_accounts:
  assumes "accounts_for es q \<or> q = p"
  shows "accounts_for (activity_step es p) q"
proof (cases es)
  case Nil
  with assms show ?thesis by (auto simp: accounts_for_def activity_of_def)
next
  case (Cons e before)
  let ?same = "ae_postType e = post_type p" and ?actor = "first_of (ae_actorId e) = Some (user_id p)"
  have actor: "?actor \<Longrightarrow> user_id p \<in> set (ae_actorId e)" by (cases "ae_actorId e") (auto simp: first_of_def)
  consider (again) "?same" "?actor \<or> post_type p = ''system_remove_from_channel''"
    | (another) "?same" "\<not> ?actor" "\<not> isUsersRelatedPost (post_type p)" "post_type p \<noteq> ''system_remove_from_channel''"
    | (left) "ae_postType e = ''system_join_channel''" "post_type p = ''system_leave_channel''"
        "length (ae_actorId e) = 1" "?actor"
    | (new) "\<not> (?same \<and> (?actor \<or> post_type p = ''system_remove_from_channel''))"
        "\<not> (?same \<and> \<not> ?actor \<and> \<not> isUsersRelatedPost (post_type p))"
        "\<not> (ae_postType e = ''system_join_channel'' \<and> post_type p = ''system_leave_channel'' \<and>
            length (ae_actorId e) = 1 \<and> ?actor)"
    by blast
  then show ?thesis
  proof cases
    case again
    with Cons assms actor show ?thesis
      by (auto simp: accounts_for_def isUsersRelatedPost_def)
  next
    case another
    with Cons assms another_actor_accounts [of e p before q] show ?thesis by (simp add: Let_def)
  next
    case left
    have "accounts_for (e # before) q" using assms left actor Cons by (auto simp: accounts_for_def)
    then have "accounts_for (mergeLastSimilarPosts (e\<lparr>ae_postType := ''system_join_leave_channel''\<rparr> # before)) q"
      by (intro merge_accounts) (simp_all add: joined_left_accounts left(1))
    with left Cons show ?thesis by (simp add: Let_def)
  next
    case new
    then have "activity_step es p = activity_of p # es" using Cons by (auto simp: Let_def)
    with assms show ?thesis by (auto simp: accounts_for_def activity_of_def)
  qed
qed

lemma activity_step_names:
  assumes "\<forall>e \<in> set es. names_only ps e" and "p \<in> ps"
  shows "\<forall>e \<in> set (activity_step es p). names_only ps e"
proof (cases es)
  case Nil
  with assms show ?thesis by (simp add: names_only_def activity_of_def)
next
  case (Cons e before)
  have "\<forall>x \<in> set (mergeLastSimilarPosts (e\<lparr>ae_postType := ty\<rparr> # before)). names_only ps x" for ty
    using assms Cons by (intro merge_names) (simp add: joined_left_names)
  moreover have "\<forall>x \<in> set (another_actor e before (user_id p)). names_only ps x"
    using another_actor_names [of e before ps p] assms Cons by simp
  ultimately show ?thesis
    using assms Cons by (auto simp: Let_def names_only_def activity_of_def)
qed

lemma activity_loop:
  "(\<forall>q \<in> set ps. accounts_for (foldl activity_step [] ps) q) \<and>
   (\<forall>e \<in> set (foldl activity_step [] ps). names_only (set ps) e)"
proof (induction ps rule: rev_induct)
  case (snoc p ps)
  have "\<forall>e \<in> set (foldl activity_step [] ps). names_only (set (ps @ [p])) e"
    using snoc by (auto simp: names_only_def)
  then show ?case
    using snoc activity_step_accounts [of "foldl activity_step [] ps" _ p]
      activity_step_names [of "foldl activity_step [] ps" "set (ps @ [p])" p] by auto
qed simp

text \<open>
  However the joins, departures, additions and removals of a combined post are merged,
  its list of users names everyone who joined or left and everyone who was added or removed,
  nobody twice, and nobody else but the actors of the posts.
\<close>

theorem combined_post_names_everyone:
  assumes "combineUserActivitySystemPost ps = (Some activity, ps')"
  shows "(\<forall>p \<in> set ps. if isUsersRelatedPost (post_type p)
       then related_user p = [] \<or> related_user p \<in> set (ua_allUserIds activity)
       else user_id p \<in> set (ua_allUserIds activity)) \<and>
    set (ua_allUserIds activity) \<subseteq> user_id ` set ps \<union> related_user ` set ps \<and>
    distinct (ua_allUserIds activity)"
proof -
  let ?es = "foldl activity_step [] (rev ps)"
  have ids: "ua_allUserIds activity = remdups_js (concat (map activity_user_ids (rev ?es)))"
    using assms by (auto simp: combineUserActivitySystemPost_def extractUserActivityData_def split: if_splits)
  have sub: "set (activity_user_ids e) \<subseteq> set (ae_userIds e) \<union> set (ae_actorId e)" for e
    by (cases "ae_actorId e") (auto simp: activity_user_ids_def first_actor_def)
  have "set (ua_allUserIds activity) \<subseteq> user_id ` set ps \<union> related_user ` set ps"
    using activity_loop [of "rev ps"] sub by (fastforce simp: ids names_only_def)
  moreover have "if isUsersRelatedPost (post_type p)
      then related_user p = [] \<or> related_user p \<in> set (ua_allUserIds activity)
      else user_id p \<in> set (ua_allUserIds activity)" if "p \<in> set ps" for p
    using that activity_loop [of "rev ps"]
    by (fastforce simp: ids accounts_for_def activity_user_ids_def split: if_splits)
  moreover have "distinct (ua_allUserIds activity)" by (simp add: ids)
  ultimately show ?thesis by blast
qed

section \<open>The theorems at work\<close>

definition joined :: "string \<Rightarrow> string \<Rightarrow> int \<Rightarrow> post" where
  "joined i u t = upd_core (\<lambda>c. c\<lparr>p_type := ''system_join_channel'', p_user_id := u\<rparr>) (sample i ''ch'' [] t)"

definition joins :: "post obj" where
  "joins = [(''p1'', joined ''p1'' ''u1'' 1), (''p2'', joined ''p2'' ''u2'' 2), (''p3'', sample ''p3'' ''ch'' [] 3)]"

theorem combining_loses_nothing_witness:
  "\<exists>out. combineUserActivityPosts joins [''p3'', ''p2'', ''p1'', ''date-0''] = Some out \<and>
     concat (map expand out) = [''p3'', ''p2'', ''p1'', ''date-0''] \<and> length out = 3"
proof -
  have out: "combineUserActivityPosts joins [''p3'', ''p2'', ''p1'', ''date-0''] =
      Some [''p3'', ''user-activity-p2_p1'', ''date-0'']"
    by code_simp
  have "\<forall>i \<in> set [''p3'', ''p2'', ''p1'', ''date-0'']. is_separator i \<or> plain_id i \<and> get joins i \<noteq> None"
    by (simp add: joins_def is_separator_def isDateLine_def starts_with_def DATE_LINE_def plain_id_def
        COMBINED_USER_ACTIVITY_def)
  from combining_loses_nothing [OF this] out show ?thesis by auto
qed

definition sample_user :: current_user where
  "sample_user = \<lparr>cu_id = ''u9'', cu_username = ''me'', cu_timezone = None\<rparr>"

text \<open>An offset that makes days short, so that small times fall on different ones.\<close>

definition far_west :: "int \<Rightarrow> int" where
  "far_west t = - 1000 * t"

definition listed_posts :: "post option list" where
  "listed_posts = [Some (sample ''p3'' ''ch'' [] 5), None, Some (sample ''p1'' ''ch'' [] 2)]"

theorem new_messages_marker_witness:
  "rev (filter (\<lambda>i. \<not> isDateLine i)
     (filterPostsAndAddSeparators far_west (\<lambda>_. None) listed_posts 3 True (Some sample_user) True)) =
   [''p1'', ''start-of-new-messages-3'', ''p3'']"
proof -
  have "\<forall>p \<in> set (shown_in_order True sample_user (rev listed_posts)). \<not> isDateLine (post_id p)"
    by code_simp
  moreover have "(let old = (\<lambda>p. \<not> is_new_for sample_user 3 True p); ps = shown_in_order True sample_user (rev listed_posts)
      in map post_id (takeWhile old ps) @ (if list_all old ps then [] else [START_OF_NEW_MESSAGES @ show_int 3]) @
         map post_id (dropWhile old ps)) = [''p1'', ''start-of-new-messages-3'', ''p3'']"
    by code_simp
  ultimately show ?thesis
    using new_messages_marker [of True sample_user listed_posts 3 True far_west "\<lambda>_. None"] by (simp add: Let_def)
qed

theorem day_separators_witness:
  "\<exists>gs. concat (map (day_group far_west (\<lambda>_. None) sample_user) gs) = [''date-2'', ''p1'', ''date-5'', ''p3'']
     \<and> day_runs (same_day far_west (\<lambda>_. None) sample_user) gs"
proof -
  have ids: "\<forall>p \<in> set (shown_in_order True sample_user (rev listed_posts)). \<not> isStartOfNewMessages (post_id p)"
    by code_simp
  have "rev (filter (\<lambda>i. \<not> isStartOfNewMessages i)
      (filterPostsAndAddSeparators far_west (\<lambda>_. None) listed_posts 0 True (Some sample_user) True)) =
      [''date-2'', ''p1'', ''date-5'', ''p3'']"
    by code_simp
  with day_separators [OF ids, of far_west "\<lambda>_. None" 0 True] show ?thesis by metis
qed

theorem combined_post_names_everyone_witness:
  "\<exists>activity ps'. combineUserActivitySystemPost [joined ''p2'' ''u2'' 2, joined ''p1'' ''u1'' 1] = (Some activity, ps') \<and>
     set (ua_allUserIds activity) = {''u1'', ''u2''}"
proof -
  let ?ps = "[joined ''p2'' ''u2'' 2, joined ''p1'' ''u1'' 1]"
  obtain activity where a: "combineUserActivitySystemPost ?ps = (Some activity, rev ?ps)"
    by (simp add: combineUserActivitySystemPost_def)
  from combined_post_names_everyone [OF a]
  have "set (ua_allUserIds activity) \<subseteq> {''u1'', ''u2'', []}" "{''u1'', ''u2''} \<subseteq> set (ua_allUserIds activity)"
    by (auto simp: joined_def related_user_def isUsersRelatedPost_def sample_defs)
  moreover have "[] \<notin> set (ua_allUserIds (the (fst (combineUserActivitySystemPost ?ps))))" by code_simp
  ultimately show ?thesis using a by auto
qed

end
