(* ===== verification/Categories.thy ===== *)
theory Categories
  imports PostUtils
begin

text \<open>
  The channel categories of the sidebar: \<open>reducers/entities/channel_categories.ts\<close> and the array
  helpers of \<open>utils/array_utils.ts\<close>, with what holds of them.
\<close>

section \<open>array_utils.ts\<close>

definition removeItem :: "'a list \<Rightarrow> 'a \<Rightarrow> 'a list" where
  "removeItem xs item = (case indexOf xs item of None \<Rightarrow> xs | Some i \<Rightarrow> remove_at i xs)"

text \<open>\<open>xs.splice(i, 0, ...items)\<close>: a negative index counts from the end, a large one means the end.\<close>

definition splice_in :: "int \<Rightarrow> 'a list \<Rightarrow> 'a list \<Rightarrow> 'a list" where
  "splice_in i items xs =
     (let n = (if i < 0 then max 0 (int (length xs) + i) else min i (int (length xs)))
      in take (nat n) xs @ items @ drop (nat n) xs)"

definition insertWithoutDuplicates :: "'a list \<Rightarrow> 'a \<Rightarrow> int \<Rightarrow> 'a list" where
  "insertWithoutDuplicates xs item newIndex =
     (case indexOf xs item of
        None \<Rightarrow> if newIndex = - 1 then xs else splice_in newIndex [item] xs
      | Some i \<Rightarrow> if newIndex = int i then xs else splice_in newIndex [item] (remove_at i xs))"

definition insertMultipleWithoutDuplicates :: "'a list \<Rightarrow> 'a list \<Rightarrow> int \<Rightarrow> 'a list" where
  "insertMultipleWithoutDuplicates xs items newIndex = splice_in newIndex items (foldl removeItem xs items)"

lemma removeItem_remove1: "removeItem xs x = remove1 x xs"
  by (auto simp: removeItem_def remove_at_indexOf indexOf_None remove1_idem split: option.split)

lemma splice_in_shape: "\<exists>ys zs. xs = ys @ zs \<and> splice_in i items xs = ys @ items @ zs"
  unfolding splice_in_def Let_def by (metis append_take_drop_id)

text \<open>A moved item is listed once, whatever the position asked for.\<close>

lemma insertWithoutDuplicates_set:
  assumes "distinct xs" and "i \<ge> 0"
  shows "distinct (insertWithoutDuplicates xs x i) \<and> set (insertWithoutDuplicates xs x i) = insert x (set xs)"
proof -
  have splice: "distinct (splice_in i [x] ys) \<and> set (splice_in i [x] ys) = insert x (set ys)"
    if "distinct ys" "x \<notin> set ys" for ys
    using splice_in_shape [of ys i "[x]"] that by auto
  show ?thesis
  proof (cases "indexOf xs x")
    case None
    then have "x \<notin> set xs" by (simp add: indexOf_None)
    with None splice [of xs] assms show ?thesis by (simp add: insertWithoutDuplicates_def)
  next
    case (Some n)
    then have "x \<in> set xs" "remove_at n xs = remove1 x xs" by (simp_all add: indexOf_Some remove_at_indexOf)
    with Some splice [of "remove1 x xs"] assms show ?thesis
      by (auto simp: insertWithoutDuplicates_def)
  qed
qed

section \<open>byId\<close>

type_synonym category_map = "channel_category obj"

text \<open>A category from the websocket keeps whether it is collapsed; reading that of an unknown one throws.\<close>

fun receive_categories :: "category_map \<Rightarrow> bool \<Rightarrow> category_map \<Rightarrow> channel_category list \<Rightarrow> category_map option" where
  "receive_categories st isWebSocket nextState [] = Some nextState"
| "receive_categories st isWebSocket nextState (c # cs) =
     (if isWebSocket
      then (case get st (cat_id c) of
              None \<Rightarrow> None
            | Some old \<Rightarrow> receive_categories st isWebSocket
                (put (cat_id c) (c\<lparr>cat_collapsed := cat_collapsed old\<rparr>) nextState) cs)
      else receive_categories st isWebSocket (put (cat_id c) c nextState) cs)"

definition category_leave_step :: "string \<Rightarrow> category_map \<times> bool \<Rightarrow> channel_category \<Rightarrow> category_map \<times> bool" where
  "category_leave_step channelId = (\<lambda>(nextState, changed) category.
     (case indexOf (cat_channel_ids category) channelId of
        None \<Rightarrow> (nextState, changed)
      | Some index \<Rightarrow>
          (put (cat_id category) (category\<lparr>cat_channel_ids := remove_at index (cat_channel_ids category)\<rparr>) nextState,
           True)))"

definition categories_left_channel :: "category_map \<Rightarrow> string \<Rightarrow> category_map nxt" where
  "categories_left_channel st channelId =
     (let (nextState, changed) = foldl (category_leave_step channelId) (st, False) (obj_values st)
      in if changed then New nextState else Same)"

definition categories_left_team :: "category_map \<Rightarrow> string \<Rightarrow> category_map nxt" where
  "categories_left_team st teamId =
     (let gone = filter (\<lambda>c. cat_team_id c = teamId) (obj_values st)
      in if gone = [] then Same else New (foldl (\<lambda>ns c. del (cat_id c) ns) st gone))"

definition gm_converted :: "string \<Rightarrow> string \<Rightarrow> string \<Rightarrow> channel_category \<Rightarrow> channel_category" where
  "gm_converted channelId teamId categoryID c =
     (if starts_with ''channels_'' categoryID \<and> cat_team_id c = teamId \<and> indexOf (cat_channel_ids c) channelId = None
      then c\<lparr>cat_channel_ids := cat_channel_ids c @ [channelId]\<rparr>
      else c\<lparr>cat_channel_ids := filter (\<lambda>i. i \<noteq> channelId) (cat_channel_ids c)\<rparr>)"

definition categories_gm_converted :: "category_map \<Rightarrow> string \<Rightarrow> string \<Rightarrow> category_map" where
  "categories_gm_converted st channelId teamId = map (\<lambda>(i, c). (i, gm_converted channelId teamId i c)) st"

fun category_byId :: "category_map \<Rightarrow> action \<Rightarrow> category_map nxt option" where
  "category_byId st (ChannelCategoryTypes (RECEIVED_CATEGORIES cs ws)) =
     (if cs = [] then Some Same else map_option New (receive_categories st ws st cs))"
| "category_byId st (ChannelCategoryTypes (RECEIVED_CATEGORY c)) = Some (New (put (cat_id c) c st))"
| "category_byId st (ChannelCategoryTypes (CATEGORY_DELETED i)) = Some (New (del i st))"
| "category_byId st (ChannelTypes (LEAVE_CHANNEL ch team)) = Some (categories_left_channel st ch)"
| "category_byId st (TeamTypes (LEAVE_TEAM team)) = Some (categories_left_team st team)"
| "category_byId st (ChannelTypes (GM_CONVERTED_TO_CHANNEL ch team)) = Some (New (categories_gm_converted st ch team))"
| "category_byId st (UserTypes LOGOUT_SUCCESS) = Some (New [])"
| "category_byId st _ = Some Same"

section \<open>orderByTeam\<close>

fun orderByTeam :: "string list obj \<Rightarrow> action \<Rightarrow> string list obj nxt" where
  "orderByTeam st (ChannelCategoryTypes (RECEIVED_CATEGORY_ORDER team ord)) = New (put team ord st)"
| "orderByTeam st (ChannelCategoryTypes (CATEGORY_DELETED i)) =
     New (map (\<lambda>(team, ids). (team, removeItem ids i)) st)"
| "orderByTeam st (TeamTypes (LEAVE_TEAM team)) = (if get st team = None then Same else New (del team st))"
| "orderByTeam st (UserTypes LOGOUT_SUCCESS) = New []"
| "orderByTeam st _ = Same"

section \<open>What holds\<close>

definition filed_categories :: "category_map \<Rightarrow> bool" where
  "filed_categories st \<longleftrightarrow> wf_obj st \<and> list_all (\<lambda>(k, c). cat_id c = k \<and> distinct (cat_channel_ids c)) st"

lemma filed_category: "filed_categories st \<Longrightarrow> get st k = Some c \<Longrightarrow> cat_id c = k \<and> distinct (cat_channel_ids c)"
  by (auto simp: filed_categories_def list_all_iff dest!: map_of_SomeD)

lemma filed_category_ids: "filed_categories st \<Longrightarrow> distinct (map cat_id (obj_values st))"
proof -
  assume "filed_categories st"
  then have "map cat_id (obj_values st) = map fst st"
    by (auto simp: filed_categories_def obj_values_def list_all_iff)
  then show ?thesis using \<open>filed_categories st\<close> by (simp add: filed_categories_def wf_obj_def)
qed

lemma leave_categories_other:
  "k \<notin> cat_id ` set cs \<Longrightarrow> get (fst (foldl (category_leave_step ch) (ns, b) cs)) k = get ns k"
  by (induction cs arbitrary: ns b) (auto simp: category_leave_step_def split: option.split)

lemma leave_categories_loop:
  "distinct (map cat_id cs) \<Longrightarrow> c \<in> set cs \<Longrightarrow>
     get (fst (foldl (category_leave_step ch) (ns, b) cs)) (cat_id c) =
       (if ch \<in> set (cat_channel_ids c) then Some (c\<lparr>cat_channel_ids := remove1 ch (cat_channel_ids c)\<rparr>)
        else get ns (cat_id c))"
proof (induction cs arbitrary: ns b)
  case (Cons d cs)
  obtain ns1 b1 where step: "category_leave_step ch (ns, b) d = (ns1, b1)"
    by (cases "category_leave_step ch (ns, b) d")
  then have d: "get ns1 (cat_id d) = (if ch \<in> set (cat_channel_ids d)
      then Some (d\<lparr>cat_channel_ids := remove1 ch (cat_channel_ids d)\<rparr>) else get ns (cat_id d))"
    and other: "\<And>k. k \<noteq> cat_id d \<Longrightarrow> get ns1 k = get ns k"
    by (auto simp: category_leave_step_def indexOf_None remove_at_indexOf indexOf_Some split: option.splits)
  show ?case
  proof (cases "c = d")
    case True
    with Cons.prems step d leave_categories_other [of "cat_id d" cs ch ns1 b1] show ?thesis by simp
  next
    case False
    with Cons.prems have "c \<in> set cs" "cat_id c \<noteq> cat_id d" by (auto simp: image_iff)
    with Cons step other show ?thesis by simp
  qed
qed simp

lemma leave_categories_unchanged:
  "\<not> snd (foldl (category_leave_step ch) (ns, b) cs) \<Longrightarrow> \<not> b \<and> (\<forall>c \<in> set cs. ch \<notin> set (cat_channel_ids c))"
proof (induction cs arbitrary: ns b)
  case (Cons d cs)
  then show ?case
    by (cases "indexOf (cat_channel_ids d) ch") (auto simp: category_leave_step_def indexOf_None)
qed simp

text \<open>
  Leaving a channel takes it out of every category of every team and changes nothing else
  of them; the categories stay filed under their ids.
\<close>

theorem left_channel_categories:
  assumes "filed_categories st"
  shows "\<exists>n. category_byId st (ChannelTypes (LEAVE_CHANNEL ch team)) = Some n \<and>
    get (upd st n) k =
      map_option (\<lambda>c. c\<lparr>cat_channel_ids := filter (\<lambda>i. i \<noteq> ch) (cat_channel_ids c)\<rparr>) (get st k)"
proof -
  let ?r = "foldl (category_leave_step ch) (st, False) (obj_values st)"
  have gone: "remove1 ch (cat_channel_ids c) = filter (\<lambda>i. i \<noteq> ch) (cat_channel_ids c)" if "get st k = Some c" for c
    using filed_category [OF assms that] by (simp add: distinct_remove1_removeAll removeAll_filter_not_eq) metis
  have keep: "c\<lparr>cat_channel_ids := filter (\<lambda>i. i \<noteq> ch) (cat_channel_ids c)\<rparr> = c"
    if "ch \<notin> set (cat_channel_ids c)" for c
  proof -
    have "filter (\<lambda>i. i \<noteq> ch) (cat_channel_ids c) = cat_channel_ids c" using that by (auto simp: filter_id_conv)
    then show ?thesis by simp
  qed
  have "get (upd st (categories_left_channel st ch)) k =
      map_option (\<lambda>c. c\<lparr>cat_channel_ids := filter (\<lambda>i. i \<noteq> ch) (cat_channel_ids c)\<rparr>) (get st k)"
  proof (cases "get st k")
    case None
    have "k \<notin> cat_id ` set (obj_values st)"
      using None filed_category [OF assms] assms values_in_get [of st]
      by (fastforce simp: filed_categories_def)
    then show ?thesis
      using None leave_categories_other [of k "obj_values st" ch st False]
      by (simp add: categories_left_channel_def split_beta Let_def)
  next
    case (Some c)
    then have c: "c \<in> set (obj_values st)" "cat_id c = k"
      using filed_category [OF assms] get_in_values by fastforce+
    note loop = leave_categories_loop [OF filed_category_ids [OF assms] c(1), of ch st False]
    show ?thesis
    proof (cases "ch \<in> set (cat_channel_ids c)")
      case True
      then have "snd ?r" using leave_categories_unchanged [of ch st False "obj_values st"] c(1) by blast
      with True Some loop c(2) gone [OF Some] show ?thesis
        by (simp add: categories_left_channel_def split_beta Let_def)
    next
      case False
      with Some loop c(2) keep [OF False] show ?thesis
        by (simp add: categories_left_channel_def split_beta Let_def)
    qed
  qed
  then show ?thesis by simp
qed

text \<open>
  When a group message becomes a channel of a team, the team's channels category lists it
  afterwards exactly if it did not before: a category that was already up to date loses the
  channel. No other category lists it, and the other channels stay.
\<close>

theorem gm_conversion_toggles:
  assumes "get st k = Some c"
  shows "\<exists>st' c'. category_byId st (ChannelTypes (GM_CONVERTED_TO_CHANNEL ch team)) = Some (New st') \<and>
    get st' k = Some c' \<and>
    (ch \<in> set (cat_channel_ids c') \<longleftrightarrow>
       starts_with ''channels_'' k \<and> cat_team_id c = team \<and> ch \<notin> set (cat_channel_ids c)) \<and>
    filter (\<lambda>i. i \<noteq> ch) (cat_channel_ids c') = filter (\<lambda>i. i \<noteq> ch) (cat_channel_ids c)"
proof -
  have "get (map (\<lambda>(i, c). (i, gm_converted ch team i c)) st) k = Some (gm_converted ch team k c)"
    using assms by (induction st) auto
  then show ?thesis
    by (auto simp: categories_gm_converted_def gm_converted_def indexOf_None)
qed

text \<open>A category the websocket reports before it was ever received throws.\<close>

lemma websocket_unknown_category_throws:
  "get st (cat_id c) = None \<Longrightarrow> category_byId st (ChannelCategoryTypes (RECEIVED_CATEGORIES (c # cs) True)) = None"
  by simp

section \<open>The theorems at work\<close>

definition sample_category :: channel_category where
  "sample_category = \<lparr>cat_id = ''channels_u_t'', cat_user_id = ''u'', cat_team_id = ''t'', cat_type = ''channels'',
     cat_display_name = [], cat_sorting = [], cat_channel_ids = [''c1'', ''c2''], cat_muted = False,
     cat_collapsed = False\<rparr>"

theorem left_channel_categories_witness:
  "\<exists>n. category_byId [(''channels_u_t'', sample_category)] (ChannelTypes (LEAVE_CHANNEL ''c1'' ''t'')) = Some n \<and>
     map_option cat_channel_ids (get (upd [(''channels_u_t'', sample_category)] n) ''channels_u_t'') = Some [''c2'']"
proof -
  have "filed_categories [(''channels_u_t'', sample_category)]"
    by (simp add: filed_categories_def wf_obj_def sample_category_def)
  from left_channel_categories [OF this, of "''c1''" "''t''" "''channels_u_t''"]
  show ?thesis by (auto simp: sample_category_def)
qed

theorem gm_conversion_toggles_witness:
  "\<exists>st' c'. category_byId [(''channels_u_t'', sample_category)] (ChannelTypes (GM_CONVERTED_TO_CHANNEL ''c1'' ''t''))
       = Some (New st') \<and> get st' ''channels_u_t'' = Some c' \<and> ''c1'' \<notin> set (cat_channel_ids c')"
  using gm_conversion_toggles [of "[(''channels_u_t'', sample_category)]" "''channels_u_t''" sample_category "''c1''" "''t''"]
  by (auto simp: sample_category_def)

end
