(* ===== verification/ScheduledPosts.thy ===== *)
theory ScheduledPosts
  imports PostUtils
begin

text \<open>
  The scheduled posts, \<open>reducers/entities/scheduled_posts.ts\<close>: the posts by id and three indexes
  (by team, by channel or thread, and of the failed ones by team), with what holds of them.
\<close>

section \<open>schedule_post.ts\<close>

text \<open>\<open>scheduledPostFromPost\<close> reads \<open>post.metadata.priority\<close>, which throws without metadata.\<close>

definition scheduledPostFromPost :: "post \<Rightarrow> int \<Rightarrow> scheduled_post option" where
  "scheduledPostFromPost p scheduledAt =
     (case metadata p of
        None \<Rightarrow> None
      | Some m \<Rightarrow> Some \<lparr>sp_id = [], sp_create_at = 0, sp_update_at = update_at p, sp_user_id = user_id p,
          sp_channel_id = channel_id p, sp_root_id = root_id p, sp_message = p_message (core p),
          sp_props = p_props (core p), sp_file_ids = None, sp_metadata = Some m,
          sp_priority = m_priority (meta_core m), sp_scheduled_at = scheduledAt, sp_processed_at = None,
          sp_error_code = []\<rparr>)"

definition scheduledPostToPost :: "scheduled_post \<Rightarrow> post" where
  "scheduledPostToPost s =
     Post (no_core\<lparr>p_id := sp_id s, p_create_at := sp_create_at s, p_update_at := sp_update_at s,
             p_user_id := sp_user_id s, p_channel_id := sp_channel_id s, p_root_id := sp_root_id s,
             p_message := sp_message s, p_props := sp_props s\<rparr>)
       (Some (case sp_metadata s of
          Some m \<Rightarrow> m
        | None \<Rightarrow> PostMetadata (no_metadata_core\<lparr>m_emojis := Some [], m_files := Some [], m_images := Some []\<rparr>)
            (Some [])))
       None None"

text \<open>Back from its scheduled form a post has its content, place and metadata again, and nothing else.\<close>

lemma scheduled_round_trip:
  assumes "scheduledPostFromPost p t = Some s"
  shows "metadata (scheduledPostToPost s) = metadata p \<and>
    core (scheduledPostToPost s) = no_core\<lparr>p_update_at := update_at p, p_user_id := user_id p,
      p_channel_id := channel_id p, p_root_id := root_id p, p_message := p_message (core p),
      p_props := p_props (core p)\<rparr>"
  using assms by (auto simp: scheduledPostFromPost_def scheduledPostToPost_def no_core_def split: option.splits)

section \<open>byId\<close>

definition all_scheduled :: "scheduled_post list obj \<Rightarrow> scheduled_post list" where
  "all_scheduled byTeam = concat (obj_values byTeam)"

fun scheduled_byId :: "scheduled_post obj \<Rightarrow> action \<Rightarrow> scheduled_post obj nxt" where
  "scheduled_byId st (ScheduledPostTypes (SCHEDULED_POSTS_RECEIVED byTeam prune)) =
     New (foldl (\<lambda>ns p. put (sp_id p) p ns) st (all_scheduled byTeam))"
| "scheduled_byId st (ScheduledPostTypes (SINGLE_SCHEDULED_POST_RECEIVED p team)) = New (put (sp_id p) p st)"
| "scheduled_byId st (ScheduledPostTypes (SCHEDULED_POST_UPDATED p)) = New (put (sp_id p) p st)"
| "scheduled_byId st (ScheduledPostTypes (SCHEDULED_POST_DELETED p)) = New (del (sp_id p) st)"
| "scheduled_byId st (UserTypes LOGOUT_SUCCESS) = New []"
| "scheduled_byId st _ = Same"

section \<open>byTeamId\<close>

type_synonym id_lists = "string list obj"

definition team_key :: "string \<Rightarrow> string" where
  "team_key team = (if team = [] then ''directChannels'' else team)"

text \<open>The first team that lists the id loses it, and the loop ends.\<close>

fun drop_from_first_team :: "id_lists \<Rightarrow> string \<Rightarrow> string list \<Rightarrow> id_lists nxt" where
  "drop_from_first_team st i [] = Same"
| "drop_from_first_team st i (team # teams) =
     (case findIndex (\<lambda>j. j = i) (get_or [] st team) of
        Some n \<Rightarrow> New (put team (remove_at n (get_or [] st team)) st)
      | None \<Rightarrow> drop_from_first_team st i teams)"

text \<open>
  A single received post: the old array is spliced in place before the new state copies it, so
  the state the reducer was given changes as well; it is the first component of the result.
  The array of a team that is not in the state is \<open>undefined\<close>, and \<open>findIndex\<close> on it throws.
\<close>

definition team_single_received :: "id_lists \<Rightarrow> string \<Rightarrow> string \<Rightarrow> (id_lists \<times> id_lists) option" where
  "team_single_received st i team =
     (case get st team of
        None \<Rightarrow> None
      | Some ids \<Rightarrow>
          let ids = (case findIndex (\<lambda>j. j = i) ids of None \<Rightarrow> ids | Some n \<Rightarrow> remove_at n ids)
          in Some (put team ids st, put team (ids @ [i]) st))"

fun scheduled_byTeamId :: "id_lists \<Rightarrow> action \<Rightarrow> (id_lists \<times> id_lists nxt) option" where
  "scheduled_byTeamId st (ScheduledPostTypes (SCHEDULED_POSTS_RECEIVED byTeam prune)) =
     Some (st, New (foldl (\<lambda>ns (team, ps). put team (map sp_id ps) ns) st byTeam))"
| "scheduled_byTeamId st (ScheduledPostTypes (SINGLE_SCHEDULED_POST_RECEIVED p team)) =
     map_option (\<lambda>(old, ns). (old, New ns)) (team_single_received st (sp_id p) (team_key team))"
| "scheduled_byTeamId st (ScheduledPostTypes (SCHEDULED_POST_DELETED p)) =
     Some (st, drop_from_first_team st (sp_id p) (obj_keys st))"
| "scheduled_byTeamId st (UserTypes LOGOUT_SUCCESS) = Some (st, New [])"
| "scheduled_byTeamId st _ = Some (st, Same)"

section \<open>errorsByTeamId\<close>

definition error_ids :: "scheduled_post list \<Rightarrow> string list" where
  "error_ids ps = map sp_id (filter (\<lambda>p. sp_error_code p \<noteq> []) ps)"

definition error_single_received :: "id_lists \<Rightarrow> scheduled_post \<Rightarrow> string \<Rightarrow> id_lists nxt" where
  "error_single_received st p team =
     (let newState = (if get st team = None then put team [] st else st);
          alreadyExists = (sp_id p \<in> set (get_or [] newState team) \<and> sp_id p \<noteq> [])
      in if sp_error_code p \<noteq> [] \<and> \<not> alreadyExists
         then New (put team (get_or [] newState team @ [sp_id p]) newState) else Same)"

fun scheduled_errorsByTeamId :: "id_lists \<Rightarrow> action \<Rightarrow> id_lists nxt" where
  "scheduled_errorsByTeamId st (ScheduledPostTypes (SCHEDULED_POSTS_RECEIVED byTeam prune)) =
     New (foldl (\<lambda>ns (team, ps). put team (error_ids ps) ns) st byTeam)"
| "scheduled_errorsByTeamId st (ScheduledPostTypes (SINGLE_SCHEDULED_POST_RECEIVED p team)) =
     error_single_received st p (team_key team)"
| "scheduled_errorsByTeamId st (ScheduledPostTypes (SCHEDULED_POST_DELETED p)) =
     drop_from_first_team st (sp_id p) (obj_keys st)"
| "scheduled_errorsByTeamId st (UserTypes LOGOUT_SUCCESS) = New []"
| "scheduled_errorsByTeamId st _ = Same"

section \<open>byChannelOrThreadId\<close>

definition place :: "scheduled_post \<Rightarrow> string" where
  "place p = (if sp_root_id p \<noteq> [] then sp_root_id p else sp_channel_id p)"

definition list_scheduled :: "id_lists \<Rightarrow> scheduled_post \<Rightarrow> id_lists" where
  "list_scheduled ns p =
     (case get ns (place p) of
        Some ids \<Rightarrow> if sp_id p \<in> set ids then ns else put (place p) (ids @ [sp_id p]) ns
      | None \<Rightarrow> put (place p) [sp_id p] ns)"

text \<open>\<open>if (existingIndex)\<close> is false for index 0 only, so -1 and every later index append.\<close>

definition channel_single_received :: "id_lists \<Rightarrow> scheduled_post \<Rightarrow> id_lists nxt" where
  "channel_single_received st p =
     (case get st (place p) of
        None \<Rightarrow> New (put (place p) [sp_id p] st)
      | Some ids \<Rightarrow>
          if findIndex (\<lambda>j. j = sp_id p) ids = Some 0 then Same
          else New (put (place p) (ids @ [sp_id p]) st))"

text \<open>\<open>splice(-1, 1)\<close>, when the id is not found, removes the last element.\<close>

definition channel_deleted :: "id_lists \<Rightarrow> scheduled_post \<Rightarrow> id_lists nxt" where
  "channel_deleted st p =
     (case get st (place p) of
        None \<Rightarrow> Same
      | Some ids \<Rightarrow>
          New (put (place p)
            (case findIndex (\<lambda>j. j = sp_id p) ids of None \<Rightarrow> butlast ids | Some n \<Rightarrow> remove_at n ids) st))"

fun scheduled_byChannelOrThreadId :: "id_lists \<Rightarrow> action \<Rightarrow> id_lists nxt" where
  "scheduled_byChannelOrThreadId st (ScheduledPostTypes (SCHEDULED_POSTS_RECEIVED byTeam prune)) =
     New (foldl list_scheduled (if prune then [] else st) (all_scheduled byTeam))"
| "scheduled_byChannelOrThreadId st (ScheduledPostTypes (SINGLE_SCHEDULED_POST_RECEIVED p team)) =
     channel_single_received st p"
| "scheduled_byChannelOrThreadId st (ScheduledPostTypes (SCHEDULED_POST_DELETED p)) = channel_deleted st p"
| "scheduled_byChannelOrThreadId st (UserTypes LOGOUT_SUCCESS) = New []"
| "scheduled_byChannelOrThreadId st _ = Same"

section \<open>What holds\<close>

lemma list_scheduled_loop:
  "set (get_or [] (foldl list_scheduled st ps) k) = set (get_or [] st k) \<union> sp_id ` {p \<in> set ps. place p = k} \<and>
   (distinct (get_or [] st k) \<longrightarrow> distinct (get_or [] (foldl list_scheduled st ps) k))"
proof (induction ps arbitrary: st)
  case (Cons p ps)
  have "set (get_or [] (list_scheduled st p) k) = set (get_or [] st k) \<union> (if place p = k then {sp_id p} else {})"
    "distinct (get_or [] st k) \<longrightarrow> distinct (get_or [] (list_scheduled st p) k)"
    by (auto simp: list_scheduled_def get_or_def split: option.splits)
  with Cons [of "list_scheduled st p"] show ?case by auto
qed simp

lemma get_other_put:
  fixes ps :: "scheduled_post list"
  shows "k \<notin> sp_id ` set ps \<Longrightarrow> get (foldl (\<lambda>ns p. put (sp_id p) p ns) ob ps) k = get ob k"
  by (induction ps arbitrary: ob) auto

lemma get_all_put:
  fixes ps :: "scheduled_post list"
  shows "distinct (map sp_id ps) \<Longrightarrow> p \<in> set ps \<Longrightarrow>
    get (foldl (\<lambda>ns p. put (sp_id p) p ns) ob ps) (sp_id p) = Some p"
proof (induction ps arbitrary: ob)
  case (Cons q ps)
  then show ?case using get_other_put [of "sp_id p" ps] by (cases "p = q") auto
qed simp

lemma count_list_once: "distinct xs \<Longrightarrow> x \<in> set xs \<Longrightarrow> count_list xs x = 1"
  by (induction xs) auto

text \<open>
  After the scheduled posts of the teams were received, each channel or thread lists
  exactly what it listed before (nothing, when pruning) and the received posts that belong to
  it, each once; and every received post is found by its id when no two share one.
\<close>

theorem scheduled_posts_received:
  assumes "distinct (get_or [] st k)" and "distinct (map sp_id (all_scheduled byTeam))"
  shows "let a = ScheduledPostTypes (SCHEDULED_POSTS_RECEIVED byTeam prune);
      lists = upd st (scheduled_byChannelOrThreadId st a)
    in distinct (get_or [] lists k) \<and>
       set (get_or [] lists k) = (if prune then {} else set (get_or [] st k)) \<union>
         sp_id ` {p \<in> set (all_scheduled byTeam). place p = k} \<and>
       (\<forall>p \<in> set (all_scheduled byTeam). get (upd posts (scheduled_byId posts a)) (sp_id p) = Some p)"
  using assms get_all_put list_scheduled_loop [of st "all_scheduled byTeam" k]
    list_scheduled_loop [of "[]" "all_scheduled byTeam" k]
  by (simp add: Let_def)

text \<open>
  A single received post is listed by its team, once and last, if the team is known; then
  the array of the previous state loses the post as well. For a team without scheduled posts
  the reducer throws.
\<close>

theorem single_scheduled_post_team:
  assumes "distinct (get_or [] st (team_key team))"
  shows "case scheduled_byTeamId st (ScheduledPostTypes (SINGLE_SCHEDULED_POST_RECEIVED p team)) of
      None \<Rightarrow> get st (team_key team) = None
    | Some (old, n) \<Rightarrow> \<exists>ids. get st (team_key team) = Some ids \<and>
        get (upd st n) (team_key team) = Some (removeAll (sp_id p) ids @ [sp_id p]) \<and>
        get old (team_key team) = Some (removeAll (sp_id p) ids)"
proof (cases "get st (team_key team)")
  case None
  then show ?thesis by (simp add: team_single_received_def)
next
  case (Some ids)
  with assms have "distinct ids" by (simp add: get_or_def)
  then have "(case indexOf ids (sp_id p) of None \<Rightarrow> ids | Some n \<Rightarrow> remove_at n ids) = removeAll (sp_id p) ids"
    by (auto simp: indexOf_None remove_at_indexOf distinct_remove1_removeAll removeAll_id split: option.split)
  with Some show ?thesis by (simp add: team_single_received_def findIndex_indexOf Let_def)
qed

text \<open>
  The index by channel and thread goes wrong twice: a post received again is listed a
  second time unless it is the first one, and deleting a post that is not listed drops the
  last other one.
\<close>

theorem channel_index_faults:
  assumes "get st (place p) = Some ids" and "distinct ids"
  shows "if sp_id p \<in> set ids
    then (let again = get_or [] (upd st (scheduled_byChannelOrThreadId st
              (ScheduledPostTypes (SINGLE_SCHEDULED_POST_RECEIVED p team)))) (place p)
          in if hd ids = sp_id p then again = ids else count_list again (sp_id p) = 2)
    else get_or [] (upd st (scheduled_byChannelOrThreadId st (ScheduledPostTypes (SCHEDULED_POST_DELETED p)))) (place p)
          = butlast ids"
proof (cases "sp_id p \<in> set ids")
  case True
  then have once: "count_list ids (sp_id p) = 1" using assms(2) True by (intro count_list_once)
  from True obtain x xs where ids: "ids = x # xs" by (cases ids) auto
  with True assms(1) once show ?thesis
    by (auto simp: channel_single_received_def get_or_def Let_def)
next
  case False
  then have "indexOf ids (sp_id p) = None" by (simp add: indexOf_None)
  with False assms(1) show ?thesis by (simp add: channel_deleted_def findIndex_indexOf)
qed

section \<open>The theorems at work\<close>

definition scheduled :: "string \<Rightarrow> scheduled_post" where
  "scheduled i = \<lparr>sp_id = i, sp_create_at = 0, sp_update_at = 0, sp_user_id = ''u1'', sp_channel_id = ''ch'',
     sp_root_id = [], sp_message = ''hi'', sp_props = None, sp_file_ids = None, sp_metadata = None,
     sp_priority = None, sp_scheduled_at = 5, sp_processed_at = None, sp_error_code = []\<rparr>"

theorem scheduled_posts_received_witness:
  "set (get_or [] (upd [(''ch'', [''s1''])] (scheduled_byChannelOrThreadId [(''ch'', [''s1''])]
     (ScheduledPostTypes (SCHEDULED_POSTS_RECEIVED [(''t'', [scheduled ''s2''])] False)))) ''ch'') = {''s1'', ''s2''}"
proof -
  let ?byTeam = "[(''t'', [scheduled ''s2''])]"
  have all: "all_scheduled ?byTeam = [scheduled ''s2'']" by (simp add: all_scheduled_def obj_values_def)
  have "{p \<in> set (all_scheduled ?byTeam). place p = ''ch''} = {scheduled ''s2''}"
    unfolding all by (auto simp: place_def scheduled_def)
  then show ?thesis
    using scheduled_posts_received [of "[(''ch'', [''s1''])]" "''ch''" ?byTeam False "[]"]
    by (simp add: all get_or_def Let_def del: scheduled_byChannelOrThreadId.simps) (simp add: scheduled_def insert_commute)
qed

theorem single_scheduled_post_team_witness:
  "\<exists>old n. scheduled_byTeamId [(''t'', [''s1'', ''s2''])]
      (ScheduledPostTypes (SINGLE_SCHEDULED_POST_RECEIVED (scheduled ''s1'') ''t'')) = Some (old, n) \<and>
     get old ''t'' = Some [''s2'']"
proof -
  let ?st = "[(''t'', [''s1'', ''s2''])]"
  let ?a = "ScheduledPostTypes (SINGLE_SCHEDULED_POST_RECEIVED (scheduled ''s1'') ''t'')"
  have "scheduled_byTeamId ?st ?a \<noteq> None" by code_simp
  then obtain old n where r: "scheduled_byTeamId ?st ?a = Some (old, n)" by (metis not_None_eq surj_pair)
  have "distinct (get_or [] ?st (team_key ''t''))" by (simp add: team_key_def get_or_def)
  from single_scheduled_post_team [OF this, of "scheduled ''s1''"] show ?thesis
    unfolding r by (simp add: scheduled_def team_key_def)
qed

theorem channel_index_faults_witness:
  "count_list (get_or [] (upd [(''ch'', [''s1'', ''s2''])] (scheduled_byChannelOrThreadId [(''ch'', [''s1'', ''s2''])]
     (ScheduledPostTypes (SINGLE_SCHEDULED_POST_RECEIVED (scheduled ''s2'') ''t'')))) ''ch'') ''s2'' = 2"
  using channel_index_faults [of "[(''ch'', [''s1'', ''s2''])]" "scheduled ''s2''" "[''s1'', ''s2'']" "''t''"]
  by (simp add: scheduled_def place_def Let_def)

end
