(* ===== verification/Files.thy ===== *)
theory Files
  imports PostThreadsProps
begin

text \<open>
  The file infos, \<open>reducers/entities/files.ts\<close>: the files themselves, the files of each post and
  the files found by search, with what holds of them.
\<close>

type_synonym file_map = "file_info obj"

text \<open>What a permalink embed of the post previews, in the order of the embeds.\<close>

definition previewed_posts :: "post \<Rightarrow> post list" where
  "previewed_posts p =
     concat (map (\<lambda>e. case embed_data e of
         Some (PreviewData pv (Some q)) \<Rightarrow> if embed_type e = ''permalink'' then [q] else []
       | _ \<Rightarrow> []) (post_embeds p))"

definition storeAllFilesForPost :: "('s \<Rightarrow> post \<Rightarrow> 's nxt) \<Rightarrow> 's \<Rightarrow> post \<Rightarrow> 's nxt" where
  "storeAllFilesForPost storeFilesCallback st p = reduce_nxt storeFilesCallback st (previewed_posts p @ [p])"

definition post_files :: "post \<Rightarrow> file_info list option" where
  "post_files p = (case metadata p of None \<Rightarrow> None | Some m \<Rightarrow> m_files (meta_core m))"

text \<open>A file that is in the store already is not replaced.\<close>

definition store_file :: "file_map \<Rightarrow> file_info \<Rightarrow> file_map nxt" where
  "store_file st f = (if get st (f_id f) \<noteq> None then Same else New (put (f_id f) f st))"

definition storeFilesForPost :: "file_map \<Rightarrow> post \<Rightarrow> file_map nxt" where
  "storeFilesForPost st p = (case post_files p of None \<Rightarrow> Same | Some fs \<Rightarrow> reduce_nxt store_file st fs)"

definition storeFilesIdsForPost :: "string list obj \<Rightarrow> post \<Rightarrow> string list obj nxt" where
  "storeFilesIdsForPost st p =
     (case post_files p of None \<Rightarrow> Same | Some fs \<Rightarrow> New (put (post_id p) (map f_id fs) st))"

definition files_received :: "file_map \<Rightarrow> file_info list \<Rightarrow> file_map nxt" where
  "files_received st fs = New (obj_spread st (foldl (\<lambda>filesMap f. put (f_id f) f filesMap) [] fs))"

definition files_of_post_gone :: "file_map \<Rightarrow> post \<Rightarrow> file_map nxt" where
  "files_of_post_gone st p =
     (case p_file_ids (core p) of
        None \<Rightarrow> Same
      | Some ids \<Rightarrow> if ids = [] then Same else New (foldl (\<lambda>ns i. del i ns) st ids))"

fun files :: "file_map \<Rightarrow> action \<Rightarrow> file_map nxt" where
  "files st (FileTypes (RECEIVED_UPLOAD_FILES fs)) = files_received st fs"
| "files st (FileTypes (RECEIVED_FILES_FOR_POST fs i)) = files_received st fs"
| "files st (PostTypes (RECEIVED_NEW_POST p crt)) = storeAllFilesForPost storeFilesForPost st p"
| "files st (PostTypes (RECEIVED_POST p crt)) = storeAllFilesForPost storeFilesForPost st p"
| "files st (PostTypes (RECEIVED_POSTS l ch)) =
     reduce_nxt (storeAllFilesForPost storeFilesForPost) st (obj_values (l_posts l))"
| "files st (PostTypes (POST_DELETED p)) = files_of_post_gone st p"
| "files st (PostTypes (POST_REMOVED p)) = files_of_post_gone st p"
| "files st (FileTypes (REMOVED_FILE ids)) =
     New (case ids of None \<Rightarrow> st | Some is \<Rightarrow> foldl (\<lambda>ns i. del i ns) st is)"
| "files st (FileTypes (RECEIVED_BOOKMARKS fs)) =
     New (foldl (\<lambda>ns f. case f of None \<Rightarrow> ns | Some f \<Rightarrow> put (f_id f) f ns) st fs)"
| "files st (FileTypes (RECEIVED_BOOKMARK f)) = (case f of None \<Rightarrow> Same | Some f \<Rightarrow> New (put (f_id f) f st))"
| "files st (FileTypes (BOOKMARK_DELETED f)) = (case f of None \<Rightarrow> Same | Some f \<Rightarrow> New (del (f_id f) st))"
| "files st (UserTypes LOGOUT_SUCCESS) = New []"
| "files st _ = Same"

fun filesFromSearch :: "file_map \<Rightarrow> action \<Rightarrow> file_map nxt" where
  "filesFromSearch st (FileTypes (RECEIVED_FILES_FOR_SEARCH fs)) = New (obj_spread st fs)"
| "filesFromSearch st (UserTypes LOGOUT_SUCCESS) = New []"
| "filesFromSearch st _ = Same"

fun fileIdsByPostId :: "string list obj \<Rightarrow> action \<Rightarrow> string list obj nxt" where
  "fileIdsByPostId st (FileTypes (RECEIVED_FILES_FOR_POST fs i)) = New (put i (map f_id fs) st)"
| "fileIdsByPostId st (PostTypes (RECEIVED_NEW_POST p crt)) = storeAllFilesForPost storeFilesIdsForPost st p"
| "fileIdsByPostId st (PostTypes (RECEIVED_POST p crt)) = storeAllFilesForPost storeFilesIdsForPost st p"
| "fileIdsByPostId st (PostTypes (RECEIVED_POSTS l ch)) =
     reduce_nxt (storeAllFilesForPost storeFilesIdsForPost) st (obj_values (l_posts l))"
| "fileIdsByPostId st (PostTypes (POST_DELETED p)) = New (del (post_id p) st)"
| "fileIdsByPostId st (PostTypes (POST_REMOVED p)) = New (del (post_id p) st)"
| "fileIdsByPostId st (UserTypes LOGOUT_SUCCESS) = New []"
| "fileIdsByPostId st _ = Same"

fun filePublicLink :: "string \<Rightarrow> action \<Rightarrow> string nxt" where
  "filePublicLink st (FileTypes (RECEIVED_FILE_PUBLIC_LINK s)) = New s"
| "filePublicLink st (UserTypes LOGOUT_SUCCESS) = New []"
| "filePublicLink st _ = Same"

section \<open>What holds\<close>

lemma get_store_file: "get (upd st (store_file st f)) i =
    (if get st i = None \<and> i = f_id f then Some f else get st i)"
  by (auto simp: store_file_def)

text \<open>The first file received with an id wins, and what the store has wins over all.\<close>

lemma get_store_files:
  "get (foldl (\<lambda>s f. upd s (store_file s f)) st fs) i =
     (case get st i of Some g \<Rightarrow> Some g | None \<Rightarrow> find (\<lambda>f. f_id f = i) fs)"
  by (induction fs arbitrary: st) (auto simp: get_store_file split: option.splits)

lemma get_storeFilesForPost:
  "get (upd st (storeFilesForPost st p)) i =
     (case get st i of Some g \<Rightarrow> Some g
      | None \<Rightarrow> find (\<lambda>f. f_id f = i) (case post_files p of None \<Rightarrow> [] | Some fs \<Rightarrow> fs))"
  by (auto simp: storeFilesForPost_def upd_reduce_nxt get_store_files split: option.splits)

lemma get_storeFiles_loop:
  "get (foldl (\<lambda>s p. upd s (storeFilesForPost s p)) st ps) i =
     (case get st i of Some g \<Rightarrow> Some g
      | None \<Rightarrow> find (\<lambda>f. f_id f = i) (concat (map (\<lambda>p. case post_files p of None \<Rightarrow> [] | Some fs \<Rightarrow> fs) ps)))"
proof (induction ps arbitrary: st)
  case (Cons p ps)
  have find_append: "find P (xs @ ys) = (case find P xs of Some x \<Rightarrow> Some x | None \<Rightarrow> find P ys)"
    for P :: "file_info \<Rightarrow> bool" and xs ys
    by (induction xs) auto
  show ?case
    by (simp add: Cons get_storeFilesForPost find_append split: option.split)
qed (simp split: option.split)

text \<open>
  A received post brings its files and those of the posts it previews: what the store
  already has stays as it is, any other file is the first one received under its id, and the
  post's own list of file ids is exactly its files.
\<close>

theorem post_files_received:
  assumes "post_files p = Some fs"
  shows "get (upd st (files st (PostTypes (RECEIVED_POST p crt)))) i =
      (case get st i of Some g \<Rightarrow> Some g
       | None \<Rightarrow> find (\<lambda>f. f_id f = i)
           (concat (map (\<lambda>q. case post_files q of None \<Rightarrow> [] | Some fs \<Rightarrow> fs) (previewed_posts p)) @ fs)) \<and>
    get (upd ids (fileIdsByPostId ids (PostTypes (RECEIVED_POST p crt)))) (post_id p) = Some (map f_id fs)"
proof -
  have "get (foldl (\<lambda>s q. upd s (storeFilesIdsForPost s q)) ids (previewed_posts p @ [p])) (post_id p)
      = Some (map f_id fs)"
    using assms by (simp add: storeFilesIdsForPost_def)
  then show ?thesis
    using assms get_storeFiles_loop [of st "previewed_posts p @ [p]" i]
    by (simp add: storeAllFilesForPost_def upd_reduce_nxt del: foldl_append cong: option.case_cong)
qed

text \<open>
  Receiving a post that previews no other and then removing it takes its files out of the
  store again, those that were known before included, and leaves every other file as it was.
\<close>

theorem post_files_removed:
  assumes "post_files p = Some fs" and "previewed_posts p = []"
    and "p_file_ids (core p) = Some (map f_id fs)" and "fs \<noteq> []"
  shows "let st' = upd st (files st (PostTypes (RECEIVED_POST p crt)))
    in get (upd st' (files st' (PostTypes (POST_REMOVED p)))) i =
       (if i \<in> f_id ` set fs then None else get st i)"
proof -
  have none: "i \<notin> f_id ` set fs \<Longrightarrow> find (\<lambda>f. f_id f = i) fs = None"
    by (auto simp: find_None_iff)
  have gone: "get (foldl (\<lambda>ns i. del i ns) ob is) i = (if i \<in> set is then None else get ob i)" for ob :: file_map and "is"
    using get_foldl_del [of "\<lambda>i. i" ob "is" i] by simp
  show ?thesis
    using assms none get_storeFiles_loop [of st "[p]" i]
    by (auto simp: storeAllFilesForPost_def upd_reduce_nxt files_of_post_gone_def gone Let_def
        simp del: reduce_nxt.simps split: option.splits)
qed

section \<open>The theorems at work\<close>

definition sample_file :: "string \<Rightarrow> file_info" where
  "sample_file i = \<lparr>f_id = i, f_user_id = [], f_channel_id = [], f_create_at = 0, f_update_at = 0,
     f_delete_at = 0, f_name = [], f_extension = [], f_size = 0, f_mime_type = [], f_width = 0, f_height = 0,
     f_has_preview_image = False, f_clientId = [], f_post_id = None, f_mini_preview = None,
     f_archived = False, f_link = None\<rparr>"

definition post_with_file :: post where
  "post_with_file = upd_core (p_file_ids_update (\<lambda>_. Some [''f1''])) (set_metadata (Some (PostMetadata
     (no_metadata_core\<lparr>m_files := Some [sample_file ''f1'']\<rparr>) None)) (sample ''p1'' ''ch'' [] 5))"

lemma post_with_file_files: "post_files post_with_file = Some [sample_file ''f1'']"
  "previewed_posts post_with_file = []" "p_file_ids (core post_with_file) = Some [''f1'']"
  by (simp_all add: post_files_def previewed_posts_def post_embeds_def post_with_file_def)

theorem post_files_received_witness:
  "get (upd [] (files [] (PostTypes (RECEIVED_POST post_with_file False)))) ''f1'' = Some (sample_file ''f1'')"
  using post_files_received [OF post_with_file_files(1), of "[]" False "''f1''" "[]"]
  by (simp add: post_with_file_files sample_file_def)

theorem post_files_removed_witness:
  "get (let st' = upd [] (files [] (PostTypes (RECEIVED_POST post_with_file False)))
     in upd st' (files st' (PostTypes (POST_REMOVED post_with_file)))) ''f1'' = None"
  using post_files_removed [OF post_with_file_files(1,2), of "[]" False "''f1''"]
  by (simp add: post_with_file_files sample_file_def Let_def)

end
