(* ===== verification/WebSocket.thy ===== *)
theory WebSocket
  imports NumberStrings
begin

text \<open>
  \<open>src/webapp/platform/client/src/websocket.ts\<close>: the client's end of the event stream. It opens a
  socket, answers when the socket opens, closes, fails or brings a message, pings it, and opens
  the next one after a pause. Every handler is a function from the client to the client and the
  list of what it does to the outside (\<open>effect\<close>), in that order; \<open>react\<close> runs the handler of an
  event.

  The browser's \<open>WebSocket\<close> is the socket the client holds and its \<open>readyState\<close>: it opens only
  while it is connecting, and brings messages only while it is open. A socket the code lets go of
  has its \<open>onclose\<close> replaced before, so it plays no further part. Listeners and callbacks are
  numbers (a function is compared by identity only); what a listener calls on the client is a
  further event. Delays are whole milliseconds, as timers take them: \<open>jitter\<close> is
  \<open>Math.random() * reconnectJitterRange\<close> of that run.
\<close>

section \<open>The state\<close>

record ws_config =
  maxWebSocketFails :: int
  minWebSocketRetryTime :: int
  maxWebSocketRetryTime :: int
  reconnectJitterRange :: int
  clientPingInterval :: int

definition defaultWebSocketClientConfig :: ws_config where
  "defaultWebSocketClientConfig = \<lparr>maxWebSocketFails = 7, minWebSocketRetryTime = 3000,
     maxWebSocketRetryTime = 300000, reconnectJitterRange = 2000, clientPingInterval = 30000\<rparr>"

definition WEBSOCKET_HELLO :: string where "WEBSOCKET_HELLO = ''hello''"
definition clientPingTimeoutErrCode :: int where "clientPingTimeoutErrCode = 4000"
definition clientSequenceMismatchErrCode :: int where "clientSequenceMismatchErrCode = 4001"

datatype ready_state = CONNECTING | OPEN | CLOSING

text \<open>The socket, with the arguments of \<open>initialize\<close> its handlers close over.\<close>

record socket =
  so_ready :: ready_state
  so_url :: string
  so_token :: "string option"

record reconnect_timer =
  rt_delay :: int
  rt_url :: string
  rt_token :: "string option"

text \<open>The \<open>data\<close> of the requests the client can send; a ping has none.\<close>

datatype request_data =
    NoData
  | Token string
  | TypingIn string string
  | ActiveChannel string
  | ActiveTeam string
  | ActiveThread bool string
  | ActiveStatus bool bool
  | PostedAck string string string "string option" "string option"
  | NullData
  | UserIds "string list"

record request =
  q_action :: string
  q_seq :: int
  q_data :: request_data

text \<open>\<open>seq_reply\<close> is 0 when absent; the last two fields are \<open>data\<close> of a hello message.\<close>

record server_message =
  w_seq_reply :: int
  w_event :: string
  w_seq :: "int option"
  w_connection_id :: string
  w_server_hostname :: string

text \<open>The callback of a ping, and those of the callers.\<close>

datatype callback = GotPong | Caller nat

record client =
  config :: ws_config
  conn :: "socket option"
  responseSequence :: int
  serverSequence :: int
  connectFailCount :: int
  responseCallbacks :: "(int \<times> callback) list"
  lastErrCode :: "string option"
  eventCallback :: "nat option"
  firstConnectCallback :: "nat option"
  reconnectCallback :: "nat option"
  missedEventCallback :: "nat option"
  errorCallback :: "nat option"
  closeCallback :: "nat option"
  messageListeners :: "nat list"
  firstConnectListeners :: "nat list"
  reconnectListeners :: "nat list"
  missedMessageListeners :: "nat list"
  errorListeners :: "nat list"
  closeListeners :: "nat list"
  connectionId :: string
  serverHostname :: string
  postedAck :: bool
  pingInterval :: "(string \<times> string option) option"
  waitingForPong :: bool
  reconnectTimeout :: "reconnect_timer option"
  onlineHandler :: "(string \<times> string option) option"
  offlineHandler :: bool

definition new_client :: "ws_config \<Rightarrow> client" where
  "new_client cfg = \<lparr>config = cfg, conn = None, responseSequence = 1, serverSequence = 0,
     connectFailCount = 0, responseCallbacks = [], lastErrCode = None, eventCallback = None,
     firstConnectCallback = None, reconnectCallback = None, missedEventCallback = None,
     errorCallback = None, closeCallback = None, messageListeners = [], firstConnectListeners = [],
     reconnectListeners = [], missedMessageListeners = [], errorListeners = [], closeListeners = [],
     connectionId = [], serverHostname = [], postedAck = False, pingInterval = None,
     waitingForPong = False, reconnectTimeout = None, onlineHandler = None, offlineHandler = False\<rparr>"

text \<open>What happens outside: a notification names the listeners called, in the order of the calls.\<close>

datatype effect =
    Connects string
  | Sends request
  | Closes
  | Delivers "nat list" server_message
  | FirstConnected "nat list"
  | Reconnected "nat list"
  | MissedEvents "nat list"
  | Failed "nat list"
  | Closed "nat list" int
  | Replies nat server_message
  | ManyListeners nat

definition called :: "nat option \<Rightarrow> nat list \<Rightarrow> nat list" where
  "called cb listeners = (case cb of None \<Rightarrow> [] | Some l \<Rightarrow> [l]) @ listeners"

definition is_open :: "client \<Rightarrow> bool" where
  "is_open c \<longleftrightarrow> (case conn c of None \<Rightarrow> False | Some k \<Rightarrow> so_ready k = OPEN)"

section \<open>Requests\<close>

definition post_request :: "string \<Rightarrow> request_data \<Rightarrow> callback option \<Rightarrow> client \<Rightarrow> client \<times> effect list" where
  "post_request action d cb c =
     (let msg = \<lparr>q_action = action, q_seq = responseSequence c, q_data = d\<rparr>;
          c' = c\<lparr>responseSequence := responseSequence c + 1\<rparr>;
          c' = (case cb of None \<Rightarrow> c'
                | Some f \<Rightarrow> c'\<lparr>responseCallbacks := AList.update (q_seq msg) f (responseCallbacks c')\<rparr>)
      in (c', if is_open c' then [Sends msg] else []))"

definition sendMessage :: "string \<Rightarrow> request_data \<Rightarrow> nat option \<Rightarrow> client \<Rightarrow> client \<times> effect list" where
  "sendMessage action d cb = post_request action d (map_option Caller cb)"

definition ping :: "client \<Rightarrow> client \<times> effect list" where
  "ping = post_request ''ping'' NoData (Some GotPong)"

definition userTyping :: "string \<Rightarrow> string \<Rightarrow> nat option \<Rightarrow> client \<Rightarrow> client \<times> effect list" where
  "userTyping channelId parentId = sendMessage ''user_typing'' (TypingIn channelId parentId)"

definition updateActiveChannel :: "string \<Rightarrow> nat option \<Rightarrow> client \<Rightarrow> client \<times> effect list" where
  "updateActiveChannel channelId = sendMessage ''presence'' (ActiveChannel channelId)"

definition updateActiveTeam :: "string \<Rightarrow> nat option \<Rightarrow> client \<Rightarrow> client \<times> effect list" where
  "updateActiveTeam teamId = sendMessage ''presence'' (ActiveTeam teamId)"

definition updateActiveThread :: "bool \<Rightarrow> string \<Rightarrow> nat option \<Rightarrow> client \<Rightarrow> client \<times> effect list" where
  "updateActiveThread isThreadView channelId = sendMessage ''presence'' (ActiveThread isThreadView channelId)"

definition userUpdateActiveStatus :: "bool \<Rightarrow> bool \<Rightarrow> nat option \<Rightarrow> client \<Rightarrow> client \<times> effect list" where
  "userUpdateActiveStatus userIsActive manual =
     sendMessage ''user_update_active_status'' (ActiveStatus userIsActive manual)"

definition acknowledgePostedNotification ::
  "string \<Rightarrow> string \<Rightarrow> string \<Rightarrow> string option \<Rightarrow> string option \<Rightarrow> client \<Rightarrow> client \<times> effect list" where
  "acknowledgePostedNotification userAgent postId status reason postedData =
     sendMessage ''posted_notify_ack'' (PostedAck postId userAgent status reason postedData) None"

definition getStatuses :: "nat option \<Rightarrow> client \<Rightarrow> client \<times> effect list" where
  "getStatuses = sendMessage ''get_statuses'' NullData"

definition getStatusesByIds :: "string list \<Rightarrow> nat option \<Rightarrow> client \<Rightarrow> client \<times> effect list" where
  "getStatusesByIds userIds = sendMessage ''get_statuses_by_ids'' (UserIds userIds)"

section \<open>Connecting\<close>

definition stopPingInterval :: "client \<Rightarrow> client" where
  "stopPingInterval c = c\<lparr>pingInterval := None\<rparr>"

definition clearReconnectTimeout :: "client \<Rightarrow> client" where
  "clearReconnectTimeout c = c\<lparr>reconnectTimeout := None\<rparr>"

text \<open>\<open>encodeURIComponent\<close> leaves digits alone, and an error code is printed as digits.\<close>

definition websocketUrl :: "string \<Rightarrow> client \<Rightarrow> string" where
  "websocketUrl connectionUrl c =
     connectionUrl @ ''?connection_id='' @ connectionId c @ ''&sequence_number='' @ show_int (serverSequence c) @
     (if postedAck c then ''&posted_ack=true'' else []) @
     (case lastErrCode c of None \<Rightarrow> [] | Some e \<Rightarrow> ''&disconnect_err_code='' @ e)"

definition initialize :: "string option \<Rightarrow> string option \<Rightarrow> bool option \<Rightarrow> client \<Rightarrow> client \<times> effect list" where
  "initialize connectionUrl token ack c =
     (if conn c \<noteq> None then (c, [])
      else if reconnectTimeout c \<noteq> None then (c, [])
      else case connectionUrl of
        None \<Rightarrow> (c, [])
      | Some url \<Rightarrow>
          let c = (case ack of None \<Rightarrow> c | Some b \<Rightarrow> c\<lparr>postedAck := b\<rparr>);
              c = c\<lparr>onlineHandler := Some (url, token), offlineHandler := True\<rparr>
          in (c\<lparr>conn := Some \<lparr>so_ready = CONNECTING, so_url = url, so_token = token\<rparr>\<rparr>,
              [Connects (websocketUrl url c)]))"

text \<open>The callback of the timer that \<open>onclose\<close> and the online handler set\<close>

definition reconnect_due :: "client \<Rightarrow> client \<times> effect list" where
  "reconnect_due c =
     (case reconnectTimeout c of
        None \<Rightarrow> (c, [])
      | Some t \<Rightarrow>
          initialize (Some (rt_url t)) (rt_token t) (Some (postedAck c)) (c\<lparr>reconnectTimeout := None\<rparr>))"

definition online :: "client \<Rightarrow> client \<times> effect list" where
  "online c =
     (case onlineHandler c of
        None \<Rightarrow> (c, [])
      | Some (url, token) \<Rightarrow>
          if is_open c then (c, [])
          else ((clearReconnectTimeout c)\<lparr>reconnectTimeout :=
                  Some \<lparr>rt_delay = minWebSocketRetryTime (config c), rt_url = url, rt_token = token\<rparr>\<rparr>, []))"

definition offline :: "client \<Rightarrow> client \<times> effect list" where
  "offline c =
     (if \<not> offlineHandler c then (c, [])
      else if conn c \<noteq> None \<and> \<not> is_open c then (c, [])
      else ping (c\<lparr>waitingForPong := True\<rparr>))"

section \<open>The handlers of the socket\<close>

definition retry_time :: "ws_config \<Rightarrow> int \<Rightarrow> int" where
  "retry_time cfg failCount =
     (let retryTime = minWebSocketRetryTime cfg
      in if failCount > maxWebSocketFails cfg
         then let retryTime = retryTime * failCount * failCount
              in if retryTime > maxWebSocketRetryTime cfg then maxWebSocketRetryTime cfg else retryTime
         else retryTime)"

definition onclose :: "string \<Rightarrow> string option \<Rightarrow> int \<Rightarrow> int \<Rightarrow> client \<Rightarrow> client \<times> effect list" where
  "onclose url token code jitter c =
     (let c = c\<lparr>conn := None, responseSequence := 1\<rparr>;
          c = (if lastErrCode c = None \<and> code \<noteq> 0 then c\<lparr>lastErrCode := Some (show_int code)\<rparr> else c);
          c = c\<lparr>connectFailCount := connectFailCount c + 1\<rparr>;
          notes = [Closed (called (closeCallback c) (closeListeners c)) (connectFailCount c)];
          c = stopPingInterval c;
          retryTime = retry_time (config c) (connectFailCount c) + jitter
      in (if reconnectTimeout c \<noteq> None then c
          else c\<lparr>reconnectTimeout := Some \<lparr>rt_delay = retryTime, rt_url = url, rt_token = token\<rparr>\<rparr>, notes))"

definition onopen :: "string \<Rightarrow> string option \<Rightarrow> client \<Rightarrow> client \<times> effect list" where
  "onopen url token c =
     (let (c, auth) = (case token of None \<Rightarrow> (c, [])
                       | Some t \<Rightarrow> if t = [] then (c, [])
                           else sendMessage ''authentication_challenge'' (Token t) None c);
          c = c\<lparr>lastErrCode := None\<rparr>;
          notes = (if connectFailCount c > 0
                   then [Reconnected (called (reconnectCallback c) (reconnectListeners c))]
                   else if firstConnectCallback c \<noteq> None \<or> length (firstConnectListeners c) > 0
                   then [FirstConnected (called (firstConnectCallback c) (firstConnectListeners c))]
                   else []);
          c = stopPingInterval c;
          (c, pings) = ping (c\<lparr>waitingForPong := True\<rparr>);
          c = c\<lparr>pingInterval := Some (url, token)\<rparr>
      in (c\<lparr>connectFailCount := 0\<rparr>, auth @ notes @ pings))"

text \<open>The client closes the socket itself: \<open>onclose\<close> runs at once.\<close>

definition give_up :: "string \<Rightarrow> string option \<Rightarrow> int \<Rightarrow> int \<Rightarrow> client \<Rightarrow> client \<times> effect list" where
  "give_up url token code jitter c =
     (let (c, notes) = onclose url token code jitter (c\<lparr>connectFailCount := 0, responseSequence := 1\<rparr>)
      in (c, Closes # notes))"

text \<open>The callback of the interval \<open>onopen\<close> sets\<close>

definition ping_due :: "int \<Rightarrow> client \<Rightarrow> client \<times> effect list" where
  "ping_due jitter c =
     (case pingInterval c of
        None \<Rightarrow> (c, [])
      | Some (url, token) \<Rightarrow>
          if \<not> waitingForPong c then ping (c\<lparr>waitingForPong := True\<rparr>)
          else let c = stopPingInterval c
               in if \<not> is_open c then (c, [])
                  else give_up url token clientPingTimeoutErrCode jitter c)"

definition onerror :: "client \<Rightarrow> client \<times> effect list" where
  "onerror c = (c, [Failed (called (errorCallback c) (errorListeners c))])"

definition on_reply :: "server_message \<Rightarrow> client \<Rightarrow> client \<times> effect list" where
  "on_reply msg c =
     (case map_of (responseCallbacks c) (w_seq_reply msg) of
        None \<Rightarrow> (c, [])
      | Some f \<Rightarrow>
          let c' = c\<lparr>responseCallbacks := AList.delete (w_seq_reply msg) (responseCallbacks c)\<rparr>
          in (case f of GotPong \<Rightarrow> (c'\<lparr>waitingForPong := False\<rparr>, [])
              | Caller l \<Rightarrow> (c', [Replies l msg])))"

definition on_hello :: "server_message \<Rightarrow> client \<Rightarrow> client \<times> effect list" where
  "on_hello msg c =
     (if w_event msg = WEBSOCKET_HELLO \<and>
         (missedEventCallback c \<noteq> None \<or> length (missedMessageListeners c) > 0)
      then
        let lost = (connectionId c \<noteq> [] \<and> connectionId c \<noteq> w_connection_id msg);
            c' = (if lost then c\<lparr>serverSequence := 0\<rparr> else c)
        in (c'\<lparr>connectionId := w_connection_id msg, serverHostname := w_server_hostname msg\<rparr>,
            if lost then [MissedEvents (called (missedEventCallback c) (missedMessageListeners c))] else [])
      else (c, []))"

definition mismatch :: "string \<Rightarrow> string option \<Rightarrow> int \<Rightarrow> client \<Rightarrow> client \<times> effect list" where
  "mismatch url token jitter c =
     (if conn c = None then (c\<lparr>connectFailCount := 0, responseSequence := 1\<rparr>, [])
      else give_up url token clientSequenceMismatchErrCode jitter c)"

definition onmessage :: "string \<Rightarrow> string option \<Rightarrow> server_message \<Rightarrow> int \<Rightarrow> client \<Rightarrow> client \<times> effect list" where
  "onmessage url token msg jitter c =
     (if w_seq_reply msg \<noteq> 0 then on_reply msg c
      else if eventCallback c \<noteq> None \<or> length (messageListeners c) > 0 then
        let (c, notes) = on_hello msg c
        in (case w_seq msg of
              Some n \<Rightarrow>
                if n = serverSequence c
                then (c\<lparr>serverSequence := n + 1\<rparr>,
                      notes @ [Delivers (called (eventCallback c) (messageListeners c)) msg])
                else apsnd ((@) notes) (mismatch url token jitter c)
            | None \<Rightarrow> apsnd ((@) notes) (mismatch url token jitter c))
      else (c, []))"

definition close :: "client \<Rightarrow> client \<times> effect list" where
  "close c =
     (let c = c\<lparr>connectFailCount := 0, responseSequence := 1\<rparr>;
          c = clearReconnectTimeout c;
          c = stopPingInterval (c\<lparr>lastErrCode := None\<rparr>);
          (c, out) = (if is_open c then (c\<lparr>conn := None\<rparr>, [Closes]) else (c, []))
      in (c\<lparr>onlineHandler := None, offlineHandler := False\<rparr>, out))"

section \<open>Listeners\<close>

datatype listener_kind = OnMessage | OnFirstConnect | OnReconnect | OnMissed | OnError | OnClose

fun set_callback :: "listener_kind \<Rightarrow> nat \<Rightarrow> client \<Rightarrow> client" where
  "set_callback OnMessage l c = c\<lparr>eventCallback := Some l\<rparr>"
| "set_callback OnFirstConnect l c = c\<lparr>firstConnectCallback := Some l\<rparr>"
| "set_callback OnReconnect l c = c\<lparr>reconnectCallback := Some l\<rparr>"
| "set_callback OnMissed l c = c\<lparr>missedEventCallback := Some l\<rparr>"
| "set_callback OnError l c = c\<lparr>errorCallback := Some l\<rparr>"
| "set_callback OnClose l c = c\<lparr>closeCallback := Some l\<rparr>"

fun listeners :: "listener_kind \<Rightarrow> client \<Rightarrow> nat list" where
  "listeners OnMessage c = messageListeners c"
| "listeners OnFirstConnect c = firstConnectListeners c"
| "listeners OnReconnect c = reconnectListeners c"
| "listeners OnMissed c = missedMessageListeners c"
| "listeners OnError c = errorListeners c"
| "listeners OnClose c = closeListeners c"

fun set_listeners :: "listener_kind \<Rightarrow> nat list \<Rightarrow> client \<Rightarrow> client" where
  "set_listeners OnMessage ls c = c\<lparr>messageListeners := ls\<rparr>"
| "set_listeners OnFirstConnect ls c = c\<lparr>firstConnectListeners := ls\<rparr>"
| "set_listeners OnReconnect ls c = c\<lparr>reconnectListeners := ls\<rparr>"
| "set_listeners OnMissed ls c = c\<lparr>missedMessageListeners := ls\<rparr>"
| "set_listeners OnError ls c = c\<lparr>errorListeners := ls\<rparr>"
| "set_listeners OnClose ls c = c\<lparr>closeListeners := ls\<rparr>"

definition add_listener :: "listener_kind \<Rightarrow> nat \<Rightarrow> client \<Rightarrow> client \<times> effect list" where
  "add_listener kind l c =
     (let ls = set_add l (listeners kind c)
      in (set_listeners kind ls c, if length ls > 5 then [ManyListeners (length ls)] else []))"

definition remove_listener :: "listener_kind \<Rightarrow> nat \<Rightarrow> client \<Rightarrow> client" where
  "remove_listener kind l c = set_listeners kind (filter (\<lambda>l'. l' \<noteq> l) (listeners kind c)) c"

section \<open>Events\<close>

text \<open>
  What can happen to a client: calls of its methods, and what the browser, the network and the
  timers do. An event that cannot happen in a state changes nothing.
\<close>

datatype ws_event =
    Initialize "string option" "string option" "bool option"
  | Request string request_data "nat option"
  | SetCallback listener_kind nat
  | AddListener listener_kind nat
  | RemoveListener listener_kind nat
  | CloseManually
  | SocketOpens
  | SocketSays server_message int
  | SocketErrs
  | SocketClosing
  | SocketCloses int int
  | PingDue int
  | ReconnectDue
  | GoesOnline
  | GoesOffline

fun react :: "client \<Rightarrow> ws_event \<Rightarrow> client \<times> effect list" where
  "react c (Initialize url token ack) = initialize url token ack c"
| "react c (Request action d cb) = sendMessage action d cb c"
| "react c (SetCallback kind l) = (set_callback kind l c, [])"
| "react c (AddListener kind l) = add_listener kind l c"
| "react c (RemoveListener kind l) = (remove_listener kind l c, [])"
| "react c CloseManually = close c"
| "react c SocketOpens =
     (case conn c of
        None \<Rightarrow> (c, [])
      | Some k \<Rightarrow> if so_ready k \<noteq> CONNECTING then (c, [])
          else onopen (so_url k) (so_token k) (c\<lparr>conn := Some (k\<lparr>so_ready := OPEN\<rparr>)\<rparr>))"
| "react c (SocketSays msg jitter) =
     (case conn c of
        None \<Rightarrow> (c, [])
      | Some k \<Rightarrow> if so_ready k \<noteq> OPEN then (c, []) else onmessage (so_url k) (so_token k) msg jitter c)"
| "react c SocketErrs = (case conn c of None \<Rightarrow> (c, []) | Some k \<Rightarrow> onerror c)"
| "react c SocketClosing =
     (case conn c of
        None \<Rightarrow> (c, [])
      | Some k \<Rightarrow> if so_ready k \<noteq> OPEN then (c, []) else (c\<lparr>conn := Some (k\<lparr>so_ready := CLOSING\<rparr>)\<rparr>, []))"
| "react c (SocketCloses code jitter) =
     (case conn c of None \<Rightarrow> (c, []) | Some k \<Rightarrow> onclose (so_url k) (so_token k) code jitter c)"
| "react c (PingDue jitter) = ping_due jitter c"
| "react c ReconnectDue = reconnect_due c"
| "react c GoesOnline = online c"
| "react c GoesOffline = offline c"

end
