(* ===== verification/WebSocketProps.thy ===== *)
theory WebSocketProps
  imports WebSocket "HOL-Library.Sublist"
begin

text \<open>
  What the client of the event stream guarantees: the listeners get the server's events in
  order and without a gap, a lost connection is resumed where it broke, a client that is not
  closed keeps a connection or the timer of the next attempt, and the pauses stay in bounds.
\<close>

section \<open>The stream of events\<close>

text \<open>
  The abstract stream: \<open>n\<close> is the number of the next event. Events are delivered in order, a
  connection asks to go on with event \<open>n\<close>, and only a client that was told it missed events starts
  from 0 again.
\<close>

fun stream :: "int \<Rightarrow> effect list \<Rightarrow> int option" where
  "stream n [] = Some n"
| "stream n (Delivers ls m # es) = (if w_seq m = Some n then stream (n + 1) es else None)"
| "stream n (MissedEvents ls # es) = stream 0 es"
| "stream n (Connects url # es) =
     (if sublist (''&sequence_number='' @ show_int n) url then stream n es else None)"
| "stream n (e # es) = stream n es"

lemma stream_append: "stream n (xs @ ys) = Option.bind (stream n xs) (\<lambda>n'. stream n' ys)"
  by (induction n xs rule: stream.induct) auto

lemma websocketUrl_resumes: "sublist (''&sequence_number='' @ show_int (serverSequence c)) (websocketUrl url c)"
  unfolding websocketUrl_def sublist_def by (metis append.assoc)

definition goes_on :: "client \<Rightarrow> client \<times> effect list \<Rightarrow> bool" where
  "goes_on c r \<longleftrightarrow> stream (serverSequence c) (snd r) = Some (serverSequence (fst r))"

lemma goes_on_post_request: "goes_on c (post_request action d cb c)"
  by (simp add: goes_on_def post_request_def Let_def split: option.split)

lemma goes_on_initialize: "goes_on c (initialize url token ack c)"
proof -
  have "serverSequence c' = serverSequence c \<Longrightarrow>
      sublist (''&sequence_number='' @ show_int (serverSequence c)) (websocketUrl u c')" for c' u
    using websocketUrl_resumes [of c' u] by simp
  then show ?thesis
    by (auto simp: goes_on_def initialize_def Let_def split: option.split)
qed

lemma serverSequence_simps [simp]:
  "serverSequence (stopPingInterval c) = serverSequence c"
  "serverSequence (clearReconnectTimeout c) = serverSequence c"
  "serverSequence (set_callback kind l c) = serverSequence c"
  "serverSequence (set_listeners kind ls c) = serverSequence c"
  by (simp add: stopPingInterval_def clearReconnectTimeout_def, simp add: clearReconnectTimeout_def)
    (cases kind; simp)+

lemma goes_on_onclose: "goes_on c (onclose url token code jitter c)"
  by (simp add: goes_on_def onclose_def Let_def)

lemma goes_on_mismatch: "goes_on c (mismatch url token jitter c)"
  by (simp add: goes_on_def mismatch_def give_up_def onclose_def Let_def split_beta)

lemma goes_on_hello: "goes_on c (on_hello msg c)"
  by (simp add: goes_on_def on_hello_def Let_def)

lemma goes_on_onmessage: "goes_on c (onmessage url token msg jitter c)"
proof -
  have reply: "goes_on c (on_reply msg c)"
    by (simp add: goes_on_def on_reply_def Let_def split: option.split callback.split)
  obtain c' told where hello: "on_hello msg c = (c', told)" by fastforce
  then have "stream (serverSequence c) told = Some (serverSequence c')"
    using goes_on_hello [of c msg] by (simp add: goes_on_def)
  moreover have "stream (serverSequence c') (snd (mismatch url token jitter c'))
      = Some (serverSequence (fst (mismatch url token jitter c')))"
    using goes_on_mismatch by (simp add: goes_on_def)
  ultimately show ?thesis
    using reply
    by (auto simp: goes_on_def onmessage_def hello stream_append Let_def split: option.split)
qed

lemma goes_on_onopen: "goes_on c (onopen url token c)"
proof -
  have "stream n (snd (post_request action d cb c')) = Some n"
      "serverSequence (fst (post_request action d cb c')) = serverSequence c'" for n action d cb c'
    by (simp_all add: post_request_def Let_def split: option.split)
  then show ?thesis
    by (auto simp: goes_on_def onopen_def sendMessage_def ping_def stream_append split_beta Let_def
        split: option.split)
qed

lemma react_goes_on: "goes_on c (react c e)"
proof (cases e)
  case SocketOpens
  show ?thesis
  proof (cases "conn c")
    case (Some k)
    then show ?thesis
      using SocketOpens goes_on_onopen [of "c\<lparr>conn := Some (k\<lparr>so_ready := OPEN\<rparr>)\<rparr>" "so_url k" "so_token k"]
      by (auto simp: goes_on_def)
  qed (simp add: goes_on_def SocketOpens)
next
  case (PingDue jitter)
  have "stream (serverSequence c) (snd (give_up url token code jitter (stopPingInterval c))) =
      Some (serverSequence (fst (give_up url token code jitter (stopPingInterval c))))" for url token code
    by (simp add: give_up_def onclose_def Let_def split_beta)
  then show ?thesis
    using PingDue goes_on_post_request [of "c\<lparr>waitingForPong := True\<rparr>"]
    by (auto simp: goes_on_def ping_due_def ping_def Let_def split: option.split)
next
  case ReconnectDue
  then show ?thesis
    using goes_on_initialize [of "c\<lparr>reconnectTimeout := None\<rparr>"]
    by (auto simp: goes_on_def reconnect_due_def split: option.split)
next
  case GoesOffline
  then show ?thesis
    using goes_on_post_request [of "c\<lparr>waitingForPong := True\<rparr>"]
    by (auto simp: goes_on_def offline_def ping_def)
qed (use goes_on_post_request goes_on_initialize goes_on_onclose goes_on_onmessage in
    \<open>auto simp: goes_on_def sendMessage_def add_listener_def remove_listener_def close_def onerror_def
      online_def Let_def split: option.split\<close>)

interpretation event_stream: trace_refinement react stream serverSequence
proof unfold_locales
  show "stream (serverSequence c) (snd (react c e)) = Some (serverSequence (fst (react c e)))" for c e
    using react_goes_on by (simp add: goes_on_def)
qed (simp_all add: stream_append)

text \<open>
  C4. Whatever happens to the client, in any order, its listeners get the events of the server
  numbered one after the other: none twice, none out of order, none left out, except that after
  telling that events were missed it starts again from 0. Every connection it opens asks to go on
  with the very next number.
\<close>

theorem events_in_order:
  "stream (serverSequence c) (snd (run react c es)) = Some (serverSequence (fst (run react c es)))"
  by (rule event_stream.run_refines)

section \<open>Pauses between attempts\<close>

lemma retry_time_bounds:
  assumes "0 < minWebSocketRetryTime cfg" and "minWebSocketRetryTime cfg \<le> maxWebSocketRetryTime cfg"
    and "0 \<le> maxWebSocketFails cfg" and "0 \<le> n"
  shows "minWebSocketRetryTime cfg \<le> retry_time cfg n" and "retry_time cfg n \<le> maxWebSocketRetryTime cfg"
proof -
  have "minWebSocketRetryTime cfg * 1 * 1 \<le> minWebSocketRetryTime cfg * n * n" if "0 < n"
    using that assms(1) by (intro mult_mono) auto
  with assms show "minWebSocketRetryTime cfg \<le> retry_time cfg n"
    by (auto simp: retry_time_def Let_def)
  show "retry_time cfg n \<le> maxWebSocketRetryTime cfg"
    using assms by (auto simp: retry_time_def Let_def)
qed

text \<open>
  The pause before an attempt, random part aside, is the shortest one for the first failures,
  never shrinks as failures go on, never leaves its bounds, and is the longest one in the end.
\<close>

theorem retry_time_backs_off:
  assumes "0 < minWebSocketRetryTime cfg" and "minWebSocketRetryTime cfg \<le> maxWebSocketRetryTime cfg"
    and "0 \<le> maxWebSocketFails cfg" and "0 \<le> n"
  shows "minWebSocketRetryTime cfg \<le> retry_time cfg n \<and> retry_time cfg n \<le> maxWebSocketRetryTime cfg \<and>
    (n \<le> maxWebSocketFails cfg \<longrightarrow> retry_time cfg n = minWebSocketRetryTime cfg) \<and>
    (n \<le> m \<longrightarrow> retry_time cfg n \<le> retry_time cfg m) \<and>
    (maxWebSocketFails cfg + maxWebSocketRetryTime cfg < m \<longrightarrow> retry_time cfg m = maxWebSocketRetryTime cfg)"
proof -
  let ?t = "minWebSocketRetryTime cfg"
  define f where "f i = ?t * i * i" for i :: int
  have eq: "retry_time cfg i = (if maxWebSocketFails cfg < i then min (f i) (maxWebSocketRetryTime cfg) else ?t)" for i
    by (simp add: retry_time_def Let_def f_def)
  have grows: "f i \<le> f j" if "0 \<le> i" "i \<le> j" for i j
    unfolding f_def using that assms(1) by (intro mult_mono) auto
  have most: "maxWebSocketRetryTime cfg \<le> f i" if "maxWebSocketRetryTime cfg \<le> i" for i
  proof -
    have "0 < i" using that assms(1,2) by simp
    then have "1 * 1 \<le> ?t * i" using assms(1) by (intro mult_mono) auto
    then have "1 * i \<le> f i" unfolding f_def using \<open>0 < i\<close> by (intro mult_right_mono) auto
    with that show ?thesis by simp
  qed
  show ?thesis
    using assms retry_time_bounds [OF assms(1-3), of n] retry_time_bounds [OF assms(1-3), of m] grows [of n m] most [of m]
    by (auto simp: eq min_def)
qed

section \<open>A client that is not closed comes back\<close>

definition ws_step :: "client \<Rightarrow> ws_event \<Rightarrow> client option" where
  "ws_step c e = Some (fst (react c e))"

text \<open>The client is not closed, and \<open>Math.random()\<close> is at least 0 and below 1.\<close>

fun ws_admissible :: "client \<Rightarrow> ws_event \<Rightarrow> bool" where
  "ws_admissible c CloseManually = False"
| "ws_admissible c (SocketSays msg jitter) = (0 \<le> jitter \<and> jitter < reconnectJitterRange (config c))"
| "ws_admissible c (SocketCloses code jitter) = (0 \<le> jitter \<and> jitter < reconnectJitterRange (config c))"
| "ws_admissible c (PingDue jitter) = (0 \<le> jitter \<and> jitter < reconnectJitterRange (config c))"
| "ws_admissible c e = True"

definition delay_ok :: "client \<Rightarrow> bool" where
  "delay_ok c \<longleftrightarrow> (\<forall>t. reconnectTimeout c = Some t \<longrightarrow> 3000 \<le> rt_delay t \<and> rt_delay t < 302000)"

definition comes_back :: "client \<Rightarrow> bool" where
  "comes_back c \<longleftrightarrow> config c = defaultWebSocketClientConfig \<and> 0 \<le> connectFailCount c \<and>
     (conn c \<noteq> None \<or> reconnectTimeout c \<noteq> None) \<and> delay_ok c"

lemma post_request_keeps [simp]:
  "conn (fst (post_request action d cb c)) = conn c"
  "config (fst (post_request action d cb c)) = config c"
  "connectFailCount (fst (post_request action d cb c)) = connectFailCount c"
  "reconnectTimeout (fst (post_request action d cb c)) = reconnectTimeout c"
  by (simp_all add: post_request_def Let_def split: option.split)

lemma comes_back_post_request: "comes_back c \<Longrightarrow> comes_back (fst (post_request action d cb c))"
  by (simp add: comes_back_def delay_ok_def)

lemma comes_back_initialize:
  assumes "config c = defaultWebSocketClientConfig" and "0 \<le> connectFailCount c" and "delay_ok c"
    and "conn c \<noteq> None \<or> reconnectTimeout c \<noteq> None \<or> url \<noteq> None"
  shows "comes_back (fst (initialize url token ack c))"
  using assms by (auto simp: initialize_def comes_back_def delay_ok_def Let_def split: option.split)

lemma comes_back_onclose:
  assumes "config c = defaultWebSocketClientConfig" and "0 \<le> connectFailCount c" and "delay_ok c"
    and "0 \<le> jitter" and "jitter < reconnectJitterRange (config c)"
  shows "comes_back (fst (onclose url token code jitter c))"
proof -
  have "3000 \<le> retry_time (config c) (connectFailCount c + 1) \<and>
      retry_time (config c) (connectFailCount c + 1) \<le> 300000"
    using retry_time_bounds [of "config c" "connectFailCount c + 1"] assms(1,2)
    by (simp add: defaultWebSocketClientConfig_def)
  with assms show ?thesis
    by (auto simp: onclose_def comes_back_def delay_ok_def stopPingInterval_def Let_def
        defaultWebSocketClientConfig_def)
qed

lemma comes_back_onopen:
  assumes "config c = defaultWebSocketClientConfig" and "conn c \<noteq> None" and "delay_ok c"
  shows "comes_back (fst (onopen url token c))"
  using assms
  by (auto simp: onopen_def comes_back_def delay_ok_def ping_def sendMessage_def stopPingInterval_def
      split_beta Let_def split: option.split)

lemma comes_back_give_up:
  assumes "config c = defaultWebSocketClientConfig" and "delay_ok c"
    and "0 \<le> jitter" and "jitter < reconnectJitterRange (config c)"
  shows "comes_back (fst (give_up url token code jitter c))"
  using comes_back_onclose [of "c\<lparr>connectFailCount := 0, responseSequence := 1\<rparr>" jitter url token code] assms
  by (simp add: give_up_def split_beta delay_ok_def)

lemma comes_back_onmessage:
  assumes "comes_back c" and "conn c \<noteq> None"
    and "0 \<le> jitter" and "jitter < reconnectJitterRange (config c)"
  shows "comes_back (fst (onmessage url token msg jitter c))"
proof -
  have reply: "comes_back (fst (on_reply msg c))"
    using assms(1) by (auto simp: on_reply_def comes_back_def delay_ok_def Let_def split: option.split callback.split)
  obtain c' told where hello: "on_hello msg c = (c', told)" by fastforce
  then have c': "comes_back c'" "conn c' \<noteq> None" "config c' = config c"
    using assms(1,2) by (auto simp: on_hello_def comes_back_def delay_ok_def Let_def split: if_splits)
  then have "comes_back (fst (mismatch url token jitter c'))"
    using comes_back_give_up [of c'] assms(3,4) by (auto simp: mismatch_def comes_back_def)
  moreover have "comes_back (c'\<lparr>serverSequence := n\<rparr>)" for n
    using c'(1) by (simp add: comes_back_def delay_ok_def)
  ultimately show ?thesis
    using reply assms(1) by (auto simp: onmessage_def hello Let_def split: option.split)
qed

lemma comes_back_listeners [simp]:
  "comes_back (set_callback kind l c) = comes_back c" "comes_back (set_listeners kind ls c) = comes_back c"
  by (cases kind; simp add: comes_back_def delay_ok_def)+

lemma comes_back_step:
  assumes "comes_back c" and "ws_admissible c e"
  shows "comes_back (fst (react c e))"
proof (cases e)
  case SocketOpens
  show ?thesis
  proof (cases "conn c")
    case (Some k)
    then show ?thesis
      using SocketOpens assms(1) comes_back_onopen [of "c\<lparr>conn := Some (k\<lparr>so_ready := OPEN\<rparr>)\<rparr>" "so_url k" "so_token k"]
      by (auto simp: comes_back_def delay_ok_def)
  qed (use assms(1) SocketOpens in simp)
next
  case (SocketSays msg jitter)
  then show ?thesis
    using assms comes_back_onmessage [OF assms(1)] by (auto split: option.split)
next
  case (SocketCloses code jitter)
  then show ?thesis
    using assms comes_back_onclose [of c jitter] by (auto simp: comes_back_def split: option.split)
next
  case (PingDue jitter)
  have "comes_back (c\<lparr>waitingForPong := True\<rparr>)" "comes_back (stopPingInterval c)"
    using assms(1) by (simp_all add: comes_back_def delay_ok_def stopPingInterval_def)
  then show ?thesis
    using PingDue assms comes_back_give_up [of "stopPingInterval c" jitter] comes_back_post_request
    by (auto simp: ping_due_def ping_def comes_back_def Let_def stopPingInterval_def split: option.split)
next
  case ReconnectDue
  have "comes_back (fst (initialize (Some url) token ack (c\<lparr>reconnectTimeout := None\<rparr>)))" for url token ack
    using assms(1) comes_back_initialize [of "c\<lparr>reconnectTimeout := None\<rparr>" "Some url"]
    by (simp add: comes_back_def delay_ok_def)
  with ReconnectDue show ?thesis
    using assms(1) by (simp add: reconnect_due_def split: option.split)
next
  case (Initialize url token ack)
  have "comes_back (fst (initialize url token ack c))"
    by (rule comes_back_initialize) (use assms(1) in \<open>auto simp: comes_back_def\<close>)
  with Initialize show ?thesis by simp
next
  case GoesOffline
  have "comes_back (c\<lparr>waitingForPong := True\<rparr>)"
    using assms(1) by (simp add: comes_back_def delay_ok_def)
  then show ?thesis
    using GoesOffline assms(1) comes_back_post_request by (auto simp: offline_def ping_def)
next
  case GoesOnline
  then show ?thesis
    using assms(1) by (auto simp: online_def comes_back_def delay_ok_def clearReconnectTimeout_def
        defaultWebSocketClientConfig_def split: option.split)
next
  case SocketClosing
  then show ?thesis
    using assms(1) by (auto simp: comes_back_def delay_ok_def split: option.split)
qed (use assms comes_back_post_request in
    \<open>auto simp: sendMessage_def add_listener_def remove_listener_def onerror_def Let_def split: option.split\<close>)

interpretation ws: total_store ws_step ws_admissible comes_back
  "fst (initialize (Some url) token ack (new_client defaultWebSocketClientConfig))" for url token ack
proof unfold_locales
  show "comes_back (fst (initialize (Some url) token ack (new_client defaultWebSocketClientConfig)))"
    by (rule comes_back_initialize) (simp_all add: new_client_def delay_ok_def)
qed (auto simp: ws_step_def comes_back_step)

text \<open>
  C33. A client that was initialized and not closed since either has a connection or a timer set
  at least 3 and less than 302 seconds, and when the timer fires the client opens a connection that asks to go
  on where it stopped.
\<close>

theorem client_comes_back:
  assumes "reachable ws_step ws_admissible
    (fst (initialize (Some url) token ack (new_client defaultWebSocketClientConfig))) c"
  shows "conn c \<noteq> None \<or>
    (\<exists>t. reconnectTimeout c = Some t \<and> 3000 \<le> rt_delay t \<and> rt_delay t < 302000 \<and>
       conn (fst (react c ReconnectDue)) \<noteq> None \<and>
       snd (react c ReconnectDue) = [Connects (websocketUrl (rt_url t) c)])"
proof -
  have "comes_back c" by (rule ws.reachable_inv [OF assms])
  then show ?thesis
    by (auto simp: comes_back_def delay_ok_def reconnect_due_def initialize_def websocketUrl_def)
qed

section \<open>Losing a connection\<close>

text \<open>
  When the connection is lost, the listeners are told once, and the next connection goes to the same
  address and names the connection id, the number of the next event and the reason of the loss,
  so that the server can go on where it stopped.
\<close>

theorem lost_connection_resumes:
  assumes "conn c = Some k" and "reconnectTimeout c = None" and "lastErrCode c = None"
    and "code \<noteq> 0"
  shows "snd (run react c [SocketCloses code jitter, ReconnectDue]) =
    [Closed (called (closeCallback c) (closeListeners c)) (connectFailCount c + 1),
     Connects (so_url k @ ''?connection_id='' @ connectionId c @ ''&sequence_number='' @ show_int (serverSequence c) @
       (if postedAck c then ''&posted_ack=true'' else []) @ ''&disconnect_err_code='' @ show_int code)] \<and>
    conn (fst (run react c [SocketCloses code jitter, ReconnectDue])) =
      Some \<lparr>so_ready = CONNECTING, so_url = so_url k, so_token = so_token k\<rparr>"
  using assms
  by (simp add: onclose_def stopPingInterval_def reconnect_due_def initialize_def websocketUrl_def Let_def)

text \<open>A ping that is due, one that is due again without an answer, and the answer.\<close>

definition pinged :: "client \<Rightarrow> client" where
  "pinged c = c\<lparr>waitingForPong := True, responseSequence := responseSequence c + 1,
     responseCallbacks := AList.update (responseSequence c) GotPong (responseCallbacks c)\<rparr>"

lemma pinged_simps [simp]:
  "conn (pinged c) = conn c" "config (pinged c) = config c" "pingInterval (pinged c) = pingInterval c"
  "reconnectTimeout (pinged c) = reconnectTimeout c" "waitingForPong (pinged c)"
  "closeCallback (pinged c) = closeCallback c" "closeListeners (pinged c) = closeListeners c"
  "responseSequence (pinged c) = responseSequence c + 1"
  "map_of (responseCallbacks (pinged c)) (responseSequence c) = Some GotPong"
  by (simp_all add: pinged_def update_conv)

lemma ping_sent:
  assumes "conn c = Some k" and "so_ready k = OPEN" and "pingInterval c = Some (url, token)" and "\<not> waitingForPong c"
  shows "react c (PingDue j) = (pinged c, [Sends \<lparr>q_action = ''ping'', q_seq = responseSequence c, q_data = NoData\<rparr>])"
  using assms by (simp add: ping_due_def ping_def post_request_def is_open_def pinged_def)

lemma ping_unanswered:
  assumes "conn c = Some k" and "so_ready k = OPEN" and "pingInterval c = Some (url, token)" and "waitingForPong c"
    and "reconnectTimeout c = None"
  shows "snd (react c (PingDue j)) = [Closes, Closed (called (closeCallback c) (closeListeners c)) 1]"
    and "conn (fst (react c (PingDue j))) = None" and "pingInterval (fst (react c (PingDue j))) = None"
    and "reconnectTimeout (fst (react c (PingDue j))) =
      Some \<lparr>rt_delay = retry_time (config c) 1 + j, rt_url = url, rt_token = token\<rparr>"
  using assms
  by (simp_all add: ping_due_def is_open_def give_up_def onclose_def stopPingInterval_def Let_def split_beta)

lemma ping_answered:
  assumes "conn c = Some k" and "so_ready k = OPEN" and "w_seq_reply pong \<noteq> 0"
    and "map_of (responseCallbacks c) (w_seq_reply pong) = Some GotPong"
  shows "react c (SocketSays pong j) = (c\<lparr>responseCallbacks := AList.delete (w_seq_reply pong) (responseCallbacks c),
    waitingForPong := False\<rparr>, [])"
  using assms by (simp add: onmessage_def on_reply_def)

text \<open>
  An open connection whose ping stays unanswered until the next one is due is closed, its
  pings stop and a new attempt is scheduled; if the answer arrives in between, the next ping is
  sent instead and the connection stays.
\<close>

theorem silent_connection_closed:
  assumes "conn c = Some k" and "so_ready k = OPEN" and "pingInterval c = Some (url, token)"
    and "\<not> waitingForPong c" and "reconnectTimeout c = None"
    and "w_seq_reply pong = responseSequence c" and "responseSequence c \<noteq> 0"
  shows "let silent = run react c [PingDue j, PingDue j'];
      answered = run react c [PingDue j, SocketSays pong j'', PingDue j']
    in snd silent = [Sends \<lparr>q_action = ''ping'', q_seq = responseSequence c, q_data = NoData\<rparr>, Closes,
         Closed (called (closeCallback c) (closeListeners c)) 1] \<and>
       conn (fst silent) = None \<and> pingInterval (fst silent) = None \<and>
       reconnectTimeout (fst silent) = Some \<lparr>rt_delay = retry_time (config c) 1 + j', rt_url = url, rt_token = token\<rparr> \<and>
       snd answered = [Sends \<lparr>q_action = ''ping'', q_seq = responseSequence c, q_data = NoData\<rparr>,
         Sends \<lparr>q_action = ''ping'', q_seq = responseSequence c + 1, q_data = NoData\<rparr>] \<and>
       conn (fst answered) = conn c \<and> pingInterval (fst answered) = pingInterval c"
proof -
  have "snd (react (pinged c) (PingDue j')) = [Closes, Closed (called (closeCallback c) (closeListeners c)) 1]"
    using ping_unanswered(1) [of "pinged c"] assms by simp
  then show ?thesis
    using assms ping_unanswered(2-4) [of "pinged c" k url token j']
    by (simp add: ping_sent ping_answered Let_def split_beta del: react.simps)
qed

lemma requested:
  "conn (fst (sendMessage action d cb c)) = conn c"
  "reconnectTimeout (fst (sendMessage action d cb c)) = reconnectTimeout c"
  "responseSequence (fst (sendMessage action d cb c)) = responseSequence c + 1"
  "responseCallbacks (fst (sendMessage action d None c)) = responseCallbacks c"
  "map_of (responseCallbacks (fst (sendMessage action d (Some l) c))) (responseSequence c) = Some (Caller l)"
  by (simp_all add: sendMessage_def post_request_def Let_def update_conv split: option.split)

lemma closed_and_reconnected:
  assumes "conn c = Some k" and "reconnectTimeout c = None"
  shows "responseCallbacks (fst (run react c [SocketCloses code j, ReconnectDue])) = responseCallbacks c"
    and "responseSequence (fst (run react c [SocketCloses code j, ReconnectDue])) = 1"
    and "conn (fst (run react c [SocketCloses code j, ReconnectDue])) =
      Some \<lparr>so_ready = CONNECTING, so_url = so_url k, so_token = so_token k\<rparr>"
  using assms by (simp_all add: onclose_def stopPingInterval_def reconnect_due_def initialize_def Let_def)

lemma opened_with_token:
  assumes "conn c = Some \<lparr>so_ready = CONNECTING, so_url = url, so_token = Some t\<rparr>" and "t \<noteq> []"
    and "responseSequence c = 1"
  shows "Sends \<lparr>q_action = ''authentication_challenge'', q_seq = 1, q_data = Token t\<rparr> \<in> set (snd (react c SocketOpens))"
    and "conn (fst (react c SocketOpens)) = Some \<lparr>so_ready = OPEN, so_url = url, so_token = Some t\<rparr>"
    and "map_of (responseCallbacks (fst (react c SocketOpens))) 1 = map_of (responseCallbacks c) 1"
proof -
  let ?c = "c\<lparr>conn := Some \<lparr>so_ready = OPEN, so_url = url, so_token = Some t\<rparr>\<rparr>"
  let ?sent = "fst (sendMessage ''authentication_challenge'' (Token t) None ?c)"
  have "snd (sendMessage ''authentication_challenge'' (Token t) None ?c) =
      [Sends \<lparr>q_action = ''authentication_challenge'', q_seq = 1, q_data = Token t\<rparr>]"
    using assms(3) by (simp add: sendMessage_def post_request_def is_open_def)
  then show "Sends \<lparr>q_action = ''authentication_challenge'', q_seq = 1, q_data = Token t\<rparr> \<in> set (snd (react c SocketOpens))"
    using assms(1,2) by (simp add: onopen_def split_beta Let_def)
  show "conn (fst (react c SocketOpens)) = Some \<lparr>so_ready = OPEN, so_url = url, so_token = Some t\<rparr>"
    using assms(1,2) by (simp add: onopen_def ping_def requested split_beta Let_def stopPingInterval_def)
  have "responseSequence ?sent = 2" "responseCallbacks ?sent = responseCallbacks c"
    using assms(3) by (simp_all add: requested)
  then show "map_of (responseCallbacks (fst (react c SocketOpens))) 1 = map_of (responseCallbacks c) 1"
    using assms(1,2)
    by (simp add: onopen_def ping_def post_request_def split_beta Let_def stopPingInterval_def update_conv)
qed

text \<open>
  The callback of a request whose answer was lost with its connection is kept, and the answer
  to whatever request gets the same number on the next connection is handed to it.
\<close>

theorem stale_callback_called:
  assumes "conn c = Some k" and "so_ready k = OPEN" and "reconnectTimeout c = None"
    and "so_token k = Some t" and "t \<noteq> []" and "responseSequence c = 1" and "w_seq_reply answer = 1"
  shows "let (c', out) = run react c [Request action d (Some l), SocketCloses code j, ReconnectDue, SocketOpens]
    in Sends \<lparr>q_action = ''authentication_challenge'', q_seq = 1, q_data = Token t\<rparr> \<in> set out \<and>
       snd (react c' (SocketSays answer j')) = [Replies l answer]"
proof -
  define c1 where "c1 = fst (sendMessage action d (Some l) c)"
  define c2 where "c2 = fst (run react c1 [SocketCloses code j, ReconnectDue])"
  define c3 where "c3 = fst (react c2 SocketOpens)"
  have c1: "conn c1 = Some k" "reconnectTimeout c1 = None" "map_of (responseCallbacks c1) 1 = Some (Caller l)"
    using assms requested(5) [of action d l c] by (simp_all add: c1_def requested)
  have c2: "conn c2 = Some \<lparr>so_ready = CONNECTING, so_url = so_url k, so_token = Some t\<rparr>" "responseSequence c2 = 1"
    "map_of (responseCallbacks c2) 1 = Some (Caller l)"
    using closed_and_reconnected [OF c1(1,2), of code j] c1(3) assms(4) by (simp_all add: c2_def)
  have "snd (react c3 (SocketSays answer j')) = [Replies l answer]"
    using opened_with_token(2,3) [OF c2(1) assms(5) c2(2)] c2(3) assms(7)
    by (simp add: c3_def onmessage_def on_reply_def)
  moreover have "run react c [Request action d (Some l), SocketCloses code j, ReconnectDue, SocketOpens] =
      (c3, snd (sendMessage action d (Some l) c) @ snd (run react c1 [SocketCloses code j, ReconnectDue]) @ snd (react c2 SocketOpens))"
    unfolding c1_def c2_def c3_def by (simp add: split_beta Let_def del: react.simps(4-))
  ultimately show ?thesis
    using opened_with_token(1) [OF c2(1) assms(5) c2(2)] by simp
qed

text \<open>
  Closing the client while it is connecting neither drops the socket nor keeps it from
  opening: it opens as usual, and when it closes later the client schedules the next attempt by itself.
\<close>

theorem close_while_connecting:
  assumes "conn c = Some k" and "so_ready k = CONNECTING"
  shows "let c' = fst (run react c [CloseManually, SocketOpens])
    in snd (react c CloseManually) = [] \<and> is_open c' \<and> pingInterval c' = Some (so_url k, so_token k) \<and>
       reconnectTimeout (fst (react c' (SocketCloses code j))) =
         Some \<lparr>rt_delay = retry_time (config c) 1 + j, rt_url = so_url k, rt_token = so_token k\<rparr>"
proof -
  have keeps: "conn (fst (sendMessage action d cb c')) = conn c'" "config (fst (sendMessage action d cb c')) = config c'"
    "reconnectTimeout (fst (sendMessage action d cb c')) = reconnectTimeout c'"
    for action d cb c' by (simp_all add: sendMessage_def)
  show ?thesis
    using assms
    by (simp add: close_def clearReconnectTimeout_def stopPingInterval_def is_open_def onopen_def ping_def
        onclose_def keeps Let_def split_beta split: option.split)
qed

section \<open>Concrete runs\<close>

definition fresh :: client where
  "fresh = (new_client defaultWebSocketClientConfig)\<lparr>messageListeners := [1], missedMessageListeners := [2]\<rparr>"

definition connected :: client where
  "connected = fst (run react fresh [Initialize (Some ''ws'') (Some ''t'') None, SocketOpens])"

definition reply_to :: "int \<Rightarrow> server_message" where
  "reply_to n = \<lparr>w_seq_reply = n, w_event = [], w_seq = None, w_connection_id = [], w_server_hostname = []\<rparr>"

theorem retry_time_backs_off_witness:
  "retry_time defaultWebSocketClientConfig 7 = 3000 \<and>
   retry_time defaultWebSocketClientConfig 7 \<le> retry_time defaultWebSocketClientConfig 8 \<and>
   retry_time defaultWebSocketClientConfig 300008 = 300000"
  using retry_time_backs_off [of defaultWebSocketClientConfig 7 8]
    retry_time_backs_off [of defaultWebSocketClientConfig 7 300008]
  by (simp add: defaultWebSocketClientConfig_def)

theorem client_comes_back_witness:
  "\<exists>c t. reachable ws_step ws_admissible
      (fst (initialize (Some ''ws'') None None (new_client defaultWebSocketClientConfig))) c \<and>
    reconnectTimeout c = Some t \<and> conn c = None \<and> conn (fst (react c ReconnectDue)) \<noteq> None"
proof -
  let ?init = "fst (initialize (Some ''ws'') None None (new_client defaultWebSocketClientConfig))"
  let ?c = "fst (react ?init (SocketCloses 1006 7))"
  have adm: "ws_admissible ?init (SocketCloses 1006 7)" by code_simp
  have step: "ws_step ?init (SocketCloses 1006 7) = Some ?c" by (simp only: ws_step_def)
  have r: "reachable ws_step ws_admissible ?init ?c"
    by (rule reachable.dispatch [where s = ?init and a = "SocketCloses 1006 7" and adm = ws_admissible and step = ws_step])
      (rule reachable.start adm step)+
  have "conn ?c = None" by code_simp
  with client_comes_back [OF r] r show ?thesis by auto
qed

lemma connected_simps:
  "conn connected = Some \<lparr>so_ready = OPEN, so_url = ''ws'', so_token = Some ''t''\<rparr>"
  "reconnectTimeout connected = None" "lastErrCode connected = None" "responseSequence connected = 3"
  "pingInterval connected = Some (''ws'', Some ''t'')" "waitingForPong connected"
  by code_simp+

theorem lost_connection_resumes_witness:
  "conn (fst (run react connected [SocketCloses 1006 7, ReconnectDue])) \<noteq> None"
  using lost_connection_resumes [of connected _ 1006 7] by (simp add: connected_simps)

definition answered :: client where
  "answered = fst (react connected (SocketSays (reply_to 2) 0))"

lemma answered_simps:
  "conn answered = Some \<lparr>so_ready = OPEN, so_url = ''ws'', so_token = Some ''t''\<rparr>"
  "reconnectTimeout answered = None" "responseSequence answered = 3"
  "pingInterval answered = Some (''ws'', Some ''t'')" "\<not> waitingForPong answered"
  by code_simp+

theorem silent_connection_closed_witness:
  "conn (fst (run react answered [PingDue 0, PingDue 9])) = None"
  using silent_connection_closed [of answered _ _ _ "reply_to 3" 0 9 0]
  by (simp add: answered_simps reply_to_def Let_def del: run.simps)

theorem stale_callback_called_witness:
  "\<exists>c'. \<exists>c. c' = fst (run react c [Request ''get_statuses'' NullData (Some 5), SocketCloses 1006 7, ReconnectDue, SocketOpens]) \<and>
    snd (react c' (SocketSays (reply_to 1) 0)) = [Replies 5 (reply_to 1)]"
  using stale_callback_called [of "connected\<lparr>responseSequence := 1\<rparr>" _ "''t''" "reply_to 1" "''get_statuses''" NullData 5 1006 7 0]
  by (simp add: connected_simps reply_to_def split_beta Let_def del: run.simps react.simps) blast

theorem close_while_connecting_witness:
  "is_open (fst (run react (fst (react fresh (Initialize (Some ''ws'') None None))) [CloseManually, SocketOpens]))"
proof -
  have "conn (fst (react fresh (Initialize (Some ''ws'') None None))) =
      Some \<lparr>so_ready = CONNECTING, so_url = ''ws'', so_token = None\<rparr>" by code_simp
  then show ?thesis
    using close_while_connecting [of "fst (react fresh (Initialize (Some ''ws'') None None))"]
    by (simp add: Let_def del: run.simps react.simps)
qed

end
