(* ===== verification/AppBindings.thy ===== *)
theory AppBindings
  imports Prelude
begin

text \<open>
  What apps offer: bindings (commands, menu items, icons), forms and their fields, from
  \<open>platform/types/src/apps.ts\<close>, and \<open>mattermost-redux/src/utils/apps.ts\<close>, which throws out what is
  invalid before the bindings reach the store.

  Strings users and apps write hold any character, so a string here is the list of its UTF-16
  code units; \<open>js\<close> gives the one of a literal. A field that is read for its truth only and is
  absent is the empty string or \<open>None\<close>, whichever is simpler.
\<close>

type_synonym jsstring = "nat list"

definition js :: "string \<Rightarrow> jsstring" where
  "js s = map of_char s"

lemma js_simps [simp]: "js [] = []" "js (c # s) = of_char c # js s"
  by (simp_all add: js_def)

section \<open>Types\<close>

datatype field_type = TEXT | STATIC_SELECT | DYNAMIC_SELECT | BOOL | USER | CHANNEL | MARKDOWN | OtherType jsstring

record select_option =
  o_label :: jsstring
  o_value :: jsstring
  o_icon_data :: "jsstring option"

text \<open>What to expand is opaque here, and so is the state, kept as the text of its JSON.\<close>

record app_call =
  call_path :: jsstring
  call_expand :: "(jsstring \<times> jsstring) list option"
  call_state :: "jsstring option"

datatype form_value = ValString jsstring | ValOption select_option | ValOptions "select_option list" | ValBool bool

record app_field =
  f_name :: jsstring
  f_type :: field_type
  f_is_required :: bool
  f_readonly :: bool
  f_value :: "form_value option"
  f_description :: "jsstring option"
  f_label :: "jsstring option"
  f_hint :: "jsstring option"
  f_position :: "int option"
  f_modal_label :: "jsstring option"
  f_options :: "select_option list option"
  f_multiselect :: bool
  f_lookup :: "app_call option"

record app_form =
  fm_title :: "jsstring option"
  fm_fields :: "app_field list option"
  fm_source :: "app_call option"
  fm_submit :: "app_call option"

record binding_core =
  b_app_id :: jsstring
  b_location :: "jsstring option"
  b_label :: jsstring
  b_icon :: "jsstring option"
  b_hint :: "jsstring option"
  b_description :: "jsstring option"
  b_form :: "app_form option"
  b_submit :: "app_call option"

datatype app_binding = Binding (b_core: binding_core) (bindings: "app_binding list option")

definition sub_bindings :: "app_binding \<Rightarrow> app_binding list" where
  "sub_bindings b = (case bindings b of None \<Rightarrow> [] | Some bs \<Rightarrow> bs)"

section \<open>Strings\<close>

text \<open>The code units \<open>trim\<close> removes: white space and line terminators.\<close>

definition trimmed_units :: "nat list" where
  "trimmed_units = [9, 10, 11, 12, 13, 32, 160, 5760, 8192, 8193, 8194, 8195, 8196, 8197, 8198, 8199, 8200, 8201, 8202,
     8232, 8233, 8239, 8287, 12288, 65279]"

definition trim :: "jsstring \<Rightarrow> jsstring" where
  "trim s = rev (dropWhile (\<lambda>c. c \<in> set trimmed_units) (rev (dropWhile (\<lambda>c. c \<in> set trimmed_units) s)))"

text \<open>\<open>s.match(/ |\t/)\<close>\<close>

definition has_blank :: "jsstring \<Rightarrow> bool" where
  "has_blank s \<longleftrightarrow> 32 \<in> set s \<or> 9 \<in> set s"

text \<open>
  An object whose properties are labels already used, started as \<open>{}\<close>. Reading a property
  finds those every object inherits, too.
\<close>

definition inherited :: "jsstring list" where
  "inherited = map js [''constructor'', ''hasOwnProperty'', ''isPrototypeOf'', ''propertyIsEnumerable'',
     ''toLocaleString'', ''toString'', ''valueOf'', ''__proto__'', ''__defineGetter__'', ''__defineSetter__'',
     ''__lookupGetter__'', ''__lookupSetter__'']"

definition used :: "jsstring list \<Rightarrow> jsstring \<Rightarrow> bool" where
  "used labels l \<longleftrightarrow> l \<in> set labels \<or> l \<in> set inherited"

section \<open>Cleaning forms\<close>

text \<open>
  The loops collect the indices of what is invalid and splice it out afterwards; here the valid
  elements are kept, with the labels and values used so far.
\<close>

fun clean_options :: "jsstring list \<Rightarrow> jsstring list \<Rightarrow> select_option list \<Rightarrow> select_option list" where
  "clean_options usedLabels usedValues [] = []"
| "clean_options usedLabels usedValues (opt # opts) =
     (let label = (if o_label opt = [] then o_value opt else o_label opt)
      in if label = [] \<or> used usedLabels label \<or> used usedValues (o_value opt)
         then clean_options usedLabels usedValues opts
         else opt # clean_options (label # usedLabels) (o_value opt # usedValues) opts)"

definition cleanStaticSelect :: "app_field \<Rightarrow> app_field" where
  "cleanStaticSelect f = f\<lparr>f_options := map_option (clean_options [] []) (f_options f)\<rparr>"

definition field_label :: "app_field \<Rightarrow> jsstring" where
  "field_label f = (case f_label f of None \<Rightarrow> f_name f | Some l \<Rightarrow> if l = [] then f_name f else l)"

fun clean_fields :: "jsstring list \<Rightarrow> app_field list \<Rightarrow> app_field list" where
  "clean_fields usedLabels [] = []"
| "clean_fields usedLabels (f # fs) =
     (let label = field_label f;
          f' = (if f_type f = STATIC_SELECT then cleanStaticSelect f else f)
      in if f_name f = [] \<or> has_blank (f_name f) \<or> has_blank label \<or> used usedLabels label
         then clean_fields usedLabels fs
         else if f_type f = STATIC_SELECT \<and> (f_options f' = None \<or> f_options f' = Some [])
         then clean_fields usedLabels fs
         else if f_type f = DYNAMIC_SELECT \<and> f_lookup f = None
         then clean_fields usedLabels fs
         else f' # clean_fields (label # usedLabels) fs)"

definition cleanForm :: "app_form \<Rightarrow> app_form" where
  "cleanForm form = form\<lparr>fm_fields := map_option (clean_fields []) (fm_fields form)\<rparr>"

section \<open>Cleaning bindings\<close>

definition COMMAND_LOCATION :: jsstring where "COMMAND_LOCATION = js ''/command''"
definition CHANNEL_HEADER_ICON :: jsstring where "CHANNEL_HEADER_ICON = js ''/channel_header''"
definition POST_MENU_ITEM :: jsstring where "POST_MENU_ITEM = js ''/post_menu''"

text \<open>An absent location in a template string.\<close>

definition in_template :: "jsstring option \<Rightarrow> jsstring" where
  "in_template s = (case s of None \<Rightarrow> js ''undefined'' | Some t \<Rightarrow> t)"

definition inherit_defaults :: "jsstring \<Rightarrow> jsstring option \<Rightarrow> binding_core \<Rightarrow> binding_core" where
  "inherit_defaults app_id location c =
     (let c = (if b_app_id c = [] then c\<lparr>b_app_id := app_id\<rparr> else c);
          c = (if b_label c = [] then c\<lparr>b_label := (case b_location c of None \<Rightarrow> [] | Some l \<Rightarrow> l)\<rparr> else c)
      in c\<lparr>b_location := Some (in_template location @ js ''/'' @ in_template (b_location c))\<rparr>)"

definition invalid_label :: "jsstring \<Rightarrow> nat \<Rightarrow> jsstring list \<Rightarrow> binding_core \<Rightarrow> bool" where
  "invalid_label topLocation depth usedLabels c \<longleftrightarrow>
     b_app_id c = [] \<or> trim (b_label c) = [] \<or>
     (topLocation = COMMAND_LOCATION \<and> (has_blank (b_label c) \<or> used usedLabels (b_label c))) \<or>
     (topLocation = CHANNEL_HEADER_ICON \<and> (b_icon c = None \<or> b_icon c = Some []) \<and> depth = 0)"

definition invalid_content :: "binding_core \<Rightarrow> bool \<Rightarrow> bool" where
  "invalid_content c hasBindings \<longleftrightarrow>
     (let hasForm = (b_form c \<noteq> None); hasSubmit = (b_submit c \<noteq> None)
      in (\<not> hasBindings \<and> \<not> hasForm \<and> \<not> hasSubmit) \<or> (hasBindings \<and> hasForm) \<or>
         (hasBindings \<and> hasSubmit) \<or> (hasForm \<and> hasSubmit))"

text \<open>The bindings of one with this app, location and depth; the labels of the valid ones are used.\<close>

fun clean_bindings ::
  "jsstring \<Rightarrow> nat \<Rightarrow> jsstring \<Rightarrow> jsstring option \<Rightarrow> jsstring list \<Rightarrow> app_binding list \<Rightarrow> app_binding list" where
  "clean_bindings topLocation depth app_id location usedLabels [] = []"
| "clean_bindings topLocation depth app_id location usedLabels (Binding c subs # bs) =
     (let c = inherit_defaults app_id location c;
          skip = clean_bindings topLocation depth app_id location usedLabels bs;
          keep = (\<lambda>b. b # clean_bindings topLocation depth app_id location (b_label c # usedLabels) bs);
          hasBindings = (subs \<noteq> None \<and> subs \<noteq> Some [])
      in if invalid_label topLocation depth usedLabels c \<or> invalid_content c hasBindings then skip
         else if hasBindings then
           (case subs of
              None \<Rightarrow> skip
            | Some ss \<Rightarrow>
                let ss' = clean_bindings topLocation (Suc depth) (b_app_id c) (b_location c) [] ss
                in if ss' = [] then skip else keep (Binding c (Some ss')))
         else (case b_form c of
                 Some form \<Rightarrow>
                   if fm_submit form = None \<and> fm_source form = None then skip
                   else keep (Binding (c\<lparr>b_form := Some (cleanForm form)\<rparr>) subs)
               | None \<Rightarrow> keep (Binding c subs)))"

definition cleanBinding :: "app_binding \<Rightarrow> jsstring \<Rightarrow> app_binding" where
  "cleanBinding b topLocation =
     Binding (b_core b)
       (map_option (clean_bindings topLocation 0 (b_app_id (b_core b)) (b_location (b_core b)) []) (bindings b))"

definition filterAndCleanBindings :: "app_binding list \<Rightarrow> jsstring \<Rightarrow> app_binding list" where
  "filterAndCleanBindings bs location =
     filter (\<lambda>b. bindings b \<noteq> None \<and> bindings b \<noteq> Some [])
       (map (\<lambda>b. cleanBinding b location) (filter (\<lambda>b. b_location (b_core b) = Some location) bs))"

definition validateBindings :: "app_binding list option \<Rightarrow> app_binding list" where
  "validateBindings bs =
     (case bs of
        None \<Rightarrow> []
      | Some bs \<Rightarrow> filterAndCleanBindings bs POST_MENU_ITEM @ filterAndCleanBindings bs CHANNEL_HEADER_ICON @
          filterAndCleanBindings bs COMMAND_LOCATION)"

end
