(* ===== verification/CommandParser.thy ===== *)
theory CommandParser
  imports AppBindings
begin

text \<open>
  \<open>ParsedCommand\<close> of \<open>app_command_parser.ts\<close>: a slash command of an app is matched against the
  bindings of the apps (\<open>matchBinding\<close>) and the rest of it is parsed with the form of the binding
  found (\<open>parseForm\<close>), by two character-driven state machines. In autocomplete mode they stop in
  the state the end of the text leaves them in.

  Parameters: \<open>lower\<close> is \<open>String.prototype.toLowerCase\<close>, the case mapping of Unicode;
  \<open>getSubmittableForm\<close> is the cache of forms, which asks the app.
\<close>

section \<open>The state\<close>

datatype parse_state =
    Start | Command | EndCommand | CommandSeparator
  | StartParameter | ParameterSeparator | Flag1 | Flag | FlagValueSeparator
  | StartValue | NonspaceValue | QuotedValue | TickValue | EndValue | EndQuotedValue | EndTickedValue
  | Error
  | MultiselectStart | MultiselectStartValue | MultiselectNonspaceValue | MultiselectQuotedValue
  | MultiselectTickValue | MultiselectEndValue | MultiselectEndQuotedValue | MultiselectEndTickedValue
  | MultiselectValueSeparator | MultiselectNextValue
  | Rest

text \<open>The messages, by what they report; their texts are translated.\<close>

datatype parse_error =
    No_bindings | No_slash_start | Unexpected_state parse_state | No_match jsstring | Execute_non_leaf
  | Form_error jsstring | Invalid_binding
  | No_argument | Missing_field_value | Unexpected_flag jsstring | Multiple_equal
  | Unexpected_whitespace | Unexpected_bracket | Missing_quote | Missing_tick | Empty_value
  | Missing_list_end | Unexpected_comma | Unexpected_character

datatype param_value = One jsstring | Many "jsstring list"

record parsed =
  pc_state :: parse_state
  pc_command :: jsstring
  pc_i :: nat
  pc_incomplete :: jsstring
  pc_incompleteStart :: nat
  pc_binding :: "app_binding option"
  pc_resolvedForm :: "app_form option"
  pc_field :: "app_field option"
  pc_position :: int
  pc_values :: "(jsstring \<times> param_value) list"
  pc_location :: jsstring
  pc_error :: "parse_error option"

definition new_command :: "jsstring \<Rightarrow> parsed" where
  "new_command command = \<lparr>pc_state = Start, pc_command = command, pc_i = 0, pc_incomplete = [],
     pc_incompleteStart = 0, pc_binding = None, pc_resolvedForm = None, pc_field = None, pc_position = 0,
     pc_values = [], pc_location = [], pc_error = None\<rparr>"

definition asError :: "parse_error \<Rightarrow> parsed \<Rightarrow> parsed" where
  "asError message pc = pc\<lparr>pc_state := Error, pc_error := Some message\<rparr>"

text \<open>The character at the cursor; \<open>None\<close> is the empty string behind the last one.\<close>

definition current :: "parsed \<Rightarrow> nat option" where
  "current pc = (if pc_i pc < length (pc_command pc) then Some (pc_command pc ! pc_i pc) else None)"

definition advance :: "parsed \<Rightarrow> parsed" where
  "advance pc = pc\<lparr>pc_i := pc_i pc + 1\<rparr>"

definition take_char :: "nat option \<Rightarrow> parsed \<Rightarrow> parsed" where
  "take_char c pc = (case c of None \<Rightarrow> pc | Some u \<Rightarrow> (advance pc)\<lparr>pc_incomplete := pc_incomplete pc @ [u]\<rparr>)"

definition goto :: "parse_state \<Rightarrow> parsed \<Rightarrow> parsed" where
  "goto s pc = pc\<lparr>pc_state := s\<rparr>"

definition restart :: "parsed \<Rightarrow> parsed" where
  "restart pc = pc\<lparr>pc_incomplete := [], pc_incompleteStart := pc_i pc\<rparr>"

text \<open>The characters with a meaning.\<close>

definition blank :: "nat option \<Rightarrow> bool" where
  "blank c \<longleftrightarrow> c = Some 32 \<or> c = Some 9"

abbreviation "dquote \<equiv> Some (34 :: nat)"
abbreviation "comma \<equiv> Some (44 :: nat)"
abbreviation "dash \<equiv> Some (45 :: nat)"
abbreviation "slash \<equiv> Some (47 :: nat)"
abbreviation "equal_sign \<equiv> Some (61 :: nat)"
abbreviation "open_bracket \<equiv> Some (91 :: nat)"
abbreviation "backslash \<equiv> Some (92 :: nat)"
abbreviation "close_bracket \<equiv> Some (93 :: nat)"
abbreviation "tick \<equiv> Some (96 :: nat)"
abbreviation "em_dash \<equiv> Some (8212 :: nat)"

section \<open>matchBinding\<close>

text \<open>One round of the loop: go on (with the bindings to match next), leave it, or return an error.\<close>

datatype match_result = Go parsed "app_binding list" | Done parsed | Fail parsed

definition find_binding :: "(jsstring \<Rightarrow> jsstring) \<Rightarrow> jsstring \<Rightarrow> app_binding list \<Rightarrow> app_binding option" where
  "find_binding lower s bs = find (\<lambda>b. lower (b_label (b_core b)) = lower s) bs"

definition match_step ::
  "(jsstring \<Rightarrow> jsstring) \<Rightarrow> bool \<Rightarrow> parsed \<Rightarrow> app_binding list \<Rightarrow> match_result" where
  "match_step lower autocompleteMode pc bs =
     (let c = current pc
      in case pc_state pc of
        Start \<Rightarrow>
          if c \<noteq> slash then Fail (asError No_slash_start pc)
          else Go (goto Command (restart (advance pc))) bs
      | Command \<Rightarrow>
          if c = None then (if autocompleteMode then Done pc else Go (goto EndCommand pc) bs)
          else if blank c then Go (goto EndCommand pc) bs
          else Go (take_char c pc) bs
      | EndCommand \<Rightarrow>
          (case find_binding lower (pc_incomplete pc) bs of
             None \<Rightarrow> Done pc
           | Some b \<Rightarrow>
               Go (goto CommandSeparator (pc\<lparr>pc_binding := Some b,
                     pc_location := pc_location pc @ js ''/'' @ b_label (b_core b)\<rparr>)) (sub_bindings b))
      | CommandSeparator \<Rightarrow>
          if c = None then Done (goto Command (restart pc))
          else if blank c then Go (advance pc) bs
          else Go (goto Command (restart pc)) bs
      | s \<Rightarrow> Fail (asError (Unexpected_state s) pc))"

text \<open>
  Rounds that do not move the cursor: a word ends at a blank or at the end, and starts at any
  other character, so the states come in a fixed order.
\<close>

definition match_rank :: "parsed \<Rightarrow> nat" where
  "match_rank pc =
     (if current pc = None \<or> blank (current pc)
      then (case pc_state pc of Command \<Rightarrow> 2 | EndCommand \<Rightarrow> 1 | _ \<Rightarrow> 0)
      else (case pc_state pc of EndCommand \<Rightarrow> 2 | CommandSeparator \<Rightarrow> 1 | _ \<Rightarrow> 0))"

lemma current_simps [simp]:
  "current (goto s pc) = current pc" "current (restart pc) = current pc"
  "pc_i (goto s pc) = pc_i pc" "pc_i (restart pc) = pc_i pc" "pc_i (advance pc) = Suc (pc_i pc)"
  "pc_command (goto s pc) = pc_command pc" "pc_command (restart pc) = pc_command pc"
  "pc_command (advance pc) = pc_command pc" "pc_state (goto s pc) = s"
  "pc_state (restart pc) = pc_state pc" "pc_state (advance pc) = pc_state pc"
  "pc_command (take_char c pc) = pc_command pc" "pc_state (take_char c pc) = pc_state pc"
  "pc_i (take_char c pc) = (case c of None \<Rightarrow> pc_i pc | Some _ \<Rightarrow> Suc (pc_i pc))"
  by (simp_all add: current_def goto_def restart_def advance_def take_char_def split: option.split)

lemma current_None: "current pc = None \<longleftrightarrow> length (pc_command pc) \<le> pc_i pc"
  by (auto simp: current_def)

lemma current_updates [simp]:
  "current (pc_state_update f pc) = current pc" "current (pc_incomplete_update g pc) = current pc"
  "current (pc_incompleteStart_update h pc) = current pc" "current (pc_binding_update b pc) = current pc"
  "current (pc_resolvedForm_update r pc) = current pc" "current (pc_field_update fl pc) = current pc"
  "current (pc_position_update q pc) = current pc" "current (pc_values_update v pc) = current pc"
  "current (pc_location_update l pc) = current pc" "current (pc_error_update e pc) = current pc"
  by (simp_all add: current_def)

lemma match_rank_bound: "match_rank pc \<le> 2"
  by (cases "pc_state pc") (simp_all add: match_rank_def)

lemma match_step_decreases:
  assumes "match_step lower auto pc bs = Go pc' bs'"
  shows "3 * (length (pc_command pc') - pc_i pc') + match_rank pc' <
    3 * (length (pc_command pc) - pc_i pc) + match_rank pc"
proof -
  have moved: ?thesis
    if "pc_i pc' = Suc (pc_i pc)" "pc_command pc' = pc_command pc" "current pc \<noteq> None"
    using that match_rank_bound [of pc'] by (simp add: current_None)
  show ?thesis
  proof (cases "pc_state pc")
    case Start
    then show ?thesis
      using assms by (intro moved) (auto simp: match_step_def Let_def split: if_splits)
  next
    case Command
    show ?thesis
    proof (cases "current pc = None \<or> blank (current pc)")
      case True
      then show ?thesis
        using assms Command by (auto simp: match_step_def match_rank_def Let_def split: if_splits)
    next
      case False
      then show ?thesis
        using assms Command by (intro moved) (auto simp: match_step_def Let_def)
    qed
  next
    case EndCommand
    then show ?thesis
      using assms by (auto simp: match_step_def match_rank_def Let_def split: option.splits)
  next
    case CommandSeparator
    show ?thesis
    proof (cases "blank (current pc)")
      case True
      then show ?thesis
        using assms CommandSeparator by (intro moved) (auto simp: match_step_def blank_def Let_def split: if_splits)
    next
      case False
      then show ?thesis
        using assms CommandSeparator by (auto simp: match_step_def match_rank_def Let_def split: if_splits)
    qed
  qed (use assms in \<open>simp_all add: match_step_def Let_def\<close>)
qed

text \<open>An early return is \<open>Inl\<close>, the end of the loop \<open>Inr\<close>.\<close>

function match_loop ::
  "(jsstring \<Rightarrow> jsstring) \<Rightarrow> bool \<Rightarrow> parsed \<Rightarrow> app_binding list \<Rightarrow> parsed + parsed" where
  "match_loop lower autocompleteMode pc bs =
     (case match_step lower autocompleteMode pc bs of
        Go pc' bs' \<Rightarrow> match_loop lower autocompleteMode pc' bs'
      | Done pc' \<Rightarrow> Inr pc'
      | Fail pc' \<Rightarrow> Inl pc')"
  by pat_completeness auto
termination
  by (relation "measure (\<lambda>(lower, a, pc, bs). 3 * (length (pc_command pc) - pc_i pc) + match_rank pc)")
    (auto simp: match_step_decreases)

declare match_loop.simps [simp del]

text \<open>What the cache answers: a form, an error, or nothing.\<close>

record fetched =
  ft_form :: "app_form option"
  ft_error :: "jsstring option"

type_synonym form_cache = "jsstring \<Rightarrow> app_binding \<Rightarrow> fetched option"

definition fetched_error :: "fetched option \<Rightarrow> jsstring option" where
  "fetched_error r = (case Option.bind r ft_error of None \<Rightarrow> None | Some e \<Rightarrow> if e = [] then None else Some e)"

text \<open>The form to parse with: the form fetched is assigned first, that of the binding last.\<close>

definition resolve_form :: "form_cache \<Rightarrow> bool \<Rightarrow> parsed \<Rightarrow> parsed" where
  "resolve_form getSubmittableForm autocompleteMode pc =
     (case pc_binding pc of
        None \<Rightarrow> if autocompleteMode then pc else asError (No_match (pc_command pc)) pc
      | Some b \<Rightarrow>
          if \<not> autocompleteMode \<and> sub_bindings b \<noteq> [] then asError Execute_non_leaf pc
          else if sub_bindings b \<noteq> [] then pc
          else (case (b_submit (b_core b), b_form (b_core b)) of
                  (Some call, None) \<Rightarrow>
                    pc\<lparr>pc_resolvedForm := Some \<lparr>fm_title = None, fm_fields = None, fm_source = None,
                         fm_submit = Some call\<rparr>\<rparr>
                | (None, Some form) \<Rightarrow>
                    if fm_submit form = None then
                      (let fetched = getSubmittableForm (pc_location pc) b
                       in case fetched_error fetched of
                            Some e \<Rightarrow> asError (Form_error e) pc
                          | None \<Rightarrow>
                              let pc = pc\<lparr>pc_resolvedForm := Option.bind fetched ft_form\<rparr>
                              in pc\<lparr>pc_resolvedForm := Some form\<rparr>)
                    else pc\<lparr>pc_resolvedForm := Some form\<rparr>
                | _ \<Rightarrow> asError Invalid_binding pc))"

definition matchBinding ::
  "(jsstring \<Rightarrow> jsstring) \<Rightarrow> form_cache \<Rightarrow> app_binding list \<Rightarrow> bool \<Rightarrow> parsed \<Rightarrow> parsed" where
  "matchBinding lower getSubmittableForm commandBindings autocompleteMode pc =
     (if commandBindings = [] then asError No_bindings pc
      else case match_loop lower autocompleteMode pc commandBindings of
        Inl pc' \<Rightarrow> pc'
      | Inr pc' \<Rightarrow> resolve_form getSubmittableForm autocompleteMode pc')"

section \<open>parseForm: the states\<close>

text \<open>
  One round of the loop: the next round with \<open>flagEqualsUsed\<close> and \<open>escaped\<close>, a return, or the
  \<open>TypeError\<close> of pushing onto what is not an array.
\<close>

datatype form_result = Next parsed bool bool | Return parsed | Throws

definition put_value :: "jsstring \<Rightarrow> param_value \<Rightarrow> parsed \<Rightarrow> parsed" where
  "put_value name v pc = pc\<lparr>pc_values := AList.update name v (pc_values pc)\<rparr>"

definition value_of :: "parsed \<Rightarrow> jsstring \<Rightarrow> param_value option" where
  "value_of pc name = map_of (pc_values pc) name"

text \<open>
  Whether \<open>values[name]\<close> is truthy: the empty string is not, an array is, and so is a property every
  object inherits. (The names of fields are taken to be other than \<open>__proto__\<close>.)
\<close>

definition has_value :: "parsed \<Rightarrow> jsstring \<Rightarrow> bool" where
  "has_value pc name \<longleftrightarrow>
     (case value_of pc name of None \<Rightarrow> name \<in> set inherited | Some v \<Rightarrow> v \<noteq> One [])"

definition start_parameter :: "app_field list \<Rightarrow> parsed \<Rightarrow> bool \<Rightarrow> bool \<Rightarrow> form_result" where
  "start_parameter formFields pc flagEqualsUsed escaped =
     (let c = current pc
      in if c = None then Return pc
         else if c = dash then Next (advance (goto Flag1 pc)) flagEqualsUsed escaped
         else if c = em_dash then Next (restart (advance (goto Flag pc))) False escaped
         else
           let pc = pc\<lparr>pc_position := pc_position pc + 1\<rparr>
           in (case find (\<lambda>f. f_position f = Some (pc_position pc)) formFields of
                 Some f \<Rightarrow> Next (goto StartValue (pc\<lparr>pc_field := Some f\<rparr>)) flagEqualsUsed escaped
               | None \<Rightarrow>
                   (case find (\<lambda>f. f_position f = Some (- 1) \<and> f_type f = TEXT) formFields of
                      None \<Rightarrow> Return (asError No_argument pc)
                    | Some f \<Rightarrow>
                        if has_value pc (f_name f) then Return (asError No_argument pc)
                        else Next (goto Rest ((restart pc)\<lparr>pc_field := Some f\<rparr>)) flagEqualsUsed escaped)))"

definition rest_value :: "bool \<Rightarrow> parsed \<Rightarrow> bool \<Rightarrow> bool \<Rightarrow> form_result" where
  "rest_value autocompleteMode pc flagEqualsUsed escaped =
     (case pc_field pc of
        None \<Rightarrow> Return (asError Missing_field_value pc)
      | Some f \<Rightarrow>
          if current pc = None
          then Return (if autocompleteMode then pc else put_value (f_name f) (One (pc_incomplete pc)) pc)
          else Next (take_char (current pc) pc) flagEqualsUsed escaped)"

definition parameter_separator :: "parsed \<Rightarrow> bool \<Rightarrow> bool \<Rightarrow> form_result" where
  "parameter_separator pc flagEqualsUsed escaped =
     (let pc = pc\<lparr>pc_incompleteStart := pc_i pc\<rparr>; c = current pc
      in if c = None then Return (goto StartParameter pc)
         else if blank c then Next (advance pc) flagEqualsUsed escaped
         else Next (goto StartParameter pc) flagEqualsUsed escaped)"

definition flag1 :: "parsed \<Rightarrow> bool \<Rightarrow> form_result" where
  "flag1 pc escaped =
     (let pc = (if current pc = dash then advance pc else pc)
      in Next (restart (goto Flag pc)) False escaped)"

definition find_flag :: "(jsstring \<Rightarrow> jsstring) \<Rightarrow> jsstring \<Rightarrow> app_field list \<Rightarrow> app_field option" where
  "find_flag lower s formFields = find (\<lambda>f. map_option lower (f_label f) = Some (lower s)) formFields"

definition flag_name ::
  "(jsstring \<Rightarrow> jsstring) \<Rightarrow> bool \<Rightarrow> app_field list \<Rightarrow> parsed \<Rightarrow> bool \<Rightarrow> bool \<Rightarrow> form_result" where
  "flag_name lower autocompleteMode formFields pc flagEqualsUsed escaped =
     (let c = current pc
      in if c = None \<and> autocompleteMode then Return pc
         else if c = None \<or> blank c \<or> c = equal_sign then
           (case find_flag lower (pc_incomplete pc) formFields of
              None \<Rightarrow> Return (asError (Unexpected_flag (pc_incomplete pc)) pc)
            | Some f \<Rightarrow> Next (goto FlagValueSeparator (pc\<lparr>pc_field := Some f, pc_incomplete := []\<rparr>)) flagEqualsUsed escaped)
         else Next (take_char c pc) flagEqualsUsed escaped)"

definition flag_value_separator :: "bool \<Rightarrow> parsed \<Rightarrow> bool \<Rightarrow> bool \<Rightarrow> form_result" where
  "flag_value_separator autocompleteMode pc flagEqualsUsed escaped =
     (let pc = pc\<lparr>pc_incompleteStart := pc_i pc\<rparr>; c = current pc
      in if c = None then
           (if autocompleteMode then Return pc else Next (goto StartValue pc) flagEqualsUsed escaped)
         else if blank c then Next (advance pc) flagEqualsUsed escaped
         else if c = equal_sign then
           (if flagEqualsUsed then Return (asError Multiple_equal pc) else Next (advance pc) True escaped)
         else Next (goto StartValue pc) flagEqualsUsed escaped)"

definition start_value :: "parsed \<Rightarrow> bool \<Rightarrow> bool \<Rightarrow> form_result" where
  "start_value pc flagEqualsUsed escaped =
     (let pc = restart pc; c = current pc
      in if c = dquote then Next (advance (goto QuotedValue pc)) flagEqualsUsed escaped
         else if c = tick then Next (advance (goto TickValue pc)) flagEqualsUsed escaped
         else if blank c then Return (asError Unexpected_whitespace pc)
         else if c = open_bracket then
           (if (case pc_field pc of None \<Rightarrow> False | Some f \<Rightarrow> f_multiselect f)
            then Next (advance (goto MultiselectStart pc)) flagEqualsUsed escaped
            else Return (asError Unexpected_bracket pc))
         else Next (goto NonspaceValue pc) flagEqualsUsed escaped)"

text \<open>The characters up to one of \<open>ends\<close>\<close>

definition plain_value :: "nat list \<Rightarrow> parse_state \<Rightarrow> parsed \<Rightarrow> bool \<Rightarrow> bool \<Rightarrow> form_result" where
  "plain_value ends next_state pc flagEqualsUsed escaped =
     (case current pc of
        None \<Rightarrow> Next (goto next_state pc) flagEqualsUsed escaped
      | Some u \<Rightarrow>
          if u \<in> set ends then Next (goto next_state pc) flagEqualsUsed escaped
          else Next (take_char (Some u) pc) flagEqualsUsed escaped)"

definition quoted_value :: "bool \<Rightarrow> parse_state \<Rightarrow> parsed \<Rightarrow> bool \<Rightarrow> bool \<Rightarrow> form_result" where
  "quoted_value autocompleteMode next_state pc flagEqualsUsed escaped =
     (let c = current pc
      in if c = None then Return (if autocompleteMode then pc else asError Missing_quote pc)
         else if c = dquote then
           (if pc_i pc = Suc (pc_incompleteStart pc) then Return (asError Empty_value pc)
            else Next (goto next_state (advance pc)) flagEqualsUsed escaped)
         else if c = backslash then Next (advance pc) flagEqualsUsed True
         else Next (take_char c pc) flagEqualsUsed False)"

definition ticked_value :: "bool \<Rightarrow> parse_state \<Rightarrow> parsed \<Rightarrow> bool \<Rightarrow> bool \<Rightarrow> form_result" where
  "ticked_value autocompleteMode next_state pc flagEqualsUsed escaped =
     (let c = current pc
      in if c = None then Return (if autocompleteMode then pc else asError Missing_tick pc)
         else if c = tick then
           (if pc_i pc = Suc (pc_incompleteStart pc) then Return (asError Empty_value pc)
            else Next (goto next_state (advance pc)) flagEqualsUsed escaped)
         else Next (take_char c pc) flagEqualsUsed escaped)"

text \<open>A boolean flag may go without a value: what follows it is then read again as a parameter.\<close>

definition no_boolean :: "bool \<Rightarrow> jsstring \<Rightarrow> bool" where
  "no_boolean autocompleteMode s \<longleftrightarrow>
     (if autocompleteMode then take (length s) (js ''true'') \<noteq> s \<and> take (length s) (js ''false'') \<noteq> s
      else s \<noteq> js ''true'' \<and> s \<noteq> js ''false'')"

definition end_value :: "bool \<Rightarrow> parsed \<Rightarrow> bool \<Rightarrow> bool \<Rightarrow> form_result" where
  "end_value autocompleteMode pc flagEqualsUsed escaped =
     (case pc_field pc of
        None \<Rightarrow> Return (asError Missing_field_value pc)
      | Some f \<Rightarrow>
          if f_type f = BOOL \<and> no_boolean autocompleteMode (pc_incomplete pc)
          then Next (goto StartParameter (put_value (f_name f) (One (js ''true'')) (pc\<lparr>pc_i := pc_incompleteStart pc\<rparr>)))
                 flagEqualsUsed escaped
          else if autocompleteMode \<and> current pc = None then Return pc
          else
            let pc = restart (put_value (f_name f) (One (pc_incomplete pc)) pc)
            in if current pc = None then Return pc
               else Next (goto ParameterSeparator pc) flagEqualsUsed escaped)"

section \<open>parseForm: lists of values\<close>

definition multiselect_start :: "parsed \<Rightarrow> bool \<Rightarrow> bool \<Rightarrow> form_result" where
  "multiselect_start pc flagEqualsUsed escaped =
     (case pc_field pc of
        None \<Rightarrow> Return (asError Missing_field_value pc)
      | Some f \<Rightarrow>
          let pc = put_value (f_name f) (Many []) pc; c = current pc
          in if blank c then Next (advance pc) flagEqualsUsed escaped
             else if c = close_bracket then Next (goto ParameterSeparator (advance pc)) flagEqualsUsed escaped
             else Next (goto MultiselectStartValue pc) flagEqualsUsed escaped)"

definition multiselect_start_value :: "bool \<Rightarrow> parsed \<Rightarrow> bool \<Rightarrow> bool \<Rightarrow> form_result" where
  "multiselect_start_value autocompleteMode pc flagEqualsUsed escaped =
     (let pc = restart pc; c = current pc
      in if c = None then Return (if autocompleteMode then pc else asError Missing_list_end pc)
         else if c = dquote then Next (advance (goto MultiselectQuotedValue pc)) flagEqualsUsed escaped
         else if c = tick then Next (advance (goto MultiselectTickValue pc)) flagEqualsUsed escaped
         else if blank c then Return (asError Unexpected_whitespace pc)
         else if c = comma then Return (asError Unexpected_comma pc)
         else Next (goto MultiselectNonspaceValue pc) flagEqualsUsed escaped)"

definition multiselect_end_value :: "bool \<Rightarrow> parsed \<Rightarrow> bool \<Rightarrow> bool \<Rightarrow> form_result" where
  "multiselect_end_value autocompleteMode pc flagEqualsUsed escaped =
     (case pc_field pc of
        None \<Rightarrow> Return (asError Missing_field_value pc)
      | Some f \<Rightarrow>
          if autocompleteMode \<and> current pc = None then Return pc
          else case value_of pc (f_name f) of
            Some (Many vs) \<Rightarrow>
              let pc = restart (put_value (f_name f) (Many (vs @ [pc_incomplete pc])) pc)
              in if current pc = None then Return pc
                 else Next (goto MultiselectValueSeparator pc) flagEqualsUsed escaped
          | _ \<Rightarrow> Throws)"

definition multiselect_value_separator :: "bool \<Rightarrow> parsed \<Rightarrow> bool \<Rightarrow> bool \<Rightarrow> form_result" where
  "multiselect_value_separator autocompleteMode pc flagEqualsUsed escaped =
     (let c = current pc
      in if c = None then Return (if autocompleteMode then pc else asError Missing_list_end pc)
         else if c = close_bracket then Next (goto ParameterSeparator (advance pc)) flagEqualsUsed escaped
         else if blank c then Next (advance pc) flagEqualsUsed escaped
         else if c = comma then Next (goto MultiselectNextValue (advance pc)) flagEqualsUsed escaped
         else Return (asError Unexpected_character pc))"

definition multiselect_next_value :: "parsed \<Rightarrow> bool \<Rightarrow> bool \<Rightarrow> form_result" where
  "multiselect_next_value pc flagEqualsUsed escaped =
     (if blank (current pc) then Next (advance pc) flagEqualsUsed escaped
      else Next (goto MultiselectStartValue pc) flagEqualsUsed escaped)"

section \<open>parseForm: the loop\<close>

definition form_step ::
  "(jsstring \<Rightarrow> jsstring) \<Rightarrow> bool \<Rightarrow> app_field list \<Rightarrow> parsed \<Rightarrow> bool \<Rightarrow> bool \<Rightarrow> form_result" where
  "form_step lower autocompleteMode formFields pc flagEqualsUsed escaped =
     (case pc_state pc of
        StartParameter \<Rightarrow> start_parameter formFields pc flagEqualsUsed escaped
      | Rest \<Rightarrow> rest_value autocompleteMode pc flagEqualsUsed escaped
      | ParameterSeparator \<Rightarrow> parameter_separator pc flagEqualsUsed escaped
      | Flag1 \<Rightarrow> flag1 pc escaped
      | Flag \<Rightarrow> flag_name lower autocompleteMode formFields pc flagEqualsUsed escaped
      | FlagValueSeparator \<Rightarrow> flag_value_separator autocompleteMode pc flagEqualsUsed escaped
      | StartValue \<Rightarrow> start_value pc flagEqualsUsed escaped
      | NonspaceValue \<Rightarrow> plain_value [32, 9] EndValue pc flagEqualsUsed escaped
      | QuotedValue \<Rightarrow> quoted_value autocompleteMode EndQuotedValue pc flagEqualsUsed escaped
      | TickValue \<Rightarrow> ticked_value autocompleteMode EndTickedValue pc flagEqualsUsed escaped
      | EndTickedValue \<Rightarrow> end_value autocompleteMode pc flagEqualsUsed escaped
      | EndQuotedValue \<Rightarrow> end_value autocompleteMode pc flagEqualsUsed escaped
      | EndValue \<Rightarrow> end_value autocompleteMode pc flagEqualsUsed escaped
      | MultiselectStart \<Rightarrow> multiselect_start pc flagEqualsUsed escaped
      | MultiselectStartValue \<Rightarrow> multiselect_start_value autocompleteMode pc flagEqualsUsed escaped
      | MultiselectNonspaceValue \<Rightarrow> plain_value [32, 9, 44, 93] MultiselectEndValue pc flagEqualsUsed escaped
      | MultiselectQuotedValue \<Rightarrow>
          quoted_value autocompleteMode MultiselectEndQuotedValue pc flagEqualsUsed escaped
      | MultiselectTickValue \<Rightarrow>
          ticked_value autocompleteMode MultiselectEndTickedValue pc flagEqualsUsed escaped
      | MultiselectEndTickedValue \<Rightarrow> multiselect_end_value autocompleteMode pc flagEqualsUsed escaped
      | MultiselectEndQuotedValue \<Rightarrow> multiselect_end_value autocompleteMode pc flagEqualsUsed escaped
      | MultiselectEndValue \<Rightarrow> multiselect_end_value autocompleteMode pc flagEqualsUsed escaped
      | MultiselectValueSeparator \<Rightarrow> multiselect_value_separator autocompleteMode pc flagEqualsUsed escaped
      | MultiselectNextValue \<Rightarrow> multiselect_next_value pc flagEqualsUsed escaped
      | s \<Rightarrow> Return (asError (Unexpected_state s) pc))"

text \<open>
  The loop has no bound in the code: \<open>None\<close> is that it does not return, \<open>Some None\<close> that it
  throws.
\<close>

partial_function (option) form_loop ::
  "(jsstring \<Rightarrow> jsstring) \<Rightarrow> bool \<Rightarrow> app_field list \<Rightarrow> parsed \<Rightarrow> bool \<Rightarrow> bool \<Rightarrow> parsed option option" where
  "form_loop lower autocompleteMode formFields pc flagEqualsUsed escaped =
     (case form_step lower autocompleteMode formFields pc flagEqualsUsed escaped of
        Return pc' \<Rightarrow> Some (Some pc')
      | Throws \<Rightarrow> Some None
      | Next pc' flagEqualsUsed' escaped' \<Rightarrow>
          form_loop lower autocompleteMode formFields pc' flagEqualsUsed' escaped')"

declare form_loop.simps [code]

definition parsed_fields :: "app_form \<Rightarrow> app_field list" where
  "parsed_fields form =
     filter (\<lambda>f. f_type f \<noteq> MARKDOWN \<and> \<not> f_readonly f)
       (case fm_fields form of None \<Rightarrow> [] | Some fs \<Rightarrow> fs)"

definition parseForm :: "(jsstring \<Rightarrow> jsstring) \<Rightarrow> bool \<Rightarrow> parsed \<Rightarrow> parsed option option" where
  "parseForm lower autocompleteMode pc =
     (if pc_state pc = Error then Some (Some pc)
      else case pc_resolvedForm pc of
        None \<Rightarrow> Some (Some pc)
      | Some form \<Rightarrow>
          form_loop lower autocompleteMode (parsed_fields form)
            (pc\<lparr>pc_state := StartParameter, pc_i := pc_incompleteStart pc\<rparr>) False False)"

end
