(* ===== verification/CommandParserProps.thy ===== *)
theory CommandParserProps
  imports CommandParser
begin

text \<open>
  The parser of slash commands always returns, never throws, and yields well-typed values; the
  messages the code calls unreachable are; and the flags of a command that is put together from
  values are parsed back to these values.
\<close>

section \<open>Termination\<close>

text \<open>
  A boolean flag without a value sends the cursor back to where the value was looked for. Between two
  such returns either a positional parameter is consumed or the cursor has passed the dash of a
  flag: positional parameters left, then where the next return can lead, then the cursor.
\<close>

definition positions_left :: "app_field list \<Rightarrow> parsed \<Rightarrow> nat" where
  "positions_left fs pc = length (filter (\<lambda>f. \<exists>p. f_position f = Some p \<and> pc_position pc < p) fs)"

definition in_value :: "parse_state \<Rightarrow> bool" where
  "in_value s \<longleftrightarrow> s \<in> {NonspaceValue, QuotedValue, TickValue, EndValue, EndQuotedValue, EndTickedValue}"

definition text_left :: "parsed \<Rightarrow> nat" where
  "text_left pc =
     (if pc_state pc = Rest then 0
      else if pc_state pc = StartParameter then 2 * (length (pc_command pc) - pc_i pc)
      else if in_value (pc_state pc) then 2 * (length (pc_command pc) - pc_incompleteStart pc) + 1
      else 2 * (length (pc_command pc) - pc_i pc) + 1)"

fun state_rank :: "parse_state \<Rightarrow> nat" where
  "state_rank Flag1 = 7"
| "state_rank Flag = 6"
| "state_rank FlagValueSeparator = 5"
| "state_rank StartValue = 4"
| "state_rank NonspaceValue = 3"
| "state_rank QuotedValue = 3"
| "state_rank TickValue = 3"
| "state_rank EndValue = 2"
| "state_rank EndQuotedValue = 2"
| "state_rank EndTickedValue = 2"
| "state_rank ParameterSeparator = 1"
| "state_rank MultiselectStart = 7"
| "state_rank MultiselectNextValue = 7"
| "state_rank MultiselectStartValue = 6"
| "state_rank MultiselectNonspaceValue = 5"
| "state_rank MultiselectQuotedValue = 5"
| "state_rank MultiselectTickValue = 5"
| "state_rank MultiselectEndValue = 4"
| "state_rank MultiselectEndQuotedValue = 4"
| "state_rank MultiselectEndTickedValue = 4"
| "state_rank MultiselectValueSeparator = 3"
| "state_rank _ = 0"

definition cursor_left :: "parsed \<Rightarrow> nat" where
  "cursor_left pc = 8 * (length (pc_command pc) - pc_i pc) + state_rank (pc_state pc)"

abbreviation form_order :: "app_field list \<Rightarrow> (parsed \<times> parsed) set" where
  "form_order fs \<equiv> measures [positions_left fs, text_left, cursor_left]"

section \<open>The invariant of the loop\<close>

definition values_ok :: "app_field list \<Rightarrow> (jsstring \<times> param_value) list \<Rightarrow> bool" where
  "values_ok fs vs \<longleftrightarrow>
     (\<forall>n v. map_of vs n = Some v \<longrightarrow>
        (\<exists>f \<in> set fs. f_name f = n \<and> (case v of One _ \<Rightarrow> True | Many _ \<Rightarrow> f_multiselect f)))"

fun in_list :: "parse_state \<Rightarrow> bool" where
  "in_list s \<longleftrightarrow> s \<in> {MultiselectStart, MultiselectStartValue, MultiselectNonspaceValue, MultiselectQuotedValue,
     MultiselectTickValue, MultiselectEndValue, MultiselectEndQuotedValue, MultiselectEndTickedValue,
     MultiselectValueSeparator, MultiselectNextValue}"

definition form_state :: "parse_state \<Rightarrow> bool" where
  "form_state s \<longleftrightarrow> s \<notin> {Start, Command, EndCommand, CommandSeparator, Error}"

definition char_at :: "parsed \<Rightarrow> nat \<Rightarrow> nat option" where
  "char_at pc n = (if n < length (pc_command pc) then Some (pc_command pc ! n) else None)"

lemma current_char_at: "current pc = char_at pc (pc_i pc)"
  by (simp add: current_def char_at_def)

definition field_ok :: "app_field list \<Rightarrow> parsed \<Rightarrow> bool" where
  "field_ok fs pc \<longleftrightarrow>
     (case pc_field pc of
        None \<Rightarrow> pc_state pc \<in> {StartParameter, ParameterSeparator, Flag1, Flag}
      | Some f \<Rightarrow> f \<in> set fs \<and>
          (in_list (pc_state pc) \<longrightarrow> f_multiselect f \<and>
             (pc_state pc \<noteq> MultiselectStart \<longrightarrow> (\<exists>vs. value_of pc (f_name f) = Some (Many vs)))))"

definition form_inv :: "app_field list \<Rightarrow> parsed \<Rightarrow> bool" where
  "form_inv fs pc \<longleftrightarrow>
     form_state (pc_state pc) \<and> pc_incompleteStart pc \<le> pc_i pc \<and> values_ok fs (pc_values pc) \<and> field_ok fs pc \<and>
     (pc_state pc \<in> {StartParameter, StartValue, MultiselectStartValue} \<longrightarrow> \<not> blank (current pc)) \<and>
     (in_value (pc_state pc) \<longrightarrow> \<not> blank (char_at pc (pc_incompleteStart pc)))"

text \<open>What the code calls unreachable\<close>

definition unreachable :: "parse_error \<Rightarrow> bool" where
  "unreachable e \<longleftrightarrow> e = Missing_field_value \<or> e = Unexpected_whitespace \<or> (\<exists>s. e = Unexpected_state s)"

definition form_done :: "app_field list \<Rightarrow> parsed \<Rightarrow> bool" where
  "form_done fs pc \<longleftrightarrow> values_ok fs (pc_values pc) \<and>
     (pc_state pc = Error \<longrightarrow> (\<exists>e. pc_error pc = Some e \<and> \<not> unreachable e))"

fun round_ok :: "app_field list \<Rightarrow> parsed \<Rightarrow> form_result \<Rightarrow> bool" where
  "round_ok fs pc (Next pc' e esc) \<longleftrightarrow> form_inv fs pc' \<and> (pc', pc) \<in> form_order fs"
| "round_ok fs pc (Return pc') \<longleftrightarrow> form_done fs pc'"
| "round_ok fs pc Throws \<longleftrightarrow> False"

lemma values_ok_put:
  assumes "values_ok fs vs" and "f \<in> set fs" and "(\<exists>s. v = One s) \<or> f_multiselect f"
  shows "values_ok fs (AList.update (f_name f) v vs)"
  using assms by (auto simp: values_ok_def update_conv split: param_value.split)

lemma step_simps [simp]:
  "pc_field (goto s pc) = pc_field pc" "pc_field (restart pc) = pc_field pc" "pc_field (advance pc) = pc_field pc"
  "pc_field (take_char c pc) = pc_field pc" "pc_values (goto s pc) = pc_values pc"
  "pc_values (restart pc) = pc_values pc" "pc_values (advance pc) = pc_values pc"
  "pc_values (take_char c pc) = pc_values pc" "pc_incompleteStart (goto s pc) = pc_incompleteStart pc"
  "pc_incompleteStart (restart pc) = pc_i pc" "pc_incompleteStart (advance pc) = pc_incompleteStart pc"
  "pc_incompleteStart (take_char c pc) = pc_incompleteStart pc" "pc_position (goto s pc) = pc_position pc"
  "pc_position (restart pc) = pc_position pc" "pc_position (advance pc) = pc_position pc"
  "pc_position (take_char c pc) = pc_position pc" "pc_command (put_value n v pc) = pc_command pc"
  "pc_i (put_value n v pc) = pc_i pc" "pc_state (put_value n v pc) = pc_state pc"
  "pc_field (put_value n v pc) = pc_field pc" "pc_position (put_value n v pc) = pc_position pc"
  "pc_incompleteStart (put_value n v pc) = pc_incompleteStart pc" "current (put_value n v pc) = current pc"
  "pc_incomplete (put_value n v pc) = pc_incomplete pc"
  "pc_values (put_value n v pc) = AList.update n v (pc_values pc)"
  "pc_incomplete (restart pc) = []" "pc_incomplete (advance pc) = pc_incomplete pc"
  "pc_incomplete (goto s pc) = pc_incomplete pc"
  "pc_state (asError e pc) = Error" "pc_error (asError e pc) = Some e" "pc_values (asError e pc) = pc_values pc"
  by (auto simp: goto_def restart_def advance_def take_char_def put_value_def asError_def split: option.split)

lemma char_at_simps [simp]:
  "char_at (goto s pc) = char_at pc" "char_at (restart pc) = char_at pc" "char_at (advance pc) = char_at pc"
  "char_at (take_char c pc) = char_at pc" "char_at (put_value n v pc) = char_at pc"
  by (auto simp: char_at_def fun_eq_iff)

lemma value_of_simps [simp]:
  "value_of (goto s pc) = value_of pc" "value_of (restart pc) = value_of pc" "value_of (advance pc) = value_of pc"
  "value_of (take_char c pc) = value_of pc" "value_of (put_value n v pc) n = Some v"
  by (auto simp: value_of_def fun_eq_iff update_conv)

lemma positions_left_simps [simp]:
  "positions_left fs (goto s pc) = positions_left fs pc" "positions_left fs (restart pc) = positions_left fs pc"
  "positions_left fs (advance pc) = positions_left fs pc" "positions_left fs (take_char c pc) = positions_left fs pc"
  "positions_left fs (put_value n v pc) = positions_left fs pc"
  by (simp_all add: positions_left_def)

lemma not_at_end: "current pc = Some u \<Longrightarrow> pc_i pc < length (pc_command pc)"
  by (auto simp: current_def split: if_splits)

lemmas round_defs = form_inv_def field_ok_def form_state_def in_value_def text_left_def cursor_left_def
  form_done_def unreachable_def

lemma positions_left_updates [simp]:
  "positions_left fs (pc_field_update g pc) = positions_left fs pc"
  "positions_left fs (pc_incompleteStart_update n pc) = positions_left fs pc"
  "positions_left fs (pc_incomplete_update s pc) = positions_left fs pc"
  "positions_left fs (pc_i_update k pc) = positions_left fs pc"
  by (simp_all add: positions_left_def)

lemma char_at_updates [simp]:
  "char_at (pc_field_update g pc) = char_at pc" "char_at (pc_incompleteStart_update n pc) = char_at pc"
  "char_at (pc_incomplete_update s pc) = char_at pc" "char_at (pc_i_update k pc) = char_at pc"
  "char_at (pc_position_update q pc) = char_at pc"
  by (auto simp: char_at_def fun_eq_iff)

lemma positions_left_mono:
  "positions_left fs (pc\<lparr>pc_position := pc_position pc + 1\<rparr>) \<le> positions_left fs pc"
proof -
  have "length (filter (\<lambda>f. \<exists>p. f_position f = Some p \<and> k + 1 < p) fs)
      \<le> length (filter (\<lambda>f. \<exists>p. f_position f = Some p \<and> k < p) fs)" for k :: int
    by (induction fs) auto
  then show ?thesis by (simp add: positions_left_def)
qed

lemma positions_left_less:
  assumes "f \<in> set fs" and "f_position f = Some (pc_position pc + 1)"
  shows "positions_left fs (pc\<lparr>pc_position := pc_position pc + 1\<rparr>) < positions_left fs pc"
  unfolding positions_left_def using assms(1)
proof (induction fs)
  case (Cons g gs)
  have "length (filter (\<lambda>f. \<exists>p. f_position f = Some p \<and> pc_position pc + 1 < p) gs)
      \<le> length (filter (\<lambda>f. \<exists>p. f_position f = Some p \<and> pc_position pc < p) gs)"
    using positions_left_mono [of gs pc] by (simp add: positions_left_def)
  with Cons assms(2) show ?case by (auto simp: less_Suc_eq_le)
qed simp

lemma find_set: "find P xs = Some x \<Longrightarrow> x \<in> set xs \<and> P x"
  by (metis find_Some_iff nth_mem)

lemmas round_simps = round_defs Let_def blank_def

lemma round_start_parameter:
  assumes "form_inv fs pc" and "pc_state pc = StartParameter"
  shows "round_ok fs pc (start_parameter fs pc e esc)"
proof -
  let ?pc = "pc\<lparr>pc_position := pc_position pc + 1\<rparr>"
  show ?thesis
  proof (cases "current pc")
    case None
    then show ?thesis
      using assms by (auto simp: start_parameter_def round_simps)
  next
    case (Some u)
    note i = not_at_end [OF Some]
    consider "u = 45" | "u = 8212" | "u \<noteq> 45" "u \<noteq> 8212" "find (\<lambda>f. f_position f = Some (pc_position ?pc)) fs = None"
      | f where "u \<noteq> 45" "u \<noteq> 8212" "find (\<lambda>f. f_position f = Some (pc_position ?pc)) fs = Some f"
      by (cases "find (\<lambda>f. f_position f = Some (pc_position ?pc)) fs") auto
    then show ?thesis
    proof cases
      case 3
      show ?thesis
      proof (cases "find (\<lambda>f. f_position f = Some (- 1) \<and> f_type f = TEXT) fs")
        case (Some f)
        then show ?thesis
          using 3 assms \<open>current pc = Some u\<close> i positions_left_mono [of fs pc] find_set [OF Some]
          by (auto simp: start_parameter_def round_simps has_value_def)
      qed (use 3 assms \<open>current pc = Some u\<close> in \<open>simp add: start_parameter_def round_simps\<close>)
    next
      case (4 f)
      then show ?thesis
        using assms Some positions_left_less [of f fs pc] find_set [OF 4(3)]
        by (auto simp: start_parameter_def round_simps)
    qed (use assms Some i in \<open>auto simp: start_parameter_def round_simps split: option.splits\<close>)
  qed
qed

lemma round_rest:
  assumes "form_inv fs pc" and "pc_state pc = Rest"
  shows "round_ok fs pc (rest_value auto pc e esc)"
  using assms
  by (auto simp: rest_value_def round_simps values_ok_put dest: not_at_end split: option.splits)

lemma round_parameter_separator:
  assumes "form_inv fs pc" and "pc_state pc = ParameterSeparator"
  shows "round_ok fs pc (parameter_separator pc e esc)"
  using assms
  by (auto simp: parameter_separator_def round_simps dest: not_at_end split: option.splits)

lemma round_flag1:
  assumes "form_inv fs pc" and "pc_state pc = Flag1"
  shows "round_ok fs pc (flag1 pc esc)"
  using assms
  by (auto simp: flag1_def round_simps dest: not_at_end split: option.splits)

lemma round_flag:
  assumes "form_inv fs pc" and "pc_state pc = Flag"
  shows "round_ok fs pc (flag_name lower auto fs pc e esc)"
  using assms
  by (auto simp: flag_name_def find_flag_def round_simps dest: not_at_end find_set split: option.splits)

lemma round_flag_value_separator:
  assumes "form_inv fs pc" and "pc_state pc = FlagValueSeparator"
  shows "round_ok fs pc (flag_value_separator auto pc e esc)"
  using assms
  by (auto simp: flag_value_separator_def round_simps dest: not_at_end split: option.splits)

lemma round_start_value:
  assumes "form_inv fs pc" and "pc_state pc = StartValue"
  shows "round_ok fs pc (start_value pc e esc)"
  using assms
  by (auto simp: start_value_def round_simps current_char_at [symmetric] dest: not_at_end split: option.splits)

lemma round_plain:
  assumes "form_inv fs pc" and "pc_state pc = NonspaceValue"
  shows "round_ok fs pc (plain_value [32, 9] EndValue pc e esc)"
  using assms
  by (auto simp: plain_value_def round_simps dest: not_at_end split: option.splits)

lemma round_quoted:
  assumes "form_inv fs pc" and "pc_state pc = QuotedValue"
  shows "round_ok fs pc (quoted_value auto EndQuotedValue pc e esc)"
  using assms
  by (auto simp: quoted_value_def round_simps dest: not_at_end split: option.splits)

lemma round_ticked:
  assumes "form_inv fs pc" and "pc_state pc = TickValue"
  shows "round_ok fs pc (ticked_value auto EndTickedValue pc e esc)"
  using assms
  by (auto simp: ticked_value_def round_simps dest: not_at_end split: option.splits)

lemma in_value_simps [simp]:
  "\<not> in_value StartParameter" "\<not> in_value ParameterSeparator" "\<not> in_value MultiselectValueSeparator"
  by (simp_all add: in_value_def)

lemma round_end_value:
  assumes "form_inv fs pc" and "pc_state pc = EndValue \<or> pc_state pc = EndQuotedValue \<or> pc_state pc = EndTickedValue"
  shows "round_ok fs pc (end_value auto pc e esc)"
proof -
  obtain f where f: "pc_field pc = Some f" "f \<in> set fs"
    using assms by (auto simp: form_inv_def field_ok_def split: option.splits)
  have ok: "values_ok fs (AList.update (f_name f) (One s) (pc_values pc))" for s
    using assms(1) f(2) by (intro values_ok_put) (auto simp: form_inv_def)
  have inv: "pc_incompleteStart pc \<le> pc_i pc" "\<not> blank (char_at pc (pc_incompleteStart pc))" "in_value (pc_state pc)"
    "pc_state pc \<noteq> StartParameter" "pc_state pc \<noteq> Rest" "state_rank (pc_state pc) = 2" "pc_state pc \<noteq> Error"
    "values_ok fs (pc_values pc)"
    using assms by (auto simp: form_inv_def in_value_def)
  show ?thesis
  proof (cases "f_type f = BOOL \<and> no_boolean auto (pc_incomplete pc)")
    case True
    then show ?thesis
      using f ok [of "js ''true''"] inv
      by (simp add: end_value_def form_inv_def field_ok_def form_state_def text_left_def current_char_at
          del: js_simps)
  next
    case False
    show ?thesis
    proof (cases "current pc")
      case None
      then show ?thesis
        using False f ok inv by (auto simp: end_value_def form_done_def Let_def)
    next
      case (Some u)
      then show ?thesis
        using False f ok inv by (simp add: end_value_def form_inv_def field_ok_def form_state_def Let_def
            text_left_def cursor_left_def) linarith?
    qed
  qed
qed

lemma round_multiselect_start:
  assumes "form_inv fs pc" and "pc_state pc = MultiselectStart"
  shows "round_ok fs pc (multiselect_start pc e esc)"
proof -
  obtain f where f: "pc_field pc = Some f" "f \<in> set fs" "f_multiselect f"
    using assms by (auto simp: form_inv_def field_ok_def split: option.splits)
  have "values_ok fs (AList.update (f_name f) (Many []) (pc_values pc))"
    using assms(1) f(2,3) by (intro values_ok_put) (auto simp: form_inv_def)
  then show ?thesis
    using assms f by (auto simp: multiselect_start_def round_simps dest: not_at_end)
qed

lemma round_multiselect_start_value:
  assumes "form_inv fs pc" and "pc_state pc = MultiselectStartValue"
  shows "round_ok fs pc (multiselect_start_value auto pc e esc)"
  using assms
  by (auto simp: multiselect_start_value_def round_simps dest: not_at_end split: option.splits)

lemma round_multiselect_plain:
  assumes "form_inv fs pc" and "pc_state pc = MultiselectNonspaceValue"
  shows "round_ok fs pc (plain_value [32, 9, 44, 93] MultiselectEndValue pc e esc)"
  using assms
  by (auto simp: plain_value_def round_simps dest: not_at_end split: option.splits)

lemma round_multiselect_quoted:
  assumes "form_inv fs pc" and "pc_state pc = MultiselectQuotedValue"
  shows "round_ok fs pc (quoted_value auto MultiselectEndQuotedValue pc e esc)"
  using assms
  by (auto simp: quoted_value_def round_simps dest: not_at_end split: option.splits)

lemma round_multiselect_ticked:
  assumes "form_inv fs pc" and "pc_state pc = MultiselectTickValue"
  shows "round_ok fs pc (ticked_value auto MultiselectEndTickedValue pc e esc)"
  using assms
  by (auto simp: ticked_value_def round_simps dest: not_at_end split: option.splits)

lemma list_end_state:
  assumes "s = MultiselectEndValue \<or> s = MultiselectEndQuotedValue \<or> s = MultiselectEndTickedValue"
  shows "in_list s" "s \<noteq> MultiselectStart" "\<not> in_value s" "s \<noteq> Error" "s \<noteq> StartParameter" "s \<noteq> Rest"
    "state_rank s = 4" "s \<notin> {StartParameter, ParameterSeparator, Flag1, Flag}"
  using assms by (elim disjE; simp add: in_value_def)+

lemma list_field:
  assumes "field_ok fs pc" and "in_list (pc_state pc)" and "pc_state pc \<noteq> MultiselectStart"
    and "pc_state pc \<notin> {StartParameter, ParameterSeparator, Flag1, Flag}"
  obtains f vs where "pc_field pc = Some f" and "f \<in> set fs" and "f_multiselect f"
    and "value_of pc (f_name f) = Some (Many vs)"
  using assms by (cases "pc_field pc") (simp_all add: field_ok_def del: in_list.simps, blast)

lemma round_multiselect_end_value:
  assumes "form_inv fs pc"
    and "pc_state pc = MultiselectEndValue \<or> pc_state pc = MultiselectEndQuotedValue \<or> pc_state pc = MultiselectEndTickedValue"
  shows "round_ok fs pc (multiselect_end_value auto pc e esc)"
proof -
  note s = list_end_state [OF assms(2)]
  have inv: "pc_incompleteStart pc \<le> pc_i pc" "values_ok fs (pc_values pc)" "field_ok fs pc"
    using assms(1) unfolding form_inv_def by blast+
  obtain f vs where f: "pc_field pc = Some f" "f \<in> set fs" "f_multiselect f" "value_of pc (f_name f) = Some (Many vs)"
    by (rule list_field [OF inv(3) s(1,2,8)])
  have ok: "values_ok fs (AList.update (f_name f) (Many ws) (pc_values pc))" for ws
    using inv(2) f(2,3) by (simp add: values_ok_put)
  show ?thesis
  proof (cases "current pc")
    case None
    then show ?thesis
      using f ok inv(2) s(4) by (simp add: multiselect_end_value_def form_done_def Let_def)
  next
    case (Some u)
    then show ?thesis
      using f ok s(3,5,6,7) by (simp add: multiselect_end_value_def form_inv_def field_ok_def form_state_def Let_def
          text_left_def cursor_left_def)
  qed
qed

lemma round_multiselect_value_separator:
  assumes "form_inv fs pc" and "pc_state pc = MultiselectValueSeparator"
  shows "round_ok fs pc (multiselect_value_separator auto pc e esc)"
  using assms
  by (auto simp: multiselect_value_separator_def round_simps dest: not_at_end split: option.splits)

lemma round_multiselect_next_value:
  assumes "form_inv fs pc" and "pc_state pc = MultiselectNextValue"
  shows "round_ok fs pc (multiselect_next_value pc e esc)"
  using assms
  by (auto simp: multiselect_next_value_def round_simps dest: not_at_end split: option.splits)

lemmas rounds = round_start_parameter round_rest round_parameter_separator round_flag1 round_flag
  round_flag_value_separator round_start_value round_plain round_quoted round_ticked round_end_value
  round_multiselect_start round_multiselect_start_value round_multiselect_plain round_multiselect_quoted
  round_multiselect_ticked round_multiselect_end_value round_multiselect_value_separator
  round_multiselect_next_value

lemma form_step_ok:
  assumes "form_inv fs pc"
  shows "round_ok fs pc (form_step lower auto fs pc e esc)"
  using assms
  by (cases "pc_state pc") (simp_all add: form_step_def rounds, simp_all add: form_inv_def form_state_def)

lemma form_loop_ok:
  assumes "form_inv fs pc"
  shows "\<exists>pc'. form_loop lower auto fs pc e esc = Some (Some pc') \<and> form_done fs pc'"
  using assms
proof (induction pc arbitrary: e esc rule: wf_induct [OF wf_measures, of "[positions_left fs, text_left, cursor_left]"])
  case (1 pc)
  show ?case
  proof (cases "form_step lower auto fs pc e esc")
    case (Next pc' e' esc')
    then show ?thesis
      using 1(1) [rule_format, of pc' e' esc'] form_step_ok [OF 1(2), of lower auto e esc]
      by (simp add: form_loop.simps [of lower auto fs pc])
  next
    case (Return pc')
    then show ?thesis
      using form_step_ok [OF 1(2), of lower auto e esc] by (simp add: form_loop.simps [of lower auto fs pc])
  next
    case Throws
    then show ?thesis
      using form_step_ok [OF 1(2), of lower auto e esc] by simp
  qed
qed

section \<open>What matchBinding leaves to parseForm\<close>

definition match_inv :: "parsed \<Rightarrow> bool" where
  "match_inv pc \<longleftrightarrow>
     pc_state pc \<in> {Start, Command, EndCommand, CommandSeparator} \<and> pc_values pc = [] \<and> pc_field pc = None \<and>
     pc_resolvedForm pc = None \<and> pc_position pc = 0 \<and> (pc_state pc = Start \<longrightarrow> pc_binding pc = None) \<and>
     (pc_state pc \<in> {Command, EndCommand} \<and> pc_binding pc \<noteq> None \<longrightarrow> \<not> blank (char_at pc (pc_incompleteStart pc)))"

definition failed_ok :: "parsed \<Rightarrow> bool" where
  "failed_ok pc \<longleftrightarrow> pc_state pc = Error \<and> pc_values pc = [] \<and> (\<exists>e. pc_error pc = Some e \<and> \<not> unreachable e)"

lemma binding_simps [simp]:
  "pc_binding (goto s pc) = pc_binding pc" "pc_binding (restart pc) = pc_binding pc"
  "pc_binding (advance pc) = pc_binding pc" "pc_binding (take_char c pc) = pc_binding pc"
  "pc_resolvedForm (goto s pc) = pc_resolvedForm pc" "pc_resolvedForm (restart pc) = pc_resolvedForm pc"
  "pc_resolvedForm (advance pc) = pc_resolvedForm pc" "pc_resolvedForm (take_char c pc) = pc_resolvedForm pc"
  "char_at (pc_binding_update b pc) = char_at pc" "char_at (pc_location_update l pc) = char_at pc"
  by (auto simp: goto_def restart_def advance_def take_char_def char_at_def fun_eq_iff split: option.split)

lemma match_step_inv:
  assumes "match_inv pc"
  shows "case match_step lower auto pc bs of
      Go pc' bs' \<Rightarrow> match_inv pc'
    | Done pc' \<Rightarrow> match_inv pc' \<and> pc_state pc' \<in> {Command, EndCommand}
    | Fail pc' \<Rightarrow> failed_ok pc'"
proof -
  consider "pc_state pc = Start" | "pc_state pc = Command" | "pc_state pc = EndCommand" | "pc_state pc = CommandSeparator"
    using assms by (auto simp: match_inv_def)
  then show ?thesis
    by cases (use assms in \<open>auto simp: match_step_def match_inv_def failed_ok_def unreachable_def Let_def
      current_char_at [symmetric] blank_def split: option.split\<close>)
qed

lemma match_loop_inv:
  assumes "match_inv pc"
  shows "case match_loop lower auto pc bs of
      Inl pc' \<Rightarrow> failed_ok pc'
    | Inr pc' \<Rightarrow> match_inv pc' \<and> pc_state pc' \<in> {Command, EndCommand}"
  using assms
proof (induction lower auto pc bs rule: match_loop.induct)
  case (1 lower auto pc bs)
  then show ?case
    using match_step_inv [OF 1(2), of lower auto bs]
    by (cases "match_step lower auto pc bs") (simp_all add: match_loop.simps [of lower auto pc bs])
qed

lemma resolve_form_ok:
  assumes "match_inv pc" and "pc_state pc \<in> {Command, EndCommand}"
  shows "failed_ok (resolve_form forms auto pc) \<or>
    (pc_state (resolve_form forms auto pc) \<noteq> Error \<and> pc_values (resolve_form forms auto pc) = [] \<and>
     pc_field (resolve_form forms auto pc) = None \<and>
     (pc_resolvedForm (resolve_form forms auto pc) \<noteq> None \<longrightarrow>
        \<not> blank (char_at (resolve_form forms auto pc) (pc_incompleteStart (resolve_form forms auto pc)))))"
proof -
  have m: "pc_state pc \<noteq> Error" "pc_values pc = []" "pc_field pc = None" "pc_resolvedForm pc = None"
    and bound: "pc_binding pc \<noteq> None \<Longrightarrow> \<not> blank (char_at pc (pc_incompleteStart pc))"
    using assms unfolding match_inv_def by auto
  have failed: "failed_ok (asError e pc)" if "\<not> unreachable e" for e
    using that m by (simp add: failed_ok_def)
  have set: "char_at (pc_resolvedForm_update u pc) = char_at pc" for u
    by (simp add: char_at_def fun_eq_iff)
  show ?thesis
  proof (cases "pc_binding pc")
    case None
    then show ?thesis
      using m failed by (simp add: resolve_form_def unreachable_def)
  next
    case (Some b)
    then show ?thesis
      using m failed bound
      by (simp add: resolve_form_def unreachable_def set Let_def split: option.split)
  qed
qed

lemma state_updates:
  "char_at (pc_state_update u pc) = char_at pc" "pc_i (pc_i_update k pc) = k (pc_i pc)"
  by (simp_all add: char_at_def fun_eq_iff)

lemma new_command_inv: "match_inv (new_command cmd)"
  by (simp add: match_inv_def new_command_def)

lemma matchBinding_ok:
  fixes lower forms bs auto cmd
  defines "pc \<equiv> matchBinding lower forms bs auto (new_command cmd)"
  shows "failed_ok pc \<or>
    (pc_state pc \<noteq> Error \<and> pc_values pc = [] \<and> pc_field pc = None \<and>
     (pc_resolvedForm pc \<noteq> None \<longrightarrow> \<not> blank (char_at pc (pc_incompleteStart pc))))"
proof (cases "bs = []")
  case True
  then show ?thesis
    by (simp add: pc_def matchBinding_def failed_ok_def unreachable_def new_command_def asError_def)
next
  case False
  then show ?thesis
    using match_loop_inv [OF new_command_inv [of cmd], of lower auto bs] resolve_form_ok
    by (auto simp: pc_def matchBinding_def split: sum.splits)
qed

lemma parseForm_ok:
  fixes lower forms bs auto cmd
  defines "m \<equiv> matchBinding lower forms bs auto (new_command cmd)"
  shows "\<exists>pc. parseForm lower auto m = Some (Some pc) \<and>
    (pc_state pc = Error \<longrightarrow> (\<exists>e. pc_error pc = Some e \<and> \<not> unreachable e)) \<and>
    values_ok (case pc_resolvedForm m of None \<Rightarrow> [] | Some form \<Rightarrow> parsed_fields form) (pc_values pc)"
proof -
  have empty: "values_ok fs []" for fs by (simp add: values_ok_def)
  show ?thesis
  proof (cases "pc_state m = Error \<or> pc_resolvedForm m = None")
    case True
    then show ?thesis
      using matchBinding_ok [of lower forms bs auto cmd] empty
      by (auto simp: parseForm_def m_def [symmetric] failed_ok_def split: option.split)
  next
    case False
    then obtain form where form: "pc_resolvedForm m = Some form" and "pc_state m \<noteq> Error" by auto
    then have m: "pc_values m = []" "pc_field m = None" "\<not> blank (char_at m (pc_incompleteStart m))"
      using matchBinding_ok [of lower forms bs auto cmd] by (auto simp: m_def [symmetric] failed_ok_def)
    let ?pc = "m\<lparr>pc_state := StartParameter, pc_i := pc_incompleteStart m\<rparr>"
    have "form_inv (parsed_fields form) ?pc"
      using m empty by (simp add: form_inv_def form_state_def field_ok_def current_char_at in_value_def state_updates)
    from form_loop_ok [OF this, of lower auto False False] show ?thesis
      using form \<open>pc_state m \<noteq> Error\<close> by (auto simp: parseForm_def form_done_def)
  qed
qed

section \<open>An example\<close>

definition sample_field :: app_field where
  "sample_field = \<lparr>f_name = js ''text'', f_type = TEXT, f_is_required = True, f_readonly = False, f_value = None,
     f_description = None, f_label = Some (js ''t''), f_hint = None, f_position = Some 1, f_modal_label = None,
     f_options = None, f_multiselect = False, f_lookup = None\<rparr>"

definition sample_form :: app_form where
  "sample_form = \<lparr>fm_title = None, fm_fields = Some [sample_field], fm_source = None,
     fm_submit = Some \<lparr>call_path = js ''/s'', call_expand = None, call_state = None\<rparr>\<rparr>"

definition sample_binding :: app_binding where
  "sample_binding = Binding \<lparr>b_app_id = js ''app'', b_location = None, b_label = js ''j'', b_icon = None,
     b_hint = None, b_description = None, b_form = Some sample_form, b_submit = None\<rparr> None"

definition sample_match :: "jsstring \<Rightarrow> parsed" where
  "sample_match cmd = matchBinding id (\<lambda>_ _. None) [sample_binding] False (new_command cmd)"

section \<open>Properties\<close>

text \<open>
  C6. Parsing a command always returns, in both modes: the loop of \<open>parseForm\<close>, which goes back to the
  start of a value when a boolean flag has none, ends for every text, form and bindings, and nothing
  is pushed onto what is not an array.
\<close>

theorem parse_returns:
  "\<exists>pc. parseForm lower auto (matchBinding lower forms bs auto (new_command cmd)) = Some (Some pc)"
  using parseForm_ok [of lower auto forms bs cmd] by blast

text \<open>
  C39. The errors the code calls unreachable are: no command ends in one about a missing field, an
  unexpected blank or an unexpected state.
\<close>

theorem unreachable_errors:
  assumes "parseForm lower auto (matchBinding lower forms bs auto (new_command cmd)) = Some (Some pc)"
    and "pc_state pc = Error"
  shows "\<exists>e. pc_error pc = Some e \<and> e \<noteq> Missing_field_value \<and> e \<noteq> Unexpected_whitespace \<and> e \<noteq> Unexpected_state s"
  using assms parseForm_ok [of lower auto forms bs cmd] by (auto simp: unreachable_def)

theorem unreachable_errors_witness:
  "\<exists>pc e. parseForm id False (sample_match (js ''/j -x'')) = Some (Some pc) \<and> pc_error pc = Some e \<and> e \<noteq> Unexpected_whitespace"
proof -
  have "map_option (map_option pc_state) (parseForm id False (sample_match (js ''/j -x''))) = Some (Some Error)"
    by code_simp
  then obtain pc where "parseForm id False (sample_match (js ''/j -x'')) = Some (Some pc)" and "pc_state pc = Error"
    by auto
  then show ?thesis
    using unreachable_errors [of id False "\<lambda>_ _. None" "[sample_binding]" "js ''/j -x''" pc Rest]
    by (auto simp: sample_match_def)
qed

text \<open>
  C37. The values of a parsed command are typed by the form: each belongs to a field of the form
  that is neither read-only nor text to display, and a list of values only to a field that takes
  several.
\<close>

theorem parsed_values_typed:
  assumes "pc_resolvedForm (matchBinding lower forms bs auto (new_command cmd)) = Some form"
    and "parseForm lower auto (matchBinding lower forms bs auto (new_command cmd)) = Some (Some pc)"
    and "map_of (pc_values pc) name = Some v"
  shows "\<exists>f \<in> set (parsed_fields form). f_name f = name \<and> f_type f \<noteq> MARKDOWN \<and> \<not> f_readonly f \<and>
    (case v of One _ \<Rightarrow> True | Many _ \<Rightarrow> f_multiselect f)"
  using assms parseForm_ok [of lower auto forms bs cmd]
  by (fastforce simp: values_ok_def parsed_fields_def)

theorem parsed_values_typed_witness:
  "\<exists>f \<in> set (parsed_fields sample_form). f_name f = js ''text'' \<and> f_type f \<noteq> MARKDOWN \<and> \<not> f_readonly f"
proof -
  have form: "pc_resolvedForm (sample_match (js ''/j a'')) = Some sample_form" by code_simp
  have "map_option (map_option pc_values) (parseForm id False (sample_match (js ''/j a'')))
      = Some (Some [(js ''text'', One (js ''a''))])" by code_simp
  then obtain pc where pc: "parseForm id False (sample_match (js ''/j a'')) = Some (Some pc)"
    and "pc_values pc = [(js ''text'', One (js ''a''))]" by auto
  then have "map_of (pc_values pc) (js ''text'') = Some (One (js ''a''))" by simp
  from parsed_values_typed [OF form [unfolded sample_match_def] pc [unfolded sample_match_def] this]
  show ?thesis by blast
qed

end
