(* ===== verification/AppBindingsProps.thy ===== *)
theory AppBindingsProps
  imports CommandParserProps
begin

text \<open>
  What cleaning guarantees of the bindings and forms that reach the store and the parser, and what
  it does not: cleaned bindings are well-formed at every depth, cleaning a form twice does nothing
  more, and labels that differ in case only are kept though the parser cannot tell them apart.
\<close>

section \<open>Well-formed forms\<close>

definition option_label :: "select_option \<Rightarrow> jsstring" where
  "option_label opt = (if o_label opt = [] then o_value opt else o_label opt)"

definition options_ok :: "select_option list \<Rightarrow> bool" where
  "options_ok opts \<longleftrightarrow>
     distinct (map option_label opts) \<and> distinct (map o_value opts) \<and>
     (\<forall>opt \<in> set opts. option_label opt \<noteq> [] \<and> option_label opt \<notin> set inherited \<and> o_value opt \<notin> set inherited)"

definition field_valid :: "app_field \<Rightarrow> bool" where
  "field_valid f \<longleftrightarrow>
     f_name f \<noteq> [] \<and> \<not> has_blank (f_name f) \<and> \<not> has_blank (field_label f) \<and> field_label f \<notin> set inherited \<and>
     (f_type f = STATIC_SELECT \<longrightarrow> (\<exists>opts. f_options f = Some opts \<and> opts \<noteq> [] \<and> options_ok opts)) \<and>
     (f_type f = DYNAMIC_SELECT \<longrightarrow> f_lookup f \<noteq> None)"

definition fields_valid :: "app_field list \<Rightarrow> bool" where
  "fields_valid fs \<longleftrightarrow> distinct (map field_label fs) \<and> (\<forall>f \<in> set fs. field_valid f)"

definition form_valid :: "app_form \<Rightarrow> bool" where
  "form_valid form \<longleftrightarrow> (case fm_fields form of None \<Rightarrow> True | Some fs \<Rightarrow> fields_valid fs)"

lemma clean_options_ok:
  "options_ok (clean_options labels vals opts) \<and>
   option_label ` set (clean_options labels vals opts) \<inter> set labels = {} \<and>
   o_value ` set (clean_options labels vals opts) \<inter> set vals = {}"
proof (induction labels vals opts rule: clean_options.induct)
  case (2 labels vals opt opts)
  show ?case
  proof (cases "option_label opt = [] \<or> used labels (option_label opt) \<or> used vals (o_value opt)")
    case True
    then have "clean_options labels vals (opt # opts) = clean_options labels vals opts"
      by (auto simp: Let_def option_label_def)
    moreover note 2(1) [OF option_label_def]
    ultimately show ?thesis using True by (simp add: option_label_def)
  next
    case False
    let ?rest = "clean_options (option_label opt # labels) (o_value opt # vals) opts"
    from False have cleaned: "clean_options labels vals (opt # opts) = opt # ?rest"
      by (simp add: Let_def option_label_def)
    have "options_ok ?rest" "option_label ` set ?rest \<inter> set (option_label opt # labels) = {}"
      "o_value ` set ?rest \<inter> set (o_value opt # vals) = {}"
      using 2(2) [OF option_label_def] False by (simp_all add: option_label_def)
    then show ?thesis
      unfolding cleaned using False by (auto simp: options_ok_def used_def)
  qed
qed (simp add: options_ok_def)

lemma clean_options_id:
  assumes "options_ok opts" and "option_label ` set opts \<inter> set labels = {}" and "o_value ` set opts \<inter> set vals = {}"
  shows "clean_options labels vals opts = opts"
  using assms
proof (induction labels vals opts rule: clean_options.induct)
  case (2 labels vals opt opts)
  then show ?case
    by (auto simp: Let_def options_ok_def option_label_def [of opt] used_def)
qed simp

lemma static_select_simps [simp]:
  "f_name (cleanStaticSelect f) = f_name f" "field_label (cleanStaticSelect f) = field_label f"
  "f_type (cleanStaticSelect f) = f_type f" "f_lookup (cleanStaticSelect f) = f_lookup f"
  "f_label (cleanStaticSelect f) = f_label f" "f_readonly (cleanStaticSelect f) = f_readonly f"
  by (simp_all add: cleanStaticSelect_def field_label_def split: option.split)

lemma static_select_idem: "cleanStaticSelect (cleanStaticSelect f) = cleanStaticSelect f"
proof (cases "f_options f")
  case (Some opts)
  have "clean_options [] [] (clean_options [] [] opts) = clean_options [] [] opts"
    using clean_options_ok [of "[]" "[]" opts] by (intro clean_options_id) auto
  with Some show ?thesis by (simp add: cleanStaticSelect_def)
qed (simp add: cleanStaticSelect_def)

lemma static_select_valid:
  assumes "f_options (cleanStaticSelect f) \<noteq> None" and "f_options (cleanStaticSelect f) \<noteq> Some []"
  shows "\<exists>opts. f_options (cleanStaticSelect f) = Some opts \<and> opts \<noteq> [] \<and> options_ok opts"
  using assms clean_options_ok [of "[]" "[]"] by (auto simp: cleanStaticSelect_def)

lemma clean_fields_valid:
  "fields_valid (clean_fields labels fs) \<and> field_label ` set (clean_fields labels fs) \<inter> set labels = {}"
proof (induction labels fs rule: clean_fields.induct)
  case (2 labels f fs)
  let ?f = "if f_type f = STATIC_SELECT then cleanStaticSelect f else f"
  have label: "field_label ?f = field_label f" by simp
  show ?case
  proof (cases "f_name f = [] \<or> has_blank (f_name f) \<or> has_blank (field_label f) \<or> used labels (field_label f) \<or>
      f_type f = STATIC_SELECT \<and> (f_options ?f = None \<or> f_options ?f = Some []) \<or>
      f_type f = DYNAMIC_SELECT \<and> f_lookup f = None")
    case True
    then show ?thesis using 2 by (auto simp: Let_def)
  next
    case False
    then have cleaned: "clean_fields labels (f # fs) = ?f # clean_fields (field_label f # labels) fs"
      by (auto simp: Let_def)
    have "field_valid ?f"
      using False static_select_valid [of f] by (auto simp: field_valid_def used_def)
    moreover have "fields_valid (clean_fields (field_label f # labels) fs) \<and>
        field_label ` set (clean_fields (field_label f # labels) fs) \<inter> set (field_label f # labels) = {}"
      using False 2(4) by (auto simp: Let_def)
    moreover have "field_label f \<notin> set labels" using False by (simp add: used_def)
    ultimately show ?thesis unfolding cleaned using label by (auto simp: fields_valid_def)
  qed
qed (simp add: fields_valid_def)

lemma static_select_id: "options_ok opts \<Longrightarrow> f_options f = Some opts \<Longrightarrow> cleanStaticSelect f = f"
  using clean_options_id [of opts "[]" "[]"] by (simp add: cleanStaticSelect_def)

lemma clean_fields_id:
  assumes "fields_valid fs" and "field_label ` set fs \<inter> set labels = {}"
  shows "clean_fields labels fs = fs"
  using assms
proof (induction fs arbitrary: labels)
  case (Cons f fs)
  have f: "field_valid f" "fields_valid fs" "field_label f \<notin> set (map field_label fs)" "field_label f \<notin> set labels"
    using Cons.prems by (auto simp: fields_valid_def)
  have same: "(if f_type f = STATIC_SELECT then cleanStaticSelect f else f) = f"
    using f(1) static_select_id by (auto simp: field_valid_def)
  have "clean_fields (field_label f # labels) fs = fs"
    using Cons.prems f by (intro Cons.IH) auto
  then show ?case
    using f(1,4) same by (auto simp: Let_def field_valid_def used_def)
qed simp

lemma cleanForm_valid: "form_valid (cleanForm form)"
  using clean_fields_valid by (auto simp: form_valid_def cleanForm_def split: option.split)

lemma cleanForm_id: "form_valid form \<Longrightarrow> cleanForm form = form"
  using clean_fields_id [where labels = "[]"] by (auto simp: form_valid_def cleanForm_def split: option.splits)

section \<open>Well-formed bindings\<close>

abbreviation binding_labels :: "app_binding list \<Rightarrow> jsstring list" where
  "binding_labels bs \<equiv> map (b_label \<circ> b_core) bs"

text \<open>The bindings of one: each with an app, a name that can be typed, and one kind of content\<close>

definition core_valid :: "jsstring \<Rightarrow> nat \<Rightarrow> binding_core \<Rightarrow> bool" where
  "core_valid topLocation depth c \<longleftrightarrow>
     b_app_id c \<noteq> [] \<and> trim (b_label c) \<noteq> [] \<and>
     (topLocation = COMMAND_LOCATION \<longrightarrow> \<not> has_blank (b_label c) \<and> b_label c \<notin> set inherited) \<and>
     (topLocation = CHANNEL_HEADER_ICON \<and> depth = 0 \<longrightarrow> b_icon c \<noteq> None \<and> b_icon c \<noteq> Some [])"

definition leaf_valid :: "binding_core \<Rightarrow> bool" where
  "leaf_valid c \<longleftrightarrow>
     (case (b_form c, b_submit c) of
        (Some form, None) \<Rightarrow> form_valid form \<and> (fm_submit form \<noteq> None \<or> fm_source form \<noteq> None)
      | (None, Some call) \<Rightarrow> True
      | _ \<Rightarrow> False)"

definition siblings_ok :: "jsstring \<Rightarrow> app_binding list \<Rightarrow> bool" where
  "siblings_ok topLocation bs \<longleftrightarrow> (topLocation = COMMAND_LOCATION \<longrightarrow> distinct (binding_labels bs))"

fun bindings_valid :: "jsstring \<Rightarrow> nat \<Rightarrow> app_binding list \<Rightarrow> bool" where
  "bindings_valid topLocation depth [] \<longleftrightarrow> True"
| "bindings_valid topLocation depth (Binding c subs # bs) \<longleftrightarrow>
     core_valid topLocation depth c \<and>
     (case subs of
        Some (s # ss) \<Rightarrow> b_form c = None \<and> b_submit c = None \<and> bindings_valid topLocation (Suc depth) (s # ss) \<and>
          siblings_ok topLocation (s # ss)
      | _ \<Rightarrow> leaf_valid c) \<and>
     bindings_valid topLocation depth bs"

definition labels_fresh :: "jsstring \<Rightarrow> jsstring list \<Rightarrow> app_binding list \<Rightarrow> bool" where
  "labels_fresh topLocation labels bs \<longleftrightarrow>
     (topLocation = COMMAND_LOCATION \<longrightarrow> set (binding_labels bs) \<inter> set labels = {})"

lemma core_valid_if:
  "\<not> invalid_label topLocation depth labels c \<Longrightarrow> core_valid topLocation depth c"
  by (auto simp: invalid_label_def core_valid_def used_def)

lemma label_unused:
  "\<not> invalid_label topLocation depth labels c \<Longrightarrow> topLocation = COMMAND_LOCATION \<Longrightarrow> b_label c \<notin> set labels"
  by (auto simp: invalid_label_def used_def)

definition kept_ok :: "jsstring \<Rightarrow> nat \<Rightarrow> jsstring list \<Rightarrow> app_binding list \<Rightarrow> bool" where
  "kept_ok topLocation depth labels bs \<longleftrightarrow>
     bindings_valid topLocation depth bs \<and> siblings_ok topLocation bs \<and> labels_fresh topLocation labels bs"

lemma kept_Cons:
  assumes "\<not> invalid_label topLocation depth labels c" and "b_core b = c'" and "core_valid topLocation depth c'"
    and "b_label c' = b_label c" and "kept_ok topLocation depth (b_label c # labels) bs"
    and "bindings_valid topLocation depth [b]"
  shows "kept_ok topLocation depth labels (b # bs)"
proof -
  have "bindings_valid topLocation depth (b # bs)"
    using assms(5,6) by (cases b) (simp add: kept_ok_def split: option.split list.split)
  then show ?thesis
    using assms(2,4,5) label_unused [OF assms(1)]
    by (auto simp: kept_ok_def siblings_ok_def labels_fresh_def)
qed

lemma clean_bindings_ok: "kept_ok topLocation depth labels (clean_bindings topLocation depth app_id location labels bs)"
proof (induction topLocation depth app_id location labels bs rule: clean_bindings.induct)
  case (2 topLocation depth app_id location labels c subs bs)
  define c' where "c' = inherit_defaults app_id location c"
  define hasBindings where "hasBindings \<longleftrightarrow> subs \<noteq> None \<and> subs \<noteq> Some []"
  define skip where "skip = clean_bindings topLocation depth app_id location labels bs"
  define kept where "kept = clean_bindings topLocation depth app_id location (b_label c' # labels) bs"
  have skip: "kept_ok topLocation depth labels skip"
    unfolding skip_def by (rule 2(1) [OF refl])
  have kept: "kept_ok topLocation depth (b_label c' # labels) kept"
    unfolding kept_def c'_def by (rule 2(2) [OF refl refl])
  show ?case
  proof (cases "invalid_label topLocation depth labels c' \<or> invalid_content c' hasBindings")
    case True
    then have "clean_bindings topLocation depth app_id location labels (Binding c subs # bs) = skip"
      by (auto simp: Let_def c'_def hasBindings_def skip_def)
    with skip show ?thesis by simp
  next
    case valid: False
    then have label: "\<not> invalid_label topLocation depth labels c'" and core: "core_valid topLocation depth c'"
      by (auto intro: core_valid_if)
    show ?thesis
    proof (cases hasBindings)
      case True
      then obtain ss where ss: "subs = Some ss" "ss \<noteq> []" by (auto simp: hasBindings_def)
      define ss' where "ss' = clean_bindings topLocation (Suc depth) (b_app_id c') (b_location c') [] ss"
      have ss': "kept_ok topLocation (Suc depth) [] ss'"
        unfolding ss'_def c'_def by (rule 2(3) [OF refl refl refl refl _ _ ss(1)])
          (use valid True in \<open>simp_all add: c'_def hasBindings_def\<close>)
      have cleaned: "clean_bindings topLocation depth app_id location labels (Binding c subs # bs)
          = (if ss' = [] then skip else Binding c' (Some ss') # kept)"
        using valid True ss by (simp add: Let_def c'_def hasBindings_def skip_def kept_def ss'_def)
      show ?thesis
      proof (cases ss')
        case Nil
        then show ?thesis using cleaned skip by simp
      next
        case (Cons t ts)
        have "b_form c' = None" "b_submit c' = None"
          using valid True by (auto simp: invalid_content_def Let_def)
        then have "bindings_valid topLocation depth [Binding c' (Some ss')]"
          using core ss' Cons by (simp add: kept_ok_def)
        then have "kept_ok topLocation depth labels (Binding c' (Some ss') # kept)"
          using label core kept by (intro kept_Cons) simp_all
        then show ?thesis using cleaned Cons by simp
      qed
    next
      case False
      have no_subs: "(case subs of Some (s # ss) \<Rightarrow> P s ss | _ \<Rightarrow> Q) = Q" for P Q
        using False by (auto simp: hasBindings_def split: option.split list.split)
      show ?thesis
      proof (cases "b_form c'")
        case None
        then have leaf: "leaf_valid c'"
          using valid False by (auto simp: invalid_content_def leaf_valid_def Let_def split: option.split)
        have "clean_bindings topLocation depth app_id location labels (Binding c subs # bs) = Binding c' subs # kept"
          using valid False None by (auto simp: Let_def c'_def hasBindings_def kept_def)
        moreover have "kept_ok topLocation depth labels (Binding c' subs # kept)"
          using label core kept leaf by (intro kept_Cons) (simp_all add: no_subs)
        ultimately show ?thesis by simp
      next
        case (Some form)
        let ?c = "c'\<lparr>b_form := Some (cleanForm form)\<rparr>"
        have cleaned: "clean_bindings topLocation depth app_id location labels (Binding c subs # bs)
            = (if fm_submit form = None \<and> fm_source form = None then skip else Binding ?c subs # kept)"
          using valid False Some by (auto simp: Let_def c'_def hasBindings_def kept_def skip_def)
        have "leaf_valid ?c" if "\<not> (fm_submit form = None \<and> fm_source form = None)"
          using that valid False Some cleanForm_valid
          by (auto simp: invalid_content_def leaf_valid_def Let_def cleanForm_def split: option.split)
        moreover have "core_valid topLocation depth ?c" using core by (simp add: core_valid_def)
        ultimately have "kept_ok topLocation depth labels (Binding ?c subs # kept)"
          if "\<not> (fm_submit form = None \<and> fm_source form = None)"
          using that label kept by (intro kept_Cons [where c = c' and c' = ?c]) (simp_all add: no_subs)
        then show ?thesis using cleaned skip by simp
      qed
    qed
  qed
qed (simp add: kept_ok_def siblings_ok_def labels_fresh_def)

section \<open>Labels and the parser\<close>

lemma find_unique:
  assumes "distinct (map g xs)" and "x \<in> set xs" and "g x = y"
  shows "find (\<lambda>z. g z = y) xs = Some x"
  using assms by (induction xs) auto

lemma cleaned_labels:
  "fm_fields (cleanForm form) = Some fs \<Longrightarrow> fields_valid fs"
  using cleanForm_valid [of form] by (simp add: form_valid_def)

lemma parsed_fields_subset: "set (parsed_fields form) \<subseteq> (case fm_fields form of None \<Rightarrow> {} | Some fs \<Rightarrow> set fs)"
  by (auto simp: parsed_fields_def split: option.split)

section \<open>Properties\<close>

lemma validated_binding:
  assumes "b \<in> set (validateBindings bs)"
  shows "\<exists>ss location. bindings b = Some ss \<and> ss \<noteq> [] \<and> b_location (b_core b) = Some location \<and>
    location \<in> {COMMAND_LOCATION, CHANNEL_HEADER_ICON, POST_MENU_ITEM} \<and>
    bindings_valid location 0 ss \<and> (location = COMMAND_LOCATION \<longrightarrow> distinct (binding_labels ss))"
proof -
  from assms obtain bs' location where loc: "location \<in> {COMMAND_LOCATION, CHANNEL_HEADER_ICON, POST_MENU_ITEM}"
    and b: "b \<in> set (filterAndCleanBindings bs' location)"
    by (auto simp: validateBindings_def split: option.splits)
  then obtain b' where "b = cleanBinding b' location" "b_location (b_core b') = Some location"
    "bindings b \<noteq> None" "bindings b \<noteq> Some []"
    by (auto simp: filterAndCleanBindings_def)
  then show ?thesis
    using loc clean_bindings_ok [where topLocation = location and depth = 0 and labels = "[]"]
    by (auto simp: cleanBinding_def kept_ok_def siblings_ok_def)
qed

text \<open>
  C35. What \<open>validateBindings\<close> lets into the store is well-formed at every depth: each binding has an app
  and a visible label and is either a non-empty group of well-formed bindings, or a submit call, or a form
  with a call whose fields have names without blanks and pairwise distinct labels, a static select has distinct
  options and a dynamic one a lookup; a command's labels can be typed and no two in a group are the same.
\<close>

theorem store_bindings_valid:
  assumes "b \<in> set (validateBindings bs)"
  shows "\<exists>ss location. bindings b = Some ss \<and> ss \<noteq> [] \<and> b_location (b_core b) = Some location \<and>
    location \<in> {COMMAND_LOCATION, CHANNEL_HEADER_ICON, POST_MENU_ITEM} \<and>
    bindings_valid location 0 ss \<and> (location = COMMAND_LOCATION \<longrightarrow> distinct (binding_labels ss))"
  by (rule validated_binding [OF assms])

definition sample_group :: app_binding where
  "sample_group = Binding \<lparr>b_app_id = js ''app'', b_location = Some COMMAND_LOCATION, b_label = [], b_icon = None,
     b_hint = None, b_description = None, b_form = None, b_submit = None\<rparr> (Some [sample_binding])"

lemma sample_group_kept: "\<exists>b. b \<in> set (validateBindings (Some [sample_group]))"
proof -
  have "clean_bindings COMMAND_LOCATION 0 (js ''app'') (Some COMMAND_LOCATION) [] [sample_binding] \<noteq> []"
    by (simp add: sample_binding_def sample_form_def Let_def inherit_defaults_def invalid_label_def invalid_content_def
        trim_def trimmed_units_def COMMAND_LOCATION_def CHANNEL_HEADER_ICON_def has_blank_def used_def inherited_def)
  then have "bindings (cleanBinding sample_group COMMAND_LOCATION) \<notin> {None, Some []}"
    by (simp add: cleanBinding_def sample_group_def)
  then have "cleanBinding sample_group COMMAND_LOCATION \<in> set (filterAndCleanBindings [sample_group] COMMAND_LOCATION)"
    by (simp add: filterAndCleanBindings_def sample_group_def)
  then show ?thesis by (auto simp: validateBindings_def)
qed

theorem store_bindings_valid_witness:
  "\<exists>b ss. b \<in> set (validateBindings (Some [sample_group])) \<and> bindings b = Some ss \<and> ss \<noteq> []"
  using sample_group_kept store_bindings_valid by blast

text \<open>
  Cleaning a form a second time changes nothing: fields and options it keeps are valid together, and
  of a valid form it removes none.
\<close>

theorem clean_form_idempotent: "cleanForm (cleanForm form) = cleanForm form"
  by (intro cleanForm_id cleanForm_valid)

text \<open>
  In a cleaned form every flag is found by its label, so that the round trip of flags applies to it, if
  no two labels differ in case only.
\<close>

theorem cleaned_flags_found:
  assumes "fm_fields (cleanForm form) = Some fs" and "f \<in> set (parsed_fields (cleanForm form))"
    and "f_label f = Some l" and "l \<noteq> []" and "\<forall>g \<in> set fs. f_label g \<noteq> None \<and> f_label g \<noteq> Some []"
    and "inj_on lower (field_label ` set fs)"
  shows "find_flag lower l (parsed_fields (cleanForm form)) = Some f"
proof -
  let ?fs = "parsed_fields (cleanForm form)"
  have sub: "set ?fs \<subseteq> set fs" using parsed_fields_subset [of "cleanForm form"] assms(1) by simp
  have label: "map_option lower (f_label g) = Some (lower (field_label g))" if "g \<in> set ?fs" for g
  proof -
    have "f_label g \<noteq> None \<and> f_label g \<noteq> Some []" using that sub assms(5) by blast
    then show ?thesis by (auto simp: field_label_def)
  qed
  have "distinct (map field_label ?fs)"
    using cleaned_labels [OF assms(1)] assms(1)
    by (simp add: parsed_fields_def fields_valid_def distinct_map_filter)
  moreover have "inj_on lower (field_label ` set ?fs)"
    using assms(6) sub by (meson image_mono inj_on_subset)
  ultimately have "distinct (map (\<lambda>g. lower (field_label g)) ?fs)"
    by (simp add: distinct_map comp_inj_on [of field_label _ lower, unfolded comp_def])
  then have "distinct (map Some (map (\<lambda>g. lower (field_label g)) ?fs))"
    by (subst distinct_map) simp
  also have "map Some (map (\<lambda>g. lower (field_label g)) ?fs) = map (\<lambda>g. map_option lower (f_label g)) ?fs"
    unfolding map_map comp_def by (rule map_cong [OF refl]) (rule label [symmetric])
  finally have "distinct (map (\<lambda>g. map_option lower (f_label g)) ?fs)" .
  from find_unique [OF this assms(2)] show ?thesis
    using assms(3) by (simp add: find_flag_def)
qed

theorem cleaned_flags_found_witness:
  "find_flag id (js ''t'') (parsed_fields (cleanForm sample_form)) = Some sample_field"
proof -
  have form: "cleanForm sample_form = sample_form" by code_simp
  show ?thesis
    by (rule cleaned_flags_found [of _ "[sample_field]"])
      (simp_all add: form, simp_all add: sample_form_def parsed_fields_def sample_field_def)
qed

text \<open>
  Labels that differ in case only both pass the cleaning, which compares them as they are, but
  the second can never be used: the parser, which compares them in lower case, always finds the first.
\<close>

theorem shadowed_flag:
  assumes "form_valid form" and "fm_fields form = Some [f, g]" and "f \<in> set (parsed_fields form)"
    and "f_label f = Some l" and "f_label g = Some l'" and "l \<noteq> l'" and "lower l = lower l'"
  shows "cleanForm form = form \<and> (\<forall>s. find_flag lower s (parsed_fields (cleanForm form)) \<noteq> Some g)"
proof -
  have same: "cleanForm form = form" using assms(1) by (rule cleanForm_id)
  have "parsed_fields form = [f] \<or> parsed_fields form = [f, g]"
    using assms(2,3) by (auto simp: parsed_fields_def split: if_splits)
  then show ?thesis
    using assms(4-7) unfolding same by (auto simp: find_flag_def split: if_splits)
qed

definition ascii_lower :: "jsstring \<Rightarrow> jsstring" where
  "ascii_lower s = map (\<lambda>u. if 65 \<le> u \<and> u \<le> 90 then u + 32 else u) s"

theorem shadowed_flag_witness:
  "\<exists>f g form. f \<noteq> g \<and> cleanForm form = form \<and> fm_fields form = Some [f, g] \<and>
     (\<forall>s. find_flag ascii_lower s (parsed_fields form) \<noteq> Some g)"
proof -
  let ?g = "sample_field\<lparr>f_name := js ''other'', f_label := Some (js ''T'')\<rparr>"
  let ?form = "sample_form\<lparr>fm_fields := Some [sample_field, ?g]\<rparr>"
  have "form_valid ?form"
    by (simp add: form_valid_def fields_valid_def field_valid_def sample_field_def field_label_def has_blank_def inherited_def)
  then have "cleanForm ?form = ?form \<and> (\<forall>s. find_flag ascii_lower s (parsed_fields (cleanForm ?form)) \<noteq> Some ?g)"
    by (rule shadowed_flag [of ?form sample_field ?g "js ''t''" "js ''T''"])
      (simp_all add: sample_field_def ascii_lower_def parsed_fields_def)
  moreover have "sample_field \<noteq> ?g"
    by (simp add: sample_field_def)
  moreover have "fm_fields ?form = Some [sample_field, ?g]" by simp
  ultimately show ?thesis by metis
qed

end
