(* ===== verification/AppCalls.thy ===== *)
theory AppCalls
  imports AppBindingsProps
begin

text \<open>
  Calls to apps and the part of the store apps have: \<open>createCallRequest\<close> and \<open>createCallContext\<close> of
  \<open>channels/src/utils/apps.ts\<close>, \<open>doAppFetchForm\<close>, \<open>doAppSubmit\<close>, \<open>doAppLookup\<close> and \<open>handleBindingClick\<close> of
  \<open>channels/src/actions/apps.ts\<close>, the reducers \<open>reducers/entities/apps.ts\<close>, the selectors
  \<open>selectors/entities/apps.ts\<close>, and the cache of submittable forms of the command parser.

  Parameters: \<open>execute\<close> is \<open>Client4.executeAppCall\<close>, which answers or fails with a message; \<open>fm\<close> is the
  translation of a message; following a link is an effect the value returned does not depend on.
\<close>

section \<open>Calls\<close>

record app_context =
  cx_app_id :: jsstring
  cx_location :: "jsstring option"
  cx_channel_id :: "jsstring option"
  cx_team_id :: "jsstring option"
  cx_post_id :: "jsstring option"
  cx_root_id :: "jsstring option"
  cx_track_as_submit :: bool

text \<open>
  What is submitted for a field. \<open>VSame\<close> is an option whose label and value are both something that
  is not a string, \<open>VInherited\<close> what an object inherits under a name.
\<close>

datatype call_value =
    VString jsstring | VStrings "jsstring list" | VOption select_option | VOptions "select_option list" | VBool bool
  | VUndefined | VInherited | VSame call_value

type_synonym call_values = "(jsstring \<times> call_value) list"

record call_request =
  cr_path :: jsstring
  cr_expand :: "(jsstring \<times> jsstring) list"
  cr_state :: "jsstring option"
  cr_context :: app_context
  cr_values :: "call_values option"
  cr_raw_command :: "jsstring option"
  cr_selected_field :: "jsstring option"
  cr_query :: "jsstring option"

definition createCallContext ::
  "jsstring \<Rightarrow> jsstring option \<Rightarrow> jsstring option \<Rightarrow> jsstring option \<Rightarrow> jsstring option \<Rightarrow> jsstring option \<Rightarrow> app_context" where
  "createCallContext appID location channelID teamID postID rootID =
     \<lparr>cx_app_id = appID, cx_location = location, cx_channel_id = channelID, cx_team_id = teamID,
      cx_post_id = postID, cx_root_id = rootID, cx_track_as_submit = False\<rparr>"

definition createCallRequest ::
  "app_call \<Rightarrow> app_context \<Rightarrow> (jsstring \<times> jsstring) list \<Rightarrow> call_values option \<Rightarrow> jsstring option \<Rightarrow> call_request" where
  "createCallRequest call context defaultExpand vals rawCommand =
     \<lparr>cr_path = call_path call,
      cr_expand = fold (\<lambda>(k, v). AList.update k v) (case call_expand call of None \<Rightarrow> [] | Some e \<Rightarrow> e) defaultExpand,
      cr_state = call_state call, cr_context = context, cr_values = vals, cr_raw_command = rawCommand,
      cr_selected_field = None, cr_query = None\<rparr>"

section \<open>Answers\<close>

datatype response_type = RS_OK | RS_ERROR | RS_FORM | RS_NAVIGATE | RS_Other jsstring

record call_response =
  rs_type :: "response_type option"
  rs_text :: "jsstring option"
  rs_form :: "app_form option"
  rs_navigate_to_url :: "jsstring option"
  rs_items :: "select_option list option"

datatype call_message =
    No_valid_form | No_url | Malformed_binding | Unknown_type response_type | Unexpected_type response_type
  | Unexpected_error | Unknown_error | Missing_source | Missing_submit

type_synonym call_result = "call_response + call_response"

text \<open>\<open>Inl\<close> is an error, \<open>Inr\<close> the data.\<close>

definition makeCallErrorResponse :: "jsstring \<Rightarrow> call_response" where
  "makeCallErrorResponse errMessage = \<lparr>rs_type = Some RS_ERROR, rs_text = Some errMessage, rs_form = None,
     rs_navigate_to_url = None, rs_items = None\<rparr>"

type_synonym executor = "call_request \<Rightarrow> bool \<Rightarrow> jsstring + call_response"

definition responseType :: "call_response \<Rightarrow> response_type" where
  "responseType res = (case rs_type res of None \<Rightarrow> RS_OK | Some t \<Rightarrow> t)"

definition call_failed :: "(call_message \<Rightarrow> jsstring) \<Rightarrow> jsstring \<Rightarrow> call_result" where
  "call_failed fm message = Inl (makeCallErrorResponse (if message = [] then fm Unexpected_error else message))"

definition has_submit :: "call_response \<Rightarrow> bool" where
  "has_submit res \<longleftrightarrow> Option.bind (rs_form res) fm_submit \<noteq> None"

definition with_clean_form :: "call_response \<Rightarrow> call_response" where
  "with_clean_form res = res\<lparr>rs_form := map_option cleanForm (rs_form res)\<rparr>"

definition doAppFetchForm :: "(call_message \<Rightarrow> jsstring) \<Rightarrow> executor \<Rightarrow> call_request \<Rightarrow> call_result" where
  "doAppFetchForm fm execute call =
     (case execute call False of
        Inl message \<Rightarrow> call_failed fm message
      | Inr res \<Rightarrow>
          (case responseType res of
             RS_ERROR \<Rightarrow> Inl res
           | RS_FORM \<Rightarrow>
               if \<not> has_submit res then Inl (makeCallErrorResponse (fm No_valid_form)) else Inr (with_clean_form res)
           | t \<Rightarrow> Inl (makeCallErrorResponse (fm (Unknown_type t)))))"

definition doAppLookup :: "(call_message \<Rightarrow> jsstring) \<Rightarrow> executor \<Rightarrow> call_request \<Rightarrow> call_result" where
  "doAppLookup fm execute call =
     (case execute call False of
        Inl message \<Rightarrow> call_failed fm message
      | Inr res \<Rightarrow>
          (case responseType res of
             RS_OK \<Rightarrow> Inr res
           | RS_ERROR \<Rightarrow> Inl res
           | t \<Rightarrow> Inl (makeCallErrorResponse (fm (Unknown_type t)))))"

definition doAppSubmit :: "(call_message \<Rightarrow> jsstring) \<Rightarrow> executor \<Rightarrow> call_request \<Rightarrow> call_result" where
  "doAppSubmit fm execute inCall =
     (case execute (inCall\<lparr>cr_context := (cr_context inCall)\<lparr>cx_track_as_submit := True\<rparr>\<rparr>) True of
        Inl message \<Rightarrow> call_failed fm message
      | Inr res \<Rightarrow>
          (case responseType res of
             RS_OK \<Rightarrow> Inr res
           | RS_ERROR \<Rightarrow> Inl res
           | RS_FORM \<Rightarrow>
               if \<not> has_submit res then Inl (makeCallErrorResponse (fm No_valid_form)) else Inr (with_clean_form res)
           | RS_NAVIGATE \<Rightarrow>
               if rs_navigate_to_url res = None \<or> rs_navigate_to_url res = Some []
               then Inl (makeCallErrorResponse (fm No_url)) else Inr res
           | t \<Rightarrow> Inl (makeCallErrorResponse (fm (Unknown_type t)))))"

definition open_form :: "(call_message \<Rightarrow> jsstring) \<Rightarrow> app_form \<Rightarrow> call_result" where
  "open_form fm form =
     (if fm_submit form = None then Inl (makeCallErrorResponse (fm Malformed_binding))
      else Inr \<lparr>rs_type = Some RS_FORM, rs_text = None, rs_form = Some form, rs_navigate_to_url = None, rs_items = None\<rparr>)"

definition submit_binding :: "(call_message \<Rightarrow> jsstring) \<Rightarrow> executor \<Rightarrow> binding_core \<Rightarrow> app_context \<Rightarrow> call_result" where
  "submit_binding fm execute c context =
     (case b_submit c of
        None \<Rightarrow> Inl (makeCallErrorResponse (fm Malformed_binding))
      | Some call \<Rightarrow> doAppSubmit fm execute (createCallRequest call context [] None None))"

definition handleBindingClick ::
  "(call_message \<Rightarrow> jsstring) \<Rightarrow> executor \<Rightarrow> app_binding \<Rightarrow> app_context \<Rightarrow> call_result" where
  "handleBindingClick fm execute b context =
     (case b_form (b_core b) of
        None \<Rightarrow> submit_binding fm execute (b_core b) context
      | Some form \<Rightarrow>
          (case fm_source form of
             None \<Rightarrow> open_form fm form
           | Some source \<Rightarrow>
               (case doAppFetchForm fm execute (createCallRequest source context [] None None) of
                  Inl e \<Rightarrow> Inl e
                | Inr res \<Rightarrow>
                    (case rs_form res of
                       None \<Rightarrow> submit_binding fm execute (b_core b) context
                     | Some form' \<Rightarrow> open_form fm form'))))"

section \<open>The store\<close>

record bindings_info =
  bi_bindings :: "app_binding list"
  bi_forms :: "jsstring \<rightharpoonup> app_form"

record apps_state =
  ap_main :: bindings_info
  ap_rhs :: bindings_info
  ap_pluginEnabled :: bool

datatype apps_action =
    FAILED_TO_FETCH_APP_BINDINGS
  | RECEIVED_APP_BINDINGS "app_binding list option"
  | RECEIVED_APP_COMMAND_FORM app_form jsstring
  | RECEIVED_APP_RHS_BINDINGS "app_binding list option"
  | RECEIVED_APP_RHS_COMMAND_FORM app_form jsstring
  | APPS_PLUGIN_ENABLED
  | APPS_PLUGIN_DISABLED
  | Other_action

definition mainBindings :: "app_binding list \<Rightarrow> apps_action \<Rightarrow> app_binding list" where
  "mainBindings s a =
     (case a of
        FAILED_TO_FETCH_APP_BINDINGS \<Rightarrow> []
      | RECEIVED_APP_BINDINGS bs \<Rightarrow> validateBindings bs
      | APPS_PLUGIN_DISABLED \<Rightarrow> []
      | _ \<Rightarrow> s)"

definition mainForms :: "(jsstring \<rightharpoonup> app_form) \<Rightarrow> apps_action \<Rightarrow> (jsstring \<rightharpoonup> app_form)" where
  "mainForms s a =
     (case a of
        RECEIVED_APP_BINDINGS bs \<Rightarrow> Map.empty
      | RECEIVED_APP_COMMAND_FORM form location \<Rightarrow> s(location \<mapsto> form)
      | _ \<Rightarrow> s)"

definition rhsBindings :: "app_binding list \<Rightarrow> apps_action \<Rightarrow> app_binding list" where
  "rhsBindings s a = (case a of RECEIVED_APP_RHS_BINDINGS bs \<Rightarrow> validateBindings bs | _ \<Rightarrow> s)"

definition rhsForms :: "(jsstring \<rightharpoonup> app_form) \<Rightarrow> apps_action \<Rightarrow> (jsstring \<rightharpoonup> app_form)" where
  "rhsForms s a =
     (case a of
        RECEIVED_APP_RHS_BINDINGS bs \<Rightarrow> Map.empty
      | RECEIVED_APP_RHS_COMMAND_FORM form location \<Rightarrow> s(location \<mapsto> form)
      | _ \<Rightarrow> s)"

definition pluginEnabled :: "bool \<Rightarrow> apps_action \<Rightarrow> bool" where
  "pluginEnabled s a =
     (case a of
        APPS_PLUGIN_ENABLED \<Rightarrow> True
      | APPS_PLUGIN_DISABLED \<Rightarrow> False
      | RECEIVED_APP_BINDINGS bs \<Rightarrow> True
      | FAILED_TO_FETCH_APP_BINDINGS \<Rightarrow> False
      | _ \<Rightarrow> s)"

definition apps_reducer :: "apps_state \<Rightarrow> apps_action \<Rightarrow> apps_state" where
  "apps_reducer s a =
     \<lparr>ap_main = \<lparr>bi_bindings = mainBindings (bi_bindings (ap_main s)) a, bi_forms = mainForms (bi_forms (ap_main s)) a\<rparr>,
      ap_rhs = \<lparr>bi_bindings = rhsBindings (bi_bindings (ap_rhs s)) a, bi_forms = rhsForms (bi_forms (ap_rhs s)) a\<rparr>,
      ap_pluginEnabled = pluginEnabled (ap_pluginEnabled s) a\<rparr>"

definition apps_initial :: apps_state where
  "apps_initial = \<lparr>ap_main = \<lparr>bi_bindings = [], bi_forms = Map.empty\<rparr>, ap_rhs = \<lparr>bi_bindings = [], bi_forms = Map.empty\<rparr>,
     ap_pluginEnabled = True\<rparr>"

text \<open>The feature flag comes from the configuration of the server.\<close>

definition appsEnabled :: "bool \<Rightarrow> apps_state \<Rightarrow> bool" where
  "appsEnabled featureFlagEnabled s \<longleftrightarrow> featureFlagEnabled \<and> ap_pluginEnabled s"

definition bindings_at :: "jsstring \<Rightarrow> app_binding list \<Rightarrow> app_binding list" where
  "bindings_at location bs = concat (map sub_bindings (filter (\<lambda>b. b_location (b_core b) = Some location) bs))"

definition makeAppBindingsSelector :: "jsstring \<Rightarrow> bool \<Rightarrow> apps_state \<Rightarrow> app_binding list" where
  "makeAppBindingsSelector location featureFlagEnabled s =
     (if \<not> appsEnabled featureFlagEnabled s then [] else bindings_at location (bi_bindings (ap_main s)))"

definition makeRHSAppBindingSelector :: "jsstring \<Rightarrow> bool \<Rightarrow> apps_state \<Rightarrow> app_binding list" where
  "makeRHSAppBindingSelector location featureFlagEnabled s =
     (if \<not> appsEnabled featureFlagEnabled s then [] else bindings_at location (bi_bindings (ap_rhs s)))"

section \<open>Submittable forms\<close>

text \<open>Where a command is typed: \<open>cp_channel\<close> is the channel found in the store, its id and its team's.\<close>

record command_place =
  cp_channelID :: jsstring
  cp_rootPostID :: "jsstring option"
  cp_channel :: "(jsstring \<times> jsstring) option"
  cp_currentTeamId :: jsstring

definition in_rhs :: "command_place \<Rightarrow> bool" where
  "in_rhs p \<longleftrightarrow> cp_rootPostID p \<noteq> None \<and> cp_rootPostID p \<noteq> Some []"

definition getCommandBindings :: "command_place \<Rightarrow> bool \<Rightarrow> apps_state \<Rightarrow> app_binding list" where
  "getCommandBindings p featureFlagEnabled s =
     (if in_rhs p then makeRHSAppBindingSelector COMMAND_LOCATION featureFlagEnabled s
      else makeAppBindingsSelector COMMAND_LOCATION featureFlagEnabled s)"

definition getAppContext :: "command_place \<Rightarrow> app_binding \<Rightarrow> app_context" where
  "getAppContext p b =
     (let context = createCallContext (b_app_id (b_core b)) (b_location (b_core b)) None None None (cp_rootPostID p)
      in case cp_channel p of
           None \<Rightarrow> context
         | Some (channel_id, team_id) \<Rightarrow>
             context\<lparr>cx_channel_id := Some channel_id,
               cx_team_id := Some (if team_id = [] then cp_currentTeamId p else team_id)\<rparr>)"

definition form_error :: "jsstring \<Rightarrow> fetched" where
  "form_error e = \<lparr>ft_form = None, ft_error = Some e\<rparr>"

definition fetchSubmittableForm :: "(call_message \<Rightarrow> jsstring) \<Rightarrow> executor \<Rightarrow> app_call \<Rightarrow> app_context \<Rightarrow> fetched" where
  "fetchSubmittableForm fm execute source context =
     (case doAppFetchForm fm execute (createCallRequest source context [] None None) of
        Inl errorResponse \<Rightarrow>
          form_error (case rs_text errorResponse of None \<Rightarrow> fm Unknown_error
                      | Some t \<Rightarrow> if t = [] then fm Unknown_error else t)
      | Inr callResponse \<Rightarrow>
          (case rs_type callResponse of
             Some RS_FORM \<Rightarrow>
               if \<not> has_submit callResponse then form_error (fm Missing_submit)
               else \<lparr>ft_form = rs_form callResponse, ft_error = None\<rparr>
           | Some RS_NAVIGATE \<Rightarrow> form_error (fm (Unexpected_type RS_NAVIGATE))
           | Some RS_OK \<Rightarrow> form_error (fm (Unexpected_type RS_OK))
           | _ \<Rightarrow> form_error (fm (Unknown_type (responseType callResponse)))))"

definition form_key :: "command_place \<Rightarrow> jsstring \<Rightarrow> jsstring" where
  "form_key p location =
     cp_channelID p @ js ''-'' @ (case cp_rootPostID p of None \<Rightarrow> [] | Some r \<Rightarrow> r) @ js ''-'' @ location"

text \<open>The form, and the store after it was received.\<close>

definition getSubmittableForm ::
  "(call_message \<Rightarrow> jsstring) \<Rightarrow> executor \<Rightarrow> command_place \<Rightarrow> apps_state \<Rightarrow> jsstring \<Rightarrow> app_binding \<Rightarrow> fetched \<times> apps_state" where
  "getSubmittableForm fm execute p s location b =
     (let key = form_key p location
      in case bi_forms (if in_rhs p then ap_rhs s else ap_main s) key of
           Some form \<Rightarrow> (\<lparr>ft_form = Some form, ft_error = None\<rparr>, s)
         | None \<Rightarrow>
             (case Option.bind (b_form (b_core b)) fm_source of
                None \<Rightarrow> (form_error (fm Missing_source), s)
              | Some source \<Rightarrow>
                  let fetched = fetchSubmittableForm fm execute source (getAppContext p b)
                  in (fetched,
                      case ft_form fetched of
                        None \<Rightarrow> s
                      | Some form \<Rightarrow>
                          apps_reducer s
                            (if in_rhs p then RECEIVED_APP_RHS_COMMAND_FORM form key else RECEIVED_APP_COMMAND_FORM form key))))"

end
