(* ===== verification/AppCallsProps.thy ===== *)
theory AppCallsProps
  imports AppCalls
begin

text \<open>
  What the store holds of apps: well-formed bindings, and forms that can be submitted; and how the cache of
  forms answers.
\<close>

section \<open>The invariant of the store\<close>

definition group_ok :: "app_binding \<Rightarrow> bool" where
  "group_ok b \<longleftrightarrow>
     (case (bindings b, b_location (b_core b)) of
        (Some ss, Some location) \<Rightarrow> bindings_valid location 0 ss \<and> (location = COMMAND_LOCATION \<longrightarrow> distinct (binding_labels ss))
      | _ \<Rightarrow> False)"

definition submittable :: "app_form \<Rightarrow> bool" where
  "submittable form \<longleftrightarrow> fm_submit form \<noteq> None \<and> form_valid form"

definition info_ok :: "bindings_info \<Rightarrow> bool" where
  "info_ok bi \<longleftrightarrow> (\<forall>b \<in> set (bi_bindings bi). group_ok b) \<and> (\<forall>form \<in> ran (bi_forms bi). submittable form)"

definition apps_ok :: "apps_state \<Rightarrow> bool" where
  "apps_ok s \<longleftrightarrow> info_ok (ap_main s) \<and> info_ok (ap_rhs s)"

text \<open>Forms reach the store from the cache of the parser only, everything else from the server.\<close>

fun carries_form :: "apps_action \<Rightarrow> bool" where
  "carries_form (RECEIVED_APP_COMMAND_FORM _ _) = True"
| "carries_form (RECEIVED_APP_RHS_COMMAND_FORM _ _) = True"
| "carries_form _ = False"

inductive apps_reachable :: "apps_state \<Rightarrow> bool" where
  initial: "apps_reachable apps_initial"
| action: "apps_reachable s \<Longrightarrow> \<not> carries_form a \<Longrightarrow> apps_reachable (apps_reducer s a)"
| form: "apps_reachable s \<Longrightarrow> apps_reachable (snd (getSubmittableForm fm execute p s location b))"

lemma validated_groups: "b \<in> set (validateBindings bs) \<Longrightarrow> group_ok b"
  using validated_binding [of b bs] by (auto simp: group_ok_def)

lemma ran_upd: "x \<in> ran (m(k \<mapsto> v)) \<Longrightarrow> x = v \<or> x \<in> ran m"
  by (auto simp: ran_def split: if_splits)

lemma reducer_ok:
  assumes "apps_ok s"
    and "\<And>form key. a = RECEIVED_APP_COMMAND_FORM form key \<or> a = RECEIVED_APP_RHS_COMMAND_FORM form key \<Longrightarrow> submittable form"
  shows "apps_ok (apps_reducer s a)"
  using assms
  by (cases a) (auto simp: apps_ok_def info_ok_def apps_reducer_def mainBindings_def mainForms_def rhsBindings_def rhsForms_def
      dest!: ran_upd validated_groups)

lemma fetched_submittable:
  assumes "ft_form (fetchSubmittableForm fm execute source context) = Some form"
  shows "submittable form"
  using assms
  by (auto simp: fetchSubmittableForm_def doAppFetchForm_def form_error_def has_submit_def with_clean_form_def
      submittable_def cleanForm_valid cleanForm_def [of form] call_failed_def
      split: sum.splits response_type.splits option.splits if_splits)

lemma getSubmittableForm_ok:
  assumes "apps_ok s"
  shows "apps_ok (snd (getSubmittableForm fm execute p s location b))"
  using assms fetched_submittable [of fm execute]
  by (auto simp: getSubmittableForm_def Let_def intro!: reducer_ok split: option.split)

lemma reachable_ok: "apps_reachable s \<Longrightarrow> apps_ok s"
proof (induction rule: apps_reachable.induct)
  case initial
  then show ?case by (simp add: apps_ok_def info_ok_def apps_initial_def)
next
  case (action s a)
  then show ?case by (intro reducer_ok) auto
next
  case (form s fm execute p location b)
  then show ?case by (intro getSubmittableForm_ok)
qed

text \<open>
  C38. The part of the store apps have is well-formed in every state the reducers, the server's actions and
  the cache of forms lead to: every group of bindings is valid at every depth, and every form in the caches
  has a submit call, fields with distinct labels and selects with distinct options.
\<close>

theorem apps_store_ok:
  assumes "apps_reachable s"
  shows "apps_ok s"
  using assms by (rule reachable_ok)

theorem apps_store_ok_witness:
  "\<exists>b. b \<in> set (bi_bindings (ap_main (apps_reducer apps_initial (RECEIVED_APP_BINDINGS (Some [sample_group]))))) \<and> group_ok b"
proof -
  define bs where "bs = Some [sample_group]"
  have "apps_ok (apps_reducer apps_initial (RECEIVED_APP_BINDINGS bs))"
    by (intro apps_store_ok apps_reachable.intros) simp
  moreover have "bi_bindings (ap_main (apps_reducer apps_initial (RECEIVED_APP_BINDINGS bs))) = validateBindings bs"
    by (simp add: apps_reducer_def mainBindings_def)
  ultimately show ?thesis
    using sample_group_kept unfolding bs_def [symmetric] apps_ok_def info_ok_def by auto
qed

text \<open>
  A form is fetched once: after the app has answered with a form, the same command asks the store only,
  whatever the app would answer then, gets the same form and leaves the store alone; and the form can be submitted.
\<close>

theorem form_fetched_once:
  assumes "apps_reachable s" and "getSubmittableForm fm execute p s location b = (fetched, s')"
    and "ft_form fetched = Some form"
  shows "getSubmittableForm fm execute' p s' location b' = (\<lparr>ft_form = Some form, ft_error = None\<rparr>, s') \<and> submittable form"
proof -
  let ?forms = "\<lambda>s. bi_forms (if in_rhs p then ap_rhs s else ap_main s)"
  have "?forms s' (form_key p location) = Some form"
    using assms(2,3)
    by (auto simp: getSubmittableForm_def Let_def apps_reducer_def mainForms_def rhsForms_def form_error_def
        split: option.splits if_splits)
  moreover have "apps_ok s'"
    using getSubmittableForm_ok [OF reachable_ok [OF assms(1)], of fm execute p location b] assms(2) by simp
  ultimately show ?thesis
    by (auto simp: getSubmittableForm_def Let_def apps_ok_def info_ok_def intro: ranI split: if_splits)
qed

definition sample_place :: command_place where
  "sample_place = \<lparr>cp_channelID = js ''c'', cp_rootPostID = None, cp_channel = None, cp_currentTeamId = []\<rparr>"

definition sample_source :: app_binding where
  "sample_source = Binding \<lparr>b_app_id = js ''app'', b_location = None, b_label = js ''j'', b_icon = None, b_hint = None,
     b_description = None, b_form = Some (sample_form\<lparr>fm_source := fm_submit sample_form, fm_submit := None\<rparr>),
     b_submit = None\<rparr> None"

definition sample_answer :: call_response where
  "sample_answer = \<lparr>rs_type = Some RS_FORM, rs_text = None, rs_form = Some sample_form, rs_navigate_to_url = None, rs_items = None\<rparr>"

theorem form_fetched_once_witness:
  "\<exists>s' form. snd (getSubmittableForm (\<lambda>_. []) (\<lambda>_ _. Inr sample_answer) sample_place apps_initial [] sample_source) = s' \<and>
     getSubmittableForm (\<lambda>_. []) (\<lambda>_ _. Inl []) sample_place s' [] sample_source = (\<lparr>ft_form = Some form, ft_error = None\<rparr>, s')"
proof -
  let ?r = "getSubmittableForm (\<lambda>_. []) (\<lambda>_ _. Inr sample_answer) sample_place apps_initial [] sample_source"
  have "ft_form (fst ?r) = Some (cleanForm sample_form)"
    by (simp add: getSubmittableForm_def Let_def apps_initial_def sample_place_def in_rhs_def sample_source_def
        fetchSubmittableForm_def doAppFetchForm_def sample_answer_def responseType_def has_submit_def with_clean_form_def
        sample_form_def cleanForm_def)
  from form_fetched_once [OF apps_reachable.initial surjective_pairing this] show ?thesis by auto
qed

end
