(* ===== verification/CommandRoundtrip.thy ===== *)
theory CommandRoundtrip
  imports CommandParserProps
begin

text \<open>
  Commands put together from the labels of flags and values, and the parser on them: what is
  printed is parsed back. And the limits of it: what a value in double quotes loses.
\<close>

section \<open>Printing\<close>

definition tick_quote :: "jsstring \<Rightarrow> jsstring" where
  "tick_quote s = 96 # s @ [96]"

fun print_items :: "jsstring list \<Rightarrow> jsstring" where
  "print_items [] = []"
| "print_items [s] = tick_quote s"
| "print_items (s # t # ss) = tick_quote s @ 44 # print_items (t # ss)"

fun print_value :: "param_value \<Rightarrow> jsstring" where
  "print_value (One s) = tick_quote s"
| "print_value (Many ss) = 91 # print_items ss @ [93]"

definition print_flag :: "app_field \<times> param_value \<Rightarrow> jsstring" where
  "print_flag fv = [45, 45] @ field_label (fst fv) @ 61 # print_value (snd fv)"

fun print_flags :: "(app_field \<times> param_value) list \<Rightarrow> jsstring" where
  "print_flags [] = []"
| "print_flags [fv] = print_flag fv"
| "print_flags (fv # gv # fvs) = print_flag fv @ 32 # print_flags (gv # fvs)"

definition print_command :: "jsstring \<Rightarrow> (app_field \<times> param_value) list \<Rightarrow> jsstring" where
  "print_command name fvs = 47 # name @ 32 # print_flags fvs"

text \<open>What can be written this way: the quoting has no escapes, so a value may not hold a tick.\<close>

definition quotable :: "jsstring \<Rightarrow> bool" where
  "quotable s \<longleftrightarrow> s \<noteq> [] \<and> 96 \<notin> set s"

fun value_printable :: "app_field \<Rightarrow> param_value \<Rightarrow> bool" where
  "value_printable f (One s) \<longleftrightarrow> quotable s \<and> (f_type f = BOOL \<longrightarrow> s \<in> {js ''true'', js ''false''})"
| "value_printable f (Many ss) \<longleftrightarrow> f_multiselect f \<and> (\<forall>s \<in> set ss. quotable s)"

definition printable :: "(jsstring \<Rightarrow> jsstring) \<Rightarrow> app_field list \<Rightarrow> app_field \<times> param_value \<Rightarrow> bool" where
  "printable lower fs fv \<longleftrightarrow>
     set (field_label (fst fv)) \<inter> {32, 9, 61} = {} \<and> find_flag lower (field_label (fst fv)) fs = Some (fst fv) \<and>
     value_printable (fst fv) (snd fv)"

section \<open>The text at the cursor\<close>

definition text_at :: "parsed \<Rightarrow> jsstring" where
  "text_at pc = drop (pc_i pc) (pc_command pc)"

lemma current_text: "current pc = (case text_at pc of [] \<Rightarrow> None | u # us \<Rightarrow> Some u)"
  by (auto simp: current_def text_at_def Cons_nth_drop_Suc [symmetric] split: list.split)

lemma current_Cons: "text_at pc = u # us \<Longrightarrow> current pc = Some u"
  by (simp add: current_text)

lemma current_Nil: "text_at pc = [] \<Longrightarrow> current pc = None"
  by (simp add: current_text)

lemma text_at_simps [simp]:
  "text_at (goto s pc) = text_at pc" "text_at (restart pc) = text_at pc" "text_at (put_value n v pc) = text_at pc"
  "text_at (advance pc) = tl (text_at pc)" "text_at (pc_field_update g pc) = text_at pc"
  "text_at (pc_incomplete_update ns pc) = text_at pc" "text_at (pc_incompleteStart_update k pc) = text_at pc"
  by (simp_all add: text_at_def advance_def goto_def restart_def put_value_def drop_Suc tl_drop)

definition take_text :: "jsstring \<Rightarrow> parsed \<Rightarrow> parsed" where
  "take_text s pc = pc\<lparr>pc_i := pc_i pc + length s, pc_incomplete := pc_incomplete pc @ s\<rparr>"

lemma take_text_simps [simp]:
  "take_text [] pc = pc" "pc_state (take_text s pc) = pc_state pc" "pc_field (take_text s pc) = pc_field pc"
  "pc_values (take_text s pc) = pc_values pc" "pc_incompleteStart (take_text s pc) = pc_incompleteStart pc"
  "pc_i (take_text s pc) = pc_i pc + length s" "pc_incomplete (take_text s pc) = pc_incomplete pc @ s"
  "text_at (take_text s pc) = drop (length s) (text_at pc)"
  by (simp_all add: take_text_def text_at_def add.commute)

lemma take_char_text: "take_text s (take_char (Some u) pc) = take_text (u # s) pc"
  by (simp add: take_text_def take_char_def advance_def)

lemma take_char_simps [simp]:
  "text_at (take_char (Some u) pc) = tl (text_at pc)" "pc_incomplete (take_char (Some u) pc) = pc_incomplete pc @ [u]"
  by (simp_all add: take_char_def text_at_def advance_def drop_Suc tl_drop)

section \<open>Runs of the loop\<close>

lemma loop_step:
  "form_step lower auto fs pc e x = Next pc' e' x' \<Longrightarrow> form_loop lower auto fs pc e x = form_loop lower auto fs pc' e' x'"
  by (simp add: form_loop.simps [of lower auto fs pc])

lemma loop_return:
  "form_step lower auto fs pc e x = Return pc' \<Longrightarrow> form_loop lower auto fs pc e x = Some (Some pc')"
  by (simp add: form_loop.simps [of lower auto fs pc])

definition leads :: "(jsstring \<Rightarrow> jsstring) \<Rightarrow> bool \<Rightarrow> app_field list \<Rightarrow> parsed \<Rightarrow> parsed \<Rightarrow> bool" where
  "leads lower auto fs pc pc' \<longleftrightarrow>
     (\<forall>e x. \<exists>e' x'. form_loop lower auto fs pc e x = form_loop lower auto fs pc' e' x')"

lemma leads_refl [simp]: "leads lower auto fs pc pc"
  by (auto simp: leads_def)

lemma leads_trans [trans]: "leads lower auto fs pc pc' \<Longrightarrow> leads lower auto fs pc' pc'' \<Longrightarrow> leads lower auto fs pc pc''"
  unfolding leads_def by metis

lemma leads_step:
  assumes "\<And>e x. form_step lower auto fs pc e x = Next pc' e x"
  shows "leads lower auto fs pc pc'"
  using loop_step [OF assms] unfolding leads_def by blast

lemma leads_return:
  assumes "leads lower auto fs pc pc'" and "\<And>e x. form_step lower auto fs pc' e x = Return pc''"
  shows "form_loop lower auto fs pc e x = Some (Some pc'')"
  using assms(1) loop_return [OF assms(2)] unfolding leads_def by metis

subsection \<open>Words\<close>

lemma read_flag_name:
  assumes "pc_state pc = Flag" and "text_at pc = l @ post" and "set l \<inter> {32, 9, 61} = {}"
  shows "form_loop lower auto fs pc e x = form_loop lower auto fs (take_text l pc) e x"
  using assms
proof (induction l arbitrary: pc)
  case (Cons u l)
  have "form_step lower auto fs pc e x = Next (take_char (Some u) pc) e x"
    using Cons.prems by (simp add: form_step_def flag_name_def current_Cons blank_def)
  from loop_step [OF this] show ?case
    using Cons.IH [of "take_char (Some u) pc"] Cons.prems by (simp add: take_char_text)
qed simp

lemma read_ticked:
  assumes "pc_state pc = TickValue \<or> pc_state pc = MultiselectTickValue" and "text_at pc = s @ post" and "96 \<notin> set s"
  shows "leads lower auto fs pc (take_text s pc)"
  using assms
proof (induction s arbitrary: pc)
  case (Cons u s)
  have "leads lower auto fs pc (take_char (Some u) pc)"
    using Cons.prems by (intro leads_step) (auto simp: form_step_def ticked_value_def current_Cons)
  also have "leads lower auto fs \<dots> (take_text s (take_char (Some u) pc))"
    using Cons.prems by (intro Cons.IH) auto
  finally show ?case by (simp add: take_char_text)
qed simp

text \<open>A flag with an equal sign, up to what follows the sign\<close>

lemma read_flag_equal:
  assumes "pc_state pc = StartParameter" and "text_at pc = [45, 45] @ l @ 61 # post"
    and "set l \<inter> {32, 9, 61} = {}" and "find_flag lower l fs = Some f"
  obtains pc' where "\<forall>e x. form_loop lower auto fs pc e x = form_loop lower auto fs pc' True x"
    and "pc_state pc' = FlagValueSeparator" and "pc_field pc' = Some f" and "text_at pc' = post"
    and "pc_values pc' = pc_values pc" and "pc_incomplete pc' = []"
proof -
  define pc1 where "pc1 = advance (goto Flag1 pc)"
  define pc2 where "pc2 = restart (goto Flag (advance pc1))"
  define pc3 where "pc3 = take_text l pc2"
  define pc4 where "pc4 = goto FlagValueSeparator (pc3\<lparr>pc_field := Some f, pc_incomplete := []\<rparr>)"
  define pc5 where "pc5 = advance (pc4\<lparr>pc_incompleteStart := pc_i pc4\<rparr>)"
  have texts: "text_at pc1 = 45 # l @ 61 # post" "text_at pc2 = l @ 61 # post" "text_at pc3 = 61 # post"
    "text_at pc4 = 61 # post" "text_at pc5 = post"
    using assms(2) by (simp_all add: pc1_def pc2_def pc3_def pc4_def pc5_def)
  have states: "pc_state pc1 = Flag1" "pc_state pc2 = Flag" "pc_state pc3 = Flag" "pc_state pc4 = FlagValueSeparator"
    "pc_state pc5 = FlagValueSeparator" "pc_incomplete pc3 = l"
    by (simp_all add: pc1_def pc2_def pc3_def pc4_def pc5_def)
  have "form_loop lower auto fs pc e x = form_loop lower auto fs pc5 True x" for e x
  proof -
    have "form_loop lower auto fs pc e x = form_loop lower auto fs pc1 e x"
      using assms(1,2) by (intro loop_step) (simp add: form_step_def start_parameter_def current_Cons pc1_def)
    also have "\<dots> = form_loop lower auto fs pc2 False x"
      using texts(1) states(1) by (intro loop_step) (simp add: form_step_def flag1_def current_Cons pc2_def)
    also have "\<dots> = form_loop lower auto fs pc3 False x"
      unfolding pc3_def by (rule read_flag_name [OF states(2) texts(2) assms(3)])
    also have "\<dots> = form_loop lower auto fs pc4 False x"
      using texts(3) states(3,6) assms(4)
      by (intro loop_step) (simp add: form_step_def flag_name_def current_Cons pc4_def)
    also have "\<dots> = form_loop lower auto fs pc5 True x"
      using texts(4) states(4)
      by (intro loop_step) (simp add: form_step_def flag_value_separator_def current_Cons pc5_def blank_def Let_def)
    finally show ?thesis .
  qed
  then have "\<forall>e x. form_loop lower auto fs pc e x = form_loop lower auto fs pc5 True x" by blast
  then show ?thesis
    by (rule that) (use texts(5) in \<open>simp_all add: pc5_def pc4_def pc3_def pc2_def pc1_def\<close>)
qed

lemma read_flag:
  assumes "pc_state pc = StartParameter" and "text_at pc = [45, 45] @ l @ 61 # u # post"
    and "set l \<inter> {32, 9, 61} = {}" and "u \<notin> {32, 9, 61}" and "find_flag lower l fs = Some f"
  obtains pc' where "leads lower auto fs pc pc'" and "pc_state pc' = StartValue" and "pc_field pc' = Some f"
    and "text_at pc' = u # post" and "pc_values pc' = pc_values pc"
proof -
  obtain pc1 where pc1: "\<forall>e x. form_loop lower auto fs pc e x = form_loop lower auto fs pc1 True x"
    "pc_state pc1 = FlagValueSeparator" "pc_field pc1 = Some f" "text_at pc1 = u # post" "pc_values pc1 = pc_values pc" "pc_incomplete pc1 = []"
    by (rule read_flag_equal [OF assms(1-3,5), of auto])
  define pc2 where "pc2 = goto StartValue (pc1\<lparr>pc_incompleteStart := pc_i pc1\<rparr>)"
  have "form_loop lower auto fs pc1 True x = form_loop lower auto fs pc2 True x" for x
    using pc1(2,4) assms(4)
    by (intro loop_step) (simp add: form_step_def flag_value_separator_def current_Cons pc2_def blank_def Let_def)
  then have "leads lower auto fs pc pc2"
    using pc1(1) unfolding leads_def by metis
  then show ?thesis
    by (rule that) (use pc1(3-5) in \<open>simp_all add: pc2_def\<close>)
qed

subsection \<open>One value\<close>

text \<open>Between two ticks, for both kinds of value; \<open>ends\<close> is the state behind the second tick.\<close>

lemma ticked_step:
  "pc_state pc = TickValue \<Longrightarrow> form_step lower auto fs pc e x = ticked_value auto EndTickedValue pc e x"
  "pc_state pc = MultiselectTickValue \<Longrightarrow> form_step lower auto fs pc e x = ticked_value auto MultiselectEndTickedValue pc e x"
  by (simp_all add: form_step_def)

lemma read_tick_quoted:
  assumes "pc_state pc = TickValue \<and> ends = EndTickedValue \<or> pc_state pc = MultiselectTickValue \<and> ends = MultiselectEndTickedValue"
    and "text_at pc = s @ 96 # post" and "quotable s" and "pc_i pc = Suc (pc_incompleteStart pc)" and "pc_incomplete pc = []"
  obtains pc' where "leads lower auto fs pc pc'" and "pc_state pc' = ends" and "pc_field pc' = pc_field pc"
    and "text_at pc' = post" and "pc_values pc' = pc_values pc" and "pc_incomplete pc' = s"
proof -
  define pc1 where "pc1 = take_text s pc"
  define pc2 where "pc2 = goto ends (advance pc1)"
  have "leads lower auto fs pc pc1"
    unfolding pc1_def using assms(1-3) by (intro read_ticked) (auto simp: quotable_def)
  moreover have "leads lower auto fs pc1 pc2"
    using assms by (intro leads_step) (auto simp: pc1_def pc2_def ticked_step ticked_value_def current_Cons quotable_def)
  ultimately have "leads lower auto fs pc pc2" by (rule leads_trans)
  then show ?thesis
    by (rule that) (use assms(2,5) in \<open>simp_all add: pc2_def pc1_def\<close>)
qed

lemma read_value_start:
  assumes "pc_state pc = StartValue" and "text_at pc = tick_quote s @ post" and "quotable s"
  obtains pc' where "leads lower auto fs pc pc'" and "pc_state pc' = EndTickedValue" and "pc_field pc' = pc_field pc"
    and "text_at pc' = post" and "pc_values pc' = pc_values pc" and "pc_incomplete pc' = s"
proof -
  define pc1 where "pc1 = advance (goto TickValue (restart pc))"
  have "leads lower auto fs pc pc1"
    using assms by (intro leads_step) (simp add: form_step_def start_value_def current_Cons tick_quote_def pc1_def)
  moreover obtain pc' where "leads lower auto fs pc1 pc'" "pc_state pc' = EndTickedValue" "pc_field pc' = pc_field pc1"
    "text_at pc' = post" "pc_values pc' = pc_values pc1" "pc_incomplete pc' = s"
    by (rule read_tick_quoted [of pc1 EndTickedValue s post])
      (use assms in \<open>simp_all add: pc1_def tick_quote_def\<close>)
  ultimately show ?thesis
    by (intro that [of pc']) (auto intro: leads_trans simp: pc1_def)
qed

text \<open>Behind a value comes the end or, after a blank, the next flag.\<close>

definition next_flag :: "jsstring \<Rightarrow> bool" where
  "next_flag post \<longleftrightarrow> post = [] \<or> (\<exists>us. post = 32 # 45 # us)"

text \<open>
  The rest of the text is parsed from here: with nothing left the loop returns, otherwise it goes
  on with the next parameter.
\<close>

definition value_read :: "(jsstring \<Rightarrow> jsstring) \<Rightarrow> app_field list \<Rightarrow> parsed \<Rightarrow> jsstring \<Rightarrow> (jsstring \<times> param_value) list \<Rightarrow> bool" where
  "value_read lower fs pc post vs \<longleftrightarrow>
     (if post = []
      then (\<exists>pc'. (\<forall>e x. form_loop lower False fs pc e x = Some (Some pc')) \<and> pc_state pc' \<noteq> Error \<and> pc_values pc' = vs)
      else (\<exists>pc'. leads lower False fs pc pc' \<and> pc_state pc' = StartParameter \<and> text_at pc' = tl post \<and> pc_values pc' = vs))"

lemma value_read_from:
  assumes "leads lower False fs pc pc1" and "value_read lower fs pc1 post vs"
  shows "value_read lower fs pc post vs"
proof (cases "post = []")
  case True
  then obtain pc' where "\<And>e x. form_loop lower False fs pc1 e x = Some (Some pc')" "pc_state pc' \<noteq> Error" "pc_values pc' = vs"
    using assms(2) by (auto simp: value_read_def)
  moreover from this(1) have "form_loop lower False fs pc e x = Some (Some pc')" for e x
    using assms(1) unfolding leads_def by metis
  ultimately show ?thesis using True by (auto simp: value_read_def)
next
  case False
  then show ?thesis
    using assms unfolding value_read_def by (auto intro: leads_trans)
qed

lemma separator_read:
  assumes "pc_state pc = ParameterSeparator" and "text_at pc = post" and "next_flag post"
  shows "value_read lower fs pc post (pc_values pc)"
proof (cases "post = []")
  case True
  have "form_step lower False fs pc e x = Return (goto StartParameter (pc\<lparr>pc_incompleteStart := pc_i pc\<rparr>))" for e x
    using assms True by (simp add: form_step_def parameter_separator_def current_Nil Let_def)
  from loop_return [OF this] show ?thesis
    using True by (auto simp: value_read_def)
next
  case False
  then obtain us where us: "post = 32 # 45 # us" using assms(3) by (auto simp: next_flag_def)
  define pc1 where "pc1 = advance (pc\<lparr>pc_incompleteStart := pc_i pc\<rparr>)"
  define pc2 where "pc2 = goto StartParameter (pc1\<lparr>pc_incompleteStart := pc_i pc1\<rparr>)"
  have "leads lower False fs pc pc1"
    using assms us by (intro leads_step) (simp add: form_step_def parameter_separator_def current_Cons pc1_def blank_def Let_def)
  moreover have "leads lower False fs pc1 pc2"
    using assms us by (intro leads_step)
      (simp add: form_step_def parameter_separator_def current_Cons pc1_def pc2_def blank_def Let_def)
  ultimately have "leads lower False fs pc pc2" by (rule leads_trans)
  then show ?thesis
    unfolding value_read_def using assms us
    by (simp add: exI [of _ pc2] pc2_def pc1_def)
qed

lemma end_value_read:
  assumes "pc_state pc = EndTickedValue" and "pc_field pc = Some f" and "text_at pc = post" and "next_flag post"
    and "f_type f = BOOL \<longrightarrow> pc_incomplete pc \<in> {js ''true'', js ''false''}"
  shows "value_read lower fs pc post (AList.update (f_name f) (One (pc_incomplete pc)) (pc_values pc))"
proof -
  define pc1 where "pc1 = restart (put_value (f_name f) (One (pc_incomplete pc)) pc)"
  have no_reset: "\<not> (f_type f = BOOL \<and> no_boolean False (pc_incomplete pc))"
    using assms(5) by (auto simp: no_boolean_def)
  have post: "text_at pc1 = post" and state: "pc_state pc1 = EndTickedValue" and "current pc1 = current pc"
    and vals: "pc_values pc1 = AList.update (f_name f) (One (pc_incomplete pc)) (pc_values pc)"
    using assms by (simp_all add: pc1_def)
  show ?thesis
  proof (cases "post = []")
    case True
    have "form_step lower False fs pc e x = Return pc1" for e x
      using assms(1,2,3) no_reset True unfolding form_step_def end_value_def
      by (simp add: current_Nil Let_def pc1_def)
    from loop_return [OF this] show ?thesis
      using True state vals by (auto simp: value_read_def)
  next
    case False
    then obtain us where us: "post = 32 # us" using assms(4) by (auto simp: next_flag_def)
    have "leads lower False fs pc (goto ParameterSeparator pc1)"
      using assms(1,2,3) no_reset us
      by (intro leads_step) (auto simp: form_step_def end_value_def current_Cons Let_def pc1_def simp del: js_simps)
    moreover have "value_read lower fs (goto ParameterSeparator pc1) post (pc_values (goto ParameterSeparator pc1))"
      using post assms(4) by (intro separator_read) simp_all
    ultimately show ?thesis
      using vals value_read_from by (metis step_simps(5))
  qed
qed

subsection \<open>A list\<close>

lemma read_item:
  assumes "pc_state pc = MultiselectStartValue" and "text_at pc = tick_quote s @ u # post" and "quotable s"
    and "pc_field pc = Some f" and "value_of pc (f_name f) = Some (Many acc)"
  obtains pc' where "leads lower False fs pc pc'" and "pc_state pc' = MultiselectValueSeparator" and "pc_field pc' = Some f"
    and "text_at pc' = u # post" and "pc_values pc' = AList.update (f_name f) (Many (acc @ [s])) (pc_values pc)"
proof -
  define pc1 where "pc1 = advance (goto MultiselectTickValue (restart pc))"
  have "leads lower False fs pc pc1"
    using assms by (intro leads_step) (simp add: form_step_def multiselect_start_value_def current_Cons tick_quote_def pc1_def)
  moreover obtain pc2 where pc2: "leads lower False fs pc1 pc2" "pc_state pc2 = MultiselectEndTickedValue" "pc_field pc2 = pc_field pc1"
    "text_at pc2 = u # post" "pc_values pc2 = pc_values pc1" "pc_incomplete pc2 = s"
    by (rule read_tick_quoted [of pc1 MultiselectEndTickedValue s "u # post"])
      (use assms in \<open>simp_all add: pc1_def tick_quote_def\<close>)
  moreover define pc3 where
    "pc3 = goto MultiselectValueSeparator (restart (put_value (f_name f) (Many (acc @ [s])) pc2))"
  have "value_of pc2 (f_name f) = Some (Many acc)"
    using pc2(5) assms(5) by (simp add: value_of_def pc1_def)
  then have "leads lower False fs pc2 pc3"
    using pc2 assms by (intro leads_step) (simp add: form_step_def multiselect_end_value_def current_Cons pc3_def pc1_def Let_def)
  ultimately have "leads lower False fs pc pc3" by (blast intro: leads_trans)
  then show ?thesis
    by (rule that) (use pc2 assms in \<open>simp_all add: pc3_def pc1_def\<close>)
qed

lemma read_items:
  assumes "pc_state pc = MultiselectStartValue" and "text_at pc = print_items ss @ 93 # post" and "ss \<noteq> []"
    and "\<forall>s \<in> set ss. quotable s" and "pc_field pc = Some f" and "value_of pc (f_name f) = Some (Many acc)"
  shows "\<exists>pc'. leads lower False fs pc pc' \<and> pc_state pc' = ParameterSeparator \<and> text_at pc' = post \<and>
    pc_values pc' = AList.update (f_name f) (Many (acc @ ss)) (pc_values pc)"
  using assms
proof (induction ss arbitrary: pc acc rule: print_items.induct)
  case (2 s)
  obtain pc1 where pc1: "leads lower False fs pc pc1" "pc_state pc1 = MultiselectValueSeparator" "text_at pc1 = 93 # post"
    "pc_values pc1 = AList.update (f_name f) (Many (acc @ [s])) (pc_values pc)"
    by (rule read_item [of pc s 93 post f acc lower fs]) (use 2 in auto)
  have "leads lower False fs pc1 (goto ParameterSeparator (advance pc1))"
    using pc1 by (intro leads_step) (simp add: form_step_def multiselect_value_separator_def current_Cons)
  with pc1(1) have "leads lower False fs pc (goto ParameterSeparator (advance pc1))" by (rule leads_trans)
  with pc1 show ?case by (intro exI [of _ "goto ParameterSeparator (advance pc1)"]) simp
next
  case (3 s t ss)
  obtain pc1 where pc1: "leads lower False fs pc pc1" "pc_state pc1 = MultiselectValueSeparator" "pc_field pc1 = Some f"
    "text_at pc1 = 44 # print_items (t # ss) @ 93 # post"
    "pc_values pc1 = AList.update (f_name f) (Many (acc @ [s])) (pc_values pc)"
    by (rule read_item [of pc s 44 "print_items (t # ss) @ 93 # post" f acc lower fs]) (use 3 in auto)
  define pc2 where "pc2 = goto MultiselectNextValue (advance pc1)"
  define pc3 where "pc3 = goto MultiselectStartValue pc2"
  have tick: "text_at pc2 = 96 # tl (text_at pc2)"
    using pc1(4) by (cases ss) (simp_all add: pc2_def tick_quote_def)
  have "leads lower False fs pc1 pc2"
    using pc1 by (intro leads_step) (simp add: form_step_def multiselect_value_separator_def current_Cons pc2_def blank_def)
  moreover have "leads lower False fs pc2 pc3"
    using current_Cons [OF tick]
    by (intro leads_step) (simp add: form_step_def multiselect_next_value_def pc3_def pc2_def blank_def)
  ultimately have "leads lower False fs pc pc3" using pc1(1) by (blast intro: leads_trans)
  moreover have "\<exists>pc'. leads lower False fs pc3 pc' \<and> pc_state pc' = ParameterSeparator \<and> text_at pc' = post \<and>
    pc_values pc' = AList.update (f_name f) (Many ((acc @ [s]) @ t # ss)) (pc_values pc3)"
    using pc1 "3.prems" by (intro "3.IH") (simp_all add: pc3_def pc2_def value_of_def update_conv)
  moreover have "pc_values pc3 = pc_values pc1" by (simp add: pc3_def pc2_def)
  ultimately show ?case
    using pc1(5) by (auto intro: leads_trans)
qed simp

lemma read_list:
  assumes "pc_state pc = StartValue" and "text_at pc = print_value (Many ss) @ post"
    and "\<forall>s \<in> set ss. quotable s" and "pc_field pc = Some f" and "f_multiselect f"
  obtains pc' where "leads lower False fs pc pc'" and "pc_state pc' = ParameterSeparator" and "text_at pc' = post"
    and "pc_values pc' = AList.update (f_name f) (Many ss) (pc_values pc)"
proof -
  define pc1 where "pc1 = advance (goto MultiselectStart (restart pc))"
  define pc2 where "pc2 = put_value (f_name f) (Many []) pc1"
  have start: "leads lower False fs pc pc1"
    using assms by (intro leads_step) (simp add: form_step_def start_value_def current_Cons pc1_def blank_def)
  show ?thesis
  proof (cases ss)
    case Nil
    have "leads lower False fs pc1 (goto ParameterSeparator (advance pc2))"
      using assms Nil
      by (intro leads_step) (simp add: form_step_def multiselect_start_def current_Cons pc2_def pc1_def blank_def Let_def)
    with start have "leads lower False fs pc (goto ParameterSeparator (advance pc2))" by (rule leads_trans)
    then show ?thesis
      by (rule that) (use assms(2) Nil in \<open>simp_all add: pc2_def pc1_def\<close>)
  next
    case (Cons s ts)
    define pc3 where "pc3 = goto MultiselectStartValue pc2"
    have tick: "text_at pc2 = 96 # tl (text_at pc2)"
      using assms(2) Cons by (cases ts) (simp_all add: pc2_def pc1_def tick_quote_def)
    have "leads lower False fs pc1 pc3"
      using assms current_Cons [OF tick]
      by (intro leads_step) (simp add: form_step_def multiselect_start_def pc3_def pc2_def pc1_def blank_def Let_def)
    moreover obtain pc' where "leads lower False fs pc3 pc'" "pc_state pc' = ParameterSeparator" "text_at pc' = post"
      "pc_values pc' = AList.update (f_name f) (Many ([] @ ss)) (pc_values pc3)"
      using read_items [of pc3 ss post f "[]" lower fs] assms Cons by (auto simp: pc3_def pc2_def pc1_def)
    ultimately show ?thesis
      using start by (intro that [of pc']) (auto intro: leads_trans simp: pc3_def pc2_def pc1_def)
  qed
qed

subsection \<open>Flags\<close>

lemma print_value_start: "\<exists>u us. print_value v = u # us \<and> u \<notin> {32, 9, 61}"
  by (cases v) (simp_all add: tick_quote_def)

lemma flag_read:
  assumes "pc_state pc = StartParameter" and "text_at pc = print_flag fv @ post" and "printable lower fs fv" and "next_flag post"
  shows "value_read lower fs pc post (AList.update (f_name (fst fv)) (snd fv) (pc_values pc))"
proof -
  obtain u us where u: "print_value (snd fv) = u # us" "u \<notin> {32, 9, 61}" using print_value_start by blast
  obtain pc1 where pc1: "leads lower False fs pc pc1" "pc_state pc1 = StartValue" "pc_field pc1 = Some (fst fv)"
    "text_at pc1 = u # us @ post" "pc_values pc1 = pc_values pc"
    by (rule read_flag [of pc "field_label (fst fv)" u "us @ post" lower fs "fst fv"])
      (use assms u in \<open>simp_all add: print_flag_def printable_def\<close>)
  have "value_read lower fs pc1 post (AList.update (f_name (fst fv)) (snd fv) (pc_values pc1))"
  proof (cases "snd fv")
    case (One s)
    obtain pc2 where pc2: "leads lower False fs pc1 pc2" "pc_state pc2 = EndTickedValue" "pc_field pc2 = pc_field pc1"
      "text_at pc2 = post" "pc_values pc2 = pc_values pc1" "pc_incomplete pc2 = s"
      by (rule read_value_start [of pc1 s post lower False fs])
        (use pc1 u One assms(3) in \<open>simp_all add: printable_def\<close>)
    then show ?thesis
      using value_read_from [OF pc2(1) end_value_read [of pc2 "fst fv" post]] pc1(3) assms(3,4) One
      by (simp add: printable_def del: js_simps)
  next
    case (Many ss)
    obtain pc2 where pc2: "leads lower False fs pc1 pc2" "pc_state pc2 = ParameterSeparator" "text_at pc2 = post"
      "pc_values pc2 = AList.update (f_name (fst fv)) (Many ss) (pc_values pc1)"
      by (rule read_list [of pc1 ss post "fst fv" lower fs])
        (use pc1 u Many assms(3) in \<open>simp_all add: printable_def\<close>)
    then show ?thesis
      using value_read_from [OF pc2(1) separator_read [OF pc2(2,3) assms(4)]] Many by simp
  qed
  with pc1 show ?thesis using value_read_from by metis
qed

lemma print_flags_next: "next_flag (case fvs of [] \<Rightarrow> [] | _ \<Rightarrow> 32 # print_flags fvs)"
  by (cases fvs rule: print_flags.cases) (simp_all add: next_flag_def print_flag_def)

lemma flags_read:
  assumes "pc_state pc = StartParameter" and "text_at pc = print_flags fvs" and "\<forall>fv \<in> set fvs. printable lower fs fv"
  shows "\<exists>pc'. form_loop lower False fs pc e x = Some (Some pc') \<and> pc_state pc' \<noteq> Error \<and>
    pc_values pc' = fold (\<lambda>fv. AList.update (f_name (fst fv)) (snd fv)) fvs (pc_values pc)"
  using assms
proof (induction fvs arbitrary: pc e x rule: print_flags.induct)
  case 1
  then have "form_step lower False fs pc e x = Return pc"
    by (simp add: form_step_def start_parameter_def current_Nil)
  from loop_return [OF this] show ?case using 1 by auto
next
  case (2 fv)
  then show ?case
    using flag_read [of pc fv "[]" lower fs] by (auto simp: value_read_def next_flag_def)
next
  case (3 fv gv fvs)
  obtain pc1 where pc1: "leads lower False fs pc pc1" "pc_state pc1 = StartParameter" "text_at pc1 = print_flags (gv # fvs)"
    "pc_values pc1 = AList.update (f_name (fst fv)) (snd fv) (pc_values pc)"
    using flag_read [of pc fv "32 # print_flags (gv # fvs)" lower fs] print_flags_next [of "gv # fvs"] "3.prems"
    by (auto simp: value_read_def)
  obtain e' x' where "form_loop lower False fs pc e x = form_loop lower False fs pc1 e' x'"
    using pc1(1) unfolding leads_def by blast
  then show ?case
    using "3.IH" [of pc1 e' x'] pc1 "3.prems" by simp
qed

section \<open>The name of the command\<close>

lemma match_go:
  "match_step lower auto pc bs = Go pc' bs' \<Longrightarrow> match_loop lower auto pc bs = match_loop lower auto pc' bs'"
  by (simp add: match_loop.simps [of lower auto pc])

lemma match_done: "match_step lower auto pc bs = Done pc' \<Longrightarrow> match_loop lower auto pc bs = Inr pc'"
  by (simp add: match_loop.simps [of lower auto pc])

lemma read_name:
  assumes "pc_state pc = Command" and "text_at pc = l @ post" and "\<not> has_blank l"
  shows "match_loop lower auto pc bs = match_loop lower auto (take_text l pc) bs"
  using assms
proof (induction l arbitrary: pc)
  case (Cons u l)
  have "match_step lower auto pc bs = Go (take_char (Some u) pc) bs"
    using Cons.prems by (simp add: match_step_def current_Cons blank_def has_blank_def)
  from match_go [OF this] show ?case
    using Cons.IH [of "take_char (Some u) pc"] Cons.prems by (simp add: take_char_text has_blank_def)
qed simp

text \<open>With no bindings below, the next word is read and not found.\<close>

lemma match_leaf_rest:
  assumes "pc_state pc = Command"
  shows "\<exists>st k s. match_loop lower auto pc [] = Inr (pc\<lparr>pc_state := st, pc_i := k, pc_incomplete := s\<rparr>) \<and>
    st \<in> {Command, EndCommand}"
  using assms
proof (induction "length (text_at pc)" arbitrary: pc rule: less_induct)
  case less
  consider (stop) "auto" "current pc = None" | (found) "current pc = None \<or> blank (current pc)" "\<not> (auto \<and> current pc = None)"
    | (go) "current pc \<noteq> None" "\<not> blank (current pc)" by argo
  then show ?case
  proof cases
    case stop
    then have "match_loop lower auto pc [] = Inr pc"
      using less.prems by (intro match_done) (simp add: match_step_def)
    then show ?thesis
      using less.prems by (intro exI [of _ Command] exI [of _ "pc_i pc"] exI [of _ "pc_incomplete pc"]) simp
  next
    case found
    then have "match_step lower auto pc [] = Go (goto EndCommand pc) []"
      using less.prems by (auto simp: match_step_def Let_def)
    moreover have "match_step lower auto (goto EndCommand pc) [] = Done (goto EndCommand pc)"
      by (simp add: match_step_def find_binding_def)
    ultimately have "match_loop lower auto pc [] = Inr (goto EndCommand pc)"
      using match_go match_done by metis
    then show ?thesis
      by (intro exI [of _ EndCommand] exI [of _ "pc_i pc"] exI [of _ "pc_incomplete pc"]) (simp add: goto_def)
  next
    case go
    then obtain u us where u: "text_at pc = u # us" by (auto simp: current_text split: list.splits)
    then have "match_step lower auto pc [] = Go (take_char (Some u) pc) []"
      using go less.prems by (simp add: match_step_def current_Cons Let_def)
    note step = match_go [OF this]
    have "length (text_at (take_char (Some u) pc)) < length (text_at pc)" using u by simp
    from less.hyps [OF this] less.prems show ?thesis
      unfolding step by (auto simp: take_char_def advance_def)
  qed
qed

text \<open>The binding that words name, one below the other; the words are typed with a blank behind each.\<close>

fun binding_at :: "(jsstring \<Rightarrow> jsstring) \<Rightarrow> app_binding list \<Rightarrow> jsstring list \<Rightarrow> app_binding option" where
  "binding_at lower bs [] = None"
| "binding_at lower bs (w # ws) =
     (case find_binding lower w bs of
        None \<Rightarrow> None
      | Some b \<Rightarrow> if ws = [] then Some b else binding_at lower (sub_bindings b) ws)"

definition path :: "jsstring list \<Rightarrow> jsstring" where
  "path ws = concat (map (\<lambda>w. w @ [32]) ws)"

definition words :: "jsstring list \<Rightarrow> bool" where
  "words ws \<longleftrightarrow> (\<forall>w \<in> set ws. \<not> has_blank w) \<and> [] \<notin> set (tl ws)"

definition word_starts :: "jsstring \<Rightarrow> bool" where
  "word_starts post \<longleftrightarrow> post = [] \<or> (\<exists>u us. post = u # us \<and> u \<notin> {32, 9})"

definition match_frame where
  "match_frame pc = (pc_command pc, pc_resolvedForm pc, pc_field pc, pc_position pc, pc_values pc)"

lemma match_frame_simps [simp]:
  "match_frame (goto s pc) = match_frame pc" "match_frame (restart pc) = match_frame pc"
  "match_frame (advance pc) = match_frame pc" "match_frame (take_text t pc) = match_frame pc"
  "match_frame (pc\<lparr>pc_binding := b, pc_location := l\<rparr>) = match_frame pc"
  by (simp_all add: match_frame_def goto_def restart_def advance_def take_text_def)

lemma word_read:
  assumes "pc_state pc = Command" and "pc_incomplete pc = []" and "text_at pc = w @ 32 # post" and "\<not> has_blank w"
    and "find_binding lower w bs = Some b"
  obtains pc' where "match_loop lower auto pc bs = match_loop lower auto pc' (sub_bindings b)"
    and "pc_state pc' = CommandSeparator" and "text_at pc' = post" and "pc_binding pc' = Some b"
    and "match_frame pc' = match_frame pc" and "pc_i pc' = Suc (pc_i pc + length w)"
proof -
  define pc1 where "pc1 = take_text w pc"
  define pc2 where "pc2 = goto EndCommand pc1"
  define pc3 where "pc3 = goto CommandSeparator (pc2\<lparr>pc_binding := Some b,
    pc_location := pc_location pc2 @ js ''/'' @ b_label (b_core b)\<rparr>)"
  have pc1: "text_at pc1 = 32 # post" "pc_state pc1 = Command" "pc_incomplete pc1 = w"
    using assms(1-3) by (simp_all add: pc1_def)
  have pc3: "text_at pc3 = 32 # post" "pc_state pc3 = CommandSeparator" "pc_i pc3 = pc_i pc + length w"
    "pc_binding pc3 = Some b"
    using pc1(1) by (simp_all add: pc3_def pc2_def pc1_def text_at_def goto_def)
  have frame: "match_frame pc3 = match_frame pc"
    by (simp add: pc3_def pc2_def pc1_def)
  have "match_loop lower auto pc bs = match_loop lower auto pc1 bs"
    unfolding pc1_def by (rule read_name [OF assms(1,3,4)])
  also have "\<dots> = match_loop lower auto pc2 bs"
    using pc1(2) by (intro match_go) (simp add: match_step_def current_Cons [OF pc1(1)] blank_def pc2_def)
  also have "\<dots> = match_loop lower auto pc3 (sub_bindings b)"
    using assms(5) pc1(3) by (intro match_go) (simp add: match_step_def pc3_def pc2_def goto_def)
  also have "\<dots> = match_loop lower auto (advance pc3) (sub_bindings b)"
    using pc3(2) by (intro match_go) (simp add: match_step_def current_Cons [OF pc3(1)] blank_def)
  finally show ?thesis
    by (rule that) (simp_all add: pc3 frame)
qed

lemma path_read:
  assumes "pc_state pc = Command" and "pc_incomplete pc = []" and "text_at pc = path ws @ post"
    and "words ws" and "binding_at lower bs ws = Some b"
  shows "\<exists>pc'. match_loop lower auto pc bs = match_loop lower auto pc' (sub_bindings b) \<and> pc_state pc' = CommandSeparator \<and>
    text_at pc' = post \<and> pc_binding pc' = Some b \<and> match_frame pc' = match_frame pc \<and> pc_i pc' = pc_i pc + length (path ws)"
  using assms
proof (induction ws arbitrary: pc bs)
  case (Cons w ws)
  obtain c where c: "find_binding lower w bs = Some c"
    using Cons.prems(5) by (auto split: option.splits)
  have texts: "text_at pc = w @ 32 # (path ws @ post)" "\<not> has_blank w"
    using Cons.prems(3,4) by (simp_all add: path_def words_def)
  obtain pc1 where pc1: "match_loop lower auto pc bs = match_loop lower auto pc1 (sub_bindings c)"
    "pc_state pc1 = CommandSeparator" "text_at pc1 = path ws @ post" "pc_binding pc1 = Some c"
    "match_frame pc1 = match_frame pc" "pc_i pc1 = Suc (pc_i pc + length w)"
    by (rule word_read [OF Cons.prems(1,2) texts c, of auto])
  show ?case
  proof (cases ws)
    case Nil
    then show ?thesis
      using pc1 c Cons.prems(5) by (intro exI [of _ pc1]) (simp add: path_def)
  next
    case (Cons v vs)
    then have "v \<noteq> []" "\<not> has_blank v"
      using Cons.prems(4) by (auto simp: words_def)
    then obtain u us where u: "path ws @ post = u # us" "u \<noteq> 32" "u \<noteq> 9"
      using Cons by (cases v) (auto simp: path_def has_blank_def)
    define pc2 where "pc2 = goto Command (restart pc1)"
    have "match_loop lower auto pc1 (sub_bindings c) = match_loop lower auto pc2 (sub_bindings c)"
      using pc1(2) u(2,3)
      by (intro match_go) (simp add: match_step_def current_Cons [OF pc1(3) [unfolded u(1)]] blank_def pc2_def)
    moreover have "\<exists>pc'. match_loop lower auto pc2 (sub_bindings c) = match_loop lower auto pc' (sub_bindings b) \<and>
      pc_state pc' = CommandSeparator \<and> text_at pc' = post \<and> pc_binding pc' = Some b \<and>
      match_frame pc' = match_frame pc2 \<and> pc_i pc' = pc_i pc2 + length (path ws)"
      by (rule Cons.IH) (use pc1(3) Cons.prems(4,5) c Cons in \<open>auto simp: pc2_def words_def restart_def goto_def text_at_def\<close>)
    ultimately show ?thesis
      using pc1 by (auto simp: pc2_def path_def)
  qed
qed simp

text \<open>
  Behind the words the loop is in \<open>Command\<close> at the rest of the text, with the bindings below that named,
  or has stopped there if nothing is left.
\<close>

lemma match_path:
  assumes "binding_at lower bs ws = Some b" and "words ws" and "word_starts post"
  defines "cmd \<equiv> 47 # path ws @ post"
  obtains pc where "match_loop lower auto (new_command cmd) bs
      = (if post = [] then Inr pc else match_loop lower auto pc (sub_bindings b))"
    and "pc_state pc = Command" and "pc_incomplete pc = []" and "text_at pc = post" and "pc_binding pc = Some b"
    and "match_frame pc = match_frame (new_command cmd)" and "pc_i pc = Suc (length (path ws))"
    and "pc_incompleteStart pc = Suc (length (path ws))"
proof -
  define pc1 where "pc1 = goto Command (restart (advance (new_command cmd)))"
  have "match_loop lower auto (new_command cmd) bs = match_loop lower auto pc1 bs"
    by (rule match_go) (simp add: match_step_def pc1_def new_command_def current_def cmd_def)
  moreover have "pc_state pc1 = Command" "pc_incomplete pc1 = []" "text_at pc1 = path ws @ post"
    by (simp_all add: pc1_def text_at_def new_command_def cmd_def goto_def restart_def advance_def)
  from path_read [OF this assms(2,1), of auto] obtain pc2 where pc2:
    "match_loop lower auto pc1 bs = match_loop lower auto pc2 (sub_bindings b)" "pc_state pc2 = CommandSeparator"
    "text_at pc2 = post" "pc_binding pc2 = Some b" "match_frame pc2 = match_frame pc1"
    "pc_i pc2 = pc_i pc1 + length (path ws)" by blast
  define pc3 where "pc3 = goto Command (restart pc2)"
  have "match_loop lower auto pc2 (sub_bindings b) = (if post = [] then Inr pc3 else match_loop lower auto pc3 (sub_bindings b))"
  proof (cases "post = []")
    case True
    then show ?thesis
      using pc2(2) current_Nil [of pc2] pc2(3) by (simp add: match_done match_step_def pc3_def)
  next
    case False
    then obtain u us where "post = u # us" "u \<notin> {32, 9}" using assms(3) by (auto simp: word_starts_def)
    then show ?thesis
      using pc2(2) current_Cons [of pc2 u us] pc2(3)
      by (simp add: match_go [of lower auto pc2 _ pc3] match_step_def pc3_def blank_def)
  qed
  ultimately show ?thesis
    by (intro that [of pc3])
      (use pc2 in \<open>simp_all add: pc3_def pc1_def\<close>, simp_all add: goto_def restart_def advance_def new_command_def)
qed

lemma match_leaf:
  assumes "find_binding lower name bs = Some b" and "sub_bindings b = []" and "\<not> has_blank name" and "word_starts post"
  shows "\<exists>pc. match_loop lower auto (new_command (47 # name @ 32 # post)) bs = Inr pc \<and> pc_state pc \<in> {Command, EndCommand} \<and>
    pc_binding pc = Some b \<and> match_frame pc = match_frame (new_command (47 # name @ 32 # post)) \<and>
    pc_incompleteStart pc = length name + 2"
proof -
  have split: "47 # name @ 32 # post = 47 # path [name] @ post" by (simp add: path_def)
  obtain pc where pc: "match_loop lower auto (new_command (47 # path [name] @ post)) bs
      = (if post = [] then Inr pc else match_loop lower auto pc (sub_bindings b))" "pc_state pc = Command"
    "pc_binding pc = Some b" "match_frame pc = match_frame (new_command (47 # path [name] @ post))"
    "pc_incompleteStart pc = Suc (length (path [name]))"
    by (rule match_path [of lower bs "[name]" b post auto]) (use assms in \<open>simp_all add: words_def\<close>)
  show ?thesis
  proof (cases "post = []")
    case True
    then show ?thesis
      using pc unfolding split by (intro exI [of _ pc]) (simp add: path_def)
  next
    case False
    obtain st k s where "match_loop lower auto pc [] = Inr (pc\<lparr>pc_state := st, pc_i := k, pc_incomplete := s\<rparr>)"
      "st \<in> {Command, EndCommand}"
      using match_leaf_rest [OF pc(2)] by blast
    then show ?thesis
      using pc False assms(2) unfolding split
      by (intro exI [of _ "pc\<lparr>pc_state := st, pc_i := k, pc_incomplete := s\<rparr>"]) (simp add: path_def match_frame_def)
  qed
qed

text \<open>The binding of a command that runs: a leaf with a form that can be submitted\<close>

definition command_binding :: "(jsstring \<Rightarrow> jsstring) \<Rightarrow> app_binding list \<Rightarrow> jsstring \<Rightarrow> app_form \<Rightarrow> bool" where
  "command_binding lower bs name form \<longleftrightarrow>
     \<not> has_blank name \<and> fm_submit form \<noteq> None \<and>
     (case find_binding lower name bs of
        None \<Rightarrow> False
      | Some b \<Rightarrow> sub_bindings b = [] \<and> b_submit (b_core b) = None \<and> b_form (b_core b) = Some form)"

lemma match_command:
  assumes "command_binding lower bs name form" and "word_starts post"
  obtains pc b where "matchBinding lower forms bs auto (new_command (47 # name @ 32 # post)) = pc"
    and "pc_state pc \<in> {Command, EndCommand}" and "pc_binding pc = Some b" and "sub_bindings b = []"
    and "pc_resolvedForm pc = Some form" and "pc_incompleteStart pc = length name + 2"
    and "pc_command pc = 47 # name @ 32 # post" and "pc_field pc = None" and "pc_position pc = 0" and "pc_values pc = []"
proof -
  obtain b where b: "find_binding lower name bs = Some b" "sub_bindings b = []" "\<not> has_blank name"
    "b_submit (b_core b) = None" "b_form (b_core b) = Some form" "fm_submit form \<noteq> None"
    using assms(1) by (auto simp: command_binding_def split: option.splits)
  from match_leaf [OF b(1-3) assms(2)] obtain pc where pc:
    "match_loop lower auto (new_command (47 # name @ 32 # post)) bs = Inr pc" "pc_state pc \<in> {Command, EndCommand}"
    "pc_binding pc = Some b" "match_frame pc = match_frame (new_command (47 # name @ 32 # post))"
    "pc_incompleteStart pc = length name + 2" by blast
  have "bs \<noteq> []" using b(1) by (auto simp: find_binding_def)
  then have "matchBinding lower forms bs auto (new_command (47 # name @ 32 # post)) = pc\<lparr>pc_resolvedForm := Some form\<rparr>"
    using pc(1,3) b by (auto simp: matchBinding_def resolve_form_def)
  then show ?thesis
    using pc b(2) by (intro that [of "pc\<lparr>pc_resolvedForm := Some form\<rparr>" b]) (auto simp: match_frame_def new_command_def)
qed

lemma parse_after_match:
  assumes "command_binding lower bs name form" and "word_starts post"
  obtains pc b where "parseForm lower auto (matchBinding lower forms bs auto (new_command (47 # name @ 32 # post)))
      = form_loop lower auto (parsed_fields form) pc False False"
    and "pc_state pc = StartParameter" and "text_at pc = post" and "pc_values pc = []"
    and "pc_command pc = 47 # name @ 32 # post" and "pc_i pc = length name + 2" and "pc_binding pc = Some b"
    and "pc_resolvedForm pc = Some form" and "pc_field pc = None" and "pc_position pc = 0"
proof -
  obtain m b where m: "matchBinding lower forms bs auto (new_command (47 # name @ 32 # post)) = m"
    "pc_state m \<in> {Command, EndCommand}" "pc_binding m = Some b" "pc_resolvedForm m = Some form"
    "pc_incompleteStart m = length name + 2" "pc_command m = 47 # name @ 32 # post" "pc_field m = None"
    "pc_position m = 0" "pc_values m = []"
    by (rule match_command [OF assms, of forms auto])
  then show ?thesis
    by (intro that [of "m\<lparr>pc_state := StartParameter, pc_i := pc_incompleteStart m\<rparr>" b])
      (auto simp: parseForm_def text_at_def)
qed

section \<open>Values in double quotes\<close>

lemma read_quoted:
  assumes "pc_state pc = QuotedValue" and "text_at pc = s @ post" and "34 \<notin> set s"
  shows "\<exists>pc'. leads lower False fs pc pc' \<and> pc_state pc' = QuotedValue \<and> pc_field pc' = pc_field pc \<and> text_at pc' = post \<and>
    pc_values pc' = pc_values pc \<and> pc_incompleteStart pc' = pc_incompleteStart pc \<and> pc_i pc' = pc_i pc + length s \<and>
    pc_incomplete pc' = pc_incomplete pc @ filter (\<lambda>u. u \<noteq> 92) s"
  using assms
proof (induction s arbitrary: pc)
  case Nil
  then show ?case by (intro exI [of _ pc]) simp
next
  case (Cons u s)
  let ?pc = "if u = 92 then advance pc else take_char (Some u) pc"
  have "form_step lower False fs pc e x = Next ?pc e (u = 92)" for e x
    using Cons.prems by (simp add: form_step_def quoted_value_def current_Cons)
  from loop_step [OF this] have first: "leads lower False fs pc ?pc"
    unfolding leads_def by blast
  have "pc_state ?pc = QuotedValue" "text_at ?pc = s @ post" "34 \<notin> set s"
    using Cons.prems by simp_all
  from Cons.IH [OF this] obtain pc' where "leads lower False fs ?pc pc'" "pc_state pc' = QuotedValue" "pc_field pc' = pc_field ?pc"
    "text_at pc' = post" "pc_values pc' = pc_values ?pc" "pc_incompleteStart pc' = pc_incompleteStart ?pc"
    "pc_i pc' = pc_i ?pc + length s" "pc_incomplete pc' = pc_incomplete ?pc @ filter (\<lambda>u. u \<noteq> 92) s" by blast
  with first show ?case
    by (intro exI [of _ pc']) (auto intro: leads_trans split: if_splits)
qed

lemma quoted_value_read:
  assumes "pc_state pc = StartValue" and "text_at pc = 34 # s @ [34]" and "s \<noteq> []" and "34 \<notin> set s"
    and "pc_field pc = Some f" and "f_type f \<noteq> BOOL"
  shows "\<exists>pc'. (\<forall>e x. form_loop lower False fs pc e x = Some (Some pc')) \<and>
    pc_state pc' = EndQuotedValue \<and> pc_values pc' = AList.update (f_name f) (One (filter (\<lambda>u. u \<noteq> 92) s)) (pc_values pc)"
proof -
  define pc1 where "pc1 = advance (goto QuotedValue (restart pc))"
  have "leads lower False fs pc pc1"
    using assms by (intro leads_step) (simp add: form_step_def start_value_def current_Cons pc1_def)
  moreover from read_quoted [of pc1 s "[34]" lower fs] obtain pc2 where pc2: "leads lower False fs pc1 pc2"
    "pc_state pc2 = QuotedValue" "pc_field pc2 = pc_field pc1" "text_at pc2 = [34]" "pc_values pc2 = pc_values pc1"
    "pc_incompleteStart pc2 = pc_incompleteStart pc1" "pc_i pc2 = pc_i pc1 + length s"
    "pc_incomplete pc2 = pc_incomplete pc1 @ filter (\<lambda>u. u \<noteq> 92) s"
    using assms by (auto simp: pc1_def)
  moreover define pc3 where "pc3 = goto EndQuotedValue (advance pc2)"
  have "leads lower False fs pc2 pc3"
    using pc2 assms(3) by (intro leads_step) (simp add: form_step_def quoted_value_def current_Cons pc3_def pc1_def)
  ultimately have "leads lower False fs pc pc3" by (blast intro: leads_trans)
  moreover have "form_step lower False fs pc3 e x
      = Return (restart (put_value (f_name f) (One (pc_incomplete pc3)) pc3))" for e x
    using pc2 assms(5,6) by (simp add: form_step_def end_value_def pc3_def current_Nil pc1_def Let_def)
  ultimately have "form_loop lower False fs pc e x
      = Some (Some (restart (put_value (f_name f) (One (pc_incomplete pc3)) pc3)))" for e x
    by (rule leads_return)
  then show ?thesis
    using pc2 by (auto simp: pc3_def pc1_def)
qed

section \<open>Properties\<close>

lemma update_new: "n \<notin> fst ` set vs \<Longrightarrow> AList.update n v vs = vs @ [(n, v)]"
  by (induction vs) auto

text \<open>
  C13. Flags round trip. The command put together from its name and the values of fields, each value in
  ticks, a list of them in brackets, is matched and parsed back to exactly these values in this
  order, whatever the fields, if each field comes once and is the first one with its label, labels hold no blank and no equals
  sign, values hold no tick and are not empty, lists are for fields that take several values, and the values of boolean
  fields are true or false.
\<close>

theorem flags_round_trip:
  assumes "command_binding lower bs name form"
    and "\<forall>fv \<in> set fvs. printable lower (parsed_fields form) fv"
    and "distinct (map (f_name \<circ> fst) fvs)"
  shows "\<exists>pc. parseForm lower False (matchBinding lower forms bs False (new_command (print_command name fvs))) = Some (Some pc) \<and>
    pc_state pc \<noteq> Error \<and> pc_values pc = map (\<lambda>fv. (f_name (fst fv), snd fv)) fvs"
proof -
  have start: "word_starts (print_flags fvs)"
    by (cases fvs rule: print_flags.cases) (simp_all add: print_flag_def word_starts_def)
  obtain pc where pc:
    "parseForm lower False (matchBinding lower forms bs False (new_command (print_command name fvs)))
      = form_loop lower False (parsed_fields form) pc False False"
    "pc_state pc = StartParameter" "text_at pc = print_flags fvs" "pc_values pc = []"
    unfolding print_command_def by (rule parse_after_match [OF assms(1) start, of False forms])
  have "fold (\<lambda>fv. AList.update (f_name (fst fv)) (snd fv)) fvs vs = vs @ map (\<lambda>fv. (f_name (fst fv), snd fv)) fvs"
    if "fst ` set vs \<inter> (f_name \<circ> fst) ` set fvs = {}" for vs
    using assms(3) that
  proof (induction fvs arbitrary: vs)
    case (Cons fv fvs)
    have "AList.update (f_name (fst fv)) (snd fv) vs = vs @ [(f_name (fst fv), snd fv)]"
      using Cons.prems(2) by (intro update_new) auto
    moreover have "fst ` set (vs @ [(f_name (fst fv), snd fv)]) \<inter> (f_name \<circ> fst) ` set fvs = {}"
      using Cons.prems by auto
    ultimately show ?case using Cons.IH Cons.prems(1) by simp
  qed simp
  from this [of "[]"] show ?thesis
    using flags_read [OF pc(2,3) assms(2), of False False] pc(1,4) by auto
qed

theorem flags_round_trip_witness:
  "\<exists>pc. parseForm id False (sample_match (print_command (js ''j'') [(sample_field, One (js ''a b''))])) = Some (Some pc) \<and>
    pc_values pc = [(js ''text'', One (js ''a b''))]"
proof -
  have "command_binding id [sample_binding] (js ''j'') sample_form"
    by (simp add: command_binding_def sample_binding_def sample_form_def has_blank_def find_binding_def sub_bindings_def)
  moreover have "\<forall>fv \<in> set [(sample_field, One (js ''a b''))]. printable id (parsed_fields sample_form) fv"
    by (simp add: printable_def quotable_def field_label_def find_flag_def parsed_fields_def sample_form_def sample_field_def)
  ultimately show ?thesis
    using flags_round_trip [of id "[sample_binding]" "js ''j''" sample_form "[(sample_field, One (js ''a b''))]" "\<lambda>_ _. None"]
    by (auto simp: sample_match_def sample_field_def)
qed

text \<open>
  In double quotes every backslash is dropped and none protects the character behind it: the
  value of a flag in double quotes is the text up to the next quote without its backslashes, so a
  quote cannot be part of it.
\<close>

theorem quotes_drop_backslashes:
  assumes "command_binding lower bs name form" and "find_flag lower l (parsed_fields form) = Some f"
    and "f_type f \<noteq> BOOL" and "set l \<inter> {32, 9, 61} = {}" and "s \<noteq> []" and "34 \<notin> set s"
  shows "\<exists>pc. parseForm lower False (matchBinding lower forms bs False
      (new_command (47 # name @ [32, 45, 45] @ l @ [61, 34] @ s @ [34]))) = Some (Some pc) \<and>
    pc_state pc = EndQuotedValue \<and> pc_values pc = [(f_name f, One (filter (\<lambda>u. u \<noteq> 92) s))]"
proof -
  have start: "word_starts ([45, 45] @ l @ [61, 34] @ s @ [34])" by (simp add: word_starts_def)
  obtain pc where pc:
    "parseForm lower False (matchBinding lower forms bs False (new_command (47 # name @ [32, 45, 45] @ l @ [61, 34] @ s @ [34])))
      = form_loop lower False (parsed_fields form) pc False False"
    "pc_state pc = StartParameter" "text_at pc = [45, 45] @ l @ 61 # 34 # s @ [34]" "pc_values pc = []"
    by (rule parse_after_match [OF assms(1) start, of False forms]) simp_all
  obtain pc1 where pc1: "leads lower False (parsed_fields form) pc pc1" "pc_state pc1 = StartValue" "pc_field pc1 = Some f"
    "text_at pc1 = 34 # s @ [34]" "pc_values pc1 = pc_values pc"
    by (rule read_flag [OF pc(2,3) assms(4) _ assms(2)]) auto
  from quoted_value_read [OF pc1(2,4) assms(5,6) pc1(3) assms(3), of lower "parsed_fields form"]
  show ?thesis
    using pc1(1,5) pc(1,4) unfolding leads_def by fastforce
qed

theorem quotes_drop_backslashes_witness:
  "\<exists>pc. parseForm id False (sample_match (js ''/j --t='' @ [34] @ js ''C:/a'' @ [92, 92, 98, 34])) = Some (Some pc) \<and>
    pc_values pc = [(js ''text'', One (js ''C:/ab''))]"
proof -
  have "command_binding id [sample_binding] (js ''j'') sample_form"
    by (simp add: command_binding_def sample_binding_def sample_form_def has_blank_def find_binding_def sub_bindings_def)
  moreover have "find_flag id (js ''t'') (parsed_fields sample_form) = Some sample_field"
    by (simp add: find_flag_def parsed_fields_def sample_form_def sample_field_def)
  ultimately show ?thesis
    using quotes_drop_backslashes [of id "[sample_binding]" "js ''j''" sample_form "js ''t''" sample_field
        "js ''C:/a'' @ [92, 92, 98]" "\<lambda>_ _. None"]
    by (auto simp: sample_match_def sample_field_def)
qed

end
