(* ===== verification/CommandCall.thy ===== *)
theory CommandCall
  imports AppCallsProps CommandRoundtrip
begin

text \<open>
  \<open>AppCommandParser\<close> of \<open>app_command_parser.ts\<close>: from a parsed command to the call of the app. Defaults are
  filled in, required fields checked, and the names typed are replaced by what they stand for.

  Parameters: a \<open>directory\<close> is what the store and the server know of users and channels; \<open>arrive\<close> is the order
  in which the answers to the requests made at the same time (\<open>Promise.all\<close>) come in, a permutation.
\<close>

section \<open>Users and channels\<close>

record app_user =
  au_id :: jsstring
  au_username :: jsstring

record app_channel =
  ac_id :: jsstring
  ac_name :: jsstring
  ac_display_name :: jsstring

text \<open>A user or channel is looked up in the store first (\<open>st_\<close>), then asked for (\<open>sv_\<close>).\<close>

record directory =
  st_user :: "jsstring \<Rightarrow> app_user option"
  sv_user :: "jsstring \<Rightarrow> app_user option"
  st_userByName :: "jsstring \<Rightarrow> app_user option"
  sv_userByName :: "jsstring \<Rightarrow> app_user option"
  st_channel :: "jsstring \<Rightarrow> app_channel option"
  sv_channel :: "jsstring \<Rightarrow> app_channel option"
  st_channelByName :: "jsstring \<Rightarrow> app_channel option"
  sv_channelByName :: "jsstring \<Rightarrow> jsstring \<Rightarrow> app_channel option"
  currentTeamName :: "jsstring option"

definition getUserByName :: "directory \<Rightarrow> jsstring \<Rightarrow> app_user option" where
  "getUserByName d userName =
     (case st_userByName d userName of None \<Rightarrow> sv_userByName d userName | Some u \<Rightarrow> Some u)"

definition getChannelByName :: "directory \<Rightarrow> jsstring \<Rightarrow> app_channel option" where
  "getChannelByName d channelName =
     (case st_channelByName d channelName of
        None \<Rightarrow> (case currentTeamName d of None \<Rightarrow> None | Some team \<Rightarrow> sv_channelByName d team channelName)
      | Some c \<Rightarrow> Some c)"

section \<open>Values\<close>

fun of_param :: "param_value \<Rightarrow> call_value" where
  "of_param (One s) = VString s"
| "of_param (Many ss) = VStrings ss"

definition parsed_values :: "parsed \<Rightarrow> call_values" where
  "parsed_values pc = map (\<lambda>(n, v). (n, of_param v)) (pc_values pc)"

definition value_under :: "call_values \<Rightarrow> jsstring \<Rightarrow> call_value" where
  "value_under vals name =
     (case map_of vals name of Some v \<Rightarrow> v | None \<Rightarrow> if name \<in> set inherited then VInherited else VUndefined)"

definition has_prop :: "call_values \<Rightarrow> jsstring \<Rightarrow> bool" where
  "has_prop vals name \<longleftrightarrow> map_of vals name \<noteq> None \<or> name \<in> set inherited"

fun falsy :: "call_value \<Rightarrow> bool" where
  "falsy VUndefined = True"
| "falsy (VString s) = (s = [])"
| "falsy (VBool b) = (\<not> b)"
| "falsy _ = False"

section \<open>All fields at the same time\<close>

datatype field_error =
    Same_option jsstring | Unknown_option call_value | Unknown_user call_value | Same_user jsstring
  | Unknown_channel call_value | Same_channel jsstring

text \<open>
  Defaults and expansion start an asynchronous function for every field of the form and wait for all of
  them. What becomes of a field: a value and maybe an error at once; or when its users or channels have been
  asked for, a value, an error, both (a name given twice) or none (a default that is not found); nothing; or
  the call of a string's method on something else.
\<close>

datatype field_outcome = Put call_value "field_error option" | Later "call_value option" "field_error option" | Keep | Type_error

type_synonym late_value = "jsstring \<times> call_value option \<times> field_error option"

definition set_value :: "jsstring \<Rightarrow> call_value option \<Rightarrow> call_values \<Rightarrow> call_values" where
  "set_value name v vals = (case v of None \<Rightarrow> vals | Some v \<Rightarrow> AList.update name v vals)"

definition set_error ::
  "jsstring \<Rightarrow> field_error option \<Rightarrow> (jsstring \<times> field_error) list \<Rightarrow> (jsstring \<times> field_error) list" where
  "set_error name e errors = (case e of None \<Rightarrow> errors | Some e \<Rightarrow> AList.update name e errors)"

text \<open>Values, errors by field, and what is still to come; \<open>None\<close> when a field has thrown.\<close>

type_synonym pass = "call_values \<times> (jsstring \<times> field_error) list \<times> late_value list"

definition field_step :: "(call_values \<Rightarrow> app_field \<Rightarrow> field_outcome) \<Rightarrow> app_field \<Rightarrow> pass option \<Rightarrow> pass option" where
  "field_step outcome f acc =
     (case acc of
        None \<Rightarrow> None
      | Some (vals, errors, late) \<Rightarrow>
          (case outcome vals f of
             Put v e \<Rightarrow> Some (AList.update (f_name f) v vals, set_error (f_name f) e errors, late)
           | Later v e \<Rightarrow> Some (vals, errors, late @ [(f_name f, v, e)])
           | Keep \<Rightarrow> Some (vals, errors, late)
           | Type_error \<Rightarrow> None))"

definition all_fields ::
  "(call_values \<Rightarrow> app_field \<Rightarrow> field_outcome) \<Rightarrow> (late_value list \<Rightarrow> late_value list) \<Rightarrow> app_form option \<Rightarrow> call_values \<Rightarrow>
   (call_values \<times> (jsstring \<times> field_error) list) option" where
  "all_fields outcome arrive form vals =
     (case Option.bind form fm_fields of
        None \<Rightarrow> Some (vals, [])
      | Some fs \<Rightarrow>
          map_option (\<lambda>(vals, errors, late).
              (fold (\<lambda>(name, v, e). set_value name v) (arrive late) vals,
               fold (\<lambda>(name, v, e). set_error name e) (arrive late) errors))
            (fold (field_step outcome) fs (Some (vals, [], []))))"

section \<open>Defaults\<close>

fun no_default :: "form_value option \<Rightarrow> bool" where
  "no_default None = True"
| "no_default (Some (ValString s)) = (s = [])"
| "no_default (Some (ValBool b)) = (\<not> b)"
| "no_default (Some _) = False"

fun as_call_value :: "form_value \<Rightarrow> call_value" where
  "as_call_value (ValString s) = VString s"
| "as_call_value (ValOption opt) = VOption opt"
| "as_call_value (ValOptions opts) = VOptions opts"
| "as_call_value (ValBool b) = VBool b"

text \<open>The property \<open>value\<close> and \<open>label\<close> of a default; what is not an option has neither.\<close>

fun value_property :: "form_value \<Rightarrow> jsstring option" where
  "value_property (ValOption opt) = Some (o_value opt)"
| "value_property _ = None"

fun label_property :: "form_value \<Rightarrow> jsstring option" where
  "label_property (ValOption opt) = Some (o_label opt)"
| "label_property _ = None"

definition default_value :: "directory \<Rightarrow> field_type \<Rightarrow> form_value \<Rightarrow> field_outcome" where
  "default_value d t v =
     (case t of
        TEXT \<Rightarrow> Put (as_call_value v) None
      | BOOL \<Rightarrow> Put (VString (js ''true'')) None
      | USER \<Rightarrow>
          (let userID = in_template (value_property v)
           in case st_user d userID of
                Some u \<Rightarrow> Put (VString (au_username u)) None
              | None \<Rightarrow> Later (map_option (\<lambda>u. VString (au_username u)) (sv_user d userID)) None)
      | CHANNEL \<Rightarrow>
          (let channelID = in_template (label_property v)
           in case st_channel d channelID of
                Some c \<Rightarrow> Put (VString (ac_name c)) None
              | None \<Rightarrow> Later (map_option (\<lambda>c. VString (ac_name c)) (sv_channel d channelID)) None)
      | STATIC_SELECT \<Rightarrow> Put (case value_property v of None \<Rightarrow> VUndefined | Some s \<Rightarrow> VString s) None
      | DYNAMIC_SELECT \<Rightarrow> Put (case value_property v of None \<Rightarrow> VUndefined | Some s \<Rightarrow> VString s) None
      | _ \<Rightarrow> Keep)"

definition default_outcome :: "directory \<Rightarrow> call_values \<Rightarrow> app_field \<Rightarrow> field_outcome" where
  "default_outcome d vals f =
     (if no_default (f_value f) \<or> \<not> (f_readonly f \<or> \<not> has_prop vals (f_name f)) then Keep
      else default_value d (f_type f) (the (f_value f)))"

definition addDefaultAndReadOnlyValues ::
  "directory \<Rightarrow> (late_value list \<Rightarrow> late_value list) \<Rightarrow> app_form option \<Rightarrow> call_values \<Rightarrow> call_values" where
  "addDefaultAndReadOnlyValues d arrive form vals =
     (case all_fields (default_outcome d) arrive form vals of None \<Rightarrow> vals | Some (vals', errors) \<Rightarrow> vals')"

definition getMissingFields :: "app_form option \<Rightarrow> call_values \<Rightarrow> app_field list" where
  "getMissingFields form vals =
     (case Option.bind form fm_fields of
        None \<Rightarrow> []
      | Some fs \<Rightarrow> filter (\<lambda>f. f_is_required f \<and> falsy (value_under vals (f_name f))) fs)"

section \<open>Expansion\<close>


fun strip_sigil :: "nat \<Rightarrow> jsstring \<Rightarrow> jsstring" where
  "strip_sigil c [] = []"
| "strip_sigil c (u # us) = (if u = c then us else u # us)"

definition same_value :: "select_option list \<Rightarrow> jsstring \<Rightarrow> bool" where
  "same_value opts s \<longleftrightarrow> find (\<lambda>opt. o_value opt = s) opts \<noteq> None"

definition plain_option :: "jsstring \<Rightarrow> jsstring \<Rightarrow> select_option" where
  "plain_option label v = \<lparr>o_label = label, o_value = v, o_icon_data = None\<rparr>"

fun static_options ::
  "select_option list \<Rightarrow> select_option list \<Rightarrow> field_error option \<Rightarrow> jsstring list \<Rightarrow> field_outcome" where
  "static_options opts acc e [] = Put (VOptions acc) e"
| "static_options opts acc e (v # vs) =
     (case find (\<lambda>opt. o_value opt = v) opts of
        None \<Rightarrow> Put VUndefined (Some (Unknown_option (VString v)))
      | Some opt \<Rightarrow>
          static_options opts (acc @ [opt]) (if same_value acc (o_value opt) then Some (Same_option v) else e) vs)"

fun user_options :: "directory \<Rightarrow> select_option list \<Rightarrow> field_error option \<Rightarrow> jsstring list \<Rightarrow> field_outcome" where
  "user_options d acc e [] = Later (Some (VOptions acc)) e"
| "user_options d acc e (v # vs) =
     (let userName = strip_sigil 64 v
      in case getUserByName d userName of
           None \<Rightarrow> Later None (Some (Unknown_user (VString userName)))
         | Some u \<Rightarrow>
             user_options d (acc @ [plain_option (au_username u) (au_id u)])
               (if same_value acc (au_id u) then Some (Same_user userName) else e) vs)"

fun channel_options :: "directory \<Rightarrow> select_option list \<Rightarrow> field_error option \<Rightarrow> jsstring list \<Rightarrow> field_outcome" where
  "channel_options d acc e [] = Later (Some (VOptions acc)) e"
| "channel_options d acc e (v # vs) =
     (let channelName = strip_sigil 126 v
      in case getChannelByName d channelName of
           None \<Rightarrow> Later None (Some (Unknown_channel (VString channelName)))
         | Some c \<Rightarrow>
             channel_options d (acc @ [plain_option (ac_display_name c) (ac_id c)])
               (if same_value acc (ac_id c) then Some (Same_channel channelName) else e) vs)"

fun is_array :: "call_value \<Rightarrow> bool" where
  "is_array (VStrings ss) = True"
| "is_array (VOptions opts) = True"
| "is_array _ = False"

text \<open>The loop over the values given for a dynamic select looks for each in a list it never adds to.\<close>

fun dynamic_options :: "field_error option \<Rightarrow> jsstring list \<Rightarrow> field_outcome" where
  "dynamic_options e [] = Put (VOptions []) e"
| "dynamic_options e (v # vs) = dynamic_options (if same_value [] v then Some (Same_option v) else e) vs"

definition expand_dynamic :: "app_field \<Rightarrow> call_value \<Rightarrow> field_outcome" where
  "expand_dynamic f v =
     (if f_multiselect f \<and> is_array v then dynamic_options None (case v of VStrings ss \<Rightarrow> ss | _ \<Rightarrow> [])
      else Put (case v of VString s \<Rightarrow> VOption (plain_option s s) | _ \<Rightarrow> VSame v) None)"

definition field_options :: "app_field \<Rightarrow> select_option list" where
  "field_options f = (case f_options f of None \<Rightarrow> [] | Some opts \<Rightarrow> opts)"

definition expand_static :: "app_field \<Rightarrow> call_value \<Rightarrow> field_outcome" where
  "expand_static f v =
     (case v of
        VStrings ss \<Rightarrow>
          if f_multiselect f then static_options (field_options f) [] None ss else Put VUndefined (Some (Unknown_option v))
      | VOptions (opt # opts) \<Rightarrow>
          Put VUndefined (Some (Unknown_option (if f_multiselect f then VOption opt else v)))
      | VOptions [] \<Rightarrow> if f_multiselect f then Put v None else Put VUndefined (Some (Unknown_option v))
      | VString s \<Rightarrow>
          (case find (\<lambda>opt. o_value opt = s) (field_options f) of
             None \<Rightarrow> Put VUndefined (Some (Unknown_option v))
           | Some opt \<Rightarrow> Put (VOption opt) None)
      | _ \<Rightarrow> Put VUndefined (Some (Unknown_option v)))"

text \<open>
  A value that is no string and no list of strings, which only a second field of the same name and another
  type can leave, is taken to find nobody.
\<close>

definition expand_user :: "directory \<Rightarrow> app_field \<Rightarrow> call_value \<Rightarrow> field_outcome" where
  "expand_user d f v =
     (case v of
        VStrings ss \<Rightarrow> if f_multiselect f then user_options d [] None ss else Later None (Some (Unknown_user v))
      | VString s \<Rightarrow>
          (let userName = strip_sigil 64 s
           in case getUserByName d userName of
                None \<Rightarrow> Later None (Some (Unknown_user (VString userName)))
              | Some u \<Rightarrow> Later (Some (VOption (plain_option (au_username u) (au_id u)))) None)
      | _ \<Rightarrow> Later None (Some (Unknown_user v)))"

definition expand_channel :: "directory \<Rightarrow> app_field \<Rightarrow> call_value \<Rightarrow> field_outcome" where
  "expand_channel d f v =
     (case v of
        VStrings ss \<Rightarrow> if f_multiselect f then channel_options d [] None ss else Later None (Some (Unknown_channel v))
      | VString s \<Rightarrow>
          (let channelName = strip_sigil 126 s
           in case getChannelByName d channelName of
                None \<Rightarrow> Later None (Some (Unknown_channel (VString channelName)))
              | Some c \<Rightarrow> Later (Some (VOption (plain_option (ac_display_name c) (ac_id c)))) None)
      | _ \<Rightarrow> Later None (Some (Unknown_channel v)))"

definition expand_bool :: "(jsstring \<Rightarrow> jsstring) \<Rightarrow> call_value \<Rightarrow> field_outcome" where
  "expand_bool lower v = (case v of VString s \<Rightarrow> Put (VBool (lower s = js ''true'')) None | _ \<Rightarrow> Type_error)"

definition expand_value :: "(jsstring \<Rightarrow> jsstring) \<Rightarrow> directory \<Rightarrow> app_field \<Rightarrow> call_value \<Rightarrow> field_outcome" where
  "expand_value lower d f v =
     (case f_type f of
        DYNAMIC_SELECT \<Rightarrow> expand_dynamic f v
      | STATIC_SELECT \<Rightarrow> expand_static f v
      | USER \<Rightarrow> expand_user d f v
      | CHANNEL \<Rightarrow> expand_channel d f v
      | BOOL \<Rightarrow> expand_bool lower v
      | _ \<Rightarrow> Keep)"

definition expand_outcome :: "(jsstring \<Rightarrow> jsstring) \<Rightarrow> directory \<Rightarrow> call_values \<Rightarrow> app_field \<Rightarrow> field_outcome" where
  "expand_outcome lower d vals f =
     (let v = value_under vals (f_name f) in if falsy v then Keep else expand_value lower d f v)"

definition expandOptions ::
  "(jsstring \<Rightarrow> jsstring) \<Rightarrow> directory \<Rightarrow> (late_value list \<Rightarrow> late_value list) \<Rightarrow> app_form option \<Rightarrow> call_values \<Rightarrow>
   (call_values \<times> (jsstring \<times> field_error) list) option" where
  "expandOptions lower d arrive form vals = all_fields (expand_outcome lower d) arrive form vals"

section \<open>The call\<close>

datatype command_result =
    Request call_request
  | Parse_failed "parse_error option"
  | Fields_missing "app_field list"
  | No_binding
  | No_submit_call
  | Field_errors "(jsstring \<times> field_error) list"

text \<open>The call with the values expanded; \<open>None\<close> when the expansion has thrown.\<close>

definition composeCallRequest ::
  "(jsstring \<Rightarrow> jsstring) \<Rightarrow> directory \<Rightarrow> (late_value list \<Rightarrow> late_value list) \<Rightarrow> command_place \<Rightarrow> parsed \<Rightarrow> call_values \<Rightarrow>
   app_call option \<Rightarrow> command_result option" where
  "composeCallRequest lower d arrive p pc vals call =
     (case (pc_binding pc, call) of
        (None, _) \<Rightarrow> Some No_binding
      | (Some b, None) \<Rightarrow> Some No_submit_call
      | (Some b, Some call) \<Rightarrow>
          map_option (\<lambda>(vals, errors).
              if errors \<noteq> [] then Field_errors errors
              else Request (createCallRequest call (getAppContext p b) [] (Some vals) (Some (pc_command pc))))
            (expandOptions lower d arrive (pc_resolvedForm pc) vals))"

definition submit_parsed ::
  "(jsstring \<Rightarrow> jsstring) \<Rightarrow> directory \<Rightarrow> (late_value list \<Rightarrow> late_value list) \<Rightarrow> command_place \<Rightarrow> parsed \<Rightarrow>
   command_result option" where
  "submit_parsed lower d arrive p pc =
     (if pc_state pc = Error then Some (Parse_failed (pc_error pc))
      else
        let vals = addDefaultAndReadOnlyValues d arrive (pc_resolvedForm pc) (parsed_values pc);
            missing = getMissingFields (pc_resolvedForm pc) vals
        in if missing \<noteq> [] then Some (Fields_missing missing)
           else composeCallRequest lower d arrive p pc vals (Option.bind (pc_resolvedForm pc) fm_submit))"

text \<open>What the parser needs to know besides the command: the translations, the app, the place, the store.\<close>

record parser_env =
  pe_fm :: "call_message \<Rightarrow> jsstring"
  pe_execute :: executor
  pe_place :: command_place
  pe_featureFlag :: bool
  pe_store :: apps_state

definition env_forms :: "parser_env \<Rightarrow> form_cache" where
  "env_forms env location b =
     Some (fst (getSubmittableForm (pe_fm env) (pe_execute env) (pe_place env) (pe_store env) location b))"

definition env_bindings :: "parser_env \<Rightarrow> app_binding list" where
  "env_bindings env = getCommandBindings (pe_place env) (pe_featureFlag env) (pe_store env)"

definition parse_command :: "(jsstring \<Rightarrow> jsstring) \<Rightarrow> parser_env \<Rightarrow> jsstring \<Rightarrow> parsed option option" where
  "parse_command lower env command =
     parseForm lower False (matchBinding lower (env_forms env) (env_bindings env) False (new_command command))"

text \<open>As for the loop, the outer option tells whether it returns, the inner one whether without throwing.\<close>

definition composeCommandSubmitCall ::
  "(jsstring \<Rightarrow> jsstring) \<Rightarrow> directory \<Rightarrow> (late_value list \<Rightarrow> late_value list) \<Rightarrow> parser_env \<Rightarrow> jsstring \<Rightarrow>
   command_result option option" where
  "composeCommandSubmitCall lower d arrive env command =
     (case parse_command lower env command of
        None \<Rightarrow> None
      | Some None \<Rightarrow> Some None
      | Some (Some pc) \<Rightarrow> Some (submit_parsed lower d arrive (pe_place env) pc))"

text \<open>The form opened with the values typed: a copy of the form, each field with its value if it has one.\<close>

record filled_form =
  ff_form :: app_form
  ff_values :: "(app_field \<times> call_value option) list"
  ff_title :: "jsstring option"
  ff_context :: app_context

definition fill_form :: "command_place \<Rightarrow> app_binding \<Rightarrow> app_form \<Rightarrow> call_values \<Rightarrow> filled_form" where
  "fill_form p b form vals =
     \<lparr>ff_form = form,
      ff_values = map (\<lambda>f. (f, let v = value_under vals (f_name f) in if falsy v then None else Some v))
        (case fm_fields form of None \<Rightarrow> [] | Some fs \<Rightarrow> fs),
      ff_title = (if fm_title form = None \<or> fm_title form = Some [] then b_location (b_core b) else fm_title form),
      ff_context = getAppContext p b\<rparr>"

text \<open>
  The state after parsing is not looked at. Without a form, \<open>JSON.stringify\<close> gives \<open>undefined\<close>, which
  \<open>JSON.parse\<close> does not accept.
\<close>

definition form_parsed ::
  "(jsstring \<Rightarrow> jsstring) \<Rightarrow> directory \<Rightarrow> (late_value list \<Rightarrow> late_value list) \<Rightarrow> command_place \<Rightarrow> parsed \<Rightarrow>
   filled_form option" where
  "form_parsed lower d arrive p pc =
     (case (pc_resolvedForm pc, pc_binding pc) of
        (Some form, Some b) \<Rightarrow>
          map_option (\<lambda>(vals, errors). fill_form p b form vals)
            (expandOptions lower d arrive (Some form) (parsed_values pc))
      | _ \<Rightarrow> None)"

definition composeFormFromCommand ::
  "(jsstring \<Rightarrow> jsstring) \<Rightarrow> directory \<Rightarrow> (late_value list \<Rightarrow> late_value list) \<Rightarrow> parser_env \<Rightarrow> jsstring \<Rightarrow>
   filled_form option option" where
  "composeFormFromCommand lower d arrive env command =
     (case parse_command lower env command of
        None \<Rightarrow> None
      | Some None \<Rightarrow> Some None
      | Some (Some pc) \<Rightarrow> Some (form_parsed lower d arrive (pe_place env) pc))"

end
