(* ===== verification/CommandSuggest.thy ===== *)
theory CommandSuggest
  imports CommandCall
begin

text \<open>
  What is offered while a slash command is typed: \<open>getSuggestions\<close> of \<open>AppCommandParser\<close> in
  \<open>app_command_parser.ts\<close>, with \<open>command_provider/mentions/index.ts\<close> for users and channels mentioned in
  a text, and the lists \<open>CommandProvider\<close> of \<open>command_provider.tsx\<close> shows.

  Parameters: the texts (\<open>se_text\<close>), what the server finds for the beginning of the name of a user or a
  channel, and those of the parser and of the calls.
\<close>

section \<open>Suggestions\<close>

datatype suggest_item = User_item app_user | Channel_item app_channel

record suggestion =
  su_Complete :: jsstring
  su_Suggestion :: jsstring
  su_Hint :: jsstring
  su_Description :: jsstring
  su_IconData :: jsstring
  su_type :: "jsstring option"
  su_item :: "suggest_item option"

datatype suggest_text =
    No_matching | Parsing_error | Parser_message "parse_error option"
  | No_static_options | No_dynamic_options | Dynamic_select_error | Error_text jsstring
  | Preparing_failed command_result

text \<open>What \<open>autocompleteUsersInChannel\<close> finds: users of the channel, and maybe others.\<close>

record found_users =
  fu_users :: "app_user list"
  fu_out_of_channel :: "app_user list option"

record suggest_env =
  se_parser :: parser_env
  se_directory :: directory
  se_arrive :: "late_value list \<Rightarrow> late_value list"
  se_text :: "suggest_text \<Rightarrow> jsstring"
  se_mac :: bool
  se_users :: "jsstring \<Rightarrow> found_users option"
  se_channels :: "jsstring \<Rightarrow> app_channel list option"

definition opt_text :: "jsstring option \<Rightarrow> jsstring" where
  "opt_text s = (case s of None \<Rightarrow> [] | Some s \<Rightarrow> s)"

definition startsWith :: "jsstring \<Rightarrow> jsstring \<Rightarrow> bool" where
  "startsWith s p \<longleftrightarrow> take (length p) s = p"

definition endsWith :: "jsstring \<Rightarrow> jsstring \<Rightarrow> bool" where
  "endsWith s e \<longleftrightarrow> drop (length s - length e) s = e"

text \<open>\<open>s1 || s2\<close>\<close>

definition or_else :: "jsstring option \<Rightarrow> jsstring \<Rightarrow> jsstring" where
  "or_else s t = (if opt_text s = [] then t else opt_text s)"

definition EXECUTE_CURRENT_COMMAND_ITEM_ID :: jsstring where
  "EXECUTE_CURRENT_COMMAND_ITEM_ID = js ''_execute_current_command''"

definition OPEN_COMMAND_IN_MODAL_ITEM_ID :: jsstring where
  "OPEN_COMMAND_IN_MODAL_ITEM_ID = js ''_open_command_in_modal''"

definition COMMAND_SUGGESTION_ERROR :: jsstring where "COMMAND_SUGGESTION_ERROR = js ''error''"
definition COMMAND_SUGGESTION_CHANNEL :: jsstring where "COMMAND_SUGGESTION_CHANNEL = js ''channel''"
definition COMMAND_SUGGESTION_USER :: jsstring where "COMMAND_SUGGESTION_USER = js ''user''"
definition COMMANDS :: jsstring where "COMMANDS = js ''commands''"

text \<open>A suggestion without a type: what is inserted, what is shown, hint, description and icon\<close>

definition suggest :: "jsstring \<Rightarrow> jsstring \<Rightarrow> jsstring \<Rightarrow> jsstring \<Rightarrow> jsstring \<Rightarrow> suggestion" where
  "suggest complete shown hint description icon = \<lparr>su_Complete = complete, su_Suggestion = shown, su_Hint = hint,
     su_Description = description, su_IconData = icon, su_type = None, su_item = None\<rparr>"

definition binding_icon :: "parsed \<Rightarrow> jsstring" where
  "binding_icon pc = opt_text (Option.bind (pc_binding pc) (\<lambda>b. b_icon (b_core b)))"

section \<open>Base commands\<close>

definition command_base :: "app_binding \<Rightarrow> jsstring" where
  "command_base b = (let base = b_label (b_core b) in if take 1 base \<noteq> [47] then 47 # base else base)"

definition isAppCommand :: "(jsstring \<Rightarrow> jsstring) \<Rightarrow> app_binding list \<Rightarrow> jsstring \<Rightarrow> bool" where
  "isAppCommand lower bs pretext \<longleftrightarrow>
     (\<exists>b \<in> set bs. b_label (b_core b) \<noteq> [] \<and> startsWith (lower pretext) (command_base b @ [32]))"

definition binding_suggestion :: "app_binding \<Rightarrow> jsstring \<Rightarrow> suggestion" where
  "binding_suggestion b shown =
     (suggest (b_label (b_core b)) shown (opt_text (b_hint (b_core b))) (opt_text (b_description (b_core b)))
        (opt_text (b_icon (b_core b))))\<lparr>su_type := Some COMMANDS\<rparr>"

definition getSuggestionsBase :: "(jsstring \<Rightarrow> jsstring) \<Rightarrow> app_binding list \<Rightarrow> jsstring \<Rightarrow> suggestion list" where
  "getSuggestionsBase lower bs pretext =
     map (\<lambda>b. binding_suggestion b (command_base b))
       (filter (\<lambda>b. b_label (b_core b) \<noteq> [] \<and> startsWith (command_base b) (lower pretext)) bs)"

section \<open>Subcommands and flags\<close>

definition getCommandSuggestions :: "(jsstring \<Rightarrow> jsstring) \<Rightarrow> parsed \<Rightarrow> suggestion list" where
  "getCommandSuggestions lower pc =
     (case pc_binding pc of
        None \<Rightarrow> []
      | Some b \<Rightarrow> map (\<lambda>b. binding_suggestion b (b_label (b_core b)))
          (filter (\<lambda>b. startsWith (lower (b_label (b_core b))) (lower (pc_incomplete pc))) (sub_bindings b)))"

definition unit_at :: "parsed \<Rightarrow> nat \<Rightarrow> nat option" where
  "unit_at pc i = (if i < length (pc_command pc) then Some (pc_command pc ! i) else None)"

text \<open>The dashes still to type: the loop looks at up to two characters before the name, not at the first one.\<close>

definition flag_prefix :: "parsed \<Rightarrow> jsstring" where
  "flag_prefix pc =
     (let prev = pc_incompleteStart pc - 1;
          one = 0 < prev \<and> unit_at pc prev = Some 45;
          two = one \<and> 0 < prev - 1 \<and> unit_at pc (prev - 1) = Some 45
      in if 0 < prev \<and> unit_at pc prev = Some 8212 then []
         else if two then [] else if one then [45] else [45, 45])"

definition form_fields :: "parsed \<Rightarrow> app_field list" where
  "form_fields pc = (case Option.bind (pc_resolvedForm pc) fm_fields of None \<Rightarrow> [] | Some fs \<Rightarrow> fs)"

definition getFlagNameSuggestions :: "(jsstring \<Rightarrow> jsstring) \<Rightarrow> parsed \<Rightarrow> suggestion list" where
  "getFlagNameSuggestions lower pc =
     map (\<lambda>f. let l = or_else (f_label f) (f_name f)
              in suggest (flag_prefix pc @ l) ([45, 45] @ l) (opt_text (f_hint f)) (opt_text (f_description f)) (binding_icon pc))
       (filter (\<lambda>f. opt_text (f_label f) \<noteq> [] \<and> startsWith (lower (opt_text (f_label f))) (lower (pc_incomplete pc)) \<and>
            \<not> has_value pc (f_name f))
         (form_fields pc))"

section \<open>Options and booleans\<close>

definition isMultiword :: "jsstring \<Rightarrow> bool" where
  "isMultiword s \<longleftrightarrow> 32 \<in> set s \<or> 9 \<in> set s"

text \<open>The value as it is inserted: between the delimiter typed, or between ticks when it needs them\<close>

definition complete_value :: "nat option \<Rightarrow> jsstring \<Rightarrow> jsstring" where
  "complete_value delimiter v =
     (case delimiter of Some q \<Rightarrow> q # v @ [q] | None \<Rightarrow> if isMultiword v then 96 # v @ [96] else v)"

definition getStaticSelectSuggestions ::
  "(jsstring \<Rightarrow> jsstring) \<Rightarrow> (suggest_text \<Rightarrow> jsstring) \<Rightarrow> parsed \<Rightarrow> app_field \<Rightarrow> nat option \<Rightarrow> suggestion list" where
  "getStaticSelectSuggestions lower text pc f delimiter =
     (let opts = filter (\<lambda>opt. startsWith (lower (o_label opt)) (lower (pc_incomplete pc))) (field_options f)
      in if opts = [] then [suggest [] [] (text No_static_options) [] COMMAND_SUGGESTION_ERROR]
         else map (\<lambda>opt. suggest (complete_value delimiter (o_value opt)) (o_label opt) (opt_text (f_hint f))
             (opt_text (f_description f)) (or_else (o_icon_data opt) (binding_icon pc))) opts)"

definition getBooleanSuggestions :: "parsed \<Rightarrow> app_field \<Rightarrow> suggestion list" where
  "getBooleanSuggestions pc f =
     map (\<lambda>s. suggest s s (opt_text (f_hint f)) (opt_text (f_description f)) (binding_icon pc))
       (filter (\<lambda>s. startsWith s (pc_incomplete pc)) [js ''true'', js ''false''])"

section \<open>Users and channels\<close>

definition getUserSuggestion :: "app_user \<Rightarrow> suggestion" where
  "getUserSuggestion u = (suggest (64 # au_username u) (au_username u) [] [] [])
     \<lparr>su_type := Some COMMAND_SUGGESTION_USER, su_item := Some (User_item u)\<rparr>"

definition getUserSuggestions :: "found_users option \<Rightarrow> suggestion list" where
  "getUserSuggestions found =
     (let not_found = [suggest [] [] [] (js ''No user found'') []]
      in case found of
           None \<Rightarrow> not_found
         | Some r \<Rightarrow>
             let others = (case fu_out_of_channel r of None \<Rightarrow> [] | Some us \<Rightarrow> us)
             in if fu_users r = [] \<and> others = [] then not_found else map getUserSuggestion (fu_users r @ others))"

definition getChannelSuggestion :: "app_channel \<Rightarrow> suggestion" where
  "getChannelSuggestion c = (suggest (126 # ac_name c) (ac_name c) [] [] [])
     \<lparr>su_type := Some COMMAND_SUGGESTION_CHANNEL, su_item := Some (Channel_item c)\<rparr>"

definition getChannelSuggestions :: "app_channel list option \<Rightarrow> suggestion list" where
  "getChannelSuggestions found =
     (case found of
        Some (c # cs) \<Rightarrow> map getChannelSuggestion (c # cs)
      | _ \<Rightarrow> [suggest [] [] [] (js ''No channel found'') []])"

text \<open>The text behind the last space, and the text before it (empty without a space): \<open>split\<close>, \<open>slice\<close> and \<open>join\<close>.\<close>

definition last_word :: "jsstring \<Rightarrow> jsstring" where
  "last_word s = rev (takeWhile (\<lambda>u. u \<noteq> 32) (rev s))"

definition before_last_word :: "jsstring \<Rightarrow> jsstring" where
  "before_last_word s = rev (tl (dropWhile (\<lambda>u. u \<noteq> 32) (rev s)))"

definition complete_mention :: "jsstring \<Rightarrow> nat option \<Rightarrow> suggestion \<Rightarrow> suggestion" where
  "complete_mention before delimiter s =
     s\<lparr>su_Complete := (case delimiter of None \<Rightarrow> [] | Some q \<Rightarrow> [q]) @
         (if before \<noteq> [] then before @ 32 # su_Complete s else su_Complete s)\<rparr>"

definition inTextMentionSuggestions :: "suggest_env \<Rightarrow> jsstring \<Rightarrow> nat option \<Rightarrow> suggestion list option" where
  "inTextMentionSuggestions env pretext delimiter =
     (let lastWord = last_word pretext; complete = map (complete_mention (before_last_word pretext) delimiter)
      in if startsWith lastWord [64] then Some (complete (getUserSuggestions (se_users env (tl lastWord))))
         else if startsWith lastWord [126] \<and> \<not> startsWith lastWord [126, 126]
         then Some (complete (getChannelSuggestions (se_channels env (tl lastWord))))
         else None)"

definition getUserFieldSuggestions :: "suggest_env \<Rightarrow> parsed \<Rightarrow> suggestion list" where
  "getUserFieldSuggestions env pc = getUserSuggestions (se_users env (strip_sigil 64 (trim (pc_incomplete pc))))"

definition getChannelFieldSuggestions :: "suggest_env \<Rightarrow> parsed \<Rightarrow> suggestion list" where
  "getChannelFieldSuggestions env pc = getChannelSuggestions (se_channels env (strip_sigil 126 (trim (pc_incomplete pc))))"

section \<open>Values asked for\<close>

definition makeDynamicSelectSuggestionError :: "(suggest_text \<Rightarrow> jsstring) \<Rightarrow> jsstring \<Rightarrow> suggestion list" where
  "makeDynamicSelectSuggestionError text message =
     [suggest [] [] (text Dynamic_select_error) (text (Error_text message)) COMMAND_SUGGESTION_ERROR]"

text \<open>\<open>option.value && !option.value.match(/^[ \t]+$/)\<close>\<close>

definition filterEmptyOptions :: "select_option \<Rightarrow> bool" where
  "filterEmptyOptions opt \<longleftrightarrow> o_value opt \<noteq> [] \<and> \<not> list_all (\<lambda>u. u = 32 \<or> u = 9) (o_value opt)"

definition lookup_suggestions ::
  "(call_message \<Rightarrow> jsstring) \<Rightarrow> (suggest_text \<Rightarrow> jsstring) \<Rightarrow> parsed \<Rightarrow> nat option \<Rightarrow> call_result \<Rightarrow> suggestion list" where
  "lookup_suggestions fm text pc delimiter res =
     (case res of
        Inl errorResponse \<Rightarrow>
          makeDynamicSelectSuggestionError text (or_else (rs_text errorResponse) (fm Unknown_error))
      | Inr callResponse \<Rightarrow>
          (case rs_type callResponse of
             Some RS_OK \<Rightarrow>
               (let items = filter filterEmptyOptions (case rs_items callResponse of None \<Rightarrow> [] | Some opts \<Rightarrow> opts)
                in if items = [] then [suggest [] [] (text No_static_options) (text No_dynamic_options) []]
                   else map (\<lambda>opt. suggest (complete_value delimiter (o_value opt)) (o_value opt) []
                       (if o_label opt = [] then o_value opt else o_label opt) (or_else (o_icon_data opt) (binding_icon pc)))
                     items)
           | Some RS_NAVIGATE \<Rightarrow> makeDynamicSelectSuggestionError text (fm (Unexpected_type RS_NAVIGATE))
           | Some RS_FORM \<Rightarrow> makeDynamicSelectSuggestionError text (fm (Unexpected_type RS_FORM))
           | _ \<Rightarrow> makeDynamicSelectSuggestionError text (fm (Unknown_type (responseType callResponse)))))"

text \<open>
  The values parsed are expanded in place before the lookup, so later checks see what they have become:
  the result is paired with them. \<open>None\<close> when the expansion throws.
\<close>

definition getDynamicSelectSuggestions ::
  "(jsstring \<Rightarrow> jsstring) \<Rightarrow> suggest_env \<Rightarrow> parsed \<Rightarrow> app_field \<Rightarrow> nat option \<Rightarrow> (call_values \<times> suggestion list) option" where
  "getDynamicSelectSuggestions lower env pc f delimiter =
     (let pe = se_parser env; text = se_text env; vals = parsed_values pc;
          expanded = (if pc_binding pc = None \<or> f_lookup f = None then Some vals
            else map_option fst (expandOptions lower (se_directory env) (se_arrive env) (pc_resolvedForm pc) vals))
      in case expanded of
           None \<Rightarrow> None
         | Some vals' \<Rightarrow>
             (case composeCallRequest lower (se_directory env) (se_arrive env) (pe_place pe) pc vals (f_lookup f) of
                None \<Rightarrow> None
              | Some (Request creq) \<Rightarrow>
                  Some (vals', lookup_suggestions (pe_fm pe) text pc delimiter
                    (doAppLookup (pe_fm pe) (pe_execute pe)
                      (creq\<lparr>cr_query := Some (pc_incomplete pc), cr_selected_field := Some (f_name f)\<rparr>)))
              | Some r \<Rightarrow> Some (vals', makeDynamicSelectSuggestionError text (text (Preparing_failed r)))))"

definition text_suggestion :: "parsed \<Rightarrow> app_field \<Rightarrow> nat option \<Rightarrow> suggestion" where
  "text_suggestion pc f delimiter =
     (let q = (case delimiter of None \<Rightarrow> 34 | Some q \<Rightarrow> q); typed = pc_incomplete pc;
          name = or_else (f_modal_label f) (or_else (f_label f) (f_name f))
      in suggest (case delimiter of None \<Rightarrow> typed | Some q \<Rightarrow> if typed = [] then [] else q # typed @ [q])
           (name @ [58, 32, q] @ typed @ [q]) [] (opt_text (f_description f)) (binding_icon pc))"

definition getValueSuggestions ::
  "(jsstring \<Rightarrow> jsstring) \<Rightarrow> suggest_env \<Rightarrow> parsed \<Rightarrow> nat option \<Rightarrow> (call_values \<times> suggestion list) option" where
  "getValueSuggestions lower env pc delimiter =
     (let vals = parsed_values pc
      in case pc_field pc of
           None \<Rightarrow> Some (vals, [])
         | Some f \<Rightarrow>
             (case f_type f of
                USER \<Rightarrow> Some (vals, getUserFieldSuggestions env pc)
              | CHANNEL \<Rightarrow> Some (vals, getChannelFieldSuggestions env pc)
              | BOOL \<Rightarrow> Some (vals, getBooleanSuggestions pc f)
              | DYNAMIC_SELECT \<Rightarrow> getDynamicSelectSuggestions lower env pc f delimiter
              | STATIC_SELECT \<Rightarrow> Some (vals, getStaticSelectSuggestions lower (se_text env) pc f delimiter)
              | _ \<Rightarrow>
                  (case inTextMentionSuggestions env (pc_incomplete pc) delimiter of
                     Some ss \<Rightarrow> Some (vals, ss)
                   | None \<Rightarrow> Some (vals, [text_suggestion pc f delimiter]))))"

section \<open>Suggestions for a state of the parser\<close>

definition getMultiselectValueSeparatorSuggestion :: "suggestion list" where
  "getMultiselectValueSeparatorSuggestion =
     [suggest [44] [44] [] (js ''Add new element'') [], suggest [93] [93] [] (js ''End list'') []]"

text \<open>In \<open>StartParameter\<close> the field found becomes the field of the parser.\<close>

definition suggested_field :: "parsed \<Rightarrow> parsed" where
  "suggested_field pc =
     (if pc_state pc = StartParameter
      then (case find (\<lambda>f. f_position f = Some (pc_position pc + 1)) (form_fields pc) of
              None \<Rightarrow> pc | Some f \<Rightarrow> pc\<lparr>pc_field := Some f\<rparr>)
      else pc)"

definition getParameterSuggestions ::
  "(jsstring \<Rightarrow> jsstring) \<Rightarrow> suggest_env \<Rightarrow> parsed \<Rightarrow> (call_values \<times> suggestion list) option" where
  "getParameterSuggestions lower env pc =
     (let vals = parsed_values pc; flags = Some (vals, getFlagNameSuggestions lower pc);
          plain = getValueSuggestions lower env pc None; quoted = getValueSuggestions lower env pc dquote;
          ticked = getValueSuggestions lower env pc tick
      in case pc_state pc of
           StartParameter \<Rightarrow>
             if find (\<lambda>f. f_position f = Some (pc_position pc + 1)) (form_fields pc) = None then flags
             else getValueSuggestions lower env (suggested_field pc) None
         | Flag \<Rightarrow> flags
         | FlagValueSeparator \<Rightarrow>
             map_option (\<lambda>(vals, ss).
                 (vals, if (case pc_field pc of None \<Rightarrow> False | Some f \<Rightarrow> f_multiselect f)
                        then suggest [91] [91] [] (js ''Start building a list'') [] # ss else ss)) plain
         | EndValue \<Rightarrow> plain | NonspaceValue \<Rightarrow> plain | MultiselectNextValue \<Rightarrow> plain | MultiselectStart \<Rightarrow> plain
         | MultiselectNonspaceValue \<Rightarrow> plain | MultiselectEndValue \<Rightarrow> plain | MultiselectStartValue \<Rightarrow> plain
         | EndQuotedValue \<Rightarrow> quoted | QuotedValue \<Rightarrow> quoted | MultiselectQuotedValue \<Rightarrow> quoted
         | EndTickedValue \<Rightarrow> ticked | TickValue \<Rightarrow> ticked | MultiselectTickValue \<Rightarrow> ticked
         | MultiselectValueSeparator \<Rightarrow> Some (vals, getMultiselectValueSeparatorSuggestion)
         | Rest \<Rightarrow> plain
         | _ \<Rightarrow> Some (vals, []))"

definition getErrorSuggestion :: "(suggest_text \<Rightarrow> jsstring) \<Rightarrow> parsed \<Rightarrow> suggestion list" where
  "getErrorSuggestion text pc =
     [suggest [] [] (text Parsing_error) (text (Parser_message (pc_error pc))) COMMAND_SUGGESTION_ERROR]"

definition getNoMatchingSuggestion :: "(suggest_text \<Rightarrow> jsstring) \<Rightarrow> suggestion list" where
  "getNoMatchingSuggestion text = [suggest [] [] (text No_matching) [] COMMAND_SUGGESTION_ERROR]"

definition getExecuteSuggestion :: "bool \<Rightarrow> parsed \<Rightarrow> suggestion" where
  "getExecuteSuggestion mac pc =
     suggest (tl (pc_command pc) @ EXECUTE_CURRENT_COMMAND_ITEM_ID) (js ''Execute Current Command'') []
       (js ''Select this option or use '' @ (if mac then [8984] else js ''Ctrl'') @ js ''+Enter to execute the current command.'')
       EXECUTE_CURRENT_COMMAND_ITEM_ID"

definition getOpenInModalSuggestion :: "parsed \<Rightarrow> suggestion" where
  "getOpenInModalSuggestion pc =
     suggest (tl (pc_command pc) @ OPEN_COMMAND_IN_MODAL_ITEM_ID) (js ''Open in modal'') []
       (js ''Select this option to open the current command in a modal.'') OPEN_COMMAND_IN_MODAL_ITEM_ID"

text \<open>The command up to what is being typed, without the slash, and the choice in its place\<close>

definition decorateSuggestionComplete :: "parsed \<Rightarrow> suggestion \<Rightarrow> suggestion" where
  "decorateSuggestionComplete pc choice =
     (if endsWith (su_Complete choice) EXECUTE_CURRENT_COMMAND_ITEM_ID \<or> endsWith (su_Complete choice) OPEN_COMMAND_IN_MODAL_ITEM_ID
      then choice
      else
        let goBackSpace = (if su_Complete choice = [] then 1 else 0)
        in choice\<lparr>su_Complete := tl (take (pc_incompleteStart pc - goBackSpace) (pc_command pc) @ su_Complete choice)\<rparr>)"

section \<open>getSuggestions\<close>

definition executableStates :: "parse_state list" where
  "executableStates = [EndCommand, CommandSeparator, StartParameter, ParameterSeparator, EndValue, Rest]"

definition modalStates :: "parse_state list" where
  "modalStates = [StartParameter, Error, TickValue, QuotedValue, EndValue, Rest, Flag, FlagValueSeparator]"

definition submit_call :: "parsed \<Rightarrow> app_call option" where
  "submit_call pc =
     (case Option.bind (pc_resolvedForm pc) fm_submit of
        Some call \<Rightarrow> Some call
      | None \<Rightarrow> Option.bind (Option.bind (pc_binding pc) (\<lambda>b. b_form (b_core b))) fm_submit)"

text \<open>Whether the command can be run as it is\<close>

definition executable :: "parsed \<Rightarrow> call_values \<Rightarrow> bool" where
  "executable pc vals \<longleftrightarrow>
     pc_state pc \<in> set executableStates \<and> submit_call pc \<noteq> None \<and> getMissingFields (pc_resolvedForm pc) vals = [] \<and>
     (pc_state pc = EndValue \<longrightarrow>
        (case pc_field pc of None \<Rightarrow> False | Some f \<Rightarrow> value_under vals (f_name f) \<noteq> VUndefined))"

definition opens_modal :: "parsed \<Rightarrow> bool" where
  "opens_modal pc \<longleftrightarrow> pc_state pc \<in> set modalStates \<and> submit_call pc \<noteq> None \<and> form_fields pc \<noteq> []"

definition finish_suggestions :: "suggest_env \<Rightarrow> parsed \<Rightarrow> call_values \<Rightarrow> suggestion list \<Rightarrow> suggestion list" where
  "finish_suggestions env pc vals ss =
     (let ss1 = (if executable pc vals then getExecuteSuggestion (se_mac env) pc # ss
            else if ss = [] \<and> (case pc_field pc of None \<Rightarrow> True | Some f \<Rightarrow> f_type f \<noteq> USER \<and> f_type f \<noteq> CHANNEL)
            then getNoMatchingSuggestion (se_text env) else ss);
          ss2 = (if opens_modal pc then ss1 @ [getOpenInModalSuggestion pc] else ss1)
      in map (decorateSuggestionComplete pc) ss2)"

text \<open>As for the commands, the outer option tells whether it returns, the inner one whether without throwing.\<close>

definition getSuggestions ::
  "(jsstring \<Rightarrow> jsstring) \<Rightarrow> suggest_env \<Rightarrow> jsstring \<Rightarrow> suggestion list option option" where
  "getSuggestions lower env pretext =
     (let pe = se_parser env; text = se_text env;
          pc = matchBinding lower (env_forms pe) (env_bindings pe) True (new_command pretext);
          ss = (if pc_state pc = Error then getErrorSuggestion text pc
                else if pc_state pc = Command then getCommandSuggestions lower pc else [])
      in if pc_resolvedForm pc = None \<and> pc_incomplete pc = []
         then Some (Some (finish_suggestions env pc (parsed_values pc) ss))
         else case parseForm lower True pc of
           None \<Rightarrow> None
         | Some None \<Rightarrow> Some None
         | Some (Some pc) \<Rightarrow>
             Some (map_option (\<lambda>(vals, args).
                 finish_suggestions env (suggested_field pc) vals
                   ((if pc_state pc = Error then getErrorSuggestion text pc else ss) @ args))
               (getParameterSuggestions lower env pc)))"

section \<open>The lists shown\<close>

text \<open>Commands of the server: on mobile all of them, in the web app the suggestions it answers with\<close>

record server_command =
  sc_trigger :: jsstring
  sc_auto_complete :: bool
  sc_auto_complete_hint :: "jsstring option"
  sc_auto_complete_desc :: jsstring

definition slash_suggestion :: "suggestion \<Rightarrow> suggestion" where
  "slash_suggestion s = s\<lparr>su_Complete := 47 # su_Complete s\<rparr>"

definition mobile_commands ::
  "(jsstring \<Rightarrow> jsstring \<Rightarrow> int) \<Rightarrow> (jsstring \<Rightarrow> jsstring) \<Rightarrow> bool \<Rightarrow> app_binding list \<Rightarrow> server_command list \<Rightarrow> jsstring \<Rightarrow> suggestion list" where
  "mobile_commands localeCompare lower apps bs data pretext =
     js_sort (\<lambda>a b. localeCompare (su_Suggestion a) (su_Suggestion b))
       ((if apps then getSuggestionsBase lower bs pretext else []) @
        map (\<lambda>c. let s = 47 # sc_trigger c
                 in (suggest s s (opt_text (sc_auto_complete_hint c)) (sc_auto_complete_desc c) [])\<lparr>su_type := Some COMMANDS\<rparr>)
          (filter (\<lambda>c. sc_auto_complete c \<and> sc_trigger c \<noteq> js ''shortcuts'' \<and> startsWith (47 # sc_trigger c) (lower pretext)) data))"

definition add_match :: "suggestion \<Rightarrow> suggestion list \<Rightarrow> suggestion list" where
  "add_match s matches =
     (if su_Complete (slash_suggestion s) \<in> su_Complete ` set matches then matches
      else matches @ [(slash_suggestion s)\<lparr>su_Suggestion := 47 # su_Suggestion s, su_type := Some COMMANDS, su_item := None\<rparr>])"

text \<open>Strings compared by their code units\<close>

fun units_less :: "jsstring \<Rightarrow> jsstring \<Rightarrow> bool" where
  "units_less _ [] = False"
| "units_less [] (_ # _) = True"
| "units_less (u # us) (v # vs) = (u < v \<or> u = v \<and> units_less us vs)"

definition by_shown :: "(jsstring \<Rightarrow> jsstring) \<Rightarrow> suggestion \<Rightarrow> suggestion \<Rightarrow> int" where
  "by_shown lower a b =
     (if units_less (lower (su_Suggestion b)) (lower (su_Suggestion a)) then 1
      else if units_less (lower (su_Suggestion a)) (lower (su_Suggestion b)) then - 1 else 0)"

definition shouldAddExecuteItem :: "suggestion list \<Rightarrow> jsstring \<Rightarrow> bool" where
  "shouldAddExecuteItem data pretext \<longleftrightarrow>
     data \<noteq> [] \<and> (endsWith pretext [32] \<or> (\<exists>s \<in> set data. su_Suggestion s = []))"

definition webapp_commands ::
  "(jsstring \<Rightarrow> jsstring) \<Rightarrow> bool \<Rightarrow> bool \<Rightarrow> app_binding list \<Rightarrow> suggestion list \<Rightarrow> jsstring \<Rightarrow> suggestion list" where
  "webapp_commands lower mac apps bs data pretext =
     (let own = (if apps then map slash_suggestion (getSuggestionsBase lower bs pretext) else []);
          matches = fold add_match data own;
          sorted = (if 32 \<in> set pretext then matches else js_sort (by_shown lower) matches)
      in if shouldAddExecuteItem data pretext
         then (suggest (pretext @ EXECUTE_CURRENT_COMMAND_ITEM_ID) (js ''/Execute Current Command'') []
             (js ''Select this option or use '' @ (if mac then [8984] else js ''Ctrl'') @ js ''+Enter to execute the current command.'')
             EXECUTE_CURRENT_COMMAND_ITEM_ID)\<lparr>su_type := Some COMMANDS\<rparr> # sorted
         else sorted)"

text \<open>What is asked for: \<open>None\<close> when the text is no command; the suggestions of apps, or those of the server.\<close>

datatype command_list = No_command | App_suggestions "suggestion list option option" | Server_suggestions

definition handlePretextChanged :: "(jsstring \<Rightarrow> jsstring) \<Rightarrow> suggest_env \<Rightarrow> jsstring \<Rightarrow> command_list" where
  "handlePretextChanged lower env pretext =
     (let pe = se_parser env
      in if \<not> startsWith pretext [47] then No_command
         else if appsEnabled (pe_featureFlag pe) (pe_store pe) \<and> isAppCommand lower (env_bindings pe) pretext
         then App_suggestions (map_option (map_option (map (\<lambda>s. (slash_suggestion s)\<lparr>su_Suggestion := 47 # su_Suggestion s\<rparr>)))
           (getSuggestions lower env pretext))
         else Server_suggestions)"

end
