(* ===== verification/CommandCallProps.thy ===== *)
theory CommandCallProps
  imports CommandCall "HOL-Library.Multiset"
begin

text \<open>
  What reaches an app: every field's value is decided by that field alone, whatever the order in which
  the lookups are answered; required fields have values; defaults resolve to what they name. And where
  values are lost on the way.
\<close>

section \<open>Answers in any order\<close>

definition permutes :: "(late_value list \<Rightarrow> late_value list) \<Rightarrow> bool" where
  "permutes arrive \<longleftrightarrow> (\<forall>xs. mset (arrive xs) = mset xs)"

lemma map_of_mset:
  assumes "mset xs = mset ys" and "distinct (map fst xs)"
  shows "map_of xs = map_of ys" and "distinct (map fst ys)"
proof -
  have "mset (map fst xs) = mset (map fst ys)" using assms(1) by (metis mset_map)
  then show ys: "distinct (map fst ys)" using assms(2) by (metis mset_eq_imp_distinct_iff)
  have "set xs = set ys" using assms(1) by (metis set_mset_mset)
  then show "map_of xs = map_of ys" using assms(2) ys by (metis map_of_inject_set)
qed

lemma permuted:
  assumes "permutes arrive" and "distinct (map fst late)"
  shows "map_of (arrive late) = map_of late" and "distinct (map fst (arrive late))"
  using map_of_mset [of late "arrive late"] assms by (simp_all add: permutes_def)

lemma map_of_set_value: "map_of (set_value name v vals) n = (if n = name then (case v of None \<Rightarrow> map_of vals n | Some w \<Rightarrow> Some w) else map_of vals n)"
  by (simp add: set_value_def update_conv split: option.split)

lemma map_of_set_error: "map_of (set_error name e errors) n = (if n = name then (case e of None \<Rightarrow> map_of errors n | Some w \<Rightarrow> Some w) else map_of errors n)"
  by (simp add: set_error_def update_conv split: option.split)

lemma map_of_snoc:
  "map_of (xs @ [(k, v)]) n = (case map_of xs n of None \<Rightarrow> if n = k then Some v else None | Some w \<Rightarrow> Some w)"
  by (simp add: map_add_def split: option.split)

lemma late_values:
  assumes "distinct (map fst late)"
  shows "map_of (fold (\<lambda>(name, v, e). set_value name v) late vals) n =
    (case map_of late n of Some (Some v, e) \<Rightarrow> Some v | _ \<Rightarrow> map_of vals n)"
  using assms
proof (induction late arbitrary: vals)
  case (Cons x late)
  obtain name v e where x: "x = (name, v, e)" by (cases x)
  have "map_of late n = None" if "n = name" using Cons.prems that x by (simp add: map_of_eq_None_iff)
  with Cons x show ?case by (auto simp: map_of_set_value split: option.split)
qed simp

lemma late_errors:
  assumes "distinct (map fst late)"
  shows "map_of (fold (\<lambda>(name, v, e). set_error name e) late errors) n =
    (case map_of late n of Some (v, Some e) \<Rightarrow> Some e | _ \<Rightarrow> map_of errors n)"
  using assms
proof (induction late arbitrary: errors)
  case (Cons x late)
  obtain name v e where x: "x = (name, v, e)" by (cases x)
  have "map_of late n = None" if "n = name" using Cons.prems that x by (simp add: map_of_eq_None_iff)
  with Cons x show ?case by (auto simp: map_of_set_error split: option.split)
qed simp

section \<open>A pass over the form, field by field\<close>

lemma pass_none: "fold (field_step outcome) fs None = None"
  by (induction fs) (simp_all add: field_step_def)

fun put_value_of :: "field_outcome \<Rightarrow> call_value option \<Rightarrow> call_value option" where
  "put_value_of (Put v e) w = Some v"
| "put_value_of _ w = w"

fun put_error_of :: "field_outcome \<Rightarrow> field_error option" where
  "put_error_of (Put v e) = e"
| "put_error_of _ = None"

fun later_of :: "field_outcome \<Rightarrow> (call_value option \<times> field_error option) option" where
  "later_of (Later v e) = Some (v, e)"
| "later_of _ = None"

text \<open>The value and the error a field ends with\<close>

fun settled :: "field_outcome \<Rightarrow> call_value option \<Rightarrow> call_value option \<times> field_error option" where
  "settled (Put v e) w = (Some v, e)"
| "settled (Later (Some v) e) w = (Some v, e)"
| "settled (Later None e) w = (w, e)"
| "settled _ w = (w, None)"

text \<open>
  What becomes of a field may depend on the value under its own name only. Then a pass over a form whose
  fields have different names does to each field what it would do to it alone.
\<close>

locale field_pass =
  fixes outcome :: "call_values \<Rightarrow> app_field \<Rightarrow> field_outcome"
  assumes outcome_cong: "map_of vals (f_name f) = map_of vals' (f_name f) \<Longrightarrow> outcome vals f = outcome vals' f"
begin

lemma pass_fields:
  assumes "distinct (map f_name fs)" and "f_name ` set fs \<inter> fst ` set late = {}" and "distinct (map fst late)"
    and "\<forall>f \<in> set fs. map_of errors (f_name f) = None"
    and "fold (field_step outcome) fs (Some (vals, errors, late)) = Some (vals', errors', late')"
  shows "distinct (map fst late') \<and>
    (\<forall>n. n \<notin> f_name ` set fs \<longrightarrow>
       map_of vals' n = map_of vals n \<and> map_of errors' n = map_of errors n \<and> map_of late' n = map_of late n) \<and>
    (\<forall>f \<in> set fs. outcome vals f \<noteq> Type_error \<and>
       map_of vals' (f_name f) = put_value_of (outcome vals f) (map_of vals (f_name f)) \<and>
       map_of errors' (f_name f) = put_error_of (outcome vals f) \<and>
       map_of late' (f_name f) = later_of (outcome vals f))"
  using assms
proof (induction fs arbitrary: vals errors late)
  case (Cons f fs)
  let ?o = "outcome vals f"
  obtain vals1 errors1 late1 where step: "field_step outcome f (Some (vals, errors, late)) = Some (vals1, errors1, late1)"
    using Cons.prems(5) pass_none [of outcome fs]
    by (cases "field_step outcome f (Some (vals, errors, late))") auto
  have fresh: "f_name f \<notin> fst ` set late" "f_name f \<notin> f_name ` set fs" using Cons.prems by auto
  have none: "map_of late (f_name f) = None" "map_of errors (f_name f) = None"
    using fresh(1) Cons.prems(4) by (simp_all add: map_of_eq_None_iff)
  have here: "?o \<noteq> Type_error \<and> map_of vals1 (f_name f) = put_value_of ?o (map_of vals (f_name f)) \<and>
      map_of errors1 (f_name f) = put_error_of ?o \<and> map_of late1 (f_name f) = later_of ?o"
    using step none by (cases ?o)
      (auto simp: field_step_def update_conv map_of_snoc map_of_set_error simp del: map_of_append split: option.split)
  have other: "map_of vals1 n = map_of vals n \<and> map_of errors1 n = map_of errors n \<and> map_of late1 n = map_of late n"
    if "n \<noteq> f_name f" for n
    using step that by (cases ?o)
      (auto simp: field_step_def update_conv map_of_snoc map_of_set_error simp del: map_of_append split: option.split)
  have "late1 = late \<or> (\<exists>x. late1 = late @ [(f_name f, x)])"
    using step by (cases ?o) (auto simp: field_step_def)
  moreover have "f_name ` set fs \<inter> fst ` set late = {}" using Cons.prems(2) by auto
  ultimately have ok: "distinct (map fst late1) \<and> f_name ` set fs \<inter> fst ` set late1 = {}"
    using fresh Cons.prems(3) by (elim disjE exE) simp_all
  have names: "f_name g \<noteq> f_name f" if "g \<in> set fs" for g using that fresh(2) by (metis image_eqI)
  have no_error: "\<forall>g \<in> set fs. map_of errors1 (f_name g) = None" using other names Cons.prems(4) by auto
  have "fold (field_step outcome) fs (Some (vals1, errors1, late1)) = Some (vals', errors', late')"
    using Cons.prems(5) step by simp
  with Cons.IH [of late1 errors1 vals1] Cons.prems(1) ok no_error have rest: "distinct (map fst late')"
    "\<And>n. n \<notin> f_name ` set fs \<Longrightarrow>
       map_of vals' n = map_of vals1 n \<and> map_of errors' n = map_of errors1 n \<and> map_of late' n = map_of late1 n"
    "\<And>g. g \<in> set fs \<Longrightarrow> outcome vals1 g \<noteq> Type_error \<and>
       map_of vals' (f_name g) = put_value_of (outcome vals1 g) (map_of vals1 (f_name g)) \<and>
       map_of errors' (f_name g) = put_error_of (outcome vals1 g) \<and>
       map_of late' (f_name g) = later_of (outcome vals1 g)" by auto
  have "outcome vals1 g = outcome vals g \<and> map_of vals1 (f_name g) = map_of vals (f_name g)" if "g \<in> set fs" for g
    using other [OF names [OF that]] outcome_cong by metis
  with rest here other fresh(2) show ?case by auto
qed simp

lemma by_field:
  assumes "fm_fields form = Some fs" and "distinct (map f_name fs)" and "permutes arrive"
    and "all_fields outcome arrive (Some form) vals = Some (vals', errors)"
  shows "f \<in> set fs \<Longrightarrow> (map_of vals' (f_name f), map_of errors (f_name f)) = settled (outcome vals f) (map_of vals (f_name f))"
    and "n \<notin> f_name ` set fs \<Longrightarrow> map_of vals' n = map_of vals n \<and> map_of errors n = None"
    and "f \<in> set fs \<Longrightarrow> outcome vals f \<noteq> Type_error"
proof -
  obtain vals1 errors1 late where run: "fold (field_step outcome) fs (Some (vals, [], [])) = Some (vals1, errors1, late)"
    and vals': "vals' = fold (\<lambda>(name, v, e). set_value name v) (arrive late) vals1"
    and errors: "errors = fold (\<lambda>(name, v, e). set_error name e) (arrive late) errors1"
    using assms(1,4) by (auto simp: all_fields_def)
  note fields_done = pass_fields [OF assms(2) _ _ _ run, simplified]
  note late = permuted [OF assms(3) conjunct1 [OF fields_done]]
  note results = late_values [OF late(2), of vals1, folded vals', unfolded late(1)]
    late_errors [OF late(2), of errors1, folded errors, unfolded late(1)]
  show "map_of vals' n = map_of vals n \<and> map_of errors n = None" if "n \<notin> f_name ` set fs"
    using fields_done that by (simp add: results)
  show "outcome vals f \<noteq> Type_error" if "f \<in> set fs" using fields_done that by blast
  show "(map_of vals' (f_name f), map_of errors (f_name f)) = settled (outcome vals f) (map_of vals (f_name f))"
    if "f \<in> set fs"
    using fields_done that by (cases "outcome vals f") (auto simp: results split: option.split)
qed

end

interpretation defaults: field_pass "default_outcome d" for d
  by unfold_locales (simp add: default_outcome_def has_prop_def)

interpretation expansion: field_pass "expand_outcome lower d" for lower d
  by unfold_locales (simp add: expand_outcome_def value_under_def)

lemma expand_by_field:
  assumes "fm_fields form = Some fs" and "distinct (map f_name fs)" and "permutes arrive" and "f \<in> set fs"
    and "expandOptions lower d arrive (Some form) vals = Some (vals', errors)"
  shows "(map_of vals' (f_name f), map_of errors (f_name f)) = settled (expand_outcome lower d vals f) (map_of vals (f_name f))"
  by (rule expansion.by_field(1) [OF assms(1-3) assms(5) [unfolded expandOptions_def] assms(4)])

lemma default_outcome_returns: "default_outcome d vals f \<noteq> Type_error"
  by (simp add: default_outcome_def default_value_def Let_def split: field_type.split option.split)

lemma defaults_return: "fold (field_step (default_outcome d)) fs (Some acc) \<noteq> None"
proof (induction fs arbitrary: acc)
  case (Cons f fs)
  obtain vals errors late where acc: "acc = (vals, errors, late)" by (cases acc)
  obtain acc' where "field_step (default_outcome d) f (Some acc) = Some acc'"
    using default_outcome_returns [of d vals f] by (cases "default_outcome d vals f") (auto simp: field_step_def acc)
  with Cons show ?case by simp
qed simp

lemma defaults_by_field:
  assumes "fm_fields form = Some fs" and "distinct (map f_name fs)" and "permutes arrive" and "f \<in> set fs"
  shows "map_of (addDefaultAndReadOnlyValues d arrive (Some form) vals) (f_name f)
      = fst (settled (default_outcome d vals f) (map_of vals (f_name f)))"
proof -
  obtain vals' errors where run: "all_fields (default_outcome d) arrive (Some form) vals = Some (vals', errors)"
    using assms(1) defaults_return [of d fs] by (fastforce simp: all_fields_def)
  from defaults.by_field(1) [OF assms(1-3) run assms(4)] show ?thesis
    by (simp add: addDefaultAndReadOnlyValues_def run prod_eq_iff)
qed

section \<open>What parsing leaves alone\<close>

definition parse_frame :: "parsed \<Rightarrow> jsstring \<times> app_binding option \<times> app_form option" where
  "parse_frame pc = (pc_command pc, pc_binding pc, pc_resolvedForm pc)"

lemma parse_frame_simps [simp]:
  "parse_frame (goto s pc) = parse_frame pc" "parse_frame (restart pc) = parse_frame pc"
  "parse_frame (advance pc) = parse_frame pc" "parse_frame (take_char c pc) = parse_frame pc"
  "parse_frame (put_value n v pc) = parse_frame pc" "parse_frame (asError e pc) = parse_frame pc"
  "parse_frame (pc_field_update g pc) = parse_frame pc" "parse_frame (pc_position_update q pc) = parse_frame pc"
  "parse_frame (pc_i_update k pc) = parse_frame pc" "parse_frame (pc_incomplete_update w pc) = parse_frame pc"
  "parse_frame (pc_incompleteStart_update k pc) = parse_frame pc" "parse_frame (pc_state_update st pc) = parse_frame pc"
  by (simp_all add: parse_frame_def goto_def restart_def advance_def take_char_def put_value_def asError_def split: option.split)

fun same_frame :: "parsed \<Rightarrow> form_result \<Rightarrow> bool" where
  "same_frame pc (Next pc' e x) = (parse_frame pc' = parse_frame pc)"
| "same_frame pc (Return pc') = (parse_frame pc' = parse_frame pc)"
| "same_frame pc Throws = True"

lemma form_step_frame: "same_frame pc (form_step lower auto fs pc e x)"
  by (cases "pc_state pc")
    (simp_all add: form_step_def start_parameter_def rest_value_def parameter_separator_def flag1_def flag_name_def
      flag_value_separator_def start_value_def plain_value_def quoted_value_def ticked_value_def end_value_def
      multiselect_start_def multiselect_start_value_def multiselect_end_value_def multiselect_value_separator_def
      multiselect_next_value_def Let_def split: option.split param_value.split)


definition frame_kept :: "parsed \<Rightarrow> parsed option \<Rightarrow> bool" where
  "frame_kept pc r \<longleftrightarrow> (case r of None \<Rightarrow> True | Some pc' \<Rightarrow> parse_frame pc' = parse_frame pc)"

lemma form_loop_frame:
  assumes "form_loop lower auto fs pc e x = Some r"
  shows "frame_kept pc r"
proof (rule form_loop.raw_induct [where P = "\<lambda>lower auto fs pc e x r. frame_kept pc r", OF _ assms])
  fix loop :: "(jsstring \<Rightarrow> jsstring) \<Rightarrow> bool \<Rightarrow> app_field list \<Rightarrow> parsed \<Rightarrow> bool \<Rightarrow> bool \<Rightarrow> parsed option option"
    and lower auto fs pc e x r
  assume IH: "\<And>lower auto fs pc e x r. loop lower auto fs pc e x = Some r \<Longrightarrow> frame_kept pc r"
    and run: "(case form_step lower auto fs pc e x of Next pc' e' x' \<Rightarrow> loop lower auto fs pc' e' x'
      | Return pc' \<Rightarrow> Some (Some pc') | Throws \<Rightarrow> Some None) = Some r"
  show "frame_kept pc r"
  proof (cases "form_step lower auto fs pc e x")
    case (Next pc' e' x')
    then have "frame_kept pc' r" using run IH by simp
    then show ?thesis
      using Next form_step_frame [of pc lower auto fs e x] by (cases r) (simp_all add: frame_kept_def)
  qed (use run form_step_frame [of pc lower auto fs e x] in \<open>auto simp: frame_kept_def\<close>)
qed

lemma parseForm_frame: "parseForm lower auto pc = Some (Some pc') \<Longrightarrow> parse_frame pc' = parse_frame pc"
  by (auto simp: parseForm_def frame_kept_def dest!: form_loop_frame split: if_splits option.splits)

lemma match_step_command:
  "case match_step lower auto pc bs of Go pc' bs' \<Rightarrow> pc_command pc' = pc_command pc
     | Done pc' \<Rightarrow> pc_command pc' = pc_command pc | Fail pc' \<Rightarrow> pc_command pc' = pc_command pc"
  by (cases "pc_state pc") (simp_all add: match_step_def Let_def asError_def split: option.split)

lemma match_loop_command:
  "case match_loop lower auto pc bs of Inl pc' \<Rightarrow> pc_command pc' = pc_command pc | Inr pc' \<Rightarrow> pc_command pc' = pc_command pc"
proof (induction lower auto pc bs rule: match_loop.induct)
  case (1 lower auto pc bs)
  then show ?case
    using match_step_command [where lower = lower and auto = auto and pc = pc and bs = bs]
    by (cases "match_step lower auto pc bs") (auto simp: match_loop.simps [of lower auto pc bs] split: sum.splits)
qed

lemma resolve_form_command: "pc_command (resolve_form forms auto pc) = pc_command pc"
  by (simp add: resolve_form_def asError_def Let_def split: option.split)

lemma new_command_text: "pc_command (new_command cmd) = cmd"
  by (simp add: new_command_def)

lemma matchBinding_command: "pc_command (matchBinding lower forms bs auto (new_command cmd)) = cmd"
  using match_loop_command [where lower = lower and auto = auto and pc = "new_command cmd" and bs = bs]
  by (auto simp: matchBinding_def resolve_form_command new_command_text asError_def split: sum.splits)

section \<open>The binding a command names\<close>

text \<open>
  The words of a command lead from the bindings to one of them: each names, as labels are compared, the first binding with its
  label among those below the one before. \<open>glue\<close> puts words and the blanks behind them together again.
\<close>

fun descend ::
  "(jsstring \<Rightarrow> jsstring) \<Rightarrow> app_binding option \<times> app_binding list \<Rightarrow> jsstring list \<Rightarrow> (app_binding option \<times> app_binding list) option" where
  "descend lower s [] = Some s"
| "descend lower s (w # ws) =
     (case find_binding lower w (snd s) of None \<Rightarrow> None | Some b \<Rightarrow> descend lower (Some b, sub_bindings b) ws)"

definition glue :: "(jsstring \<times> jsstring) list \<Rightarrow> jsstring" where
  "glue ps = concat (map (\<lambda>(word, gap). word @ gap) ps)"

definition blank_char :: "nat \<Rightarrow> bool" where
  "blank_char c \<longleftrightarrow> c = 32 \<or> c = 9"

definition words_and_gaps :: "(jsstring \<times> jsstring) list \<Rightarrow> bool" where
  "words_and_gaps ps \<longleftrightarrow> (\<forall>(word, gap) \<in> set ps. list_all (\<lambda>c. \<not> blank_char c) word \<and> list_all blank_char gap \<and> gap \<noteq> [])"

text \<open>
  A command that spells words out: a slash, the words without blanks in them, blanks behind each, which the last word of the
  command need not have, and the rest.
\<close>

definition spells :: "jsstring \<Rightarrow> jsstring list \<Rightarrow> jsstring \<Rightarrow> bool" where
  "spells cmd ws rest \<longleftrightarrow> (\<exists>ps. words_and_gaps ps \<and>
     (ws = map fst ps \<and> cmd = 47 # glue ps @ rest \<or>
      (\<exists>w. list_all (\<lambda>c. \<not> blank_char c) w \<and> ws = map fst ps @ [w] \<and> rest = [] \<and> cmd = 47 # glue ps @ w)))"

lemma descend_append:
  "descend lower s (ws @ [w]) = (case descend lower s ws of None \<Rightarrow> None | Some s' \<Rightarrow> descend lower s' [w])"
  by (induction lower s ws rule: descend.induct) (auto split: option.split)

lemma glue_simps [simp]: "glue [] = []" "glue ((w, g) # ps) = w @ g @ glue ps" "glue (ps @ qs) = glue ps @ glue qs"
  by (simp_all add: glue_def)

lemma words_and_gaps_simps [simp]:
  "words_and_gaps []" "words_and_gaps (ps @ qs) \<longleftrightarrow> words_and_gaps ps \<and> words_and_gaps qs"
  "words_and_gaps ((w, g) # ps) \<longleftrightarrow> list_all (\<lambda>c. \<not> blank_char c) w \<and> list_all blank_char g \<and> g \<noteq> [] \<and> words_and_gaps ps"
  by (auto simp: words_and_gaps_def)

lemma take_current: "current pc = Some c \<Longrightarrow> take (Suc (pc_i pc)) (pc_command pc) = take (pc_i pc) (pc_command pc) @ [c]"
  by (auto simp: current_def take_Suc_conv_app_nth split: if_splits)

lemma current_bound: "current pc = Some c \<Longrightarrow> Suc (pc_i pc) \<le> length (pc_command pc)"
  by (auto simp: current_def split: if_splits)

lemma blank_Some: "blank (Some c) \<longleftrightarrow> blank_char c"
  by (simp add: blank_def blank_char_def)

text \<open>What the loop has consumed: the words that led to the present binding, and the word or the blanks being read.\<close>

definition word_path :: "(jsstring \<times> jsstring) list \<Rightarrow> parsed \<Rightarrow> bool" where
  "word_path ps pc \<longleftrightarrow> words_and_gaps ps \<and> take (pc_i pc) (pc_command pc) = 47 # glue ps @ pc_incomplete pc \<and>
     list_all (\<lambda>c. \<not> blank_char c) (pc_incomplete pc)"

definition gap_path :: "(jsstring \<times> jsstring) list \<Rightarrow> parsed \<Rightarrow> bool" where
  "gap_path ps pc \<longleftrightarrow> (\<exists>qs w g. ps = qs @ [(w, g)] \<and> words_and_gaps qs \<and> list_all (\<lambda>c. \<not> blank_char c) w \<and> list_all blank_char g \<and>
     take (pc_i pc) (pc_command pc) = 47 # glue ps \<and> (g = [] \<longrightarrow> current pc = None \<or> blank (current pc)))"

definition path_inv ::
  "(jsstring \<Rightarrow> jsstring) \<Rightarrow> app_binding list \<Rightarrow> (jsstring \<times> jsstring) list \<Rightarrow> parsed \<Rightarrow> app_binding list \<Rightarrow> bool" where
  "path_inv lower bs0 ps pc bs \<longleftrightarrow> pc_i pc \<le> length (pc_command pc) \<and>
     descend lower (None, bs0) (map fst ps) = Some (pc_binding pc, bs) \<and>
     (case pc_state pc of
        Start \<Rightarrow> ps = [] \<and> pc_i pc = 0
      | Command \<Rightarrow> word_path ps pc
      | EndCommand \<Rightarrow> word_path ps pc \<and> (current pc = None \<or> blank (current pc))
      | CommandSeparator \<Rightarrow> gap_path ps pc
      | _ \<Rightarrow> False)"

lemma parsed_unchanged [simp]:
  "pc_binding (goto s pc) = pc_binding pc" "pc_binding (restart pc) = pc_binding pc" "pc_binding (advance pc) = pc_binding pc"
  "pc_binding (take_char c pc) = pc_binding pc"
  "pc_incomplete (goto s pc) = pc_incomplete pc" "pc_incomplete (restart pc) = []" "pc_incomplete (advance pc) = pc_incomplete pc"
  "pc_incomplete (take_char (Some u) pc) = pc_incomplete pc @ [u]"
  by (simp_all add: goto_def restart_def advance_def take_char_def split: option.split)

lemma word_path_goto [simp]: "word_path ps (goto s pc) = word_path ps pc"
  by (simp add: word_path_def)

text \<open>A round of the loop keeps it.\<close>

lemma step_Start:
  assumes "path_inv lower bs0 ps pc bs" "pc_state pc = Start" "match_step lower auto pc bs = Go pc' bs'"
  shows "path_inv lower bs0 ps pc' bs'"
  using assms take_current [of pc 47] current_bound [of pc 47]
  by (auto simp: path_inv_def match_step_def word_path_def split: if_splits)

lemma step_Command:
  assumes inv: "path_inv lower bs0 ps pc bs" and st: "pc_state pc = Command" and go: "match_step lower auto pc bs = Go pc' bs'"
  shows "path_inv lower bs0 ps pc' bs'"
proof (cases "current pc = None \<or> blank (current pc)")
  case True
  then have "pc' = goto EndCommand pc" "bs' = bs" using st go by (auto simp: match_step_def blank_def Let_def split: if_splits)
  then show ?thesis using inv st True by (simp add: path_inv_def)
next
  case False
  then obtain c where c: "current pc = Some c" "\<not> blank_char c" by (auto simp: blank_Some)
  then have "pc' = take_char (Some c) pc" "bs' = bs" using st go by (simp_all add: match_step_def blank_Some)
  then show ?thesis
    using inv st c take_current [OF c(1)] current_bound [OF c(1)] by (simp add: path_inv_def word_path_def)
qed

lemma step_EndCommand:
  assumes inv: "path_inv lower bs0 ps pc bs" and st: "pc_state pc = EndCommand" and go: "match_step lower auto pc bs = Go pc' bs'"
  shows "path_inv lower bs0 (ps @ [(pc_incomplete pc, [])]) pc' bs'"
proof -
  obtain b where b: "find_binding lower (pc_incomplete pc) bs = Some b" "bs' = sub_bindings b"
      "pc' = goto CommandSeparator (pc\<lparr>pc_binding := Some b, pc_location := pc_location pc @ js ''/'' @ b_label (b_core b)\<rparr>)"
    using st go by (auto simp: match_step_def split: option.splits)
  then show ?thesis
    using inv st by (auto simp: path_inv_def word_path_def gap_path_def descend_append goto_def)
qed

lemma step_CommandSeparator:
  assumes inv: "path_inv lower bs0 ps pc bs" and st: "pc_state pc = CommandSeparator" and go: "match_step lower auto pc bs = Go pc' bs'"
  shows "\<exists>ps'. path_inv lower bs0 ps' pc' bs'"
proof -
  obtain qs w g where ps: "ps = qs @ [(w, g)]" "words_and_gaps qs" "list_all (\<lambda>c. \<not> blank_char c) w" "list_all blank_char g"
      "take (pc_i pc) (pc_command pc) = 47 # glue ps" "g = [] \<Longrightarrow> current pc = None \<or> blank (current pc)"
    using inv st by (auto simp: path_inv_def gap_path_def)
  obtain c where c: "current pc = Some c" using st go by (cases "current pc") (simp_all add: match_step_def)
  show ?thesis
  proof (cases "blank_char c")
    case True
    then have "pc' = advance pc" "bs' = bs" using st go c by (simp_all add: match_step_def blank_Some)
    then have "path_inv lower bs0 (qs @ [(w, g @ [c])]) pc' bs'"
      using inv st ps True take_current [OF c] current_bound [OF c] by (simp add: path_inv_def gap_path_def)
    then show ?thesis ..
  next
    case False
    then have "pc' = goto Command (restart pc)" "bs' = bs" using st go c by (simp_all add: match_step_def blank_Some)
    then have "path_inv lower bs0 ps pc' bs'"
      using inv st ps False c by (auto simp: path_inv_def word_path_def blank_Some)
    then show ?thesis ..
  qed
qed

lemma match_step_path:
  assumes inv: "path_inv lower bs0 ps pc bs" and go: "match_step lower auto pc bs = Go pc' bs'"
  shows "\<exists>ps'. path_inv lower bs0 ps' pc' bs'"
proof (cases "pc_state pc")
  case Start
  then show ?thesis using step_Start [OF inv _ go] by blast
next
  case Command
  then show ?thesis using step_Command [OF inv _ go] by blast
next
  case EndCommand
  then show ?thesis using step_EndCommand [OF inv _ go] by blast
next
  case CommandSeparator
  then show ?thesis using step_CommandSeparator [OF inv _ go] by blast
qed (use inv in \<open>simp_all add: path_inv_def\<close>)

text \<open>Where the loop ends, the words spelled out so far lead to the binding.\<close>

lemma match_step_spelled:
  assumes inv: "path_inv lower bs0 ps pc bs" and fin: "match_step lower auto pc bs = Done pc'"
  shows "pc_binding pc' = pc_binding pc \<and> (\<exists>ws rest. spells (pc_command pc) ws rest \<and> descend lower (None, bs0) ws = Some (pc_binding pc, bs))"
proof -
  have word: ?thesis if path: "word_path ps pc" and same: "pc' = pc"
  proof -
    have "pc_command pc = (47 # glue ps @ pc_incomplete pc) @ drop (pc_i pc) (pc_command pc)"
      using path append_take_drop_id [of "pc_i pc" "pc_command pc"] by (simp add: word_path_def)
    then have "spells (pc_command pc) (map fst ps) (pc_incomplete pc @ drop (pc_i pc) (pc_command pc))"
      using path unfolding spells_def word_path_def by (intro exI [of _ ps]) simp
    then show ?thesis using inv same by (auto simp: path_inv_def)
  qed
  have gap: ?thesis if path: "gap_path ps pc" and fin': "current pc = None" and same: "pc_binding pc' = pc_binding pc"
  proof -
    obtain qs w g where ps: "ps = qs @ [(w, g)]" "words_and_gaps qs" "list_all (\<lambda>c. \<not> blank_char c) w" "list_all blank_char g"
        "pc_command pc = 47 # glue ps"
      using path fin' by (auto simp: gap_path_def current_None)
    then have "spells (pc_command pc) (map fst ps) []"
      unfolding spells_def by (cases "g = []") (intro exI [of _ qs], simp, intro exI [of _ ps], simp)
    then show ?thesis using inv same by (auto simp: path_inv_def)
  qed
  show ?thesis
  proof (cases "pc_state pc")
    case Command
    then show ?thesis using inv fin by (intro word) (auto simp: path_inv_def match_step_def Let_def split: if_splits)
  next
    case EndCommand
    then show ?thesis using inv fin by (intro word) (auto simp: path_inv_def match_step_def Let_def split: option.splits)
  next
    case CommandSeparator
    then show ?thesis using inv fin by (intro gap) (auto simp: path_inv_def match_step_def Let_def split: if_splits)
  qed (use inv fin in \<open>auto simp: path_inv_def match_step_def Let_def split: if_splits\<close>)
qed

definition named_by :: "(jsstring \<Rightarrow> jsstring) \<Rightarrow> app_binding list \<Rightarrow> jsstring \<Rightarrow> app_binding option \<times> app_binding list \<Rightarrow> bool" where
  "named_by lower bs0 cmd s \<longleftrightarrow> (\<exists>ws rest. spells cmd ws rest \<and> descend lower (None, bs0) ws = Some s)"

lemma match_loop_spelled:
  assumes "path_inv lower bs0 ps pc bs" and "match_loop lower auto pc bs = Inr pc'"
  shows "\<exists>bs'. named_by lower bs0 (pc_command pc) (pc_binding pc', bs')"
  using assms
proof (induction lower auto pc bs arbitrary: ps rule: match_loop.induct)
  case (1 lower auto pc bs)
  show ?case
  proof (cases "match_step lower auto pc bs")
    case (Go pc2 bs2)
    then obtain ps2 where "path_inv lower bs0 ps2 pc2 bs2" using match_step_path [OF "1.prems"(1)] by blast
    then show ?thesis
      using "1.IH" [OF Go] "1.prems"(2) Go match_step_command [where lower = lower and auto = auto and pc = pc and bs = bs]
      by (simp add: match_loop.simps [of lower auto pc bs])
  next
    case (Done pc2)
    then show ?thesis
      using "1.prems" match_step_spelled [OF "1.prems"(1) Done] by (auto simp: match_loop.simps [of lower auto pc bs] named_by_def)
  next
    case (Fail pc2)
    then show ?thesis using "1.prems"(2) by (simp add: match_loop.simps [of lower auto pc bs])
  qed
qed

lemma descend_binding:
  assumes "descend lower s ws = Some (Some b, bs)" and "\<And>b0. fst s = Some b0 \<Longrightarrow> snd s = sub_bindings b0"
  shows "bs = sub_bindings b"
  using assms by (induction lower s ws rule: descend.induct) (auto split: option.splits)

text \<open>A command is not submitted with a binding that has others below it.\<close>

lemma matchBinding_named:
  assumes "pc_binding (matchBinding lower forms bs False (new_command cmd)) = Some b"
    and "pc_state (matchBinding lower forms bs False (new_command cmd)) \<noteq> Error"
  shows "named_by lower bs cmd (Some b, [])" and "sub_bindings b = []"
proof -
  have "named_by lower bs cmd (Some b, []) \<and> sub_bindings b = []"
  proof (cases "match_loop lower False (new_command cmd) bs")
    case (Inl pc)
    then show ?thesis
      using match_loop_inv [OF new_command_inv [of cmd], of lower False bs] assms
      by (auto simp: matchBinding_def failed_ok_def asError_def new_command_def split: if_splits)
  next
    case (Inr pc)
    then have m: "matchBinding lower forms bs False (new_command cmd) = resolve_form forms False pc"
      using assms(2) by (simp add: matchBinding_def asError_def split: if_splits)
    have b: "pc_binding pc = Some b" and leaf: "sub_bindings b = []"
      using assms unfolding m by (auto simp: resolve_form_def asError_def Let_def split: option.splits if_splits)
    have "path_inv lower bs [] (new_command cmd) bs" by (simp add: path_inv_def new_command_def)
    from match_loop_spelled [OF this Inr] obtain bs' where "named_by lower bs cmd (Some b, bs')"
      by (auto simp: b new_command_def)
    moreover from this have "bs' = []"
      using leaf by (auto simp: named_by_def dest: descend_binding)
    ultimately show ?thesis using leaf by simp
  qed
  then show "named_by lower bs cmd (Some b, [])" "sub_bindings b = []" by simp_all
qed

text \<open>The form a command is parsed with is that of its binding, or an empty one with the binding's call.\<close>

definition form_of_binding :: "app_binding \<Rightarrow> app_form \<Rightarrow> bool" where
  "form_of_binding b form \<longleftrightarrow>
     b_form (b_core b) = Some form \<or> (b_form (b_core b) = None \<and> b_submit (b_core b) \<noteq> None \<and>
       fm_submit form = b_submit (b_core b) \<and> fm_fields form = None)"

lemma resolve_form_source:
  assumes "pc_resolvedForm pc = None" and "pc_resolvedForm (resolve_form forms auto pc) = Some form"
  shows "\<exists>b. pc_binding (resolve_form forms auto pc) = Some b \<and> form_of_binding b form"
  using assms by (auto simp: resolve_form_def asError_def form_of_binding_def Let_def split: option.splits if_splits)

lemma matchBinding_source:
  assumes "pc_resolvedForm (matchBinding lower forms bs auto (new_command cmd)) = Some form"
  shows "pc_state (matchBinding lower forms bs auto (new_command cmd)) \<noteq> Error \<Longrightarrow>
    \<exists>b. pc_binding (matchBinding lower forms bs auto (new_command cmd)) = Some b \<and> form_of_binding b form"
proof -
  assume ok: "pc_state (matchBinding lower forms bs auto (new_command cmd)) \<noteq> Error"
  note inv = match_loop_inv [OF new_command_inv [of cmd], of lower auto bs]
  show ?thesis
  proof (cases "match_loop lower auto (new_command cmd) bs")
    case (Inl pc)
    then show ?thesis using inv ok assms
      by (auto simp: matchBinding_def failed_ok_def asError_def new_command_def split: if_splits)
  next
    case (Inr pc)
    then have "pc_resolvedForm pc = None" using inv by (simp add: match_inv_def)
    then show ?thesis
      using Inr assms resolve_form_source by (auto simp: matchBinding_def asError_def new_command_def split: if_splits)
  qed
qed

section \<open>Required fields\<close>

lemma static_options_defined:
  "static_options opts acc e vs = Put v' None \<Longrightarrow> v' \<noteq> VUndefined" "static_options opts acc e vs \<noteq> Later w e'"
  by (induction opts acc e vs rule: static_options.induct) (auto split: option.splits)

lemma dynamic_options_empty: "dynamic_options e vs = Put (VOptions []) e"
  by (induction e vs rule: dynamic_options.induct) (simp_all add: same_value_def)

lemma user_options_defined:
  "user_options d acc e vs \<noteq> Put w e'" "user_options d acc e vs \<noteq> Later (Some VUndefined) e'"
  by (induction d acc e vs rule: user_options.induct) (auto simp: Let_def split: option.splits)

lemma channel_options_defined:
  "channel_options d acc e vs \<noteq> Put w e'" "channel_options d acc e vs \<noteq> Later (Some VUndefined) e'"
  by (induction d acc e vs rule: channel_options.induct) (auto simp: Let_def split: option.splits)

lemma expand_value_defined:
  "expand_value lower d f v = Put v' None \<Longrightarrow> v' \<noteq> VUndefined"
  "expand_value lower d f v \<noteq> Later (Some VUndefined) e"
  by (auto simp: expand_value_def expand_dynamic_def expand_static_def expand_user_def expand_channel_def expand_bool_def
      dynamic_options_empty user_options_defined channel_options_defined Let_def static_options_defined
      split: field_type.splits call_value.splits option.splits if_splits list.splits)

definition stays_defined :: "call_values \<Rightarrow> call_values \<Rightarrow> bool" where
  "stays_defined vals vals' \<longleftrightarrow> (\<forall>n. value_under vals n \<noteq> VUndefined \<longrightarrow> value_under vals' n \<noteq> VUndefined)"

definition late_defined :: "late_value list \<Rightarrow> bool" where
  "late_defined late \<longleftrightarrow> (\<forall>x \<in> set late. fst (snd x) \<noteq> Some VUndefined)"

lemma stays_defined_refl [simp]: "stays_defined vals vals"
  by (simp add: stays_defined_def)

lemma stays_defined_trans: "stays_defined vals vals' \<Longrightarrow> stays_defined vals' vals'' \<Longrightarrow> stays_defined vals vals''"
  unfolding stays_defined_def by blast

lemma value_under_update: "value_under (AList.update n v vals) m = (if m = n then v else value_under vals m)"
  by (simp add: value_under_def update_conv)

lemma set_error_some: "set_error name (Some e) errors \<noteq> []"
  by (cases errors) (simp_all add: set_error_def split_beta)

lemma set_error_keeps: "errors \<noteq> [] \<Longrightarrow> set_error name e errors \<noteq> []"
  using set_error_some by (cases e) (simp_all add: set_error_def)

lemma expansion_defined:
  assumes "fold (field_step (expand_outcome lower d)) fs (Some (vals, errors, late)) = Some (vals', errors', late')" and "late_defined late"
  shows "(errors \<noteq> [] \<longrightarrow> errors' \<noteq> []) \<and> late_defined late' \<and> (errors' = [] \<longrightarrow> stays_defined vals vals')"
  using assms
proof (induction fs arbitrary: vals errors late)
  case (Cons f fs)
  obtain vals1 errors1 late1 where step: "field_step (expand_outcome lower d) f (Some (vals, errors, late)) = Some (vals1, errors1, late1)"
    using Cons.prems(1) pass_none [of "expand_outcome lower d" fs]
    by (cases "field_step (expand_outcome lower d) f (Some (vals, errors, late))") auto
  have outcome: "expand_outcome lower d vals f = Put v None \<Longrightarrow> v \<noteq> VUndefined"
    "expand_outcome lower d vals f \<noteq> Later (Some VUndefined) e" for v e
    using expand_value_defined by (auto simp: expand_outcome_def Let_def split: if_splits)
  have "(errors \<noteq> [] \<longrightarrow> errors1 \<noteq> []) \<and> late_defined late1 \<and> (errors1 = [] \<longrightarrow> stays_defined vals vals1)"
  proof (cases "expand_outcome lower d vals f")
    case (Put v e)
    with step outcome show ?thesis
      using Cons.prems(2) set_error_keeps set_error_some
      by (cases e) (auto simp: field_step_def stays_defined_def value_under_update split: if_splits)
  next
    case (Later v e)
    then have "v \<noteq> Some VUndefined" using outcome(2) by metis
    with Later step show ?thesis
      using Cons.prems(2) by (auto simp: field_step_def late_defined_def)
  qed (use step Cons.prems(2) in \<open>auto simp: field_step_def\<close>)
  moreover have "fold (field_step (expand_outcome lower d)) fs (Some (vals1, errors1, late1)) = Some (vals', errors', late')"
    using Cons.prems(1) step by simp
  ultimately show ?case
    using Cons.IH [of vals1 errors1 late1] stays_defined_trans by blast
qed simp

lemma late_values_defined:
  assumes "late_defined late"
  shows "stays_defined vals (fold (\<lambda>(name, v, e). set_value name v) late vals)"
  using assms
proof (induction late arbitrary: vals)
  case (Cons x late)
  obtain name v e where x: "x = (name, v, e)" by (cases x)
  have "v \<noteq> Some VUndefined" using Cons.prems x by (simp add: late_defined_def)
  then have first: "stays_defined vals (set_value name v vals)"
    by (cases v) (simp_all add: stays_defined_def set_value_def value_under_update)
  have "late_defined late" using Cons.prems by (simp add: late_defined_def)
  from stays_defined_trans [OF first Cons.IH [OF this]] show ?case by (simp add: x)
qed simp

lemma late_errors_keep: "errors \<noteq> [] \<Longrightarrow> fold (\<lambda>(name, v, e). set_error name e) late errors \<noteq> []"
proof (induction late arbitrary: errors)
  case (Cons x late)
  obtain name v e where x: "x = (name, v, e)" by (cases x)
  from Cons.IH [OF set_error_keeps [OF Cons.prems, of name e]] show ?case by (simp add: x)
qed simp

lemma expandOptions_defined:
  assumes "expandOptions lower d arrive form vals = Some (vals', [])" and "permutes arrive"
  shows "stays_defined vals vals'"
proof (cases "Option.bind form fm_fields")
  case None
  then show ?thesis using assms by (simp add: expandOptions_def all_fields_def)
next
  case (Some fs)
  then obtain vals1 errors1 late where run: "fold (field_step (expand_outcome lower d)) fs (Some (vals, [], [])) = Some (vals1, errors1, late)"
    and vals': "vals' = fold (\<lambda>(name, v, e). set_value name v) (arrive late) vals1"
    and "fold (\<lambda>(name, v, e). set_error name e) (arrive late) errors1 = []"
    using assms(1) by (auto simp: expandOptions_def all_fields_def)
  then have "errors1 = []" using late_errors_keep by blast
  with expansion_defined [OF run] have "late_defined late" "stays_defined vals vals1"
    by (simp_all add: late_defined_def)
  moreover have "set (arrive late) = set late" using assms(2) by (metis permutes_def set_mset_mset)
  ultimately have "stays_defined vals vals1" "late_defined (arrive late)" by (simp_all add: late_defined_def)
  from stays_defined_trans [OF this(1) late_values_defined [OF this(2)]] show ?thesis by (simp add: vals')
qed

section \<open>Properties\<close>

lemma submitted_from:
  assumes "composeCommandSubmitCall lower d arrive env cmd = Some (Some (Request creq))" and "permutes arrive"
  defines "m \<equiv> matchBinding lower (env_forms env) (env_bindings env) False (new_command cmd)"
  shows "\<exists>b form call pc vals0 vals. pc_binding m = Some b \<and> pc_resolvedForm m = Some form \<and> pc_state m \<noteq> Error \<and>
    form_of_binding b form \<and> fm_submit form = Some call \<and> parseForm lower False m = Some (Some pc) \<and> pc_state pc \<noteq> Error \<and>
    vals0 = addDefaultAndReadOnlyValues d arrive (Some form) (parsed_values pc) \<and>
    expandOptions lower d arrive (Some form) vals0 = Some (vals, []) \<and>
    creq = createCallRequest call (getAppContext (pe_place env) b) [] (Some vals) (Some cmd) \<and>
    (\<forall>f \<in> set (case fm_fields form of None \<Rightarrow> [] | Some fs \<Rightarrow> fs). f_is_required f \<longrightarrow>
       \<not> falsy (value_under vals0 (f_name f)) \<and> value_under vals (f_name f) \<noteq> VUndefined)"
proof -
  obtain pc where pc: "parseForm lower False m = Some (Some pc)"
    and submit: "submit_parsed lower d arrive (pe_place env) pc = Some (Request creq)"
    using assms(1) by (auto simp: m_def composeCommandSubmitCall_def parse_command_def split: option.splits)
  have frame: "pc_command pc = cmd" "pc_binding pc = pc_binding m" "pc_resolvedForm pc = pc_resolvedForm m"
    using parseForm_frame [OF pc] matchBinding_command [of lower "env_forms env" "env_bindings env" False cmd]
    by (simp_all add: m_def parse_frame_def)
  define vals0 where "vals0 = addDefaultAndReadOnlyValues d arrive (pc_resolvedForm pc) (parsed_values pc)"
  have noerror: "pc_state pc \<noteq> Error" and missing: "getMissingFields (pc_resolvedForm pc) vals0 = []"
    and call: "composeCallRequest lower d arrive (pe_place env) pc vals0 (Option.bind (pc_resolvedForm pc) fm_submit) = Some (Request creq)"
    using submit by (auto simp: submit_parsed_def Let_def vals0_def split: if_splits)
  then obtain b form c vals where b: "pc_binding pc = Some b" "pc_resolvedForm pc = Some form" "fm_submit form = Some c"
    "expandOptions lower d arrive (Some form) vals0 = Some (vals, [])"
    "creq = createCallRequest c (getAppContext (pe_place env) b) [] (Some vals) (Some (pc_command pc))"
    by (cases "pc_resolvedForm pc") (auto simp: composeCallRequest_def split: option.splits if_splits prod.splits)
  have state: "pc_state m \<noteq> Error"
    using pc noerror by (auto simp: parseForm_def)
  have source: "form_of_binding b form"
    using matchBinding_source [of lower "env_forms env" "env_bindings env" False cmd form] b(1,2) frame state by (auto simp: m_def)
  have required: "\<not> falsy (value_under vals0 (f_name f)) \<and> value_under vals (f_name f) \<noteq> VUndefined"
    if "f \<in> set (case fm_fields form of None \<Rightarrow> [] | Some fs \<Rightarrow> fs)" "f_is_required f" for f
  proof -
    have "\<not> falsy (value_under vals0 (f_name f))"
      using missing that b(2) by (auto simp: getMissingFields_def filter_empty_conv split: option.splits)
    moreover from this have "value_under vals0 (f_name f) \<noteq> VUndefined" by auto
    ultimately show ?thesis
      using expandOptions_defined [OF b(4) assms(2)] by (simp add: stays_defined_def)
  qed
  show ?thesis
    using b frame state source pc noerror required
    by (intro exI [of _ b] exI [of _ form] exI [of _ c] exI [of _ pc] exI [of _ vals0] exI [of _ vals]) (simp add: vals0_def)
qed

definition sample_user :: app_user where
  "sample_user = \<lparr>au_id = js ''u'', au_username = js ''bob''\<rparr>"

definition sample_directory :: directory where
  "sample_directory = \<lparr>st_user = (\<lambda>i. if i = js ''u'' then Some sample_user else None), sv_user = (\<lambda>_. None),
     st_userByName = (\<lambda>n. if n = js ''bob'' then Some sample_user else None), sv_userByName = (\<lambda>_. None),
     st_channel = (\<lambda>i. if i = js ''c'' then Some \<lparr>ac_id = js ''c'', ac_name = js ''off'', ac_display_name = js ''Off''\<rparr> else None),
     sv_channel = (\<lambda>_. None), st_channelByName = (\<lambda>_. None), sv_channelByName = (\<lambda>_ _. None), currentTeamName = None\<rparr>"

definition sample_env :: "app_binding \<Rightarrow> parser_env" where
  "sample_env b = \<lparr>pe_fm = (\<lambda>_. js ''e''), pe_execute = (\<lambda>_ _. Inr sample_answer), pe_place = sample_place, pe_featureFlag = True,
     pe_store = apps_initial\<lparr>ap_main := \<lparr>bi_bindings = [Binding ((b_core sample_group)) (Some [b])], bi_forms = Map.empty\<rparr>\<rparr>\<rparr>"

lemma permutes_id: "permutes id"
  by (simp add: permutes_def)

definition field_form :: "app_field \<Rightarrow> app_form" where
  "field_form f = sample_form\<lparr>fm_fields := Some [f]\<rparr>"

lemma field_form_fields: "fm_fields (field_form f) = Some [f]" "distinct (map f_name [f])" "f \<in> set [f]"
  by (simp_all add: field_form_def)

text \<open>
  C15. A command that reaches an app is the complete call of the binding it names. The words of the command lead, each naming
  the first binding with its label below the one before, to the binding that matching finds, which has no bindings below it;
  the form is that binding's own, or an empty one with its call; parsing the rest of the command with that form ends
  without an error; the values parsed, completed by the defaults, have one that is not empty for every required field, and
  names were replaced in them by what they stand for without an error and without losing a required field. The request is the
  submit call of the form with just these values, the command as it was typed, and the context of the binding, so it goes to
  the binding's app.
\<close>

theorem submitted_call_complete:
  assumes "composeCommandSubmitCall lower d arrive env cmd = Some (Some (Request creq))" and "permutes arrive"
  shows "\<exists>m b form call pc vals0 vals. m = matchBinding lower (env_forms env) (env_bindings env) False (new_command cmd) \<and>
    pc_binding m = Some b \<and> named_by lower (env_bindings env) cmd (Some b, []) \<and> sub_bindings b = [] \<and>
    pc_resolvedForm m = Some form \<and> form_of_binding b form \<and> fm_submit form = Some call \<and>
    parseForm lower False m = Some (Some pc) \<and> pc_state pc \<noteq> Error \<and>
    vals0 = addDefaultAndReadOnlyValues d arrive (Some form) (parsed_values pc) \<and>
    expandOptions lower d arrive (Some form) vals0 = Some (vals, []) \<and>
    (\<forall>f \<in> set (case fm_fields form of None \<Rightarrow> [] | Some fs \<Rightarrow> fs). f_is_required f \<longrightarrow>
       \<not> falsy (value_under vals0 (f_name f)) \<and> value_under vals (f_name f) \<noteq> VUndefined) \<and>
    creq = createCallRequest call (getAppContext (pe_place env) b) [] (Some vals) (Some cmd) \<and>
    cr_path creq = call_path call \<and> cr_values creq = Some vals \<and> cr_raw_command creq = Some cmd \<and>
    cx_app_id (cr_context creq) = b_app_id (b_core b)"
proof -
  have app: "cx_app_id (getAppContext p b) = b_app_id (b_core b)" for p b
    by (simp add: getAppContext_def createCallContext_def Let_def split: option.split prod.split)
  define m where "m = matchBinding lower (env_forms env) (env_bindings env) False (new_command cmd)"
  from submitted_from [OF assms] obtain b form call pc vals0 vals where
      found: "pc_binding m = Some b" "pc_state m \<noteq> Error" and form: "pc_resolvedForm m = Some form" "form_of_binding b form" "fm_submit form = Some call"
      and parsed: "parseForm lower False m = Some (Some pc)" "pc_state pc \<noteq> Error"
      and vals: "vals0 = addDefaultAndReadOnlyValues d arrive (Some form) (parsed_values pc)"
        "expandOptions lower d arrive (Some form) vals0 = Some (vals, [])"
      and required: "\<forall>f \<in> set (case fm_fields form of None \<Rightarrow> [] | Some fs \<Rightarrow> fs). f_is_required f \<longrightarrow>
         \<not> falsy (value_under vals0 (f_name f)) \<and> value_under vals (f_name f) \<noteq> VUndefined"
      and creq: "creq = createCallRequest call (getAppContext (pe_place env) b) [] (Some vals) (Some cmd)"
    unfolding m_def [symmetric] by blast
  have "named_by lower (env_bindings env) cmd (Some b, [])" "sub_bindings b = []"
    using matchBinding_named [OF found [unfolded m_def]] .
  moreover have "cr_path creq = call_path call" "cr_values creq = Some vals" "cr_raw_command creq = Some cmd"
      "cx_app_id (cr_context creq) = b_app_id (b_core b)"
    by (simp_all add: creq createCallRequest_def app)
  ultimately show ?thesis
    using found(1) form parsed vals required creq m_def
    by (intro exI [of _ m] exI [of _ b] exI [of _ form] exI [of _ call] exI [of _ pc] exI [of _ vals0] exI [of _ vals]) simp
qed

theorem submitted_call_complete_witness:
  "\<exists>creq vals. composeCommandSubmitCall id sample_directory id (sample_env sample_binding) (js ''/j a'') = Some (Some (Request creq)) \<and>
     cr_raw_command creq = Some (js ''/j a'') \<and> cr_values creq = Some vals \<and>
     (\<exists>b. named_by id (env_bindings (sample_env sample_binding)) (js ''/j a'') (Some b, []) \<and> cx_app_id (cr_context creq) = b_app_id (b_core b))"
proof -
  have "(case composeCommandSubmitCall id sample_directory id (sample_env sample_binding) (js ''/j a'') of
      Some (Some (Request creq)) \<Rightarrow> True | _ \<Rightarrow> False)" by code_simp
  then obtain creq where creq: "composeCommandSubmitCall id sample_directory id (sample_env sample_binding) (js ''/j a'') = Some (Some (Request creq))"
    by (auto split: option.splits command_result.splits)
  from submitted_call_complete [OF creq permutes_id] creq show ?thesis by blast
qed

text \<open>
  A command whose form has to be fetched can never be submitted: whatever form the cache or the app
  answers with, the form of the binding, which has no submit call, takes its place.
\<close>

theorem fetched_form_never_submitted:
  assumes "pc_binding (matchBinding lower (env_forms env) (env_bindings env) False (new_command cmd)) = Some b"
    and "b_form (b_core b) = Some form" and "fm_submit form = None" and "permutes arrive"
  shows "composeCommandSubmitCall lower d arrive env cmd \<noteq> Some (Some (Request creq))"
proof
  assume "composeCommandSubmitCall lower d arrive env cmd = Some (Some (Request creq))"
  from submitted_from [OF this assms(4)] show False
    using assms(1-3) by (auto simp: form_of_binding_def)
qed

theorem fetched_form_never_submitted_witness:
  "\<forall>creq. composeCommandSubmitCall id sample_directory id (sample_env sample_source) (js ''/j a'') \<noteq> Some (Some (Request creq))"
proof -
  let ?m = "matchBinding id (env_forms (sample_env sample_source)) (env_bindings (sample_env sample_source)) False (new_command (js ''/j a''))"
  have "map_option (\<lambda>b. b_form (b_core b) = b_form (b_core sample_source)) (pc_binding ?m) = Some True" by code_simp
  then obtain b where b: "pc_binding ?m = Some b" "b_form (b_core b) = b_form (b_core sample_source)" by auto
  have form: "b_form (b_core b) = Some (sample_form\<lparr>fm_source := fm_submit sample_form, fm_submit := None\<rparr>)"
    by (simp add: b(2) sample_source_def)
  show ?thesis
    using fetched_form_never_submitted [OF b(1) form _ permutes_id, of sample_directory] by simp
qed

text \<open>
  Users and channels are looked up all at the same time, yet what becomes of a field does not depend on the order
  of the answers or on the other fields: the value and the error it ends with are those of expanding its own
  value alone.
\<close>

theorem expansion_by_field:
  assumes "fm_fields form = Some fs" and "distinct (map f_name fs)" and "permutes arrive"
    and "expandOptions lower d arrive (Some form) vals = Some (vals', errors)" and "f \<in> set fs"
  shows "(map_of vals' (f_name f), map_of errors (f_name f)) = settled (expand_outcome lower d vals f) (map_of vals (f_name f))"
  by (rule expand_by_field [OF assms(1-3,5,4)])

theorem expansion_by_field_witness:
  "map_of [] (f_name sample_field) = fst (settled (expand_outcome id sample_directory [] sample_field) None)"
proof -
  have "expandOptions id sample_directory id (Some (field_form sample_field)) [] = Some ([], [])"
    by (simp add: expandOptions_def all_fields_def field_form_def expand_outcome_def field_step_def value_under_def sample_field_def inherited_def)
  from expansion_by_field [OF field_form_fields(1,2) permutes_id this field_form_fields(3)] show ?thesis
    by (simp add: prod_eq_iff)
qed

text \<open>
  A default user is submitted as that user: its id becomes a name by the defaults and the name the user again by
  the expansion, if the directory finds the user under both.
\<close>

theorem default_user_submitted:
  assumes "fm_fields form = Some fs" and "distinct (map f_name fs)" and "permutes arrive" and "permutes arrive'"
    and "f \<in> set fs" and "f_type f = USER" and "f_value f = Some (ValOption opt)"
    and "map_of vals (f_name f) = None" and "f_name f \<notin> set inherited"
    and "st_user d (o_value opt) = Some u \<or> st_user d (o_value opt) = None \<and> sv_user d (o_value opt) = Some u"
    and "getUserByName d (au_username u) = Some u" and "au_username u \<noteq> []" and "hd (au_username u) \<noteq> 64"
    and "expandOptions lower d arrive' (Some form) (addDefaultAndReadOnlyValues d arrive (Some form) vals) = Some (vals', errors)"
  shows "map_of vals' (f_name f) = Some (VOption (plain_option (au_username u) (au_id u))) \<and> map_of errors (f_name f) = None"
proof -
  let ?vals = "addDefaultAndReadOnlyValues d arrive (Some form) vals"
  have "default_outcome d vals f = Put (VString (au_username u)) None \<or> default_outcome d vals f = Later (Some (VString (au_username u))) None"
    using assms(6-10) by (auto simp: default_outcome_def has_prop_def default_value_def in_template_def)
  then have filled: "map_of ?vals (f_name f) = Some (VString (au_username u))"
    using defaults_by_field [OF assms(1-3,5), of d vals] by auto
  have "strip_sigil 64 (au_username u) = au_username u"
    using assms(12,13) by (cases "au_username u") auto
  then have "expand_outcome lower d ?vals f = Later (Some (VOption (plain_option (au_username u) (au_id u)))) None"
    using filled assms(6,11,12) by (simp add: expand_outcome_def value_under_def expand_value_def expand_user_def)
  then show ?thesis
    using expand_by_field [OF assms(1,2,4,5,14)] by simp
qed

theorem default_user_submitted_witness:
  "\<exists>(f :: app_field) (vals' :: call_values). f_type f = USER \<and> map_of vals' (f_name f) = Some (VOption (plain_option (js ''bob'') (js ''u'')))"
proof -
  let ?f = "sample_field\<lparr>f_type := USER, f_value := Some (ValOption (plain_option (js ''Bob'') (js ''u'')))\<rparr>"
  have found: "st_user sample_directory (js ''u'') = Some sample_user" "getUserByName sample_directory (js ''bob'') = Some sample_user"
    by (simp_all add: sample_directory_def getUserByName_def)
  have name_ok: "f_name ?f = js ''text''" "js ''text'' \<notin> set inherited" by (simp_all add: sample_field_def inherited_def)
  have defaults: "addDefaultAndReadOnlyValues sample_directory id (Some (field_form ?f)) [] = [(js ''text'', VString (js ''bob''))]"
    using name_ok found by (simp add: addDefaultAndReadOnlyValues_def field_form_def default_outcome_def all_fields_def field_step_def has_prop_def default_value_def
        plain_option_def in_template_def sample_user_def sample_field_def del: js_simps)
  have "expandOptions id sample_directory id (Some (field_form ?f)) [(js ''text'', VString (js ''bob''))]
      = Some ([(js ''text'', VOption (plain_option (js ''bob'') (js ''u'')))], [])"
    by (simp add: expandOptions_def all_fields_def field_form_def expand_outcome_def field_step_def value_under_def expand_value_def expand_user_def
        getUserByName_def sample_directory_def sample_user_def sample_field_def set_value_def set_error_def)
  note run = this [folded defaults]
  have "map_of [(js ''text'', VOption (plain_option (js ''bob'') (js ''u'')))] (f_name ?f)
      = Some (VOption (plain_option (au_username sample_user) (au_id sample_user))) \<and>
      map_of ([] :: (jsstring \<times> field_error) list) (f_name ?f) = None"
    by (rule default_user_submitted [OF field_form_fields(1,2) permutes_id permutes_id field_form_fields(3) _ _ _ _ _ _ _ _ run,
          where opt = "plain_option (js ''Bob'') (js ''u'')" and u = sample_user])
      (simp_all add: name_ok plain_option_def found [unfolded js_simps] sample_user_def, simp_all add: sample_user_def sample_directory_def
        getUserByName_def sample_field_def inherited_def)
  then show ?thesis
    by (intro exI [of _ ?f] exI [of _ "[(js ''text'', VOption (plain_option (js ''bob'') (js ''u'')))]"])
      (simp add: sample_field_def)
qed

text \<open>
  The values typed for a dynamic select that takes several are all lost: the call is made with an empty list
  for the field, without an error.
\<close>

theorem dynamic_list_lost:
  assumes "fm_fields form = Some fs" and "distinct (map f_name fs)" and "permutes arrive"
    and "f \<in> set fs" and "f_type f = DYNAMIC_SELECT" and "f_multiselect f" and "map_of vals (f_name f) = Some (VStrings ss)"
    and "expandOptions lower d arrive (Some form) vals = Some (vals', errors)"
  shows "map_of vals' (f_name f) = Some (VOptions []) \<and> map_of errors (f_name f) = None"
proof -
  have "expand_outcome lower d vals f = Put (VOptions []) None"
    using assms(5-7) by (simp add: expand_outcome_def value_under_def expand_value_def expand_dynamic_def dynamic_options_empty)
  then show ?thesis
    using expand_by_field [OF assms(1-4,8)] by simp
qed

theorem dynamic_list_lost_witness:
  "\<exists>(f :: app_field) (vals' :: call_values). f_type f = DYNAMIC_SELECT \<and> map_of vals' (f_name f) = Some (VOptions [])"
proof -
  let ?f = "sample_field\<lparr>f_type := DYNAMIC_SELECT, f_multiselect := True\<rparr>"
  let ?vals = "[(js ''text'', VStrings [js ''a''])]"
  have "expandOptions id sample_directory id (Some (field_form ?f)) ?vals = Some ([(js ''text'', VOptions [])], [])"
    by (simp add: expandOptions_def all_fields_def field_form_def expand_outcome_def field_step_def value_under_def expand_value_def expand_dynamic_def
        same_value_def sample_field_def set_error_def)
  note run = this
  have "map_of [(js ''text'', VOptions [])] (f_name ?f) = Some (VOptions []) \<and>
      map_of ([] :: (jsstring \<times> field_error) list) (f_name ?f) = None"
    by (rule dynamic_list_lost [OF field_form_fields(1,2) permutes_id field_form_fields(3) _ _ _ run])
      (simp_all add: sample_field_def)
  then show ?thesis by (intro exI [of _ ?f] exI [of _ "[(js ''text'', VOptions [])]"]) simp
qed

text \<open>
  What the form fixes cannot be changed by the command: a read-only text has the form's value in the call,
  whatever was typed.
\<close>

theorem read_only_text_fixed:
  assumes "fm_fields form = Some fs" and "distinct (map f_name fs)" and "permutes arrive" and "f \<in> set fs"
    and "f_readonly f" and "f_type f = TEXT" and "f_value f = Some (ValString s)" and "s \<noteq> []"
  shows "map_of (addDefaultAndReadOnlyValues d arrive (Some form) vals) (f_name f) = Some (VString s)"
  using defaults_by_field [OF assms(1-4), of d vals] assms(5-8)
  by (simp add: default_outcome_def default_value_def)

theorem read_only_text_fixed_witness:
  "map_of (addDefaultAndReadOnlyValues sample_directory id
      (Some (field_form (sample_field\<lparr>f_readonly := True, f_value := Some (ValString (js ''x''))\<rparr>))) [(js ''text'', VString (js ''y''))])
    (js ''text'') = Some (VString (js ''x''))"
  using read_only_text_fixed [OF field_form_fields(1,2) permutes_id field_form_fields(3),
      of "sample_field\<lparr>f_readonly := True, f_value := Some (ValString (js ''x''))\<rparr>" "js ''x''"]
  by (simp add: sample_field_def)

text \<open>
  The default channel of a field is looked up by the label of the option as if it were an id, so a default in
  the shape the expansion itself gives channels, with the name to display as its label, is not found.
\<close>

theorem default_channel_by_label:
  assumes "fm_fields form = Some fs" and "distinct (map f_name fs)" and "permutes arrive" and "f \<in> set fs"
    and "f_type f = CHANNEL" and "f_value f = Some (ValOption (plain_option (ac_display_name c) (ac_id c)))"
    and "st_channel d (ac_id c) = Some c" and "st_channel d (ac_display_name c) = None" and "sv_channel d (ac_display_name c) = None"
  shows "map_of (addDefaultAndReadOnlyValues d arrive (Some form) vals) (f_name f) = map_of vals (f_name f)"
proof -
  have "default_outcome d vals f = Keep \<or> default_outcome d vals f = Later None None"
    using assms(5,6,8,9) by (simp add: default_outcome_def default_value_def in_template_def plain_option_def)
  then show ?thesis using defaults_by_field [OF assms(1-4), of d vals] by auto
qed

theorem default_channel_by_label_witness:
  "\<exists>f :: app_field. f_type f = CHANNEL \<and> f_value f \<noteq> None \<and>
     map_of (addDefaultAndReadOnlyValues sample_directory id (Some (field_form f)) []) (f_name f) = None"
proof -
  let ?c = "\<lparr>ac_id = js ''c'', ac_name = js ''off'', ac_display_name = js ''Off''\<rparr>"
  let ?f = "sample_field\<lparr>f_type := CHANNEL, f_value := Some (ValOption (plain_option (js ''Off'') (js ''c'')))\<rparr>"
  have "map_of (addDefaultAndReadOnlyValues sample_directory id (Some (field_form ?f)) []) (f_name ?f) = map_of [] (f_name ?f)"
    by (rule default_channel_by_label [OF field_form_fields(1,2) permutes_id field_form_fields(3), of _ ?c])
      (simp_all add: sample_directory_def)
  then show ?thesis by (intro exI [of _ ?f]) simp
qed

text \<open>
  The message for a command without a form is never given: opening the form of such a command throws.
\<close>

theorem no_form_throws:
  assumes "pc_resolvedForm (matchBinding lower (env_forms env) (env_bindings env) False (new_command cmd)) = None"
  shows "composeFormFromCommand lower d arrive env cmd = Some None"
  using assms by (simp add: composeFormFromCommand_def parse_command_def parseForm_def form_parsed_def)

theorem no_form_throws_witness:
  "composeFormFromCommand id sample_directory id (sample_env sample_binding) (js ''j'') = Some None"
  by (rule no_form_throws) code_simp

end
