(* ===== verification/CommandSuggestProps.thy ===== *)
theory CommandSuggestProps
  imports CommandSuggest CommandCallProps
begin

text \<open>
  What is offered is what the parser takes: subcommands, flags and options put in the place of what is
  typed are read back as the subcommand, the flag or the option meant. And where it is not: flags that
  are read-only, labels with capitals, commands of apps on mobile.
\<close>

section \<open>Choices in their place\<close>

text \<open>What does not end like one of the two entries that stand for the command itself\<close>

definition ordinary :: "jsstring \<Rightarrow> bool" where
  "ordinary s \<longleftrightarrow> s \<noteq> [] \<and> \<not> endsWith s EXECUTE_CURRENT_COMMAND_ITEM_ID \<and> \<not> endsWith s OPEN_COMMAND_IN_MODAL_ITEM_ID"

lemma endsWith_append: "endsWith s e \<longleftrightarrow> (\<exists>t. s = t @ e)"
proof
  assume "endsWith s e"
  then have "s = take (length s - length e) s @ e"
    by (metis append_take_drop_id endsWith_def)
  then show "\<exists>t. s = t @ e" by blast
qed (auto simp: endsWith_def)

lemma ordinary_dashes:
  assumes "ordinary l" and "set dashes \<subseteq> {45}"
  shows "ordinary (dashes @ l)"
proof -
  have "endsWith l e" if "endsWith (dashes @ l) e" "45 \<notin> set e" for e
    using that assms(2) by (auto simp: endsWith_append append_eq_append_conv2) (metis append_Nil2 all_not_in_conv insert_subset set_empty subset_singletonD sup.bounded_iff set_append singletonD)
  moreover have "45 \<notin> set EXECUTE_CURRENT_COMMAND_ITEM_ID" "45 \<notin> set OPEN_COMMAND_IN_MODAL_ITEM_ID"
    by (simp_all add: EXECUTE_CURRENT_COMMAND_ITEM_ID_def OPEN_COMMAND_IN_MODAL_ITEM_ID_def)
  ultimately show ?thesis using assms(1) unfolding ordinary_def by blast
qed

lemma suggest_simps [simp]:
  "su_Complete (suggest c s h d i) = c" "su_Suggestion (suggest c s h d i) = s"
  "su_IconData (suggest c s h d i) = i"
  by (simp_all add: suggest_def)

lemma binding_suggestion_simps [simp]:
  "su_Complete (binding_suggestion b s) = b_label (b_core b)" "su_Suggestion (binding_suggestion b s) = s"
  by (simp_all add: binding_suggestion_def)

lemma decorate_ordinary:
  assumes "pc_command pc = 47 # before @ post" and "drop (pc_incompleteStart pc) (pc_command pc) = post"
    and "ordinary (su_Complete s)"
  shows "decorateSuggestionComplete pc s = s\<lparr>su_Complete := before @ su_Complete s\<rparr>"
proof -
  have "take (pc_incompleteStart pc) (pc_command pc) = 47 # before"
    using append_take_drop_id [of "pc_incompleteStart pc" "pc_command pc"] assms(1,2) by (metis append_Cons append_same_eq)
  then show ?thesis using assms(3) by (simp add: decorateSuggestionComplete_def ordinary_def)
qed

lemma decorate_all:
  assumes "pc_command pc = 47 # before @ post" and "drop (pc_incompleteStart pc) (pc_command pc) = post"
    and "\<forall>s \<in> set ss. ordinary (su_Complete s)"
  shows "map (decorateSuggestionComplete pc) ss = map (\<lambda>s. s\<lparr>su_Complete := before @ su_Complete s\<rparr>) ss"
  using assms(3) by (simp add: decorate_ordinary [OF assms(1,2)])

lemma decorate_modal [simp]:
  "decorateSuggestionComplete pc (getOpenInModalSuggestion pc') = getOpenInModalSuggestion pc'"
  by (simp add: decorateSuggestionComplete_def getOpenInModalSuggestion_def endsWith_def)

lemma modal_complete [simp]: "su_Complete (getOpenInModalSuggestion pc) = tl (pc_command pc) @ OPEN_COMMAND_IN_MODAL_ITEM_ID"
  by (simp add: getOpenInModalSuggestion_def)

section \<open>Subcommands\<close>

text \<open>In the words of a command, the parser stands at the word being typed below the binding they name.\<close>

lemma match_prefix:
  assumes "binding_at lower bs ws = Some b" and "words ws" and "\<not> has_blank p" and "sub_bindings b \<noteq> []"
  obtains pc where "matchBinding lower forms bs True (new_command (47 # path ws @ p)) = pc"
    and "pc_state pc = Command" and "pc_incomplete pc = p" and "pc_binding pc = Some b" and "pc_resolvedForm pc = None"
    and "pc_command pc = 47 # path ws @ p" and "pc_incompleteStart pc = Suc (length (path ws))" and "pc_field pc = None"
proof -
  have "word_starts p" using assms(3) by (cases p) (auto simp: word_starts_def has_blank_def)
  then obtain pc where pc: "match_loop lower True (new_command (47 # path ws @ p)) bs
      = (if p = [] then Inr pc else match_loop lower True pc (sub_bindings b))"
    "pc_state pc = Command" "pc_incomplete pc = []" "text_at pc = p" "pc_binding pc = Some b"
    "match_frame pc = match_frame (new_command (47 # path ws @ p))" "pc_incompleteStart pc = Suc (length (path ws))"
    by (rule match_path [OF assms(1,2), of p True])
  define pc1 where "pc1 = take_text p pc"
  have "match_loop lower True pc (sub_bindings b) = match_loop lower True pc1 (sub_bindings b)"
    unfolding pc1_def by (rule read_name [of pc p "[]"]) (use pc assms(3) in simp_all)
  also have "\<dots> = Inr pc1"
    using pc(2,4) by (intro match_done) (simp add: match_step_def pc1_def current_text)
  finally have "match_loop lower True (new_command (47 # path ws @ p)) bs = Inr pc1"
    using pc(1) by (cases p) (simp_all add: pc1_def)
  moreover have "bs \<noteq> []"
    using assms(1) by (cases ws) (auto simp: find_binding_def split: option.splits)
  moreover have pc1: "pc_state pc1 = Command" "pc_incomplete pc1 = p" "pc_binding pc1 = Some b" "pc_resolvedForm pc1 = None"
    "pc_command pc1 = 47 # path ws @ p" "pc_incompleteStart pc1 = Suc (length (path ws))" "pc_field pc1 = None"
    using pc by (simp_all add: pc1_def take_text_def match_frame_def new_command_def)
  ultimately have "matchBinding lower forms bs True (new_command (47 # path ws @ p)) = pc1"
    using assms(4) by (simp add: matchBinding_def resolve_form_def)
  from that [OF this pc1] show ?thesis .
qed

lemma subcommands_offered_list:
  assumes "binding_at lower (env_bindings (se_parser env)) ws = Some b" and "words ws" and "\<not> has_blank p"
    and "\<forall>c \<in> set (sub_bindings b). ordinary (b_label (b_core c))"
    and "offered = filter (\<lambda>c. startsWith (lower (b_label (b_core c))) (lower p)) (sub_bindings b)" and "offered \<noteq> []"
  shows "getSuggestions lower env (47 # path ws @ p) =
    Some (Some (map (\<lambda>c. (binding_suggestion c (b_label (b_core c)))\<lparr>su_Complete := path ws @ b_label (b_core c)\<rparr>) offered))"
proof -
  let ?pe = "se_parser env"
  have "sub_bindings b \<noteq> []" using assms(5,6) by auto
  then obtain pc where pc: "matchBinding lower (env_forms ?pe) (env_bindings ?pe) True (new_command (47 # path ws @ p)) = pc"
    "pc_state pc = Command" "pc_incomplete pc = p" "pc_binding pc = Some b" "pc_resolvedForm pc = None"
    "pc_command pc = 47 # path ws @ p" "pc_incompleteStart pc = Suc (length (path ws))"
    by (rule match_prefix [OF assms(1-3)])
  have ss: "getCommandSuggestions lower pc = map (\<lambda>c. binding_suggestion c (b_label (b_core c))) offered"
    using pc(3,4) assms(5) by (simp add: getCommandSuggestions_def)
  have "finish_suggestions env pc vals (getCommandSuggestions lower pc)
      = map (decorateSuggestionComplete pc) (getCommandSuggestions lower pc)" for vals
    using pc(2) ss assms(6)
    by (simp add: finish_suggestions_def executable_def opens_modal_def executableStates_def modalStates_def)
  also have "\<dots> = map (\<lambda>s. s\<lparr>su_Complete := path ws @ su_Complete s\<rparr>) (getCommandSuggestions lower pc)"
    by (rule decorate_all [OF pc(6)]) (use pc(6,7) assms(4,5) in \<open>auto simp: ss\<close>)
  finally have "finish_suggestions env pc vals (getCommandSuggestions lower pc)
      = map (\<lambda>c. (binding_suggestion c (b_label (b_core c)))\<lparr>su_Complete := path ws @ b_label (b_core c)\<rparr>) offered" for vals
    by (simp add: ss)
  then show ?thesis
    using pc(1,2,5)
    by (simp add: getSuggestions_def parseForm_def getParameterSuggestions_def suggested_field_def Let_def)
qed

text \<open>A name added to the words names a binding one level below.\<close>

lemma binding_at_below:
  "binding_at lower bs ws = Some b \<Longrightarrow> binding_at lower bs (ws @ [w]) = find_binding lower w (sub_bindings b)"
proof (induction ws arbitrary: bs)
  case (Cons v vs)
  then show ?case by (cases "vs = []") (simp_all split: option.splits)
qed simp

lemma resolve_form_binding: "pc_binding (resolve_form forms auto pc) = pc_binding pc"
  by (auto simp: resolve_form_def asError_def Let_def split: option.split)

lemma match_words:
  assumes "binding_at lower bs ws = Some b" and "words ws"
  shows "pc_binding (matchBinding lower forms bs auto (new_command (47 # path ws))) = Some b"
proof -
  obtain pc where "match_loop lower auto (new_command (47 # path ws)) bs = Inr pc" "pc_binding pc = Some b"
    by (rule match_path [OF assms, of "[]" auto]) (simp_all add: word_starts_def)
  moreover have "bs \<noteq> []"
    using assms(1) by (cases ws) (auto simp: find_binding_def split: option.splits)
  ultimately show ?thesis by (simp add: matchBinding_def resolve_form_binding)
qed

section \<open>Examples\<close>

definition issue_binding :: app_binding where
  "issue_binding = Binding ((b_core sample_binding)\<lparr>b_label := js ''issue''\<rparr>) None"

definition jira_binding :: app_binding where
  "jira_binding = Binding ((b_core sample_binding)\<lparr>b_label := js ''jira'', b_form := None\<rparr>) (Some [issue_binding])"

definition suggest_sample :: "app_binding \<Rightarrow> suggest_env" where
  "suggest_sample b = \<lparr>se_parser = sample_env b, se_directory = sample_directory, se_arrive = id, se_text = (\<lambda>_. js ''t''),
     se_mac = False, se_users = (\<lambda>_. None), se_channels = (\<lambda>_. None)\<rparr>"

lemma env_bindings_sample: "env_bindings (se_parser (suggest_sample b)) = [b]"
  by (simp add: suggest_sample_def sample_env_def env_bindings_def getCommandBindings_def in_rhs_def sample_place_def
      makeAppBindingsSelector_def appsEnabled_def apps_initial_def bindings_at_def sample_group_def sub_bindings_def)

definition form_binding :: "app_field \<Rightarrow> app_binding" where
  "form_binding f = Binding ((b_core sample_binding)\<lparr>b_form := Some (field_form f)\<rparr>) None"

lemma form_binding_command: "command_binding id (env_bindings (se_parser (suggest_sample (form_binding f)))) (js ''j'') (field_form f)"
  by (simp add: env_bindings_sample command_binding_def form_binding_def field_form_def sample_form_def sample_binding_def
      find_binding_def has_blank_def sub_bindings_def)

section \<open>Accepting a suggestion\<close>

text \<open>
  C31. Subcommands accepted. Whatever is offered behind the words of a command, taken over and followed by a
  blank, brings the parser to a subcommand of that name: the next suggestions are those below it.
\<close>

theorem subcommand_accepted:
  assumes "binding_at lower (env_bindings (se_parser env)) ws = Some b" and "words ws" and "\<not> has_blank p"
    and "\<forall>c \<in> set (sub_bindings b). ordinary (b_label (b_core c)) \<and> \<not> has_blank (b_label (b_core c))"
    and "\<exists>c \<in> set (sub_bindings b). startsWith (lower (b_label (b_core c))) (lower p)"
  shows "\<exists>ss. getSuggestions lower env (47 # path ws @ p) = Some (Some ss) \<and> ss \<noteq> [] \<and>
    (\<forall>s \<in> set ss. \<exists>c \<in> set (sub_bindings b). lower (b_label (b_core c)) = lower (su_Suggestion s) \<and>
      pc_binding (matchBinding lower forms (env_bindings (se_parser env)) True (new_command (47 # su_Complete s @ [32]))) = Some c)"
proof -
  let ?bs = "env_bindings (se_parser env)"
  define offered where "offered = filter (\<lambda>c. startsWith (lower (b_label (b_core c))) (lower p)) (sub_bindings b)"
  have ne: "offered \<noteq> []" using assms(5) by (auto simp: offered_def filter_empty_conv)
  let ?shown = "\<lambda>c. (binding_suggestion c (b_label (b_core c)))\<lparr>su_Complete := path ws @ b_label (b_core c)\<rparr>"
  have ss: "getSuggestions lower env (47 # path ws @ p) = Some (Some (map ?shown offered))"
    by (rule subcommands_offered_list [OF assms(1-3) _ offered_def ne]) (use assms(4) in blast)
  have "\<exists>c' \<in> set (sub_bindings b). lower (b_label (b_core c')) = lower (b_label (b_core c)) \<and>
      pc_binding (matchBinding lower forms ?bs True (new_command (47 # (path ws @ b_label (b_core c)) @ [32]))) = Some c'"
    if "c \<in> set offered" for c
  proof -
    let ?l = "b_label (b_core c)"
    have c: "c \<in> set (sub_bindings b)" using that by (simp add: offered_def)
    then obtain c' where c': "find_binding lower ?l (sub_bindings b) = Some c'"
      by (cases "find_binding lower ?l (sub_bindings b)") (auto simp: find_binding_def find_None_iff)
    then have "c' \<in> set (sub_bindings b)" "lower (b_label (b_core c')) = lower ?l"
      using find_set by (fastforce simp: find_binding_def)+
    moreover have "words (ws @ [?l])"
      using assms(1,2,4) c by (cases ws) (auto simp: words_def ordinary_def)
    from match_words [OF _ this] have "pc_binding (matchBinding lower forms ?bs True (new_command (47 # path (ws @ [?l])))) = Some c'"
      using binding_at_below [OF assms(1)] c' by simp
    ultimately show ?thesis by (auto simp: path_def)
  qed
  then show ?thesis
    using ss ne by auto
qed

theorem subcommand_accepted_witness:
  "\<exists>ss. getSuggestions id (suggest_sample jira_binding) (js ''/jira i'') = Some (Some ss) \<and> ss \<noteq> []"
proof -
  have sub: "sub_bindings jira_binding = [issue_binding]" "b_label (b_core issue_binding) = js ''issue''"
    by (simp_all add: jira_binding_def issue_binding_def sub_bindings_def)
  have "binding_at id (env_bindings (se_parser (suggest_sample jira_binding))) [js ''jira''] = Some jira_binding"
    by (simp add: env_bindings_sample find_binding_def jira_binding_def)
  then have "\<exists>ss. getSuggestions id (suggest_sample jira_binding) (47 # path [js ''jira''] @ js ''i'') = Some (Some ss) \<and> ss \<noteq> []"
    using subcommand_accepted [of id "suggest_sample jira_binding" "[js ''jira'']" jira_binding "js ''i''" "\<lambda>_ _. None"]
    by (auto simp: sub words_def has_blank_def ordinary_def endsWith_def EXECUTE_CURRENT_COMMAND_ITEM_ID_def
        OPEN_COMMAND_IN_MODAL_ITEM_ID_def startsWith_def)
  then show ?thesis by (simp add: path_def)
qed

section \<open>Flags\<close>

text \<open>What starts a flag, and a name of which nothing belongs to that\<close>

definition flag_typed :: "jsstring \<Rightarrow> jsstring \<Rightarrow> bool" where
  "flag_typed dashes p \<longleftrightarrow> dashes \<in> {[45], [45, 45], [8212]} \<and> set p \<inter> {32, 9, 61} = {} \<and> (dashes = [45] \<longrightarrow> take 1 p \<noteq> [45])"

lemma flag_being_typed:
  assumes "pc_state pc = StartParameter" and "text_at pc = dashes @ p" and "flag_typed dashes p"
  obtains pc' where "form_loop lower True fs pc e x = Some (Some pc')" and "pc_state pc' = Flag" and "pc_incomplete pc' = p"
    and "pc_incompleteStart pc' = pc_i pc + length dashes" and "pc_values pc' = pc_values pc" and "pc_field pc' = pc_field pc"
    and "pc_position pc' = pc_position pc"
proof -
  have start: "\<exists>pc1. form_loop lower True fs pc e x = form_loop lower True fs pc1 False x \<and> pc_state pc1 = Flag \<and> pc_incomplete pc1 = [] \<and>
    text_at pc1 = p \<and> pc_i pc1 = pc_i pc + length dashes \<and> pc_incompleteStart pc1 = pc_i pc + length dashes \<and>
    pc_values pc1 = pc_values pc \<and> pc_field pc1 = pc_field pc \<and> pc_position pc1 = pc_position pc"
  proof (cases "dashes = [8212]")
    case True
    define pc1 where "pc1 = restart (advance (goto Flag pc))"
    have "form_loop lower True fs pc e x = form_loop lower True fs pc1 False x"
      using assms(1,2) True by (intro loop_step) (simp add: form_step_def start_parameter_def current_Cons pc1_def)
    then show ?thesis
      using assms(2) True by (intro exI [of _ pc1]) (simp add: pc1_def)
  next
    case False
    then have d: "dashes = [45] \<and> take 1 p \<noteq> [45] \<or> dashes = [45, 45]" using assms(3) by (auto simp: flag_typed_def)
    define pc1 where "pc1 = advance (goto Flag1 pc)"
    define pc2 where "pc2 = restart (goto Flag (if current pc1 = dash then advance pc1 else pc1))"
    have "form_loop lower True fs pc e x = form_loop lower True fs pc1 e x"
      using assms(1,2) d by (intro loop_step) (auto simp: form_step_def start_parameter_def current_Cons pc1_def)
    also have "\<dots> = form_loop lower True fs pc2 False x"
      by (intro loop_step) (simp add: form_step_def flag1_def pc2_def Let_def pc1_def)
    finally have "form_loop lower True fs pc e x = form_loop lower True fs pc2 False x" .
    moreover have "text_at pc1 = tl dashes @ p" using assms(2) d by (auto simp: pc1_def)
    then have "current pc1 = dash \<longleftrightarrow> dashes = [45, 45]"
      using d by (cases p) (auto simp: current_text)
    ultimately show ?thesis
      using assms(2) d
      by (intro exI [of _ pc2]) (auto simp: pc2_def pc1_def)
  qed
  then obtain pc1 where pc1: "form_loop lower True fs pc e x = form_loop lower True fs pc1 False x" "pc_state pc1 = Flag"
    "pc_incomplete pc1 = []" "text_at pc1 = p" "pc_incompleteStart pc1 = pc_i pc + length dashes"
    "pc_values pc1 = pc_values pc" "pc_field pc1 = pc_field pc" "pc_position pc1 = pc_position pc" by blast
  note pc1(1)
  also have "form_loop lower True fs pc1 False x = form_loop lower True fs (take_text p pc1) False x"
    by (rule read_flag_name [of pc1 p "[]"]) (use pc1 assms(3) in \<open>simp_all add: flag_typed_def\<close>)
  also have "\<dots> = Some (Some (take_text p pc1))"
    using pc1(2,4) by (intro loop_return) (simp add: form_step_def flag_name_def current_text)
  finally show ?thesis
    by (rule that) (use pc1 in \<open>simp_all add: take_text_def\<close>)
qed

text \<open>Behind the name of a command the form decides what is offered.\<close>

lemma suggest_after_match:
  assumes "command_binding lower (env_bindings (se_parser env)) name form" and "word_starts post"
    and "\<And>pc. pc_state pc = StartParameter \<Longrightarrow> text_at pc = post \<Longrightarrow> pc_values pc = [] \<Longrightarrow> pc_i pc = length name + 2 \<Longrightarrow>
      pc_position pc = 0 \<Longrightarrow> \<exists>pc'. form_loop lower True (parsed_fields form) pc False False = Some (Some pc') \<and> P pc'"
    and "\<And>pc. P pc \<Longrightarrow> pc_state pc \<noteq> Error"
    and "\<And>pc b. P pc \<Longrightarrow> pc_command pc = 47 # name @ 32 # post \<Longrightarrow> pc_resolvedForm pc = Some form \<Longrightarrow> pc_binding pc = Some b \<Longrightarrow>
      \<exists>vals args. getParameterSuggestions lower env pc = Some (vals, args) \<and> Q (finish_suggestions env (suggested_field pc) vals args)"
  shows "\<exists>ss. getSuggestions lower env (47 # name @ 32 # post) = Some (Some ss) \<and> Q ss"
proof -
  let ?pe = "se_parser env"
  let ?m = "matchBinding lower (env_forms ?pe) (env_bindings ?pe) True (new_command (47 # name @ 32 # post))"
  obtain m b where m: "?m = m" "pc_state m \<in> {Command, EndCommand}" "pc_binding m = Some b" "sub_bindings b = []"
    "pc_resolvedForm m = Some form" "pc_command m = 47 # name @ 32 # post"
    by (rule match_command [OF assms(1,2), of "env_forms ?pe" True])
  obtain pc where pc: "parseForm lower True ?m = form_loop lower True (parsed_fields form) pc False False"
    "pc_state pc = StartParameter" "text_at pc = post" "pc_values pc = []" "pc_i pc = length name + 2" "pc_position pc = 0"
    by (rule parse_after_match [OF assms(1,2), of True "env_forms ?pe"])
  obtain pc' where pc': "parseForm lower True m = Some (Some pc')" "P pc'"
    using assms(3) [OF pc(2-6)] pc(1) m(1) by auto
  have "parse_frame pc' = parse_frame m" by (rule parseForm_frame [OF pc'(1)])
  then have "pc_command pc' = 47 # name @ 32 # post" "pc_resolvedForm pc' = Some form" "pc_binding pc' = Some b"
    using m by (simp_all add: parse_frame_def)
  from assms(5) [OF pc'(2) this] obtain vals args where args: "getParameterSuggestions lower env pc' = Some (vals, args)"
    "Q (finish_suggestions env (suggested_field pc') vals args)" by blast
  have "getCommandSuggestions lower m = []"
    using m(3,4) by (simp add: getCommandSuggestions_def)
  then have "getSuggestions lower env (47 # name @ 32 # post) = Some (Some (finish_suggestions env (suggested_field pc') vals args))"
    using m(1,2,5) pc'(1) args(1) assms(4) [OF pc'(2)] by (auto simp: getSuggestions_def Let_def)
  then show ?thesis using args(2) by blast
qed

lemma flag_prefix_typed:
  assumes "pc_command pc = 47 # name @ 32 # dashes @ p" and "pc_incompleteStart pc = length name + 2 + length dashes"
    and "flag_typed dashes p"
  shows "dashes @ flag_prefix pc = (if dashes = [8212] then [8212] else [45, 45])"
  using assms by (auto simp: flag_typed_def flag_prefix_def unit_at_def nth_append Let_def nth_Cons')

lemma flags_offered_list:
  assumes "command_binding lower (env_bindings (se_parser env)) name form" and "flag_typed dashes p"
    and "offered = filter (\<lambda>f. opt_text (f_label f) \<noteq> [] \<and> startsWith (lower (opt_text (f_label f))) (lower p) \<and>
      f_name f \<notin> set inherited) (case fm_fields form of None \<Rightarrow> [] | Some fs \<Rightarrow> fs)" and "offered \<noteq> []"
    and "\<forall>f \<in> set offered. ordinary (opt_text (f_label f))"
  shows "\<exists>ss. getSuggestions lower env (47 # name @ 32 # dashes @ p) = Some (Some ss) \<and>
    map su_Complete ss = map (\<lambda>f. name @ 32 # (if dashes = [8212] then [8212] else [45, 45]) @ opt_text (f_label f)) offered @
      [name @ 32 # dashes @ p @ OPEN_COMMAND_IN_MODAL_ITEM_ID]"
proof (rule suggest_after_match [OF assms(1), where P = "\<lambda>pc. pc_state pc = Flag \<and> pc_incomplete pc = p \<and>
    pc_incompleteStart pc = length name + 2 + length dashes \<and> pc_values pc = []"])
  show "word_starts (dashes @ p)" using assms(2) by (auto simp: flag_typed_def word_starts_def)
next
  fix pc :: parsed assume pc: "pc_state pc = StartParameter" "text_at pc = dashes @ p" "pc_values pc = []" "pc_i pc = length name + 2"
  obtain pc' where "form_loop lower True (parsed_fields form) pc False False = Some (Some pc')" "pc_state pc' = Flag"
    "pc_incomplete pc' = p" "pc_incompleteStart pc' = pc_i pc + length dashes" "pc_values pc' = pc_values pc"
    by (rule flag_being_typed [OF pc(1,2) assms(2), of lower "parsed_fields form" False False])
  then show "\<exists>pc'. form_loop lower True (parsed_fields form) pc False False = Some (Some pc') \<and> pc_state pc' = Flag \<and>
    pc_incomplete pc' = p \<and> pc_incompleteStart pc' = length name + 2 + length dashes \<and> pc_values pc' = []"
    using pc by auto
next
  fix pc :: parsed and b assume at: "pc_state pc = Flag \<and> pc_incomplete pc = p \<and> pc_incompleteStart pc = length name + 2 + length dashes \<and>
      pc_values pc = []"
    and pc: "pc_command pc = 47 # name @ 32 # dashes @ p" "pc_resolvedForm pc = Some form" "pc_binding pc = Some b"
  have flags: "map su_Complete (getFlagNameSuggestions lower pc) = map (\<lambda>f. flag_prefix pc @ opt_text (f_label f)) offered"
    using at pc(2) assms(3)
    by (simp add: getFlagNameSuggestions_def form_fields_def or_else_def has_value_def value_of_def Let_def comp_def)
  have ne: "getFlagNameSuggestions lower pc \<noteq> []"
    using flags assms(4) by (metis map_is_Nil_conv)
  have dashed: "dashes @ flag_prefix pc = (if dashes = [8212] then [8212] else [45, 45])"
    by (rule flag_prefix_typed [OF pc(1) _ assms(2)]) (use at in simp)
  have "set (flag_prefix pc) \<subseteq> {45}"
    by (auto simp: flag_prefix_def Let_def)
  then have "\<forall>c \<in> su_Complete ` set (getFlagNameSuggestions lower pc). ordinary c"
    using assms(5) unfolding list.set_map [symmetric] flags by (auto intro: ordinary_dashes)
  then have decorated: "map (decorateSuggestionComplete pc) (getFlagNameSuggestions lower pc)
      = map (\<lambda>s. s\<lparr>su_Complete := (name @ 32 # dashes) @ su_Complete s\<rparr>) (getFlagNameSuggestions lower pc)"
    by (intro decorate_all [of _ _ p]) (use at pc(1) in simp_all)
  have "opens_modal pc"
    using at pc(2) assms(1,3,4)
    by (auto simp: opens_modal_def modalStates_def submit_call_def form_fields_def command_binding_def split: option.splits)
  moreover have "\<not> executable pc vals" for vals
    using at by (simp add: executable_def executableStates_def)
  ultimately have "map su_Complete (finish_suggestions env pc (parsed_values pc) (getFlagNameSuggestions lower pc))
      = map (\<lambda>s. name @ 32 # dashes @ su_Complete s) (getFlagNameSuggestions lower pc) @ [tl (pc_command pc) @ OPEN_COMMAND_IN_MODAL_ITEM_ID]"
    using ne decorated by (simp add: finish_suggestions_def Let_def comp_def)
  also have "map (\<lambda>s. name @ 32 # dashes @ su_Complete s) (getFlagNameSuggestions lower pc)
      = map (\<lambda>c. name @ 32 # dashes @ c) (map su_Complete (getFlagNameSuggestions lower pc))"
    by simp
  also have "\<dots> = map (\<lambda>f. name @ 32 # (if dashes = [8212] then [8212] else [45, 45]) @ opt_text (f_label f)) offered"
    unfolding flags dashed [symmetric] by simp
  finally show "\<exists>vals args. getParameterSuggestions lower env pc = Some (vals, args) \<and>
      map su_Complete (finish_suggestions env (suggested_field pc) vals args)
        = map (\<lambda>f. name @ 32 # (if dashes = [8212] then [8212] else [45, 45]) @ opt_text (f_label f)) offered @
          [name @ 32 # dashes @ p @ OPEN_COMMAND_IN_MODAL_ITEM_ID]"
    using at pc(1) by (simp add: getParameterSuggestions_def suggested_field_def Let_def)
qed auto

lemma unknown_flag_read:
  assumes "pc_state pc = StartParameter" and "text_at pc = [45, 45] @ l" and "set l \<inter> {32, 9, 61} = {}"
    and "find_flag lower l fs = None"
  shows "\<exists>pc'. form_loop lower False fs pc e x = Some (Some pc') \<and> pc_state pc' = Error \<and> pc_error pc' = Some (Unexpected_flag l)"
proof -
  define pc1 where "pc1 = advance (goto Flag1 pc)"
  define pc2 where "pc2 = restart (goto Flag (advance pc1))"
  have pc2: "pc_state pc2 = Flag" "text_at pc2 = l" "pc_incomplete pc2 = []"
    using assms(2) by (simp_all add: pc2_def pc1_def)
  have "form_loop lower False fs pc e x = form_loop lower False fs pc1 e x"
    using assms(1,2) by (intro loop_step) (simp add: form_step_def start_parameter_def current_Cons pc1_def)
  also have "\<dots> = form_loop lower False fs pc2 False x"
    using assms(2) by (intro loop_step) (simp add: form_step_def flag1_def current_Cons pc2_def pc1_def Let_def)
  also have "\<dots> = form_loop lower False fs (take_text l pc2) False x"
    by (rule read_flag_name [of pc2 l "[]"]) (use pc2 assms(3) in simp_all)
  also have "\<dots> = Some (Some (asError (Unexpected_flag l) (take_text l pc2)))"
    using pc2 assms(4) by (intro loop_return) (simp add: form_step_def flag_name_def current_text)
  finally show ?thesis by (simp add: asError_def)
qed

text \<open>
  A flag of a read-only field is offered, although the parser does not know it: taken over as offered, the
  command is refused with the message that the flag is unexpected.
\<close>

theorem read_only_flag_refused:
  assumes "command_binding lower (env_bindings (se_parser env)) name form" and "flag_typed [45, 45] p"
    and "fm_fields form = Some fs" and "f \<in> set fs" and "f_label f = Some l" and "f_readonly f" and "f_name f \<notin> set inherited"
    and "startsWith (lower l) (lower p)" and "set l \<inter> {32, 9, 61} = {}" and "find_flag lower l (parsed_fields form) = None"
    and "\<forall>g \<in> set fs. opt_text (f_label g) \<noteq> [] \<longrightarrow> ordinary (opt_text (f_label g))" and "l \<noteq> []"
  shows "\<exists>ss s pc. getSuggestions lower env (47 # name @ 32 # [45, 45] @ p) = Some (Some ss) \<and> s \<in> set ss \<and>
    su_Complete s = name @ 32 # [45, 45] @ l \<and>
    parse_command lower (se_parser env) (47 # su_Complete s) = Some (Some pc) \<and>
    pc_state pc = Error \<and> pc_error pc = Some (Unexpected_flag l)"
proof -
  let ?pe = "se_parser env"
  define offered where "offered = filter (\<lambda>f. opt_text (f_label f) \<noteq> [] \<and> startsWith (lower (opt_text (f_label f))) (lower p) \<and>
      f_name f \<notin> set inherited) (case fm_fields form of None \<Rightarrow> [] | Some fs \<Rightarrow> fs)"
  have f: "f \<in> set offered" using assms(3-5,7,8,12) by (simp add: offered_def opt_text_def)
  have "\<exists>ss. getSuggestions lower env (47 # name @ 32 # [45, 45] @ p) = Some (Some ss) \<and>
    map su_Complete ss = map (\<lambda>f. name @ 32 # (if [45, 45] = [8212 :: nat] then [8212] else [45, 45]) @ opt_text (f_label f)) offered @
      [name @ 32 # [45, 45] @ p @ OPEN_COMMAND_IN_MODAL_ITEM_ID]"
    by (rule flags_offered_list [OF assms(1,2) offered_def])
      (use f assms(3,11) in \<open>auto simp: offered_def filter_empty_conv\<close>)
  then obtain ss where ss: "getSuggestions lower env (47 # name @ 32 # [45, 45] @ p) = Some (Some ss)"
    and complete: "map su_Complete ss = map (\<lambda>f. name @ 32 # [45, 45] @ opt_text (f_label f)) offered @
      [name @ 32 # [45, 45] @ p @ OPEN_COMMAND_IN_MODAL_ITEM_ID]" by auto
  have "name @ 32 # [45, 45] @ opt_text (f_label f) \<in> set (map su_Complete ss)"
    unfolding complete using f by simp
  then have "name @ 32 # [45, 45] @ l \<in> set (map su_Complete ss)"
    using assms(5) by (simp add: opt_text_def)
  then obtain s where s: "s \<in> set ss" "su_Complete s = name @ 32 # [45, 45] @ l" by auto
  have start: "word_starts ([45, 45] @ l)" by (simp add: word_starts_def)
  obtain pc where pc: "parseForm lower False (matchBinding lower (env_forms ?pe) (env_bindings ?pe) False
      (new_command (47 # name @ 32 # [45, 45] @ l))) = form_loop lower False (parsed_fields form) pc False False"
    "pc_state pc = StartParameter" "text_at pc = [45, 45] @ l"
    by (rule parse_after_match [OF assms(1) start, of False "env_forms ?pe"])
  from unknown_flag_read [OF pc(2,3) assms(9,10), of False False] show ?thesis
    using ss s pc(1) by (auto simp: parse_command_def)
qed

theorem read_only_flag_refused_witness:
  "\<exists>pc. parse_command id (se_parser (suggest_sample (form_binding (sample_field\<lparr>f_readonly := True\<rparr>)))) (js ''/j --t'') = Some (Some pc) \<and>
    pc_error pc = Some (Unexpected_flag (js ''t''))"
proof -
  let ?f = "sample_field\<lparr>f_readonly := True\<rparr>"
  have "\<exists>ss s pc. getSuggestions id (suggest_sample (form_binding ?f)) (47 # js ''j'' @ 32 # [45, 45] @ []) = Some (Some ss) \<and> s \<in> set ss \<and>
    su_Complete s = js ''j'' @ 32 # [45, 45] @ js ''t'' \<and>
    parse_command id (se_parser (suggest_sample (form_binding ?f))) (47 # su_Complete s) = Some (Some pc) \<and>
    pc_state pc = Error \<and> pc_error pc = Some (Unexpected_flag (js ''t''))"
    by (rule read_only_flag_refused [OF form_binding_command, where fs = "[?f]" and f = ?f])
      (simp_all add: flag_typed_def field_form_def sample_field_def inherited_def startsWith_def find_flag_def parsed_fields_def
        ordinary_def endsWith_def EXECUTE_CURRENT_COMMAND_ITEM_ID_def OPEN_COMMAND_IN_MODAL_ITEM_ID_def opt_text_def)
  then show ?thesis by auto
qed

section \<open>Options\<close>

text \<open>What is read as one value without quotes: no blank, and no character at the start that means something else\<close>

definition bare :: "jsstring \<Rightarrow> bool" where
  "bare p \<longleftrightarrow> set p \<inter> {32, 9} = {} \<and> (\<forall>u us. p = u # us \<longrightarrow> u \<notin> {34, 61, 91, 96})"

lemma read_bare:
  assumes "pc_state pc = StartValue" and "text_at pc = p" and "bare p" and "p \<noteq> []"
  obtains pc' where "leads lower auto fs pc pc'" and "pc_state pc' = EndValue" and "pc_field pc' = pc_field pc"
    and "text_at pc' = []" and "pc_values pc' = pc_values pc" and "pc_incomplete pc' = p"
    and "pc_incompleteStart pc' = pc_i pc"
proof -
  obtain u us where u: "p = u # us" using assms(4) by (cases p) auto
  define pc1 where "pc1 = goto NonspaceValue (restart pc)"
  define pc2 where "pc2 = take_text p pc1"
  have plain: "leads lower auto fs q (take_text s q)"
    if "pc_state q = NonspaceValue" "text_at q = s @ post" "set s \<inter> {32, 9} = {}" for q s post
    using that
  proof (induction s arbitrary: q)
    case (Cons v s)
    have "leads lower auto fs q (take_char (Some v) q)"
      using Cons.prems by (intro leads_step) (simp add: form_step_def plain_value_def current_Cons)
    also have "leads lower auto fs \<dots> (take_text s (take_char (Some v) q))"
      using Cons.prems by (intro Cons.IH) auto
    finally show ?case by (simp add: take_char_text)
  qed simp
  have "leads lower auto fs pc pc1"
    using assms(1-3) u by (intro leads_step) (simp add: form_step_def start_value_def current_Cons bare_def blank_def pc1_def)
  also have "leads lower auto fs pc1 pc2"
    unfolding pc2_def by (rule plain [of _ _ "[]"]) (use assms(2,3) in \<open>simp_all add: pc1_def bare_def\<close>)
  also have "leads lower auto fs pc2 (goto EndValue pc2)"
    using assms(2) by (intro leads_step) (simp add: form_step_def plain_value_def pc2_def pc1_def current_Nil)
  finally show ?thesis
    by (rule that) (use assms(2) in \<open>simp_all add: pc2_def pc1_def\<close>)
qed

text \<open>Where typing stops in the value of a flag: behind the equal sign, or at the end of a value without quotes\<close>

lemma value_being_typed:
  assumes "pc_state pc = StartParameter" and "text_at pc = [45, 45] @ l @ 61 # p" and "set l \<inter> {32, 9, 61} = {}"
    and "find_flag lower l fs = Some f" and "bare p" and "f_type f \<noteq> BOOL"
  shows "\<exists>pc'. form_loop lower True fs pc False False = Some (Some pc') \<and> pc_state pc' \<in> {FlagValueSeparator, EndValue} \<and>
    pc_field pc' = Some f \<and> pc_incomplete pc' = p \<and> drop (pc_incompleteStart pc') (pc_command pc') = p \<and>
    pc_values pc' = pc_values pc"
proof -
  obtain pc1 where pc1: "\<forall>e x. form_loop lower True fs pc e x = form_loop lower True fs pc1 True x"
    "pc_state pc1 = FlagValueSeparator" "pc_field pc1 = Some f" "text_at pc1 = p" "pc_values pc1 = pc_values pc" "pc_incomplete pc1 = []"
    by (rule read_flag_equal [OF assms(1-4), of True])
  let ?pc1 = "pc1\<lparr>pc_incompleteStart := pc_i pc1\<rparr>"
  show ?thesis
  proof (cases "p = []")
    case True
    then have "form_loop lower True fs pc1 True False = Some (Some ?pc1)"
      using pc1(2,4) by (intro loop_return) (simp add: form_step_def flag_value_separator_def current_Nil Let_def)
    then show ?thesis
      using pc1 True by (simp add: text_at_def)
  next
    case False
    then obtain u us where u: "p = u # us" "u \<notin> {32, 9, 61}" using assms(5) by (cases p) (auto simp: bare_def)
    define pc2 where "pc2 = goto StartValue ?pc1"
    have "form_loop lower True fs pc1 True False = form_loop lower True fs pc2 True False"
      using pc1(2,4) u by (intro loop_step) (simp add: form_step_def flag_value_separator_def current_Cons blank_def Let_def pc2_def)
    moreover obtain pc3 where pc3: "leads lower True fs pc2 pc3" "pc_state pc3 = EndValue" "pc_field pc3 = pc_field pc2"
      "text_at pc3 = []" "pc_values pc3 = pc_values pc2" "pc_incomplete pc3 = p" "pc_incompleteStart pc3 = pc_i pc2"
      by (rule read_bare [of pc2 p lower True fs]) (use pc1(4) assms(5) False in \<open>simp_all add: pc2_def\<close>)
    from pc3(1) have "form_loop lower True fs pc2 True False = Some (Some pc3)"
      by (rule leads_return) (use pc3 pc1(3) assms(6) in \<open>simp add: form_step_def end_value_def current_Nil pc2_def\<close>)
    ultimately have run: "form_loop lower True fs pc False False = Some (Some pc3)"
      using pc1(1) by metis
    have "pc_command pc3 = pc_command pc2"
      using form_loop_frame [of lower True fs pc2 True False "Some pc3"] \<open>form_loop lower True fs pc2 True False = Some (Some pc3)\<close>
      by (simp add: frame_kept_def parse_frame_def)
    then have "drop (pc_incompleteStart pc3) (pc_command pc3) = p"
      using pc3(7) pc1(4) by (simp add: pc2_def text_at_def goto_def)
    then show ?thesis
      using run pc3 pc1(3,5) by (intro exI [of _ pc3]) (simp add: pc2_def)
  qed
qed

text \<open>Submitted, the value of an option is read as it is: bare, or between ticks.\<close>

definition completable :: "jsstring \<Rightarrow> bool" where
  "completable v \<longleftrightarrow> ordinary v \<and> (if isMultiword v then 96 \<notin> set v else bare v)"

lemma completed_value_read:
  assumes "pc_state pc = StartParameter" and "text_at pc = [45, 45] @ l @ 61 # complete_value None v"
    and "set l \<inter> {32, 9, 61} = {}" and "find_flag lower l fs = Some f" and "completable v" and "f_type f \<noteq> BOOL"
  shows "\<exists>pc'. form_loop lower False fs pc e x = Some (Some pc') \<and> pc_state pc' \<noteq> Error \<and>
    pc_values pc' = AList.update (f_name f) (One v) (pc_values pc)"
proof -
  have v: "v \<noteq> []" using assms(5) by (simp add: completable_def ordinary_def)
  obtain u us where u: "complete_value None v = u # us" "u \<notin> {32, 9, 61}"
    using assms(5) v by (cases v) (auto simp: complete_value_def completable_def bare_def split: if_splits)
  obtain pc1 where pc1: "leads lower False fs pc pc1" "pc_state pc1 = StartValue" "pc_field pc1 = Some f"
    "text_at pc1 = u # us" "pc_values pc1 = pc_values pc"
    by (rule read_flag [OF assms(1) assms(2) [unfolded u(1)] assms(3) u(2) assms(4), of False])
  have "\<exists>pc2. leads lower False fs pc1 pc2 \<and> pc_state pc2 \<in> {EndValue, EndTickedValue} \<and> pc_field pc2 = Some f \<and>
    text_at pc2 = [] \<and> pc_values pc2 = pc_values pc \<and> pc_incomplete pc2 = v"
  proof (cases "isMultiword v")
    case True
    then have at: "text_at pc1 = tick_quote v @ []" "quotable v"
      using pc1(4) u(1) assms(5) v by (simp_all add: complete_value_def tick_quote_def completable_def quotable_def)
    show ?thesis
      by (rule read_value_start [OF pc1(2) at, of lower False fs]) (use pc1(3,5) in auto)
  next
    case False
    then have at: "text_at pc1 = v" "bare v"
      using pc1(4) u(1) assms(5) by (simp_all add: complete_value_def completable_def)
    show ?thesis
      by (rule read_bare [OF pc1(2) at v, of lower False fs]) (use pc1(3,5) in auto)
  qed
  then obtain pc2 where pc2: "leads lower False fs pc1 pc2" "pc_state pc2 \<in> {EndValue, EndTickedValue}" "pc_field pc2 = Some f"
    "text_at pc2 = []" "pc_values pc2 = pc_values pc" "pc_incomplete pc2 = v" by blast
  have "form_step lower False fs pc2 e x = Return (restart (put_value (f_name f) (One v) pc2))" for e x
    using pc2 assms(6) by (auto simp: form_step_def end_value_def current_Nil Let_def)
  from leads_return [OF leads_trans [OF pc1(1) pc2(1)] this] show ?thesis
    using pc2(2,5) by auto
qed

lemma ordinary_ticks: "96 \<notin> set v \<Longrightarrow> ordinary (96 # v @ [96])"
proof -
  have "\<not> endsWith (96 # v @ [96]) e" if "e \<noteq> []" "last e \<noteq> 96" for e :: jsstring
    using that by (auto simp: endsWith_append) (metis append_is_Nil_conv last.simps last_append last_snoc)
  then show ?thesis
    by (simp add: ordinary_def EXECUTE_CURRENT_COMMAND_ITEM_ID_def OPEN_COMMAND_IN_MODAL_ITEM_ID_def)
qed

lemma completable_ordinary: "completable v \<Longrightarrow> ordinary (complete_value None v)"
  by (auto simp: completable_def complete_value_def ordinary_ticks)

text \<open>
  Options accepted. While the value of a flag with options is typed, every option whose label starts with it
  is offered, and its value, taken over, is the value of the flag once the command is run, whether it holds blanks (it is put
  between ticks) or not. (Values that hold a tick and a blank, or start with a quote, a tick, a bracket or an equal sign, are
  inserted as they are, too, and read as something else.)
\<close>

theorem option_accepted:
  assumes "command_binding lower (env_bindings (se_parser env)) name form" and "find_flag lower l (parsed_fields form) = Some f"
    and "f_type f = STATIC_SELECT" and "set l \<inter> {32, 9, 61} = {}" and "bare p"
    and "opt \<in> set (field_options f)" and "startsWith (lower (o_label opt)) (lower p)" and "completable (o_value opt)"
  shows "\<exists>ss s pc. getSuggestions lower env (47 # name @ 32 # [45, 45] @ l @ 61 # p) = Some (Some ss) \<and> s \<in> set ss \<and>
    su_Suggestion s = o_label opt \<and>
    parse_command lower (se_parser env) (47 # su_Complete s) = Some (Some pc) \<and> pc_state pc \<noteq> Error \<and>
    pc_values pc = [(f_name f, One (o_value opt))]"
proof -
  let ?pe = "se_parser env" and ?before = "name @ 32 # [45, 45] @ l @ [61]"
  let ?complete = "?before @ complete_value None (o_value opt)"
  have "\<exists>ss. getSuggestions lower env (47 # name @ 32 # [45, 45] @ l @ 61 # p) = Some (Some ss) \<and>
    (\<exists>s \<in> set ss. su_Suggestion s = o_label opt \<and> su_Complete s = ?complete)"
  proof (rule suggest_after_match [OF assms(1), where P = "\<lambda>pc. pc_state pc \<in> {FlagValueSeparator, EndValue} \<and>
      pc_field pc = Some f \<and> pc_incomplete pc = p \<and> drop (pc_incompleteStart pc) (pc_command pc) = p"])
    show "word_starts ([45, 45] @ l @ 61 # p)" by (simp add: word_starts_def)
  next
    fix pc :: parsed assume "pc_state pc = StartParameter" "text_at pc = [45, 45] @ l @ 61 # p"
    from value_being_typed [OF this assms(4,2,5)] assms(3)
    show "\<exists>pc'. form_loop lower True (parsed_fields form) pc False False = Some (Some pc') \<and>
      pc_state pc' \<in> {FlagValueSeparator, EndValue} \<and> pc_field pc' = Some f \<and> pc_incomplete pc' = p \<and>
      drop (pc_incompleteStart pc') (pc_command pc') = p" by auto
  next
    fix pc :: parsed and b assume at: "pc_state pc \<in> {FlagValueSeparator, EndValue} \<and> pc_field pc = Some f \<and>
        pc_incomplete pc = p \<and> drop (pc_incompleteStart pc) (pc_command pc) = p"
      and pc: "pc_command pc = 47 # name @ 32 # [45, 45] @ l @ 61 # p"
    define s where "s = suggest (complete_value None (o_value opt)) (o_label opt) (opt_text (f_hint f)) (opt_text (f_description f))
      (or_else (o_icon_data opt) (binding_icon pc))"
    have "s \<in> set (getStaticSelectSuggestions lower (se_text env) pc f None)"
      using assms(6,7) at by (auto simp: getStaticSelectSuggestions_def s_def filter_empty_conv Let_def)
    then obtain vals args where args: "getParameterSuggestions lower env pc = Some (vals, args)" "s \<in> set args"
      using at assms(3) by (auto simp: getParameterSuggestions_def getValueSuggestions_def Let_def)
    have "decorateSuggestionComplete pc s \<in> set (finish_suggestions env pc vals args)"
      using args(2) by (auto simp: finish_suggestions_def Let_def)
    moreover have "decorateSuggestionComplete pc s = s\<lparr>su_Complete := ?before @ su_Complete s\<rparr>"
      by (rule decorate_ordinary [of _ _ p]) (use at pc completable_ordinary [OF assms(8)] in \<open>simp_all add: s_def\<close>)
    ultimately have "\<exists>s \<in> set (finish_suggestions env pc vals args). su_Suggestion s = o_label opt \<and> su_Complete s = ?complete"
      by (intro bexI [of _ "s\<lparr>su_Complete := ?before @ su_Complete s\<rparr>"]) (simp_all add: s_def)
    moreover have "suggested_field pc = pc" using at by (auto simp: suggested_field_def)
    ultimately show "\<exists>vals args. getParameterSuggestions lower env pc = Some (vals, args) \<and>
        (\<exists>s \<in> set (finish_suggestions env (suggested_field pc) vals args). su_Suggestion s = o_label opt \<and> su_Complete s = ?complete)"
      using args(1) by auto
  qed auto
  then obtain ss s where s: "getSuggestions lower env (47 # name @ 32 # [45, 45] @ l @ 61 # p) = Some (Some ss)" "s \<in> set ss"
    "su_Suggestion s = o_label opt" "su_Complete s = ?complete" by blast
  have start: "word_starts ([45, 45] @ l @ 61 # complete_value None (o_value opt))" by (simp add: word_starts_def)
  obtain pc where pc: "parseForm lower False (matchBinding lower (env_forms ?pe) (env_bindings ?pe) False
      (new_command (47 # name @ 32 # [45, 45] @ l @ 61 # complete_value None (o_value opt))))
        = form_loop lower False (parsed_fields form) pc False False"
    "pc_state pc = StartParameter" "text_at pc = [45, 45] @ l @ 61 # complete_value None (o_value opt)" "pc_values pc = []"
    by (rule parse_after_match [OF assms(1) start, of False "env_forms ?pe"])
  from completed_value_read [OF pc(2,3) assms(4,2,8), of False False] assms(3) pc(1,4) s show ?thesis
    by (auto simp: parse_command_def)
qed

theorem option_accepted_witness:
  "\<exists>(s :: suggestion) pc. parse_command id (se_parser (suggest_sample (form_binding (sample_field\<lparr>f_type := STATIC_SELECT,
      f_options := Some [plain_option (js ''One'') (js ''a b'')]\<rparr>)))) (47 # su_Complete s) = Some (Some pc) \<and>
    pc_values pc = [(js ''text'', One (js ''a b''))]"
proof -
  let ?o = "plain_option (js ''One'') (js ''a b'')"
  let ?f = "sample_field\<lparr>f_type := STATIC_SELECT, f_options := Some [?o]\<rparr>"
  have "\<exists>ss s pc. getSuggestions id (suggest_sample (form_binding ?f)) (47 # js ''j'' @ 32 # [45, 45] @ js ''t'' @ 61 # js ''O'') = Some (Some ss) \<and>
    s \<in> set ss \<and> su_Suggestion s = o_label ?o \<and>
    parse_command id (se_parser (suggest_sample (form_binding ?f))) (47 # su_Complete s) = Some (Some pc) \<and> pc_state pc \<noteq> Error \<and>
    pc_values pc = [(f_name ?f, One (o_value ?o))]"
    by (rule option_accepted [OF form_binding_command, where f = ?f])
      (simp_all add: field_form_def sample_field_def find_flag_def parsed_fields_def bare_def field_options_def plain_option_def
        startsWith_def completable_def isMultiword_def ordinary_def endsWith_def EXECUTE_CURRENT_COMMAND_ITEM_ID_def
        OPEN_COMMAND_IN_MODAL_ITEM_ID_def)
  then have "\<exists>(s :: suggestion) pc. parse_command id (se_parser (suggest_sample (form_binding ?f))) (47 # su_Complete s) = Some (Some pc) \<and>
    pc_values pc = [(f_name ?f, One (o_value ?o))]"
    by blast
  note found = this
  have names: "f_name ?f = js ''text''" "o_value ?o = js ''a b''" by (simp_all add: sample_field_def plain_option_def)
  show ?thesis using found unfolding names by blast
qed

section \<open>Labels with capitals, and commands on mobile\<close>

text \<open>
  The text typed is compared in lower case with the label as it is: if the labels of the commands of the apps
  hold capital letters, no text is taken for a command of an app and the suggestions of apps are never asked for, although the
  parser, which compares both in lower case, finds the binding and runs the command.
\<close>

theorem capital_command_not_completed:
  assumes "\<And>s u. u \<in> set (lower s) \<Longrightarrow> u \<notin> {65..90}"
    and "\<forall>b \<in> set (env_bindings (se_parser env)). \<exists>u \<in> set (b_label (b_core b)). u \<in> {65..90}"
    and "binding_at lower (env_bindings (se_parser env)) ws = Some b" and "words ws"
  shows "handlePretextChanged lower env (47 # path ws) = Server_suggestions \<and>
    pc_binding (matchBinding lower forms (env_bindings (se_parser env)) True (new_command (47 # path ws))) = Some b"
proof -
  have "\<not> isAppCommand lower (env_bindings (se_parser env)) (47 # path ws)"
  proof
    assume "isAppCommand lower (env_bindings (se_parser env)) (47 # path ws)"
    then obtain c where c: "c \<in> set (env_bindings (se_parser env))" "startsWith (lower (47 # path ws)) (command_base c @ [32])"
      by (auto simp: isAppCommand_def)
    then obtain u where "u \<in> set (b_label (b_core c))" "u \<in> {65..90}"
      using assms(2) by blast
    then have u: "u \<in> set (command_base c @ [32])" "u \<in> {65..90}"
      by (simp_all add: command_base_def Let_def)
    moreover have "set (command_base c @ [32]) \<subseteq> set (lower (47 # path ws))"
      using c(2) set_take_subset unfolding startsWith_def by metis
    ultimately show False using u assms(1) by blast
  qed
  then show ?thesis
    using match_words [OF assms(3,4)] by (simp add: handlePretextChanged_def startsWith_def Let_def)
qed

definition ascii_lower :: "jsstring \<Rightarrow> jsstring" where
  "ascii_lower s = map (\<lambda>u. if u \<in> {65..90} then u + 32 else u) s"

definition capital_binding :: app_binding where
  "capital_binding = Binding ((b_core sample_binding)\<lparr>b_label := js ''Jira''\<rparr>) None"

theorem capital_command_not_completed_witness:
  "handlePretextChanged ascii_lower (suggest_sample capital_binding) (js ''/Jira '') = Server_suggestions"
proof -
  have "u \<notin> {65..90}" if "u \<in> set (ascii_lower s)" for u s
    using that by (auto simp: ascii_lower_def split: if_splits)
  moreover have "binding_at ascii_lower (env_bindings (se_parser (suggest_sample capital_binding))) [js ''Jira''] = Some capital_binding"
    by (simp add: env_bindings_sample find_binding_def capital_binding_def)
  moreover have "\<exists>u \<in> set (b_label (b_core capital_binding)). u \<in> {65..90}" "words [js ''Jira'']"
    by (simp_all add: capital_binding_def words_def has_blank_def)
  ultimately show ?thesis
    using capital_command_not_completed [of ascii_lower "suggest_sample capital_binding" "[js ''Jira'']" capital_binding "\<lambda>_ _. None"]
    by (simp add: env_bindings_sample path_def)
qed

text \<open>Every entry of the web app's list inserts a command, with its slash; on mobile those of apps do not.\<close>

lemma webapp_commands_slash:
  assumes "startsWith pretext [47]" and "s \<in> set (webapp_commands lower mac apps bs data pretext)"
  shows "startsWith (su_Complete s) [47]"
proof -
  have "\<forall>s \<in> set (fold add_match data ms). startsWith (su_Complete s) [47]"
    if "\<forall>s \<in> set ms. startsWith (su_Complete s) [47]" for ms
    using that
  proof (induction data arbitrary: ms)
    case (Cons d data)
    have "\<forall>s \<in> set (add_match d ms). startsWith (su_Complete s) [47]"
      using Cons.prems by (auto simp: add_match_def slash_suggestion_def startsWith_def)
    from Cons.IH [OF this] show ?case by simp
  qed simp
  moreover have "\<forall>s \<in> set (if apps then map slash_suggestion (getSuggestionsBase lower bs pretext) else []). startsWith (su_Complete s) [47]"
    by (auto simp: slash_suggestion_def startsWith_def)
  ultimately have "\<forall>s \<in> set (fold add_match data (if apps then map slash_suggestion (getSuggestionsBase lower bs pretext) else [])).
    startsWith (su_Complete s) [47]" by blast
  then show ?thesis
    using assms by (cases pretext) (auto simp: webapp_commands_def Let_def startsWith_def simp del: fold_simps split: if_splits)
qed

lemma mobile_app_command_without_slash:
  assumes "b \<in> set bs" and "startsWith (command_base b) (lower pretext)" and "b_label (b_core b) \<noteq> []"
  shows "\<exists>s \<in> set (mobile_commands localeCompare lower True bs data pretext). su_Complete s = b_label (b_core b)"
  using assms by (force simp: mobile_commands_def getSuggestionsBase_def)

text \<open>No two entries of the web app's list insert the same text, beside the entry that runs the command.\<close>

lemma add_match_distinct:
  "distinct (map su_Complete ms) \<Longrightarrow> distinct (map su_Complete (fold add_match data ms))"
  by (induction data arbitrary: ms) (auto simp: add_match_def slash_suggestion_def)

end
