(* ===== verification/ChannelEntities.thy ===== *)
theory ChannelEntities
  imports PostUtils
begin

text \<open>
  The data of channels and teams: \<open>channels.ts\<close> and \<open>teams.ts\<close> of
  \<open>webapp/platform/types/src\<close>.

  Counters the code computes with are \<open>jsnum\<close>: a membership may be a stub that
  \<open>RECEIVED_CHANNEL_PROPS\<close> made of nothing but its preferences, and a channel may come back
  without its message counts, and arithmetic on what is then \<open>undefined\<close> gives \<open>NaN\<close>. A string
  that is absent is the empty one; a count of timestamps is an integer where the server always
  sends it.
\<close>

section \<open>More arithmetic on numbers that may be missing\<close>

fun js_min :: "jsnum \<Rightarrow> jsnum \<Rightarrow> jsnum" where
  "js_min (Num a) (Num b) = Num (min a b)"
| "js_min _ _ = NaN"

fun js_abs :: "jsnum \<Rightarrow> jsnum" where
  "js_abs (Num a) = Num \<bar>a\<bar>"
| "js_abs _ = NaN"

text \<open>\<open>a < b\<close> and \<open>a === b\<close>: false as soon as one is \<open>NaN\<close> (or, for \<open><\<close>, \<open>undefined\<close>).\<close>

fun js_less :: "jsnum \<Rightarrow> jsnum \<Rightarrow> bool" where
  "js_less (Num a) (Num b) = (a < b)"
| "js_less _ _ = False"

fun js_leq :: "jsnum \<Rightarrow> jsnum \<Rightarrow> bool" where
  "js_leq (Num a) (Num b) = (a \<le> b)"
| "js_leq _ _ = False"

fun js_seq :: "jsnum \<Rightarrow> jsnum \<Rightarrow> bool" where
  "js_seq (Num a) (Num b) = (a = b)"
| "js_seq Undefined Undefined = True"
| "js_seq _ _ = False"

text \<open>The truth value of a number.\<close>

fun js_true :: "jsnum \<Rightarrow> bool" where
  "js_true (Num a) = (a \<noteq> 0)"
| "js_true _ = False"

fun is_number :: "jsnum \<Rightarrow> bool" where
  "is_number (Num a) = True"
| "is_number _ = False"

lemma is_number_iff: "is_number a \<longleftrightarrow> (\<exists>i. a = Num i)"
  by (cases a) auto

lemma is_number_plus [simp]: "is_number (a + b) \<longleftrightarrow> is_number a \<and> is_number b"
  by (cases a; cases b) auto

lemma is_number_minus [simp]: "is_number (a - b) \<longleftrightarrow> is_number a \<and> is_number b"
  by (cases a; cases b) auto

lemma is_number_max [simp]: "is_number (js_max a b) \<longleftrightarrow> is_number a \<and> is_number b"
  by (cases a; cases b) auto

lemma is_number_min [simp]: "is_number (js_min a b) \<longleftrightarrow> is_number a \<and> is_number b"
  by (cases a; cases b) auto

lemma js_seq_Num [simp]: "js_seq a (Num b) \<longleftrightarrow> a = Num b"
  by (cases a) auto

lemma js_seq_Undefined [simp]: "js_seq a Undefined \<longleftrightarrow> a = Undefined"
  by (cases a) auto

lemma jsnum_cancel: "is_number a \<Longrightarrow> is_number b \<Longrightarrow> a + (b - a) = b"
  by (cases a; cases b) auto

lemma jsnum_minus_self: "is_number a \<Longrightarrow> a - a = Num 0"
  by (cases a) auto

section \<open>Channels\<close>

record channel_notify_props =
  np_desktop_threads :: "string option"
  np_desktop :: "string option"
  np_desktop_sound :: "string option"
  np_desktop_notification_sound :: "string option"
  np_email :: "string option"
  np_mark_unread :: "string option"
  np_push :: "string option"
  np_push_threads :: "string option"
  np_ignore_channel_mentions :: "string option"
  np_channel_auto_follow_threads :: "string option"

text \<open>\<open>{}\<close>\<close>

definition no_notify_props :: channel_notify_props where
  "no_notify_props = \<lparr>np_desktop_threads = None, np_desktop = None, np_desktop_sound = None,
     np_desktop_notification_sound = None, np_email = None, np_mark_unread = None, np_push = None,
     np_push_threads = None, np_ignore_channel_mentions = None, np_channel_auto_follow_threads = None\<rparr>"

record channel_banner =
  bn_enabled :: bool
  bn_text :: string
  bn_background_color :: string

definition channelBannerEnabled :: "channel_banner option \<Rightarrow> bool" where
  "channelBannerEnabled banner =
     (case banner of None \<Rightarrow> False
      | Some b \<Rightarrow> bn_enabled b \<and> bn_text b \<noteq> [] \<and> bn_background_color b \<noteq> [])"

record channel =
  ch_id :: string
  ch_create_at :: int
  ch_update_at :: int
  ch_delete_at :: int
  ch_team_id :: string
  ch_type :: string
  ch_display_name :: string
  ch_name :: string
  ch_header :: string
  ch_purpose :: string
  ch_last_post_at :: int
  ch_last_root_post_at :: int
  ch_creator_id :: string
  ch_scheme_id :: string
  ch_teammate_id :: "string option"
  ch_status :: "string option"
  ch_group_constrained :: bool
  ch_shared :: bool
  ch_props :: "prop_value obj option"
  ch_policy_id :: "string option"
  ch_banner_info :: "channel_banner option"
  ch_policy_enforced :: bool
  ch_default_category_name :: "string option"

text \<open>A channel as the server sends it carries its message counts.\<close>

record server_channel = channel +
  total_msg_count :: jsnum
  total_msg_count_root :: jsnum

record channel_message_count =
  mc_root :: jsnum
  mc_total :: jsnum

record channel_membership =
  cm_channel_id :: string
  cm_user_id :: string
  cm_roles :: string
  cm_last_viewed_at :: jsnum
  cm_msg_count :: jsnum
  cm_msg_count_root :: jsnum
  cm_mention_count :: jsnum
  cm_mention_count_root :: jsnum
  cm_urgent_mention_count :: jsnum
  cm_notify_props :: "channel_notify_props option"
  cm_last_update_at :: jsnum
  cm_scheme_user :: bool
  cm_scheme_admin :: bool
  cm_post_root_id :: "string option"

text \<open>\<open>{...undefined}\<close> as the start of a membership.\<close>

definition no_membership :: channel_membership where
  "no_membership = \<lparr>cm_channel_id = [], cm_user_id = [], cm_roles = [], cm_last_viewed_at = Undefined,
     cm_msg_count = Undefined, cm_msg_count_root = Undefined, cm_mention_count = Undefined,
     cm_mention_count_root = Undefined, cm_urgent_mention_count = Undefined, cm_notify_props = None,
     cm_last_update_at = Undefined, cm_scheme_user = False, cm_scheme_admin = False,
     cm_post_root_id = None\<rparr>"

record channel_stats =
  st_channel_id :: string
  st_member_count :: int
  st_partner_count :: int
  st_pinnedpost_count :: int
  st_files_count :: int

record moderated_role =
  mr_value :: bool
  mr_enabled :: bool

record channel_moderation =
  mod_name :: string
  mod_partners :: "moderated_role option"
  mod_members :: moderated_role
  mod_admins :: moderated_role

record channel_member_count_by_group =
  gc_group_id :: string
  gc_channel_member_count :: int
  gc_channel_member_timezones_count :: int

text \<open>What the reducers read of a \<open>Group\<close>: its id and, where a list of groups brings counts, those.\<close>

record group_counts =
  gr_id :: string
  gr_member_count :: "int option"
  gr_channel_member_timezones_count :: "int option"

record associated_groups =
  ag_ids :: "string list"
  ag_totalCount :: int

record channels_state =
  cs_currentChannelId :: string
  cs_channels :: "channel obj"
  cs_channelsInTeam :: "string list obj"
  cs_myMembers :: "channel_membership obj"
  cs_roles :: "string list obj"
  cs_membersInChannel :: "channel_membership obj obj"
  cs_stats :: "channel_stats obj"
  cs_groupsAssociatedToChannel :: "associated_groups obj"
  cs_totalCount :: int
  cs_manuallyUnread :: "bool obj"
  cs_channelModerations :: "channel_moderation list obj"
  cs_channelMemberCountsByGroup :: "channel_member_count_by_group obj obj"
  cs_messageCounts :: "channel_message_count obj"
  cs_channelsMemberCount :: "int obj"
  cs_restrictedDMs :: "bool obj"

definition init_channels_state :: channels_state where
  "init_channels_state = \<lparr>cs_currentChannelId = [], cs_channels = [], cs_channelsInTeam = [], cs_myMembers = [],
     cs_roles = [], cs_membersInChannel = [], cs_stats = [], cs_groupsAssociatedToChannel = [], cs_totalCount = 0,
     cs_manuallyUnread = [], cs_channelModerations = [], cs_channelMemberCountsByGroup = [], cs_messageCounts = [],
     cs_channelsMemberCount = [], cs_restrictedDMs = []\<rparr>"

section \<open>Teams\<close>

record team =
  te_id :: string
  te_create_at :: int
  te_update_at :: int
  te_delete_at :: int
  te_display_name :: string
  te_name :: string
  te_description :: string
  te_email :: string
  te_type :: string
  te_company_name :: string
  te_allowed_domains :: string
  te_invite_id :: string
  te_allow_open_invite :: bool
  te_scheme_id :: string
  te_group_constrained :: bool
  te_policy_id :: "string option"
  te_last_team_icon_update :: "int option"

record team_membership =
  tm_team_id :: string
  tm_user_id :: string
  tm_roles :: string
  tm_delete_at :: "int option"
  tm_scheme_admin :: bool
  tm_scheme_partner :: bool
  tm_scheme_user :: bool
  tm_mention_count :: jsnum
  tm_mention_count_root :: jsnum
  tm_msg_count :: jsnum
  tm_msg_count_root :: jsnum
  tm_thread_count :: jsnum
  tm_thread_mention_count :: jsnum
  tm_thread_urgent_mention_count :: jsnum

definition no_team_membership :: team_membership where
  "no_team_membership = \<lparr>tm_team_id = [], tm_user_id = [], tm_roles = [], tm_delete_at = None,
     tm_scheme_admin = False, tm_scheme_partner = False, tm_scheme_user = False,
     tm_mention_count = Undefined, tm_mention_count_root = Undefined, tm_msg_count = Undefined,
     tm_msg_count_root = Undefined, tm_thread_count = Undefined, tm_thread_mention_count = Undefined,
     tm_thread_urgent_mention_count = Undefined\<rparr>"

record team_stats =
  ts_team_id :: string
  ts_total_member_count :: int
  ts_active_member_count :: int

record teams_state =
  tes_currentTeamId :: string
  tes_teams :: "team obj"
  tes_myMembers :: "team_membership obj"
  tes_membersInTeam :: "team_membership obj obj"
  tes_stats :: "team_stats obj"
  tes_groupsAssociatedToTeam :: "associated_groups obj"
  tes_totalCount :: int
  tes_contentFlaggingStatus :: "bool obj"

definition init_teams_state :: teams_state where
  "init_teams_state = \<lparr>tes_currentTeamId = [], tes_teams = [], tes_myMembers = [], tes_membersInTeam = [],
     tes_stats = [], tes_groupsAssociatedToTeam = [], tes_totalCount = 0, tes_contentFlaggingStatus = []\<rparr>"

end
