(* ===== verification/UserEntities.thy ===== *)
theory UserEntities
  imports ChannelEntities
begin

text \<open>
  The data of users: \<open>users.ts\<close>, \<open>sessions.ts\<close> and \<open>audits.ts\<close> of
  \<open>webapp/platform/types/src\<close>. What the server sends of a user depends on who asks, so every property
  of a profile but its id may be absent; one that is \<open>undefined\<close> counts as absent.
\<close>

datatype cpa_value = CpaText string | CpaList "string list"

datatype timezone_choice = TimezoneFlag bool | TimezoneText string

record profile_timezone =
  tz_useAutomaticTimezone :: timezone_choice
  tz_automaticTimezone :: string
  tz_manualTimezone :: string

text \<open>The preferences of notification (\<open>UserNotifyProps\<close>) are an object of strings.\<close>

record user_profile =
  us_id :: string
  us_create_at :: "int option"
  us_update_at :: "int option"
  us_delete_at :: "int option"
  us_username :: "string option"
  us_password :: "string option"
  us_auth_data :: "string option"
  us_auth_service :: "string option"
  us_email :: "string option"
  us_nickname :: "string option"
  us_first_name :: "string option"
  us_middle_name :: "string option"
  us_last_name :: "string option"
  us_position :: "string option"
  us_roles :: "string option"
  us_props :: "string obj option"
  us_notify_props :: "string obj option"
  us_last_password_update :: "int option"
  us_last_picture_update :: "int option"
  us_locale :: "string option"
  us_timezone :: "profile_timezone option"
  us_mfa_active :: "bool option"
  us_last_activity_at :: "int option"
  us_is_bot :: "bool option"
  us_bot_description :: "string option"
  us_terms_of_service_id :: "string option"
  us_terms_of_service_create_at :: "int option"
  us_remote_id :: "string option"
  us_status :: "string option"
  us_custom_profile_attributes :: "cpa_value obj option"
  us_failed_attempts :: "int option"

definition no_profile :: user_profile where
  "no_profile = \<lparr>us_id = [], us_create_at = None, us_update_at = None, us_delete_at = None,
     us_username = None, us_password = None, us_auth_data = None, us_auth_service = None, us_email = None,
     us_nickname = None, us_first_name = None, us_middle_name = None, us_last_name = None, us_position = None,
     us_roles = None, us_props = None, us_notify_props = None, us_last_password_update = None,
     us_last_picture_update = None, us_locale = None, us_timezone = None, us_mfa_active = None,
     us_last_activity_at = None, us_is_bot = None, us_bot_description = None, us_terms_of_service_id = None,
     us_terms_of_service_create_at = None, us_remote_id = None, us_status = None,
     us_custom_profile_attributes = None, us_failed_attempts = None\<rparr>"

record user_access_token =
  uat_id :: string
  uat_token :: "string option"
  uat_user_id :: string
  uat_description :: string
  uat_is_active :: bool

record session =
  ss_id :: string
  ss_token :: string
  ss_create_at :: int
  ss_expires_at :: int
  ss_last_activity_at :: int
  ss_user_id :: string
  ss_device_id :: string
  ss_roles :: string
  ss_is_oauth :: bool
  ss_props :: "prop_value obj"
  ss_team_members :: "team_membership list"
  ss_local :: bool

record audit =
  au_id :: string
  au_create_at :: int
  au_user_id :: string
  au_action :: string
  au_extra_info :: string
  au_ip_address :: string
  au_session_id :: string

record users_state =
  uss_currentUserId :: string
  uss_isManualStatus :: "bool obj"
  uss_mySessions :: "session list"
  uss_myAudits :: "audit list"
  uss_profiles :: "user_profile obj"
  uss_profilesInTeam :: "string list obj"
  uss_profilesNotInTeam :: "string list obj"
  uss_profilesWithoutTeam :: "string list"
  uss_profilesInChannel :: "string list obj"
  uss_profilesNotInChannel :: "string list obj"
  uss_profilesInGroup :: "string list obj"
  uss_profilesNotInGroup :: "string list obj"
  uss_statuses :: "string obj"
  uss_stats :: "int option"
  uss_filteredStats :: "int option"
  uss_myUserAccessTokens :: "user_access_token obj"
  uss_lastActivity :: "int obj"
  uss_dndEndTimes :: "int obj"

definition init_users_state :: users_state where
  "init_users_state = \<lparr>uss_currentUserId = [], uss_isManualStatus = [], uss_mySessions = [],
     uss_myAudits = [], uss_profiles = [], uss_profilesInTeam = [], uss_profilesNotInTeam = [],
     uss_profilesWithoutTeam = [], uss_profilesInChannel = [], uss_profilesNotInChannel = [],
     uss_profilesInGroup = [], uss_profilesNotInGroup = [], uss_statuses = [], uss_stats = None,
     uss_filteredStats = None, uss_myUserAccessTokens = [], uss_lastActivity = [], uss_dndEndTimes = []\<rparr>"

end
