(* ===== verification/ReduxActions.thy ===== *)
theory ReduxActions
  imports UserEntities
begin

text \<open>
  The actions the reducers of channels, teams and users handle, one datatype per namespace of
  \<open>mattermost-redux/src/action_types\<close>, with the payload the reducers read, and the constants the
  channels are told apart by.
\<close>

section \<open>Actions\<close>

text \<open>
  The data of the actions that count: \<open>amountUrgent\<close>, \<open>onlyMentions\<close> and
  \<open>fetchedChannelMember\<close> are read by some of them only.
\<close>

record unread_change =
  uc_teamId :: string
  uc_channelId :: string
  uc_amount :: jsnum
  uc_amountRoot :: jsnum
  uc_amountUrgent :: jsnum
  uc_onlyMentions :: bool
  uc_fetchedChannelMember :: bool

text \<open>The websocket event of a post marked as unread names neither the team nor the difference.\<close>

record post_unread =
  pu_teamId :: "string option"
  pu_channelId :: string
  pu_msgCount :: jsnum
  pu_mentionCount :: jsnum
  pu_msgCountRoot :: jsnum
  pu_mentionCountRoot :: jsnum
  pu_urgentMentionCount :: jsnum
  pu_lastViewedAt :: jsnum
  pu_deltaMsgs :: jsnum

text \<open>
  Whoever leaves a channel: the websocket handler sends no \<open>type\<close>, and no \<open>team_id\<close> when the
  channel is not in the store.
\<close>

record channel_left =
  cl_id :: string
  cl_user_id :: string
  cl_team_id :: "string option"
  cl_type :: "string option"

record scheme_roles_change =
  sr_id :: string
  sr_userId :: string
  sr_isSchemeUser :: bool
  sr_isSchemeAdmin :: bool

text \<open>
  \<open>RECEIVED_MY_CHANNEL_MEMBERS\<close> and \<open>RECEIVED_CHANNEL_MEMBERS\<close> may carry the channels to forget
  (\<open>remove\<close>) and the user they are forgotten for (\<open>currentUserId\<close>).
\<close>

datatype channel_types =
    SELECT_CHANNEL string
  | RECEIVED_CHANNEL server_channel
  | RECEIVED_CHANNELS "server_channel list"
  | RECEIVED_ALL_CHANNELS "server_channel list"
  | RECEIVED_CHANNEL_DELETED string int
  | RECEIVED_CHANNEL_UNARCHIVED string
  | LEAVE_CHANNEL "channel_left option"
  | REMOVE_MEMBER_FROM_CHANNEL string string
  | CHANNEL_MEMBER_ADDED string string
  | CHANNEL_MEMBER_REMOVED string string
  | UPDATED_CHANNEL_SCHEME string string
  | RECEIVED_MY_CHANNEL_MEMBER "channel_membership option"
  | RECEIVED_MY_CHANNEL_MEMBERS "channel_membership list" "string list option" string
  | RECEIVED_CHANNEL_MEMBER channel_membership
  | RECEIVED_CHANNEL_MEMBERS "channel_membership list" "string list option" string
  | RECEIVED_CHANNEL_PROPS string channel_notify_props
  | SET_CHANNEL_MUTED string bool
  | INCREMENT_TOTAL_MSG_COUNT string jsnum jsnum
  | INCREMENT_UNREAD_MSG_COUNT unread_change
  | DECREMENT_UNREAD_MSG_COUNT unread_change
  | INCREMENT_UNREAD_MENTION_COUNT unread_change
  | DECREMENT_UNREAD_MENTION_COUNT unread_change
  | RECEIVED_LAST_VIEWED_AT string jsnum
  | UPDATED_CHANNEL_MEMBER_SCHEME_ROLES scheme_roles_change
  | POST_UNREAD_SUCCESS post_unread
  | RECEIVED_CHANNEL_STATS channel_stats
  | ADD_CHANNEL_MEMBER_SUCCESS string "int option"
  | REMOVE_CHANNEL_MEMBER_SUCCESS string
  | INCREMENT_PINNED_POST_COUNT string
  | DECREMENT_PINNED_POST_COUNT string
  | INCREMENT_FILE_COUNT string int
  | RECEIVED_CHANNELS_MEMBER_COUNT "int obj"
  | RECEIVED_TOTAL_CHANNEL_COUNT int
  | ADD_MANUALLY_UNREAD string
  | REMOVE_MANUALLY_UNREAD string
  | RECEIVED_CHANNEL_MODERATIONS string "channel_moderation list"
  | RECEIVED_CHANNEL_MEMBER_COUNTS_BY_GROUP string "channel_member_count_by_group list"
  | RECEIVED_CHANNEL_MEMBER_COUNTS_FROM_GROUPS_LIST string "group_counts list"
  | RECEIVED_IS_DM_RESTRICTED string bool
  | RESTRICTED_DMS_TEAMS_CHANGED

datatype team_types =
    SELECT_TEAM string
  | RECEIVED_TEAMS_LIST "team list"
  | RECEIVED_TEAMS "team obj"
  | CREATED_TEAM team
  | UPDATED_TEAM team
  | PATCHED_TEAM team
  | REGENERATED_TEAM_INVITE_ID team
  | RECEIVED_TEAM team
  | RECEIVED_TEAM_DELETED string
  | RECEIVED_TEAM_UNARCHIVED team
  | UPDATED_TEAM_SCHEME string string
  | RECEIVED_MY_TEAM_MEMBER team_membership
  | RECEIVED_MY_TEAM_MEMBERS "team_membership list"
  | RECEIVED_MY_TEAM_UNREADS "team_unread list"
  | LEAVE_TEAM string
  | UPDATED_TEAM_MEMBER_SCHEME_ROLES scheme_roles_change
  | RECEIVED_MEMBER_IN_TEAM team_membership
  | RECEIVED_TEAM_MEMBERS "team_membership list"
  | RECEIVED_MEMBERS_IN_TEAM "team_membership list"
  | REMOVE_MEMBER_FROM_TEAM string string
  | RECEIVED_TEAM_STATS team_stats
  | RECEIVED_TOTAL_TEAM_COUNT int
  | RECEIVED_CONTENT_FLAGGING_STATUS string bool

text \<open>
  \<open>LOGIN\<close> is what the mobile app sends. A list of profiles may be missing where the reducers test for
  it; the users of a group come as their ids.
\<close>

datatype user_types =
    RECEIVED_ME user_profile
  | LOGIN "user_profile option" "team list" "team_membership list" "team_unread list"
  | LOGOUT_SUCCESS
  | RECEIVED_SESSIONS "session list"
  | RECEIVED_REVOKED_SESSION string
  | REVOKE_ALL_USER_SESSIONS_SUCCESS bool
  | REVOKE_SESSIONS_FOR_ALL_USERS_SUCCESS
  | RECEIVED_AUDITS "audit list"
  | RECEIVED_PROFILE user_profile
  | RECEIVED_PROFILES "user_profile obj"
  | RECEIVED_PROFILES_LIST "user_profile list option"
  | RECEIVED_CPA_VALUES string "cpa_value obj"
  | CLEAR_CPA_VALUES string
  | RECEIVED_TERMS_OF_SERVICE_STATUS string "string option" "int option"
  | PROFILE_NO_LONGER_VISIBLE string
  | RECEIVED_PROFILE_IN_TEAM string string
  | RECEIVED_PROFILES_LIST_IN_TEAM string "user_profile list option"
  | RECEIVED_PROFILES_IN_TEAM string "user_profile obj"
  | RECEIVED_PROFILE_NOT_IN_TEAM string string
  | RECEIVED_PROFILES_LIST_NOT_IN_TEAM string "user_profile list option"
  | RECEIVED_PROFILES_LIST_NOT_IN_TEAM_AND_REPLACE string "user_profile list option"
  | RECEIVED_PROFILE_WITHOUT_TEAM "string list"
  | RECEIVED_PROFILES_LIST_WITHOUT_TEAM "user_profile list"
  | RECEIVED_PROFILE_IN_CHANNEL string string
  | RECEIVED_PROFILES_LIST_IN_CHANNEL string "user_profile list option"
  | RECEIVED_PROFILES_IN_CHANNEL string "user_profile obj"
  | RECEIVED_PROFILE_NOT_IN_CHANNEL string string
  | RECEIVED_PROFILES_LIST_NOT_IN_CHANNEL string "user_profile list option"
  | RECEIVED_PROFILES_LIST_NOT_IN_CHANNEL_AND_REPLACE string "user_profile list option"
  | RECEIVED_PROFILES_NOT_IN_CHANNEL string "user_profile obj"
  | RECEIVED_PROFILES_LIST_IN_GROUP string "user_profile list option"
  | RECEIVED_PROFILES_FOR_GROUP string "string list option"
  | RECEIVED_PROFILES_LIST_TO_REMOVE_FROM_GROUP string "string list option"
  | RECEIVED_PROFILES_LIST_NOT_IN_GROUP string "user_profile list option"
  | RECEIVED_DND_END_TIMES "int obj"
  | RECEIVED_STATUSES "string obj"
  | RECEIVED_STATUSES_IS_MANUAL "bool obj"
  | RECEIVED_MY_USER_ACCESS_TOKEN user_access_token
  | RECEIVED_MY_USER_ACCESS_TOKENS "user_access_token list"
  | REVOKED_USER_ACCESS_TOKEN string
  | ENABLED_USER_ACCESS_TOKEN string
  | DISABLED_USER_ACCESS_TOKEN string
  | CLEAR_MY_USER_ACCESS_TOKENS
  | RECEIVED_USER_STATS "int option"
  | RECEIVED_FILTERED_USER_STATS "int option"
  | RECEIVED_LAST_ACTIVITIES "int obj"

datatype admin_types =
    RECEIVED_DATA_RETENTION_CUSTOM_POLICY_CHANNELS "server_channel list"
  | RECEIVED_DATA_RETENTION_CUSTOM_POLICY_CHANNELS_SEARCH "server_channel list"
  | REMOVE_DATA_RETENTION_CUSTOM_POLICY_CHANNELS_SUCCESS "string list"
  | RECEIVED_DATA_RETENTION_CUSTOM_POLICY_TEAMS "team list"
  | RECEIVED_DATA_RETENTION_CUSTOM_POLICY_TEAMS_SEARCH "team list"
  | REMOVE_DATA_RETENTION_CUSTOM_POLICY_TEAMS_SUCCESS "string list"

datatype scheme_types =
    RECEIVED_SCHEME_CHANNELS "server_channel list"
  | RECEIVED_SCHEME_TEAMS "team list"

text \<open>Groups are associated with a channel or a team by their ids.\<close>

datatype group_types =
    RECEIVED_ALL_GROUPS_ASSOCIATED_TO_CHANNELS_IN_TEAM "string list option obj"
  | RECEIVED_GROUP_ASSOCIATED_TO_CHANNEL string "string list"
  | RECEIVED_GROUPS_ASSOCIATED_TO_CHANNEL string "string list" int
  | RECEIVED_ALL_GROUPS_ASSOCIATED_TO_CHANNEL string "string list"
  | RECEIVED_GROUP_NOT_ASSOCIATED_TO_CHANNEL string "string list"
  | RECEIVED_GROUPS_NOT_ASSOCIATED_TO_CHANNEL string "string list"
  | RECEIVED_GROUP_ASSOCIATED_TO_TEAM string "string list"
  | RECEIVED_GROUPS_ASSOCIATED_TO_TEAM string "string list" int
  | RECEIVED_ALL_GROUPS_ASSOCIATED_TO_TEAM string "string list"
  | RECEIVED_GROUP_NOT_ASSOCIATED_TO_TEAM string "string list"
  | RECEIVED_GROUPS_NOT_ASSOCIATED_TO_TEAM string "string list"

text \<open>\<open>RECEIVED_NEW_POST\<close> with \<open>action.features?.crtEnabled\<close>.\<close>

datatype new_post_types = RECEIVED_NEW_POST post bool

datatype redux_action =
    ChannelTypes channel_types
  | TeamTypes team_types
  | UserTypes user_types
  | AdminTypes admin_types
  | SchemeTypes scheme_types
  | GroupTypes group_types
  | PostTypes new_post_types
  | OtherTypes string

section \<open>Constants\<close>

definition OPEN_CHANNEL :: string where "OPEN_CHANNEL = ''O''"
definition PRIVATE_CHANNEL :: string where "PRIVATE_CHANNEL = ''P''"
definition DM_CHANNEL :: string where "DM_CHANNEL = ''D''"
definition GM_CHANNEL :: string where "GM_CHANNEL = ''G''"
definition DEFAULT_CHANNEL :: string where "DEFAULT_CHANNEL = ''town-square''"
definition MARK_UNREAD_ALL :: string where "MARK_UNREAD_ALL = ''all''"
definition MARK_UNREAD_MENTION :: string where "MARK_UNREAD_MENTION = ''mention''"

lemmas channel_constants =
  OPEN_CHANNEL_def PRIVATE_CHANNEL_def DM_CHANNEL_def GM_CHANNEL_def DEFAULT_CHANNEL_def
  MARK_UNREAD_ALL_def MARK_UNREAD_MENTION_def

end
