(* ===== verification/Channels.thy ===== *)
theory Channels
  imports ReduxActions
begin

text \<open>
  The channels of the store: \<open>reducers/entities/channels.ts\<close> with
  \<open>channels/message_counts.ts\<close>, one definition per slice of the state, and the helpers of
  \<open>utils/channel_utils.ts\<close> they call.

  \<open>membersInChannel\<close> deletes the current user from the inner objects of the state it was given;
  that state is dropped, so only the new one is modelled. \<open>RECEIVED_MY_CHANNEL_MEMBER\<close> without a
  member throws in \<open>myMembers\<close>, before the later slices see it.
\<close>

section \<open>Sets and lists\<close>

definition splitRoles :: "string \<Rightarrow> string list" where
  "splitRoles rs = (if rs \<noteq> [] then remdups_js (split_on (CHR '' '') rs) else [])"

definition channelListToMap :: "channel list \<Rightarrow> channel obj" where
  "channelListToMap channelList = foldl (\<lambda>acc c. put (ch_id c) c acc) [] channelList"

definition removeMemberFromChannels :: "channel_membership obj obj \<Rightarrow> string \<Rightarrow> channel_membership obj obj" where
  "removeMemberFromChannels st user = map (\<lambda>(channel, members). (channel, del user members)) st"

definition channelListToSet :: "string list obj \<Rightarrow> server_channel list \<Rightarrow> string list obj" where
  "channelListToSet st data =
     foldl (\<lambda>next c. put (ch_team_id c) (set_add (ch_id c) (get_or [] next (ch_team_id c))) next) st data"

definition removeChannelFromSet :: "string list obj \<Rightarrow> channel_left \<Rightarrow> string list obj" where
  "removeChannelFromSet st d =
     (let team = key_of (cl_team_id d)
      in put team (removeAll (cl_id d) (get_or [] st team)) st)"

section \<open>The selected channel and the channels\<close>

definition currentChannelId :: "string \<Rightarrow> redux_action \<Rightarrow> string" where
  "currentChannelId st a =
     (case a of
        ChannelTypes (SELECT_CHANNEL channel) \<Rightarrow> channel
      | UserTypes LOGOUT_SUCCESS \<Rightarrow> []
      | _ \<Rightarrow> st)"

definition toClientChannel :: "server_channel \<Rightarrow> channel" where
  "toClientChannel serverChannel = channel.truncate serverChannel"

text \<open>A direct channel that arrives without a name keeps the one it had.\<close>

definition keep_display_name :: "channel obj \<Rightarrow> channel \<Rightarrow> channel" where
  "keep_display_name st c =
     (case get st (ch_id c) of
        Some old \<Rightarrow>
          (if ch_type c = DM_CHANNEL \<and> ch_display_name c = []
           then c\<lparr>ch_display_name := ch_display_name old\<rparr> else c)
      | None \<Rightarrow> c)"

definition channels_received :: "channel obj \<Rightarrow> server_channel list \<Rightarrow> channel obj nxt" where
  "channels_received st data =
     (if data = [] then Same
      else New (foldl (\<lambda>next c. put (ch_id c) (keep_display_name st c) next) st (map toClientChannel data)))"

definition new_post_in_channel :: "channel obj \<Rightarrow> post \<Rightarrow> bool \<Rightarrow> channel obj nxt" where
  "new_post_in_channel st p crtEnabled =
     (let isCrtReply = (crtEnabled \<and> root_id p \<noteq> [])
      in case get st (channel_id p) of
           None \<Rightarrow> Same
         | Some channel \<Rightarrow>
             New (put (channel_id p)
               (channel\<lparr>ch_last_post_at := max (create_at p) (ch_last_post_at channel),
                  ch_last_root_post_at :=
                    (if isCrtReply then ch_last_root_post_at channel
                     else max (create_at p) (ch_last_root_post_at channel))\<rparr>) st))"

text \<open>An update of a channel the store may not hold.\<close>

definition update_channel :: "channel obj \<Rightarrow> string \<Rightarrow> (channel \<Rightarrow> channel) \<Rightarrow> channel obj nxt" where
  "update_channel st i f = (case get st i of None \<Rightarrow> Same | Some c \<Rightarrow> New (put i (f c) st))"

definition channels :: "channel obj \<Rightarrow> redux_action \<Rightarrow> channel obj nxt" where
  "channels st a =
     (case a of
        ChannelTypes (RECEIVED_CHANNEL sc) \<Rightarrow>
          (let c = toClientChannel sc in New (put (ch_id c) (keep_display_name st c) st))
      | AdminTypes (RECEIVED_DATA_RETENTION_CUSTOM_POLICY_CHANNELS data) \<Rightarrow>
          (if data = [] then Same
           else New (obj_spread st (channelListToMap (map toClientChannel data))))
      | AdminTypes (RECEIVED_DATA_RETENTION_CUSTOM_POLICY_CHANNELS_SEARCH data) \<Rightarrow> channels_received st data
      | ChannelTypes (RECEIVED_CHANNELS data) \<Rightarrow> channels_received st data
      | ChannelTypes (RECEIVED_ALL_CHANNELS data) \<Rightarrow> channels_received st data
      | SchemeTypes (RECEIVED_SCHEME_CHANNELS data) \<Rightarrow> channels_received st data
      | ChannelTypes (RECEIVED_CHANNEL_DELETED i deleteAt) \<Rightarrow>
          update_channel st i (\<lambda>c. c\<lparr>ch_delete_at := deleteAt\<rparr>)
      | ChannelTypes (RECEIVED_CHANNEL_UNARCHIVED i) \<Rightarrow> update_channel st i (\<lambda>c. c\<lparr>ch_delete_at := 0\<rparr>)
      | ChannelTypes (LEAVE_CHANNEL (Some d)) \<Rightarrow> New (del (cl_id d) st)
      | PostTypes (RECEIVED_NEW_POST p crtEnabled) \<Rightarrow> new_post_in_channel st p crtEnabled
      | ChannelTypes (UPDATED_CHANNEL_SCHEME channelId schemeId) \<Rightarrow>
          update_channel st channelId (\<lambda>c. c\<lparr>ch_scheme_id := schemeId\<rparr>)
      | AdminTypes (REMOVE_DATA_RETENTION_CUSTOM_POLICY_CHANNELS_SUCCESS ids) \<Rightarrow>
          New (foldl (\<lambda>next i. upd next (update_channel next i (\<lambda>c. c\<lparr>ch_policy_id := None\<rparr>))) st ids)
      | UserTypes LOGOUT_SUCCESS \<Rightarrow> New []
      | _ \<Rightarrow> Same)"

definition channelsInTeam :: "string list obj \<Rightarrow> redux_action \<Rightarrow> string list obj nxt" where
  "channelsInTeam st a =
     (case a of
        ChannelTypes (RECEIVED_CHANNEL sc) \<Rightarrow>
          New (put (ch_team_id sc) (set_add (ch_id sc) (get_or [] st (ch_team_id sc))) st)
      | ChannelTypes (RECEIVED_CHANNELS data) \<Rightarrow> New (channelListToSet st data)
      | ChannelTypes (LEAVE_CHANNEL (Some d)) \<Rightarrow> New (removeChannelFromSet st d)
      | UserTypes LOGOUT_SUCCESS \<Rightarrow> New []
      | _ \<Rightarrow> Same)"

section \<open>My memberships\<close>

text \<open>
  A received membership that would turn the view back, although it is not newer, does not: what
  was read stays read (\<open>receiveChannelMember\<close>).
\<close>

definition receiveChannelMember :: "channel_membership obj \<Rightarrow> channel_membership \<Rightarrow> channel_membership obj nxt" where
  "receiveChannelMember st received =
     (case get st (cm_channel_id received) of
        None \<Rightarrow> New (put (cm_channel_id received) received st)
      | Some existing \<Rightarrow>
          (if existing = received then Same
           else if js_less (cm_last_viewed_at received) (cm_last_viewed_at existing) \<and>
                   js_leq (cm_last_update_at received) (cm_last_update_at existing)
           then New (put (cm_channel_id received)
             (received\<lparr>
                cm_last_viewed_at := js_max (cm_last_viewed_at existing) (cm_last_viewed_at received),
                cm_last_update_at := js_max (cm_last_update_at existing) (cm_last_update_at received),
                cm_msg_count := js_max (cm_msg_count existing) (cm_msg_count received),
                cm_msg_count_root := js_max (cm_msg_count_root existing) (cm_msg_count_root received),
                cm_mention_count := js_min (cm_mention_count existing) (cm_mention_count received),
                cm_urgent_mention_count := js_min (cm_urgent_mention_count existing) (cm_urgent_mention_count received),
                cm_mention_count_root := js_min (cm_mention_count_root existing) (cm_mention_count_root received)\<rparr>) st)
           else New (put (cm_channel_id received) received st)))"

definition set_muted :: "bool \<Rightarrow> channel_membership \<Rightarrow> channel_membership" where
  "set_muted muted m =
     m\<lparr>cm_notify_props :=
         Some ((case cm_notify_props m of None \<Rightarrow> no_notify_props | Some np \<Rightarrow> np)
           \<lparr>np_mark_unread := Some (if muted then MARK_UNREAD_MENTION else MARK_UNREAD_ALL)\<rparr>)\<rparr>"

text \<open>\<open>amount === 0 && amountRoot === 0\<close>\<close>

definition no_change :: "unread_change \<Rightarrow> bool" where
  "no_change d \<longleftrightarrow> uc_amount d = Num 0 \<and> uc_amountRoot d = Num 0"

definition add_read :: "unread_change \<Rightarrow> channel_membership \<Rightarrow> channel_membership" where
  "add_read d m =
     m\<lparr>cm_msg_count := cm_msg_count m + uc_amount d,
       cm_msg_count_root := cm_msg_count_root m + uc_amountRoot d\<rparr>"

definition increment_unread_msg_count :: "channel_membership obj \<Rightarrow> unread_change \<Rightarrow> channel_membership obj nxt" where
  "increment_unread_msg_count st d =
     (if no_change d then Same
      else case get st (uc_channelId d) of
        None \<Rightarrow> Same
      | Some m \<Rightarrow>
          (if \<not> uc_onlyMentions d then Same
           else if uc_fetchedChannelMember d then Same
           else New (put (uc_channelId d) (add_read d m) st)))"

definition decrement_unread_msg_count :: "channel_membership obj \<Rightarrow> unread_change \<Rightarrow> channel_membership obj nxt" where
  "decrement_unread_msg_count st d =
     (if no_change d then Same
      else case get st (uc_channelId d) of
        None \<Rightarrow> Same
      | Some m \<Rightarrow> New (put (uc_channelId d) (add_read d m) st))"

definition increment_unread_mention_count :: "channel_membership obj \<Rightarrow> unread_change \<Rightarrow> channel_membership obj nxt" where
  "increment_unread_mention_count st d =
     (if no_change d then Same
      else case get st (uc_channelId d) of
        None \<Rightarrow> Same
      | Some m \<Rightarrow>
          (if uc_fetchedChannelMember d then Same
           else New (put (uc_channelId d)
             (m\<lparr>cm_mention_count := cm_mention_count m + uc_amount d,
                cm_mention_count_root := cm_mention_count_root m + uc_amountRoot d,
                cm_urgent_mention_count := cm_urgent_mention_count m + uc_amountUrgent d\<rparr>) st)))"

definition decrement_unread_mention_count :: "channel_membership obj \<Rightarrow> unread_change \<Rightarrow> channel_membership obj nxt" where
  "decrement_unread_mention_count st d =
     (if no_change d then Same
      else case get st (uc_channelId d) of
        None \<Rightarrow> Same
      | Some m \<Rightarrow> New (put (uc_channelId d)
          (m\<lparr>cm_mention_count := js_max (cm_mention_count m - uc_amount d) (Num 0),
             cm_mention_count_root := js_max (cm_mention_count_root m - uc_amountRoot d) (Num 0),
             cm_urgent_mention_count := js_max (cm_urgent_mention_count m - uc_amountUrgent d) (Num 0)\<rparr>) st))"

text \<open>Reading \<open>last_viewed_at\<close> of a member that is not in the store throws.\<close>

definition received_last_viewed_at :: "channel_membership obj \<Rightarrow> string \<Rightarrow> jsnum \<Rightarrow> channel_membership obj nxt option" where
  "received_last_viewed_at st channelId viewedAt =
     (case get st channelId of
        None \<Rightarrow> None
      | Some m \<Rightarrow>
          (if js_seq (cm_last_viewed_at m) viewedAt then Some Same
           else Some (New (put channelId (m\<lparr>cm_last_viewed_at := viewedAt\<rparr>) st))))"

definition post_unread_success :: "channel_membership obj \<Rightarrow> post_unread \<Rightarrow> channel_membership obj nxt" where
  "post_unread_success st d =
     (case get st (pu_channelId d) of
        None \<Rightarrow> Same
      | Some m \<Rightarrow> New (put (pu_channelId d)
          (m\<lparr>cm_msg_count := pu_msgCount d, cm_mention_count := pu_mentionCount d,
             cm_msg_count_root := pu_msgCountRoot d, cm_mention_count_root := pu_mentionCountRoot d,
             cm_urgent_mention_count := pu_urgentMentionCount d,
             cm_last_viewed_at := pu_lastViewedAt d\<rparr>) st))"

text \<open>
  \<open>RECEIVED_MY_CHANNEL_MEMBERS\<close> removes the channels of \<open>remove\<close> from a copy it does not use, and
  reduces from the state: the removal is lost, as here. \<open>UPDATED_CHANNEL_MEMBER_SCHEME_ROLES\<close>
  looks for a property named by a user's id in a membership, where there is none.
\<close>

definition myMembers :: "channel_membership obj \<Rightarrow> redux_action \<Rightarrow> channel_membership obj nxt option" where
  "myMembers st a =
     (case a of
        ChannelTypes (RECEIVED_MY_CHANNEL_MEMBER None) \<Rightarrow> None
      | ChannelTypes (RECEIVED_MY_CHANNEL_MEMBER (Some m)) \<Rightarrow> Some (receiveChannelMember st m)
      | ChannelTypes (RECEIVED_MY_CHANNEL_MEMBERS ms remove currentUserId) \<Rightarrow>
          Some (nxt_fold receiveChannelMember st ms)
      | ChannelTypes (RECEIVED_CHANNEL_PROPS channelId notifyProps) \<Rightarrow>
          Some (New (put channelId ((get_or no_membership st channelId)\<lparr>cm_notify_props := Some notifyProps\<rparr>) st))
      | ChannelTypes (SET_CHANNEL_MUTED channelId muted) \<Rightarrow>
          Some (case get st channelId of None \<Rightarrow> Same | Some m \<Rightarrow> New (put channelId (set_muted muted m) st))
      | ChannelTypes (INCREMENT_UNREAD_MSG_COUNT d) \<Rightarrow> Some (increment_unread_msg_count st d)
      | ChannelTypes (DECREMENT_UNREAD_MSG_COUNT d) \<Rightarrow> Some (decrement_unread_msg_count st d)
      | ChannelTypes (INCREMENT_UNREAD_MENTION_COUNT d) \<Rightarrow> Some (increment_unread_mention_count st d)
      | ChannelTypes (DECREMENT_UNREAD_MENTION_COUNT d) \<Rightarrow> Some (decrement_unread_mention_count st d)
      | ChannelTypes (RECEIVED_LAST_VIEWED_AT channelId viewedAt) \<Rightarrow> received_last_viewed_at st channelId viewedAt
      | ChannelTypes (LEAVE_CHANNEL (Some d)) \<Rightarrow> Some (New (del (cl_id d) st))
      | ChannelTypes (POST_UNREAD_SUCCESS d) \<Rightarrow> Some (post_unread_success st d)
      | UserTypes LOGOUT_SUCCESS \<Rightarrow> Some (New [])
      | _ \<Rightarrow> Some Same)"

section \<open>The members of the channels\<close>

definition member_received :: "channel_membership obj obj \<Rightarrow> channel_membership \<Rightarrow> channel_membership obj obj" where
  "member_received st m =
     (let members = get_or [] st (cm_channel_id m);
          fresh = (case get members (cm_user_id m) of
                     None \<Rightarrow> True
                   | Some old \<Rightarrow> js_less (cm_last_update_at old) (cm_last_update_at m) \<or> cm_roles m \<noteq> cm_roles old)
      in if fresh then put (cm_channel_id m) (put (cm_user_id m) m members) st else st)"

definition members_received ::
  "channel_membership obj obj \<Rightarrow> channel_membership list \<Rightarrow> string list option \<Rightarrow> string \<Rightarrow> channel_membership obj obj" where
  "members_received st ms remove currentUserId =
     (let forget = (case remove of Some ids \<Rightarrow> if currentUserId \<noteq> [] then ids else [] | None \<Rightarrow> []);
          next = foldl (\<lambda>next i. case get next i of
                          None \<Rightarrow> next | Some members \<Rightarrow> put i (del currentUserId members) next) st forget
      in foldl (\<lambda>next m. put (cm_channel_id m)
                  (put (cm_user_id m) m (get_or [] next (cm_channel_id m))) next) next ms)"

definition member_removed :: "channel_membership obj obj \<Rightarrow> string \<Rightarrow> string \<Rightarrow> channel_membership obj obj nxt" where
  "member_removed st i user =
     (case get st i of None \<Rightarrow> Same | Some members \<Rightarrow> New (put i (del user members) st))"

definition updateChannelMemberSchemeRoles ::
  "channel_membership obj obj \<Rightarrow> scheme_roles_change \<Rightarrow> channel_membership obj obj nxt" where
  "updateChannelMemberSchemeRoles st d =
     (case get st (sr_id d) of
        None \<Rightarrow> Same
      | Some members \<Rightarrow>
          (case get members (sr_userId d) of
             None \<Rightarrow> Same
           | Some m \<Rightarrow> New (put (sr_id d)
               (put (sr_userId d)
                  (m\<lparr>cm_scheme_user := sr_isSchemeUser d, cm_scheme_admin := sr_isSchemeAdmin d\<rparr>) members) st)))"

definition membersInChannel :: "channel_membership obj obj \<Rightarrow> redux_action \<Rightarrow> channel_membership obj obj nxt" where
  "membersInChannel st a =
     (case a of
        ChannelTypes (RECEIVED_MY_CHANNEL_MEMBER (Some m)) \<Rightarrow> New (member_received st m)
      | ChannelTypes (RECEIVED_CHANNEL_MEMBER m) \<Rightarrow> New (member_received st m)
      | ChannelTypes (RECEIVED_MY_CHANNEL_MEMBERS ms remove currentUserId) \<Rightarrow>
          New (members_received st ms remove currentUserId)
      | ChannelTypes (RECEIVED_CHANNEL_MEMBERS ms remove currentUserId) \<Rightarrow>
          New (members_received st ms remove currentUserId)
      | UserTypes (PROFILE_NO_LONGER_VISIBLE user) \<Rightarrow> New (removeMemberFromChannels st user)
      | ChannelTypes (LEAVE_CHANNEL (Some d)) \<Rightarrow> member_removed st (cl_id d) (cl_user_id d)
      | ChannelTypes (REMOVE_MEMBER_FROM_CHANNEL i user) \<Rightarrow> member_removed st i user
      | UserTypes (RECEIVED_PROFILE_NOT_IN_CHANNEL i user) \<Rightarrow> member_removed st i user
      | ChannelTypes (UPDATED_CHANNEL_MEMBER_SCHEME_ROLES d) \<Rightarrow> updateChannelMemberSchemeRoles st d
      | UserTypes LOGOUT_SUCCESS \<Rightarrow> New []
      | _ \<Rightarrow> Same)"

section \<open>Statistics, groups and moderation\<close>

definition update_stats :: "channel_stats obj \<Rightarrow> string \<Rightarrow> (channel_stats \<Rightarrow> channel_stats) \<Rightarrow> channel_stats obj nxt" where
  "update_stats st i f = (case get st i of None \<Rightarrow> Same | Some s \<Rightarrow> New (put i (f s) st))"

text \<open>\<open>count || 1\<close>: only a count of exactly zero becomes one.\<close>

definition or_one :: "int \<Rightarrow> int" where
  "or_one n = (if n = 0 then 1 else n)"

definition stats :: "channel_stats obj \<Rightarrow> redux_action \<Rightarrow> channel_stats obj nxt" where
  "stats st a =
     (case a of
        ChannelTypes (RECEIVED_CHANNEL_STATS s) \<Rightarrow>
          (if get st (st_channel_id s) = Some s then Same else New (put (st_channel_id s) s st))
      | ChannelTypes (ADD_CHANNEL_MEMBER_SUCCESS i receivedCount) \<Rightarrow>
          update_stats st i (\<lambda>s. s\<lparr>st_member_count := st_member_count s +
            (case receivedCount of None \<Rightarrow> 1 | Some n \<Rightarrow> or_one n)\<rparr>)
      | ChannelTypes (REMOVE_CHANNEL_MEMBER_SUCCESS i) \<Rightarrow>
          update_stats st i (\<lambda>s. s\<lparr>st_member_count := or_one (st_member_count s - 1)\<rparr>)
      | ChannelTypes (INCREMENT_PINNED_POST_COUNT i) \<Rightarrow>
          update_stats st i (\<lambda>s. s\<lparr>st_pinnedpost_count := st_pinnedpost_count s + 1\<rparr>)
      | ChannelTypes (DECREMENT_PINNED_POST_COUNT i) \<Rightarrow>
          update_stats st i (\<lambda>s. s\<lparr>st_pinnedpost_count := st_pinnedpost_count s - 1\<rparr>)
      | ChannelTypes (INCREMENT_FILE_COUNT i amount) \<Rightarrow>
          update_stats st i (\<lambda>s. s\<lparr>st_files_count := st_files_count s + amount\<rparr>)
      | UserTypes LOGOUT_SUCCESS \<Rightarrow> New []
      | _ \<Rightarrow> Same)"

definition channelsMemberCount :: "int obj \<Rightarrow> redux_action \<Rightarrow> int obj nxt" where
  "channelsMemberCount st a =
     (case a of
        ChannelTypes (RECEIVED_CHANNELS_MEMBER_COUNT memberCount) \<Rightarrow> New (obj_spread st memberCount)
      | UserTypes LOGOUT_SUCCESS \<Rightarrow> New []
      | _ \<Rightarrow> Same)"

definition add_ids :: "string list \<Rightarrow> string list \<Rightarrow> string list" where
  "add_ids ids groups = foldl (\<lambda>acc g. set_add g acc) ids groups"

definition delete_ids :: "string list \<Rightarrow> string list \<Rightarrow> string list" where
  "delete_ids ids groups = foldl (\<lambda>acc g. removeAll g acc) ids groups"

definition group_ids :: "associated_groups obj \<Rightarrow> string \<Rightarrow> string list" where
  "group_ids st i = (case get st i of None \<Rightarrow> [] | Some ag \<Rightarrow> ag_ids ag)"

definition counted :: "string list \<Rightarrow> associated_groups" where
  "counted ids = \<lparr>ag_ids = ids, ag_totalCount = int (length ids)\<rparr>"

definition groupsAssociatedToChannel :: "associated_groups obj \<Rightarrow> redux_action \<Rightarrow> associated_groups obj nxt" where
  "groupsAssociatedToChannel st a =
     (case a of
        GroupTypes (RECEIVED_ALL_GROUPS_ASSOCIATED_TO_CHANNELS_IN_TEAM groupsByChannelId) \<Rightarrow>
          New (foldl (\<lambda>next (channelID, gs). case gs of
                 None \<Rightarrow> next | Some groups \<Rightarrow> put channelID (counted (add_ids [] groups)) next) st groupsByChannelId)
      | GroupTypes (RECEIVED_GROUP_ASSOCIATED_TO_CHANNEL channelID groups) \<Rightarrow>
          New (put channelID (counted (add_ids (group_ids st channelID) groups)) st)
      | GroupTypes (RECEIVED_GROUPS_ASSOCIATED_TO_CHANNEL channelID groups totalGroupCount) \<Rightarrow>
          New (put channelID \<lparr>ag_ids = add_ids [] groups, ag_totalCount = totalGroupCount\<rparr> st)
      | GroupTypes (RECEIVED_ALL_GROUPS_ASSOCIATED_TO_CHANNEL channelID groups) \<Rightarrow>
          New (put channelID (counted (add_ids [] groups)) st)
      | GroupTypes (RECEIVED_GROUP_NOT_ASSOCIATED_TO_CHANNEL channelID groups) \<Rightarrow>
          New (put channelID (counted (delete_ids (group_ids st channelID) groups)) st)
      | GroupTypes (RECEIVED_GROUPS_NOT_ASSOCIATED_TO_CHANNEL channelID groups) \<Rightarrow>
          New (put channelID (counted (delete_ids (group_ids st channelID) groups)) st)
      | _ \<Rightarrow> Same)"

definition totalCount :: "int \<Rightarrow> redux_action \<Rightarrow> int" where
  "totalCount st a = (case a of ChannelTypes (RECEIVED_TOTAL_CHANNEL_COUNT n) \<Rightarrow> n | _ \<Rightarrow> st)"

definition manuallyUnread :: "bool obj \<Rightarrow> redux_action \<Rightarrow> bool obj nxt" where
  "manuallyUnread st a =
     (case a of
        ChannelTypes (REMOVE_MANUALLY_UNREAD channelId) \<Rightarrow>
          (if get st channelId = Some True then New (del channelId st) else Same)
      | UserTypes LOGOUT_SUCCESS \<Rightarrow> New []
      | ChannelTypes (ADD_MANUALLY_UNREAD channelId) \<Rightarrow> New (put channelId True st)
      | ChannelTypes (POST_UNREAD_SUCCESS d) \<Rightarrow> New (put (pu_channelId d) True st)
      | _ \<Rightarrow> Same)"

definition channelModerations :: "channel_moderation list obj \<Rightarrow> redux_action \<Rightarrow> channel_moderation list obj nxt" where
  "channelModerations st a =
     (case a of
        ChannelTypes (RECEIVED_CHANNEL_MODERATIONS channelId moderations) \<Rightarrow> New (put channelId moderations st)
      | _ \<Rightarrow> Same)"

definition channelMemberCountsByGroup ::
  "channel_member_count_by_group obj obj \<Rightarrow> redux_action \<Rightarrow> channel_member_count_by_group obj obj nxt" where
  "channelMemberCountsByGroup st a =
     (case a of
        ChannelTypes (RECEIVED_CHANNEL_MEMBER_COUNTS_BY_GROUP channelId memberCounts) \<Rightarrow>
          New (put channelId (foldl (\<lambda>acc c. put (gc_group_id c) c acc) [] memberCounts) st)
      | ChannelTypes (RECEIVED_CHANNEL_MEMBER_COUNTS_FROM_GROUPS_LIST channelId groups) \<Rightarrow>
          New (put channelId (foldl (\<lambda>acc g. put (gr_id g)
            \<lparr>gc_group_id = gr_id g,
             gc_channel_member_count = (case gr_member_count g of None \<Rightarrow> 0 | Some n \<Rightarrow> n),
             gc_channel_member_timezones_count =
               (case gr_channel_member_timezones_count g of None \<Rightarrow> 0 | Some n \<Rightarrow> n)\<rparr> acc) [] groups) st)
      | _ \<Rightarrow> Same)"

section \<open>My roles\<close>

text \<open>\<open>isEqual\<close> on two sets of roles, the first of which may be missing.\<close>

definition same_roles :: "string list option \<Rightarrow> string list \<Rightarrow> bool" where
  "same_roles old new = (case old of None \<Rightarrow> False | Some rs \<Rightarrow> set rs = set new)"

definition roles_of_members :: "string list obj \<Rightarrow> channel_membership list \<Rightarrow> string list option \<Rightarrow> string list obj nxt" where
  "roles_of_members st ms remove =
     (let ids = (case remove of None \<Rightarrow> [] | Some ids \<Rightarrow> ids);
          (next, stateChanged) =
            foldl (\<lambda>(next, changed) m.
                     if same_roles (get next (cm_channel_id m)) (splitRoles (cm_roles m)) then (next, changed)
                     else (put (cm_channel_id m) (splitRoles (cm_roles m)) next, True))
              (del_all ids st, ids \<noteq> []) ms
      in if stateChanged then New next else Same)"

definition roles :: "string list obj \<Rightarrow> redux_action \<Rightarrow> string list obj nxt" where
  "roles st a =
     (case a of
        ChannelTypes (RECEIVED_MY_CHANNEL_MEMBER (Some m)) \<Rightarrow>
          (if same_roles (get st (cm_channel_id m)) (splitRoles (cm_roles m)) then Same
           else New (put (cm_channel_id m) (splitRoles (cm_roles m)) st))
      | ChannelTypes (RECEIVED_MY_CHANNEL_MEMBERS ms remove currentUserId) \<Rightarrow> roles_of_members st ms remove
      | ChannelTypes (LEAVE_CHANNEL (Some d)) \<Rightarrow> New (del (cl_id d) st)
      | UserTypes LOGOUT_SUCCESS \<Rightarrow> New []
      | _ \<Rightarrow> Same)"

definition restrictedDMs :: "bool obj \<Rightarrow> redux_action \<Rightarrow> bool obj nxt" where
  "restrictedDMs st a =
     (case a of
        ChannelTypes (RECEIVED_IS_DM_RESTRICTED channelId isRestricted) \<Rightarrow> New (put channelId isRestricted st)
      | ChannelTypes RESTRICTED_DMS_TEAMS_CHANGED \<Rightarrow> New []
      | UserTypes LOGOUT_SUCCESS \<Rightarrow> New []
      | _ \<Rightarrow> Same)"

section \<open>Message counts\<close>

definition updateMessageCount :: "channel_message_count obj \<Rightarrow> server_channel \<Rightarrow> channel_message_count obj nxt" where
  "updateMessageCount st c =
     (let received = New (put (ch_id c) \<lparr>mc_root = total_msg_count_root c, mc_total = total_msg_count c\<rparr> st)
      in case get st (ch_id c) of
           None \<Rightarrow> received
         | Some existing \<Rightarrow>
             (if js_seq (mc_root existing) (total_msg_count_root c) \<and>
                 js_seq (mc_total existing) (total_msg_count c)
              then Same else received))"

definition increment_total_msg_count ::
  "channel_message_count obj \<Rightarrow> string \<Rightarrow> jsnum \<Rightarrow> jsnum \<Rightarrow> channel_message_count obj" where
  "increment_total_msg_count st channelId amount amountRoot =
     (case get st channelId of
        None \<Rightarrow> put channelId \<lparr>mc_root = amountRoot, mc_total = amount\<rparr> st
      | Some existing \<Rightarrow>
          put channelId \<lparr>mc_root = mc_root existing + amountRoot, mc_total = mc_total existing + amount\<rparr> st)"

definition messageCounts :: "channel_message_count obj \<Rightarrow> redux_action \<Rightarrow> channel_message_count obj nxt" where
  "messageCounts st a =
     (case a of
        ChannelTypes (RECEIVED_CHANNEL c) \<Rightarrow> updateMessageCount st c
      | AdminTypes (RECEIVED_DATA_RETENTION_CUSTOM_POLICY_CHANNELS cs) \<Rightarrow> nxt_fold updateMessageCount st cs
      | AdminTypes (RECEIVED_DATA_RETENTION_CUSTOM_POLICY_CHANNELS_SEARCH cs) \<Rightarrow> nxt_fold updateMessageCount st cs
      | ChannelTypes (RECEIVED_CHANNELS cs) \<Rightarrow> nxt_fold updateMessageCount st cs
      | ChannelTypes (RECEIVED_ALL_CHANNELS cs) \<Rightarrow> nxt_fold updateMessageCount st cs
      | SchemeTypes (RECEIVED_SCHEME_CHANNELS cs) \<Rightarrow> nxt_fold updateMessageCount st cs
      | ChannelTypes (LEAVE_CHANNEL (Some d)) \<Rightarrow>
          (if cl_type d \<noteq> Some OPEN_CHANNEL then Same else New (del (cl_id d) st))
      | ChannelTypes (INCREMENT_TOTAL_MSG_COUNT channelId amount amountRoot) \<Rightarrow>
          New (increment_total_msg_count st channelId amount amountRoot)
      | UserTypes LOGOUT_SUCCESS \<Rightarrow> New []
      | _ \<Rightarrow> Same)"

section \<open>The reducer\<close>

text \<open>\<open>combineReducers\<close>: every slice sees its own part of the state and the action.\<close>

definition channels_reducer :: "channels_state \<Rightarrow> redux_action \<Rightarrow> channels_state option" where
  "channels_reducer st a =
     (case myMembers (cs_myMembers st) a of
        None \<Rightarrow> None
      | Some mine \<Rightarrow> Some
          \<lparr>cs_currentChannelId = currentChannelId (cs_currentChannelId st) a,
           cs_channels = upd (cs_channels st) (channels (cs_channels st) a),
           cs_channelsInTeam = upd (cs_channelsInTeam st) (channelsInTeam (cs_channelsInTeam st) a),
           cs_myMembers = upd (cs_myMembers st) mine,
           cs_roles = upd (cs_roles st) (roles (cs_roles st) a),
           cs_membersInChannel = upd (cs_membersInChannel st) (membersInChannel (cs_membersInChannel st) a),
           cs_stats = upd (cs_stats st) (stats (cs_stats st) a),
           cs_groupsAssociatedToChannel =
             upd (cs_groupsAssociatedToChannel st) (groupsAssociatedToChannel (cs_groupsAssociatedToChannel st) a),
           cs_totalCount = totalCount (cs_totalCount st) a,
           cs_manuallyUnread = upd (cs_manuallyUnread st) (manuallyUnread (cs_manuallyUnread st) a),
           cs_channelModerations = upd (cs_channelModerations st) (channelModerations (cs_channelModerations st) a),
           cs_channelMemberCountsByGroup =
             upd (cs_channelMemberCountsByGroup st) (channelMemberCountsByGroup (cs_channelMemberCountsByGroup st) a),
           cs_messageCounts = upd (cs_messageCounts st) (messageCounts (cs_messageCounts st) a),
           cs_channelsMemberCount = upd (cs_channelsMemberCount st) (channelsMemberCount (cs_channelsMemberCount st) a),
           cs_restrictedDMs = upd (cs_restrictedDMs st) (restrictedDMs (cs_restrictedDMs st) a)\<rparr>)"

end
