(* ===== verification/Teams.thy ===== *)
theory Teams
  imports Channels
begin

text \<open>
  The teams of the store: \<open>reducers/entities/teams.ts\<close>, one definition per slice of the state, and
  the helpers of \<open>utils/team_utils.ts\<close>. It counts the unread posts of a team on the very actions
  the channels count the read posts of a channel on.
\<close>

section \<open>Utilities\<close>

definition teamListToMap :: "team list \<Rightarrow> team obj" where
  "teamListToMap teamList = foldl (\<lambda>acc t. put (te_id t) t acc) [] teamList"

text \<open>
  \<open>toLowerCase\<close> and \<open>localeCompare\<close> are the engine's; a list may hold \<open>undefined\<close>. (The types
  declare \<open>name\<close> and \<open>display_name\<close> strings; a team without them would throw.)
\<close>

definition filterTeamsStartingWithTerm ::
  "(string \<Rightarrow> string) \<Rightarrow> team option list \<Rightarrow> string \<Rightarrow> team option list" where
  "filterTeamsStartingWithTerm lower ts term =
     (let lowercasedTerm = lower term
      in filter (\<lambda>t. case t of None \<Rightarrow> False
           | Some team \<Rightarrow> starts_with lowercasedTerm (lower (te_name team)) \<or>
                          starts_with lowercasedTerm (lower (te_display_name team))) ts)"

definition sortTeamsWithLocale ::
  "(string \<Rightarrow> string) \<Rightarrow> (string \<Rightarrow> string \<Rightarrow> int) \<Rightarrow> team \<Rightarrow> team \<Rightarrow> int" where
  "sortTeamsWithLocale lower localeCompare a b =
     (if te_display_name a \<noteq> te_display_name b
      then localeCompare (lower (te_display_name a)) (lower (te_display_name b))
      else localeCompare (lower (te_name a)) (lower (te_name b)))"

section \<open>The selected team and the teams\<close>

definition currentTeamId :: "string \<Rightarrow> redux_action \<Rightarrow> string" where
  "currentTeamId st a =
     (case a of
        TeamTypes (SELECT_TEAM team) \<Rightarrow> team
      | UserTypes LOGOUT_SUCCESS \<Rightarrow> []
      | _ \<Rightarrow> st)"

definition update_team :: "team obj \<Rightarrow> string \<Rightarrow> (team \<Rightarrow> team) \<Rightarrow> team obj nxt" where
  "update_team st i f = (case get st i of None \<Rightarrow> Same | Some t \<Rightarrow> New (put i (f t) st))"

text \<open>A deletion that leaves the state alone when there is nothing to delete.\<close>

definition delete_own :: "'v obj \<Rightarrow> string \<Rightarrow> 'v obj nxt" where
  "delete_own st i = (if get st i = None then Same else New (del i st))"

definition teams :: "team obj \<Rightarrow> redux_action \<Rightarrow> team obj nxt" where
  "teams st a =
     (case a of
        TeamTypes (RECEIVED_TEAMS_LIST ts) \<Rightarrow> New (obj_spread st (teamListToMap ts))
      | SchemeTypes (RECEIVED_SCHEME_TEAMS ts) \<Rightarrow> New (obj_spread st (teamListToMap ts))
      | AdminTypes (RECEIVED_DATA_RETENTION_CUSTOM_POLICY_TEAMS_SEARCH ts) \<Rightarrow> New (obj_spread st (teamListToMap ts))
      | AdminTypes (RECEIVED_DATA_RETENTION_CUSTOM_POLICY_TEAMS ts) \<Rightarrow> New (obj_spread st (teamListToMap ts))
      | UserTypes (LOGIN user ts teamMembers teamUnreads) \<Rightarrow> New (obj_spread st (teamListToMap ts))
      | TeamTypes (RECEIVED_TEAMS data) \<Rightarrow> New (obj_spread st data)
      | TeamTypes (CREATED_TEAM t) \<Rightarrow> New (put (te_id t) t st)
      | TeamTypes (UPDATED_TEAM t) \<Rightarrow> New (put (te_id t) t st)
      | TeamTypes (PATCHED_TEAM t) \<Rightarrow> New (put (te_id t) t st)
      | TeamTypes (REGENERATED_TEAM_INVITE_ID t) \<Rightarrow> New (put (te_id t) t st)
      | TeamTypes (RECEIVED_TEAM t) \<Rightarrow> New (put (te_id t) t st)
      | TeamTypes (RECEIVED_TEAM_DELETED i) \<Rightarrow> delete_own st i
      | TeamTypes (RECEIVED_TEAM_UNARCHIVED t) \<Rightarrow> New (put (te_id t) t st)
      | TeamTypes (UPDATED_TEAM_SCHEME i schemeId) \<Rightarrow> update_team st i (\<lambda>t. t\<lparr>te_scheme_id := schemeId\<rparr>)
      | AdminTypes (REMOVE_DATA_RETENTION_CUSTOM_POLICY_TEAMS_SUCCESS ids) \<Rightarrow>
          New (foldl (\<lambda>next i. upd next (update_team next i (\<lambda>t. t\<lparr>te_policy_id := None\<rparr>))) st ids)
      | UserTypes LOGOUT_SUCCESS \<Rightarrow> New []
      | _ \<Rightarrow> Same)"

section \<open>My memberships\<close>

text \<open>\<open>m.delete_at == null || m.delete_at === 0\<close>\<close>

definition not_deleted :: "team_membership \<Rightarrow> bool" where
  "not_deleted m \<longleftrightarrow> (case tm_delete_at m of None \<Rightarrow> True | Some n \<Rightarrow> n = 0)"

text \<open>The memberships of the teams that turn out to be archived are dropped (\<open>updateState\<close>).\<close>

definition updateState :: "team obj \<Rightarrow> team_membership obj \<Rightarrow> team_membership obj" where
  "updateState receivedTeams st =
     foldl (\<lambda>next i. case get receivedTeams i of
              Some t \<Rightarrow> (if 0 < te_delete_at t then del i next else next)
            | None \<Rightarrow> next) st (obj_keys receivedTeams)"

text \<open>
  \<open>{...prevMember, ...m}\<close>: what the server sends of a membership has no counts, and those of the
  previous one show through. Every other property is sent.
\<close>

definition or_else :: "jsnum \<Rightarrow> jsnum \<Rightarrow> jsnum" where
  "or_else a b = (if a = Undefined then b else a)"

definition spread_member :: "team_membership \<Rightarrow> team_membership \<Rightarrow> team_membership" where
  "spread_member prev m =
     m\<lparr>tm_mention_count := or_else (tm_mention_count m) (tm_mention_count prev),
       tm_mention_count_root := or_else (tm_mention_count_root m) (tm_mention_count_root prev),
       tm_msg_count := or_else (tm_msg_count m) (tm_msg_count prev),
       tm_msg_count_root := or_else (tm_msg_count_root m) (tm_msg_count_root prev),
       tm_thread_count := or_else (tm_thread_count m) (tm_thread_count prev),
       tm_thread_mention_count := or_else (tm_thread_mention_count m) (tm_thread_mention_count prev),
       tm_thread_urgent_mention_count :=
         or_else (tm_thread_urgent_mention_count m) (tm_thread_urgent_mention_count prev)\<rparr>"

text \<open>\<open>{mention_count: 0, msg_count: 0, mention_count_root: 0, msg_count_root: 0}\<close>\<close>

definition zero_member :: team_membership where
  "zero_member = no_team_membership\<lparr>tm_mention_count := Num 0, tm_msg_count := Num 0,
     tm_mention_count_root := Num 0, tm_msg_count_root := Num 0\<rparr>"

definition my_team_members_received :: "team_membership obj \<Rightarrow> team_membership list \<Rightarrow> team_membership obj" where
  "my_team_members_received st ms =
     foldl (\<lambda>next m. if not_deleted m
              then put (tm_team_id m) (spread_member (get_or zero_member st (tm_team_id m)) m) next
              else next) [] ms"

text \<open>
  \<open>RECEIVED_MY_TEAM_UNREADS\<close> reads the previous members from \<open>state\<close>; a count below zero is stored
  as zero.
\<close>

definition at_least_zero :: "int \<Rightarrow> jsnum" where
  "at_least_zero n = Num (if n < 0 then 0 else n)"

definition my_team_unreads_received :: "team_membership obj \<Rightarrow> team_unread list \<Rightarrow> team_membership obj" where
  "my_team_unreads_received st unreads =
     foldl (\<lambda>next u. put (u_team_id u)
              ((get_or no_team_membership st (u_team_id u))
                \<lparr>tm_mention_count := at_least_zero (u_mention_count u),
                 tm_msg_count := at_least_zero (u_msg_count u),
                 tm_mention_count_root := at_least_zero (u_mention_count_root u),
                 tm_msg_count_root := at_least_zero (u_msg_count_root u)\<rparr>) next) st unreads"

definition update_member ::
  "team_membership obj \<Rightarrow> string \<Rightarrow> (team_membership \<Rightarrow> team_membership) \<Rightarrow> team_membership obj nxt" where
  "update_member st i f = (case get st i of None \<Rightarrow> Same | Some m \<Rightarrow> New (put i (f m) st))"

definition team_increment_msg :: "team_membership obj \<Rightarrow> unread_change \<Rightarrow> team_membership obj nxt" where
  "team_increment_msg st d =
     (case get st (uc_teamId d) of
        None \<Rightarrow> Same
      | Some m \<Rightarrow>
          (if uc_onlyMentions d then Same
           else New (put (uc_teamId d)
             (m\<lparr>tm_msg_count := tm_msg_count m + uc_amount d,
                tm_msg_count_root := tm_msg_count_root m + uc_amountRoot d\<rparr>) st)))"

definition team_decrement_msg :: "unread_change \<Rightarrow> team_membership \<Rightarrow> team_membership" where
  "team_decrement_msg d m =
     m\<lparr>tm_msg_count := js_max (tm_msg_count m - js_abs (uc_amount d)) (Num 0),
       tm_msg_count_root := js_max (tm_msg_count_root m - js_abs (uc_amountRoot d)) (Num 0)\<rparr>"

definition team_increment_mention :: "unread_change \<Rightarrow> team_membership \<Rightarrow> team_membership" where
  "team_increment_mention d m =
     m\<lparr>tm_mention_count := tm_mention_count m + uc_amount d,
       tm_mention_count_root := tm_mention_count_root m + uc_amountRoot d\<rparr>"

definition team_decrement_mention :: "unread_change \<Rightarrow> team_membership \<Rightarrow> team_membership" where
  "team_decrement_mention d m =
     m\<lparr>tm_mention_count := js_max (tm_mention_count m - uc_amount d) (Num 0),
       tm_mention_count_root := js_max (tm_mention_count_root m - uc_amountRoot d) (Num 0)\<rparr>"

definition team_post_unread :: "team_membership obj \<Rightarrow> post_unread \<Rightarrow> team_membership obj nxt" where
  "team_post_unread st d =
     update_member st (key_of (pu_teamId d)) (\<lambda>m.
       m\<lparr>tm_msg_count := (if tm_msg_count m = Undefined then pu_msgCount d else tm_msg_count m - pu_deltaMsgs d),
         tm_mention_count := (if tm_mention_count m = Undefined then pu_mentionCount d
                              else tm_mention_count m + pu_mentionCount d)\<rparr>)"

definition login_members ::
  "team_membership obj \<Rightarrow> team_membership list \<Rightarrow> team_unread list \<Rightarrow> team_membership obj" where
  "login_members st teamMembers teamUnreads =
     foldl (\<lambda>next m. if not_deleted m then
              put (tm_team_id m)
                (case find (\<lambda>u. u_team_id u = tm_team_id m) teamUnreads of
                   None \<Rightarrow> m
                 | Some unread \<Rightarrow>
                     m\<lparr>tm_mention_count := Num (u_mention_count unread), tm_msg_count := Num (u_msg_count unread),
                       tm_mention_count_root := Num (u_mention_count_root unread),
                       tm_msg_count_root := Num (u_msg_count_root unread)\<rparr>) next
              else next) st teamMembers"

definition updateMyTeamMemberSchemeRoles ::
  "team_membership obj \<Rightarrow> scheme_roles_change \<Rightarrow> team_membership obj nxt" where
  "updateMyTeamMemberSchemeRoles st d =
     update_member st (sr_id d) (\<lambda>m. m\<lparr>tm_scheme_user := sr_isSchemeUser d, tm_scheme_admin := sr_isSchemeAdmin d\<rparr>)"

definition myTeamMembers :: "team_membership obj \<Rightarrow> redux_action \<Rightarrow> team_membership obj nxt" where
  "myTeamMembers st a =
     (case a of
        TeamTypes (RECEIVED_MY_TEAM_MEMBER m) \<Rightarrow>
          New (if tm_delete_at m = Some 0 then put (tm_team_id m) m st else st)
      | TeamTypes (RECEIVED_MY_TEAM_MEMBERS ms) \<Rightarrow> New (my_team_members_received st ms)
      | TeamTypes (RECEIVED_TEAMS_LIST ts) \<Rightarrow> New (updateState (teamListToMap ts) st)
      | TeamTypes (RECEIVED_TEAMS data) \<Rightarrow> New (updateState data st)
      | TeamTypes (RECEIVED_MY_TEAM_UNREADS unreads) \<Rightarrow> New (my_team_unreads_received st unreads)
      | ChannelTypes (INCREMENT_UNREAD_MSG_COUNT d) \<Rightarrow> team_increment_msg st d
      | ChannelTypes (DECREMENT_UNREAD_MSG_COUNT d) \<Rightarrow> update_member st (uc_teamId d) (team_decrement_msg d)
      | ChannelTypes (INCREMENT_UNREAD_MENTION_COUNT d) \<Rightarrow> update_member st (uc_teamId d) (team_increment_mention d)
      | ChannelTypes (DECREMENT_UNREAD_MENTION_COUNT d) \<Rightarrow> update_member st (uc_teamId d) (team_decrement_mention d)
      | TeamTypes (LEAVE_TEAM i) \<Rightarrow> New (del i st)
      | TeamTypes (RECEIVED_TEAM_DELETED i) \<Rightarrow> New (del i st)
      | TeamTypes (UPDATED_TEAM_MEMBER_SCHEME_ROLES d) \<Rightarrow> updateMyTeamMemberSchemeRoles st d
      | ChannelTypes (POST_UNREAD_SUCCESS d) \<Rightarrow> team_post_unread st d
      | UserTypes (LOGIN user ts teamMembers teamUnreads) \<Rightarrow> New (login_members st teamMembers teamUnreads)
      | UserTypes LOGOUT_SUCCESS \<Rightarrow> New []
      | _ \<Rightarrow> Same)"

section \<open>Members, statistics, groups\<close>

definition put_member :: "team_membership obj obj \<Rightarrow> team_membership \<Rightarrow> team_membership obj obj" where
  "put_member st m = put (tm_team_id m) (put (tm_user_id m) m (get_or [] st (tm_team_id m))) st"

definition updateTeamMemberSchemeRoles ::
  "team_membership obj obj \<Rightarrow> scheme_roles_change \<Rightarrow> team_membership obj obj nxt" where
  "updateTeamMemberSchemeRoles st d =
     (case get st (sr_id d) of
        None \<Rightarrow> Same
      | Some members \<Rightarrow>
          (case get members (sr_userId d) of
             None \<Rightarrow> Same
           | Some m \<Rightarrow> New (put (sr_id d)
               (put (sr_userId d)
                  (m\<lparr>tm_scheme_user := sr_isSchemeUser d, tm_scheme_admin := sr_isSchemeAdmin d\<rparr>) members) st)))"

text \<open>\<open>RECEIVED_MEMBERS_IN_TEAM\<close> stores every member under the team of the first.\<close>

definition membersInTeam :: "team_membership obj obj \<Rightarrow> redux_action \<Rightarrow> team_membership obj obj nxt" where
  "membersInTeam st a =
     (case a of
        TeamTypes (RECEIVED_MEMBER_IN_TEAM m) \<Rightarrow> New (put_member st m)
      | TeamTypes (RECEIVED_TEAM_MEMBERS ms) \<Rightarrow> (if ms = [] then Same else New (foldl put_member st ms))
      | TeamTypes (RECEIVED_MEMBERS_IN_TEAM ms) \<Rightarrow>
          (case ms of
             [] \<Rightarrow> Same
           | m # _ \<Rightarrow>
               New (put (tm_team_id m)
                 (foldl (\<lambda>members x. put (tm_user_id x) x members) (get_or [] st (tm_team_id m)) ms) st))
      | TeamTypes (REMOVE_MEMBER_FROM_TEAM team user) \<Rightarrow>
          (case get st team of None \<Rightarrow> Same | Some members \<Rightarrow> New (put team (del user members) st))
      | TeamTypes (RECEIVED_TEAM_DELETED i) \<Rightarrow> delete_own st i
      | TeamTypes (UPDATED_TEAM_MEMBER_SCHEME_ROLES d) \<Rightarrow> updateTeamMemberSchemeRoles st d
      | UserTypes LOGOUT_SUCCESS \<Rightarrow> New []
      | _ \<Rightarrow> Same)"

definition team_stats_reducer :: "team_stats obj \<Rightarrow> redux_action \<Rightarrow> team_stats obj nxt" where
  "team_stats_reducer st a =
     (case a of
        TeamTypes (RECEIVED_TEAM_STATS s) \<Rightarrow> New (put (ts_team_id s) s st)
      | TeamTypes (RECEIVED_TEAM_DELETED i) \<Rightarrow> delete_own st i
      | UserTypes LOGOUT_SUCCESS \<Rightarrow> New []
      | _ \<Rightarrow> Same)"

definition groupsAssociatedToTeam :: "associated_groups obj \<Rightarrow> redux_action \<Rightarrow> associated_groups obj nxt" where
  "groupsAssociatedToTeam st a =
     (case a of
        GroupTypes (RECEIVED_GROUP_ASSOCIATED_TO_TEAM teamID groups) \<Rightarrow>
          New (put teamID (counted (add_ids (group_ids st teamID) groups)) st)
      | GroupTypes (RECEIVED_GROUPS_ASSOCIATED_TO_TEAM teamID groups totalGroupCount) \<Rightarrow>
          New (put teamID \<lparr>ag_ids = add_ids (group_ids st teamID) groups, ag_totalCount = totalGroupCount\<rparr> st)
      | GroupTypes (RECEIVED_ALL_GROUPS_ASSOCIATED_TO_TEAM teamID groups) \<Rightarrow>
          New (put teamID (counted (add_ids [] groups)) st)
      | GroupTypes (RECEIVED_GROUP_NOT_ASSOCIATED_TO_TEAM teamID groups) \<Rightarrow>
          New (put teamID (counted (delete_ids (group_ids st teamID) groups)) st)
      | GroupTypes (RECEIVED_GROUPS_NOT_ASSOCIATED_TO_TEAM teamID groups) \<Rightarrow>
          New (put teamID (counted (delete_ids (group_ids st teamID) groups)) st)
      | _ \<Rightarrow> Same)"

definition totalTeamCount :: "int \<Rightarrow> redux_action \<Rightarrow> int" where
  "totalTeamCount st a = (case a of TeamTypes (RECEIVED_TOTAL_TEAM_COUNT n) \<Rightarrow> n | _ \<Rightarrow> st)"

definition contentFlaggingStatus :: "bool obj \<Rightarrow> redux_action \<Rightarrow> bool obj nxt" where
  "contentFlaggingStatus st a =
     (case a of
        TeamTypes (RECEIVED_CONTENT_FLAGGING_STATUS team flag) \<Rightarrow> New (put team flag st)
      | _ \<Rightarrow> Same)"

section \<open>The reducer\<close>

definition teams_reducer :: "teams_state \<Rightarrow> redux_action \<Rightarrow> teams_state" where
  "teams_reducer st a =
     \<lparr>tes_currentTeamId = currentTeamId (tes_currentTeamId st) a,
      tes_teams = upd (tes_teams st) (teams (tes_teams st) a),
      tes_myMembers = upd (tes_myMembers st) (myTeamMembers (tes_myMembers st) a),
      tes_membersInTeam = upd (tes_membersInTeam st) (membersInTeam (tes_membersInTeam st) a),
      tes_stats = upd (tes_stats st) (team_stats_reducer (tes_stats st) a),
      tes_groupsAssociatedToTeam =
        upd (tes_groupsAssociatedToTeam st) (groupsAssociatedToTeam (tes_groupsAssociatedToTeam st) a),
      tes_totalCount = totalTeamCount (tes_totalCount st) a,
      tes_contentFlaggingStatus =
        upd (tes_contentFlaggingStatus st) (contentFlaggingStatus (tes_contentFlaggingStatus st) a)\<rparr>"

end
