(* ===== verification/ChannelUnreads.thy ===== *)
theory ChannelUnreads
  imports Teams
begin

text \<open>
  What is unread, and how it changes: \<open>isChannelMuted\<close>, \<open>calculateUnreadCount\<close> and the other
  helpers of \<open>utils/channel_utils.ts\<close>, the selectors of \<open>selectors/entities/channels.ts\<close> that
  add up the unread posts and mentions, the actions of \<open>actions/channels.ts\<close> and
  \<open>channels/src/actions/new_post.ts\<close> that mark a channel as read or unread, and the websocket
  handlers that leave or convert a channel.

  The store the actions run on is the pair of the channels and the teams, which count on the same
  actions. \<open>Date.now()\<close> is a parameter; a batch of actions is dispatched in its order
  (\<open>dispatch_all\<close>); what is sent to the server is not part of the state.
\<close>

section \<open>The store of channels and teams\<close>

record entities =
  en_channels :: channels_state
  en_teams :: teams_state

definition entities_step :: "entities \<Rightarrow> redux_action \<Rightarrow> entities option" where
  "entities_step st a =
     (case channels_reducer (en_channels st) a of
        None \<Rightarrow> None
      | Some cs \<Rightarrow> Some \<lparr>en_channels = cs, en_teams = teams_reducer (en_teams st) a\<rparr>)"

abbreviation batchActions :: "entities \<Rightarrow> redux_action list \<Rightarrow> entities option" where
  "batchActions \<equiv> dispatch_all entities_step"

section \<open>Helpers\<close>

definition isChannelMuted :: "channel_membership option \<Rightarrow> bool" where
  "isChannelMuted member =
     (case member of None \<Rightarrow> False
      | Some m \<Rightarrow> (case cm_notify_props m of None \<Rightarrow> False
         | Some np \<Rightarrow> np_mark_unread np = Some MARK_UNREAD_MENTION))"

record unread_count =
  un_showUnread :: bool
  un_mentions :: jsnum
  un_messages :: jsnum
  un_hasUrgent :: bool

text \<open>\<open>n > 0\<close>\<close>

definition js_pos :: "jsnum \<Rightarrow> bool" where
  "js_pos n = js_less (Num 0) n"

definition calculateUnreadCount ::
  "channel_message_count option \<Rightarrow> channel_membership option \<Rightarrow> bool \<Rightarrow> unread_count" where
  "calculateUnreadCount messageCount member crtEnabled =
     (case (member, messageCount) of
        (Some m, Some mc) \<Rightarrow>
          (let messages = (if crtEnabled then mc_root mc - cm_msg_count_root m else mc_total mc - cm_msg_count m);
               mentions = (if crtEnabled then cm_mention_count_root m else cm_mention_count m)
           in \<lparr>un_showUnread = (js_pos mentions \<or> (\<not> isChannelMuted (Some m) \<and> js_pos messages)),
               un_mentions = mentions, un_messages = messages,
               un_hasUrgent = js_true (cm_urgent_mention_count m)\<rparr>)
      | _ \<Rightarrow> \<lparr>un_showUnread = False, un_mentions = Num 0, un_messages = Num 0, un_hasUrgent = False\<rparr>)"

definition channel_unread :: "channels_state \<Rightarrow> string \<Rightarrow> bool \<Rightarrow> unread_count" where
  "channel_unread st i crt = calculateUnreadCount (get (cs_messageCounts st) i) (get (cs_myMembers st) i) crt"

definition countCurrentChannelUnreadMessages :: "channels_state \<Rightarrow> bool \<Rightarrow> jsnum" where
  "countCurrentChannelUnreadMessages st crtEnabled =
     (case (get (cs_myMembers st) (cs_currentChannelId st), get (cs_messageCounts st) (cs_currentChannelId st)) of
        (Some m, Some mc) \<Rightarrow> (if crtEnabled then mc_root mc - cm_msg_count_root m else mc_total mc - cm_msg_count m)
      | _ \<Rightarrow> Num 0)"

definition isManuallyUnread :: "channels_state \<Rightarrow> string \<Rightarrow> bool" where
  "isManuallyUnread st channelId \<longleftrightarrow> channelId \<noteq> [] \<and> get (cs_manuallyUnread st) channelId = Some True"

definition isDirectChannel :: "channel \<Rightarrow> bool" where
  "isDirectChannel c \<longleftrightarrow> ch_type c = DM_CHANNEL"

definition isGroupChannel :: "channel \<Rightarrow> bool" where
  "isGroupChannel c \<longleftrightarrow> ch_type c = GM_CHANNEL"

text \<open>The name of a direct channel is made of the ids of its two users, the smaller one first.\<close>

fun string_less :: "string \<Rightarrow> string \<Rightarrow> bool" where
  "string_less [] [] = False"
| "string_less [] (y # ys) = True"
| "string_less (x # xs) [] = False"
| "string_less (x # xs) (y # ys) =
     (of_char x < (of_char y :: nat) \<or> (x = y \<and> string_less xs ys))"

definition getDirectChannelName :: "string \<Rightarrow> string \<Rightarrow> string" where
  "getDirectChannelName i otherId =
     (if string_less i otherId then i @ ''__'' @ otherId else otherId @ ''__'' @ i)"

text \<open>\<open>s.split('__')\<close>, and the other of the two ids; a name of one part has no second id.\<close>

fun split_underscores :: "string \<Rightarrow> string list" where
  "split_underscores [] = [[]]"
| "split_underscores [x] = [[x]]"
| "split_underscores (x # y # xs) =
     (if x = CHR ''_'' \<and> y = CHR ''_'' then [] # split_underscores xs
      else case split_underscores (y # xs) of [] \<Rightarrow> [[x]] | ys # yss \<Rightarrow> (x # ys) # yss)"

definition getUserIdFromChannelName :: "string \<Rightarrow> string \<Rightarrow> string option" where
  "getUserIdFromChannelName userId channelName =
     (let ids = split_underscores channelName
      in if first_of ids = Some userId then (case ids of _ # other # _ \<Rightarrow> Some other | _ \<Rightarrow> None)
         else first_of ids)"

section \<open>Marking as read\<close>

definition read_change :: "string \<Rightarrow> string \<Rightarrow> jsnum \<Rightarrow> jsnum \<Rightarrow> jsnum \<Rightarrow> unread_change" where
  "read_change team i amount amountRoot amountUrgent =
     \<lparr>uc_teamId = team, uc_channelId = i, uc_amount = amount, uc_amountRoot = amountRoot,
      uc_amountUrgent = amountUrgent, uc_onlyMentions = False, uc_fetchedChannelMember = False\<rparr>"

text \<open>It reads \<open>messageCount.total\<close> without a test: it throws where a channel I am in has no count.\<close>

definition actionsToMarkChannelAsRead :: "channels_state \<Rightarrow> string \<Rightarrow> int \<Rightarrow> redux_action list option" where
  "actionsToMarkChannelAsRead st channelId viewedAt =
     (let forget = (if get (cs_channels st) channelId \<noteq> None \<and> isManuallyUnread st channelId
                    then [ChannelTypes (REMOVE_MANUALLY_UNREAD channelId)] else [])
      in case (get (cs_channels st) channelId, get (cs_myMembers st) channelId) of
           (Some channel, Some m) \<Rightarrow>
             (case get (cs_messageCounts st) channelId of
                None \<Rightarrow> None
              | Some mc \<Rightarrow> Some
                  ([ChannelTypes (DECREMENT_UNREAD_MSG_COUNT
                      (read_change (ch_team_id channel) channelId
                         (mc_total mc - cm_msg_count m) (mc_root mc - cm_msg_count_root m) Undefined)),
                    ChannelTypes (DECREMENT_UNREAD_MENTION_COUNT
                      (read_change (ch_team_id channel) channelId
                         (cm_mention_count m) (cm_mention_count_root m) (cm_urgent_mention_count m))),
                    ChannelTypes (RECEIVED_LAST_VIEWED_AT channelId (Num viewedAt))] @ forget))
         | _ \<Rightarrow> Some forget)"

definition markChannelAsRead :: "entities \<Rightarrow> string \<Rightarrow> int \<Rightarrow> entities option" where
  "markChannelAsRead st channelId now =
     do { acts \<leftarrow> actionsToMarkChannelAsRead (en_channels st) channelId now; batchActions st acts }"

text \<open>The actions of every channel are computed before the first is dispatched.\<close>

fun actions_for_times :: "channels_state \<Rightarrow> (string \<times> int) list \<Rightarrow> redux_action list option" where
  "actions_for_times st [] = Some []"
| "actions_for_times st ((i, viewedAt) # rest) =
     do { here \<leftarrow> actionsToMarkChannelAsRead st i viewedAt;
          more \<leftarrow> actions_for_times st rest;
          Some (here @ more) }"

definition markMultipleChannelsAsRead :: "entities \<Rightarrow> int obj \<Rightarrow> entities option" where
  "markMultipleChannelsAsRead st channelTimes =
     do { acts \<leftarrow> actions_for_times (en_channels st) channelTimes; batchActions st acts }"

section \<open>Marking as unread\<close>

text \<open>\<open>mentions.indexOf(id) !== -1\<close>: the ids come as the text of a JSON array.\<close>

fun mentions_user :: "string \<Rightarrow> string \<Rightarrow> bool" where
  "mentions_user [] u = (u = [])"
| "mentions_user (c # cs) u = (starts_with u (c # cs) \<or> mentions_user cs u)"

definition actionsToMarkChannelAsUnread ::
  "channels_state \<Rightarrow> string \<Rightarrow> string \<Rightarrow> string \<Rightarrow> string \<Rightarrow> bool \<Rightarrow> bool \<Rightarrow> string \<Rightarrow> redux_action list" where
  "actionsToMarkChannelAsUnread st currentUserId teamId channelId mentions fetchedChannelMember isRoot priority =
     (let amountRoot = Num (if isRoot then 1 else 0)
      in [ChannelTypes (INCREMENT_UNREAD_MSG_COUNT
            \<lparr>uc_teamId = teamId, uc_channelId = channelId, uc_amount = Num 1, uc_amountRoot = amountRoot,
             uc_amountUrgent = Undefined,
             uc_onlyMentions = isChannelMuted (get (cs_myMembers st) channelId),
             uc_fetchedChannelMember = fetchedChannelMember\<rparr>)]
         @ (if fetchedChannelMember then []
            else [ChannelTypes (INCREMENT_TOTAL_MSG_COUNT channelId (Num 1) amountRoot)])
         @ (if mentions \<noteq> [] \<and> mentions_user mentions currentUserId
            then [ChannelTypes (INCREMENT_UNREAD_MENTION_COUNT
                    \<lparr>uc_teamId = teamId, uc_channelId = channelId, uc_amount = Num 1, uc_amountRoot = amountRoot,
                     uc_amountUrgent = Num (if priority = ''urgent'' then 1 else 0),
                     uc_onlyMentions = False, uc_fetchedChannelMember = fetchedChannelMember\<rparr>)]
            else []))"

section \<open>A new post\<close>

text \<open>What a websocket message says of the post it brings, as far as the counts depend on it.\<close>

record new_post_message_props =
  np_mentions :: "string option"
  np_team_id :: string

text \<open>Whether the user is at the window (\<open>window.isActive\<close>) and who he is.\<close>

record viewer =
  vw_user_id :: string
  vw_active :: bool
  vw_crt :: bool

definition marks_as_read :: "channels_state \<Rightarrow> viewer \<Rightarrow> post \<Rightarrow> bool" where
  "marks_as_read st v p \<longleftrightarrow> \<not> isManuallyUnread st (channel_id p) \<and>
     ((user_id p = vw_user_id v \<and> \<not> isSystemMessage p \<and> \<not> isFromWebhook p) \<or>
      (channel_id p = cs_currentChannelId st \<and> vw_active v))"

text \<open>Only a post by someone else read in the open channel is reported to the server.\<close>

definition marks_as_read_on_server :: "channels_state \<Rightarrow> viewer \<Rightarrow> post \<Rightarrow> bool" where
  "marks_as_read_on_server st v p \<longleftrightarrow> \<not> shouldIgnorePost p (Some (vw_user_id v)) \<and> marks_as_read st v p \<and>
     \<not> (user_id p = vw_user_id v \<and> \<not> isSystemMessage p \<and> \<not> isFromWebhook p)"

definition post_priority :: "post \<Rightarrow> string" where
  "post_priority p =
     (case metadata p of None \<Rightarrow> []
      | Some m \<Rightarrow> (case m_priority (meta_core m) of None \<Rightarrow> [] | Some pr \<Rightarrow> pr_priority pr))"

definition setChannelReadAndViewed ::
  "channels_state \<Rightarrow> viewer \<Rightarrow> int \<Rightarrow> post \<Rightarrow> new_post_message_props \<Rightarrow> bool \<Rightarrow> redux_action list option" where
  "setChannelReadAndViewed st v now p props fetchedChannelMember =
     (if shouldIgnorePost p (Some (vw_user_id v)) then Some []
      else if marks_as_read st v p then actionsToMarkChannelAsRead st (channel_id p) now
      else Some (actionsToMarkChannelAsUnread st (vw_user_id v) (np_team_id props) (channel_id p)
                   (case np_mentions props of None \<Rightarrow> [] | Some ms \<Rightarrow> ms) fetchedChannelMember
                   (root_id p = []) (post_priority p)))"

text \<open>
  \<open>completePostReceive\<close> once the root of the thread is known: the post itself, and, unless it is
  the user's own reply in a collapsed thread, the counts. (The actions of \<open>views\<close> it adds and the
  request for a missing root post are not part of this store.)
\<close>

definition completePostReceive ::
  "entities \<Rightarrow> viewer \<Rightarrow> int \<Rightarrow> post \<Rightarrow> new_post_message_props \<Rightarrow> bool \<Rightarrow> entities option" where
  "completePostReceive st v now p props fetchedChannelMember =
     (let isCRTReply = (vw_crt v \<and> root_id p \<noteq> []);
          isCRTReplyByCurrentUser = (isCRTReply \<and> user_id p = vw_user_id v)
      in do { acts \<leftarrow> (if isCRTReplyByCurrentUser then Some []
                       else setChannelReadAndViewed (en_channels st) v now p props fetchedChannelMember);
              batchActions st (PostTypes (RECEIVED_NEW_POST p (vw_crt v)) # acts) })"

section \<open>Marking a post as unread\<close>

record channel_unread_response =
  cu_channel_id :: string
  cu_team_id :: string
  cu_msg_count :: int
  cu_msg_count_root :: int
  cu_mention_count :: int
  cu_urgent_mention_count :: int
  cu_mention_count_root :: int
  cu_last_viewed_at :: int

definition getUnreadPostData :: "channels_state \<Rightarrow> channel_unread_response \<Rightarrow> post_unread" where
  "getUnreadPostData st unreadChan =
     \<lparr>pu_teamId = Some (cu_team_id unreadChan), pu_channelId = cu_channel_id unreadChan,
      pu_msgCount = Num (cu_msg_count unreadChan), pu_mentionCount = Num (cu_mention_count unreadChan),
      pu_msgCountRoot = Num (cu_msg_count_root unreadChan),
      pu_mentionCountRoot = Num (cu_mention_count_root unreadChan),
      pu_urgentMentionCount = Num (cu_urgent_mention_count unreadChan),
      pu_lastViewedAt = Num (cu_last_viewed_at unreadChan),
      pu_deltaMsgs = (case get (cs_myMembers st) (cu_channel_id unreadChan) of
                        Some m \<Rightarrow> cm_msg_count m - Num (cu_msg_count unreadChan)
                      | None \<Rightarrow> Num (cu_msg_count unreadChan))\<rparr>"

text \<open>
  \<open>setUnreadPost\<close>: the channel is marked at once, and unmarked when the server (whose answer is
  \<open>None\<close> for an error) refuses.
\<close>

definition setUnreadPost :: "entities \<Rightarrow> string \<Rightarrow> channel_unread_response option \<Rightarrow> entities option" where
  "setUnreadPost st channelId response =
     do { st1 \<leftarrow> entities_step st (ChannelTypes (ADD_MANUALLY_UNREAD channelId));
          (case response of
             None \<Rightarrow> entities_step st1 (ChannelTypes (REMOVE_MANUALLY_UNREAD channelId))
           | Some unreadChan \<Rightarrow>
               entities_step st1 (ChannelTypes (POST_UNREAD_SUCCESS (getUnreadPostData (en_channels st1) unreadChan)))) }"

section \<open>Leaving, converting\<close>

text \<open>A channel of the store sent through an action that expects one of the server.\<close>

definition as_server_channel :: "channel \<Rightarrow> server_channel" where
  "as_server_channel c = channel.extend c (server_channel.fields Undefined Undefined)"

text \<open>\<open>leaveChannel\<close>, and what it dispatches when the server refuses.\<close>

definition leaveChannel :: "entities \<Rightarrow> string \<Rightarrow> string \<Rightarrow> bool \<Rightarrow> entities option" where
  "leaveChannel st currentUserId channelId serverAccepts =
     (let member = get (cs_myMembers (en_channels st)) channelId
      in do { channel \<leftarrow> get (cs_channels (en_channels st)) channelId;
              left \<leftarrow> entities_step st (ChannelTypes (LEAVE_CHANNEL (Some
                \<lparr>cl_id = channelId, cl_user_id = currentUserId, cl_team_id = Some (ch_team_id channel),
                 cl_type = Some (ch_type channel)\<rparr>)));
              (if serverAccepts then Some left
               else batchActions left [ChannelTypes (RECEIVED_CHANNEL (as_server_channel channel)),
                                       ChannelTypes (RECEIVED_MY_CHANNEL_MEMBER member)]) })"

text \<open>The websocket events of being removed from a channel and of a channel made private.\<close>

definition user_removed_action :: "channels_state \<Rightarrow> string \<Rightarrow> string \<Rightarrow> redux_action" where
  "user_removed_action st channelId userId =
     ChannelTypes (LEAVE_CHANNEL (Some
       \<lparr>cl_id = channelId, cl_user_id = userId,
        cl_team_id = map_option ch_team_id (get (cs_channels st) channelId), cl_type = None\<rparr>))"

definition handleChannelConvertedEvent :: "entities \<Rightarrow> string \<Rightarrow> entities option" where
  "handleChannelConvertedEvent st channelId =
     (if channelId = [] then Some st
      else case get (cs_channels (en_channels st)) channelId of
        None \<Rightarrow> Some st
      | Some c \<Rightarrow> entities_step st (ChannelTypes (RECEIVED_CHANNEL
                   (as_server_channel (c\<lparr>ch_type := PRIVATE_CHANNEL\<rparr>)))))"

section \<open>The unread posts of all channels\<close>

text \<open>\<open>totalUnreadMentions || anyUnreadThreads || Boolean(totalUnreadMessages)\<close>\<close>

datatype unread_status = Mentions jsnum | Unread bool

definition basicUnreadMeta :: "unread_status \<Rightarrow> bool \<times> jsnum" where
  "basicUnreadMeta unreadStatus =
     (case unreadStatus of
        Mentions n \<Rightarrow> (js_true n, if js_true n then n else Num 0)
      | Unread b \<Rightarrow> (b, Num 0))"

text \<open>
  A direct channel counts as long as its other user is active; \<open>deleted_at\<close> is the \<open>delete_at\<close> of a
  user, \<open>None\<close> for one that is not loaded.
\<close>

definition channelExists :: "(string \<Rightarrow> int option) \<Rightarrow> string \<Rightarrow> channel \<Rightarrow> bool" where
  "channelExists deleted_at currentUserId c =
     (if ch_type c = DM_CHANNEL
      then (case getUserIdFromChannelName currentUserId (ch_name c) of
              None \<Rightarrow> False | Some other \<Rightarrow> deleted_at other = Some 0)
      else ch_delete_at c = 0)"

definition add_channel_counts ::
  "channels_state \<Rightarrow> (string \<Rightarrow> int option) \<Rightarrow> string \<Rightarrow> bool \<Rightarrow> jsnum \<times> jsnum \<Rightarrow> string \<times> channel_membership \<Rightarrow> jsnum \<times> jsnum" where
  "add_channel_counts st deleted_at currentUserId crt counts entry =
     (let (messages, mentions) = counts; (channelId, membership) = entry
      in case get (cs_channels st) channelId of
           None \<Rightarrow> counts
         | Some channel \<Rightarrow>
             (if \<not> channelExists deleted_at currentUserId channel then counts
              else if isChannelMuted (Some membership) then counts
              else
                let own = (if crt then cm_mention_count_root membership else cm_mention_count membership);
                    unreadCount = calculateUnreadCount (get (cs_messageCounts st) channelId) (Some membership) crt
                in (if un_showUnread unreadCount then messages + un_messages unreadCount else messages,
                    if js_true own then mentions + own else mentions)))"

text \<open>
  Threads, when they are collapsed: in the order of \<open>threadCounts\<close>; the current team overwrites
  what the teams before it said of unread threads.
\<close>

definition add_thread_counts ::
  "thread_counts obj \<Rightarrow> string \<Rightarrow> jsnum \<times> bool \<Rightarrow> string \<times> thread_counts \<Rightarrow> jsnum \<times> bool" where
  "add_thread_counts countsIncludingDirect currentTeam acc entry =
     (let (mentions, anyUnreadThreads) = acc; (teamId, c) = entry
      in if teamId = currentTeam then
           (case get countsIncludingDirect currentTeam of
              None \<Rightarrow> (mentions + Undefined, False)
            | Some direct \<Rightarrow> (mentions + c_total_unread_mentions direct, js_true (c_total_unread_threads direct)))
         else (mentions + c_total_unread_mentions c, anyUnreadThreads \<or> js_true (c_total_unread_threads c)))"

definition unread_status_of :: "jsnum \<Rightarrow> bool \<Rightarrow> jsnum \<Rightarrow> unread_status" where
  "unread_status_of mentions anyUnreadThreads messages =
     (if js_true mentions then Mentions mentions
      else Unread (anyUnreadThreads \<or> js_true messages))"

definition getUnreadStatus ::
  "channels_state \<Rightarrow> (string \<Rightarrow> int option) \<Rightarrow> string \<Rightarrow> string \<Rightarrow> bool \<Rightarrow> thread_counts obj \<Rightarrow> thread_counts obj \<Rightarrow>
     unread_status" where
  "getUnreadStatus st deleted_at currentUserId currentTeam crt threadCounts countsIncludingDirect =
     (let (messages, mentions) =
            foldl (add_channel_counts st deleted_at currentUserId crt) (Num 0, Num 0) (cs_myMembers st);
          (totalMentions, anyUnreadThreads) =
            (if crt then foldl (add_thread_counts countsIncludingDirect currentTeam) (mentions, False) threadCounts
             else (mentions, False))
      in unread_status_of totalMentions anyUnreadThreads messages)"

section \<open>The unread posts of each team\<close>

record teams_unread =
  tu_unreads :: "string list"
  tu_mentions :: "jsnum obj"
  tu_urgent :: "bool obj"

text \<open>\<open>previous === 0 ? n : n + previous\<close> with a missing entry read as zero.\<close>

definition add_mentions :: "string \<Rightarrow> jsnum \<Rightarrow> jsnum obj \<Rightarrow> jsnum obj" where
  "add_mentions team n ob =
     (let previous = get_or (Num 0) ob team
      in put team (if js_seq previous (Num 0) then n else n + previous) ob)"

definition set_urgent :: "string \<Rightarrow> bool obj \<Rightarrow> bool obj" where
  "set_urgent team ob = (if get_or False ob team then ob else put team True ob)"

definition add_team_channel ::
  "channels_state \<Rightarrow> bool \<Rightarrow> teams_unread \<Rightarrow> string \<times> channel_membership \<Rightarrow> teams_unread" where
  "add_team_channel st crt acc entry =
     (let (channelId, membership) = entry
      in case get (cs_channels st) channelId of
           None \<Rightarrow> acc
         | Some channel \<Rightarrow>
             (if isChannelMuted (Some membership) then acc
              else if ch_type channel = DM_CHANNEL \<or> ch_type channel = GM_CHANNEL then acc
              else if ch_delete_at channel \<noteq> 0 then acc
              else
                let u = calculateUnreadCount (get (cs_messageCounts st) channelId) (Some membership) crt;
                    team = ch_team_id channel
                in \<lparr>tu_unreads = (if un_showUnread u then set_add team (tu_unreads acc) else tu_unreads acc),
                    tu_mentions = (if js_pos (un_mentions u) then add_mentions team (un_mentions u) (tu_mentions acc)
                                   else tu_mentions acc),
                    tu_urgent = (if un_hasUrgent u then set_urgent team (tu_urgent acc) else tu_urgent acc)\<rparr>))"

definition add_team_threads :: "teams_unread \<Rightarrow> string \<times> thread_counts \<Rightarrow> teams_unread" where
  "add_team_threads acc entry =
     (let (teamId, c) = entry
      in \<lparr>tu_unreads = (if js_pos (c_total_unread_threads c) then set_add teamId (tu_unreads acc) else tu_unreads acc),
          tu_mentions = (if js_pos (c_total_unread_mentions c)
                         then add_mentions teamId (c_total_unread_mentions c) (tu_mentions acc) else tu_mentions acc),
          tu_urgent = (if js_true (c_total_unread_urgent_mentions c)
                       then set_urgent teamId (tu_urgent acc) else tu_urgent acc)\<rparr>)"

definition getTeamsUnreadStatuses :: "channels_state \<Rightarrow> bool \<Rightarrow> thread_counts obj \<Rightarrow> teams_unread" where
  "getTeamsUnreadStatuses st crt teamThreadCounts =
     (let acc = foldl (add_team_channel st crt) \<lparr>tu_unreads = [], tu_mentions = [], tu_urgent = []\<rparr> (cs_myMembers st)
      in if crt then foldl add_team_threads acc teamThreadCounts else acc)"

section \<open>The unread channels\<close>

text \<open>The last unread channel stays in the list while it is open, as long as I am a member.\<close>

definition getUnreadChannelIds ::
  "channels_state \<Rightarrow> bool \<Rightarrow> string list \<Rightarrow> string option \<Rightarrow> string list" where
  "getUnreadChannelIds st crt teamChannelIds lastUnreadChannel =
     (let unreadIds = filter (\<lambda>i. un_showUnread (channel_unread st i crt)) teamChannelIds
      in case lastUnreadChannel of
           None \<Rightarrow> unreadIds
         | Some i \<Rightarrow> (if get (cs_myMembers st) i \<noteq> None \<and> i \<notin> set unreadIds then unreadIds @ [i] else unreadIds))"

definition getAllTeamsUnreadChannelIds :: "channels_state \<Rightarrow> bool \<Rightarrow> string list \<Rightarrow> string list" where
  "getAllTeamsUnreadChannelIds st crt allTeamsChannelIds =
     filter (\<lambda>i. un_showUnread (channel_unread st i crt)) allTeamsChannelIds"

text \<open>
  The order of the unread channels: muted ones last, those with mentions first, then by recency. The
  last unread channel is given with its \<open>hadMentions\<close>.
\<close>

definition has_mentions :: "channel_membership obj \<Rightarrow> (string \<times> bool) option \<Rightarrow> channel \<Rightarrow> bool" where
  "has_mentions members lastUnreadChannel c =
     (if (case lastUnreadChannel of None \<Rightarrow> False | Some (i, hadMentions) \<Rightarrow> ch_id c = i \<and> hadMentions) then True
      else case get members (ch_id c) of None \<Rightarrow> True | Some m \<Rightarrow> \<not> js_seq (cm_mention_count m) (Num 0))"

definition last_active_at :: "bool \<Rightarrow> channel \<Rightarrow> int" where
  "last_active_at crt c = max (if crt then ch_last_root_post_at c else ch_last_post_at c) (ch_create_at c)"

definition compareUnreadChannels ::
  "channel_membership obj \<Rightarrow> (string \<times> bool) option \<Rightarrow> bool \<Rightarrow> channel \<Rightarrow> channel \<Rightarrow> int" where
  "compareUnreadChannels members lastUnreadChannel crt a b =
     (let muted = (\<lambda>c. isChannelMuted (get members (ch_id c)));
          mentioned = has_mentions members lastUnreadChannel
      in if muted a \<and> \<not> muted b then 1
         else if \<not> muted a \<and> muted b then -1
         else if mentioned a \<and> \<not> mentioned b then -1
         else if \<not> mentioned a \<and> mentioned b then 1
         else last_active_at crt b - last_active_at crt a)"

definition sortUnreadChannels ::
  "channel list \<Rightarrow> channel_membership obj \<Rightarrow> (string \<times> bool) option \<Rightarrow> bool \<Rightarrow> channel list" where
  "sortUnreadChannels cs members lastUnreadChannel crt =
     js_sort (compareUnreadChannels members lastUnreadChannel crt) cs"

section \<open>The channels of a team\<close>

text \<open>
  The maps from names to channels look every id of the team's set up and read the channel's name: they
  throw on an id whose channel is not in the store. So does the list of direct channels.
\<close>

definition getChannelsNameMapInTeam :: "channels_state \<Rightarrow> string \<Rightarrow> channel obj option" where
  "getChannelsNameMapInTeam st teamId =
     foldl (\<lambda>acc i. case acc of None \<Rightarrow> None
              | Some channelMap \<Rightarrow> (case get (cs_channels st) i of
                  None \<Rightarrow> None | Some c \<Rightarrow> Some (put (ch_name c) c channelMap)))
       (Some []) (get_or [] (cs_channelsInTeam st) teamId)"

definition getGroupChannelIds :: "channels_state \<Rightarrow> string list option" where
  "getGroupChannelIds st =
     foldl (\<lambda>acc i. case acc of None \<Rightarrow> None
              | Some ids \<Rightarrow> (case get (cs_channels st) i of
                  None \<Rightarrow> None | Some c \<Rightarrow> Some (if ch_type c = GM_CHANNEL then ids @ [i] else ids)))
       (Some []) (get_or [] (cs_channelsInTeam st) [])"

definition getChannelsIdForTeam :: "channels_state \<Rightarrow> string \<Rightarrow> string list" where
  "getChannelsIdForTeam st teamId =
     map ch_id (filter (\<lambda>c. ch_team_id c = teamId) (obj_values (cs_channels st)))"

definition getChannelByName_in :: "channel obj \<Rightarrow> string \<Rightarrow> channel option" where
  "getChannelByName_in cs name = find (\<lambda>c. ch_name c = name) (obj_values cs)"

end
