(* ===== verification/ChannelSamples.thy ===== *)
theory ChannelSamples
  imports ChannelUnreads Samples
begin

text \<open>A small concrete store of one channel, on which the theorems about channels are applied.\<close>

definition sample_member :: channel_membership where
  "sample_member = no_membership\<lparr>cm_channel_id := ''c'', cm_user_id := ''u'', cm_last_viewed_at := Num 10,
     cm_msg_count := Num 3, cm_msg_count_root := Num 2, cm_mention_count := Num 0,
     cm_mention_count_root := Num 0, cm_urgent_mention_count := Num 0, cm_last_update_at := Num 5\<rparr>"

definition sample_channel :: server_channel where
  "sample_channel = \<lparr>ch_id = ''c'', ch_create_at = 1, ch_update_at = 1, ch_delete_at = 0, ch_team_id = ''t'',
     ch_type = OPEN_CHANNEL, ch_display_name = ''C'', ch_name = ''c'', ch_header = [], ch_purpose = [],
     ch_last_post_at = 1, ch_last_root_post_at = 1, ch_creator_id = [], ch_scheme_id = [], ch_teammate_id = None,
     ch_status = None, ch_group_constrained = False, ch_shared = False, ch_props = None, ch_policy_id = None,
     ch_banner_info = None, ch_policy_enforced = False, ch_default_category_name = None,
     total_msg_count = Num 3, total_msg_count_root = Num 2\<rparr>"

definition sample_channels :: channels_state where
  "sample_channels = init_channels_state\<lparr>cs_channels := [(''c'', toClientChannel sample_channel)],
     cs_channelsInTeam := [(''t'', [''c''])], cs_myMembers := [(''c'', sample_member)],
     cs_messageCounts := [(''c'', \<lparr>mc_root = Num 2, mc_total = Num 3\<rparr>)]\<rparr>"

definition sample_viewer :: viewer where
  "sample_viewer = \<lparr>vw_user_id = ''u'', vw_active = True, vw_crt = False\<rparr>"

definition sample_entities :: entities where
  "sample_entities = \<lparr>en_channels = sample_channels, en_teams = init_teams_state\<rparr>"

definition sample_props :: new_post_message_props where
  "sample_props = \<lparr>np_mentions = Some ''[u]'', np_team_id = ''t''\<rparr>"

lemmas channel_sample_defs = sample_member_def sample_channel_def sample_channels_def sample_viewer_def
  sample_props_def sample_entities_def no_membership_def init_channels_state_def
  toClientChannel_def channel.truncate_def

end
