(* ===== verification/ChannelUnreadsProps.thy ===== *)
theory ChannelUnreadsProps
  imports ChannelSamples
begin

text \<open>
  What the counts of unread posts guarantee: a channel of the store always has a message count, so
  marking it as read does not throw; marking as read leaves nothing unread and forgets the manual
  mark; a post of somebody else adds one; and over any sequence of posts and readings the count is
  that of a ledger which only remembers what came since the last reading.
\<close>

section \<open>One action at a time\<close>

lemmas channel_slices =
  channels_def channelsInTeam_def myMembers_def roles_def membersInChannel_def stats_def
  groupsAssociatedToChannel_def totalCount_def manuallyUnread_def channelModerations_def
  channelMemberCountsByGroup_def messageCounts_def channelsMemberCount_def restrictedDMs_def
  currentChannelId_def

text \<open>The slices the counts live in, after one action.\<close>

lemma entities_step_channels:
  "entities_step st a = Some st' \<Longrightarrow> channels_reducer (en_channels st) a = Some (en_channels st')"
  by (auto simp: entities_step_def split: option.splits)

lemma entities_step_iff:
  "(\<exists>st'. entities_step st a = Some st') \<longleftrightarrow> myMembers (cs_myMembers (en_channels st)) a \<noteq> None"
  by (auto simp: entities_step_def channels_reducer_def split: option.splits)

lemma reducer_slices:
  assumes "channels_reducer cs a = Some cs'"
  shows "myMembers (cs_myMembers cs) a = Some n \<Longrightarrow> cs_myMembers cs' = upd (cs_myMembers cs) n"
    and "cs_channels cs' = upd (cs_channels cs) (channels (cs_channels cs) a)"
    and "cs_channelsInTeam cs' = upd (cs_channelsInTeam cs) (channelsInTeam (cs_channelsInTeam cs) a)"
    and "cs_messageCounts cs' = upd (cs_messageCounts cs) (messageCounts (cs_messageCounts cs) a)"
    and "cs_manuallyUnread cs' = upd (cs_manuallyUnread cs) (manuallyUnread (cs_manuallyUnread cs) a)"
    and "cs_currentChannelId cs' = currentChannelId (cs_currentChannelId cs) a"
  using assms by (auto simp: channels_reducer_def split: option.splits)

section \<open>Every channel has a count\<close>

text \<open>The channels are stored under their ids, and each has a message count.\<close>

definition counted_channels :: "channels_state \<Rightarrow> bool" where
  "counted_channels cs \<longleftrightarrow> (\<forall>i c. get (cs_channels cs) i = Some c \<longrightarrow>
     ch_id c = i \<and> get (cs_messageCounts cs) i \<noteq> None)"

lemma ch_id_keep [simp]: "ch_id (keep_display_name st c) = ch_id c"
  by (simp add: keep_display_name_def split: option.splits)

lemma ch_id_toClient [simp]: "ch_id (toClientChannel c) = ch_id c"
  by (simp add: toClientChannel_def channel.truncate_def)

lemma get_updateMessageCount:
  "get (upd st (updateMessageCount st c)) i \<noteq> None \<longleftrightarrow> get st i \<noteq> None \<or> i = ch_id c"
  by (auto simp: updateMessageCount_def Let_def split: option.splits)

lemma get_updateMessageCounts:
  "get (upd st (nxt_fold updateMessageCount st cs)) i \<noteq> None \<longleftrightarrow> get st i \<noteq> None \<or> i \<in> ch_id ` set cs"
proof (induction cs rule: rev_induct)
  case (snoc c cs)
  then show ?case by (simp only: upd_nxt_fold_snoc get_updateMessageCount) auto
qed simp

text \<open>A key of an object built by \<open>put\<close>s in a loop comes from the object or from the list.\<close>

lemma foldl_put_origin:
  "get (foldl (\<lambda>next x. put (k x) (f x) next) st xs) i = Some c \<Longrightarrow>
     get st i = Some c \<or> (\<exists>x \<in> set xs. k x = i \<and> f x = c)"
  by (induction xs arbitrary: st) (fastforce split: if_splits)+

lemma get_channels_received:
  "get (upd st (channels_received st data)) i = Some c \<Longrightarrow>
     get st i = Some c \<or> (\<exists>sc \<in> set data. ch_id sc = i \<and> c = keep_display_name st (toClientChannel sc))"
  using foldl_put_origin [of ch_id "keep_display_name st" st "map toClientChannel data" i c]
  by (auto simp: channels_received_def split: if_splits)

lemma get_channelListToMap:
  "get (channelListToMap cs) i = Some c \<Longrightarrow> c \<in> set cs \<and> ch_id c = i"
  using foldl_put_origin [of ch_id "\<lambda>c. c" "[]" cs i c] by (auto simp: channelListToMap_def)

lemma wf_channelListToMap: "wf_obj (channelListToMap cs)"
  unfolding channelListToMap_def by (rule wf_foldl_put) simp

lemma get_update_channel:
  "get (upd st (update_channel st j f)) i = (if i = j then map_option f (get st j) else get st i)"
  by (auto simp: update_channel_def split: option.splits)

lemma get_update_channels:
  assumes "\<And>c. ch_id (f c) = ch_id c"
  shows "get (foldl (\<lambda>next j. upd next (update_channel next j f)) st js) i = Some c \<Longrightarrow>
           \<exists>c0. get st i = Some c0 \<and> ch_id c = ch_id c0"
proof (induction js arbitrary: st)
  case (Cons j js)
  then obtain c0 where "get (upd st (update_channel st j f)) i = Some c0" "ch_id c = ch_id c0" by auto
  then show ?case using assms by (auto simp: get_update_channel split: if_splits)
qed simp

text \<open>The one fact the invariant needs of the channels: an id that is new is one of the action's.\<close>

definition received_channels :: "redux_action \<Rightarrow> server_channel list" where
  "received_channels a =
     (case a of
        ChannelTypes (RECEIVED_CHANNEL c) \<Rightarrow> [c]
      | AdminTypes (RECEIVED_DATA_RETENTION_CUSTOM_POLICY_CHANNELS cs) \<Rightarrow> cs
      | AdminTypes (RECEIVED_DATA_RETENTION_CUSTOM_POLICY_CHANNELS_SEARCH cs) \<Rightarrow> cs
      | ChannelTypes (RECEIVED_CHANNELS cs) \<Rightarrow> cs
      | ChannelTypes (RECEIVED_ALL_CHANNELS cs) \<Rightarrow> cs
      | SchemeTypes (RECEIVED_SCHEME_CHANNELS cs) \<Rightarrow> cs
      | _ \<Rightarrow> [])"

lemma channels_ids:
  assumes old: "\<And>j c. get st j = Some c \<Longrightarrow> ch_id c = j"
    and "get (upd st (channels st a)) i = Some c"
  shows "ch_id c = i \<and> (get st i \<noteq> None \<or> i \<in> ch_id ` set (received_channels a))"
proof -
  have received: "ch_id c = i \<and> (get st i \<noteq> None \<or> i \<in> ch_id ` set data)"
    if "get (upd st (channels_received st data)) i = Some c" for data
    using get_channels_received [OF that] old by auto
  have mapped: "ch_id c = i \<and> (get st i \<noteq> None \<or> i \<in> ch_id ` set data)"
    if "get (obj_spread st (channelListToMap (map toClientChannel data))) i = Some c" for data
    using that old get_channelListToMap [of "map toClientChannel data" i c]
    by (auto simp: get_obj_spread_wf wf_channelListToMap split: option.splits)
  have updated: "ch_id c = i \<and> get st i \<noteq> None"
    if "get (foldl (\<lambda>next j. upd next (update_channel next j (\<lambda>c. c\<lparr>ch_policy_id := None\<rparr>))) st js) i = Some c" for js
    using get_update_channels [OF _ that] old by auto
  note simps = channels_def received_channels_def Let_def new_post_in_channel_def get_update_channel old
  show ?thesis
  proof (cases a)
    case (ChannelTypes t)
    then show ?thesis
      using assms(2) received by (cases t) (auto simp: simps split: option.splits if_splits)
  next
    case (AdminTypes t)
    then show ?thesis
      using assms(2) received mapped updated by (cases t) (auto simp: simps split: option.splits if_splits)
  next
    case (UserTypes t)
    then show ?thesis using assms(2) by (cases t) (auto simp: simps)
  next
    case (SchemeTypes t)
    then show ?thesis using assms(2) received by (cases t) (auto simp: simps)
  next
    case (PostTypes t)
    then show ?thesis using assms(2) by (cases t) (auto simp: simps split: option.splits if_splits)
  qed (use assms(2) in \<open>auto simp: simps\<close>)
qed

lemma messageCounts_kept:
  assumes "get st i \<noteq> None \<or> i \<in> ch_id ` set (received_channels a)"
    and "\<And>d. a = ChannelTypes (LEAVE_CHANNEL (Some d)) \<Longrightarrow> cl_id d \<noteq> i" and "a \<noteq> UserTypes LOGOUT_SUCCESS"
  shows "get (upd st (messageCounts st a)) i \<noteq> None"
proof -
  note simps = messageCounts_def received_channels_def increment_total_msg_count_def
  have one: "get (upd st (updateMessageCount st c)) i \<noteq> None" if "get st i \<noteq> None \<or> i = ch_id c" for c
    using that by (simp only: get_updateMessageCount)
  have many: "get (upd st (nxt_fold updateMessageCount st cs)) i \<noteq> None"
    if "get st i \<noteq> None \<or> i \<in> ch_id ` set cs" for cs
    using that by (simp only: get_updateMessageCounts)
  show ?thesis
  proof (cases a)
    case (ChannelTypes t)
    then show ?thesis
      using assms one many by (cases t) (auto simp: simps split: option.splits)
  next
    case (AdminTypes t)
    then show ?thesis using assms many by (cases t) (auto simp: simps)
  next
    case (UserTypes t)
    then show ?thesis using assms by (cases t) (auto simp: simps)
  next
    case (SchemeTypes t)
    then show ?thesis using assms many by (cases t) (auto simp: simps)
  qed (use assms in \<open>auto simp: simps\<close>)
qed

lemma counted_step:
  assumes "counted_channels cs" "channels_reducer cs a = Some cs'"
  shows "counted_channels cs'"
  unfolding counted_channels_def
proof (intro allI impI)
  fix i c
  assume c: "get (cs_channels cs') i = Some c"
  note slices = reducer_slices [OF assms(2)]
  have old: "ch_id c0 = j" if "get (cs_channels cs) j = Some c0" for j c0
    using assms(1) that by (auto simp: counted_channels_def)
  have kept: "ch_id c = i \<and> (get (cs_channels cs) i \<noteq> None \<or> i \<in> ch_id ` set (received_channels a))"
    using channels_ids [of "cs_channels cs" a i c] old c slices(2) by auto
  have "cl_id d \<noteq> i" if "a = ChannelTypes (LEAVE_CHANNEL (Some d))" for d
    using c slices(2) that by (auto simp: channels_def)
  moreover have "a \<noteq> UserTypes LOGOUT_SUCCESS" using c slices(2) by (auto simp: channels_def)
  ultimately have "get (cs_messageCounts cs') i \<noteq> None"
    unfolding slices(4) using kept assms(1)
    by (intro messageCounts_kept) (auto simp: counted_channels_def)
  with kept show "ch_id c = i \<and> get (cs_messageCounts cs') i \<noteq> None" by simp
qed

text \<open>The store of channels and teams, from the empty state, over any actions.\<close>

definition init_entities :: entities where
  "init_entities = \<lparr>en_channels = init_channels_state, en_teams = init_teams_state\<rparr>"

abbreviation counted_entities :: "entities \<Rightarrow> bool" where
  "counted_entities st \<equiv> counted_channels (en_channels st)"

interpretation unreads: redux_store entities_step "\<lambda>st a. True" counted_entities init_entities
proof unfold_locales
  show "counted_entities init_entities"
    by (simp add: init_entities_def init_channels_state_def counted_channels_def)
  show "counted_entities st \<Longrightarrow> entities_step st a = Some st' \<Longrightarrow> counted_entities st'" for st a st'
    by (auto dest: entities_step_channels counted_step)
qed

section \<open>Marking as read\<close>

lemma batch_Cons:
  "batchActions st (a # as) = (case entities_step st a of None \<Rightarrow> None | Some st' \<Rightarrow> batchActions st' as)"
  by simp

text \<open>The actions of a reading all return: the member they count for stays.\<close>

lemma counting_returns:
  "myMembers ms (ChannelTypes (DECREMENT_UNREAD_MSG_COUNT d)) = Some (decrement_unread_msg_count ms d)"
  "myMembers ms (ChannelTypes (INCREMENT_UNREAD_MSG_COUNT d)) = Some (increment_unread_msg_count ms d)"
  "myMembers ms (ChannelTypes (DECREMENT_UNREAD_MENTION_COUNT d)) = Some (decrement_unread_mention_count ms d)"
  "myMembers ms (ChannelTypes (INCREMENT_UNREAD_MENTION_COUNT d)) = Some (increment_unread_mention_count ms d)"
  "myMembers ms (ChannelTypes (RECEIVED_LAST_VIEWED_AT i t)) = received_last_viewed_at ms i t"
  "myMembers ms (ChannelTypes (INCREMENT_TOTAL_MSG_COUNT i n r)) = Some Same"
  "myMembers ms (ChannelTypes (REMOVE_MANUALLY_UNREAD i)) = Some Same"
  "myMembers ms (PostTypes pt) = Some Same"
  by (simp_all add: myMembers_def)

lemma actions_return:
  "counted_channels cs \<Longrightarrow> actionsToMarkChannelAsRead cs i now \<noteq> None"
  by (cases "get (cs_channels cs) i")
    (force simp: actionsToMarkChannelAsRead_def counted_channels_def Let_def split: option.splits)+


text \<open>What each action of a reading or of a post does to the channels.\<close>

lemma step_counting:
  "entities_step st (ChannelTypes (DECREMENT_UNREAD_MSG_COUNT d)) =
     Some \<lparr>en_channels = (en_channels st)\<lparr>cs_myMembers := upd (cs_myMembers (en_channels st))
             (decrement_unread_msg_count (cs_myMembers (en_channels st)) d)\<rparr>,
           en_teams = teams_reducer (en_teams st) (ChannelTypes (DECREMENT_UNREAD_MSG_COUNT d))\<rparr>"
  "entities_step st (ChannelTypes (INCREMENT_UNREAD_MSG_COUNT d)) =
     Some \<lparr>en_channels = (en_channels st)\<lparr>cs_myMembers := upd (cs_myMembers (en_channels st))
             (increment_unread_msg_count (cs_myMembers (en_channels st)) d)\<rparr>,
           en_teams = teams_reducer (en_teams st) (ChannelTypes (INCREMENT_UNREAD_MSG_COUNT d))\<rparr>"
  "entities_step st (ChannelTypes (DECREMENT_UNREAD_MENTION_COUNT d)) =
     Some \<lparr>en_channels = (en_channels st)\<lparr>cs_myMembers := upd (cs_myMembers (en_channels st))
             (decrement_unread_mention_count (cs_myMembers (en_channels st)) d)\<rparr>,
           en_teams = teams_reducer (en_teams st) (ChannelTypes (DECREMENT_UNREAD_MENTION_COUNT d))\<rparr>"
  "entities_step st (ChannelTypes (INCREMENT_UNREAD_MENTION_COUNT d)) =
     Some \<lparr>en_channels = (en_channels st)\<lparr>cs_myMembers := upd (cs_myMembers (en_channels st))
             (increment_unread_mention_count (cs_myMembers (en_channels st)) d)\<rparr>,
           en_teams = teams_reducer (en_teams st) (ChannelTypes (INCREMENT_UNREAD_MENTION_COUNT d))\<rparr>"
  "entities_step st (ChannelTypes (INCREMENT_TOTAL_MSG_COUNT i n r)) =
     Some \<lparr>en_channels = (en_channels st)\<lparr>cs_messageCounts :=
             increment_total_msg_count (cs_messageCounts (en_channels st)) i n r\<rparr>,
           en_teams = teams_reducer (en_teams st) (ChannelTypes (INCREMENT_TOTAL_MSG_COUNT i n r))\<rparr>"
  "entities_step st (ChannelTypes (REMOVE_MANUALLY_UNREAD i)) =
     Some \<lparr>en_channels = (en_channels st)\<lparr>cs_manuallyUnread := upd (cs_manuallyUnread (en_channels st))
             (manuallyUnread (cs_manuallyUnread (en_channels st)) (ChannelTypes (REMOVE_MANUALLY_UNREAD i)))\<rparr>,
           en_teams = teams_reducer (en_teams st) (ChannelTypes (REMOVE_MANUALLY_UNREAD i))\<rparr>"
  "entities_step st (PostTypes (RECEIVED_NEW_POST p crt)) =
     Some \<lparr>en_channels = (en_channels st)\<lparr>cs_channels := upd (cs_channels (en_channels st))
             (new_post_in_channel (cs_channels (en_channels st)) p crt)\<rparr>,
           en_teams = teams_reducer (en_teams st) (PostTypes (RECEIVED_NEW_POST p crt))\<rparr>"
  "entities_step st (ChannelTypes (RECEIVED_LAST_VIEWED_AT i t)) =
     (case received_last_viewed_at (cs_myMembers (en_channels st)) i t of
        None \<Rightarrow> None
      | Some n \<Rightarrow> Some \<lparr>en_channels = (en_channels st)\<lparr>cs_myMembers := upd (cs_myMembers (en_channels st)) n\<rparr>,
           en_teams = teams_reducer (en_teams st) (ChannelTypes (RECEIVED_LAST_VIEWED_AT i t))\<rparr>)"
  by (simp_all add: entities_step_def channels_reducer_def channel_slices split: option.splits)

text \<open>The member of the channel after the two counters of a reading.\<close>

definition read_member :: "channel_message_count \<Rightarrow> channel_membership \<Rightarrow> int \<Rightarrow> channel_membership" where
  "read_member mc m now =
     m\<lparr>cm_msg_count := mc_total mc, cm_msg_count_root := mc_root mc, cm_mention_count := Num 0,
       cm_mention_count_root := Num 0,
       cm_urgent_mention_count :=
         (if cm_mention_count m = Num 0 \<and> cm_mention_count_root m = Num 0 then cm_urgent_mention_count m else Num 0),
       cm_last_viewed_at := Num now\<rparr>"

definition numeric_member :: "channel_membership \<Rightarrow> bool" where
  "numeric_member m \<longleftrightarrow> is_number (cm_msg_count m) \<and> is_number (cm_msg_count_root m) \<and>
     is_number (cm_mention_count m) \<and> is_number (cm_mention_count_root m) \<and> is_number (cm_urgent_mention_count m)"

definition numeric_count :: "channel_message_count \<Rightarrow> bool" where
  "numeric_count mc \<longleftrightarrow> is_number (mc_total mc) \<and> is_number (mc_root mc)"

text \<open>A channel of mine the counts of which are numbers: what the server sends.\<close>

definition tracked :: "channels_state \<Rightarrow> string \<Rightarrow> channel_membership \<Rightarrow> channel_message_count \<Rightarrow> bool" where
  "tracked cs i m mc \<longleftrightarrow> i \<noteq> [] \<and> get (cs_channels cs) i \<noteq> None \<and> get (cs_myMembers cs) i = Some m \<and>
     get (cs_messageCounts cs) i = Some mc \<and> numeric_member m \<and> numeric_count mc"

lemma jsnum_zero_diff: "is_number a \<Longrightarrow> is_number b \<Longrightarrow> b - a = Num 0 \<longleftrightarrow> a = b"
  by (cases a; cases b) auto

lemma last_viewed_effect:
  assumes "get ms i = Some m"
  obtains n where "received_last_viewed_at ms i (Num t) = Some n"
    and "get (upd ms n) = (get ms)(i \<mapsto> m\<lparr>cm_last_viewed_at := Num t\<rparr>)"
proof (cases "cm_last_viewed_at m = Num t")
  case True
  then have "m\<lparr>cm_last_viewed_at := Num t\<rparr> = m" by simp
  with True assms show ?thesis by (intro that) (auto simp: received_last_viewed_at_def fun_eq_iff)
next
  case False
  with assms show ?thesis by (intro that) (auto simp: received_last_viewed_at_def fun_eq_iff)
qed

lemma js_max_self: "is_number a \<Longrightarrow> js_max (a - a) (Num 0) = Num 0"
  by (cases a) auto

lemma put_same: "get ob i = Some v \<Longrightarrow> get (put i v ob) = get ob"
  by (auto simp: fun_eq_iff)

text \<open>
  Marking a tracked channel as read: the member is the read one, and every other channel is as it
  was.
\<close>

lemma mark_read_effect:
  assumes "tracked (en_channels st) i m mc"
  obtains st' where "markChannelAsRead st i now = Some st'"
    and "get (cs_myMembers (en_channels st')) = (get (cs_myMembers (en_channels st)))(i \<mapsto> read_member mc m now)"
    and "cs_channels (en_channels st') = cs_channels (en_channels st)"
    and "cs_messageCounts (en_channels st') = cs_messageCounts (en_channels st)"
    and "get (cs_manuallyUnread (en_channels st')) i \<noteq> Some True"
    and "\<And>j. j \<noteq> i \<Longrightarrow> get (cs_manuallyUnread (en_channels st')) j = get (cs_manuallyUnread (en_channels st)) j"
    and "cs_currentChannelId (en_channels st') = cs_currentChannelId (en_channels st)"
proof -
  let ?cs = "en_channels st"
  from assms obtain c where c: "get (cs_channels ?cs) i = Some c" and m: "get (cs_myMembers ?cs) i = Some m"
    and mc: "get (cs_messageCounts ?cs) i = Some mc" and i: "i \<noteq> []"
    and num: "is_number (cm_msg_count m)" "is_number (cm_msg_count_root m)" "is_number (cm_mention_count m)"
      "is_number (cm_mention_count_root m)" "is_number (cm_urgent_mention_count m)"
      "is_number (mc_total mc)" "is_number (mc_root mc)"
    by (auto simp: tracked_def numeric_member_def numeric_count_def)
  define d1 where "d1 = read_change (ch_team_id c) i (mc_total mc - cm_msg_count m) (mc_root mc - cm_msg_count_root m) Undefined"
  define d2 where "d2 = read_change (ch_team_id c) i (cm_mention_count m) (cm_mention_count_root m) (cm_urgent_mention_count m)"
  define ms1 where "ms1 = upd (cs_myMembers ?cs) (decrement_unread_msg_count (cs_myMembers ?cs) d1)"
  define ms2 where "ms2 = upd ms1 (decrement_unread_mention_count ms1 d2)"
  let ?m1 = "m\<lparr>cm_msg_count := mc_total mc, cm_msg_count_root := mc_root mc\<rparr>"
  have d: "uc_channelId d1 = i" "uc_channelId d2 = i" "uc_amount d1 = mc_total mc - cm_msg_count m"
    "uc_amountRoot d1 = mc_root mc - cm_msg_count_root m" "uc_amount d2 = cm_mention_count m"
    "uc_amountRoot d2 = cm_mention_count_root m" "uc_amountUrgent d2 = cm_urgent_mention_count m"
    by (simp_all add: d1_def d2_def read_change_def)
  have ms1: "get ms1 = (get (cs_myMembers ?cs))(i \<mapsto> ?m1)"
  proof (cases "no_change d1")
    case True
    then have "?m1 = m" using num by (simp add: no_change_def d jsnum_zero_diff)
    with True m show ?thesis
      by (simp add: ms1_def decrement_unread_msg_count_def fun_upd_idem)
  next
    case False
    then show ?thesis
      using m num by (simp add: ms1_def decrement_unread_msg_count_def d add_read_def jsnum_cancel fun_eq_iff)
  qed
  let ?m2 = "(read_member mc m now)\<lparr>cm_last_viewed_at := cm_last_viewed_at m\<rparr>"
  have ms2: "get ms2 = (get (cs_myMembers ?cs))(i \<mapsto> ?m2)"
  proof (cases "no_change d2")
    case True
    then have zero: "cm_mention_count m = Num 0" "cm_mention_count_root m = Num 0"
      by (simp_all add: no_change_def d)
    then have "?m1 = ?m2" by (simp add: read_member_def)
    with True ms1 show ?thesis by (simp add: ms2_def decrement_unread_mention_count_def)
  next
    case False
    then have "\<not> (cm_mention_count m = Num 0 \<and> cm_mention_count_root m = Num 0)"
      by (simp add: no_change_def d)
    then show ?thesis
      using False ms1 num
      by (auto simp: ms2_def decrement_unread_mention_count_def d js_max_self read_member_def fun_eq_iff)
  qed
  obtain n where n: "received_last_viewed_at ms2 i (Num now) = Some n"
    and ms3: "get (upd ms2 n) = (get (cs_myMembers ?cs))(i \<mapsto> read_member mc m now)"
    using last_viewed_effect [of ms2 i ?m2 now] ms2 by (auto simp: read_member_def)
  have "\<exists>st'. markChannelAsRead st i now = Some st' \<and> cs_myMembers (en_channels st') = upd ms2 n \<and>
      cs_channels (en_channels st') = cs_channels ?cs \<and> cs_messageCounts (en_channels st') = cs_messageCounts ?cs \<and>
      cs_manuallyUnread (en_channels st') =
        (if get (cs_manuallyUnread ?cs) i = Some True then del i (cs_manuallyUnread ?cs) else cs_manuallyUnread ?cs) \<and>
      cs_currentChannelId (en_channels st') = cs_currentChannelId ?cs"
    using c m mc n i
    by (simp add: markChannelAsRead_def actionsToMarkChannelAsRead_def Let_def step_counting
        d1_def [symmetric] d2_def [symmetric] ms1_def [symmetric] ms2_def [symmetric]
        isManuallyUnread_def manuallyUnread_def)
  then show ?thesis using ms3 that by (auto split: if_splits)
qed

section \<open>A post arrives\<close>

definition root_amount :: "post \<Rightarrow> jsnum" where
  "root_amount p = Num (if root_id p = [] then 1 else 0)"

definition is_mentioned :: "string \<Rightarrow> new_post_message_props \<Rightarrow> bool" where
  "is_mentioned user props \<longleftrightarrow>
     (case np_mentions props of None \<Rightarrow> False | Some ms \<Rightarrow> ms \<noteq> [] \<and> mentions_user ms user)"

text \<open>The member and the message count of the channel after a post that nobody has read.\<close>

definition posted_member :: "string \<Rightarrow> post \<Rightarrow> new_post_message_props \<Rightarrow> channel_membership \<Rightarrow> channel_membership" where
  "posted_member user p props m =
     (let m1 = (if isChannelMuted (Some m)
                then m\<lparr>cm_msg_count := cm_msg_count m + Num 1,
                       cm_msg_count_root := cm_msg_count_root m + root_amount p\<rparr>
                else m)
      in if is_mentioned user props
         then m1\<lparr>cm_mention_count := cm_mention_count m + Num 1,
                 cm_mention_count_root := cm_mention_count_root m + root_amount p,
                 cm_urgent_mention_count := cm_urgent_mention_count m
                   + Num (if post_priority p = ''urgent'' then 1 else 0)\<rparr>
         else m1)"

definition posted_count :: "post \<Rightarrow> channel_message_count \<Rightarrow> channel_message_count" where
  "posted_count p mc = \<lparr>mc_root = mc_root mc + root_amount p, mc_total = mc_total mc + Num 1\<rparr>"

lemma no_change_one: "uc_amount d = Num 1 \<Longrightarrow> \<not> no_change d"
  by (simp add: no_change_def)

lemma dom_new_post [simp]: "dom (get (upd st (new_post_in_channel st p crt))) = dom (get st)"
  by (auto simp: new_post_in_channel_def Let_def split: option.splits if_splits)

text \<open>
  A post nobody reads on arrival: the counts of its channel go up, and nothing else that decides what
  is unread moves.
\<close>

lemma post_unread_effect:
  assumes "tracked (en_channels st) i m mc" "channel_id p = i"
    and "\<not> shouldIgnorePost p (Some (vw_user_id v))" "\<not> marks_as_read (en_channels st) v p"
    and "\<not> (vw_crt v \<and> root_id p \<noteq> [] \<and> user_id p = vw_user_id v)"
  obtains st' where "completePostReceive st v now p props False = Some st'"
    and "get (cs_myMembers (en_channels st')) = (get (cs_myMembers (en_channels st)))(i \<mapsto> posted_member (vw_user_id v) p props m)"
    and "get (cs_messageCounts (en_channels st')) = (get (cs_messageCounts (en_channels st)))(i \<mapsto> posted_count p mc)"
    and "dom (get (cs_channels (en_channels st'))) = dom (get (cs_channels (en_channels st)))"
    and "cs_manuallyUnread (en_channels st') = cs_manuallyUnread (en_channels st)"
    and "cs_currentChannelId (en_channels st') = cs_currentChannelId (en_channels st)"
proof -
  let ?cs = "en_channels st"
  let ?ms = "case np_mentions props of None \<Rightarrow> [] | Some ms \<Rightarrow> ms"
  from assms(1) have m: "get (cs_myMembers ?cs) i = Some m" and mc: "get (cs_messageCounts ?cs) i = Some mc"
    by (auto simp: tracked_def)
  have mentioned: "is_mentioned (vw_user_id v) props \<longleftrightarrow> ?ms \<noteq> [] \<and> mentions_user ?ms (vw_user_id v)"
    by (auto simp: is_mentioned_def split: option.splits)
  define acts where
    "acts = actionsToMarkChannelAsUnread ?cs (vw_user_id v) (np_team_id props) i ?ms False (root_id p = []) (post_priority p)"
  have run: "completePostReceive st v now p props False =
      batchActions st (PostTypes (RECEIVED_NEW_POST p (vw_crt v)) # acts)"
    using assms by (auto simp: completePostReceive_def setChannelReadAndViewed_def acts_def Let_def)
  have "\<exists>st'. batchActions st (PostTypes (RECEIVED_NEW_POST p (vw_crt v)) # acts) = Some st' \<and>
      get (cs_myMembers (en_channels st')) = (get (cs_myMembers ?cs))(i \<mapsto> posted_member (vw_user_id v) p props m) \<and>
      get (cs_messageCounts (en_channels st')) = (get (cs_messageCounts ?cs))(i \<mapsto> posted_count p mc) \<and>
      cs_channels (en_channels st') = upd (cs_channels ?cs) (new_post_in_channel (cs_channels ?cs) p (vw_crt v)) \<and>
      cs_manuallyUnread (en_channels st') = cs_manuallyUnread ?cs \<and>
      cs_currentChannelId (en_channels st') = cs_currentChannelId ?cs"
    using m mc
    by (cases "isChannelMuted (Some m)"; cases "is_mentioned (vw_user_id v) props")
      (auto simp: acts_def actionsToMarkChannelAsUnread_def Let_def step_counting mentioned
        increment_unread_msg_count_def increment_unread_mention_count_def increment_total_msg_count_def
        no_change_def add_read_def posted_member_def posted_count_def root_amount_def fun_eq_iff)
  then show ?thesis using run that dom_new_post by metis
qed

text \<open>
  A post that is read on arrival: the channel is marked as read, in the state before the post is
  counted.
\<close>

lemma step_new_post:
  "tracked (en_channels st) i m mc \<Longrightarrow> \<exists>st1. entities_step st (PostTypes (RECEIVED_NEW_POST p crt)) = Some st1 \<and>
     tracked (en_channels st1) i m mc \<and> cs_myMembers (en_channels st1) = cs_myMembers (en_channels st) \<and>
     cs_messageCounts (en_channels st1) = cs_messageCounts (en_channels st) \<and>
     cs_manuallyUnread (en_channels st1) = cs_manuallyUnread (en_channels st) \<and>
     cs_currentChannelId (en_channels st1) = cs_currentChannelId (en_channels st)"
proof -
  assume tracked: "tracked (en_channels st) i m mc"
  let ?chs = "upd (cs_channels (en_channels st)) (new_post_in_channel (cs_channels (en_channels st)) p crt)"
  from tracked have "i \<in> dom (get (cs_channels (en_channels st)))" by (auto simp: tracked_def)
  then have "i \<in> dom (get ?chs)" by (simp only: dom_new_post)
  then have "\<exists>c. get ?chs i = Some c" by (simp only: dom_def mem_Collect_eq not_None_eq)
  with tracked show ?thesis by (simp add: step_counting tracked_def)
qed

lemma team_after_new_post:
  "map_option ch_team_id (get (upd st (new_post_in_channel st p crt)) i) = map_option ch_team_id (get st i)"
  by (auto simp: new_post_in_channel_def Let_def split: option.splits)

lemma actions_same_teams:
  assumes "map_option ch_team_id (get (cs_channels cs1) i) = map_option ch_team_id (get (cs_channels cs) i)"
    and "cs_myMembers cs1 = cs_myMembers cs" "cs_messageCounts cs1 = cs_messageCounts cs"
    and "cs_manuallyUnread cs1 = cs_manuallyUnread cs"
  shows "actionsToMarkChannelAsRead cs1 i now = actionsToMarkChannelAsRead cs i now"
  using assms
  by (cases "get (cs_channels cs1) i"; cases "get (cs_channels cs) i")
    (simp_all add: actionsToMarkChannelAsRead_def Let_def isManuallyUnread_def split: option.split)

text \<open>What is dispatched on a post that is read on arrival is what marking the channel as read dispatches.\<close>

lemma post_read_effect:
  assumes "tracked (en_channels st) i m mc" "channel_id p = i"
    and "\<not> shouldIgnorePost p (Some (vw_user_id v))" "marks_as_read (en_channels st) v p"
    and "\<not> (vw_crt v \<and> root_id p \<noteq> [] \<and> user_id p = vw_user_id v)"
  obtains st1 where "tracked (en_channels st1) i m mc"
    and "completePostReceive st v now p props False = markChannelAsRead st1 i now"
    and "cs_currentChannelId (en_channels st1) = cs_currentChannelId (en_channels st)"
proof -
  from step_new_post [OF assms(1), of p "vw_crt v"]
  obtain st1 where st1: "entities_step st (PostTypes (RECEIVED_NEW_POST p (vw_crt v))) = Some st1"
      "tracked (en_channels st1) i m mc" "cs_myMembers (en_channels st1) = cs_myMembers (en_channels st)"
      "cs_messageCounts (en_channels st1) = cs_messageCounts (en_channels st)"
      "cs_manuallyUnread (en_channels st1) = cs_manuallyUnread (en_channels st)"
      "cs_currentChannelId (en_channels st1) = cs_currentChannelId (en_channels st)"
    by blast
  have chs: "cs_channels (en_channels st1) =
      upd (cs_channels (en_channels st)) (new_post_in_channel (cs_channels (en_channels st)) p (vw_crt v))"
    using st1(1) by (auto simp: step_counting)
  have "actionsToMarkChannelAsRead (en_channels st1) i now = actionsToMarkChannelAsRead (en_channels st) i now"
    by (rule actions_same_teams) (simp_all add: chs team_after_new_post st1)
  then have "completePostReceive st v now p props False = markChannelAsRead st1 i now"
    using assms st1(1)
    by (auto simp: completePostReceive_def setChannelReadAndViewed_def markChannelAsRead_def Let_def
        split: Option.bind_splits)
  with st1 that show ?thesis by blast
qed

section \<open>The ledger\<close>

text \<open>
  What the counts of a channel stand for: how many messages and mentions came since it was last read,
  and whether the user asked to keep it unread.
\<close>

record ledger =
  lg_messages :: jsnum
  lg_mentions :: jsnum
  lg_manual :: bool

datatype unread_event = Arrives post new_post_message_props int | Read int

definition ledger_of :: "channels_state \<Rightarrow> string \<Rightarrow> bool \<Rightarrow> ledger" where
  "ledger_of cs i crt =
     \<lparr>lg_messages = un_messages (channel_unread cs i crt), lg_mentions = un_mentions (channel_unread cs i crt),
      lg_manual = isManuallyUnread cs i\<rparr>"

definition own_post :: "viewer \<Rightarrow> post \<Rightarrow> bool" where
  "own_post v p \<longleftrightarrow> user_id p = vw_user_id v \<and> \<not> isSystemMessage p \<and> \<not> isFromWebhook p"

definition ledger_step :: "viewer \<Rightarrow> bool \<Rightarrow> bool \<Rightarrow> ledger \<Rightarrow> unread_event \<Rightarrow> ledger" where
  "ledger_step v viewed muted L e =
     (case e of
        Read now \<Rightarrow> \<lparr>lg_messages = Num 0, lg_mentions = Num 0, lg_manual = False\<rparr>
      | Arrives p props now \<Rightarrow>
          (let crtReply = (vw_crt v \<and> root_id p \<noteq> [])
           in if shouldIgnorePost p (Some (vw_user_id v)) \<or> (crtReply \<and> user_id p = vw_user_id v) then L
              else if \<not> lg_manual L \<and> (own_post v p \<or> viewed)
              then \<lparr>lg_messages = Num 0, lg_mentions = Num 0, lg_manual = False\<rparr>
              else L\<lparr>lg_messages := lg_messages L + Num (if muted \<or> crtReply then 0 else 1),
                     lg_mentions := lg_mentions L
                       + Num (if is_mentioned (vw_user_id v) props \<and> \<not> crtReply then 1 else 0)\<rparr>))"

definition run_event :: "viewer \<Rightarrow> string \<Rightarrow> entities \<Rightarrow> unread_event \<Rightarrow> entities option" where
  "run_event v i st e =
     (case e of
        Read now \<Rightarrow> markChannelAsRead st i now
      | Arrives p props now \<Rightarrow> completePostReceive st v now p props False)"

text \<open>A channel is followed: it is tracked, and its mute and whether it is the one in view are known.\<close>

definition followed :: "entities \<Rightarrow> viewer \<Rightarrow> string \<Rightarrow> bool \<Rightarrow> bool \<Rightarrow> bool" where
  "followed st v i viewed muted \<longleftrightarrow>
     (\<exists>m mc. tracked (en_channels st) i m mc \<and> muted = isChannelMuted (Some m)) \<and>
     viewed = (cs_currentChannelId (en_channels st) = i \<and> vw_active v)"

definition event_of :: "string \<Rightarrow> unread_event \<Rightarrow> bool" where
  "event_of i e \<longleftrightarrow> (case e of Read now \<Rightarrow> True | Arrives p props now \<Rightarrow> channel_id p = i)"

lemma numeric_read: "numeric_member m \<Longrightarrow> numeric_count mc \<Longrightarrow> numeric_member (read_member mc m now)"
  by (simp add: numeric_member_def numeric_count_def read_member_def)

lemma muted_read [simp]: "isChannelMuted (Some (read_member mc m now)) = isChannelMuted (Some m)"
  by (simp add: isChannelMuted_def read_member_def)

lemma numeric_posted:
  "numeric_member m \<Longrightarrow> numeric_member (posted_member user p props m)"
  "numeric_count mc \<Longrightarrow> numeric_count (posted_count p mc)"
  by (simp_all add: numeric_member_def numeric_count_def posted_member_def posted_count_def root_amount_def Let_def)

lemma muted_posted [simp]: "isChannelMuted (Some (posted_member user p props m)) = isChannelMuted (Some m)"
  by (auto simp: isChannelMuted_def posted_member_def Let_def)

lemma channel_unread_tracked:
  "tracked cs i m mc \<Longrightarrow> un_messages (channel_unread cs i crt) =
     (if crt then mc_root mc - cm_msg_count_root m else mc_total mc - cm_msg_count m)"
  "tracked cs i m mc \<Longrightarrow> un_mentions (channel_unread cs i crt) =
     (if crt then cm_mention_count_root m else cm_mention_count m)"
  by (simp_all add: tracked_def channel_unread_def calculateUnreadCount_def Let_def)

text \<open>Marking as read empties the ledger.\<close>

lemma read_followed:
  assumes "followed st v i viewed muted"
  obtains st' where "markChannelAsRead st i now = Some st'" "followed st' v i viewed muted"
    and "ledger_of (en_channels st') i crt = \<lparr>lg_messages = Num 0, lg_mentions = Num 0, lg_manual = False\<rparr>"
proof -
  from assms obtain m mc where t: "tracked (en_channels st) i m mc" and mu: "muted = isChannelMuted (Some m)"
    by (auto simp: followed_def)
  from mark_read_effect [OF t, of now] obtain st' where run: "markChannelAsRead st i now = Some st'"
    and mem: "get (cs_myMembers (en_channels st')) = (get (cs_myMembers (en_channels st)))(i \<mapsto> read_member mc m now)"
    and chs: "cs_channels (en_channels st') = cs_channels (en_channels st)"
    and mcs: "cs_messageCounts (en_channels st') = cs_messageCounts (en_channels st)"
    and man: "get (cs_manuallyUnread (en_channels st')) i \<noteq> Some True"
    and cur: "cs_currentChannelId (en_channels st') = cs_currentChannelId (en_channels st)"
    by blast
  have t': "tracked (en_channels st') i (read_member mc m now) mc"
    using t by (simp add: tracked_def mem chs mcs numeric_read)
  then have "followed st' v i viewed muted"
    using assms mu cur by (auto simp: followed_def)
  moreover have "ledger_of (en_channels st') i crt = \<lparr>lg_messages = Num 0, lg_mentions = Num 0, lg_manual = False\<rparr>"
    using t t' man
    by (simp add: ledger_of_def channel_unread_tracked isManuallyUnread_def)
      (simp add: read_member_def tracked_def numeric_count_def jsnum_minus_self)
  ultimately show ?thesis using run that by blast
qed

lemma plus_zero [simp]: "is_number a \<Longrightarrow> a + Num 0 = a"
  by (cases a) auto

lemma jsnum_back: "is_number a \<Longrightarrow> is_number b \<Longrightarrow> is_number c \<Longrightarrow> a - (b + c) + c = a - b"
  by (cases a; cases b; cases c) auto

lemma jsnum_up: "is_number a \<Longrightarrow> is_number b \<Longrightarrow> is_number c \<Longrightarrow> (a + c) - b = (a - b) + c"
  by (cases a; cases b; cases c) auto

lemma posted_messages:
  assumes "numeric_member m" "numeric_count mc"
  shows "mc_total (posted_count p mc) - cm_msg_count (posted_member user p props m) =
           mc_total mc - cm_msg_count m + Num (if isChannelMuted (Some m) then 0 else 1)"
    and "mc_root (posted_count p mc) - cm_msg_count_root (posted_member user p props m) =
           mc_root mc - cm_msg_count_root m + Num (if isChannelMuted (Some m) \<or> root_id p \<noteq> [] then 0 else 1)"
    and "cm_mention_count (posted_member user p props m) =
           cm_mention_count m + Num (if is_mentioned user props then 1 else 0)"
    and "cm_mention_count_root (posted_member user p props m) =
           cm_mention_count_root m + Num (if is_mentioned user props \<and> root_id p = [] then 1 else 0)"
proof -
  note simps = posted_member_def posted_count_def root_amount_def Let_def jsnum_back jsnum_up
  note num = assms [unfolded numeric_member_def numeric_count_def]
  show "mc_total (posted_count p mc) - cm_msg_count (posted_member user p props m) =
      mc_total mc - cm_msg_count m + Num (if isChannelMuted (Some m) then 0 else 1)"
    using num by (cases "isChannelMuted (Some m)"; cases "is_mentioned user props") (simp_all add: simps)
  show "mc_root (posted_count p mc) - cm_msg_count_root (posted_member user p props m) =
      mc_root mc - cm_msg_count_root m + Num (if isChannelMuted (Some m) \<or> root_id p \<noteq> [] then 0 else 1)"
    using num by (cases "isChannelMuted (Some m)"; cases "is_mentioned user props"; cases "root_id p = []")
      (simp_all add: simps)
  show "cm_mention_count (posted_member user p props m) =
      cm_mention_count m + Num (if is_mentioned user props then 1 else 0)"
    using num by (cases "isChannelMuted (Some m)"; cases "is_mentioned user props") (simp_all add: simps)
  show "cm_mention_count_root (posted_member user p props m) =
      cm_mention_count_root m + Num (if is_mentioned user props \<and> root_id p = [] then 1 else 0)"
    using num by (cases "isChannelMuted (Some m)"; cases "is_mentioned user props"; cases "root_id p = []")
      (simp_all add: simps)
qed

text \<open>One event does to the counts what it does to the ledger.\<close>

lemma event_followed:
  assumes f: "followed st v i viewed muted" and e: "event_of i e"
  obtains st' where "run_event v i st e = Some st'" "followed st' v i viewed muted"
    and "ledger_of (en_channels st') i (vw_crt v) = ledger_step v viewed muted (ledger_of (en_channels st) i (vw_crt v)) e"
proof (cases e)
  case (Read now)
  from read_followed [OF f, of now "vw_crt v"] obtain st'
    where "markChannelAsRead st i now = Some st'" "followed st' v i viewed muted"
      "ledger_of (en_channels st') i (vw_crt v) = \<lparr>lg_messages = Num 0, lg_mentions = Num 0, lg_manual = False\<rparr>"
    by blast
  with Read show ?thesis by (intro that [of st']) (auto simp: run_event_def ledger_step_def)
next
  case (Arrives p props now)
  let ?cs = "en_channels st"
  from f obtain m mc where t: "tracked ?cs i m mc" and mu: "muted = isChannelMuted (Some m)"
    and vw: "viewed = (cs_currentChannelId ?cs = i \<and> vw_active v)"
    by (auto simp: followed_def)
  from e Arrives have ch: "channel_id p = i" by (simp add: event_of_def)
  let ?reply = "vw_crt v \<and> root_id p \<noteq> []"
  let ?skip = "shouldIgnorePost p (Some (vw_user_id v)) \<or> (?reply \<and> user_id p = vw_user_id v)"
  have marks: "marks_as_read ?cs v p \<longleftrightarrow> \<not> lg_manual (ledger_of ?cs i (vw_crt v)) \<and> (own_post v p \<or> viewed)"
    by (auto simp: marks_as_read_def ledger_of_def own_post_def vw ch)
  consider (skip) "?skip" | (read) "\<not> ?skip" "marks_as_read ?cs v p" | (unread) "\<not> ?skip" "\<not> marks_as_read ?cs v p"
    by blast
  then show ?thesis
  proof cases
    case skip
    from step_new_post [OF t, of p "vw_crt v"] obtain st1
      where st1: "entities_step st (PostTypes (RECEIVED_NEW_POST p (vw_crt v))) = Some st1"
        "tracked (en_channels st1) i m mc" "cs_manuallyUnread (en_channels st1) = cs_manuallyUnread ?cs"
        "cs_currentChannelId (en_channels st1) = cs_currentChannelId ?cs"
      by blast
    have "completePostReceive st v now p props False = Some st1"
      using skip st1(1) by (auto simp: completePostReceive_def setChannelReadAndViewed_def Let_def)
    moreover have "followed st1 v i viewed muted" using st1 mu vw by (auto simp: followed_def)
    moreover have "ledger_of (en_channels st1) i (vw_crt v) = ledger_of ?cs i (vw_crt v)"
      using t st1 by (simp add: ledger_of_def channel_unread_tracked isManuallyUnread_def)
    ultimately show ?thesis
      using skip Arrives by (intro that [of st1]) (auto simp: run_event_def ledger_step_def Let_def)
  next
    case read
    then obtain st1 where st1: "tracked (en_channels st1) i m mc"
        "completePostReceive st v now p props False = markChannelAsRead st1 i now"
        "cs_currentChannelId (en_channels st1) = cs_currentChannelId ?cs"
      using post_read_effect [OF t ch, of v now props] by blast
    have f1: "followed st1 v i viewed muted" using st1 mu vw by (auto simp: followed_def)
    from read_followed [OF f1, of now "vw_crt v"] obtain st'
      where "markChannelAsRead st1 i now = Some st'" "followed st' v i viewed muted"
        "ledger_of (en_channels st') i (vw_crt v) = \<lparr>lg_messages = Num 0, lg_mentions = Num 0, lg_manual = False\<rparr>"
      by blast
    with read st1(2) Arrives marks show ?thesis
      by (intro that [of st']) (auto simp: run_event_def ledger_step_def Let_def)
  next
    case unread
    then obtain st' where run: "completePostReceive st v now p props False = Some st'"
      and mem: "get (cs_myMembers (en_channels st')) = (get (cs_myMembers ?cs))(i \<mapsto> posted_member (vw_user_id v) p props m)"
      and mcs: "get (cs_messageCounts (en_channels st')) = (get (cs_messageCounts ?cs))(i \<mapsto> posted_count p mc)"
      and chs: "dom (get (cs_channels (en_channels st'))) = dom (get (cs_channels ?cs))"
      and man: "cs_manuallyUnread (en_channels st') = cs_manuallyUnread ?cs"
      and cur: "cs_currentChannelId (en_channels st') = cs_currentChannelId ?cs"
      using post_unread_effect [OF t ch, of v now props] by blast
    have t': "tracked (en_channels st') i (posted_member (vw_user_id v) p props m) (posted_count p mc)"
      using t chs by (auto simp: tracked_def mem mcs numeric_posted dom_def)
    then have "followed st' v i viewed muted" using mu vw cur by (auto simp: followed_def)
    moreover have "ledger_of (en_channels st') i (vw_crt v) =
        ledger_step v viewed muted (ledger_of ?cs i (vw_crt v)) e"
    proof -
      let ?L = "ledger_of ?cs i (vw_crt v)"
      have counted: "\<not> (\<not> lg_manual ?L \<and> (own_post v p \<or> viewed))" using unread(2) marks by simp
      have plain: "ledger_step v viewed muted ?L e =
          ?L\<lparr>lg_messages := lg_messages ?L + Num (if muted \<or> ?reply then 0 else 1),
            lg_mentions := lg_mentions ?L + Num (if is_mentioned (vw_user_id v) props \<and> \<not> ?reply then 1 else 0)\<rparr>"
        unfolding ledger_step_def Arrives unread_event.case Let_def if_not_P [OF unread(1)] if_not_P [OF counted]
        by (rule refl)
      have num: "numeric_member m" "numeric_count mc" using t by (simp_all add: tracked_def)
      show ?thesis
        unfolding plain using t t' man mu posted_messages [OF num]
        by (cases "vw_crt v") (simp_all add: ledger_of_def channel_unread_tracked isManuallyUnread_def)
    qed
    ultimately show ?thesis using run Arrives by (intro that [of st']) (auto simp: run_event_def)
  qed
qed

fun run_events :: "viewer \<Rightarrow> string \<Rightarrow> entities \<Rightarrow> unread_event list \<Rightarrow> entities option" where
  "run_events v i st [] = Some st"
| "run_events v i st (e # es) = do { st' \<leftarrow> run_event v i st e; run_events v i st' es }"

text \<open>
  C2. The counts of unread messages and mentions the sidebar shows for a channel are those of the
  ledger: over any sequence of posts arriving in the channel and of readings of it, what
  \<open>calculateUnreadCount\<close> makes of the stored totals, read counts and mention counts is what came
  since the last reading, replies left out when threads are collapsed and messages when it is muted.
\<close>

theorem unread_counts_refine_ledger:
  assumes "followed st v i viewed muted" and "\<forall>e \<in> set es. event_of i e"
  shows "\<exists>st'. run_events v i st es = Some st' \<and>
    ledger_of (en_channels st') i (vw_crt v) =
      foldl (ledger_step v viewed muted) (ledger_of (en_channels st) i (vw_crt v)) es"
  using assms
proof (induction es arbitrary: st)
  case (Cons e es)
  from Cons.prems have "event_of i e" by simp
  from event_followed [OF Cons.prems(1) this] obtain st1 where "run_event v i st e = Some st1"
    and "followed st1 v i viewed muted"
    and "ledger_of (en_channels st1) i (vw_crt v) = ledger_step v viewed muted (ledger_of (en_channels st) i (vw_crt v)) e"
    by blast
  with Cons.IH [of st1] Cons.prems show ?case by simp
qed simp

text \<open>A post that mentions the viewer, a reading, and another post.\<close>

definition sample_events :: "unread_event list" where
  "sample_events = [Arrives (sample ''p1'' ''c'' [] 20) sample_props 20, Read 30,
     Arrives (sample ''p2'' ''c'' [] 40) sample_props 40]"

lemma unread_counts_refine_ledger_witness:
  "\<exists>st'. run_events sample_viewer ''c'' sample_entities sample_events = Some st' \<and>
    ledger_of (en_channels st') ''c'' False = \<lparr>lg_messages = Num 1, lg_mentions = Num 1, lg_manual = False\<rparr>"
proof -
  have f: "followed sample_entities sample_viewer ''c'' False False"
    by (simp add: followed_def tracked_def numeric_member_def numeric_count_def isChannelMuted_def
        channel_sample_defs)
  have e: "\<forall>e \<in> set sample_events. event_of ''c'' e"
    by (simp add: sample_events_def event_of_def sample_defs)
  have start: "ledger_of (en_channels sample_entities) ''c'' False =
      \<lparr>lg_messages = Num 0, lg_mentions = Num 0, lg_manual = False\<rparr>"
    by (simp add: ledger_of_def channel_unread_def calculateUnreadCount_def isManuallyUnread_def Let_def channel_sample_defs)
  have "vw_crt sample_viewer = False" by (simp add: sample_viewer_def)
  with unread_counts_refine_ledger [OF f e] start show ?thesis
    by (simp add: sample_events_def ledger_step_def shouldIgnorePost_def isUserAddedInChannel_def own_post_def
        is_mentioned_def starts_with_def sample_defs sample_viewer_def sample_props_def IGNORE_POST_TYPES_def)
qed

section \<open>Reading never throws\<close>

text \<open>The actions of a reading keep the members, and ask for the view time of a member only.\<close>

definition reading_action :: "string set \<Rightarrow> redux_action \<Rightarrow> bool" where
  "reading_action ids a \<longleftrightarrow>
     (case a of
        ChannelTypes (DECREMENT_UNREAD_MSG_COUNT d) \<Rightarrow> True
      | ChannelTypes (DECREMENT_UNREAD_MENTION_COUNT d) \<Rightarrow> True
      | ChannelTypes (RECEIVED_LAST_VIEWED_AT i t) \<Rightarrow> i \<in> ids
      | ChannelTypes (REMOVE_MANUALLY_UNREAD i) \<Rightarrow> True
      | _ \<Rightarrow> False)"

lemma reading_step:
  assumes "reading_action ids a" "ids \<subseteq> dom (get (cs_myMembers (en_channels st)))"
  shows "\<exists>st'. entities_step st a = Some st' \<and> ids \<subseteq> dom (get (cs_myMembers (en_channels st')))"
proof -
  from assms(1) obtain t where a: "a = ChannelTypes t"
    by (cases a) (auto simp: reading_action_def)
  with assms show ?thesis
    by (cases t) (auto simp: reading_action_def step_counting decrement_unread_msg_count_def
        decrement_unread_mention_count_def received_last_viewed_at_def split: option.splits)
qed

lemma reading_batch:
  "\<forall>a \<in> set acts. reading_action ids a \<Longrightarrow> ids \<subseteq> dom (get (cs_myMembers (en_channels st))) \<Longrightarrow>
     \<exists>st'. batchActions st acts = Some st'"
proof (induction acts arbitrary: st)
  case (Cons a acts)
  from Cons.prems reading_step [of ids a st] obtain st1
    where "entities_step st a = Some st1" "ids \<subseteq> dom (get (cs_myMembers (en_channels st1)))" by auto
  with Cons show ?case by simp
qed simp

lemma reading_actions:
  assumes "counted_channels cs"
  obtains acts where "actionsToMarkChannelAsRead cs i now = Some acts"
    and "\<forall>a \<in> set acts. reading_action (dom (get (cs_myMembers cs))) a"
proof -
  from actions_return [OF assms, of i now] obtain acts where acts: "actionsToMarkChannelAsRead cs i now = Some acts"
    by blast
  moreover from acts have "\<forall>a \<in> set acts. reading_action (dom (get (cs_myMembers cs))) a"
    by (auto simp: actionsToMarkChannelAsRead_def reading_action_def Let_def split: option.splits if_splits)
  ultimately show ?thesis by (rule that)
qed

lemma reading_times:
  "counted_channels cs \<Longrightarrow> \<exists>acts. actions_for_times cs viewed = Some acts \<and>
     (\<forall>a \<in> set acts. reading_action (dom (get (cs_myMembers cs))) a)"
proof (induction viewed)
  case (Cons t viewed)
  obtain i now where t: "t = (i, now)" by (cases t)
  from reading_actions [OF Cons.prems, of i now] obtain here where
    "actionsToMarkChannelAsRead cs i now = Some here" "\<forall>a \<in> set here. reading_action (dom (get (cs_myMembers cs))) a"
    by blast
  with Cons t show ?case by auto
qed simp

text \<open>
  C3. Marking channels as read returns, in every state the reducers can reach by any actions and for any
  channels, known or not: \<open>actionsToMarkChannelAsRead\<close> reads the totals of a message count without a
  test, but a channel in the store always has one, and the member whose view time is set is there.
\<close>

theorem marking_read_returns:
  assumes "reachable entities_step (\<lambda>st a. True) init_entities st"
  shows "\<exists>st'. markMultipleChannelsAsRead st channelTimes = Some st'"
proof -
  have "counted_entities st" by (rule unreads.reachable_inv [OF assms])
  then obtain acts where "actions_for_times (en_channels st) channelTimes = Some acts"
    and "\<forall>a \<in> set acts. reading_action (dom (get (cs_myMembers (en_channels st)))) a"
    using reading_times by blast
  then show ?thesis
    using reading_batch [of acts "dom (get (cs_myMembers (en_channels st)))" st]
    by (auto simp: markMultipleChannelsAsRead_def)
qed

lemma marking_read_returns_witness:
  "\<exists>st st'. entities_step init_entities (ChannelTypes (RECEIVED_CHANNEL sample_channel)) = Some st \<and>
     get (cs_channels (en_channels st)) ''c'' \<noteq> None \<and>
     markMultipleChannelsAsRead st [(''c'', 5), (''d'', 6)] = Some st'"
proof -
  obtain st where st: "entities_step init_entities (ChannelTypes (RECEIVED_CHANNEL sample_channel)) = Some st"
    using entities_step_iff [of init_entities "ChannelTypes (RECEIVED_CHANNEL sample_channel)"]
    by (auto simp: myMembers_def)
  from reducer_slices(2) [OF entities_step_channels [OF st]]
  have "get (cs_channels (en_channels st)) ''c'' \<noteq> None"
    by (simp add: channels_def sample_channel_def)
  moreover have "reachable entities_step (\<lambda>st a. True) init_entities st"
    by (rule reachable_one [where a = "ChannelTypes (RECEIVED_CHANNEL sample_channel)"]) (simp_all only: st)
  ultimately show ?thesis using st marking_read_returns [of st "[(''c'', 5), (''d'', 6)]"] by blast
qed

text \<open>The invariant is what it takes: without a count, the same call throws.\<close>

lemma marking_read_needs_count:
  "get (cs_channels (en_channels st)) i = Some c \<Longrightarrow> get (cs_myMembers (en_channels st)) i = Some m \<Longrightarrow>
     get (cs_messageCounts (en_channels st)) i = None \<Longrightarrow> markChannelAsRead st i now = None"
  by (simp add: markChannelAsRead_def actionsToMarkChannelAsRead_def)

section \<open>Memberships that arrive late\<close>

text \<open>
  A membership as old as the stored one never turns the view back: where its view is older, the
  stored view, the larger read counts and the smaller mention counts stay.
\<close>

theorem late_member_keeps_view:
  assumes "get st (cm_channel_id received) = Some existing"
    and "js_leq (cm_last_update_at received) (cm_last_update_at existing)"
    and "is_number (cm_last_viewed_at received)" "is_number (cm_last_viewed_at existing)"
  shows "\<exists>m. get (upd st (receiveChannelMember st received)) (cm_channel_id received) = Some m \<and>
    js_leq (cm_last_viewed_at existing) (cm_last_viewed_at m) \<and>
    (js_less (cm_last_viewed_at received) (cm_last_viewed_at existing) \<longrightarrow>
       cm_last_viewed_at m = cm_last_viewed_at existing \<and>
       cm_msg_count m = js_max (cm_msg_count existing) (cm_msg_count received) \<and>
       cm_mention_count m = js_min (cm_mention_count existing) (cm_mention_count received))"
proof -
  from assms(3,4) obtain a b where ab: "cm_last_viewed_at received = Num a" "cm_last_viewed_at existing = Num b"
    by (auto simp: is_number_iff)
  show ?thesis
    using assms ab by (cases "a < b"; cases "existing = received") (simp_all add: receiveChannelMember_def)
qed

lemma late_member_keeps_view_witness:
  "\<exists>m. get (upd [(''c'', sample_member)] (receiveChannelMember [(''c'', sample_member)]
      (sample_member\<lparr>cm_last_viewed_at := Num 4, cm_msg_count := Num 1, cm_mention_count := Num 7\<rparr>))) ''c'' = Some m \<and>
    cm_last_viewed_at m = Num 10 \<and> cm_msg_count m = Num 3 \<and> cm_mention_count m = Num 0"
  using late_member_keeps_view [of "[(''c'', sample_member)]"
      "sample_member\<lparr>cm_last_viewed_at := Num 4, cm_msg_count := Num 1, cm_mention_count := Num 7\<rparr>" sample_member]
  by (auto simp: channel_sample_defs)

end
