(* ===== verification/UnreadBadge.thy ===== *)
theory UnreadBadge
  imports ChannelUnreadsProps
begin

text \<open>
  The selectors that add up what is unread: the badge of the window, the unread channels and their
  order, the names of direct channels, and the sets of channels of a team.
\<close>

section \<open>The badge\<close>

text \<open>The memberships \<open>getUnreadStatus\<close> adds up: of channels that exist and are not muted.\<close>

definition counts_here :: "channels_state \<Rightarrow> (string \<Rightarrow> int option) \<Rightarrow> string \<Rightarrow> string \<Rightarrow> channel_membership \<Rightarrow> bool" where
  "counts_here cs deleted_at user i m \<longleftrightarrow>
     (\<exists>c. get (cs_channels cs) i = Some c \<and> channelExists deleted_at user c) \<and> \<not> isChannelMuted (Some m)"

fun num_of :: "jsnum \<Rightarrow> int" where
  "num_of (Num a) = a"
| "num_of _ = 0"

text \<open>What one membership adds, as integers.\<close>

definition added :: "channels_state \<Rightarrow> (string \<Rightarrow> int option) \<Rightarrow> string \<Rightarrow> bool \<Rightarrow> string \<times> channel_membership \<Rightarrow> int \<times> int" where
  "added cs deleted_at user crt e =
     (let u = calculateUnreadCount (get (cs_messageCounts cs) (fst e)) (Some (snd e)) crt
      in if counts_here cs deleted_at user (fst e) (snd e)
         then (if un_showUnread u then num_of (un_messages u) else 0, num_of (un_mentions u))
         else (0, 0))"

definition countable :: "channels_state \<Rightarrow> string \<times> channel_membership \<Rightarrow> bool" where
  "countable cs e \<longleftrightarrow> numeric_member (snd e) \<and>
     js_leq (Num 0) (cm_mention_count (snd e)) \<and> js_leq (Num 0) (cm_mention_count_root (snd e)) \<and>
     (get (cs_channels cs) (fst e) \<noteq> None \<longrightarrow>
        (\<exists>mc. get (cs_messageCounts cs) (fst e) = Some mc \<and> numeric_count mc))"

lemma add_one:
  assumes "countable cs e"
  shows "add_channel_counts cs deleted_at user crt (Num a, Num b) e =
    (Num (a + fst (added cs deleted_at user crt e)), Num (b + snd (added cs deleted_at user crt e)))"
    and "0 \<le> snd (added cs deleted_at user crt e)"
    and "snd (added cs deleted_at user crt e) = 0 \<Longrightarrow> 0 \<le> fst (added cs deleted_at user crt e)"
    and "snd (added cs deleted_at user crt e) = 0 \<and> fst (added cs deleted_at user crt e) = 0 \<longleftrightarrow>
      (counts_here cs deleted_at user (fst e) (snd e) \<longrightarrow>
       \<not> un_showUnread (calculateUnreadCount (get (cs_messageCounts cs) (fst e)) (Some (snd e)) crt))"
proof -
  obtain i m where e: "e = (i, m)" by (cases e)
  have facts: "add_channel_counts cs deleted_at user crt (Num a, Num b) e =
        (Num (a + fst (added cs deleted_at user crt e)), Num (b + snd (added cs deleted_at user crt e))) \<and>
      0 \<le> snd (added cs deleted_at user crt e) \<and>
      (snd (added cs deleted_at user crt e) = 0 \<longrightarrow> 0 \<le> fst (added cs deleted_at user crt e)) \<and>
      (snd (added cs deleted_at user crt e) = 0 \<and> fst (added cs deleted_at user crt e) = 0 \<longleftrightarrow>
        (counts_here cs deleted_at user i m \<longrightarrow>
         \<not> un_showUnread (calculateUnreadCount (get (cs_messageCounts cs) i) (Some m) crt)))"
  proof (cases "counts_here cs deleted_at user i m")
    case False
    then show ?thesis
      by (auto simp: e added_def add_channel_counts_def counts_here_def split: option.splits)
  next
    case True
    then obtain c where c: "get (cs_channels cs) i = Some c" "channelExists deleted_at user c"
      "\<not> isChannelMuted (Some m)"
      by (auto simp: counts_here_def)
    with assms e obtain mc where mc: "get (cs_messageCounts cs) i = Some mc" "numeric_count mc"
      by (auto simp: countable_def)
    from assms e have num: "numeric_member m" "js_leq (Num 0) (cm_mention_count m)"
      "js_leq (Num 0) (cm_mention_count_root m)"
      by (auto simp: countable_def)
    define own where "own = (if crt then cm_mention_count_root m else cm_mention_count m)"
    define msgs where "msgs = (if crt then mc_root mc - cm_msg_count_root m else mc_total mc - cm_msg_count m)"
    obtain x where x: "own = Num x" and x0: "0 \<le> x"
      using num by (cases own) (auto simp: own_def split: if_splits)
    obtain y where y: "msgs = Num y"
      using num(1) mc(2) by (cases msgs) (auto simp: msgs_def numeric_member_def numeric_count_def is_number_iff split: if_splits)
    have u: "calculateUnreadCount (get (cs_messageCounts cs) i) (Some m) crt =
        \<lparr>un_showUnread = (0 < x \<or> 0 < y), un_mentions = Num x, un_messages = Num y,
         un_hasUrgent = js_true (cm_urgent_mention_count m)\<rparr>"
      using c mc x y by (simp add: calculateUnreadCount_def own_def [symmetric] msgs_def [symmetric] js_pos_def Let_def)
    have "added cs deleted_at user crt e = (if 0 < x \<or> 0 < y then y else 0, x)"
      using True by (simp add: added_def e u Let_def)
    moreover have "add_channel_counts cs deleted_at user crt (Num a, Num b) e =
        (Num (a + (if 0 < x \<or> 0 < y then y else 0)), Num (b + x))"
      using c x by (simp add: add_channel_counts_def e u own_def [symmetric] Let_def)
    ultimately show ?thesis using True x0 u by auto
  qed
  show "add_channel_counts cs deleted_at user crt (Num a, Num b) e =
      (Num (a + fst (added cs deleted_at user crt e)), Num (b + snd (added cs deleted_at user crt e)))"
    "0 \<le> snd (added cs deleted_at user crt e)"
    "snd (added cs deleted_at user crt e) = 0 \<Longrightarrow> 0 \<le> fst (added cs deleted_at user crt e)"
    "snd (added cs deleted_at user crt e) = 0 \<and> fst (added cs deleted_at user crt e) = 0 \<longleftrightarrow>
      (counts_here cs deleted_at user (fst e) (snd e) \<longrightarrow>
       \<not> un_showUnread (calculateUnreadCount (get (cs_messageCounts cs) (fst e)) (Some (snd e)) crt))"
    using facts e by auto
qed

lemma fold_counts:
  "\<forall>e \<in> set es. countable cs e \<Longrightarrow>
     foldl (add_channel_counts cs deleted_at user crt) (Num a, Num b) es =
       (Num (a + sum_list (map (fst \<circ> added cs deleted_at user crt) es)),
        Num (b + sum_list (map (snd \<circ> added cs deleted_at user crt) es)))"
proof (induction es arbitrary: a b)
  case (Cons e es)
  then show ?case by (simp add: add_one(1) add.assoc)
qed simp

lemma sum_list_zero: "\<forall>x \<in> set xs. 0 \<le> f x \<Longrightarrow> sum_list (map f xs) = 0 \<longleftrightarrow> (\<forall>x \<in> set xs. f x = (0 :: int))"
  using sum_list_nonneg_eq_0_iff [of "map f xs"] by auto

text \<open>
  C29. The badge is clear exactly when no channel shows: as long as counts are numbers and mentions are not
  negative, \<open>getUnreadStatus\<close> (threads not collapsed) is \<open>false\<close> if and only if none of my channels
  that exists and is not muted would be shown as unread in the sidebar.
\<close>

theorem badge_clear_iff_none_shows:
  assumes "\<forall>e \<in> set (cs_myMembers cs). countable cs e"
  shows "getUnreadStatus cs deleted_at user team False threads direct = Unread False \<longleftrightarrow>
    (\<forall>(i, m) \<in> set (cs_myMembers cs). counts_here cs deleted_at user i m \<longrightarrow>
       \<not> un_showUnread (calculateUnreadCount (get (cs_messageCounts cs) i) (Some m) False))"
proof -
  let ?add = "added cs deleted_at user False"
  let ?messages = "sum_list (map (fst \<circ> ?add) (cs_myMembers cs))"
  let ?mentions = "sum_list (map (snd \<circ> ?add) (cs_myMembers cs))"
  have "getUnreadStatus cs deleted_at user team False threads direct =
      unread_status_of (Num ?mentions) False (Num ?messages)"
    using fold_counts [OF assms, of deleted_at user False 0 0] by (simp add: getUnreadStatus_def)
  then have "getUnreadStatus cs deleted_at user team False threads direct = Unread False \<longleftrightarrow>
      ?mentions = 0 \<and> ?messages = 0"
    by (auto simp: unread_status_of_def)
  also have "\<dots> \<longleftrightarrow> (\<forall>e \<in> set (cs_myMembers cs). (snd \<circ> ?add) e = 0) \<and> ?messages = 0"
    using assms add_one(2) by (subst sum_list_zero) auto
  also have "\<dots> \<longleftrightarrow> (\<forall>e \<in> set (cs_myMembers cs). (snd \<circ> ?add) e = 0 \<and> (fst \<circ> ?add) e = 0)"
  proof (cases "\<forall>e \<in> set (cs_myMembers cs). (snd \<circ> ?add) e = 0")
    case True
    then have "\<forall>e \<in> set (cs_myMembers cs). 0 \<le> (fst \<circ> ?add) e" using assms add_one(3) by simp
    from sum_list_zero [OF this] True show ?thesis by blast
  qed blast
  also have "\<dots> \<longleftrightarrow> (\<forall>e \<in> set (cs_myMembers cs). counts_here cs deleted_at user (fst e) (snd e) \<longrightarrow>
      \<not> un_showUnread (calculateUnreadCount (get (cs_messageCounts cs) (fst e)) (Some (snd e)) False))"
    using assms add_one(4) by (auto simp: comp_def)
  finally show ?thesis by auto
qed

lemma badge_clear_iff_none_shows_witness:
  "getUnreadStatus sample_channels (\<lambda>u. None) ''u'' ''t'' False [] [] = Unread False"
proof -
  have ok: "\<forall>e \<in> set (cs_myMembers sample_channels). countable sample_channels e"
    by (simp add: countable_def numeric_member_def numeric_count_def channel_sample_defs)
  show ?thesis
    unfolding badge_clear_iff_none_shows [OF ok]
    by (simp add: calculateUnreadCount_def js_pos_def Let_def channel_sample_defs)
qed

text \<open>
  With collapsed threads the badge can hide mentions: \<open>threadCounts\<close> may know the current team
  before \<open>threadCountsIncludingDirect\<close> does (the unread counts of the teams fill only the first), the
  count of its mentions is then read from the number 0, and \<open>NaN\<close> swallows every mention there is.
\<close>

lemma missing_direct_counts_hide_mentions:
  assumes "crt" "get threads team = Some c" "get direct team = None"
  shows "\<exists>b. getUnreadStatus cs deleted_at user team crt threads direct = Unread b"
proof -
  have nan: "fst (foldl (add_thread_counts direct team) (NaN, f) es) = NaN" for f es
  proof (induction es arbitrary: f)
    case (Cons e es)
    then show ?case
      by (cases e) (auto simp: add_thread_counts_def plus_jsnum_not_Num split: option.splits)
  qed simp
  have "(team, c) \<in> set es \<Longrightarrow> fst (foldl (add_thread_counts direct team) (n, f) es) = NaN" for n f es
  proof (induction es arbitrary: n f)
    case (Cons e es)
    show ?case
    proof (cases "fst e = team")
      case True
      have "n + Undefined = NaN" by (cases n) auto
      with True assms(3) have "add_thread_counts direct team (n, f) e = (NaN, False)"
        by (cases e) (simp add: add_thread_counts_def)
      then show ?thesis by (simp add: nan)
    next
      case False
      with Cons show ?thesis by (cases e) (auto simp: add_thread_counts_def)
    qed
  qed simp
  from this [OF map_of_SomeD [OF assms(2)]] show ?thesis
    using assms(1) by (auto simp: getUnreadStatus_def unread_status_of_def Let_def split_beta)
qed

section \<open>The order of the unread channels\<close>

interpretation unread_order: comparator_contract "compareUnreadChannels members lastUnreadChannel crt"
  for members lastUnreadChannel crt
  by unfold_locales (auto simp: compareUnreadChannels_def Let_def split: if_splits)

abbreviation muted_in :: "channel_membership obj \<Rightarrow> channel \<Rightarrow> bool" where
  "muted_in members c \<equiv> isChannelMuted (get members (ch_id c))"

text \<open>
  The unread channels keep all channels, muted ones last, before that those with mentions first, and
  otherwise the more recent first; sorting them again changes nothing.
\<close>

theorem unread_channels_sorted:
  "mset (sortUnreadChannels cs members lastUnreadChannel crt) = mset cs \<and>
   sorted_wrt (\<lambda>a b. (muted_in members a \<longrightarrow> muted_in members b) \<and>
     (muted_in members a = muted_in members b \<longrightarrow>
        (has_mentions members lastUnreadChannel b \<longrightarrow> has_mentions members lastUnreadChannel a) \<and>
        (has_mentions members lastUnreadChannel a = has_mentions members lastUnreadChannel b \<longrightarrow>
           last_active_at crt b \<le> last_active_at crt a)))
     (sortUnreadChannels cs members lastUnreadChannel crt) \<and>
   sortUnreadChannels (sortUnreadChannels cs members lastUnreadChannel crt) members lastUnreadChannel crt =
     sortUnreadChannels cs members lastUnreadChannel crt"
proof (intro conjI)
  show "sorted_wrt (\<lambda>a b. (muted_in members a \<longrightarrow> muted_in members b) \<and>
     (muted_in members a = muted_in members b \<longrightarrow>
        (has_mentions members lastUnreadChannel b \<longrightarrow> has_mentions members lastUnreadChannel a) \<and>
        (has_mentions members lastUnreadChannel a = has_mentions members lastUnreadChannel b \<longrightarrow>
           last_active_at crt b \<le> last_active_at crt a)))
     (sortUnreadChannels cs members lastUnreadChannel crt)"
    unfolding sortUnreadChannels_def
    by (rule sorted_wrt_mono_rel [OF _ unread_order.sorted_js_sort])
      (auto simp: compareUnreadChannels_def Let_def split: if_splits)
qed (simp_all add: sortUnreadChannels_def unread_order.js_sort_idem)

definition sample_unread :: "channel list" where
  "sample_unread = [toClientChannel sample_channel, (toClientChannel sample_channel)\<lparr>ch_id := ''d''\<rparr>]"

lemma unread_channels_sorted_witness:
  "sorted_wrt (\<lambda>a b. muted_in [(''c'', sample_member)] a \<longrightarrow> muted_in [(''c'', sample_member)] b)
     (sortUnreadChannels sample_unread [(''c'', sample_member)] None False) \<and>
   size (mset (sortUnreadChannels sample_unread [(''c'', sample_member)] None False)) = 2"
proof
  show "sorted_wrt (\<lambda>a b. muted_in [(''c'', sample_member)] a \<longrightarrow> muted_in [(''c'', sample_member)] b)
     (sortUnreadChannels sample_unread [(''c'', sample_member)] None False)"
    using unread_channels_sorted [of sample_unread "[(''c'', sample_member)]" None False]
    by (elim conjE) (erule sorted_wrt_mono_rel [rotated], blast)
  show "size (mset (sortUnreadChannels sample_unread [(''c'', sample_member)] None False)) = 2"
    using unread_channels_sorted [of sample_unread "[(''c'', sample_member)]" None False]
    by (simp add: sample_unread_def)
qed

section \<open>The name of a direct channel\<close>

lemma string_less_asym: "string_less a b \<Longrightarrow> \<not> string_less b a"
  by (induction a b rule: string_less.induct) auto

lemma string_less_total: "string_less a b \<or> a = b \<or> string_less b a"
proof (induction a b rule: string_less.induct)
  case (4 x xs y ys)
  have "x = y" if "\<not> of_char x < (of_char y :: nat)" "\<not> of_char y < (of_char x :: nat)"
    using that by (metis linorder_cases of_char_eq_iff)
  then show ?case using 4 by auto
qed auto

lemma split_underscores_plain: "CHR ''_'' \<notin> set s \<Longrightarrow> split_underscores s = [s]"
  by (induction s rule: split_underscores.induct) auto

lemma split_underscores_pair:
  "CHR ''_'' \<notin> set a \<Longrightarrow> split_underscores (a @ CHR ''_'' # CHR ''_'' # b) = a # split_underscores b"
proof (induction a)
  case (Cons x a)
  then show ?case by (cases a) auto
qed simp

lemma other_user_of_name:
  assumes "CHR ''_'' \<notin> set a" and "CHR ''_'' \<notin> set b"
  shows "getUserIdFromChannelName a (getDirectChannelName a b) = Some b"
  using assms by (auto simp: getUserIdFromChannelName_def getDirectChannelName_def Let_def first_of_def
      split_underscores_pair split_underscores_plain)

text \<open>
  The other user of a direct channel is read back from its name, whichever of the two builds it; an id
  is made of letters and digits.
\<close>

theorem direct_channel_name_roundtrip:
  assumes "CHR ''_'' \<notin> set a" and "CHR ''_'' \<notin> set b"
  shows "getUserIdFromChannelName a (getDirectChannelName a b) = Some b \<and>
    getDirectChannelName a b = getDirectChannelName b a"
proof
  show "getUserIdFromChannelName a (getDirectChannelName a b) = Some b"
    by (rule other_user_of_name [OF assms])
  show "getDirectChannelName a b = getDirectChannelName b a"
    using string_less_total [of a b] string_less_asym [of a b]
    by (auto simp: getDirectChannelName_def)
qed

lemma direct_channel_name_roundtrip_witness:
  "getUserIdFromChannelName ''b1'' (getDirectChannelName ''b1'' ''a2'') = Some ''a2'' \<and>
     getDirectChannelName ''b1'' ''a2'' = ''a2__b1''"
  using direct_channel_name_roundtrip [of "''b1''" "''a2''"] by (simp add: getDirectChannelName_def)

end
