(* ===== verification/ChannelSetsProps.thy ===== *)
theory ChannelSetsProps
  imports ChannelUnreadsProps
begin

text \<open>
  The sets of the channels of a team (\<open>channelsInTeam\<close>) against the channels themselves: as long as
  a channel stays in its team, every id of a set is that of a channel of the team, and the selectors
  that look the ids up do not throw. A group message made a channel of a team breaks it. Also here:
  the memberships of teams.
\<close>

section \<open>Ids of the sets are channels of the team\<close>

definition sets_ok :: "channels_state \<Rightarrow> bool" where
  "sets_ok cs \<longleftrightarrow> (\<forall>team. \<forall>i \<in> set (get_or [] (cs_channelsInTeam cs) team).
     \<exists>c. get (cs_channels cs) i = Some c \<and> ch_team_id c = team)"

text \<open>
  What is asked of an action: a channel it brings is in the team the store has it in (and the action
  itself is consistent), and who leaves names the team of the channel.
\<close>

definition keeps_team :: "channels_state \<Rightarrow> redux_action \<Rightarrow> bool" where
  "keeps_team cs a \<longleftrightarrow>
     (\<forall>sc \<in> set (received_channels a).
        (\<forall>c. get (cs_channels cs) (ch_id sc) = Some c \<longrightarrow> ch_team_id c = ch_team_id sc) \<and>
        (\<forall>sc' \<in> set (received_channels a). ch_id sc' = ch_id sc \<longrightarrow> ch_team_id sc' = ch_team_id sc)) \<and>
     (\<forall>d. a = ChannelTypes (LEAVE_CHANNEL (Some d)) \<longrightarrow>
        (\<forall>c. get (cs_channels cs) (cl_id d) = Some c \<longrightarrow> cl_team_id d = Some (ch_team_id c)))"

lemma team_keep [simp]: "ch_team_id (keep_display_name st c) = ch_team_id c"
  by (simp add: keep_display_name_def split: option.splits)

lemma team_toClient [simp]: "ch_team_id (toClientChannel c) = ch_team_id c"
  by (simp add: toClientChannel_def channel.truncate_def)

text \<open>A channel after an action: the one before it, or one the action brought, of the same team.\<close>

lemma get_update_teams:
  assumes "\<And>c. ch_team_id (f c) = ch_team_id c"
  shows "map_option ch_team_id (get (foldl (\<lambda>next j. upd next (update_channel next j f)) st js) i) =
    map_option ch_team_id (get st i)"
proof (induction js arbitrary: st)
  case (Cons j js)
  then show ?case using assms by (auto simp: get_update_channel option.map_comp comp_def)
qed simp

definition team_at :: "channel obj \<Rightarrow> string \<Rightarrow> string option" where
  "team_at st i = map_option ch_team_id (get st i)"

definition team_received :: "server_channel list \<Rightarrow> string \<Rightarrow> string \<Rightarrow> bool" where
  "team_received scs i team \<longleftrightarrow> (\<exists>sc \<in> set scs. ch_id sc = i \<and> ch_team_id sc = team)"

lemma team_channels_received:
  assumes "team_at (upd st (channels_received st data)) i = Some team"
  shows "team_at st i = Some team \<or> team_received data i team"
  using assms get_channels_received [of st data i] by (fastforce simp: team_at_def team_received_def)

lemma kept_channels_received:
  "get st i \<noteq> None \<or> i \<in> ch_id ` set data \<Longrightarrow> get (upd st (channels_received st data)) i \<noteq> None"
  using dom_foldl_put [of ch_id "keep_display_name st" st "map toClientChannel data" i]
  by (auto simp: channels_received_def image_image simp del: get_foldl_del)

lemma kept_mapped:
  assumes "get st i \<noteq> None \<or> i \<in> ch_id ` set data"
  shows "get (obj_spread st (channelListToMap (map toClientChannel data))) i \<noteq> None"
proof -
  have "get (channelListToMap (map toClientChannel data)) i \<noteq> None \<longleftrightarrow> i \<in> ch_id ` set data"
    using dom_foldl_put [of ch_id "\<lambda>c. c" "[]" "map toClientChannel data" i]
    by (auto simp: channelListToMap_def image_image)
  with assms show ?thesis by (auto simp: get_obj_spread_wf wf_channelListToMap split: option.splits)
qed

lemma team_mapped:
  assumes "team_at (obj_spread st (channelListToMap (map toClientChannel data))) i = Some team"
  shows "team_at st i = Some team \<or> team_received data i team"
  using assms get_channelListToMap [of "map toClientChannel data" i]
  by (fastforce simp: team_at_def team_received_def get_obj_spread_wf wf_channelListToMap split: option.splits)

lemma team_after:
  assumes "team_at (upd st (channels st a)) i = Some team"
  shows "team_at st i = Some team \<or> team_received (received_channels a) i team"
proof -
  note simps = channels_def received_channels_def Let_def team_at_def team_received_def
  have updated: "team_at (foldl (\<lambda>next j. upd next (update_channel next j (\<lambda>c. c\<lparr>ch_policy_id := None\<rparr>))) st js) i = team_at st i" for js
    by (simp add: team_at_def get_update_teams)
  show ?thesis
  proof (cases a)
    case (ChannelTypes t)
    then show ?thesis
      using assms team_channels_received by (cases t) (auto simp: simps get_update_channel split: option.splits if_splits)
  next
    case (AdminTypes t)
    then show ?thesis
      using assms team_channels_received team_mapped updated
      by (cases t) (auto simp: channels_def received_channels_def split: if_splits)
  next
    case (UserTypes t)
    then show ?thesis using assms by (cases t) (auto simp: simps)
  next
    case (SchemeTypes t)
    then show ?thesis using assms team_channels_received by (cases t) (auto simp: channels_def received_channels_def)
  next
    case (PostTypes t)
    then show ?thesis
      using assms team_after_new_post by (cases t) (auto simp: channels_def received_channels_def team_at_def)
  qed (use assms in \<open>auto simp: simps\<close>)
qed

lemma channels_kept:
  assumes "get st i \<noteq> None \<or> i \<in> ch_id ` set (received_channels a)"
    and "\<And>d. a = ChannelTypes (LEAVE_CHANNEL (Some d)) \<Longrightarrow> cl_id d \<noteq> i" and "a \<noteq> UserTypes LOGOUT_SUCCESS"
  shows "get (upd st (channels st a)) i \<noteq> None"
proof -
  note simps = channels_def received_channels_def Let_def
  have updated: "get (foldl (\<lambda>next j. upd next (update_channel next j (\<lambda>c. c\<lparr>ch_policy_id := None\<rparr>))) st js) i \<noteq> None \<longleftrightarrow> get st i \<noteq> None" for js
    using get_update_teams [of "\<lambda>c. c\<lparr>ch_policy_id := None\<rparr>" st js i] by (auto simp: map_option_case split: option.splits)
  show ?thesis
  proof (cases a)
    case (ChannelTypes t)
    then show ?thesis
      using assms kept_channels_received [of st i] by (cases t) (auto simp: simps get_update_channel split: option.splits)
  next
    case (AdminTypes t)
    then show ?thesis
      using assms kept_channels_received [of st i] kept_mapped [of st i] updated by (cases t) (auto simp: simps)
  next
    case (UserTypes t)
    then show ?thesis using assms by (cases t) (auto simp: simps)
  next
    case (SchemeTypes t)
    then show ?thesis using assms kept_channels_received [of st i] by (cases t) (auto simp: simps)
  next
    case (PostTypes t)
    then show ?thesis
      using assms team_after_new_post [of st _ _ i]
      by (cases t) (auto simp: simps, metis (no_types, lifting) map_option_is_None option.distinct(1))
  qed (use assms in \<open>auto simp: simps\<close>)
qed

lemma set_channelListToSet:
  "i \<in> set (get_or [] (channelListToSet st data) team) \<Longrightarrow>
     i \<in> set (get_or [] st team) \<or> team_received data i team"
  unfolding channelListToSet_def
  by (induction data arbitrary: st) (fastforce simp: team_received_def split: if_splits)+

lemma sets_after:
  assumes "i \<in> set (get_or [] (upd st (channelsInTeam st a)) team)"
  shows "i \<in> set (get_or [] st team) \<or> team_received (received_channels a) i team"
    and "a = ChannelTypes (LEAVE_CHANNEL (Some d)) \<Longrightarrow> cl_id d \<noteq> i \<or> cl_team_id d \<noteq> Some team"
    and "a \<noteq> UserTypes LOGOUT_SUCCESS"
proof -
  show "i \<in> set (get_or [] st team) \<or> team_received (received_channels a) i team"
  proof (cases a)
    case (ChannelTypes t)
    then show ?thesis
      using assms set_channelListToSet [of i st _ team]
      by (cases t) (auto simp: channelsInTeam_def received_channels_def team_received_def removeChannelFromSet_def
          Let_def split: option.splits if_splits)
  next
    case (UserTypes t)
    then show ?thesis using assms by (cases t) (auto simp: channelsInTeam_def)
  qed (use assms in \<open>auto simp: channelsInTeam_def\<close>)
  show "cl_id d \<noteq> i \<or> cl_team_id d \<noteq> Some team" if "a = ChannelTypes (LEAVE_CHANNEL (Some d))"
    using assms that by (auto simp: channelsInTeam_def removeChannelFromSet_def key_of_def Let_def)
  show "a \<noteq> UserTypes LOGOUT_SUCCESS" using assms by (auto simp: channelsInTeam_def)
qed

lemma keeps_team_simps:
  assumes "keeps_team cs a" "sc \<in> set (received_channels a)"
  shows "get (cs_channels cs) (ch_id sc) = Some c \<Longrightarrow> ch_team_id c = ch_team_id sc"
    and "sc' \<in> set (received_channels a) \<Longrightarrow> ch_id sc' = ch_id sc \<Longrightarrow> ch_team_id sc' = ch_team_id sc"
  using bspec [OF conjunct1 [OF assms(1) [unfolded keeps_team_def]] assms(2)] by simp_all

lemma sets_ok_step:
  assumes ok: "sets_ok cs" and adm: "keeps_team cs a" and step: "channels_reducer cs a = Some cs'"
  shows "sets_ok cs'"
  unfolding sets_ok_def
proof (intro allI ballI)
  fix team i
  assume "i \<in> set (get_or [] (cs_channelsInTeam cs') team)"
  note slices = reducer_slices [OF step]
  with \<open>i \<in> _\<close> have here: "i \<in> set (get_or [] (upd (cs_channelsInTeam cs) (channelsInTeam (cs_channelsInTeam cs) a)) team)"
    by simp
  note facts = sets_after [OF here]
  have old: "team_at (cs_channels cs) i = Some t" if "i \<in> set (get_or [] (cs_channelsInTeam cs) t)" for t
    using ok that by (auto simp: sets_ok_def team_at_def)
  have brought: "t' = t" if "team_received (received_channels a) i t" "team_received (received_channels a) i t'" for t t'
  proof -
    from that(1) obtain sc where sc: "sc \<in> set (received_channels a)" "ch_id sc = i" "ch_team_id sc = t"
      unfolding team_received_def by blast
    from that(2) obtain sc' where sc': "sc' \<in> set (received_channels a)" "ch_id sc' = i" "ch_team_id sc' = t'"
      unfolding team_received_def by blast
    show ?thesis using keeps_team_simps(2) [OF adm sc(1) sc'(1)] sc sc' by simp
  qed
  have known: "t' = t" if at: "team_at (cs_channels cs) i = Some t"
    and received: "team_received (received_channels a) i t'" for t t'
  proof -
    from received obtain sc where sc: "sc \<in> set (received_channels a)" "ch_id sc = i" "ch_team_id sc = t'"
      unfolding team_received_def by blast
    from at obtain c where "get (cs_channels cs) i = Some c" "ch_team_id c = t" by (auto simp: team_at_def)
    with keeps_team_simps(1) [OF adm sc(1)] sc show ?thesis by simp
  qed
  have same: "t = team" if "team_at (cs_channels cs) i = Some t \<or> team_received (received_channels a) i t" for t
    using facts(1) that old brought known by (metis option.inject)
  have stays: "cl_id d \<noteq> i" if "a = ChannelTypes (LEAVE_CHANNEL (Some d))" for d
  proof -
    have "received_channels a = []" using that by (simp add: received_channels_def)
    then have "i \<in> set (get_or [] (cs_channelsInTeam cs) team)" using facts(1) by (simp add: team_received_def)
    with ok adm facts(2) [OF that] that show ?thesis by (fastforce simp: sets_ok_def keeps_team_def)
  qed
  have "get (cs_channels cs) i \<noteq> None \<or> i \<in> ch_id ` set (received_channels a)"
    using facts(1) ok by (fastforce simp: sets_ok_def team_received_def)
  from channels_kept [OF this stays facts(3)] obtain c where c: "get (cs_channels cs') i = Some c"
    using slices(2) by auto
  then have "team_at (upd (cs_channels cs) (channels (cs_channels cs) a)) i = Some (ch_team_id c)"
    using slices(2) by (simp add: team_at_def)
  from same [OF team_after [OF this]] c show "\<exists>c. get (cs_channels cs') i = Some c \<and> ch_team_id c = team" by simp
qed

interpretation team_sets: redux_store channels_reducer keeps_team sets_ok init_channels_state
proof unfold_locales
  show "sets_ok init_channels_state" by (simp add: sets_ok_def init_channels_state_def)
qed (rule sets_ok_step)

section \<open>The selectors return\<close>

lemma foldl_known:
  "\<forall>i \<in> set ids. get ob i \<noteq> None \<Longrightarrow>
     foldl (\<lambda>acc i. case acc of None \<Rightarrow> None
              | Some r \<Rightarrow> (case get ob i of None \<Rightarrow> None | Some c \<Rightarrow> Some (f i c r))) (Some r0) ids \<noteq> None"
  by (induction ids arbitrary: r0) auto

lemma sets_known:
  "sets_ok cs \<Longrightarrow> \<forall>i \<in> set (get_or [] (cs_channelsInTeam cs) team). get (cs_channels cs) i \<noteq> None"
  by (fastforce simp: sets_ok_def)

text \<open>
  C30. While channels stay in their teams, the map from the names to the channels of a team and the list
  of group channels are computed without a lookup that fails.
\<close>

theorem channel_maps_return:
  assumes "reachable channels_reducer keeps_team init_channels_state cs"
  shows "getChannelsNameMapInTeam cs team \<noteq> None \<and> getGroupChannelIds cs \<noteq> None"
proof
  have ok: "sets_ok cs" by (rule team_sets.reachable_inv [OF assms])
  show "getChannelsNameMapInTeam cs team \<noteq> None"
    using foldl_known [OF sets_known [OF ok, of team], of "\<lambda>i c r. put (ch_name c) c r" "[]"]
    by (simp add: getChannelsNameMapInTeam_def)
  show "getGroupChannelIds cs \<noteq> None"
    using foldl_known [OF sets_known [OF ok, of "[]"], of "\<lambda>i c r. if ch_type c = GM_CHANNEL then r @ [i] else r" "[]"]
    by (simp add: getGroupChannelIds_def)
qed

lemma channel_maps_return_witness:
  "\<exists>cs. channels_reducer init_channels_state (ChannelTypes (RECEIVED_CHANNEL sample_channel)) = Some cs \<and>
     get_or [] (cs_channelsInTeam cs) ''t'' = [''c''] \<and> getChannelsNameMapInTeam cs ''t'' \<noteq> None"
proof -
  obtain cs where cs: "channels_reducer init_channels_state (ChannelTypes (RECEIVED_CHANNEL sample_channel)) = Some cs"
    by (simp add: channels_reducer_def myMembers_def)
  from reducer_slices(3) [OF cs] have "get_or [] (cs_channelsInTeam cs) ''t'' = [''c'']"
    by (simp add: channelsInTeam_def sample_channel_def init_channels_state_def set_add_def get_or_def)
  moreover have "keeps_team init_channels_state (ChannelTypes (RECEIVED_CHANNEL sample_channel))"
    by (simp add: keeps_team_def received_channels_def init_channels_state_def)
  ultimately show ?thesis
    using cs channel_maps_return [of cs "''t''"] reachable_one [of keeps_team init_channels_state _ channels_reducer cs]
    by blast
qed

text \<open>What the websocket handler dispatches for a user who is removed is such an action.\<close>

lemma user_removed_keeps_team: "keeps_team cs (user_removed_action cs i user)"
  by (simp add: keeps_team_def user_removed_action_def received_channels_def)

text \<open>
  A group message that becomes a private channel of a team stays in the set of direct channels, for
  the reducer adds it to the team's set only; once it is left, the list of group channels throws on
  it.
\<close>

lemma converted_group_breaks_the_list:
  assumes "dispatch_all channels_reducer init_channels_state
    [ChannelTypes (RECEIVED_CHANNEL (sample_channel\<lparr>ch_id := ''g'', ch_type := GM_CHANNEL, ch_team_id := []\<rparr>)),
     ChannelTypes (RECEIVED_CHANNEL (sample_channel\<lparr>ch_id := ''g'', ch_type := PRIVATE_CHANNEL, ch_team_id := ''t''\<rparr>)),
     ChannelTypes (LEAVE_CHANNEL (Some \<lparr>cl_id = ''g'', cl_user_id = ''u'', cl_team_id = Some ''t'',
        cl_type = Some PRIVATE_CHANNEL\<rparr>))] = Some cs"
  shows "getGroupChannelIds cs = None"
  using assms
  by (auto simp: channels_reducer_def channel_slices init_channels_state_def sample_channel_def Let_def
      toClientChannel_def channel.truncate_def keep_display_name_def channel_constants set_add_def
      removeChannelFromSet_def key_of_def getGroupChannelIds_def get_or_def)

section \<open>A channel made private\<close>

text \<open>A count that is not a number stays one, whatever is added to it.\<close>

definition lost_count :: "channel_message_count obj \<Rightarrow> string \<Rightarrow> bool" where
  "lost_count mcs i \<longleftrightarrow> (\<exists>mc. get mcs i = Some mc \<and> \<not> is_number (mc_total mc) \<and> \<not> is_number (mc_root mc))"

lemma lost_count_stays:
  "lost_count mcs i \<Longrightarrow> lost_count (foldl (\<lambda>mcs (n, r). increment_total_msg_count mcs i n r) mcs posts) i"
  by (induction posts arbitrary: mcs)
    (auto simp: lost_count_def increment_total_msg_count_def split: option.splits)

lemma lost_count_unread:
  "lost_count mcs i \<Longrightarrow> \<not> js_pos (un_messages (calculateUnreadCount (get mcs i) member crt))"
proof -
  assume "lost_count mcs i"
  then obtain mc where mc: "get mcs i = Some mc" "\<not> is_number (mc_total mc)" "\<not> is_number (mc_root mc)"
    by (auto simp: lost_count_def)
  have "\<not> js_less (Num 0) x" if "\<not> is_number x" for x using that by (cases x) auto
  with mc show ?thesis
    by (auto simp: calculateUnreadCount_def js_pos_def Let_def split: option.splits)
qed

text \<open>
  The websocket event that a channel is made private puts the channel of the store back through
  \<open>RECEIVED_CHANNEL\<close>. A channel of the store has no message counts: the stored counts become
  \<open>undefined\<close>, and however many posts arrive afterwards the channel shows no unread messages, until
  the server sends the channel again.
\<close>

theorem private_channel_shows_no_messages:
  assumes "i \<noteq> []" and "get (cs_channels (en_channels st)) i = Some c" and "ch_id c = i"
    and "handleChannelConvertedEvent st i = Some st'"
  shows "\<not> js_pos (un_messages (calculateUnreadCount
    (get (foldl (\<lambda>mcs (n, r). increment_total_msg_count mcs i n r) (cs_messageCounts (en_channels st')) posts) i)
    member crt))"
proof -
  from assms have "channels_reducer (en_channels st)
      (ChannelTypes (RECEIVED_CHANNEL (as_server_channel (c\<lparr>ch_type := PRIVATE_CHANNEL\<rparr>)))) = Some (en_channels st')"
    by (auto simp: handleChannelConvertedEvent_def dest: entities_step_channels)
  from reducer_slices(4) [OF this] assms(3)
  have "lost_count (cs_messageCounts (en_channels st')) i"
    by (auto simp: lost_count_def messageCounts_def updateMessageCount_def as_server_channel_def channel.extend_def
        server_channel.fields_def Let_def split: option.splits)
  from lost_count_unread [OF lost_count_stays [OF this]] show ?thesis .
qed

lemma private_channel_shows_no_messages_witness:
  "\<exists>st'. handleChannelConvertedEvent sample_entities ''c'' = Some st' \<and>
     \<not> js_pos (un_messages (calculateUnreadCount
       (get (foldl (\<lambda>mcs (n, r). increment_total_msg_count mcs ''c'' n r) (cs_messageCounts (en_channels st'))
          [(Num 1, Num 1), (Num 1, Num 1)]) ''c'') (Some sample_member) False))"
proof -
  obtain c where c: "get (cs_channels (en_channels sample_entities)) ''c'' = Some c" "ch_id c = ''c''"
    by (simp add: channel_sample_defs)
  then obtain st' where st': "handleChannelConvertedEvent sample_entities ''c'' = Some st'"
    by (simp add: handleChannelConvertedEvent_def entities_step_def channels_reducer_def myMembers_def)
  from private_channel_shows_no_messages [OF _ c st', of "[(Num 1, Num 1), (Num 1, Num 1)]" "Some sample_member" False]
  show ?thesis using st' by simp
qed

end
