(* ===== verification/TeamsProps.thy ===== *)
theory TeamsProps
  imports ChannelSetsProps
begin

text \<open>
  The memberships of my teams: the list the server sends decides which there are and keeps their
  counts, an archived team is left, and two updates that miss their member.
\<close>

section \<open>The list of my memberships\<close>

lemma find_SomeD: "find P xs = Some x \<Longrightarrow> P x \<and> x \<in> set xs"
  by (induction xs) (auto split: if_splits)

lemma get_foldl_put_if:
  "get (foldl (\<lambda>next x. if P x then put (k x) (f x) next else next) st xs) i =
     (case find (\<lambda>x. P x \<and> k x = i) (rev xs) of None \<Rightarrow> get st i | Some x \<Rightarrow> Some (f x))"
  by (induction xs rule: rev_induct) auto

text \<open>
  After \<open>RECEIVED_MY_TEAM_MEMBERS\<close> I am a member of exactly the teams of the list whose membership is
  not deleted; a membership that comes without counts has those it had before, and zeros if there was
  none.
\<close>

theorem my_team_members_replaced:
  assumes "distinct (map tm_team_id ms)"
    and "\<forall>m \<in> set ms. tm_msg_count m = Undefined \<and> tm_mention_count m = Undefined"
  shows "(get (upd st (myTeamMembers st (TeamTypes (RECEIVED_MY_TEAM_MEMBERS ms)))) i \<noteq> None \<longleftrightarrow>
      (\<exists>m \<in> set ms. tm_team_id m = i \<and> not_deleted m)) \<and>
    (\<forall>m \<in> set ms. not_deleted m \<longrightarrow>
      (\<exists>new. get (upd st (myTeamMembers st (TeamTypes (RECEIVED_MY_TEAM_MEMBERS ms)))) (tm_team_id m) = Some new \<and>
        tm_roles new = tm_roles m \<and>
        tm_msg_count new = (case get st (tm_team_id m) of None \<Rightarrow> Num 0 | Some old \<Rightarrow> tm_msg_count old) \<and>
        tm_mention_count new = (case get st (tm_team_id m) of None \<Rightarrow> Num 0 | Some old \<Rightarrow> tm_mention_count old)))"
proof -
  let ?f = "\<lambda>m. spread_member (get_or zero_member st (tm_team_id m)) m"
  have new: "upd st (myTeamMembers st (TeamTypes (RECEIVED_MY_TEAM_MEMBERS ms))) =
      foldl (\<lambda>next m. if not_deleted m then put (tm_team_id m) (?f m) next else next) [] ms"
    by (simp add: myTeamMembers_def my_team_members_received_def)
  have found: "find (\<lambda>x. not_deleted x \<and> tm_team_id x = tm_team_id m) (rev ms) = Some m"
    if m: "m \<in> set ms" "not_deleted m" for m
  proof (cases "find (\<lambda>x. not_deleted x \<and> tm_team_id x = tm_team_id m) (rev ms)")
    case None
    with m show ?thesis by (auto simp: find_None_iff)
  next
    case (Some x)
    from find_SomeD [OF this] have x: "x \<in> set ms" "tm_team_id x = tm_team_id m" by simp_all
    from assms(1) have "inj_on tm_team_id (set ms)" by (simp add: distinct_map)
    with m(1) x have "x = m" by (simp add: inj_on_def)
    with Some show ?thesis by simp
  qed
  have "find (\<lambda>x. not_deleted x \<and> tm_team_id x = i) (rev ms) \<noteq> None \<longleftrightarrow>
      (\<exists>m \<in> set ms. tm_team_id m = i \<and> not_deleted m)"
    by (auto simp: find_None_iff)
  then show ?thesis
    unfolding new get_foldl_put_if using assms(2) found
    by (auto simp: spread_member_def or_else_def get_or_def zero_member_def split: option.splits)
qed

lemma my_team_members_replaced_witness:
  "get (upd [(''t'', no_team_membership\<lparr>tm_msg_count := Num 4\<rparr>), (''s'', no_team_membership)]
      (myTeamMembers [(''t'', no_team_membership\<lparr>tm_msg_count := Num 4\<rparr>), (''s'', no_team_membership)]
        (TeamTypes (RECEIVED_MY_TEAM_MEMBERS [no_team_membership\<lparr>tm_team_id := ''t''\<rparr>])))) ''s'' = None"
  using my_team_members_replaced [of "[no_team_membership\<lparr>tm_team_id := ''t''\<rparr>]"
      "[(''t'', no_team_membership\<lparr>tm_msg_count := Num 4\<rparr>), (''s'', no_team_membership)]" "''s''"]
  by (simp add: no_team_membership_def)

section \<open>Archived teams\<close>

lemma foldl_del_archived:
  "get (foldl (\<lambda>next i. case get ts i of Some t \<Rightarrow> (if 0 < te_delete_at t then del i next else next)
                      | None \<Rightarrow> next) st is) j =
     (if j \<in> set is \<and> (\<exists>t. get ts j = Some t \<and> 0 < te_delete_at t) then None else get st j)"
  by (induction "is" arbitrary: st) (auto split: option.splits if_splits)

lemma get_teamListToMap_last:
  "get (teamListToMap ts) i = map_option (\<lambda>t. t) (find (\<lambda>t. te_id t = i) (rev ts))"
  unfolding teamListToMap_def by (induction ts rule: rev_induct) auto

text \<open>
  Receiving teams ends my membership of those that are archived, and of no other: afterwards I am in a
  team if I was and it is not among the received archived ones.
\<close>

theorem archived_teams_are_left:
  "get (upd st (myTeamMembers st (TeamTypes (RECEIVED_TEAMS_LIST ts)))) i =
     (if \<exists>t. find (\<lambda>t. te_id t = i) (rev ts) = Some t \<and> 0 < te_delete_at t then None else get st i)"
proof -
  have "get (teamListToMap ts) i = find (\<lambda>t. te_id t = i) (rev ts)"
    using get_teamListToMap_last [of ts i] by (cases "find (\<lambda>t. te_id t = i) (rev ts)") auto
  then show ?thesis
    by (auto simp: myTeamMembers_def updateState_def foldl_del_archived keys_iff_get)
qed

section \<open>Updates that miss their member\<close>

text \<open>
  A change of the scheme roles of any member of a team of mine changes the roles of my own membership:
  the reducer of my memberships does not look whose roles they are.
\<close>

lemma roles_of_others_become_mine:
  assumes "get st i = Some m" and "tm_user_id m \<noteq> user"
  shows "\<exists>m'. get (upd st (myTeamMembers st (TeamTypes (UPDATED_TEAM_MEMBER_SCHEME_ROLES
      \<lparr>sr_id = i, sr_userId = user, sr_isSchemeUser = True, sr_isSchemeAdmin = True\<rparr>)))) i = Some m' \<and>
    tm_user_id m' = tm_user_id m \<and> tm_scheme_admin m'"
  using assms by (simp add: myTeamMembers_def updateMyTeamMemberSchemeRoles_def update_member_def)

text \<open>
  A membership received alone replaces the stored one, counts included: the event that my roles
  changed carries none, and the next unread post makes \<open>NaN\<close> of them.
\<close>

lemma role_event_loses_counts:
  assumes "tm_delete_at m = Some 0" "tm_msg_count m = Undefined" "tm_team_id m = uc_teamId d" "\<not> uc_onlyMentions d"
  shows "\<exists>m'. get (upd (upd st (myTeamMembers st (TeamTypes (RECEIVED_MY_TEAM_MEMBER m))))
      (myTeamMembers (upd st (myTeamMembers st (TeamTypes (RECEIVED_MY_TEAM_MEMBER m))))
         (ChannelTypes (INCREMENT_UNREAD_MSG_COUNT d)))) (tm_team_id m) = Some m' \<and> tm_msg_count m' = NaN"
  using assms by (simp add: myTeamMembers_def team_increment_msg_def)

end
