(* ===== verification/Users.thy ===== *)
theory Users
  imports ReduxActions
begin

text \<open>
  The users of the store: \<open>reducers/entities/users.ts\<close>, one definition per slice of the state and
  one per helper. The sets of profiles per team, channel and group are lists without repetition, in
  the order their elements were added.
\<close>

section \<open>Sets of profiles\<close>

definition addProfileToSet :: "string list obj \<Rightarrow> string \<Rightarrow> string \<Rightarrow> string list obj" where
  "addProfileToSet st i userId = put i (set_add userId (get_or [] st i)) st"

definition removeProfileFromSet :: "string list obj \<Rightarrow> string \<Rightarrow> string \<Rightarrow> string list obj" where
  "removeProfileFromSet st i userId = put i (removeAll userId (get_or [] st i)) st"

text \<open>A fold of either over a list of profiles: the given state when the list is empty.\<close>

definition add_all :: "string list obj \<Rightarrow> string \<Rightarrow> user_profile list \<Rightarrow> string list obj nxt" where
  "add_all st i users =
     (if users = [] then Same else New (foldl (\<lambda>next u. addProfileToSet next i (us_id u)) st users))"

definition profilesToSet :: "string list obj \<Rightarrow> string \<Rightarrow> user_profile obj \<Rightarrow> string list obj nxt" where
  "profilesToSet st i data = add_all st i (obj_values data)"

definition removeProfilesFromSet :: "string list obj \<Rightarrow> string \<Rightarrow> user_profile obj \<Rightarrow> string list obj nxt" where
  "removeProfilesFromSet st i data =
     (if data = [] then Same
      else New (foldl (\<lambda>next u. removeProfileFromSet next i (us_id u)) st (obj_values data)))"

definition profileListToSet :: "string list obj \<Rightarrow> string \<Rightarrow> user_profile list option \<Rightarrow> bool \<Rightarrow> string list obj nxt" where
  "profileListToSet st i data replace =
     (let users = (case data of None \<Rightarrow> [] | Some us \<Rightarrow> us)
      in if replace then New (put i (remdups_js (map us_id users)) st) else add_all st i users)"

definition removeProfileListFromSet :: "string list obj \<Rightarrow> string \<Rightarrow> user_profile list option \<Rightarrow> string list obj nxt" where
  "removeProfileListFromSet st i data =
     (case data of
        None \<Rightarrow> Same
      | Some users \<Rightarrow> New (put i (foldl (\<lambda>acc u. removeAll (us_id u) acc) (get_or [] st i) users) st))"

definition removeProfileFromSets :: "string list obj \<Rightarrow> string \<Rightarrow> string list obj nxt" where
  "removeProfileFromSets st userId =
     (if list_ex (\<lambda>(k, ids). userId \<in> set ids) st
      then New (map (\<lambda>(k, ids). (k, removeAll userId ids)) st) else Same)"

section \<open>The current user, sessions and audits\<close>

definition currentUserId :: "string \<Rightarrow> redux_action \<Rightarrow> string" where
  "currentUserId st a =
     (case a of
        UserTypes (RECEIVED_ME user) \<Rightarrow> us_id user
      | UserTypes (LOGIN user ts ms us) \<Rightarrow> (case user of None \<Rightarrow> st | Some u \<Rightarrow> us_id u)
      | UserTypes LOGOUT_SUCCESS \<Rightarrow> []
      | _ \<Rightarrow> st)"

definition mySessions :: "session list \<Rightarrow> redux_action \<Rightarrow> session list nxt" where
  "mySessions st a =
     (case a of
        UserTypes (RECEIVED_SESSIONS sessions) \<Rightarrow> New sessions
      | UserTypes (RECEIVED_REVOKED_SESSION sessionId) \<Rightarrow>
          (case findIndex (\<lambda>s. ss_id s = sessionId) st of None \<Rightarrow> Same | Some i \<Rightarrow> New (remove_at i st))
      | UserTypes (REVOKE_ALL_USER_SESSIONS_SUCCESS isCurrentUser) \<Rightarrow> (if isCurrentUser then New [] else Same)
      | UserTypes REVOKE_SESSIONS_FOR_ALL_USERS_SUCCESS \<Rightarrow> New []
      | UserTypes LOGOUT_SUCCESS \<Rightarrow> New []
      | _ \<Rightarrow> Same)"

definition myAudits :: "audit list \<Rightarrow> redux_action \<Rightarrow> audit list nxt" where
  "myAudits st a =
     (case a of
        UserTypes (RECEIVED_AUDITS audits) \<Rightarrow> New audits
      | UserTypes LOGOUT_SUCCESS \<Rightarrow> New []
      | _ \<Rightarrow> Same)"

section \<open>Profiles\<close>

text \<open>\<open>{...existing, ...received}\<close>, property by property.\<close>

definition over :: "'a option \<Rightarrow> 'a option \<Rightarrow> 'a option" where
  "over old new = (case new of None \<Rightarrow> old | Some v \<Rightarrow> Some v)"

definition spread_profile :: "user_profile \<Rightarrow> user_profile \<Rightarrow> user_profile" where
  "spread_profile e r =
     \<lparr>us_id = us_id r, us_create_at = over (us_create_at e) (us_create_at r),
      us_update_at = over (us_update_at e) (us_update_at r), us_delete_at = over (us_delete_at e) (us_delete_at r),
      us_username = over (us_username e) (us_username r), us_password = over (us_password e) (us_password r),
      us_auth_data = over (us_auth_data e) (us_auth_data r),
      us_auth_service = over (us_auth_service e) (us_auth_service r), us_email = over (us_email e) (us_email r),
      us_nickname = over (us_nickname e) (us_nickname r), us_first_name = over (us_first_name e) (us_first_name r),
      us_middle_name = over (us_middle_name e) (us_middle_name r),
      us_last_name = over (us_last_name e) (us_last_name r), us_position = over (us_position e) (us_position r),
      us_roles = over (us_roles e) (us_roles r), us_props = over (us_props e) (us_props r),
      us_notify_props = over (us_notify_props e) (us_notify_props r),
      us_last_password_update = over (us_last_password_update e) (us_last_password_update r),
      us_last_picture_update = over (us_last_picture_update e) (us_last_picture_update r),
      us_locale = over (us_locale e) (us_locale r), us_timezone = over (us_timezone e) (us_timezone r),
      us_mfa_active = over (us_mfa_active e) (us_mfa_active r),
      us_last_activity_at = over (us_last_activity_at e) (us_last_activity_at r),
      us_is_bot = over (us_is_bot e) (us_is_bot r),
      us_bot_description = over (us_bot_description e) (us_bot_description r),
      us_terms_of_service_id = over (us_terms_of_service_id e) (us_terms_of_service_id r),
      us_terms_of_service_create_at = over (us_terms_of_service_create_at e) (us_terms_of_service_create_at r),
      us_remote_id = over (us_remote_id e) (us_remote_id r), us_status = over (us_status e) (us_status r),
      us_custom_profile_attributes = over (us_custom_profile_attributes e) (us_custom_profile_attributes r),
      us_failed_attempts = over (us_failed_attempts e) (us_failed_attempts r)\<rparr>"

text \<open>A string that is present and not empty.\<close>

definition has_text :: "string option \<Rightarrow> bool" where
  "has_text s \<longleftrightarrow> s \<noteq> None \<and> s \<noteq> Some []"

text \<open>
  Only I am sent my preferences of notification. A profile of mine that comes without them has been
  cleaned of my private data, and what is stored of that stays.
\<close>

definition is_sanitized :: "user_profile \<Rightarrow> user_profile \<Rightarrow> bool" where
  "is_sanitized existing received \<longleftrightarrow> us_notify_props existing \<noteq> None \<and>
     (us_notify_props received = None \<or> us_notify_props received = Some [])"

definition merge_profile :: "user_profile \<Rightarrow> user_profile \<Rightarrow> user_profile" where
  "merge_profile existing received =
     (let merged = spread_profile existing received;
          merged = (if has_text (us_remote_id existing) \<and> \<not> has_text (us_remote_id received)
                    then merged\<lparr>us_remote_id := None\<rparr> else merged)
      in if is_sanitized existing received
         then merged\<lparr>us_email := us_email existing, us_first_name := us_first_name existing,
                us_last_name := us_last_name existing,
                us_last_password_update := us_last_password_update existing,
                us_auth_service := us_auth_service existing, us_notify_props := us_notify_props existing\<rparr>
         else merged)"

text \<open>\<open>isEqual\<close> on objects does not look at the order of their properties.\<close>

definition same_obj :: "'v obj option \<Rightarrow> 'v obj option \<Rightarrow> bool" where
  "same_obj a b =
     (case (a, b) of
        (None, None) \<Rightarrow> True
      | (Some x, Some y) \<Rightarrow> list_all (\<lambda>k. get x k = get y k) (obj_keys x @ obj_keys y)
      | _ \<Rightarrow> False)"

definition same_profile :: "user_profile \<Rightarrow> user_profile \<Rightarrow> bool" where
  "same_profile a b \<longleftrightarrow>
     same_obj (us_props a) (us_props b) \<and> same_obj (us_notify_props a) (us_notify_props b) \<and>
     same_obj (us_custom_profile_attributes a) (us_custom_profile_attributes b) \<and>
     a\<lparr>us_props := None, us_notify_props := None, us_custom_profile_attributes := None\<rparr> =
     b\<lparr>us_props := None, us_notify_props := None, us_custom_profile_attributes := None\<rparr>"

definition receiveUserProfile :: "user_profile obj \<Rightarrow> user_profile \<Rightarrow> user_profile obj nxt" where
  "receiveUserProfile st received =
     (case get st (us_id received) of
        None \<Rightarrow> New (put (us_id received) received st)
      | Some existing \<Rightarrow>
          (let merged = merge_profile existing received
           in if same_profile existing merged then Same else New (put (us_id merged) merged st)))"

text \<open>An entry that is falsy is not deleted.\<close>

definition forget :: "('v \<Rightarrow> bool) \<Rightarrow> 'v obj \<Rightarrow> string \<Rightarrow> 'v obj nxt" where
  "forget falsy st i =
     (case get st i of None \<Rightarrow> Same | Some v \<Rightarrow> if falsy v then Same else New (del i st))"

definition clear_cpa :: "string \<Rightarrow> user_profile \<Rightarrow> user_profile" where
  "clear_cpa fieldId p =
     (case us_custom_profile_attributes p of
        None \<Rightarrow> p
      | Some attrs \<Rightarrow>
          (if get attrs fieldId \<noteq> None then p\<lparr>us_custom_profile_attributes := Some (del fieldId attrs)\<rparr> else p))"

text \<open>
  \<open>nextState[profile.id]\<close>: what \<open>RECEIVED_TERMS_OF_SERVICE_STATUS\<close> stores of a user that is not loaded
  has no id.
\<close>

definition profile_key :: "user_profile \<Rightarrow> string" where
  "profile_key p = (if us_id p = [] then ''undefined'' else us_id p)"

definition profiles :: "user_profile obj \<Rightarrow> redux_action \<Rightarrow> user_profile obj nxt" where
  "profiles st a =
     (case a of
        UserTypes (RECEIVED_ME user) \<Rightarrow> receiveUserProfile st user
      | UserTypes (RECEIVED_PROFILE user) \<Rightarrow> receiveUserProfile st user
      | UserTypes (RECEIVED_CPA_VALUES userID customAttributeValues) \<Rightarrow>
          (case get st userID of
             None \<Rightarrow> Same
           | Some p \<Rightarrow> receiveUserProfile st (p\<lparr>us_custom_profile_attributes :=
               Some (obj_spread (case us_custom_profile_attributes p of None \<Rightarrow> [] | Some attrs \<Rightarrow> attrs)
                       customAttributeValues)\<rparr>))
      | UserTypes (CLEAR_CPA_VALUES fieldId) \<Rightarrow>
          New (foldl (\<lambda>next p. put (profile_key p) (clear_cpa fieldId p) next) [] (obj_values st))
      | UserTypes (RECEIVED_PROFILES_LIST data) \<Rightarrow>
          nxt_fold receiveUserProfile st (case data of None \<Rightarrow> [] | Some users \<Rightarrow> users)
      | UserTypes (RECEIVED_PROFILES data) \<Rightarrow> nxt_fold receiveUserProfile st (obj_values data)
      | UserTypes (RECEIVED_TERMS_OF_SERVICE_STATUS user tos_id tos_create_at) \<Rightarrow>
          New (put user ((get_or no_profile st user)\<lparr>us_terms_of_service_id := tos_id,
                           us_terms_of_service_create_at := tos_create_at\<rparr>) st)
      | UserTypes (PROFILE_NO_LONGER_VISIBLE user) \<Rightarrow> forget (\<lambda>p. False) st user
      | UserTypes LOGOUT_SUCCESS \<Rightarrow> New []
      | _ \<Rightarrow> Same)"

section \<open>Who is where\<close>

definition profilesInTeam :: "string list obj \<Rightarrow> redux_action \<Rightarrow> string list obj nxt" where
  "profilesInTeam st a =
     (case a of
        UserTypes (RECEIVED_PROFILE_IN_TEAM i user) \<Rightarrow> New (addProfileToSet st i user)
      | UserTypes (RECEIVED_PROFILES_LIST_IN_TEAM i data) \<Rightarrow> profileListToSet st i data False
      | UserTypes (RECEIVED_PROFILES_IN_TEAM i data) \<Rightarrow> profilesToSet st i data
      | UserTypes (RECEIVED_PROFILE_NOT_IN_TEAM i user) \<Rightarrow> New (removeProfileFromSet st i user)
      | UserTypes (RECEIVED_PROFILES_LIST_NOT_IN_TEAM i data) \<Rightarrow> removeProfileListFromSet st i data
      | UserTypes LOGOUT_SUCCESS \<Rightarrow> New []
      | UserTypes (PROFILE_NO_LONGER_VISIBLE user) \<Rightarrow> removeProfileFromSets st user
      | _ \<Rightarrow> Same)"

definition profilesNotInTeam :: "string list obj \<Rightarrow> redux_action \<Rightarrow> string list obj nxt" where
  "profilesNotInTeam st a =
     (case a of
        UserTypes (RECEIVED_PROFILE_NOT_IN_TEAM i user) \<Rightarrow> New (addProfileToSet st i user)
      | UserTypes (RECEIVED_PROFILES_LIST_NOT_IN_TEAM i data) \<Rightarrow> profileListToSet st i data False
      | UserTypes (RECEIVED_PROFILES_LIST_NOT_IN_TEAM_AND_REPLACE i data) \<Rightarrow> profileListToSet st i data True
      | UserTypes (RECEIVED_PROFILE_IN_TEAM i user) \<Rightarrow> New (removeProfileFromSet st i user)
      | UserTypes (RECEIVED_PROFILES_LIST_IN_TEAM i data) \<Rightarrow> removeProfileListFromSet st i data
      | UserTypes LOGOUT_SUCCESS \<Rightarrow> New []
      | UserTypes (PROFILE_NO_LONGER_VISIBLE user) \<Rightarrow> removeProfileFromSets st user
      | _ \<Rightarrow> Same)"

text \<open>
  \<open>RECEIVED_PROFILE_IN_TEAM\<close> deletes \<open>action.data.id\<close>, which is the team's id, from a set of users.
\<close>

definition profilesWithoutTeam :: "string list \<Rightarrow> redux_action \<Rightarrow> string list nxt" where
  "profilesWithoutTeam st a =
     (case a of
        UserTypes (RECEIVED_PROFILE_WITHOUT_TEAM ids) \<Rightarrow> New (foldl (\<lambda>acc i. set_add i acc) st ids)
      | UserTypes (RECEIVED_PROFILES_LIST_WITHOUT_TEAM users) \<Rightarrow>
          New (foldl (\<lambda>acc u. set_add (us_id u) acc) st users)
      | UserTypes (RECEIVED_PROFILE_IN_TEAM i user) \<Rightarrow> New (removeAll i st)
      | UserTypes (PROFILE_NO_LONGER_VISIBLE user) \<Rightarrow> New (removeAll user st)
      | UserTypes LOGOUT_SUCCESS \<Rightarrow> New []
      | _ \<Rightarrow> Same)"

definition profilesInChannel :: "string list obj \<Rightarrow> redux_action \<Rightarrow> string list obj nxt" where
  "profilesInChannel st a =
     (case a of
        UserTypes (RECEIVED_PROFILE_IN_CHANNEL i user) \<Rightarrow> New (addProfileToSet st i user)
      | UserTypes (RECEIVED_PROFILES_LIST_IN_CHANNEL i data) \<Rightarrow> profileListToSet st i data False
      | UserTypes (RECEIVED_PROFILES_IN_CHANNEL i data) \<Rightarrow> profilesToSet st i data
      | UserTypes (RECEIVED_PROFILE_NOT_IN_CHANNEL i user) \<Rightarrow> New (removeProfileFromSet st i user)
      | ChannelTypes (CHANNEL_MEMBER_REMOVED i user) \<Rightarrow> New (removeProfileFromSet st i user)
      | UserTypes (PROFILE_NO_LONGER_VISIBLE user) \<Rightarrow> removeProfileFromSets st user
      | UserTypes LOGOUT_SUCCESS \<Rightarrow> New []
      | _ \<Rightarrow> Same)"

definition profilesNotInChannel :: "string list obj \<Rightarrow> redux_action \<Rightarrow> string list obj nxt" where
  "profilesNotInChannel st a =
     (case a of
        UserTypes (RECEIVED_PROFILE_NOT_IN_CHANNEL i user) \<Rightarrow> New (addProfileToSet st i user)
      | UserTypes (RECEIVED_PROFILES_LIST_NOT_IN_CHANNEL i data) \<Rightarrow> profileListToSet st i data False
      | UserTypes (RECEIVED_PROFILES_LIST_NOT_IN_CHANNEL_AND_REPLACE i data) \<Rightarrow> profileListToSet st i data True
      | UserTypes (RECEIVED_PROFILES_NOT_IN_CHANNEL i data) \<Rightarrow> profilesToSet st i data
      | UserTypes (RECEIVED_PROFILES_IN_CHANNEL i data) \<Rightarrow> removeProfilesFromSet st i data
      | UserTypes (RECEIVED_PROFILE_IN_CHANNEL i user) \<Rightarrow> New (removeProfileFromSet st i user)
      | ChannelTypes (CHANNEL_MEMBER_ADDED i user) \<Rightarrow> New (removeProfileFromSet st i user)
      | UserTypes LOGOUT_SUCCESS \<Rightarrow> New []
      | UserTypes (PROFILE_NO_LONGER_VISIBLE user) \<Rightarrow> removeProfileFromSets st user
      | _ \<Rightarrow> Same)"

text \<open>Ids added to or deleted from the set of a group, when there are any.\<close>

definition group_set :: "(string \<Rightarrow> string list \<Rightarrow> string list) \<Rightarrow> string list obj \<Rightarrow> string \<Rightarrow> string list option \<Rightarrow> string list obj nxt" where
  "group_set f st i data =
     (case data of None \<Rightarrow> Same | Some ids \<Rightarrow> New (put i (foldl (\<lambda>acc u. f u acc) (get_or [] st i) ids) st))"

definition profilesInGroup :: "string list obj \<Rightarrow> redux_action \<Rightarrow> string list obj nxt" where
  "profilesInGroup st a =
     (case a of
        UserTypes (RECEIVED_PROFILES_LIST_IN_GROUP i data) \<Rightarrow> profileListToSet st i data False
      | UserTypes (RECEIVED_PROFILES_FOR_GROUP i data) \<Rightarrow> group_set set_add st i data
      | UserTypes (RECEIVED_PROFILES_LIST_TO_REMOVE_FROM_GROUP i data) \<Rightarrow> group_set removeAll st i data
      | UserTypes (PROFILE_NO_LONGER_VISIBLE user) \<Rightarrow> removeProfileFromSets st user
      | UserTypes LOGOUT_SUCCESS \<Rightarrow> New []
      | _ \<Rightarrow> Same)"

definition profilesNotInGroup :: "string list obj \<Rightarrow> redux_action \<Rightarrow> string list obj nxt" where
  "profilesNotInGroup st a =
     (case a of
        UserTypes (RECEIVED_PROFILES_FOR_GROUP i data) \<Rightarrow> group_set removeAll st i data
      | UserTypes (RECEIVED_PROFILES_LIST_NOT_IN_GROUP i data) \<Rightarrow> profileListToSet st i data False
      | UserTypes (PROFILE_NO_LONGER_VISIBLE user) \<Rightarrow> removeProfileFromSets st user
      | UserTypes LOGOUT_SUCCESS \<Rightarrow> New []
      | _ \<Rightarrow> Same)"

section \<open>Statuses, tokens, statistics\<close>

definition dndEndTimes :: "int obj \<Rightarrow> redux_action \<Rightarrow> int obj nxt" where
  "dndEndTimes st a =
     (case a of
        UserTypes (RECEIVED_DND_END_TIMES data) \<Rightarrow> New (obj_spread st data)
      | UserTypes (PROFILE_NO_LONGER_VISIBLE user) \<Rightarrow> forget (\<lambda>n. n = 0) st user
      | UserTypes LOGOUT_SUCCESS \<Rightarrow> New []
      | _ \<Rightarrow> Same)"

definition statuses :: "string obj \<Rightarrow> redux_action \<Rightarrow> string obj nxt" where
  "statuses st a =
     (case a of
        UserTypes (RECEIVED_STATUSES data) \<Rightarrow> New (obj_spread st data)
      | UserTypes (PROFILE_NO_LONGER_VISIBLE user) \<Rightarrow> forget (\<lambda>s. s = []) st user
      | UserTypes LOGOUT_SUCCESS \<Rightarrow> New []
      | _ \<Rightarrow> Same)"

definition isManualStatus :: "bool obj \<Rightarrow> redux_action \<Rightarrow> bool obj nxt" where
  "isManualStatus st a =
     (case a of
        UserTypes (RECEIVED_STATUSES_IS_MANUAL data) \<Rightarrow> New (obj_spread st data)
      | UserTypes (PROFILE_NO_LONGER_VISIBLE user) \<Rightarrow> forget Not st user
      | UserTypes LOGOUT_SUCCESS \<Rightarrow> New []
      | _ \<Rightarrow> Same)"

definition set_active :: "bool \<Rightarrow> user_access_token obj \<Rightarrow> string \<Rightarrow> user_access_token obj nxt" where
  "set_active b st i =
     (case get st i of None \<Rightarrow> Same | Some t \<Rightarrow> New (put i (t\<lparr>uat_is_active := b\<rparr>) st))"

definition myUserAccessTokens :: "user_access_token obj \<Rightarrow> redux_action \<Rightarrow> user_access_token obj nxt" where
  "myUserAccessTokens st a =
     (case a of
        UserTypes (RECEIVED_MY_USER_ACCESS_TOKEN t) \<Rightarrow> New (put (uat_id t) t st)
      | UserTypes (RECEIVED_MY_USER_ACCESS_TOKENS ts) \<Rightarrow> New (foldl (\<lambda>next t. put (uat_id t) t next) st ts)
      | UserTypes (REVOKED_USER_ACCESS_TOKEN i) \<Rightarrow> New (del i st)
      | UserTypes (ENABLED_USER_ACCESS_TOKEN i) \<Rightarrow> set_active True st i
      | UserTypes (DISABLED_USER_ACCESS_TOKEN i) \<Rightarrow> set_active False st i
      | UserTypes CLEAR_MY_USER_ACCESS_TOKENS \<Rightarrow> New []
      | UserTypes LOGOUT_SUCCESS \<Rightarrow> New []
      | _ \<Rightarrow> Same)"

text \<open>The statistics are objects with one optional property, \<open>total_users_count\<close>.\<close>

definition user_stats :: "int option \<Rightarrow> redux_action \<Rightarrow> int option nxt" where
  "user_stats st a = (case a of UserTypes (RECEIVED_USER_STATS stat) \<Rightarrow> New (over st stat) | _ \<Rightarrow> Same)"

definition filteredStats :: "int option \<Rightarrow> redux_action \<Rightarrow> int option nxt" where
  "filteredStats st a =
     (case a of UserTypes (RECEIVED_FILTERED_USER_STATS stat) \<Rightarrow> New (over st stat) | _ \<Rightarrow> Same)"

definition lastActivity :: "int obj \<Rightarrow> redux_action \<Rightarrow> int obj nxt" where
  "lastActivity st a =
     (case a of
        UserTypes (RECEIVED_LAST_ACTIVITIES data) \<Rightarrow> New (obj_spread st data)
      | UserTypes LOGOUT_SUCCESS \<Rightarrow> New []
      | UserTypes (PROFILE_NO_LONGER_VISIBLE user) \<Rightarrow> forget (\<lambda>n. n = 0) st user
      | _ \<Rightarrow> Same)"

section \<open>The reducer\<close>

definition users_reducer :: "users_state \<Rightarrow> redux_action \<Rightarrow> users_state" where
  "users_reducer st a =
     \<lparr>uss_currentUserId = currentUserId (uss_currentUserId st) a,
      uss_isManualStatus = upd (uss_isManualStatus st) (isManualStatus (uss_isManualStatus st) a),
      uss_mySessions = upd (uss_mySessions st) (mySessions (uss_mySessions st) a),
      uss_myAudits = upd (uss_myAudits st) (myAudits (uss_myAudits st) a),
      uss_profiles = upd (uss_profiles st) (profiles (uss_profiles st) a),
      uss_profilesInTeam = upd (uss_profilesInTeam st) (profilesInTeam (uss_profilesInTeam st) a),
      uss_profilesNotInTeam = upd (uss_profilesNotInTeam st) (profilesNotInTeam (uss_profilesNotInTeam st) a),
      uss_profilesWithoutTeam = upd (uss_profilesWithoutTeam st) (profilesWithoutTeam (uss_profilesWithoutTeam st) a),
      uss_profilesInChannel = upd (uss_profilesInChannel st) (profilesInChannel (uss_profilesInChannel st) a),
      uss_profilesNotInChannel =
        upd (uss_profilesNotInChannel st) (profilesNotInChannel (uss_profilesNotInChannel st) a),
      uss_profilesInGroup = upd (uss_profilesInGroup st) (profilesInGroup (uss_profilesInGroup st) a),
      uss_profilesNotInGroup = upd (uss_profilesNotInGroup st) (profilesNotInGroup (uss_profilesNotInGroup st) a),
      uss_statuses = upd (uss_statuses st) (statuses (uss_statuses st) a),
      uss_stats = upd (uss_stats st) (user_stats (uss_stats st) a),
      uss_filteredStats = upd (uss_filteredStats st) (filteredStats (uss_filteredStats st) a),
      uss_myUserAccessTokens = upd (uss_myUserAccessTokens st) (myUserAccessTokens (uss_myUserAccessTokens st) a),
      uss_lastActivity = upd (uss_lastActivity st) (lastActivity (uss_lastActivity st) a),
      uss_dndEndTimes = upd (uss_dndEndTimes st) (dndEndTimes (uss_dndEndTimes st) a)\<rparr>"

end
