(* ===== verification/UsersProps.thy ===== *)
theory UsersProps
  imports Users
begin

text \<open>
  What the users of the store guarantee: my private data outlives the profiles that have been cleaned
  of it, a user who is no longer visible is in no list, and the sets repeat nobody. Also the updates
  that miss.
\<close>

section \<open>My private data\<close>

lemma over_None [simp]: "over x None = x"
  by (simp add: over_def)

definition private_data :: "user_profile \<Rightarrow> string option \<times> string option \<times> string option \<times> int option \<times> string option \<times> string obj option" where
  "private_data p = (us_email p, us_first_name p, us_last_name p, us_last_password_update p, us_auth_service p,
     us_notify_props p)"

lemma merge_sanitized: "is_sanitized existing received \<Longrightarrow> private_data (merge_profile existing received) = private_data existing"
  by (simp add: merge_profile_def private_data_def Let_def)

lemma id_merge [simp]: "us_id (merge_profile existing received) = us_id received"
  by (simp add: merge_profile_def spread_profile_def Let_def)

text \<open>A profile cleaned of the private data of \<open>me\<close>.\<close>

definition cleaned_of :: "string \<Rightarrow> user_profile \<Rightarrow> bool" where
  "cleaned_of me p \<longleftrightarrow> us_id p = me \<longrightarrow> us_notify_props p = None \<or> us_notify_props p = Some []"

lemma receive_cleaned:
  assumes "get st me = Some p" "us_notify_props p \<noteq> None" "cleaned_of me r"
  shows "\<exists>q. get (upd st (receiveUserProfile st r)) me = Some q \<and> private_data q = private_data p"
proof (cases "us_id r = me")
  case False
  then show ?thesis
    using assms by (auto simp: receiveUserProfile_def Let_def split: option.splits)
next
  case True
  with assms have "is_sanitized p r" by (auto simp: is_sanitized_def cleaned_of_def)
  from merge_sanitized [OF this] True assms(1) show ?thesis
    by (auto simp: receiveUserProfile_def Let_def)
qed

text \<open>
  C28. Whatever list of profiles arrives, what is stored of my email, name, password date, login service
  and preferences of notification stays as it is, as long as the profiles of mine in the list come
  cleaned of my preferences.
\<close>

theorem private_data_survives:
  assumes "get st me = Some p" and "us_notify_props p \<noteq> None" and "\<forall>r \<in> set rs. cleaned_of me r"
  shows "\<exists>q. get (upd st (profiles st (UserTypes (RECEIVED_PROFILES_LIST (Some rs))))) me = Some q \<and>
    private_data q = private_data p"
proof -
  have "\<exists>q. get (upd st (nxt_fold receiveUserProfile st rs)) me = Some q \<and> private_data q = private_data p"
    using assms(3)
  proof (induction rs rule: rev_induct)
    case Nil
    with assms(1) show ?case by simp
  next
    case (snoc r rs)
    then obtain q where q: "get (upd st (nxt_fold receiveUserProfile st rs)) me = Some q" "private_data q = private_data p"
      by auto
    then have "us_notify_props q \<noteq> None" using assms(2) by (simp add: private_data_def)
    from receive_cleaned [OF q(1) this] snoc.prems q(2) show ?case by (simp add: upd_nxt_fold_snoc)
  qed
  then show ?thesis by (simp add: profiles_def)
qed

definition sample_me :: user_profile where
  "sample_me = no_profile\<lparr>us_id := ''me'', us_email := Some ''a@b'', us_notify_props := Some [(''email'', ''true'')]\<rparr>"

lemma private_data_survives_witness:
  "\<exists>q. get (upd [(''me'', sample_me)] (profiles [(''me'', sample_me)] (UserTypes (RECEIVED_PROFILES_LIST (Some
      [no_profile\<lparr>us_id := ''me'', us_email := Some [], us_nickname := Some ''n''\<rparr>, no_profile\<lparr>us_id := ''x''\<rparr>]))))) ''me'' = Some q \<and>
    us_email q = Some ''a@b''"
  using private_data_survives [of "[(''me'', sample_me)]" "''me''" sample_me
      "[no_profile\<lparr>us_id := ''me'', us_email := Some [], us_nickname := Some ''n''\<rparr>, no_profile\<lparr>us_id := ''x''\<rparr>]"]
  by (auto simp: cleaned_of_def sample_me_def no_profile_def private_data_def)

section \<open>A user who is no longer visible\<close>

definition in_sets :: "string \<Rightarrow> string list obj \<Rightarrow> bool" where
  "in_sets u st \<longleftrightarrow> (\<exists>k ids. (k, ids) \<in> set st \<and> u \<in> set ids)"

lemma not_in_sets: "\<not> in_sets u (upd st (removeProfileFromSets st u))"
  by (auto simp: in_sets_def removeProfileFromSets_def list_ex_iff)

text \<open>
  When a user is no longer visible, his profile is gone, and he is in none of the sets of users of the
  teams, channels and groups, nor in their complements.
\<close>

theorem invisible_user_is_forgotten:
  assumes "st' = users_reducer st (UserTypes (PROFILE_NO_LONGER_VISIBLE u))"
  shows "get (uss_profiles st') u = None \<and>
    (\<forall>sets \<in> {uss_profilesInTeam st', uss_profilesNotInTeam st', uss_profilesInChannel st',
       uss_profilesNotInChannel st', uss_profilesInGroup st', uss_profilesNotInGroup st'}. \<not> in_sets u sets) \<and>
    u \<notin> set (uss_profilesWithoutTeam st')"
proof -
  have "get (uss_profiles st') u = None"
    by (simp add: assms users_reducer_def profiles_def forget_def split: option.splits)
  then show ?thesis
    by (simp add: assms users_reducer_def not_in_sets profilesInTeam_def profilesNotInTeam_def
        profilesInChannel_def profilesNotInChannel_def profilesInGroup_def profilesNotInGroup_def
        profilesWithoutTeam_def)
qed

lemma invisible_user_is_forgotten_witness:
  "get (uss_profiles (users_reducer (init_users_state\<lparr>uss_profiles := [(''x'', no_profile)],
      uss_profilesInTeam := [(''t'', [''x'', ''y''])]\<rparr>) (UserTypes (PROFILE_NO_LONGER_VISIBLE ''x'')))) ''x'' = None"
  using invisible_user_is_forgotten [OF refl] by blast

text \<open>
  A status set by hand that is \<open>false\<close>, and a time that is 0, are not truthy, and stay behind.
\<close>

lemma false_status_stays:
  "get st u = Some False \<Longrightarrow> get (upd st (isManualStatus st (UserTypes (PROFILE_NO_LONGER_VISIBLE u)))) u = Some False"
  by (simp add: isManualStatus_def forget_def)

section \<open>Updates that miss\<close>

text \<open>
  A user who joins a team is still listed among those without a team: the id the reducer deletes is the
  team's.
\<close>

lemma joined_user_stays_without_team:
  "u \<in> set st \<Longrightarrow> u \<noteq> team \<Longrightarrow> u \<in> set (upd st (profilesWithoutTeam st (UserTypes (RECEIVED_PROFILE_IN_TEAM team u))))"
  by (simp add: profilesWithoutTeam_def)

text \<open>
  The list of the members of a channel is not taken out of the set of those who are not: both sets
  hold them.
\<close>

lemma listed_member_in_both_sets:
  assumes "p \<in> set ps" "us_id p \<in> set (get_or [] notIn ch)"
  shows "us_id p \<in> set (get_or [] (upd st (profilesInChannel st (UserTypes (RECEIVED_PROFILES_LIST_IN_CHANNEL ch (Some ps))))) ch) \<and>
    us_id p \<in> set (get_or [] (upd notIn (profilesNotInChannel notIn (UserTypes (RECEIVED_PROFILES_LIST_IN_CHANNEL ch (Some ps))))) ch)"
proof -
  have "us_id p \<in> set (get_or [] (foldl (\<lambda>next u. addProfileToSet next ch (us_id u)) st ps) ch)"
    using assms(1)
    by (induction ps rule: rev_induct) (auto simp: addProfileToSet_def)
  then show ?thesis
    using assms by (auto simp: profilesInChannel_def profilesNotInChannel_def profileListToSet_def add_all_def)
qed

section \<open>Members and non-members of a team\<close>

text \<open>
  Each update of one list of a team has its mirror image in the other. What breaks the mirror are the
  two actions only one of the reducers knows: all the profiles of a team at once, and the replacement
  of the list of those who are not in it.
\<close>

definition mirrored :: "redux_action \<Rightarrow> bool" where
  "mirrored a \<longleftrightarrow>
     (case a of
        UserTypes (RECEIVED_PROFILES_IN_TEAM i data) \<Rightarrow> False
      | UserTypes (RECEIVED_PROFILES_LIST_NOT_IN_TEAM_AND_REPLACE i data) \<Rightarrow> False
      | _ \<Rightarrow> True)"

definition team_sets_disjoint :: "users_state \<Rightarrow> bool" where
  "team_sets_disjoint st \<longleftrightarrow>
     (\<forall>i. set (get_or [] (uss_profilesInTeam st) i) \<inter> set (get_or [] (uss_profilesNotInTeam st) i) = {})"

lemma get_or_map_values: "f d = d \<Longrightarrow> get_or d (map (\<lambda>(k, v). (k, f v)) ob) j = f (get_or d ob j)"
  by (induction ob) (auto simp: get_or_def)

lemma set_addProfileToSet [simp]:
  "set (get_or [] (addProfileToSet st i u) j) = (if j = i then insert u else id) (set (get_or [] st j))"
  by (simp add: addProfileToSet_def)

lemma set_removeProfileFromSet [simp]:
  "set (get_or [] (removeProfileFromSet st i u) j) = (if j = i then (\<lambda>s. s - {u}) else id) (set (get_or [] st j))"
  by (simp add: removeProfileFromSet_def)

definition listed :: "user_profile list option \<Rightarrow> string set" where
  "listed data = (case data of None \<Rightarrow> {} | Some us \<Rightarrow> us_id ` set us)"

lemma set_add_all:
  "set (get_or [] (upd st (add_all st i us)) j) = (if j = i then (\<union>) (us_id ` set us) else id) (set (get_or [] st j))"
proof -
  have "set (get_or [] (foldl (\<lambda>next u. addProfileToSet next i (us_id u)) st us) j) =
      (if j = i then (\<union>) (us_id ` set us) else id) (set (get_or [] st j))"
    by (induction us rule: rev_induct) auto
  then show ?thesis by (cases "j = i") (simp_all add: add_all_def)
qed

lemma set_profileListToSet:
  "set (get_or [] (upd st (profileListToSet st i data False)) j) =
     (if j = i then (\<union>) (listed data) else id) (set (get_or [] st j))"
  by (simp add: profileListToSet_def Let_def set_add_all listed_def split: option.split)

lemma set_removeProfileListFromSet:
  "set (get_or [] (upd st (removeProfileListFromSet st i data)) j) =
     (if j = i then (\<lambda>s. s - listed data) else id) (set (get_or [] st j))"
proof -
  have "set (foldl (\<lambda>acc u. removeAll (us_id u) acc) xs us) = set xs - us_id ` set us" for xs us
    by (induction us rule: rev_induct) auto
  then show ?thesis by (cases data; cases "j = i") (simp_all add: removeProfileListFromSet_def listed_def)
qed

lemma set_removeProfileFromSets:
  "set (get_or [] (upd st (removeProfileFromSets st u)) j) = set (get_or [] st j) - {u}"
proof (cases "list_ex (\<lambda>(k, ids). u \<in> set ids) st")
  case True
  then show ?thesis by (simp add: removeProfileFromSets_def get_or_map_values)
next
  case False
  then have "u \<notin> set (get_or [] st j)"
    by (fastforce simp: list_ex_iff get_or_def split: option.splits dest: map_of_SomeD [OF sym])
  with False show ?thesis by (simp add: removeProfileFromSets_def)
qed

lemmas team_set_simps = set_profileListToSet set_removeProfileListFromSet set_removeProfileFromSets

lemma team_sets_step:
  assumes "team_sets_disjoint st" "mirrored a"
  shows "team_sets_disjoint (users_reducer st a)"
proof (cases a)
  case (UserTypes t)
  with assms show ?thesis
    by (cases t) (auto simp: team_sets_disjoint_def users_reducer_def profilesInTeam_def profilesNotInTeam_def
        mirrored_def team_set_simps split: if_splits)
qed (use assms in \<open>simp_all add: team_sets_disjoint_def users_reducer_def profilesInTeam_def profilesNotInTeam_def\<close>)

text \<open>
  C36. Nobody is listed both in a team and out of it, whatever mirrored actions arrive and in whatever
  order.
\<close>

theorem nobody_in_and_out_of_a_team:
  assumes "\<forall>a \<in> set as. mirrored a"
  shows "team_sets_disjoint (foldl users_reducer init_users_state as)"
  using assms
proof (induction as rule: rev_induct)
  case Nil
  then show ?case by (simp add: team_sets_disjoint_def init_users_state_def)
next
  case (snoc a as)
  then show ?case by (simp add: team_sets_step)
qed

lemma nobody_in_and_out_of_a_team_witness:
  "team_sets_disjoint (foldl users_reducer init_users_state
     [UserTypes (RECEIVED_PROFILES_LIST_NOT_IN_TEAM ''t'' (Some [no_profile\<lparr>us_id := ''u''\<rparr>])),
      UserTypes (RECEIVED_PROFILE_IN_TEAM ''t'' ''u''), UserTypes (PROFILE_NO_LONGER_VISIBLE ''v'')])"
  by (rule nobody_in_and_out_of_a_team) (simp add: mirrored_def)

text \<open>
  The replacement leaves the team's own list alone: a member listed in it is then in both.
\<close>

lemma replaced_list_overlaps:
  "\<not> team_sets_disjoint (foldl users_reducer init_users_state
     [UserTypes (RECEIVED_PROFILE_IN_TEAM ''t'' ''u''),
      UserTypes (RECEIVED_PROFILES_LIST_NOT_IN_TEAM_AND_REPLACE ''t'' (Some [no_profile\<lparr>us_id := ''u''\<rparr>]))])"
  by (auto simp: team_sets_disjoint_def users_reducer_def profilesInTeam_def profilesNotInTeam_def
      profileListToSet_def remdups_js_def set_add_def addProfileToSet_def removeProfileFromSet_def init_users_state_def
      no_profile_def get_or_def intro!: exI [of _ "''t''"])

end
