(* ===== verification/UserUtils.thy ===== *)
theory UserUtils
  imports Users PostUtils
begin

text \<open>
  \<open>utils/user_utils.ts\<close>: the name a user is shown by, the roles, and what the suggestions for users
  match. \<open>lower\<close> is \<open>toLowerCase\<close>, \<open>lc\<close> is \<open>localeCompare\<close> for a locale, \<open>someone\<close> the translation of
  the word. An absent username reads as the empty string, which the code tests for truth only.
\<close>

section \<open>Strings\<close>

fun join :: "string \<Rightarrow> string list \<Rightarrow> string" where
  "join sep [] = []"
| "join sep [s] = s"
| "join sep (s # t # ss) = s @ sep @ join sep (t # ss)"

text \<open>\<open>x || ''\<close>\<close>

definition or_empty :: "string option \<Rightarrow> string" where
  "or_empty s = (case s of None \<Rightarrow> [] | Some t \<Rightarrow> t)"

text \<open>The blanks \<open>trim\<close> takes off, as far as they are Latin-1.\<close>

definition is_space :: "char \<Rightarrow> bool" where
  "is_space c \<longleftrightarrow> c \<in> {CHR '' '', CHR 0x09, CHR 0x0A, CHR 0x0B, CHR 0x0C, CHR 0x0D, CHR 0xA0}"

definition trim_text :: "string \<Rightarrow> string" where
  "trim_text s = rev (dropWhile is_space (rev (dropWhile is_space s)))"

text \<open>\<open>s.includes(t)\<close>\<close>

fun contains :: "string \<Rightarrow> string \<Rightarrow> bool" where
  "contains t [] \<longleftrightarrow> t = []"
| "contains t (c # s) \<longleftrightarrow> starts_with t (c # s) \<or> contains t s"

section \<open>Names\<close>

definition getFullName :: "user_profile \<Rightarrow> string" where
  "getFullName user =
     join '' '' (filter (\<lambda>part. part \<noteq> [])
       [or_empty (us_last_name user), or_empty (us_first_name user), or_empty (us_middle_name user)])"

definition DISPLAY_PREFER_NICKNAME :: string where "DISPLAY_PREFER_NICKNAME = ''nickname_full_name''"
definition DISPLAY_PREFER_FULL_NAME :: string where "DISPLAY_PREFER_FULL_NAME = ''full_name''"

definition remote_username :: "user_profile \<Rightarrow> string option" where
  "remote_username user =
     (case us_props user of None \<Rightarrow> None | Some props \<Rightarrow> get props ''RemoteUsername'')"

definition displayUsername :: "string \<Rightarrow> user_profile option \<Rightarrow> string \<Rightarrow> bool \<Rightarrow> string" where
  "displayUsername someone user teammateNameDisplay useFallbackUsername =
     (case user of
        None \<Rightarrow> (if useFallbackUsername then someone else [])
      | Some u \<Rightarrow>
          (let name =
             (if teammateNameDisplay = DISPLAY_PREFER_NICKNAME
              then (if has_text (us_nickname u) then or_empty (us_nickname u) else getFullName u)
              else if teammateNameDisplay = DISPLAY_PREFER_FULL_NAME then getFullName u
              else if has_text (us_remote_id u) \<and> has_text (remote_username u) then or_empty (remote_username u)
              else or_empty (us_username u))
           in if name = [] \<or> trim_text name = [] then or_empty (us_username u) else name))"

section \<open>Roles\<close>

definition TEAM_USER_ROLE :: string where "TEAM_USER_ROLE = ''team_user''"
definition TEAM_ADMIN_ROLE :: string where "TEAM_ADMIN_ROLE = ''team_admin''"
definition CHANNEL_USER_ROLE :: string where "CHANNEL_USER_ROLE = ''channel_user''"
definition CHANNEL_ADMIN_ROLE :: string where "CHANNEL_ADMIN_ROLE = ''channel_admin''"
definition SYSTEM_PARTNER_ROLE :: string where "SYSTEM_PARTNER_ROLE = ''system_partner''"
definition SYSTEM_USER_ROLE :: string where "SYSTEM_USER_ROLE = ''system_user''"
definition SYSTEM_ADMIN_ROLE :: string where "SYSTEM_ADMIN_ROLE = ''system_admin''"
definition SYSTEM_USER_MANAGER_ROLE :: string where "SYSTEM_USER_MANAGER_ROLE = ''system_user_manager''"
definition SYSTEM_READ_ONLY_ADMIN_ROLE :: string where "SYSTEM_READ_ONLY_ADMIN_ROLE = ''system_read_only_admin''"
definition SYSTEM_MANAGER_ROLE :: string where "SYSTEM_MANAGER_ROLE = ''system_manager''"

lemmas role_names = TEAM_USER_ROLE_def TEAM_ADMIN_ROLE_def CHANNEL_USER_ROLE_def CHANNEL_ADMIN_ROLE_def
  SYSTEM_PARTNER_ROLE_def SYSTEM_USER_ROLE_def SYSTEM_ADMIN_ROLE_def SYSTEM_USER_MANAGER_ROLE_def
  SYSTEM_READ_ONLY_ADMIN_ROLE_def SYSTEM_MANAGER_ROLE_def

definition spaceSeparatedStringIncludes :: "string \<Rightarrow> string option \<Rightarrow> bool" where
  "spaceSeparatedStringIncludes item spaceSeparated \<longleftrightarrow>
     has_text spaceSeparated \<and> item \<in> set (split_on (CHR '' '') (or_empty spaceSeparated))"

definition isTeamAdmin :: "string \<Rightarrow> bool" where
  "isTeamAdmin roles = spaceSeparatedStringIncludes TEAM_ADMIN_ROLE (Some roles)"

definition isSystemAdmin :: "string \<Rightarrow> bool" where
  "isSystemAdmin roles = spaceSeparatedStringIncludes SYSTEM_ADMIN_ROLE (Some roles)"

definition isAdmin :: "string \<Rightarrow> bool" where
  "isAdmin roles \<longleftrightarrow> isSystemAdmin roles \<or> isTeamAdmin roles"

definition isPartner :: "string \<Rightarrow> bool" where
  "isPartner roles = spaceSeparatedStringIncludes SYSTEM_PARTNER_ROLE (Some roles)"

definition isChannelAdmin :: "string \<Rightarrow> bool" where
  "isChannelAdmin roles = spaceSeparatedStringIncludes CHANNEL_ADMIN_ROLE (Some roles)"

definition hasUserAccessTokenRole :: "string \<Rightarrow> bool" where
  "hasUserAccessTokenRole roles = spaceSeparatedStringIncludes ''system_user_access_token'' (Some roles)"

definition hasPostAllRole :: "string \<Rightarrow> bool" where
  "hasPostAllRole roles = spaceSeparatedStringIncludes ''system_post_all'' (Some roles)"

definition hasPostAllPublicRole :: "string \<Rightarrow> bool" where
  "hasPostAllPublicRole roles = spaceSeparatedStringIncludes ''system_post_all_public'' (Some roles)"

definition includesAnAdminRole :: "string \<Rightarrow> bool" where
  "includesAnAdminRole roles \<longleftrightarrow>
     list_ex (\<lambda>el. el \<in> set (split_on (CHR '' '') roles))
       [SYSTEM_ADMIN_ROLE, SYSTEM_USER_MANAGER_ROLE, SYSTEM_READ_ONLY_ADMIN_ROLE, SYSTEM_MANAGER_ROLE]"

definition getPartnerSubtype :: "user_profile \<Rightarrow> string" where
  "getPartnerSubtype user =
     (case us_props user of
        None \<Rightarrow> ''not_specified''
      | Some props \<Rightarrow>
          (if has_text (get props ''partner_subtype'') then or_empty (get props ''partner_subtype'')
           else ''not_specified''))"

definition isPartnerSubtype :: "string \<Rightarrow> bool" where
  "isPartnerSubtype subtype \<longleftrightarrow> subtype \<in> {''not_specified'', ''contractor'', ''customer'', ''partner''}"

section \<open>Lists of users\<close>

definition profileListToMap :: "user_profile list \<Rightarrow> user_profile obj" where
  "profileListToMap profileList = foldl (\<lambda>profiles u. put (us_id u) u profiles) [] profileList"

text \<open>The last of the list with that id, which is taken out of the very list that was given.\<close>

definition removeUserFromList :: "string \<Rightarrow> user_profile list \<Rightarrow> user_profile list" where
  "removeUserFromList userId users =
     (case findIndex (\<lambda>u. us_id u = userId) (rev users) of
        None \<Rightarrow> users
      | Some i \<Rightarrow> remove_at (length users - 1 - i) users)"

definition sortByUsername :: "(string \<Rightarrow> string \<Rightarrow> int) \<Rightarrow> user_profile \<Rightarrow> user_profile \<Rightarrow> int" where
  "sortByUsername lc a b = lc (or_empty (us_username a)) (or_empty (us_username b))"

section \<open>Suggestions\<close>

text \<open>
  Both loops keep adding at the end. The separator is one character wherever the function is called.
\<close>

definition add_split_suggestion :: "char \<Rightarrow> string list \<Rightarrow> string \<Rightarrow> string list" where
  "add_split_suggestion splitStr acc val =
     (if acc = [] then acc @ [val] else acc @ [splitStr # val, val])"

definition getSuggestionsSplitBy :: "string \<Rightarrow> char \<Rightarrow> string list" where
  "getSuggestionsSplitBy typed splitStr =
     (let splitTerm = split_on splitStr typed;
          initialSuggestions = map (\<lambda>i. join [splitStr] (drop i splitTerm)) [0..<length splitTerm]
      in if splitStr = CHR '' '' then initialSuggestions
         else foldl (add_split_suggestion splitStr) [] initialSuggestions)"

definition getSuggestionsSplitByMultiple :: "string \<Rightarrow> char list \<Rightarrow> string list" where
  "getSuggestionsSplitByMultiple typed splitStrs =
     foldl (\<lambda>acc val. foldl (\<lambda>acc suggestion. set_add suggestion acc) acc (getSuggestionsSplitBy typed val)) [] splitStrs"

definition AUTOCOMPLETE_SPLIT_CHARACTERS :: "char list" where
  "AUTOCOMPLETE_SPLIT_CHARACTERS = [CHR ''.'', CHR ''-'', CHR ''_'']"

definition nameSuggestionsForUser :: "(string \<Rightarrow> string) \<Rightarrow> user_profile \<Rightarrow> bool \<Rightarrow> string list" where
  "nameSuggestionsForUser lower user includeFullEmail =
     (let usernameSuggestions = getSuggestionsSplitByMultiple (lower (or_empty (us_username user))) AUTOCOMPLETE_SPLIT_CHARACTERS;
          first = lower (or_empty (us_first_name user));
          middle = lower (or_empty (us_middle_name user));
          lastName = lower (or_empty (us_last_name user));
          full = join '' '' (filter (\<lambda>part. part \<noteq> []) [first, middle, lastName]);
          positionSuggestions = getSuggestionsSplitBy (lower (or_empty (us_position user))) (CHR '' '');
          email = lower (or_empty (us_email user));
          emailPrefix = takeWhile (\<lambda>c. c \<noteq> CHR ''@'') email
      in usernameSuggestions @ [first, middle, lastName, full] @ [lower (or_empty (us_nickname user))] @
         positionSuggestions @ [emailPrefix] @
         (if includeFullEmail \<and> CHR ''@'' \<in> set email then [email] else []))"

definition trimmed_term :: "(string \<Rightarrow> string) \<Rightarrow> string \<Rightarrow> string" where
  "trimmed_term lower typed =
     (let lowercasedTerm = lower typed
      in if starts_with ''@'' lowercasedTerm then drop 1 lowercasedTerm else lowercasedTerm)"

definition some_suggestion :: "(string \<Rightarrow> string \<Rightarrow> bool) \<Rightarrow> (string \<Rightarrow> string) \<Rightarrow> string \<Rightarrow> user_profile \<Rightarrow> bool" where
  "some_suggestion matches lower typed user \<longleftrightarrow>
     list_ex (matches (trimmed_term lower typed))
       (filter (\<lambda>suggestion. suggestion \<noteq> [])
         (nameSuggestionsForUser lower user (CHR ''@'' \<in> set (lower typed))))"

text \<open>A list of users may have holes.\<close>

definition filterProfilesStartingWithTerm ::
  "(string \<Rightarrow> string) \<Rightarrow> user_profile option list \<Rightarrow> string \<Rightarrow> user_profile option list" where
  "filterProfilesStartingWithTerm lower users typed =
     filter (\<lambda>user. case user of None \<Rightarrow> False | Some u \<Rightarrow> some_suggestion starts_with lower typed u) users"

definition filterProfilesMatchingWithTerm ::
  "(string \<Rightarrow> string) \<Rightarrow> user_profile option list \<Rightarrow> string \<Rightarrow> user_profile option list" where
  "filterProfilesMatchingWithTerm lower users typed =
     filter (\<lambda>user. case user of None \<Rightarrow> False | Some u \<Rightarrow> some_suggestion contains lower typed u) users"

section \<open>Filters by role\<close>

text \<open>What is read of the membership of a team or a channel.\<close>

record scheme_flags =
  sf_user :: bool
  sf_admin :: bool

text \<open>\<open>user.roles.includes(role)\<close> looks for a substring, not for an element.\<close>

definition checkUserHasRole :: "string \<Rightarrow> bool \<Rightarrow> scheme_flags option \<Rightarrow> string \<Rightarrow> bool" where
  "checkUserHasRole user_roles userIsNotAdminOrPartner membership role \<longleftrightarrow>
     (let isSystemRole = contains ''system'' role;
          schemeUser = (case membership of None \<Rightarrow> False | Some m \<Rightarrow> sf_user m \<and> \<not> sf_admin m);
          schemeAdmin = (case membership of None \<Rightarrow> False | Some m \<Rightarrow> sf_admin m)
      in (isSystemRole \<and> contains role user_roles \<and>
            ((role = SYSTEM_USER_ROLE \<and> userIsNotAdminOrPartner) \<or> role \<noteq> SYSTEM_USER_ROLE)) \<or>
         (\<not> isSystemRole \<and> userIsNotAdminOrPartner \<and>
            ((role = TEAM_ADMIN_ROLE \<and> schemeAdmin) \<or> (role = CHANNEL_ADMIN_ROLE \<and> schemeAdmin) \<or>
             (role = TEAM_USER_ROLE \<and> schemeUser) \<or> (role = CHANNEL_USER_ROLE \<and> schemeUser))))"

text \<open>A profile without roles throws.\<close>

definition applyRolesFilters ::
  "user_profile \<Rightarrow> string list \<Rightarrow> string list \<Rightarrow> scheme_flags option \<Rightarrow> bool option" where
  "applyRolesFilters user filterRoles excludeRoles membership =
     (case us_roles user of
        None \<Rightarrow> None
      | Some roles \<Rightarrow>
          (let userIsNotAdminOrPartner = (\<not> (contains SYSTEM_ADMIN_ROLE roles \<or> contains SYSTEM_PARTNER_ROLE roles));
               has = checkUserHasRole roles userIsNotAdminOrPartner membership
           in Some (if list_ex has excludeRoles then False else filterRoles = [] \<or> list_ex has filterRoles)))"

end
