(* ===== verification/UserUtilsProps.thy ===== *)
theory UserUtilsProps
  imports UserUtils
begin

text \<open>
  What the suggestions for a user are, that whoever types the beginning of a part of a username finds
  the user, and whom the filters by role let through.
\<close>

section \<open>Splitting\<close>

lemma split_on_nonempty: "split_on c t \<noteq> []"
  by (induction t) (auto split: list.splits)

lemma join_Cons: "ss \<noteq> [] \<Longrightarrow> join sep (s # ss) = s @ sep @ join sep ss"
  by (cases ss) auto

lemma join_split_on: "join [c] (split_on c t) = t"
proof (induction t)
  case (Cons x t)
  then show ?case
    using split_on_nonempty [of c t]
    by (cases "split_on c t"; cases "tl (split_on c t)") (auto simp: join_Cons)
qed simp

definition pieces :: "char \<Rightarrow> string \<Rightarrow> string list" where
  "pieces c t = map (\<lambda>i. join [c] (drop i (split_on c t))) [0..<length (split_on c t)]"

lemma pieces_step:
  assumes "length yss = n"
  shows "map (\<lambda>i. join [c] (drop i (ys # yss))) [0..<Suc n] =
     join [c] (ys # yss) # map (\<lambda>i. join [c] (drop i yss)) [0..<n]"
  by (subst upt_conv_Cons) (simp_all add: map_Suc_upt [symmetric] comp_def del: upt_Suc)

lemma pieces_head: "pieces c t = t # tl (pieces c t)"
proof -
  obtain ys yss where "split_on c t = ys # yss" using split_on_nonempty [of c t] by (cases "split_on c t") auto
  then show ?thesis using pieces_step [of yss "length yss" c ys] join_split_on [of c t] by (simp add: pieces_def)
qed

lemma pieces_tail: "tl (pieces c (x # t)) = (if x = c then pieces c t else tl (pieces c t))"
proof -
  obtain ys yss where "split_on c t = ys # yss" using split_on_nonempty [of c t] by (cases "split_on c t") auto
  then show ?thesis
    using pieces_step [of yss "length yss" c ys] pieces_step [of yss "length yss" c "x # ys"]
      pieces_step [of "ys # yss" "Suc (length yss)" c "[]"]
    by (simp add: pieces_def del: upt_Suc)
qed

lemma set_pieces_tail: "set (tl (pieces c t)) = {s. \<exists>p. t = p @ c # s}"
proof (induction t)
  case Nil
  then show ?case by (simp add: pieces_def)
next
  case (Cons x t)
  have "{s. \<exists>p. x # t = p @ c # s} = (if x = c then {t} else {}) \<union> {s. \<exists>p. t = p @ c # s}"
    by (auto simp: Cons_eq_append_conv)
  moreover have "set (tl (pieces c (x # t))) = (if x = c then {t} else {}) \<union> set (tl (pieces c t))"
  proof (cases "x = c")
    case True
    then show ?thesis using arg_cong [OF pieces_head [of c t], of set] by (simp add: pieces_tail)
  qed (simp add: pieces_tail)
  ultimately show ?case using Cons.IH by simp
qed

lemma add_split_suggestions:
  "acc \<noteq> [] \<Longrightarrow> set (foldl (add_split_suggestion c) acc vs) = set acc \<union> set vs \<union> (#) c ` set vs"
  by (induction vs arbitrary: acc) (auto simp: add_split_suggestion_def)

text \<open>
  The suggestions for a term split at a separator other than the blank are the rests of the term that begin
  where the term begins, at a separator, or right behind one.
\<close>

lemma suggestions_begin_at_separators:
  assumes "c \<noteq> CHR '' ''"
  shows "set (getSuggestionsSplitBy t c) = {s. \<exists>p. t = p @ s \<and> (p = [] \<or> last p = c \<or> (s \<noteq> [] \<and> hd s = c))}"
proof -
  have "set (getSuggestionsSplitBy t c) = set (foldl (add_split_suggestion c) [] (pieces c t))"
    using assms by (simp add: getSuggestionsSplitBy_def pieces_def Let_def)
  also have "\<dots> = set (foldl (add_split_suggestion c) [t] (tl (pieces c t)))"
    by (subst pieces_head) (simp add: add_split_suggestion_def)
  also have "\<dots> = {t} \<union> {s. \<exists>p. t = p @ c # s} \<union> (#) c ` {s. \<exists>p. t = p @ c # s}"
    by (simp add: add_split_suggestions set_pieces_tail)
  also have "\<dots> = {s. \<exists>p. t = p @ s \<and> (p = [] \<or> last p = c \<or> (s \<noteq> [] \<and> hd s = c))}" (is "?A = ?B")
  proof
    show "?A \<subseteq> ?B"
    proof
      fix s assume "s \<in> ?A"
      then consider "s = t" | p where "t = p @ c # s" | p v where "s = c # v" "t = p @ c # v" by auto
      then show "s \<in> ?B"
      proof cases
        case (2 p)
        then show ?thesis by (auto intro!: exI [of _ "p @ [c]"])
      qed auto
    qed
    show "?B \<subseteq> ?A"
    proof
      fix s assume "s \<in> ?B"
      then obtain p where p: "t = p @ s" "p = [] \<or> last p = c \<or> (s \<noteq> [] \<and> hd s = c)" by auto
      consider "p = []" | "p \<noteq> []" "last p = c" | "s \<noteq> []" "hd s = c" using p(2) by auto
      then show "s \<in> ?A"
      proof cases
        case 2
        then have "t = butlast p @ c # s" using p(1) append_butlast_last_id [of p] by simp
        then show ?thesis by blast
      next
        case 3
        then obtain v where "s = c # v" by (cases s) auto
        with p(1) show ?thesis by blast
      qed (use p in simp)
    qed
  qed
  finally show ?thesis .
qed

section \<open>Finding users\<close>

lemma set_fold_add: "set (foldl (\<lambda>acc s. set_add s acc) acc ss) = set acc \<union> set ss"
  using set_foldl_set_add [of "\<lambda>s. s" acc ss] by simp

lemma set_suggestions_multiple:
  "set (getSuggestionsSplitByMultiple t cs) = (\<Union>c \<in> set cs. set (getSuggestionsSplitBy t c))"
proof -
  have "set (foldl (\<lambda>acc val. foldl (\<lambda>acc s. set_add s acc) acc (getSuggestionsSplitBy t val)) acc cs) =
      set acc \<union> (\<Union>c \<in> set cs. set (getSuggestionsSplitBy t c))" for acc
    by (induction cs arbitrary: acc) (auto simp: set_fold_add)
  then show ?thesis by (simp add: getSuggestionsSplitByMultiple_def)
qed

lemma starts_with_iff: "starts_with p s \<longleftrightarrow> (\<exists>r. s = p @ r)"
  by (metis append_eq_conv_conj append_take_drop_id starts_with_def)

lemma starts_contains: "starts_with p s \<Longrightarrow> contains p s"
  by (cases s) (auto simp: starts_with_def)

text \<open>
  Whoever types the beginning of a username, or of a part of it behind a dot, a dash or an underscore, finds
  the user, with or without a leading at sign; and whatever the search by beginnings finds is found by the
  search by parts.
\<close>

theorem users_found_by_part:
  assumes "lower (or_empty (us_username u)) = p @ trimmed_term lower typed @ r"
    and "p = [] \<or> last p \<in> {CHR ''.'', CHR ''-'', CHR ''_''}" and "trimmed_term lower typed @ r \<noteq> []"
  shows "(Some u \<in> set users \<longrightarrow> Some u \<in> set (filterProfilesStartingWithTerm lower users typed)) \<and>
    set (filterProfilesStartingWithTerm lower users typed) \<subseteq> set (filterProfilesMatchingWithTerm lower users typed)"
proof
  let ?s = "trimmed_term lower typed @ r"
  obtain c where c: "c \<in> set AUTOCOMPLETE_SPLIT_CHARACTERS" "p = [] \<or> last p = c"
    using assms(2) by (auto simp: AUTOCOMPLETE_SPLIT_CHARACTERS_def)
  have "c \<noteq> CHR '' ''" using c(1) by (auto simp: AUTOCOMPLETE_SPLIT_CHARACTERS_def)
  then have "?s \<in> set (getSuggestionsSplitBy (lower (or_empty (us_username u))) c)"
    using c(2) assms(1) by (auto simp: suggestions_begin_at_separators)
  then have "?s \<in> set (nameSuggestionsForUser lower u (CHR ''@'' \<in> set (lower typed)))"
    using c(1) by (auto simp: nameSuggestionsForUser_def Let_def set_suggestions_multiple)
  then have "some_suggestion starts_with lower typed u"
    using assms(3) by (auto simp: some_suggestion_def list_ex_iff starts_with_iff)
  then show "Some u \<in> set users \<longrightarrow> Some u \<in> set (filterProfilesStartingWithTerm lower users typed)"
    by (simp add: filterProfilesStartingWithTerm_def)
  show "set (filterProfilesStartingWithTerm lower users typed) \<subseteq> set (filterProfilesMatchingWithTerm lower users typed)"
    by (auto simp: filterProfilesStartingWithTerm_def filterProfilesMatchingWithTerm_def some_suggestion_def list_ex_iff
        split: option.splits) (blast intro: starts_contains)
qed

definition sample_user :: user_profile where
  "sample_user = no_profile\<lparr>us_id := ''u'', us_username := Some ''ann.lee'', us_roles := Some ''system_guest system_user_access_token''\<rparr>"

lemma users_found_by_part_witness:
  "Some sample_user \<in> set (filterProfilesStartingWithTerm (\<lambda>s. s) [None, Some sample_user] ''@le'')"
  using users_found_by_part [of "\<lambda>s. s" sample_user "''ann.''" "''@le''" "''e''" "[None, Some sample_user]"]
  by (simp add: sample_user_def no_profile_def or_empty_def trimmed_term_def starts_with_def)

section \<open>Filters by role\<close>

text \<open>
  Who has an excluded role is never shown, and a filter by roles of teams and channels shows no administrator
  of the system and no partner; another user is shown by such a filter only as an admin or, without being
  one, as a member.
\<close>

theorem role_filters_hide:
  assumes "us_roles u = Some roles" and "filterRoles \<noteq> []" and "\<forall>role \<in> set filterRoles. \<not> contains ''system'' role"
    and "applyRolesFilters u filterRoles excludeRoles membership = Some True"
  shows "\<not> contains SYSTEM_ADMIN_ROLE roles \<and> \<not> contains SYSTEM_PARTNER_ROLE roles \<and>
    (\<exists>m. membership = Some m \<and> (sf_admin m \<or> sf_user m) \<and>
       (\<forall>role \<in> set excludeRoles. role \<noteq> (if sf_admin m then TEAM_ADMIN_ROLE else TEAM_USER_ROLE) \<and>
          role \<noteq> (if sf_admin m then CHANNEL_ADMIN_ROLE else CHANNEL_USER_ROLE)))"
proof -
  let ?plain = "\<not> (contains SYSTEM_ADMIN_ROLE roles \<or> contains SYSTEM_PARTNER_ROLE roles)"
  from assms have shown: "\<not> list_ex (checkUserHasRole roles ?plain membership) excludeRoles"
      "list_ex (checkUserHasRole roles ?plain membership) filterRoles"
    by (auto simp: applyRolesFilters_def Let_def split: if_splits)
  from shown(2) assms(3) obtain role where role: "role \<in> set filterRoles" "checkUserHasRole roles ?plain membership role"
      "\<not> contains ''system'' role"
    by (auto simp: list_ex_iff)
  then have plain: ?plain and "\<exists>m. membership = Some m \<and> (sf_admin m \<or> sf_user m)"
    by (auto simp: checkUserHasRole_def Let_def split: option.splits)
  then obtain m where m: "membership = Some m" "sf_admin m \<or> sf_user m" by blast
  have "checkUserHasRole roles ?plain (Some m) (if sf_admin m then TEAM_ADMIN_ROLE else TEAM_USER_ROLE)"
    and "checkUserHasRole roles ?plain (Some m) (if sf_admin m then CHANNEL_ADMIN_ROLE else CHANNEL_USER_ROLE)"
    using plain m(2) by (auto simp: checkUserHasRole_def Let_def role_names starts_with_def)
  with shown(1) m plain show ?thesis by (auto simp: list_ex_iff)
qed

lemma role_filters_hide_witness:
  "\<not> contains SYSTEM_ADMIN_ROLE ''system_guest system_user_access_token''"
  using role_filters_hide [of sample_user "''system_guest system_user_access_token''" "[TEAM_USER_ROLE]" "[]"
      "Some \<lparr>sf_user = True, sf_admin = False\<rparr>"]
  by (simp add: sample_user_def no_profile_def applyRolesFilters_def checkUserHasRole_def role_names starts_with_def)

text \<open>
  Roles are looked for in the text, not among its words: a guest with a token for access to the interface
  counts as a user of the system.
\<close>

lemma token_role_counts_as_user:
  "applyRolesFilters sample_user [SYSTEM_USER_ROLE] [] None = Some True \<and>
   \<not> spaceSeparatedStringIncludes SYSTEM_USER_ROLE (us_roles sample_user)"
  by (simp add: sample_user_def no_profile_def applyRolesFilters_def checkUserHasRole_def role_names starts_with_def
      spaceSeparatedStringIncludes_def or_empty_def has_text_def)

section \<open>Removing from a list\<close>

lemma remove_last_match:
  "findIndex P (rev xs) = Some i \<Longrightarrow> remove_at (length xs - Suc i) xs = rev (remove_at i (rev xs))"
  by (auto simp: remove_at_def rev_take rev_drop Suc_diff_Suc dest!: findIndex_Some)

text \<open>At most one element is removed, the last that matches.\<close>

lemma user_removed_from_list:
  fixes us :: "user_profile list"
  assumes "distinct (map us_id us)"
  shows "removeUserFromList i us = filter (\<lambda>u. us_id u \<noteq> i) us"
proof -
  have keep: "\<forall>x \<in> set xs. \<not> P x \<Longrightarrow> filter (\<lambda>x. \<not> P x) xs = xs" for P and xs :: "user_profile list"
    by (simp add: filter_id_conv)
  have "distinct (map us_id xs) \<Longrightarrow>
      (case findIndex (\<lambda>u. us_id u = i) xs of None \<Rightarrow> xs | Some k \<Rightarrow> remove_at k xs) = filter (\<lambda>u. us_id u \<noteq> i) xs" for xs :: "user_profile list"
  proof (induction xs)
    case (Cons x xs)
    then show ?case
      using keep [of xs "\<lambda>u. us_id u = i"] findIndex_None [of "\<lambda>u. us_id u = i" xs]
      by (cases "us_id x = i"; cases "findIndex (\<lambda>u. us_id u = i) xs")
        (auto simp: remove_at_def image_iff)
  qed simp
  from this [of "rev us"] assms show ?thesis
    by (auto simp: removeUserFromList_def remove_last_match rev_map [symmetric] rev_filter [symmetric] split: option.splits)
qed

end
