(* ===== verification/ChannelUtils.thy ===== *)
theory ChannelUtils
  imports UserUtils ChannelUnreads
begin

text \<open>
  The rest of \<open>utils/channel_utils.ts\<close>: the names channels are shown by, the comparators lists of channels
  are sorted by, searching and url names. \<open>lc\<close> is \<open>localeCompare\<close> with the option for numerals, for a locale;
  \<open>lower\<close> is \<open>toLowerCase\<close>; \<open>someone\<close> the translation of the word.
\<close>

section \<open>Names of direct and group channels\<close>

definition DEFAULT_LOCALE :: string where "DEFAULT_LOCALE = ''ru''"

definition getUserLocale :: "string \<Rightarrow> user_profile obj \<Rightarrow> string" where
  "getUserLocale userId profs =
     (case get profs userId of
        None \<Rightarrow> DEFAULT_LOCALE
      | Some u \<Rightarrow> if has_text (us_locale u) then or_empty (us_locale u) else DEFAULT_LOCALE)"

definition getGroupDisplayNameFromUserIds ::
  "string \<Rightarrow> (string \<Rightarrow> string \<Rightarrow> string \<Rightarrow> int) \<Rightarrow> string list \<Rightarrow> user_profile obj \<Rightarrow> string \<Rightarrow> string \<Rightarrow> bool \<Rightarrow> string" where
  "getGroupDisplayNameFromUserIds someone lc userIds profs me teammateNameDisplay omitCurrentUser =
     (let names = map (\<lambda>i. displayUsername someone (get profs i) teammateNameDisplay True)
                    (filter (\<lambda>i. \<not> (i = me \<and> omitCurrentUser)) userIds)
      in join '', '' (js_sort (lc (getUserLocale me profs)) names))"

text \<open>\<open>s.split(', ')\<close>\<close>

fun split_names :: "string \<Rightarrow> string list" where
  "split_names [] = [[]]"
| "split_names [x] = [[x]]"
| "split_names (x # y # xs) =
     (if x = CHR '','' \<and> y = CHR '' '' then [] # split_names xs
      else case split_names (y # xs) of [] \<Rightarrow> [[x]] | ys # yss \<Rightarrow> (x # ys) # yss)"

text \<open>The ids of the users that have the names, when every name has a user of its own.\<close>

definition ids_of_names :: "user_profile obj \<Rightarrow> string list \<Rightarrow> string list" where
  "ids_of_names profs usernames =
     foldl (\<lambda>userIds username.
        case find (\<lambda>p. us_username p = Some username) (obj_values profs) of
          None \<Rightarrow> userIds | Some u \<Rightarrow> set_add (us_id u) userIds) [] usernames"

text \<open>
  With \<open>omitCurrentUser\<close> false the current user is added to the very set the store keeps: the second
  component is what the store holds afterwards.
\<close>

definition completeDirectGroupInfo ::
  "string \<Rightarrow> (string \<Rightarrow> string \<Rightarrow> string \<Rightarrow> int) \<Rightarrow> users_state \<Rightarrow> string \<Rightarrow> channel \<Rightarrow> bool \<Rightarrow> channel \<times> string list obj" where
  "completeDirectGroupInfo someone lc usersState teammateNameDisplay channel omitCurrentUser =
     (let me = uss_currentUserId usersState;
          inChannel = uss_profilesInChannel usersState;
          shown = (\<lambda>ids omit. getGroupDisplayNameFromUserIds someone lc ids (uss_profiles usersState) me teammateNameDisplay omit)
      in case get inChannel (ch_id channel) of
           Some profilesIds \<Rightarrow>
             (let ids = (if omitCurrentUser then profilesIds else set_add me profilesIds)
              in (channel\<lparr>ch_display_name := shown ids omitCurrentUser\<rparr>,
                  if omitCurrentUser then inChannel else put (ch_id channel) ids inChannel))
         | None \<Rightarrow>
             (let usernames = split_names (ch_display_name channel);
                  userIds = ids_of_names (uss_profiles usersState) usernames
              in (if length usernames = length userIds
                  then channel\<lparr>ch_display_name := shown userIds True\<rparr> else channel, inChannel)))"

definition completeDirectChannelInfo ::
  "string \<Rightarrow> (string \<Rightarrow> string \<Rightarrow> string \<Rightarrow> int) \<Rightarrow> users_state \<Rightarrow> string \<Rightarrow> channel \<Rightarrow> channel" where
  "completeDirectChannelInfo someone lc usersState teammateNameDisplay channel =
     (if isDirectChannel channel
      then (let teammateId = getUserIdFromChannelName (uss_currentUserId usersState) (ch_name channel);
                status = get (uss_statuses usersState) (key_of teammateId)
            in channel\<lparr>ch_display_name := displayUsername someone (get (uss_profiles usersState) (key_of teammateId)) teammateNameDisplay False,
                 ch_teammate_id := teammateId,
                 ch_status := Some (if has_text status then or_empty status else ''offline'')\<rparr>)
      else if isGroupChannel channel
      then fst (completeDirectGroupInfo someone lc usersState teammateNameDisplay channel True)
      else channel)"

definition newCompleteDirectGroupInfo ::
  "string \<Rightarrow> (string \<Rightarrow> string \<Rightarrow> string \<Rightarrow> int) \<Rightarrow> string \<Rightarrow> user_profile obj \<Rightarrow> string list obj \<Rightarrow> string \<Rightarrow> channel \<Rightarrow> channel" where
  "newCompleteDirectGroupInfo someone lc me profs inChannel teammateNameDisplay channel =
     (case get inChannel (ch_id channel) of
        Some profilesIds \<Rightarrow>
          channel\<lparr>ch_display_name :=
            getGroupDisplayNameFromUserIds someone lc profilesIds profs me teammateNameDisplay True\<rparr>
      | None \<Rightarrow>
          (let usernames = split_names (ch_display_name channel);
               userIds = ids_of_names profs usernames
           in if length usernames = length userIds
              then channel\<lparr>ch_display_name :=
                getGroupDisplayNameFromUserIds someone lc userIds profs me teammateNameDisplay True\<rparr>
              else channel))"

definition newCompleteDirectChannelInfo ::
  "string \<Rightarrow> (string \<Rightarrow> string \<Rightarrow> string \<Rightarrow> int) \<Rightarrow> string \<Rightarrow> user_profile obj \<Rightarrow> string list obj \<Rightarrow> string \<Rightarrow> string \<Rightarrow> channel \<Rightarrow> channel" where
  "newCompleteDirectChannelInfo someone lc me profs inChannel teammateStatus teammateNameDisplay channel =
     (if isDirectChannel channel
      then (let teammateId = getUserIdFromChannelName me (ch_name channel)
            in channel\<lparr>ch_display_name := displayUsername someone (get profs (key_of teammateId)) teammateNameDisplay False,
                 ch_teammate_id := teammateId, ch_status := Some teammateStatus\<rparr>)
      else if isGroupChannel channel
      then newCompleteDirectGroupInfo someone lc me profs inChannel teammateNameDisplay channel
      else channel)"

definition completeDirectChannelDisplayName ::
  "string \<Rightarrow> (string \<Rightarrow> string \<Rightarrow> string \<Rightarrow> int) \<Rightarrow> string \<Rightarrow> user_profile obj \<Rightarrow> string list option \<Rightarrow> string \<Rightarrow> channel \<Rightarrow> channel" where
  "completeDirectChannelDisplayName someone lc me profs userIdsInChannel teammateNameDisplay channel =
     (if isDirectChannel channel
      then channel\<lparr>ch_display_name := displayUsername someone
             (get profs (key_of (getUserIdFromChannelName me (ch_name channel)))) teammateNameDisplay True\<rparr>
      else if isGroupChannel channel \<and> userIdsInChannel \<noteq> None \<and> userIdsInChannel \<noteq> Some []
      then channel\<lparr>ch_display_name := getGroupDisplayNameFromUserIds someone lc (the userIdsInChannel) profs
             me teammateNameDisplay True\<rparr>
      else channel)"

section \<open>Names for urls\<close>

definition is_word_char :: "char \<Rightarrow> bool" where
  "is_word_char c \<longleftrightarrow> (let n = of_char c :: nat
     in (48 \<le> n \<and> n \<le> 57) \<or> (65 \<le> n \<and> n \<le> 90) \<or> n = 95 \<or> (97 \<le> n \<and> n \<le> 122))"

definition lower_char :: "char \<Rightarrow> char" where
  "lower_char c = (let n = of_char c :: nat in if 65 \<le> n \<and> n \<le> 90 then char_of (n + 32) else c)"

text \<open>\<open>replace(/-{2,}/, '-')\<close>: the first run only.\<close>

fun squeeze_first :: "string \<Rightarrow> string" where
  "squeeze_first (x # y # xs) =
     (if x = CHR ''-'' \<and> y = CHR ''-'' then x # dropWhile (\<lambda>c. c = CHR ''-'') xs
      else x # squeeze_first (y # xs))"
| "squeeze_first s = s"

text \<open>Behind the third replacement only ASCII letters, digits, underscores and blanks are left to put in lower case.\<close>

definition cleanUpUrlable :: "string \<Rightarrow> string" where
  "cleanUpUrlable input =
     (let cleaned = map (\<lambda>c. if c = CHR ''-'' then CHR '' '' else c) (trim_text input);
          cleaned = map lower_char (filter (\<lambda>c. is_word_char c \<or> is_space c) cleaned);
          cleaned = map (\<lambda>c. if is_space c then CHR ''-'' else c) cleaned;
          cleaned = squeeze_first cleaned;
          cleaned = dropWhile (\<lambda>c. c = CHR ''-'') cleaned
      in rev (dropWhile (\<lambda>c. c = CHR ''-'') (rev cleaned)))"

section \<open>Kinds of channels\<close>

definition isDefault :: "channel option \<Rightarrow> bool" where
  "isDefault channel \<longleftrightarrow> (case channel of None \<Rightarrow> False | Some c \<Rightarrow> ch_name c = DEFAULT_CHANNEL)"

definition isOpenChannel :: "channel \<Rightarrow> bool" where
  "isOpenChannel channel \<longleftrightarrow> ch_type channel = OPEN_CHANNEL"

definition isPrivateChannel :: "channel \<Rightarrow> bool" where
  "isPrivateChannel channel \<longleftrightarrow> ch_type channel = PRIVATE_CHANNEL"

definition IGNORE_CHANNEL_MENTIONS_ON :: string where "IGNORE_CHANNEL_MENTIONS_ON = ''on''"
definition IGNORE_CHANNEL_MENTIONS_OFF :: string where "IGNORE_CHANNEL_MENTIONS_OFF = ''off''"
definition IGNORE_CHANNEL_MENTIONS_DEFAULT :: string where "IGNORE_CHANNEL_MENTIONS_DEFAULT = ''default''"

definition areChannelMentionsIgnored :: "channel_notify_props option \<Rightarrow> string obj \<Rightarrow> bool" where
  "areChannelMentionsIgnored channelMemberNotifyProps currentUserNotifyProps =
     (let ignoreDefault = (if get currentUserNotifyProps ''channel'' = Some ''false''
                           then IGNORE_CHANNEL_MENTIONS_ON else IGNORE_CHANNEL_MENTIONS_OFF);
          ignored = (case channelMemberNotifyProps of None \<Rightarrow> None | Some np \<Rightarrow> np_ignore_channel_mentions np);
          ignored = (if \<not> has_text ignored \<or> ignored = Some IGNORE_CHANNEL_MENTIONS_DEFAULT then Some ignoreDefault else ignored)
      in ignored \<noteq> Some IGNORE_CHANNEL_MENTIONS_OFF)"

section \<open>Order\<close>

text \<open>\<open>filterName\<close> drops the characters \<open>.,'"/#!$%^&*;:{}=-_`~()\<close>.\<close>

definition filterName :: "string \<Rightarrow> string" where
  "filterName name = filter (\<lambda>c. c \<notin> set ''.,\"/#!$%^&*;:{}=-_~()'' \<and> c \<noteq> CHR 0x27 \<and> c \<noteq> CHR 0x60) name"

definition compare_names :: "(string \<Rightarrow> string) \<Rightarrow> (string \<Rightarrow> string \<Rightarrow> int) \<Rightarrow> string \<Rightarrow> string \<Rightarrow> int" where
  "compare_names lower lc x y = lc (lower x) (lower y)"

definition by_filtered_name :: "(string \<Rightarrow> string) \<Rightarrow> (string \<Rightarrow> string \<Rightarrow> int) \<Rightarrow> channel \<Rightarrow> channel \<Rightarrow> int" where
  "by_filtered_name lower lc a b =
     (let aDisplayName = filterName (ch_display_name a); bDisplayName = filterName (ch_display_name b)
      in if aDisplayName \<noteq> bDisplayName then compare_names lower lc aDisplayName bDisplayName
         else compare_names lower lc (ch_name a) (ch_name b))"

definition sortChannelsByTypeListAndDisplayName ::
  "(string \<Rightarrow> string) \<Rightarrow> (string \<Rightarrow> string \<Rightarrow> int) \<Rightarrow> string list \<Rightarrow> channel \<Rightarrow> channel \<Rightarrow> int" where
  "sortChannelsByTypeListAndDisplayName lower lc typeList a b =
     (case (indexOf typeList (ch_type a), indexOf typeList (ch_type b)) of
        (None, Some _) \<Rightarrow> 1
      | (Some _, None) \<Rightarrow> - 1
      | (Some i, Some j) \<Rightarrow> (if i \<noteq> j then (if i < j then - 1 else 1) else by_filtered_name lower lc a b)
      | (None, None) \<Rightarrow> by_filtered_name lower lc a b)"

definition channelTypeOrder :: "string \<Rightarrow> nat option" where
  "channelTypeOrder t = indexOf [OPEN_CHANNEL, PRIVATE_CHANNEL, DM_CHANNEL, GM_CHANNEL] t"

text \<open>A comparison with \<open>undefined\<close> is false.\<close>

definition sortChannelsByTypeAndDisplayName ::
  "(string \<Rightarrow> string) \<Rightarrow> (string \<Rightarrow> string \<Rightarrow> int) \<Rightarrow> channel \<Rightarrow> channel \<Rightarrow> int" where
  "sortChannelsByTypeAndDisplayName lower lc a b =
     (if channelTypeOrder (ch_type a) \<noteq> channelTypeOrder (ch_type b)
      then (case (channelTypeOrder (ch_type a), channelTypeOrder (ch_type b)) of
              (Some i, Some j) \<Rightarrow> (if i < j then - 1 else 1)
            | _ \<Rightarrow> 1)
      else by_filtered_name lower lc a b)"

definition sortChannelsByDisplayName :: "(string \<Rightarrow> string) \<Rightarrow> (string \<Rightarrow> string \<Rightarrow> int) \<Rightarrow> channel \<Rightarrow> channel \<Rightarrow> int" where
  "sortChannelsByDisplayName lower lc a b =
     (if ch_display_name a \<noteq> [] \<and> ch_display_name b \<noteq> [] \<and> ch_display_name a \<noteq> ch_display_name b
      then compare_names lower lc (ch_display_name a) (ch_display_name b)
      else compare_names lower lc (ch_name a) (ch_name b))"

definition sortChannelsByDisplayNameAndMuted ::
  "(string \<Rightarrow> string) \<Rightarrow> (string \<Rightarrow> string \<Rightarrow> int) \<Rightarrow> channel_membership obj \<Rightarrow> channel \<Rightarrow> channel \<Rightarrow> int" where
  "sortChannelsByDisplayNameAndMuted lower lc members a b =
     (let aMember = get members (ch_id a); bMember = get members (ch_id b)
      in if isChannelMuted bMember = isChannelMuted aMember then sortChannelsByDisplayName lower lc a b
         else if \<not> isChannelMuted bMember \<and> isChannelMuted aMember then 1
         else - 1)"

definition last_post_time :: "post obj \<Rightarrow> channel \<Rightarrow> int" where
  "last_post_time lastPosts c =
     (case get lastPosts (ch_id c) of
        None \<Rightarrow> ch_last_post_at c
      | Some p \<Rightarrow> (if create_at p > ch_last_post_at c then create_at p else ch_last_post_at c))"

definition sortChannelsByRecency :: "post obj \<Rightarrow> channel \<Rightarrow> channel \<Rightarrow> int" where
  "sortChannelsByRecency lastPosts a b = last_post_time lastPosts b - last_post_time lastPosts a"

section \<open>Searching\<close>

definition filterChannelsMatchingTerm :: "(string \<Rightarrow> string) \<Rightarrow> channel option list \<Rightarrow> string \<Rightarrow> channel option list" where
  "filterChannelsMatchingTerm lower cs typed =
     filter (\<lambda>channel. case channel of None \<Rightarrow> False
       | Some c \<Rightarrow> starts_with (lower typed) (lower (ch_name c)) \<or>
                   starts_with (lower typed) (lower (ch_display_name c))) cs"

end
