(* ===== verification/ChannelUtilsProps.thy ===== *)
theory ChannelUtilsProps
  imports ChannelUtils UnreadBadge
begin

text \<open>
  What channels are shown by: the leaner way to complete a direct or group channel gives what the older one
  gives, nobody is shown by a blank name, the name of a group does not depend on the order of its members;
  the shape of names for urls; and where the comparators are not orders.
\<close>

section \<open>Two ways to complete a channel\<close>

lemma group_info_agrees:
  "fst (completeDirectGroupInfo someone lc us setting c True) =
     newCompleteDirectGroupInfo someone lc (uss_currentUserId us) (uss_profiles us) (uss_profilesInChannel us) setting c"
  by (simp add: completeDirectGroupInfo_def newCompleteDirectGroupInfo_def Let_def split: option.split)

definition teammate_status :: "users_state \<Rightarrow> channel \<Rightarrow> string" where
  "teammate_status us c =
     (let status = get (uss_statuses us) (key_of (getUserIdFromChannelName (uss_currentUserId us) (ch_name c)))
      in if has_text status then or_empty status else ''offline'')"

text \<open>
  The variant that gets only the data it needs completes every channel as the one that gets the state of
  all users does, when it is given the status of the other user; and completing a channel never changes what
  the store knows of the members of channels.
\<close>

theorem complete_info_agrees:
  "newCompleteDirectChannelInfo someone lc (uss_currentUserId us) (uss_profiles us) (uss_profilesInChannel us)
       (teammate_status us c) setting c = completeDirectChannelInfo someone lc us setting c \<and>
   snd (completeDirectGroupInfo someone lc us setting c True) = uss_profilesInChannel us"
proof
  show "newCompleteDirectChannelInfo someone lc (uss_currentUserId us) (uss_profiles us) (uss_profilesInChannel us)
       (teammate_status us c) setting c = completeDirectChannelInfo someone lc us setting c"
    by (simp add: newCompleteDirectChannelInfo_def completeDirectChannelInfo_def group_info_agrees
        teammate_status_def Let_def)
  show "snd (completeDirectGroupInfo someone lc us setting c True) = uss_profilesInChannel us"
    by (simp add: completeDirectGroupInfo_def Let_def split: option.split)
qed

text \<open>The other mode writes the current user into the set of the store.\<close>

lemma group_info_adds_me:
  "get (uss_profilesInChannel us) (ch_id c) = Some ids \<Longrightarrow>
   get (snd (completeDirectGroupInfo someone lc us setting c False)) (ch_id c) = Some (set_add (uss_currentUserId us) ids)"
  by (simp add: completeDirectGroupInfo_def Let_def)

section \<open>Names of users\<close>

lemma trim_Nil: "trim_text s = [] \<longleftrightarrow> (\<forall>c \<in> set s. is_space c)"
  unfolding trim_text_def by (induction s) (auto simp: dropWhile_eq_Nil_conv)

lemma shown_not_blank:
  "trim_text (or_empty (us_username u)) \<noteq> [] \<Longrightarrow> trim_text (displayUsername someone (Some u) setting b) \<noteq> []"
  by (simp add: displayUsername_def Let_def)

text \<open>
  C27. A direct channel is shown by the other of its two users, who is found from its name whichever of them looks,
  and never by a blank name if that user has a username.
\<close>

theorem direct_channel_shows_teammate:
  assumes "isDirectChannel c" and "ch_name c = getDirectChannelName (uss_currentUserId us) other"
    and "CHR ''_'' \<notin> set (uss_currentUserId us)" and "CHR ''_'' \<notin> set other"
    and "get (uss_profiles us) other = Some u" and "trim_text (or_empty (us_username u)) \<noteq> []"
  shows "ch_teammate_id (completeDirectChannelInfo someone lc us setting c) = Some other \<and>
    ch_display_name (completeDirectChannelInfo someone lc us setting c) = displayUsername someone (Some u) setting False \<and>
    trim_text (ch_display_name (completeDirectChannelInfo someone lc us setting c)) \<noteq> []"
proof -
  have "getUserIdFromChannelName (uss_currentUserId us) (ch_name c) = Some other"
    using other_user_of_name [OF assms(3,4)] assms(2) by simp
  with assms(1,5) shown_not_blank [OF assms(6)] show ?thesis
    by (simp add: completeDirectChannelInfo_def Let_def key_of_def)
qed

definition sample_teammate :: user_profile where
  "sample_teammate = no_profile\<lparr>us_id := ''b'', us_username := Some ''ann'', us_nickname := Some '' ''\<rparr>"

definition sample_users :: users_state where
  "sample_users = init_users_state\<lparr>uss_currentUserId := ''a'', uss_profiles := [(''b'', sample_teammate)]\<rparr>"

definition sample_dm :: channel where
  "sample_dm = (toClientChannel sample_channel)\<lparr>ch_type := DM_CHANNEL, ch_name := ''a__b''\<rparr>"

lemma direct_channel_shows_teammate_witness:
  "ch_display_name (completeDirectChannelInfo [] (\<lambda>_ _ _. 0) sample_users DISPLAY_PREFER_NICKNAME sample_dm) = ''ann''"
proof -
  have blanks: "trim_text '' '' = []" "trim_text ''ann'' \<noteq> []" by (simp_all add: trim_text_def is_space_def)
  have name: "ch_name sample_dm = getDirectChannelName (uss_currentUserId sample_users) ''b''"
    by (simp add: sample_dm_def sample_users_def getDirectChannelName_def)
  show ?thesis
    using direct_channel_shows_teammate [of sample_dm sample_users "''b''" sample_teammate "[]" "\<lambda>_ _ _. 0" DISPLAY_PREFER_NICKNAME]
      blanks name
    by (simp add: sample_dm_def sample_users_def sample_teammate_def no_profile_def isDirectChannel_def or_empty_def
        displayUsername_def has_text_def Let_def)
qed

section \<open>Names of groups\<close>

lemma sorted_unique:
  assumes "sorted_wrt (\<lambda>x y. R x y) xs" "sorted_wrt (\<lambda>x y. R x y) ys" "mset xs = mset ys"
    and antisym: "\<And>x y. R x y \<Longrightarrow> R y x \<Longrightarrow> x = y"
  shows "xs = ys"
  using assms(1-3)
proof (induction xs arbitrary: ys)
  case (Cons x xs)
  then obtain y ys' where ys: "ys = y # ys'" by (cases ys) auto
  have "x = y"
  proof (rule ccontr)
    assume "x \<noteq> y"
    moreover have "set (x # xs) = set (y # ys')" using Cons.prems(3) ys by (metis set_mset_mset)
    ultimately have "y \<in> set xs" "x \<in> set ys'" by auto
    then have "R x y" "R y x" using Cons.prems(1,2) ys by auto
    with antisym \<open>x \<noteq> y\<close> show False by blast
  qed
  with Cons ys show ?case by simp
qed simp

text \<open>
  The name of a group channel depends on who its members are only, not on the order in which the store keeps
  them, for every collation that is an order on names.
\<close>

theorem group_name_order_independent:
  assumes "comparator_contract (lc (getUserLocale me profs))"
    and "\<And>x y. lc (getUserLocale me profs) x y = 0 \<Longrightarrow> x = y"
    and "mset ids = mset ids'"
  shows "getGroupDisplayNameFromUserIds someone lc ids profs me setting omit =
    getGroupDisplayNameFromUserIds someone lc ids' profs me setting omit"
proof -
  let ?cmp = "lc (getUserLocale me profs)"
  let ?names = "\<lambda>is. map (\<lambda>i. displayUsername someone (get profs i) setting True) (filter (\<lambda>i. \<not> (i = me \<and> omit)) is)"
  note sorted = comparator_contract.sorted_js_sort [OF assms(1)]
  have "js_sort ?cmp (?names ids) = js_sort ?cmp (?names ids')"
  proof (rule sorted_unique [of "\<lambda>x y. ?cmp x y \<le> 0"])
    show "mset (js_sort ?cmp (?names ids)) = mset (js_sort ?cmp (?names ids'))"
      using assms(3) by (simp add: mset_map mset_filter)
    fix x y
    assume "?cmp x y \<le> 0" "?cmp y x \<le> 0"
    then have "?cmp x y = 0"
      using comparator_contract.cmp_flip [OF assms(1), of y x] by simp
    then show "x = y" by (rule assms(2))
  qed (rule sorted)+
  then show ?thesis by (simp add: getGroupDisplayNameFromUserIds_def Let_def)
qed

text \<open>The order of the code units is such a collation.\<close>

definition unit_compare :: "string \<Rightarrow> string \<Rightarrow> int" where
  "unit_compare a b = (if string_less a b then - 1 else if a = b then 0 else 1)"

lemma string_less_trans: "string_less a b \<Longrightarrow> string_less b c \<Longrightarrow> string_less a c"
proof (induction a c arbitrary: b rule: string_less.induct)
  case (4 x xs y ys)
  then obtain z zs where "b = z # zs" by (cases b) auto
  with 4 show ?case by auto
qed (auto elim: string_less.elims)

lemma unit_collation: "comparator_contract unit_compare"
proof
  show "unit_compare x y \<le> 0 \<longleftrightarrow> 0 \<le> unit_compare y x" for x y
    using string_less_total [of x y] string_less_asym [of x y] by (auto simp: unit_compare_def)
  show "unit_compare x z \<le> 0" if "unit_compare x y \<le> 0" "unit_compare y z \<le> 0" for x y z
    using that string_less_trans [of x y z] by (auto simp: unit_compare_def split: if_splits)
qed

lemma unit_compare_0: "unit_compare x y = 0 \<Longrightarrow> x = y"
  by (auto simp: unit_compare_def split: if_splits)

lemma group_name_order_independent_witness:
  "getGroupDisplayNameFromUserIds ''Someone'' (\<lambda>_. unit_compare) [''a'', ''b'', ''x''] [(''b'', sample_teammate)] ''a'' [] True =
   getGroupDisplayNameFromUserIds ''Someone'' (\<lambda>_. unit_compare) [''x'', ''b'', ''a''] [(''b'', sample_teammate)] ''a'' [] True"
  by (rule group_name_order_independent) (simp_all add: unit_collation unit_compare_0)

section \<open>Orders of channels\<close>

interpretation by_recency: comparator_contract "sortChannelsByRecency lastPosts" for lastPosts
  by unfold_locales (auto simp: sortChannelsByRecency_def)

lemma recent_channels_first:
  "sorted_wrt (\<lambda>a b. last_post_time lastPosts b \<le> last_post_time lastPosts a) (js_sort (sortChannelsByRecency lastPosts) cs)"
  by (rule sorted_wrt_mono_rel [OF _ by_recency.sorted_js_sort]) (simp add: sortChannelsByRecency_def)

text \<open>
  Display names that differ in case only compare equal, although a channel with the display name of another
  compares by its url name: neither comparator is transitive, and the order of such channels is up to the
  engine's algorithm.
\<close>

lemma names_in_two_cases_unordered:
  fixes a b c :: channel
  assumes "lower ''Dev'' = lower ''dev''" and "\<And>x. lc x x = 0" and "lc (lower ''m'') (lower ''z'') \<noteq> 0"
    and "ch_display_name a = ''Dev''" "ch_name a = ''m''" "ch_display_name b = ''dev''" "ch_name b = ''y''"
    and "ch_display_name c = ''Dev''" "ch_name c = ''z''"
  shows "sortChannelsByDisplayName lower lc a b = 0 \<and> sortChannelsByDisplayName lower lc b c = 0 \<and>
    sortChannelsByDisplayName lower lc a c \<noteq> 0 \<and>
    by_filtered_name lower lc a b = 0 \<and> by_filtered_name lower lc b c = 0 \<and> by_filtered_name lower lc a c \<noteq> 0"
  using assms by (simp add: sortChannelsByDisplayName_def by_filtered_name_def compare_names_def filterName_def Let_def)

section \<open>Names for urls\<close>

definition url_char :: "char \<Rightarrow> bool" where
  "url_char c \<longleftrightarrow> (is_word_char c \<and> lower_char c = c) \<or> c = CHR ''-''"

lemma set_squeeze: "set (squeeze_first s) \<subseteq> set s"
  by (induction s rule: squeeze_first.induct) (auto dest: set_dropWhileD)

lemma length_squeeze: "length (squeeze_first s) \<le> length s"
  by (induction s rule: squeeze_first.induct) (auto intro: le_trans [OF length_dropWhile_le])

lemma length_trim: "length (trim_text s) \<le> length s"
  unfolding trim_text_def by (metis length_dropWhile_le length_rev le_trans)

lemma is_space_code: "is_space c \<longleftrightarrow> (of_char c :: nat) \<in> {32, 9, 10, 11, 12, 13, 160}"
  unfolding is_space_def by (auto simp flip: of_char_eq_iff [where 'a = nat])

lemma url_char_word: "is_word_char c \<Longrightarrow> \<not> is_space (lower_char c) \<and> url_char (lower_char c)"
  by (auto simp: is_word_char_def lower_char_def Let_def is_space_code url_char_def)

lemma url_char_space: "is_space c \<Longrightarrow> is_space (lower_char c)"
  by (auto simp: lower_char_def Let_def is_space_def)

lemma take_1_dropWhile: "take 1 (dropWhile (\<lambda>c. c = d) s) \<noteq> [d]"
  by (induction s) auto

lemma take_1_stripped: "take 1 (rev (dropWhile P (rev (dropWhile (\<lambda>c. c = d) s)))) \<noteq> [d]"
proof -
  let ?w = "dropWhile (\<lambda>c. c = d) s"
  define r where "r = rev (dropWhile P (rev ?w))"
  obtain t where t: "?w = r @ t"
    using takeWhile_dropWhile_id [of P "rev ?w"] unfolding r_def by (metis rev_append rev_rev_ident)
  have "take 1 r \<noteq> [d]"
  proof (cases r)
    case (Cons c cs)
    with take_1_dropWhile [of d s] show ?thesis unfolding t by simp
  qed simp
  then show ?thesis unfolding r_def .
qed

lemma dropWhile_keeps: "c \<in> set s \<Longrightarrow> \<not> P c \<Longrightarrow> c \<in> set (dropWhile P s)"
  by (induction s) auto

lemma trim_keeps: "c \<in> set s \<Longrightarrow> \<not> is_space c \<Longrightarrow> c \<in> set (trim_text s)"
  by (simp add: trim_text_def dropWhile_keeps)

lemma squeeze_keeps: "c \<in> set s \<Longrightarrow> c \<noteq> CHR ''-'' \<Longrightarrow> c \<in> set (squeeze_first s)"
  by (induction s rule: squeeze_first.induct) (auto intro: dropWhile_keeps)

lemma word_not_special: "is_word_char c \<Longrightarrow> \<not> is_space c \<and> c \<noteq> CHR ''-'' \<and> lower_char c \<noteq> CHR ''-''"
  by (auto simp: is_word_char_def lower_char_def Let_def is_space_code simp flip: of_char_eq_iff [where 'a = nat])

abbreviation dash :: "char \<Rightarrow> bool" where
  "dash c \<equiv> c = CHR ''-''"

text \<open>The text before the runs and ends are dealt with.\<close>

definition url_words :: "string \<Rightarrow> string" where
  "url_words s = map (\<lambda>c. if is_space c then CHR ''-'' else c) (map lower_char
     (filter (\<lambda>c. is_word_char c \<or> is_space c) (map (\<lambda>c. if c = CHR ''-'' then CHR '' '' else c) (trim_text s))))"

lemma cleaned_from_words:
  "cleanUpUrlable s = rev (dropWhile dash (rev (dropWhile dash (squeeze_first (url_words s)))))"
  by (simp add: cleanUpUrlable_def url_words_def Let_def)

lemma url_words_chars: "\<forall>c \<in> set (url_words s). url_char c"
  by (auto simp: url_words_def url_char_word url_char_space) (simp_all add: url_char_def)

lemma url_words_word:
  assumes "c \<in> set s" "is_word_char c"
  shows "lower_char c \<in> set (url_words s)"
proof -
  have "c \<in> set (trim_text s)" "c \<noteq> CHR ''-''" using assms trim_keeps word_not_special by blast+
  then have "lower_char c \<in> set (map lower_char (filter (\<lambda>c. is_word_char c \<or> is_space c)
      (map (\<lambda>c. if c = CHR ''-'' then CHR '' '' else c) (trim_text s))))"
    using assms(2) by (auto simp: image_iff intro!: bexI [of _ c])
  then show ?thesis
    unfolding url_words_def set_map [of "\<lambda>c. if is_space c then CHR ''-'' else c"]
    using url_char_word [OF assms(2)] by (intro image_eqI [of _ _ "lower_char c"]) simp_all
qed

lemma url_words_no_word:
  assumes "\<not> list_ex is_word_char s"
  shows "\<forall>c \<in> set (url_words s). dash c"
proof -
  have "set (trim_text s) \<subseteq> set s" by (auto simp: trim_text_def dest!: set_dropWhileD)
  with assms show ?thesis
    by (auto simp: url_words_def list_ex_iff url_char_space is_word_char_def [of "CHR '' ''"])
qed

lemma cleaned_Nil: "cleanUpUrlable s = [] \<longleftrightarrow> (\<forall>c \<in> set (url_words s). dash c)"
proof -
  let ?q = "squeeze_first (url_words s)"
  have "cleanUpUrlable s = [] \<longleftrightarrow> (\<forall>c \<in> set (dropWhile dash ?q). dash c)"
    by (simp only: cleaned_from_words rev_is_Nil_conv dropWhile_eq_Nil_conv set_rev)
  also have "\<dots> \<longleftrightarrow> (\<forall>c \<in> set ?q. dash c)"
    using dropWhile_keeps [of _ ?q dash] set_dropWhileD [of _ dash ?q] by blast
  also have "\<dots> \<longleftrightarrow> (\<forall>c \<in> set (url_words s). dash c)"
    using squeeze_keeps [of _ "url_words s"] set_squeeze [of "url_words s"] by blast
  finally show ?thesis .
qed

lemma length_cleaned: "length (cleanUpUrlable s) \<le> length s"
proof -
  have "length (cleanUpUrlable s) \<le> length (squeeze_first (url_words s))"
    unfolding cleaned_from_words by (metis length_dropWhile_le length_rev le_trans)
  also have "\<dots> \<le> length (url_words s)" by (rule length_squeeze)
  also have "\<dots> \<le> length (trim_text s)" unfolding url_words_def by (simp add: length_filter_le le_trans [OF length_filter_le])
  finally show ?thesis using length_trim [of s] by simp
qed

text \<open>
  A name cleaned for a url has lower case letters, digits, underscores and dashes only, neither begins nor
  ends with a dash, is at most as long as the input, and is empty exactly if the input has no ASCII letter,
  digit or underscore.
\<close>

theorem cleaned_url_shape:
  "list_all url_char (cleanUpUrlable s) \<and> take 1 (cleanUpUrlable s) \<noteq> ''-'' \<and>
   take 1 (rev (cleanUpUrlable s)) \<noteq> ''-'' \<and> length (cleanUpUrlable s) \<le> length s \<and>
   (cleanUpUrlable s = [] \<longleftrightarrow> \<not> list_ex is_word_char s)"
proof (intro conjI)
  show "list_all url_char (cleanUpUrlable s)"
    using url_words_chars [of s] set_squeeze [of "url_words s"] unfolding cleaned_from_words
    by (auto simp: list_all_iff dest!: set_dropWhileD)
  show "take 1 (cleanUpUrlable s) \<noteq> ''-''"
    unfolding cleaned_from_words by (rule take_1_stripped)
  show "take 1 (rev (cleanUpUrlable s)) \<noteq> ''-''"
    unfolding cleaned_from_words rev_rev_ident by (rule take_1_dropWhile)
  show "cleanUpUrlable s = [] \<longleftrightarrow> \<not> list_ex is_word_char s"
    using url_words_word [of _ s] url_words_no_word [of s] word_not_special
    by (auto simp: cleaned_Nil list_ex_iff)
qed (rule length_cleaned)

text \<open>Only the first run of dashes becomes one dash: the second stays.\<close>

lemma second_run_stays: "cleanUpUrlable ''a  b  c'' = ''a-b--c''"
  by (simp add: cleanUpUrlable_def trim_text_def is_space_def is_word_char_def lower_char_def Let_def)

end
