(* ===== verification/GroupStore.thy ===== *)
theory GroupStore
  imports UserUtils Channels
begin

text \<open>
  Groups and roles: \<open>types/src/groups.ts\<close>, \<open>types/src/roles.ts\<close>, \<open>reducers/entities/groups.ts\<close>,
  \<open>reducers/entities/roles.ts\<close>, \<open>utils/group_utils.ts\<close> and the roles \<open>actions/roles.ts\<close> asks for. A step
  that reads a property of \<open>undefined\<close> is \<open>None\<close>.
\<close>

section \<open>Data\<close>

record group =
  grp_id :: string
  grp_name :: string
  grp_display_name :: string
  grp_description :: string
  grp_source :: string
  grp_remote_id :: "string option"
  grp_create_at :: int
  grp_update_at :: int
  grp_delete_at :: int
  grp_has_syncables :: bool
  grp_member_count :: int
  grp_scheme_admin :: bool
  grp_allow_reference :: bool
  grp_channel_member_count :: "int option"
  grp_channel_member_timezones_count :: "int option"
  grp_member_ids :: "string list option"

record group_team =
  gt_team_id :: string
  gt_team_display_name :: string
  gt_team_type :: "string option"
  gt_group_id :: "string option"
  gt_auto_add :: "bool option"
  gt_scheme_admin :: "bool option"
  gt_create_at :: "int option"
  gt_delete_at :: "int option"
  gt_update_at :: "int option"

record group_channel =
  gc_channel_id :: string
  gc_channel_display_name :: string
  gc_channel_type :: "string option"
  gc_team_id :: string
  gc_team_display_name :: string
  gc_team_type :: "string option"
  gc_group_id :: "string option"
  gc_auto_add :: "bool option"
  gc_scheme_admin :: "bool option"
  gc_create_at :: "int option"
  gc_delete_at :: "int option"
  gc_update_at :: "int option"

text \<open>Either list may be missing until it is loaded.\<close>

record group_syncables_state =
  gs_teams :: "group_team list option"
  gs_channels :: "group_channel list option"

record group_stats =
  gst_group_id :: string
  gst_total_member_count :: int

record groups_state =
  grs_syncables :: "group_syncables_state obj"
  grs_groups :: "group obj"
  grs_stats :: "group_stats obj"
  grs_myGroups :: "string list"

definition init_groups_state :: groups_state where
  "init_groups_state = \<lparr>grs_syncables = [], grs_groups = [], grs_stats = [], grs_myGroups = []\<rparr>"

record role =
  ro_id :: string
  ro_name :: string
  ro_display_name :: string
  ro_description :: string
  ro_create_at :: int
  ro_update_at :: int
  ro_delete_at :: int
  ro_permissions :: "string list"
  ro_scheme_managed :: bool
  ro_built_in :: bool

record roles_state =
  rls_roles :: "role obj"
  rls_pending :: "string list"

definition init_roles_state :: roles_state where
  "init_roles_state = \<lparr>rls_roles = [], rls_pending = []\<rparr>"

section \<open>Actions\<close>

datatype group_store_action =
    RECEIVED_GROUP_TEAMS string "group_team list"
  | RECEIVED_GROUP_CHANNELS string "group_channel list"
  | PATCHED_GROUP_TEAM group_team
  | LINKED_GROUP_TEAM group_team
  | PATCHED_GROUP_CHANNEL group_channel
  | LINKED_GROUP_CHANNEL group_channel
  | UNLINKED_GROUP_TEAM string string
  | UNLINKED_GROUP_CHANNEL string string
  | ADD_MY_GROUP string
  | RECEIVED_MY_GROUPS "group list"
  | REMOVE_MY_GROUP string
  | RECEIVED_GROUP_STATS group_stats
  | CREATE_GROUP_SUCCESS group
  | PATCHED_GROUP group
  | RESTORED_GROUP group
  | ARCHIVED_GROUP group
  | RECEIVED_GROUP group
  | RECEIVED_GROUPS "group list"
  | GROUPS_BY_CHANNEL "group list option obj"
  | GROUPS_ASSOCIATED "group list"
  | RECEIVED_MEMBER_TO_REMOVE_FROM_GROUP string string
  | RECEIVED_MEMBER_TO_ADD_TO_GROUP string string
  | GroupOther string

text \<open>
  \<open>GROUPS_BY_CHANNEL\<close> is \<open>RECEIVED_ALL_GROUPS_ASSOCIATED_TO_CHANNELS_IN_TEAM\<close>; \<open>GROUPS_ASSOCIATED\<close> stands
  for the four actions with the groups of a team or a channel, which this reducer treats alike.
\<close>

datatype role_action =
    SET_PENDING_ROLES "string list"
  | RECEIVED_ROLES "role list option"
  | ROLE_DELETED "role option"
  | RECEIVED_ROLE "role option"
  | RoleLogout
  | RoleOther string

section \<open>Syncables\<close>

definition no_syncables :: group_syncables_state where
  "no_syncables = \<lparr>gs_teams = None, gs_channels = None\<rparr>"

definition link_group_team :: "group_syncables_state obj \<Rightarrow> group_team \<Rightarrow> group_syncables_state obj" where
  "link_group_team st d =
     (let k = key_of (gt_group_id d);
          teams = (case get st k of None \<Rightarrow> None | Some s \<Rightarrow> gs_teams s);
          nextGroupTeams = (if teams = None \<or> teams = Some [] then [d]
                            else map (\<lambda>t. if gt_team_id t = gt_team_id d then d else t) (the teams))
      in put k ((get_or no_syncables st k)\<lparr>gs_teams := Some nextGroupTeams\<rparr>) st)"

definition link_group_channel :: "group_syncables_state obj \<Rightarrow> group_channel \<Rightarrow> group_syncables_state obj" where
  "link_group_channel st d =
     (let k = key_of (gc_group_id d);
          channels = (case get st k of None \<Rightarrow> None | Some s \<Rightarrow> gs_channels s);
          nextGroupChannels = (case channels of None \<Rightarrow> [d]
             | Some cs \<Rightarrow> map (\<lambda>c. if gc_channel_id c = gc_channel_id d then d else c) cs)
      in put k ((get_or no_syncables st k)\<lparr>gs_channels := Some nextGroupChannels\<rparr>) st)"

text \<open>\<open>splice\<close> of the first element that is found, if there is one.\<close>

definition remove_first :: "('a \<Rightarrow> bool) \<Rightarrow> 'a list \<Rightarrow> 'a list" where
  "remove_first P xs = (case findIndex P xs of None \<Rightarrow> xs | Some i \<Rightarrow> remove_at i xs)"

definition unlink_group_team :: "group_syncables_state obj \<Rightarrow> string \<Rightarrow> string \<Rightarrow> group_syncables_state obj nxt" where
  "unlink_group_team st groupId syncableId =
     (case get st groupId of
        None \<Rightarrow> Same
      | Some s \<Rightarrow>
          (let nextTeams = (case gs_teams s of None \<Rightarrow> [] | Some ts \<Rightarrow> remove_first (\<lambda>t. gt_team_id t = syncableId) ts);
               nextChannels = (case gs_channels s of None \<Rightarrow> [] | Some cs \<Rightarrow> remove_first (\<lambda>c. gc_team_id c = syncableId) cs)
           in New (put groupId (s\<lparr>gs_teams := Some nextTeams, gs_channels := Some nextChannels\<rparr>) st)))"

text \<open>Without loaded channels this throws.\<close>

definition unlink_group_channel :: "group_syncables_state obj \<Rightarrow> string \<Rightarrow> string \<Rightarrow> group_syncables_state obj nxt option" where
  "unlink_group_channel st groupId syncableId =
     (case get st groupId of
        None \<Rightarrow> Some Same
      | Some s \<Rightarrow>
          (case gs_channels s of
             None \<Rightarrow> None
           | Some cs \<Rightarrow>
               Some (New (put groupId (s\<lparr>gs_channels := Some (remove_first (\<lambda>c. gc_channel_id c = syncableId) cs)\<rparr>) st))))"

definition syncables :: "group_syncables_state obj \<Rightarrow> group_store_action \<Rightarrow> group_syncables_state obj nxt option" where
  "syncables st a =
     (case a of
        RECEIVED_GROUP_TEAMS g ts \<Rightarrow> Some (New (put g ((get_or no_syncables st g)\<lparr>gs_teams := Some ts\<rparr>) st))
      | RECEIVED_GROUP_CHANNELS g cs \<Rightarrow> Some (New (put g ((get_or no_syncables st g)\<lparr>gs_channels := Some cs\<rparr>) st))
      | PATCHED_GROUP_TEAM d \<Rightarrow> Some (New (link_group_team st d))
      | LINKED_GROUP_TEAM d \<Rightarrow> Some (New (link_group_team st d))
      | PATCHED_GROUP_CHANNEL d \<Rightarrow> Some (New (link_group_channel st d))
      | LINKED_GROUP_CHANNEL d \<Rightarrow> Some (New (link_group_channel st d))
      | UNLINKED_GROUP_TEAM g t \<Rightarrow> Some (unlink_group_team st g t)
      | UNLINKED_GROUP_CHANNEL g c \<Rightarrow> unlink_group_channel st g c
      | _ \<Rightarrow> Some Same)"

section \<open>My groups, statistics, groups\<close>

text \<open>\<open>RECEIVED_MY_GROUPS\<close> looks ids up in the previous list, not in the one it builds.\<close>

definition myGroups :: "string list \<Rightarrow> group_store_action \<Rightarrow> string list nxt" where
  "myGroups st a =
     (case a of
        ADD_MY_GROUP g \<Rightarrow> New (if indexOf st g = None then st @ [g] else st)
      | RECEIVED_MY_GROUPS gs \<Rightarrow>
          New (foldl (\<lambda>next g. if indexOf st (grp_id g) = None then next @ [grp_id g] else next) st gs)
      | REMOVE_MY_GROUP g \<Rightarrow> (case indexOf st g of None \<Rightarrow> Same | Some i \<Rightarrow> New (remove_at i st))
      | _ \<Rightarrow> Same)"

definition group_stats_slice :: "group_stats obj \<Rightarrow> group_store_action \<Rightarrow> group_stats obj nxt" where
  "group_stats_slice st a =
     (case a of RECEIVED_GROUP_STATS stat \<Rightarrow> New (put (gst_group_id stat) stat st) | _ \<Rightarrow> Same)"

definition put_groups :: "group obj \<Rightarrow> group list \<Rightarrow> group obj" where
  "put_groups st gs = foldl (\<lambda>next g. put (grp_id g) g next) st gs"

definition set_members :: "group obj \<Rightarrow> string \<Rightarrow> (string list \<Rightarrow> string list) \<Rightarrow> group obj nxt" where
  "set_members st groupId f =
     (case get st groupId of
        None \<Rightarrow> Same
      | Some g \<Rightarrow>
          (case grp_member_ids g of
             None \<Rightarrow> Same
           | Some ids \<Rightarrow>
               (let newMemberIds = f (remdups_js ids)
                in New (put (grp_id g) (g\<lparr>grp_member_ids := Some newMemberIds,
                     grp_member_count := int (length newMemberIds)\<rparr>) st))))"

definition groups_slice :: "group obj \<Rightarrow> group_store_action \<Rightarrow> group obj nxt" where
  "groups_slice st a =
     (case a of
        CREATE_GROUP_SUCCESS g \<Rightarrow> New (put (grp_id g) g st)
      | PATCHED_GROUP g \<Rightarrow> New (put (grp_id g) g st)
      | RESTORED_GROUP g \<Rightarrow> New (put (grp_id g) g st)
      | ARCHIVED_GROUP g \<Rightarrow> New (put (grp_id g) g st)
      | RECEIVED_GROUP g \<Rightarrow> New (put (grp_id g) g st)
      | RECEIVED_MY_GROUPS gs \<Rightarrow> New (put_groups st gs)
      | RECEIVED_GROUPS gs \<Rightarrow> New (put_groups st gs)
      | GROUPS_BY_CHANNEL groupsByChannelId \<Rightarrow>
          New (foldl (\<lambda>next gs. case gs of None \<Rightarrow> next | Some l \<Rightarrow> put_groups next l) st (obj_values groupsByChannelId))
      | GROUPS_ASSOCIATED gs \<Rightarrow> New (put_groups st gs)
      | RECEIVED_MEMBER_TO_REMOVE_FROM_GROUP g u \<Rightarrow> set_members st g (removeAll u)
      | RECEIVED_MEMBER_TO_ADD_TO_GROUP g u \<Rightarrow> set_members st g (set_add u)
      | _ \<Rightarrow> Same)"

definition groups_reducer :: "groups_state \<Rightarrow> group_store_action \<Rightarrow> groups_state option" where
  "groups_reducer st a =
     (case syncables (grs_syncables st) a of
        None \<Rightarrow> None
      | Some s \<Rightarrow> Some
          \<lparr>grs_syncables = upd (grs_syncables st) s,
           grs_groups = upd (grs_groups st) (groups_slice (grs_groups st) a),
           grs_stats = upd (grs_stats st) (group_stats_slice (grs_stats st) a),
           grs_myGroups = upd (grs_myGroups st) (myGroups (grs_myGroups st) a)\<rparr>)"

section \<open>Roles\<close>

definition pending :: "string list \<Rightarrow> role_action \<Rightarrow> string list nxt" where
  "pending st a = (case a of SET_PENDING_ROLES d \<Rightarrow> New d | RoleLogout \<Rightarrow> New [] | _ \<Rightarrow> Same)"

definition roles_slice :: "role obj \<Rightarrow> role_action \<Rightarrow> role obj nxt" where
  "roles_slice st a =
     (case a of
        RECEIVED_ROLES (Some rs) \<Rightarrow> New (foldl (\<lambda>next r. put (ro_name r) r next) st rs)
      | ROLE_DELETED (Some r) \<Rightarrow> New (del (ro_name r) st)
      | RECEIVED_ROLE (Some r) \<Rightarrow> New (put (ro_name r) r st)
      | RoleLogout \<Rightarrow> New []
      | _ \<Rightarrow> Same)"

definition roles_reducer :: "roles_state \<Rightarrow> role_action \<Rightarrow> roles_state" where
  "roles_reducer st a =
     \<lparr>rls_roles = upd (rls_roles st) (roles_slice (rls_roles st) a),
      rls_pending = upd (rls_pending st) (pending (rls_pending st) a)\<rparr>"

text \<open>
  What \<open>loadRolesIfNeeded\<close> does: before the server's version is known it keeps the names and tries again
  later, otherwise it asks for the missing ones in requests of at most 100 names. \<open>serverVersion\<close> is tested
  for truth.
\<close>

definition MAX_GET_ROLES_BY_NAMES :: nat where "MAX_GET_ROLES_BY_NAMES = 100"

function chunks :: "nat \<Rightarrow> 'a list \<Rightarrow> 'a list list" where
  "chunks n xs = (if xs = [] \<or> n = 0 then [] else take n xs # chunks n (drop n xs))"
  by auto
termination by (relation "measure (\<lambda>(n, xs). length xs)") auto

declare chunks.simps [simp del]

datatype role_load = Retry | Requests "string list list"

definition loadRolesIfNeeded :: "string \<Rightarrow> roles_state \<Rightarrow> string list \<Rightarrow> roles_state \<times> role_load" where
  "loadRolesIfNeeded serverVersion st rs =
     (let pendingRoles = foldl (\<lambda>acc r. set_add r acc) (remdups_js (rls_pending st)) rs
      in if serverVersion = []
         then (roles_reducer st (SET_PENDING_ROLES pendingRoles), Retry)
         else
           (let newRoles = filter (\<lambda>r. get (rls_roles st) r = None \<and> trim_text r \<noteq> []) pendingRoles
            in (roles_reducer st (SET_PENDING_ROLES []), Requests (chunks MAX_GET_ROLES_BY_NAMES newRoles))))"

section \<open>Kinds of groups, searching and sorting\<close>

definition isSyncableSource :: "(string \<Rightarrow> string) \<Rightarrow> string \<Rightarrow> bool" where
  "isSyncableSource lower source \<longleftrightarrow> lower source = ''ldap'' \<or> starts_with ''plugin_'' (lower source)"

definition filterGroupsMatchingTerm :: "(string \<Rightarrow> string) \<Rightarrow> group option list \<Rightarrow> string \<Rightarrow> group option list" where
  "filterGroupsMatchingTerm lower gs typed =
     filter (\<lambda>g. case g of None \<Rightarrow> False
       | Some g \<Rightarrow>
           (let groupSuggestions =
              getSuggestionsSplitByMultiple (lower (grp_name g)) AUTOCOMPLETE_SPLIT_CHARACTERS @
              getSuggestionsSplitBy (lower (grp_display_name g)) (CHR '' '')
            in list_ex (starts_with (trimmed_term lower typed)) (filter (\<lambda>s. s \<noteq> []) groupSuggestions))) gs"

text \<open>The list is sorted in place; \<open>lc\<close> is \<open>localeCompare\<close> for the locale.\<close>

definition compareGroups :: "(string \<Rightarrow> string \<Rightarrow> int) \<Rightarrow> group \<Rightarrow> group \<Rightarrow> int" where
  "compareGroups lc a b =
     (if (grp_delete_at a = 0 \<and> grp_delete_at b = 0) \<or> (grp_delete_at a > 0 \<and> grp_delete_at b > 0)
      then lc (grp_display_name a) (grp_display_name b)
      else if grp_delete_at a < grp_delete_at b then - 1
      else if grp_delete_at a > grp_delete_at b then 1
      else 0)"

definition sortGroups :: "(string \<Rightarrow> string \<Rightarrow> int) \<Rightarrow> group list \<Rightarrow> group list" where
  "sortGroups lc gs = js_sort (compareGroups lc) gs"

section \<open>My groups, groups that may be mentioned\<close>

definition getGroupInfoForIds :: "group obj \<Rightarrow> string list \<Rightarrow> group option list" where
  "getGroupInfoForIds groupsSet groupIds = map (get groupsSet) groupIds"

text \<open>A group that is not loaded is \<open>undefined\<close>, which \<open>sort\<close> puts last without comparing it.\<close>

definition getMyGroups :: "(string \<Rightarrow> string \<Rightarrow> int) \<Rightarrow> groups_state \<Rightarrow> group option list" where
  "getMyGroups lc st =
     (let infos = getGroupInfoForIds (grs_groups st) (grs_myGroups st)
      in map Some (sortGroups lc (List.map_filter (\<lambda>g. g) infos)) @ filter (\<lambda>g. g = None) infos)"

definition may_mention :: "bool \<Rightarrow> group \<Rightarrow> bool" where
  "may_mention includeArchived g \<longleftrightarrow> grp_allow_reference g \<and> (includeArchived \<or> grp_delete_at g = 0)"

definition getMyAllowReferencedGroups ::
  "(string \<Rightarrow> string \<Rightarrow> int) \<Rightarrow> (string \<Rightarrow> string \<Rightarrow> int) \<Rightarrow> groups_state \<Rightarrow> bool \<Rightarrow> group list option" where
  "getMyAllowReferencedGroups lcDefault lc st includeArchived =
     (let mine = getMyGroups lcDefault st
      in if None \<in> set mine then None
         else Some (sortGroups lc (filter (may_mention includeArchived) (List.map_filter (\<lambda>g. g) mine))))"

definition getAllAssociatedGroupsForReference :: "(string \<Rightarrow> string \<Rightarrow> int) \<Rightarrow> groups_state \<Rightarrow> bool \<Rightarrow> group list" where
  "getAllAssociatedGroupsForReference lc st includeArchived =
     sortGroups lc (filter (may_mention includeArchived) (obj_values (grs_groups st)))"

definition getArchivedGroups :: "(string \<Rightarrow> string \<Rightarrow> int) \<Rightarrow> groups_state \<Rightarrow> group list" where
  "getArchivedGroups lc st =
     sortGroups lc (filter (\<lambda>g. grp_allow_reference g \<and> grp_delete_at g > 0) (obj_values (grs_groups st)))"

definition getAllCustomGroups :: "groups_state \<Rightarrow> group list" where
  "getAllCustomGroups st =
     filter (\<lambda>g. grp_allow_reference g \<and> grp_delete_at g = 0 \<and> grp_source g = ''custom'') (obj_values (grs_groups st))"

definition getAllGroupsByName :: "groups_state \<Rightarrow> group obj" where
  "getAllGroupsByName st = foldl (\<lambda>byName g. put (grp_name g) g byName) [] (obj_values (grs_groups st))"

text \<open>The mention keys are the names behind an at sign.\<close>

definition getMyGroupMentionKeys ::
  "(string \<Rightarrow> string \<Rightarrow> int) \<Rightarrow> (string \<Rightarrow> string \<Rightarrow> int) \<Rightarrow> groups_state \<Rightarrow> bool \<Rightarrow> string list option" where
  "getMyGroupMentionKeys lcDefault lc st includeArchived =
     map_option (map (\<lambda>g. CHR ''@'' # grp_name g)) (getMyAllowReferencedGroups lcDefault lc st includeArchived)"

definition isMyGroup :: "groups_state \<Rightarrow> string \<Rightarrow> bool" where
  "isMyGroup st groupId \<longleftrightarrow> list_ex (\<lambda>g. g = groupId) (grs_myGroups st)"

section \<open>Groups of teams and channels\<close>

text \<open>\<open>groupsAssociatedToTeam[teamID]?.ids || []\<close>, and likewise for channels.\<close>

definition associated_ids :: "associated_groups obj \<Rightarrow> string \<Rightarrow> string list" where
  "associated_ids assoc i = (case get assoc i of None \<Rightarrow> [] | Some a \<Rightarrow> ag_ids a)"

definition groups_among :: "groups_state \<Rightarrow> string list \<Rightarrow> group list" where
  "groups_among st ids = map snd (filter (\<lambda>(k, g). k \<in> set ids) (grs_groups st))"

text \<open>\<open>getGroupsAssociatedToTeamForReference\<close> and \<open>getGroupsAssociatedToChannelForReference\<close>.\<close>

definition associatedForReference :: "groups_state \<Rightarrow> string list \<Rightarrow> group list" where
  "associatedForReference st ids = filter (may_mention False) (groups_among st ids)"

definition getGroupsNotAssociatedToTeam :: "(string \<Rightarrow> string) \<Rightarrow> groups_state \<Rightarrow> string list \<Rightarrow> group list" where
  "getGroupsNotAssociatedToTeam lower st ids =
     map snd (filter (\<lambda>(k, g). k \<notin> set ids \<and> isSyncableSource lower (grp_source g)) (grs_groups st))"

definition getGroupsNotAssociatedToChannel ::
  "(string \<Rightarrow> string) \<Rightarrow> groups_state \<Rightarrow> string list \<Rightarrow> team option \<Rightarrow> string list \<Rightarrow> group list" where
  "getGroupsNotAssociatedToChannel lower st channelIds team teamIds =
     (let result = filter (\<lambda>g. grp_id g \<notin> set channelIds \<and> isSyncableSource lower (grp_source g)) (obj_values (grs_groups st))
      in if (case team of None \<Rightarrow> False | Some t \<Rightarrow> te_group_constrained t)
         then filter (\<lambda>g. grp_id g \<in> set (map grp_id (groups_among st teamIds))) result else result)"

text \<open>
  Which groups may be mentioned where: \<open>channelIds\<close> are those of the channel, if one is given.
\<close>

definition getAssociatedGroupsForReference ::
  "(string \<Rightarrow> string \<Rightarrow> int) \<Rightarrow> groups_state \<Rightarrow> bool \<Rightarrow> bool \<Rightarrow> string list \<Rightarrow> string list option \<Rightarrow> group list" where
  "getAssociatedGroupsForReference lc st teamConstrained channelConstrained teamIds channelIds =
     (let groupsFromTeam = associatedForReference st teamIds;
          groupsFromChannel = (case channelIds of None \<Rightarrow> [] | Some ids \<Rightarrow> associatedForReference st ids);
          customGroups = getAllCustomGroups st
      in if teamConstrained \<and> channelConstrained
         then groupsFromChannel @ filter (\<lambda>g. g \<notin> set groupsFromChannel) groupsFromTeam @ customGroups
         else if teamConstrained then customGroups @ groupsFromTeam
         else if channelConstrained then customGroups @ groupsFromChannel
         else getAllAssociatedGroupsForReference lc st False)"

end
