(* ===== verification/Permissions.thy ===== *)
theory Permissions
  imports GroupStore Teams
begin

text \<open>
  \<open>selectors/entities/roles_helpers.ts\<close> and \<open>selectors/entities/roles.ts\<close>: what my roles in the system, a
  team, a channel and a group let me do. A profile of mine without roles throws.
\<close>

text \<open>The parts of the store the selectors read.\<close>

record permission_store =
  pm_users :: users_state
  pm_teams :: teams_state
  pm_channels :: channels_state
  pm_groups :: groups_state
  pm_roles :: roles_state

section \<open>Roles\<close>

definition getPermissionsForRoles :: "role obj \<Rightarrow> string list \<Rightarrow> string list" where
  "getPermissionsForRoles allRoles roleSet =
     foldl (\<lambda>permissions roleName.
        case get allRoles roleName of
          None \<Rightarrow> permissions
        | Some r \<Rightarrow> foldl (\<lambda>acc p. set_add p acc) permissions (ro_permissions r)) [] roleSet"

definition getMySystemRoles :: "permission_store \<Rightarrow> string list option" where
  "getMySystemRoles st =
     (case get (uss_profiles (pm_users st)) (uss_currentUserId (pm_users st)) of
        None \<Rightarrow> Some []
      | Some user \<Rightarrow> map_option (\<lambda>rs. remdups_js (split_on (CHR '' '') rs)) (us_roles user))"

definition getMySystemPermissions :: "permission_store \<Rightarrow> string list option" where
  "getMySystemPermissions st =
     map_option (getPermissionsForRoles (rls_roles (pm_roles st))) (getMySystemRoles st)"

definition haveISystemPermission :: "permission_store \<Rightarrow> string \<Rightarrow> bool option" where
  "haveISystemPermission st permission =
     map_option (\<lambda>ps. permission \<in> set ps) (getMySystemPermissions st)"

definition getMyTeamRoles :: "permission_store \<Rightarrow> string list obj" where
  "getMyTeamRoles st =
     map (\<lambda>(k, m). (k, remdups_js (split_on (CHR '' '') (tm_roles m))))
       (filter (\<lambda>(k, m). tm_roles m \<noteq> []) (tes_myMembers (pm_teams st)))"

definition CUSTOM_GROUP_USER_ROLE :: string where "CUSTOM_GROUP_USER_ROLE = ''custom_group_user''"

definition getMyGroupRoles :: "permission_store \<Rightarrow> string list obj" where
  "getMyGroupRoles st =
     foldl (\<lambda>rs g. put g [CUSTOM_GROUP_USER_ROLE] rs) [] (grs_myGroups (pm_groups st))"

definition getRolesById :: "permission_store \<Rightarrow> role obj" where
  "getRolesById st = foldl (\<lambda>byId r. put (ro_id r) r byId) [] (obj_values (rls_roles (pm_roles st)))"

text \<open>The permissions by team, by group and by channel.\<close>

definition permissions_by :: "permission_store \<Rightarrow> string list obj \<Rightarrow> string list obj" where
  "permissions_by st rolesByKey = map (\<lambda>(k, rs). (k, getPermissionsForRoles (rls_roles (pm_roles st)) rs)) rolesByKey"

definition has_in :: "string list obj \<Rightarrow> string \<Rightarrow> string \<Rightarrow> bool" where
  "has_in permissionsBy k permission \<longleftrightarrow>
     (case get permissionsBy k of None \<Rightarrow> False | Some ps \<Rightarrow> permission \<in> set ps)"

section \<open>Asking\<close>

text \<open>What is \<open>undefined\<close> for a team I have no roles in is read for its truth only.\<close>

definition haveITeamPermission :: "permission_store \<Rightarrow> string \<Rightarrow> string \<Rightarrow> bool option" where
  "haveITeamPermission st teamId permission =
     (case getMySystemPermissions st of
        None \<Rightarrow> None
      | Some ps \<Rightarrow> Some (if permission \<in> set ps then True
          else if teamId = [] then False
          else has_in (permissions_by st (getMyTeamRoles st)) teamId permission))"

definition haveIChannelPermission :: "permission_store \<Rightarrow> string \<Rightarrow> string \<Rightarrow> string \<Rightarrow> bool option" where
  "haveIChannelPermission st teamId channelId permission =
     (case getMySystemPermissions st of
        None \<Rightarrow> None
      | Some ps \<Rightarrow> Some (if permission \<in> set ps then True
          else if teamId \<noteq> [] \<and> has_in (permissions_by st (getMyTeamRoles st)) teamId permission then True
          else if channelId \<noteq> [] \<and> has_in (permissions_by st (cs_roles (pm_channels st))) channelId permission then True
          else False))"

definition haveICurrentTeamPermission :: "permission_store \<Rightarrow> string \<Rightarrow> bool option" where
  "haveICurrentTeamPermission st permission = haveITeamPermission st (tes_currentTeamId (pm_teams st)) permission"

definition haveICurrentChannelPermission :: "permission_store \<Rightarrow> string \<Rightarrow> bool option" where
  "haveICurrentChannelPermission st permission =
     haveIChannelPermission st (tes_currentTeamId (pm_teams st)) (cs_currentChannelId (pm_channels st)) permission"

definition DELETE_CUSTOM_GROUP :: string where "DELETE_CUSTOM_GROUP = ''delete_custom_group''"
definition MANAGE_CUSTOM_GROUP_MEMBERS :: string where "MANAGE_CUSTOM_GROUP_MEMBERS = ''manage_custom_group_members''"
definition RESTORE_CUSTOM_GROUP :: string where "RESTORE_CUSTOM_GROUP = ''restore_custom_group''"

text \<open>A group that is not loaded throws.\<close>

definition haveIGroupPermission :: "(string \<Rightarrow> string) \<Rightarrow> permission_store \<Rightarrow> string \<Rightarrow> string \<Rightarrow> bool option" where
  "haveIGroupPermission lower st groupID permission =
     (case (getMySystemPermissions st, get (grs_groups (pm_groups st)) groupID) of
        (Some systemPermissions, Some g) \<Rightarrow>
          (let permissionGroups = permissions_by st (getMyGroupRoles st);
               granted = (permission \<in> set systemPermissions \<or> has_in permissionGroups (grp_id g) permission);
               synced = isSyncableSource lower (grp_source g)
           in Some (if permission = RESTORE_CUSTOM_GROUP then \<not> synced \<and> grp_delete_at g \<noteq> 0 \<and> granted
                    else if synced \<or> grp_delete_at g \<noteq> 0 then False
                    else granted))
      | _ \<Rightarrow> None)"

record group_permissions =
  gp_can_delete :: bool
  gp_can_manage_members :: bool
  gp_can_restore :: bool

text \<open>The permissions of all groups are collected in one set.\<close>

definition getGroupListPermissions :: "(string \<Rightarrow> string) \<Rightarrow> permission_store \<Rightarrow> group_permissions obj option" where
  "getGroupListPermissions lower st =
     (case getMySystemPermissions st of
        None \<Rightarrow> None
      | Some systemPermissions \<Rightarrow>
          (let gs = filter grp_allow_reference (obj_values (grs_groups (pm_groups st)));
               ofGroups = foldl (\<lambda>ps g. case get (getMyGroupRoles st) (grp_id g) of None \<Rightarrow> ps
                  | Some rs \<Rightarrow> foldl (\<lambda>acc p. set_add p acc) ps (getPermissionsForRoles (rls_roles (pm_roles st)) rs)) [] gs;
               permissions = foldl (\<lambda>acc p. set_add p acc) ofGroups systemPermissions;
               free = (\<lambda>g. \<not> isSyncableSource lower (grp_source g))
           in Some (foldl (\<lambda>byId g. put (grp_id g)
                \<lparr>gp_can_delete = (DELETE_CUSTOM_GROUP \<in> set permissions \<and> free g \<and> grp_delete_at g = 0),
                 gp_can_manage_members = (MANAGE_CUSTOM_GROUP_MEMBERS \<in> set permissions \<and> free g \<and> grp_delete_at g = 0),
                 gp_can_restore = (RESTORE_CUSTOM_GROUP \<in> set permissions \<and> free g \<and> grp_delete_at g \<noteq> 0)\<rparr> byId) [] gs)))"

end
