(* ===== verification/GroupStoreProps.thy ===== *)
theory GroupStoreProps
  imports GroupStore
begin

text \<open>
  The invariant of the groups (the groups I am in are loaded, each listed once), from which the list of the
  groups that may be mentioned never fails; what roles are asked for; and the links that get lost.
\<close>

section \<open>My groups are loaded\<close>

definition groups_ok :: "groups_state \<Rightarrow> bool" where
  "groups_ok st \<longleftrightarrow> (\<forall>k g. get (grs_groups st) k = Some g \<longrightarrow> grp_id g = k) \<and>
     wf_obj (grs_groups st) \<and> distinct (grs_myGroups st) \<and>
     (\<forall>i \<in> set (grs_myGroups st). get (grs_groups st) i \<noteq> None)"

text \<open>
  The websocket handler loads the group before it adds me to it, and the server names each of my groups once.
\<close>

definition groups_admissible :: "groups_state \<Rightarrow> group_store_action \<Rightarrow> bool" where
  "groups_admissible st a \<longleftrightarrow>
     (case a of
        ADD_MY_GROUP i \<Rightarrow> get (grs_groups st) i \<noteq> None
      | RECEIVED_MY_GROUPS gs \<Rightarrow> distinct (map grp_id gs)
      | _ \<Rightarrow> True)"

definition filed_groups :: "group obj \<Rightarrow> bool" where
  "filed_groups st \<longleftrightarrow> wf_obj st \<and> (\<forall>k g. get st k = Some g \<longrightarrow> grp_id g = k)"

lemma filed_put: "filed_groups st \<Longrightarrow> filed_groups (put (grp_id g) g st)"
  by (auto simp: filed_groups_def)

lemma filed_put_groups: "filed_groups st \<Longrightarrow> filed_groups (put_groups st gs)"
  unfolding put_groups_def by (rule foldl_invariant) (auto intro: filed_put)

lemma put_groups_keeps: "get st k \<noteq> None \<Longrightarrow> get (put_groups st gs) k \<noteq> None"
  unfolding put_groups_def dom_foldl_put by blast

lemma put_groups_loads: "g \<in> set gs \<Longrightarrow> get (put_groups st gs) (grp_id g) \<noteq> None"
  unfolding put_groups_def dom_foldl_put by blast

lemma by_channel_filed:
  "filed_groups st \<Longrightarrow>
   filed_groups (foldl (\<lambda>next gs. case gs of None \<Rightarrow> next | Some l \<Rightarrow> put_groups next l) st ls)"
  by (rule foldl_invariant) (auto intro: filed_put_groups split: option.splits)

lemma by_channel_keeps:
  "get st k \<noteq> None \<Longrightarrow>
   get (foldl (\<lambda>next gs. case gs of None \<Rightarrow> next | Some l \<Rightarrow> put_groups next l) st ls) k \<noteq> None"
  by (rule foldl_invariant [where I = "\<lambda>st. get st k \<noteq> None"]) (simp_all add: put_groups_keeps [simplified] split: option.splits)

lemma members_filed: "filed_groups st \<Longrightarrow> filed_groups (upd st (set_members st i f))"
  by (auto simp: set_members_def filed_groups_def Let_def split: option.splits)

lemma members_keep: "get st k \<noteq> None \<Longrightarrow> get (upd st (set_members st i f)) k \<noteq> None"
  by (auto simp: set_members_def Let_def split: option.splits)

lemma groups_slice_filed: "filed_groups st \<Longrightarrow> filed_groups (upd st (groups_slice st a))"
  by (cases a) (simp_all add: groups_slice_def filed_put filed_put_groups by_channel_filed members_filed)

lemma groups_slice_keeps: "filed_groups st \<Longrightarrow> get st k \<noteq> None \<Longrightarrow> get (upd st (groups_slice st a)) k \<noteq> None"
  by (cases a) (simp_all add: groups_slice_def put_groups_keeps by_channel_keeps members_keep)

lemma my_groups_loop:
  "foldl (\<lambda>next g. if grp_id g \<notin> set st then next @ [grp_id g] else next) acc gs =
     acc @ filter (\<lambda>i. i \<notin> set st) (map grp_id gs)"
  by (induction gs arbitrary: acc) auto

lemma my_groups_after:
  assumes "distinct st" and "\<And>gs. a = RECEIVED_MY_GROUPS gs \<Longrightarrow> distinct (map grp_id gs)"
  shows "distinct (upd st (myGroups st a)) \<and>
    set (upd st (myGroups st a)) \<subseteq> set st \<union>
      (case a of ADD_MY_GROUP i \<Rightarrow> {i} | RECEIVED_MY_GROUPS gs \<Rightarrow> grp_id ` set gs | _ \<Rightarrow> {})"
proof (cases a)
  case (REMOVE_MY_GROUP i)
  then show ?thesis
    using assms(1) by (auto simp: myGroups_def remove_at_indexOf split: option.splits dest: notin_set_remove1)
qed (use assms in \<open>auto simp: myGroups_def indexOf_None my_groups_loop\<close>)

lemma groups_ok_step:
  assumes ok: "groups_ok st" and a: "groups_admissible st a" and step: "groups_reducer st a = Some st'"
  shows "groups_ok st'"
proof -
  have filed: "filed_groups (grs_groups st)" using ok by (simp add: groups_ok_def filed_groups_def)
  from step have st': "grs_groups st' = upd (grs_groups st) (groups_slice (grs_groups st) a)"
      "grs_myGroups st' = upd (grs_myGroups st) (myGroups (grs_myGroups st) a)"
    by (auto simp: groups_reducer_def split: option.splits)
  have once: "distinct (map grp_id gs)" if "a = RECEIVED_MY_GROUPS gs" for gs
    using a that by (simp add: groups_admissible_def)
  have my: "distinct (grs_myGroups st')" "set (grs_myGroups st') \<subseteq> set (grs_myGroups st) \<union>
      (case a of ADD_MY_GROUP i \<Rightarrow> {i} | RECEIVED_MY_GROUPS gs \<Rightarrow> grp_id ` set gs | _ \<Rightarrow> {})"
    using my_groups_after [OF _ once, of "grs_myGroups st"] ok unfolding st' groups_ok_def by blast+
  have "get (grs_groups st') i \<noteq> None" if "i \<in> set (grs_myGroups st')" for i
  proof (cases "i \<in> set (grs_myGroups st)")
    case True
    then have "get (grs_groups st) i \<noteq> None" using ok unfolding groups_ok_def by blast
    then show ?thesis unfolding st' by (rule groups_slice_keeps [OF filed])
  next
    case False
    with my(2) that consider "a = ADD_MY_GROUP i" | gs g where "a = RECEIVED_MY_GROUPS gs" "g \<in> set gs" "i = grp_id g"
      by (cases a) auto
    then show ?thesis
    proof cases
      case 1
      with a have "get (grs_groups st) i \<noteq> None" by (simp add: groups_admissible_def)
      then show ?thesis unfolding st' by (rule groups_slice_keeps [OF filed])
    next
      case 2
      then show ?thesis unfolding st' by (simp add: groups_slice_def put_groups_loads)
    qed
  qed
  with my(1) groups_slice_filed [OF filed, of a] show ?thesis
    unfolding st' [symmetric] by (auto simp: groups_ok_def filed_groups_def)
qed

interpretation group_store: redux_store groups_reducer groups_admissible groups_ok init_groups_state
  by unfold_locales (simp add: groups_ok_def init_groups_state_def, rule groups_ok_step)

lemma map_filter_some: "List.map_filter (\<lambda>g. g) (map Some gs) = gs"
  by (induction gs) (auto simp: List.map_filter_simps)

text \<open>
  C17. In every state the groups can reach, the groups of mine that may be mentioned are found without reading a
  group that is not loaded: they are exactly the groups I am in that allow it and are not archived, each once.
\<close>

theorem mentionable_groups_found:
  assumes "reachable groups_reducer groups_admissible init_groups_state st"
  shows "\<exists>gs. getMyAllowReferencedGroups lcDefault lc st False = Some gs \<and>
    mset gs = mset (filter (may_mention False) (map (\<lambda>i. the (get (grs_groups st) i)) (grs_myGroups st))) \<and> distinct gs"
proof -
  have ok: "groups_ok st" by (rule group_store.reachable_inv [OF assms])
  define mine where "mine = map (\<lambda>i. the (get (grs_groups st) i)) (grs_myGroups st)"
  have infos: "getGroupInfoForIds (grs_groups st) (grs_myGroups st) = map Some mine"
    using ok unfolding getGroupInfoForIds_def mine_def by (auto simp: groups_ok_def)
  then have "getMyGroups lcDefault st = map Some (sortGroups lcDefault mine)"
    by (simp add: getMyGroups_def Let_def map_filter_some filter_empty_conv)
  then have "getMyAllowReferencedGroups lcDefault lc st False =
      Some (sortGroups lc (filter (may_mention False) (sortGroups lcDefault mine)))"
    by (auto simp: getMyAllowReferencedGroups_def Let_def map_filter_some)
  moreover have "mset (sortGroups lc (filter (may_mention False) (sortGroups lcDefault mine))) =
      mset (filter (may_mention False) mine)"
    by (simp add: sortGroups_def mset_filter)
  moreover have "distinct mine"
  proof -
    have "inj_on (\<lambda>i. the (get (grs_groups st) i)) (set (grs_myGroups st))"
    proof (rule inj_onI)
      fix i j
      assume "i \<in> set (grs_myGroups st)" "j \<in> set (grs_myGroups st)"
        and same: "the (get (grs_groups st) i) = the (get (grs_groups st) j)"
      then obtain g h where gh: "get (grs_groups st) i = Some g" "get (grs_groups st) j = Some h"
        using ok unfolding groups_ok_def by blast
      then have "grp_id g = i" "grp_id h = j" using ok unfolding groups_ok_def by blast+
      with gh same show "i = j" by simp
    qed
    with ok show ?thesis by (simp add: mine_def distinct_map groups_ok_def)
  qed
  ultimately show ?thesis unfolding mine_def [symmetric] by (auto simp: sortGroups_def)
qed

definition sample_group :: group where
  "sample_group = \<lparr>grp_id = ''g'', grp_name = ''dev'', grp_display_name = ''Dev'', grp_description = [], grp_source = ''custom'',
     grp_remote_id = None, grp_create_at = 1, grp_update_at = 1, grp_delete_at = 0, grp_has_syncables = False, grp_member_count = 1,
     grp_scheme_admin = False, grp_allow_reference = True, grp_channel_member_count = None,
     grp_channel_member_timezones_count = None, grp_member_ids = None\<rparr>"

definition sample_groups :: groups_state where
  "sample_groups = init_groups_state\<lparr>grs_groups := [(''g'', sample_group)], grs_myGroups := [''g'']\<rparr>"

lemma mentionable_groups_found_witness:
  "\<exists>gs. getMyAllowReferencedGroups (\<lambda>_ _. 0) (\<lambda>_ _. 0) sample_groups False = Some gs \<and> mset gs = {#sample_group#}"
proof -
  have "reachable groups_reducer groups_admissible init_groups_state sample_groups"
    by (rule reachable_one [of _ _ "RECEIVED_MY_GROUPS [sample_group]"])
      (simp_all add: groups_admissible_def groups_reducer_def syncables_def groups_slice_def group_stats_slice_def myGroups_def
        put_groups_def sample_groups_def init_groups_state_def sample_group_def)
  from mentionable_groups_found [OF this, of "\<lambda>_ _. 0" "\<lambda>_ _. 0"] show ?thesis
    by (simp add: sample_groups_def may_mention_def) (simp add: sample_group_def)
qed

section \<open>Which groups are offered\<close>

text \<open>
  Wherever groups are offered to be mentioned, they are loaded, may be mentioned and are not archived; in a team
  and a channel that are not restricted to their groups these are all there are.
\<close>

theorem offered_groups_mentionable:
  "set (getAssociatedGroupsForReference lc st teamConstrained channelConstrained teamIds channelIds)
     \<subseteq> {g. g \<in> set (obj_values (grs_groups st)) \<and> may_mention False g} \<and>
   mset (getAssociatedGroupsForReference lc st False False teamIds channelIds) =
     filter_mset (may_mention False) (mset (obj_values (grs_groups st)))"
proof
  define F where "F = {g. g \<in> set (obj_values (grs_groups st)) \<and> may_mention False g}"
  have among: "set (associatedForReference st ids) \<subseteq> F" for ids
    by (force simp: F_def associatedForReference_def groups_among_def obj_values_def)
  have custom: "set (getAllCustomGroups st) \<subseteq> F"
    by (auto simp: F_def getAllCustomGroups_def may_mention_def)
  have all: "set (getAllAssociatedGroupsForReference lc st False) \<subseteq> F"
    by (auto simp: F_def getAllAssociatedGroupsForReference_def sortGroups_def)
  have "set (getAssociatedGroupsForReference lc st teamConstrained channelConstrained teamIds channelIds) \<subseteq> F"
    unfolding getAssociatedGroupsForReference_def Let_def
    by (cases channelIds; cases teamConstrained; cases channelConstrained)
      (simp_all add: among custom all subset_trans [OF filter_is_subset among] del: set_filter)
  then show "set (getAssociatedGroupsForReference lc st teamConstrained channelConstrained teamIds channelIds)
      \<subseteq> {g. g \<in> set (obj_values (grs_groups st)) \<and> may_mention False g}"
    unfolding F_def .
  show "mset (getAssociatedGroupsForReference lc st False False teamIds channelIds) =
      filter_mset (may_mention False) (mset (obj_values (grs_groups st)))"
    by (simp add: getAssociatedGroupsForReference_def getAllAssociatedGroupsForReference_def sortGroups_def Let_def)
qed

section \<open>Links that get lost\<close>

text \<open>
  Linking a group to a team only replaces a link that is there already, unless there is none at all: a second
  team is lost, and so is the first channel once the (empty) list of channels is loaded.
\<close>

lemma second_link_lost:
  assumes "get st (key_of (gt_group_id d)) = Some s" "gs_teams s = Some ts" "ts \<noteq> []" "\<forall>t \<in> set ts. gt_team_id t \<noteq> gt_team_id d"
  shows "gs_teams (get_or no_syncables (link_group_team st d) (key_of (gt_group_id d))) = Some ts"
proof -
  have "map (\<lambda>t. if gt_team_id t = gt_team_id d then d else t) ts = ts"
    using assms(4) by (intro map_idI) auto
  with assms(1-3) show ?thesis by (simp add: link_group_team_def Let_def get_or_def)
qed

lemma first_channel_link_lost:
  assumes "get st (key_of (gc_group_id d)) = Some s" "gs_channels s = Some []"
  shows "gs_channels (get_or no_syncables (link_group_channel st d) (key_of (gc_group_id d))) = Some []"
  using assms by (simp add: link_group_channel_def Let_def get_or_def)

text \<open>Of the channels of an unlinked team only the first is unlinked.\<close>

lemma other_channels_stay_linked:
  assumes "get st i = Some s" "gs_channels s = Some [c, c']" "gc_team_id c = t" "gc_team_id c' = t"
  shows "gs_channels (get_or no_syncables (upd st (unlink_group_team st i t)) i) = Some [c']"
  using assms by (simp add: unlink_group_team_def Let_def get_or_def remove_first_def remove_at_def split: option.split)

lemma unlinking_channel_throws:
  "get st i = Some s \<Longrightarrow> gs_channels s = None \<Longrightarrow> syncables st (UNLINKED_GROUP_CHANNEL i c) = None"
  by (simp add: syncables_def unlink_group_channel_def)

section \<open>Roles that are asked for\<close>

lemma chunks_Nil [simp]: "chunks n [] = []"
  by (simp add: chunks.simps)

lemma concat_chunks: "0 < n \<Longrightarrow> concat (chunks n xs) = xs"
proof (induction n xs rule: chunks.induct)
  case (1 n xs)
  then show ?case by (cases "xs = []") (simp_all add: chunks.simps [of n xs])
qed

lemma chunk_sizes: "q \<in> set (chunks n xs) \<Longrightarrow> q \<noteq> [] \<and> length q \<le> n"
proof (induction n xs rule: chunks.induct)
  case (1 n xs)
  from "1.prems" have "xs \<noteq> [] \<and> n \<noteq> 0" by (subst (asm) chunks.simps) (auto split: if_splits)
  with 1 show ?case by (subst (asm) (2) chunks.simps) auto
qed

text \<open>
  Once the server's version is known, the roles that are pending, those that were put off before it was known
  among them, are asked for unless they are loaded or blank: each in exactly one request of at most 100.
\<close>

theorem roles_asked_once:
  assumes "serverVersion \<noteq> []"
  shows "\<exists>reqs. loadRolesIfNeeded serverVersion (fst (loadRolesIfNeeded [] st early)) rs =
      (st\<lparr>rls_pending := []\<rparr>, Requests reqs) \<and>
    set (concat reqs) = {r \<in> set (rls_pending st) \<union> set early \<union> set rs. get (rls_roles st) r = None \<and> trim_text r \<noteq> []} \<and>
    distinct (concat reqs) \<and> (\<forall>q \<in> set reqs. q \<noteq> [] \<and> length q \<le> 100)"
proof -
  have fold: "set (foldl (\<lambda>acc r. set_add r acc) acc xs) = set acc \<union> set xs"
      "distinct (foldl (\<lambda>acc r. set_add r acc) acc xs) = distinct acc" for acc xs :: "string list"
    using set_foldl_set_add [of "\<lambda>r. r" acc xs] distinct_foldl_set_add [of "\<lambda>r. r" acc xs] by auto
  define pend where "pend = foldl (\<lambda>acc r. set_add r acc) (remdups_js (foldl (\<lambda>acc r. set_add r acc) (remdups_js (rls_pending st)) early)) rs"
  define asked where "asked = filter (\<lambda>r. get (rls_roles st) r = None \<and> trim_text r \<noteq> []) pend"
  have run: "loadRolesIfNeeded serverVersion (fst (loadRolesIfNeeded [] st early)) rs =
      (st\<lparr>rls_pending := []\<rparr>, Requests (chunks 100 asked))"
    using assms by (simp add: loadRolesIfNeeded_def Let_def roles_reducer_def roles_slice_def pending_def asked_def pend_def
        MAX_GET_ROLES_BY_NAMES_def)
  have "set pend = set (rls_pending st) \<union> set early \<union> set rs" "distinct pend"
    by (simp_all add: pend_def fold)
  then have "set asked = {r \<in> set (rls_pending st) \<union> set early \<union> set rs. get (rls_roles st) r = None \<and> trim_text r \<noteq> []}"
      "distinct asked"
    by (auto simp: asked_def)
  then show ?thesis
    using chunk_sizes [of _ 100 asked]
    by (intro exI [of _ "chunks 100 asked"]) (simp add: run concat_chunks del: set_concat)
qed

lemma roles_asked_once_witness:
  "\<exists>reqs. loadRolesIfNeeded ''10'' (fst (loadRolesIfNeeded [] init_roles_state [''system_user'', '' ''])) [''team_user''] =
     (init_roles_state, Requests reqs) \<and> ''system_user'' \<in> set (concat reqs)"
proof -
  have known: "''10'' \<noteq> []" by simp
  obtain reqs where reqs: "loadRolesIfNeeded ''10'' (fst (loadRolesIfNeeded [] init_roles_state [''system_user'', '' ''])) [''team_user''] =
      (init_roles_state\<lparr>rls_pending := []\<rparr>, Requests reqs)"
    and asked: "set (concat reqs) = {r \<in> set (rls_pending init_roles_state) \<union> set [''system_user'', '' ''] \<union> set [''team_user''].
      get (rls_roles init_roles_state) r = None \<and> trim_text r \<noteq> []}"
    using roles_asked_once [OF known, of init_roles_state "[''system_user'', '' '']" "[''team_user'']"] by blast
  have "trim_text ''system_user'' \<noteq> []" by (simp add: trim_text_def is_space_def)
  then have "''system_user'' \<in> set (concat reqs)"
    unfolding asked by (simp add: init_roles_state_def)
  with reqs show ?thesis by (auto simp: init_roles_state_def simp del: set_concat)
qed

end
