(* ===== verification/PermissionsProps.thy ===== *)
theory PermissionsProps
  imports Permissions GroupStoreProps
begin

text \<open>
  What the selectors answer, against the rule they implement: a permission is given by a loaded role that is mine
  in the system, in the team or in the channel. What leaving and logging out take away; what the list of groups
  offers compared with the question for a single group.
\<close>

section \<open>What roles grant\<close>

definition grants :: "role obj \<Rightarrow> string set \<Rightarrow> string \<Rightarrow> bool" where
  "grants allRoles names permission \<longleftrightarrow>
     (\<exists>n \<in> names. \<exists>r. get allRoles n = Some r \<and> permission \<in> set (ro_permissions r))"

lemma set_permissions_for_roles:
  "p \<in> set (getPermissionsForRoles allRoles ns) \<longleftrightarrow> grants allRoles (set ns) p"
proof -
  have "p \<in> set (foldl (\<lambda>permissions n. case get allRoles n of None \<Rightarrow> permissions
          | Some r \<Rightarrow> foldl (\<lambda>acc p. set_add p acc) permissions (ro_permissions r)) acc ns) \<longleftrightarrow>
        p \<in> set acc \<or> grants allRoles (set ns) p" for acc
    using set_foldl_set_add [of "\<lambda>p. p"]
    by (induction ns arbitrary: acc) (auto simp: grants_def split: option.splits)
  then show ?thesis by (simp add: getPermissionsForRoles_def)
qed

lemma has_in_iff:
  "has_in (permissions_by st rolesBy) k p \<longleftrightarrow>
     (\<exists>ns. get rolesBy k = Some ns \<and> grants (rls_roles (pm_roles st)) (set ns) p)"
  by (auto simp: has_in_def permissions_by_def get_map_obj set_permissions_for_roles split: option.splits)

lemma system_permissions:
  "getMySystemRoles st = Some system \<Longrightarrow>
   \<exists>ps. getMySystemPermissions st = Some ps \<and> (p \<in> set ps \<longleftrightarrow> grants (rls_roles (pm_roles st)) (set system) p)"
  by (simp add: getMySystemPermissions_def set_permissions_for_roles)

lemma grants_Un: "grants allRoles (A \<union> B) p \<longleftrightarrow> grants allRoles A p \<or> grants allRoles B p"
  by (auto simp: grants_def)

lemma grants_mono: "grants allRoles A p \<Longrightarrow> A \<subseteq> B \<Longrightarrow> grants allRoles B p"
  by (auto simp: grants_def)

lemma grants_empty [simp]: "\<not> grants allRoles {} p" "\<not> grants [] names p"
  by (simp_all add: grants_def)

section \<open>Teams and channels\<close>

definition team_role_names :: "permission_store \<Rightarrow> string \<Rightarrow> string set" where
  "team_role_names st teamId =
     (if teamId = [] then {} else
      case get (tes_myMembers (pm_teams st)) teamId of None \<Rightarrow> {}
      | Some m \<Rightarrow> if tm_roles m = [] then {} else set (split_on (CHR '' '') (tm_roles m)))"

definition channel_role_names :: "permission_store \<Rightarrow> string \<Rightarrow> string set" where
  "channel_role_names st channelId =
     (if channelId = [] then {} else case get (cs_roles (pm_channels st)) channelId of None \<Rightarrow> {} | Some ns \<Rightarrow> set ns)"

lemma team_has_in:
  assumes "wf_obj (tes_myMembers (pm_teams st))"
  shows "teamId \<noteq> [] \<and> has_in (permissions_by st (getMyTeamRoles st)) teamId p \<longleftrightarrow>
    grants (rls_roles (pm_roles st)) (team_role_names st teamId) p"
  using get_filter_obj [OF assms, of "\<lambda>m. tm_roles m \<noteq> []" teamId]
  by (auto simp: has_in_iff getMyTeamRoles_def get_map_obj team_role_names_def split: option.splits)

lemma channel_has_in:
  "channelId \<noteq> [] \<and> has_in (permissions_by st (cs_roles (pm_channels st))) channelId p \<longleftrightarrow>
    grants (rls_roles (pm_roles st)) (channel_role_names st channelId) p"
  by (auto simp: has_in_iff channel_role_names_def split: option.splits)

text \<open>
  C16. I have a permission in a channel exactly if a loaded role gives it that is mine in the system, in the given team, or
  in the channel; in a team exactly if such a role is mine in the system or in the team.
\<close>

theorem channel_permission_iff:
  assumes "getMySystemRoles st = Some system" and "wf_obj (tes_myMembers (pm_teams st))"
  shows "haveIChannelPermission st teamId channelId p =
      Some (grants (rls_roles (pm_roles st)) (set system \<union> team_role_names st teamId \<union> channel_role_names st channelId) p) \<and>
    haveITeamPermission st teamId p =
      Some (grants (rls_roles (pm_roles st)) (set system \<union> team_role_names st teamId) p)"
proof -
  obtain ps where ps: "getMySystemPermissions st = Some ps"
      "p \<in> set ps \<longleftrightarrow> grants (rls_roles (pm_roles st)) (set system) p"
    using system_permissions [OF assms(1)] by blast
  show ?thesis
    using team_has_in [OF assms(2), of teamId p] channel_has_in [of channelId st p]
    by (auto simp: haveIChannelPermission_def haveITeamPermission_def ps grants_Un)
qed

definition sample_roles :: roles_state where
  "sample_roles = init_roles_state\<lparr>rls_roles :=
     [(''team_user'', \<lparr>ro_id = ''r1'', ro_name = ''team_user'', ro_display_name = [], ro_description = [], ro_create_at = 1,
        ro_update_at = 1, ro_delete_at = 0, ro_permissions = [''view_team''], ro_scheme_managed = True, ro_built_in = True\<rparr>),
      (''custom_group_user'', \<lparr>ro_id = ''r2'', ro_name = ''custom_group_user'', ro_display_name = [], ro_description = [],
        ro_create_at = 1, ro_update_at = 1, ro_delete_at = 0, ro_permissions = [''delete_custom_group''],
        ro_scheme_managed = True, ro_built_in = True\<rparr>)]\<rparr>"

definition sample_permissions :: permission_store where
  "sample_permissions =
     \<lparr>pm_users = init_users_state\<lparr>uss_currentUserId := ''u'',
        uss_profiles := [(''u'', no_profile\<lparr>us_id := ''u'', us_roles := Some ''system_guest''\<rparr>)]\<rparr>,
      pm_teams = init_teams_state, pm_channels = init_channels_state\<lparr>cs_roles := [(''c'', [''team_user''])]\<rparr>,
      pm_groups = sample_groups, pm_roles = sample_roles\<rparr>"

lemma sample_system_roles: "getMySystemRoles sample_permissions = Some [''system_guest'']"
  by (simp add: sample_permissions_def getMySystemRoles_def init_users_state_def no_profile_def remdups_js_def set_add_def)

lemma channel_permission_iff_witness:
  "haveIChannelPermission sample_permissions ''t'' ''c'' ''view_team'' = Some True \<and>
   haveITeamPermission sample_permissions ''t'' ''view_team'' = Some False"
proof -
  have "wf_obj (tes_myMembers (pm_teams sample_permissions))" by (simp add: sample_permissions_def init_teams_state_def)
  from channel_permission_iff [OF sample_system_roles this, of "''t''" "''c''" "''view_team''"] show ?thesis
    by (simp add: sample_permissions_def sample_roles_def team_role_names_def channel_role_names_def grants_def
        init_teams_state_def init_channels_state_def init_roles_state_def)
qed

section \<open>Leaving and logging out\<close>

text \<open>What a logout makes of the parts of the store.\<close>

definition logged_out :: "permission_store \<Rightarrow> permission_store option" where
  "logged_out st =
     (case channels_reducer (pm_channels st) (UserTypes LOGOUT_SUCCESS) of
        None \<Rightarrow> None
      | Some cs \<Rightarrow> Some \<lparr>pm_users = users_reducer (pm_users st) (UserTypes LOGOUT_SUCCESS),
          pm_teams = teams_reducer (pm_teams st) (UserTypes LOGOUT_SUCCESS), pm_channels = cs,
          pm_groups = pm_groups st, pm_roles = roles_reducer (pm_roles st) RoleLogout\<rparr>)"

lemma left_channel_has_nothing:
  assumes "channels_reducer cs (ChannelTypes (LEAVE_CHANNEL (Some d))) = Some cs'"
  shows "get (cs_roles cs') (cl_id d) = None"
  using assms by (auto simp: channels_reducer_def roles_def split: option.splits)

lemma no_system_roles: "getMySystemPermissions st = None \<longleftrightarrow> getMySystemRoles st = None"
  by (simp add: getMySystemPermissions_def)

text \<open>
  C26. A channel I leave gives me no permission any more: in it I have those of the system and of its team. And
  logging out always succeeds and leaves no permission at all, in no channel, team or group.
\<close>

theorem permissions_revoked:
  assumes "channels_reducer (pm_channels st) (ChannelTypes (LEAVE_CHANNEL (Some d))) = Some cs"
  shows "haveIChannelPermission (st\<lparr>pm_channels := cs\<rparr>) teamId (cl_id d) p =
      (if getMySystemRoles st = None then None else
       Some (haveITeamPermission st teamId p = Some True)) \<and>
    (\<exists>out. logged_out st = Some out \<and> haveIChannelPermission out teamId channelId p = Some False \<and>
       haveITeamPermission out teamId p = Some False \<and> haveISystemPermission out p = Some False \<and>
       haveIGroupPermission lower out groupId p \<noteq> Some True)"
proof
  have same: "getMySystemPermissions (st\<lparr>pm_channels := cs\<rparr>) = getMySystemPermissions st"
      "getMyTeamRoles (st\<lparr>pm_channels := cs\<rparr>) = getMyTeamRoles st"
      "permissions_by (st\<lparr>pm_channels := cs\<rparr>) rs = permissions_by st rs" for rs
    by (simp_all add: getMySystemPermissions_def getMySystemRoles_def getMyTeamRoles_def permissions_by_def)
  show "haveIChannelPermission (st\<lparr>pm_channels := cs\<rparr>) teamId (cl_id d) p =
      (if getMySystemRoles st = None then None else Some (haveITeamPermission st teamId p = Some True))"
    using left_channel_has_nothing [OF assms]
    by (cases "getMySystemPermissions st")
      (auto simp: haveIChannelPermission_def haveITeamPermission_def same has_in_def permissions_by_def get_map_obj
        no_system_roles [symmetric])
  obtain cs' where cs': "channels_reducer (pm_channels st) (UserTypes LOGOUT_SUCCESS) = Some cs'"
      "cs_roles cs' = []"
    by (simp add: channels_reducer_def myMembers_def roles_def)
  define out where "out = \<lparr>pm_users = users_reducer (pm_users st) (UserTypes LOGOUT_SUCCESS),
      pm_teams = teams_reducer (pm_teams st) (UserTypes LOGOUT_SUCCESS), pm_channels = cs',
      pm_groups = pm_groups st, pm_roles = roles_reducer (pm_roles st) RoleLogout\<rparr>"
  have "getMySystemRoles out = Some []" "rls_roles (pm_roles out) = []"
    by (simp_all add: out_def getMySystemRoles_def users_reducer_def profiles_def roles_reducer_def roles_slice_def)
  then have "haveIChannelPermission out teamId channelId p = Some False" "haveITeamPermission out teamId p = Some False"
      "haveISystemPermission out p = Some False" "haveIGroupPermission lower out groupId p \<noteq> Some True"
    by (auto simp: haveIChannelPermission_def haveITeamPermission_def haveISystemPermission_def haveIGroupPermission_def
        getMySystemPermissions_def getPermissionsForRoles_def has_in_iff Let_def split: option.splits if_splits)
  then show "\<exists>out. logged_out st = Some out \<and> haveIChannelPermission out teamId channelId p = Some False \<and>
       haveITeamPermission out teamId p = Some False \<and> haveISystemPermission out p = Some False \<and>
       haveIGroupPermission lower out groupId p \<noteq> Some True"
    unfolding logged_out_def cs'(1) by (simp add: out_def)
qed

lemma permissions_revoked_witness:
  "\<exists>d cs. cl_id d = ''c'' \<and> channels_reducer (pm_channels sample_permissions) (ChannelTypes (LEAVE_CHANNEL (Some d))) = Some cs \<and>
     haveIChannelPermission (sample_permissions\<lparr>pm_channels := cs\<rparr>) ''t'' ''c'' ''view_team'' = Some False"
proof -
  define d where "d = \<lparr>cl_id = ''c'', cl_user_id = ''u'', cl_team_id = Some ''t'', cl_type = Some OPEN_CHANNEL\<rparr>"
  obtain cs where cs: "channels_reducer (pm_channels sample_permissions) (ChannelTypes (LEAVE_CHANNEL (Some d))) = Some cs"
    by (simp add: channels_reducer_def myMembers_def sample_permissions_def init_channels_state_def)
  have "get (rls_roles (pm_roles sample_permissions)) ''system_guest'' = None"
      "tes_myMembers (pm_teams sample_permissions) = []"
    by (simp_all add: sample_permissions_def init_teams_state_def sample_roles_def)
  then have "haveITeamPermission sample_permissions ''t'' ''view_team'' = Some False"
    by (simp add: haveITeamPermission_def getMySystemPermissions_def sample_system_roles getPermissionsForRoles_def has_in_iff
        getMyTeamRoles_def)
  with permissions_revoked [OF cs, of "''t''" "''view_team''"] cs show ?thesis
    by (intro exI [of _ d] exI [of _ cs]) (simp add: d_def sample_system_roles)
qed

section \<open>Groups\<close>

lemma group_role_names: "get (getMyGroupRoles st) i =
    (if i \<in> set (grs_myGroups (pm_groups st)) then Some [CUSTOM_GROUP_USER_ROLE] else None)"
proof -
  have "get (foldl (\<lambda>rs g. put g x rs) acc gs) i = (if i \<in> set gs then Some x else get acc i)" for x :: "string list" and acc gs
    by (induction gs arbitrary: acc) auto
  then show ?thesis by (simp add: getMyGroupRoles_def)
qed

lemma group_answer:
  assumes "getMySystemRoles st = Some system" and "get (grs_groups (pm_groups st)) i = Some g"
  shows "haveIGroupPermission lower st i p =
    Some (\<not> isSyncableSource lower (grp_source g) \<and> (grp_delete_at g \<noteq> 0 \<longleftrightarrow> p = RESTORE_CUSTOM_GROUP) \<and>
      grants (rls_roles (pm_roles st))
        (set system \<union> (if grp_id g \<in> set (grs_myGroups (pm_groups st)) then {CUSTOM_GROUP_USER_ROLE} else {})) p)"
proof -
  obtain ps where ps: "getMySystemPermissions st = Some ps"
      "p \<in> set ps \<longleftrightarrow> grants (rls_roles (pm_roles st)) (set system) p"
    using system_permissions [OF assms(1)] by blast
  have "has_in (permissions_by st (getMyGroupRoles st)) (grp_id g) p \<longleftrightarrow> grants (rls_roles (pm_roles st))
      (if grp_id g \<in> set (grs_myGroups (pm_groups st)) then {CUSTOM_GROUP_USER_ROLE} else {}) p"
    by (simp add: has_in_iff group_role_names)
  then show ?thesis
    by (auto simp: haveIGroupPermission_def ps assms(2) grants_Un Let_def)
qed

text \<open>
  A group from outside cannot be changed at all. Any other group can be restored only while it is archived and
  everything else is allowed only while it is not, if one of my roles in the system or, as its member, in the group gives the permission.
\<close>

theorem group_permission_iff:
  assumes "getMySystemRoles st = Some system" and "get (grs_groups (pm_groups st)) i = Some g"
  shows "haveIGroupPermission lower st i p =
    Some (\<not> isSyncableSource lower (grp_source g) \<and> (grp_delete_at g \<noteq> 0 \<longleftrightarrow> p = RESTORE_CUSTOM_GROUP) \<and>
      grants (rls_roles (pm_roles st))
        (set system \<union> (if grp_id g \<in> set (grs_myGroups (pm_groups st)) then {CUSTOM_GROUP_USER_ROLE} else {})) p)"
  by (rule group_answer [OF assms])

lemma group_permission_iff_witness:
  "haveIGroupPermission (\<lambda>s. s) sample_permissions ''g'' DELETE_CUSTOM_GROUP = Some True"
proof -
  have "get (grs_groups (pm_groups sample_permissions)) ''g'' = Some sample_group"
    by (simp add: sample_permissions_def sample_groups_def)
  from group_permission_iff [OF sample_system_roles this, of "\<lambda>s. s" DELETE_CUSTOM_GROUP] show ?thesis
    by (simp add: sample_permissions_def sample_groups_def sample_group_def sample_roles_def grants_def isSyncableSource_def
        starts_with_def DELETE_CUSTOM_GROUP_def RESTORE_CUSTOM_GROUP_def CUSTOM_GROUP_USER_ROLE_def)
qed

text \<open>The list of groups is computed group by group from one set of permissions.\<close>

definition listed_permissions :: "(string \<Rightarrow> string) \<Rightarrow> string set \<Rightarrow> group \<Rightarrow> group_permissions" where
  "listed_permissions lower ps g =
     \<lparr>gp_can_delete = (DELETE_CUSTOM_GROUP \<in> ps \<and> \<not> isSyncableSource lower (grp_source g) \<and> grp_delete_at g = 0),
      gp_can_manage_members = (MANAGE_CUSTOM_GROUP_MEMBERS \<in> ps \<and> \<not> isSyncableSource lower (grp_source g) \<and> grp_delete_at g = 0),
      gp_can_restore = (RESTORE_CUSTOM_GROUP \<in> ps \<and> \<not> isSyncableSource lower (grp_source g) \<and> grp_delete_at g \<noteq> 0)\<rparr>"

lemma pooled_permissions:
  assumes "getMySystemRoles st = Some system"
  shows "\<exists>ps. getGroupListPermissions lower st =
      Some (foldl (\<lambda>byId g. put (grp_id g) (listed_permissions lower ps g) byId) []
        (filter grp_allow_reference (obj_values (grs_groups (pm_groups st))))) \<and>
    ps = {p. grants (rls_roles (pm_roles st)) (set system \<union>
      (if \<exists>g \<in> set (obj_values (grs_groups (pm_groups st))). grp_allow_reference g \<and> grp_id g \<in> set (grs_myGroups (pm_groups st))
       then {CUSTOM_GROUP_USER_ROLE} else {})) p}"
proof -
  let ?rs = "rls_roles (pm_roles st)" and ?mine = "set (grs_myGroups (pm_groups st))"
  let ?gs = "filter grp_allow_reference (obj_values (grs_groups (pm_groups st)))"
  let ?of = "\<lambda>acc. foldl (\<lambda>ps g. case get (getMyGroupRoles st) (grp_id g) of None \<Rightarrow> ps
      | Some ns \<Rightarrow> foldl (\<lambda>acc p. set_add p acc) ps (getPermissionsForRoles ?rs ns)) acc"
  have pool: "set (?of acc gs) = set acc \<union>
      {p. (\<exists>g \<in> set gs. grp_id g \<in> ?mine) \<and> grants ?rs {CUSTOM_GROUP_USER_ROLE} p}" for acc gs
  proof (induction gs arbitrary: acc)
    case (Cons g gs)
    have "set (foldl (\<lambda>acc p. set_add p acc) acc (getPermissionsForRoles ?rs ns)) = set acc \<union> {p. grants ?rs (set ns) p}" for ns
      using set_foldl_set_add [of "\<lambda>p. p" acc] set_permissions_for_roles by force
    with Cons show ?case by (auto simp: group_role_names)
  qed simp
  define sys where "sys = getPermissionsForRoles ?rs system"
  have sys: "getMySystemPermissions st = Some sys" "set sys = {p. grants ?rs (set system) p}"
    using assms by (auto simp: getMySystemPermissions_def set_permissions_for_roles sys_def)
  define ps where "ps = set (foldl (\<lambda>acc p. set_add p acc) (?of [] ?gs) sys)"
  have "ps = set (?of [] ?gs) \<union> set sys"
    using set_foldl_set_add [of "\<lambda>p. p" "?of [] ?gs" sys] by (simp add: ps_def)
  then have "ps = {p. grants ?rs (set system \<union>
      (if \<exists>g \<in> set (obj_values (grs_groups (pm_groups st))). grp_allow_reference g \<and> grp_id g \<in> ?mine
       then {CUSTOM_GROUP_USER_ROLE} else {})) p}"
    unfolding pool sys(2) by (auto simp: grants_Un)
  moreover have "getGroupListPermissions lower st =
      Some (foldl (\<lambda>byId g. put (grp_id g) (listed_permissions lower ps g) byId) [] ?gs)"
    by (simp add: getGroupListPermissions_def sys(1) Let_def ps_def listed_permissions_def)
  ultimately show ?thesis by blast
qed

lemma entry_of_group:
  fixes f :: "group \<Rightarrow> 'a"
  assumes ok: "groups_ok gst" and g: "get (grs_groups gst) i = Some g" and ref: "grp_allow_reference g"
  shows "get (foldl (\<lambda>byId g. put (grp_id g) (f g) byId) [] (filter grp_allow_reference (obj_values (grs_groups gst)))) i =
    Some (f g)"
proof -
  have only: "h = g" if h: "h \<in> set (obj_values (grs_groups gst))" "grp_id h = i" for h
  proof -
    obtain k where "get (grs_groups gst) k = Some h"
      using ok h(1) values_in_get [of "grs_groups gst" h] by (auto simp: groups_ok_def)
    moreover from this have "k = i" using ok h(2) by (auto simp: groups_ok_def)
    ultimately show ?thesis using g by simp
  qed
  have entry: "get (foldl (\<lambda>byId g. put (grp_id g) (f g) byId) acc hs) i =
      (if i \<in> grp_id ` set hs then Some (f g) else get acc i)"
    if "\<forall>h \<in> set hs. grp_id h = i \<longrightarrow> h = g" for hs and acc
    using that by (induction hs arbitrary: acc) auto
  have "\<forall>h \<in> set (filter grp_allow_reference (obj_values (grs_groups gst))). grp_id h = i \<longrightarrow> h = g"
    using only by auto
  moreover have "i \<in> grp_id ` set (filter grp_allow_reference (obj_values (grs_groups gst)))"
  proof -
    have "grp_id g = i" using ok g by (simp add: groups_ok_def)
    then show ?thesis using get_in_values [OF g] ref by force
  qed
  ultimately show ?thesis by (simp add: entry)
qed

text \<open>
  In every state the groups can reach, the list of groups has an entry for each group that may be mentioned, and what
  may be done to a group when it is asked for alone is offered in the list as well.
\<close>

theorem list_offers_what_is_allowed:
  assumes "reachable groups_reducer groups_admissible init_groups_state (pm_groups st)"
    and "getMySystemRoles st = Some system"
    and "get (grs_groups (pm_groups st)) i = Some g" and "grp_allow_reference g"
  shows "\<exists>byId e. getGroupListPermissions lower st = Some byId \<and> get byId i = Some e \<and>
    (haveIGroupPermission lower st i DELETE_CUSTOM_GROUP = Some True \<longrightarrow> gp_can_delete e) \<and>
    (haveIGroupPermission lower st i MANAGE_CUSTOM_GROUP_MEMBERS = Some True \<longrightarrow> gp_can_manage_members e) \<and>
    (haveIGroupPermission lower st i RESTORE_CUSTOM_GROUP = Some True \<longrightarrow> gp_can_restore e)"
proof -
  have ok: "groups_ok (pm_groups st)" by (rule group_store.reachable_inv [OF assms(1)])
  obtain ps where ps: "getGroupListPermissions lower st =
      Some (foldl (\<lambda>byId g. put (grp_id g) (listed_permissions lower ps g) byId) []
        (filter grp_allow_reference (obj_values (grs_groups (pm_groups st)))))"
    "ps = {p. grants (rls_roles (pm_roles st)) (set system \<union>
      (if \<exists>g \<in> set (obj_values (grs_groups (pm_groups st))). grp_allow_reference g \<and> grp_id g \<in> set (grs_myGroups (pm_groups st))
       then {CUSTOM_GROUP_USER_ROLE} else {})) p}"
    using pooled_permissions [OF assms(2)] by blast
  have listed: "g \<in> set (obj_values (grs_groups (pm_groups st)))" using get_in_values [OF assms(3)] .
  note listed_entry = entry_of_group [OF ok assms(3,4), of "listed_permissions lower ps"]
  have allowed: "p \<in> ps \<and> \<not> isSyncableSource lower (grp_source g) \<and> (grp_delete_at g \<noteq> 0 \<longleftrightarrow> p = RESTORE_CUSTOM_GROUP)"
    if "haveIGroupPermission lower st i p = Some True" for p
  proof -
    let ?R = "rls_roles (pm_roles st)" and ?mine = "set (grs_myGroups (pm_groups st))"
    have "\<not> isSyncableSource lower (grp_source g) \<and> (grp_delete_at g \<noteq> 0 \<longleftrightarrow> p = RESTORE_CUSTOM_GROUP) \<and>
        grants ?R (set system \<union> (if grp_id g \<in> ?mine then {CUSTOM_GROUP_USER_ROLE} else {})) p"
      using that unfolding group_answer [OF assms(2,3)] option.inject by simp
    moreover have "set system \<union> (if grp_id g \<in> ?mine then {CUSTOM_GROUP_USER_ROLE} else {}) \<subseteq>
        set system \<union> (if \<exists>g \<in> set (obj_values (grs_groups (pm_groups st))). grp_allow_reference g \<and> grp_id g \<in> ?mine
          then {CUSTOM_GROUP_USER_ROLE} else {})"
      using listed assms(4) by auto
    ultimately show ?thesis unfolding ps(2) mem_Collect_eq by (blast intro: grants_mono)
  qed
  have distinct: "DELETE_CUSTOM_GROUP \<noteq> RESTORE_CUSTOM_GROUP" "MANAGE_CUSTOM_GROUP_MEMBERS \<noteq> RESTORE_CUSTOM_GROUP"
    by (simp_all add: DELETE_CUSTOM_GROUP_def MANAGE_CUSTOM_GROUP_MEMBERS_def RESTORE_CUSTOM_GROUP_def)
  have "gp_can_delete (listed_permissions lower ps g)" if "haveIGroupPermission lower st i DELETE_CUSTOM_GROUP = Some True"
    using allowed [OF that] distinct by (simp add: listed_permissions_def)
  moreover have "gp_can_manage_members (listed_permissions lower ps g)"
    if "haveIGroupPermission lower st i MANAGE_CUSTOM_GROUP_MEMBERS = Some True"
    using allowed [OF that] distinct by (simp add: listed_permissions_def)
  moreover have "gp_can_restore (listed_permissions lower ps g)"
    if "haveIGroupPermission lower st i RESTORE_CUSTOM_GROUP = Some True"
    using allowed [OF that] by (simp add: listed_permissions_def)
  ultimately show ?thesis using listed_entry ps(1) by blast
qed

lemma list_offers_what_is_allowed_witness:
  "\<exists>byId e. getGroupListPermissions (\<lambda>s. s) sample_permissions = Some byId \<and> get byId ''g'' = Some e \<and> gp_can_delete e"
proof -
  have "groups_reducer init_groups_state (RECEIVED_MY_GROUPS [sample_group]) = Some sample_groups"
    by (simp add: groups_reducer_def syncables_def groups_slice_def group_stats_slice_def myGroups_def put_groups_def
        sample_groups_def init_groups_state_def) (simp add: sample_group_def)
  then have "reachable groups_reducer groups_admissible init_groups_state (pm_groups sample_permissions)"
    by (intro reachable_one [of _ _ "RECEIVED_MY_GROUPS [sample_group]"])
      (simp_all add: groups_admissible_def sample_permissions_def)
  moreover have g: "get (grs_groups (pm_groups sample_permissions)) ''g'' = Some sample_group"
    by (simp add: sample_permissions_def sample_groups_def)
  moreover have "grp_allow_reference sample_group" by (simp add: sample_group_def)
  moreover have "haveIGroupPermission (\<lambda>s. s) sample_permissions ''g'' DELETE_CUSTOM_GROUP = Some True"
    unfolding group_answer [OF sample_system_roles g]
    by (simp add: sample_permissions_def sample_groups_def sample_group_def sample_roles_def grants_def isSyncableSource_def
        starts_with_def DELETE_CUSTOM_GROUP_def RESTORE_CUSTOM_GROUP_def CUSTOM_GROUP_USER_ROLE_def)
  ultimately show ?thesis
    using list_offers_what_is_allowed [OF _ sample_system_roles, of "''g''" sample_group "\<lambda>s. s"] by blast
qed

text \<open>
  The list offers more: the permissions of all groups are pooled, so that being in one group is enough to be offered
  to delete every other one, which the question for the single group denies.
\<close>

lemma list_offers_too_much:
  defines "other \<equiv> sample_group\<lparr>grp_id := ''h'', grp_name := ''ops''\<rparr>"
  defines "st \<equiv> sample_permissions\<lparr>pm_groups := sample_groups\<lparr>grs_groups := [(''g'', sample_group), (''h'', other)]\<rparr>\<rparr>"
  shows "haveIGroupPermission (\<lambda>s. s) st ''h'' DELETE_CUSTOM_GROUP = Some False \<and>
    (\<exists>byId e. getGroupListPermissions (\<lambda>s. s) st = Some byId \<and> get byId ''h'' = Some e \<and> gp_can_delete e)"
proof
  have mine: "grs_myGroups (pm_groups st) = [''g'']"
      "grs_groups (pm_groups st) = [(''g'', sample_group), (''h'', other)]"
    by (simp_all add: st_def sample_groups_def)
  have system: "getMySystemRoles st = Some [''system_guest'']"
    using sample_system_roles by (simp add: st_def getMySystemRoles_def)
  have loaded: "rls_roles (pm_roles st) = rls_roles sample_roles" by (simp add: st_def sample_permissions_def)
  have h: "get (grs_groups (pm_groups st)) ''h'' = Some other" by (simp add: mine)
  show "haveIGroupPermission (\<lambda>s. s) st ''h'' DELETE_CUSTOM_GROUP = Some False"
    unfolding group_answer [OF system h] loaded mine
    by (simp add: other_def sample_group_def sample_roles_def grants_def)
  show "\<exists>byId e. getGroupListPermissions (\<lambda>s. s) st = Some byId \<and> get byId ''h'' = Some e \<and> gp_can_delete e"
    using pooled_permissions [OF system, of "\<lambda>s. s"] unfolding loaded mine
    by (auto simp: obj_values_def other_def sample_group_def sample_roles_def grants_def listed_permissions_def
        isSyncableSource_def starts_with_def DELETE_CUSTOM_GROUP_def CUSTOM_GROUP_USER_ROLE_def)
qed

end
