(* ===== verification/Preferences.thy ===== *)
theory Preferences
  imports ChannelUtils NumberStrings
begin

text \<open>
  \<open>reducers/entities/preferences.ts\<close>, \<open>utils/preference_utils.ts\<close> and the selectors of
  \<open>selectors/entities/preferences.ts\<close> that read preferences or the configuration. Themes, which are JSON texts, are left out.
\<close>

section \<open>Data\<close>

record preference =
  pf_category :: string
  pf_name :: string
  pf_user_id :: string
  pf_value :: string

type_synonym preferences = "preference obj"

record preferences_state =
  prs_myPreferences :: preferences
  prs_userPreferences :: "preferences obj"

definition init_preferences_state :: preferences_state where
  "init_preferences_state = \<lparr>prs_myPreferences = [], prs_userPreferences = []\<rparr>"

text \<open>The data may be missing where the code tests it.\<close>

datatype preference_action =
    RECEIVED_ALL_PREFERENCES "preference list option"
  | RECEIVED_PREFERENCES "preference list option"
  | DELETED_PREFERENCES "preference list option"
  | RECEIVED_USER_ALL_PREFERENCES "preference list"
  | RECEIVED_USER_PREFERENCES "preference list option"
  | PreferenceLogin "preference list option"
  | PreferenceLogout
  | PreferenceOther string

section \<open>Reducer\<close>

definition getPreferenceKey :: "string \<Rightarrow> string \<Rightarrow> string" where
  "getPreferenceKey category name = category @ ''--'' @ name"

definition preference_key :: "preference \<Rightarrow> string" where
  "preference_key p = getPreferenceKey (pf_category p) (pf_name p)"

definition put_preferences :: "preferences \<Rightarrow> preference list \<Rightarrow> preferences" where
  "put_preferences st ps = foldl (\<lambda>next p. put (preference_key p) p next) st ps"

definition setAllPreferences :: "preference list option \<Rightarrow> preferences" where
  "setAllPreferences ps = (case ps of None \<Rightarrow> [] | Some ps \<Rightarrow> put_preferences [] ps)"

definition setAllUserPreferences :: "preference list \<Rightarrow> preferences obj" where
  "setAllUserPreferences ps =
     (case ps of [] \<Rightarrow> [] | p # _ \<Rightarrow> [(pf_user_id p, put_preferences [] ps)])"

definition myPreferences :: "preferences \<Rightarrow> preference_action \<Rightarrow> preferences nxt" where
  "myPreferences st a =
     (case a of
        RECEIVED_ALL_PREFERENCES ps \<Rightarrow> New (setAllPreferences ps)
      | PreferenceLogin ps \<Rightarrow> New (setAllPreferences ps)
      | RECEIVED_PREFERENCES ps \<Rightarrow> New (case ps of None \<Rightarrow> st | Some ps \<Rightarrow> put_preferences st ps)
      | DELETED_PREFERENCES ps \<Rightarrow>
          New (case ps of None \<Rightarrow> st | Some ps \<Rightarrow> foldl (\<lambda>next p. del (preference_key p) next) st ps)
      | PreferenceLogout \<Rightarrow> New []
      | _ \<Rightarrow> Same)"

text \<open>
  The preferences of the first user are copied, those of any other user are written into the object the
  previous state holds too, or throw if there is none. The second component is the previous state afterwards.
\<close>

fun user_preferences_loop ::
  "string \<Rightarrow> preferences obj \<Rightarrow> preferences obj \<Rightarrow> preference list \<Rightarrow> (preferences obj \<times> preferences obj) option" where
  "user_preferences_loop first nextState previous [] = Some (nextState, previous)"
| "user_preferences_loop first nextState previous (p # ps) =
     (case get nextState (pf_user_id p) of
        None \<Rightarrow> None
      | Some theirs \<Rightarrow>
          (let theirs' = put (preference_key p) p theirs
           in user_preferences_loop first (put (pf_user_id p) theirs' nextState)
                (if pf_user_id p = first then previous else put (pf_user_id p) theirs' previous) ps))"

definition receive_user_preferences ::
  "preferences obj \<Rightarrow> preference list option \<Rightarrow> (preferences obj \<times> preferences obj) option" where
  "receive_user_preferences st ps =
     (case ps of
        Some (p # ps') \<Rightarrow>
          user_preferences_loop (pf_user_id p) (put (pf_user_id p) (get_or [] st (pf_user_id p)) st) st (p # ps')
      | _ \<Rightarrow> Some (st, st))"

definition userPreferences :: "preferences obj \<Rightarrow> preference_action \<Rightarrow> preferences obj nxt option" where
  "userPreferences st a =
     (case a of
        RECEIVED_USER_ALL_PREFERENCES ps \<Rightarrow> Some (New (setAllUserPreferences ps))
      | RECEIVED_USER_PREFERENCES ps \<Rightarrow> map_option (\<lambda>(next, _). New next) (receive_user_preferences st ps)
      | PreferenceLogout \<Rightarrow> Some (New [])
      | _ \<Rightarrow> Some Same)"

definition preferences_reducer :: "preferences_state \<Rightarrow> preference_action \<Rightarrow> preferences_state option" where
  "preferences_reducer st a =
     (case userPreferences (prs_userPreferences st) a of
        None \<Rightarrow> None
      | Some n \<Rightarrow> Some \<lparr>prs_myPreferences = upd (prs_myPreferences st) (myPreferences (prs_myPreferences st) a),
          prs_userPreferences = upd (prs_userPreferences st) n\<rparr>)"

section \<open>Reading preferences\<close>

definition getFromPreferences :: "preferences \<Rightarrow> string \<Rightarrow> string \<Rightarrow> string \<Rightarrow> string" where
  "getFromPreferences prefs category name defaultValue =
     (case get prefs (getPreferenceKey category name) of None \<Rightarrow> defaultValue | Some p \<Rightarrow> pf_value p)"

text \<open>\<open>get\<close>, with the preferences of another user if they are given.\<close>

definition get_preference :: "preferences_state \<Rightarrow> string \<Rightarrow> string \<Rightarrow> string \<Rightarrow> preferences option \<Rightarrow> string" where
  "get_preference st category name defaultValue prefs =
     (case prefs of
        Some ps \<Rightarrow> getFromPreferences ps category name defaultValue
      | None \<Rightarrow> getFromPreferences (prs_myPreferences st) category name defaultValue)"

definition show_bool :: "bool \<Rightarrow> string" where
  "show_bool b = (if b then ''true'' else ''false'')"

definition getBool :: "preferences_state \<Rightarrow> string \<Rightarrow> string \<Rightarrow> bool \<Rightarrow> preferences option \<Rightarrow> bool" where
  "getBool st category name defaultValue prefs \<longleftrightarrow>
     get_preference st category name (show_bool defaultValue) prefs \<noteq> ''false''"

definition getInt :: "preferences_state \<Rightarrow> string \<Rightarrow> string \<Rightarrow> int \<Rightarrow> preferences option \<Rightarrow> jsnum" where
  "getInt st category name defaultValue prefs =
     parseInt10 (get_preference st category name (show_int defaultValue) prefs)"

text \<open>\<open>makeGetCategory\<close> and, with the preferences of a user, \<open>makeGetUserCategory\<close>.\<close>

definition makeGetCategory :: "string \<Rightarrow> preferences \<Rightarrow> preference list" where
  "makeGetCategory category prefs = map snd (filter (\<lambda>(k, p). starts_with (category @ ''--'') k) prefs)"

definition getPreferencesByCategory :: "preferences \<Rightarrow> string \<Rightarrow> preferences" where
  "getPreferencesByCategory prefs category =
     foldl (\<lambda>byName (k, p). if starts_with (category @ ''--'') k then put (drop (length category + 2) k) p byName else byName)
       [] prefs"

section \<open>Settings\<close>

text \<open>The configuration is an object of strings.\<close>

type_synonym client_config = "string obj"

definition SHOW_FULLNAME :: string where "SHOW_FULLNAME = ''full_name''"

definition getTeammateNameDisplaySetting :: "client_config \<Rightarrow> string" where
  "getTeammateNameDisplaySetting config =
     (if has_text (get config ''TeammateNameDisplay'') then or_empty (get config ''TeammateNameDisplay'') else SHOW_FULLNAME)"

definition CATEGORY_ADVANCED_SETTINGS :: string where "CATEGORY_ADVANCED_SETTINGS = ''advanced_settings''"
definition CATEGORY_SIDEBAR_SETTINGS :: string where "CATEGORY_SIDEBAR_SETTINGS = ''sidebar_settings''"
definition CATEGORY_DISPLAY_SETTINGS :: string where "CATEGORY_DISPLAY_SETTINGS = ''display_settings''"
definition CATEGORY_DIRECT_CHANNEL_SHOW :: string where "CATEGORY_DIRECT_CHANNEL_SHOW = ''direct_channel_show''"
definition CATEGORY_GROUP_CHANNEL_SHOW :: string where "CATEGORY_GROUP_CHANNEL_SHOW = ''group_channel_show''"
definition CATEGORY_CHANNEL_OPEN_TIME :: string where "CATEGORY_CHANNEL_OPEN_TIME = ''channel_open_time''"
definition CATEGORY_CHANNEL_APPROXIMATE_VIEW_TIME :: string where
  "CATEGORY_CHANNEL_APPROXIMATE_VIEW_TIME = ''channel_approximate_view_time''"
definition CATEGORY_FLAGGED_POST :: string where "CATEGORY_FLAGGED_POST = ''flagged_post''"
definition COLLAPSED_REPLY_THREADS :: string where "COLLAPSED_REPLY_THREADS = ''collapsed_reply_threads''"
definition COLLAPSED_REPLY_THREADS_OFF :: string where "COLLAPSED_REPLY_THREADS_OFF = ''off''"
definition COLLAPSED_REPLY_THREADS_ON :: string where "COLLAPSED_REPLY_THREADS_ON = ''on''"
definition LIMIT_VISIBLE_DMS_GMS :: string where "LIMIT_VISIBLE_DMS_GMS = ''limit_visible_dms_gms''"

definition shouldShowJoinLeaveMessages :: "client_config \<Rightarrow> preferences_state \<Rightarrow> bool" where
  "shouldShowJoinLeaveMessages config st =
     getBool st CATEGORY_ADVANCED_SETTINGS ''join_leave'' (get config ''EnableJoinLeaveMessageByDefault'' = Some ''true'') None"

definition getUnreadScrollPositionPreference :: "preferences_state \<Rightarrow> preferences option \<Rightarrow> string" where
  "getUnreadScrollPositionPreference st prefs =
     get_preference st CATEGORY_ADVANCED_SETTINGS ''unread_scroll_position'' ''start_from_left_off'' prefs"

text \<open>The four values of the configuration.\<close>

definition ALWAYS_ON :: string where "ALWAYS_ON = ''always_on''"
definition DEFAULT_ON :: string where "DEFAULT_ON = ''default_on''"
definition DISABLED :: string where "DISABLED = ''disabled''"

definition collapsed_default :: "client_config \<Rightarrow> string" where
  "collapsed_default config =
     (if get config ''CollapsedThreads'' = Some DEFAULT_ON \<or> get config ''CollapsedThreads'' = Some ALWAYS_ON
      then COLLAPSED_REPLY_THREADS_ON else COLLAPSED_REPLY_THREADS_OFF)"

definition getCollapsedThreadsPreference :: "client_config \<Rightarrow> preferences_state \<Rightarrow> string" where
  "getCollapsedThreadsPreference config st =
     get_preference st CATEGORY_DISPLAY_SETTINGS COLLAPSED_REPLY_THREADS (collapsed_default config) None"

definition getCollapsedThreadsPreferenceFromPreferences :: "client_config \<Rightarrow> preferences \<Rightarrow> string" where
  "getCollapsedThreadsPreferenceFromPreferences config prefs =
     getFromPreferences prefs CATEGORY_DISPLAY_SETTINGS COLLAPSED_REPLY_THREADS (collapsed_default config)"

definition isCollapsedThreadsAllowed :: "client_config \<Rightarrow> bool" where
  "isCollapsedThreadsAllowed config \<longleftrightarrow>
     get config ''CollapsedThreads'' \<noteq> None \<and> get config ''CollapsedThreads'' \<noteq> Some DISABLED"

definition isCollapsedThreadsEnabled :: "client_config \<Rightarrow> preferences_state \<Rightarrow> bool" where
  "isCollapsedThreadsEnabled config st \<longleftrightarrow>
     isCollapsedThreadsAllowed config \<and>
     (getCollapsedThreadsPreference config st = COLLAPSED_REPLY_THREADS_ON \<or> get config ''CollapsedThreads'' = Some ALWAYS_ON)"

definition isCollapsedThreadsEnabledForUser :: "client_config \<Rightarrow> preferences \<Rightarrow> bool" where
  "isCollapsedThreadsEnabledForUser config prefs \<longleftrightarrow>
     isCollapsedThreadsAllowed config \<and>
     (getCollapsedThreadsPreferenceFromPreferences config prefs = COLLAPSED_REPLY_THREADS_ON \<or>
      get config ''CollapsedThreads'' = Some ALWAYS_ON)"

definition isGroupChannelManuallyVisible :: "preferences_state \<Rightarrow> string \<Rightarrow> bool" where
  "isGroupChannelManuallyVisible st channelId = getBool st CATEGORY_GROUP_CHANNEL_SHOW channelId False None"

definition isCustomGroupsEnabled :: "client_config \<Rightarrow> bool" where
  "isCustomGroupsEnabled config \<longleftrightarrow> get config ''EnableCustomGroups'' = Some ''true''"

definition getIsOnboardingFlowEnabled :: "client_config \<Rightarrow> bool" where
  "getIsOnboardingFlowEnabled config \<longleftrightarrow> get config ''EnableOnboardingFlow'' = Some ''true''"

definition syncedDraftsAreAllowed :: "client_config \<Rightarrow> bool" where
  "syncedDraftsAreAllowed config \<longleftrightarrow> get config ''AllowSyncedDrafts'' = Some ''true''"

definition syncedDraftsAreAllowedAndEnabled :: "client_config \<Rightarrow> preferences_state \<Rightarrow> bool" where
  "syncedDraftsAreAllowedAndEnabled config st \<longleftrightarrow>
     get config ''AllowSyncedDrafts'' = Some ''true'' \<and> getBool st CATEGORY_ADVANCED_SETTINGS ''sync_drafts'' True None"

definition getVisibleDmGmLimit :: "preferences_state \<Rightarrow> preferences option \<Rightarrow> jsnum" where
  "getVisibleDmGmLimit st prefs = getInt st CATEGORY_SIDEBAR_SETTINGS LIMIT_VISIBLE_DMS_GMS 40 prefs"

end
