(* ===== verification/Sidebar.thy ===== *)
theory Sidebar
  imports Preferences Categories
begin

text \<open>
  \<open>selectors/entities/channel_categories.ts\<close>: which channels of a category the sidebar shows, and in which order.
  Memoisation is left out: a selector is the function it computes. \<open>lc\<close> is \<open>localeCompare\<close> with the option for
  numerals, for a locale. The lists come from the store, so that two channels are the same object exactly if
  they are equal.
\<close>

record sidebar_store =
  sb_channels :: channels_state
  sb_users :: users_state
  sb_preferences :: preferences_state
  sb_config :: client_config
  sb_byId :: category_map
  sb_orderByTeam :: "string list obj"

abbreviation sb_current :: "sidebar_store \<Rightarrow> string" where
  "sb_current st \<equiv> cs_currentChannelId (sb_channels st)"

abbreviation sb_me :: "sidebar_store \<Rightarrow> string" where
  "sb_me st \<equiv> uss_currentUserId (sb_users st)"

abbreviation sb_prefs :: "sidebar_store \<Rightarrow> preferences" where
  "sb_prefs st \<equiv> prs_myPreferences (sb_preferences st)"

section \<open>Categories\<close>

definition getCategoryWhere :: "sidebar_store \<Rightarrow> (channel_category \<Rightarrow> bool) \<Rightarrow> channel_category option" where
  "getCategoryWhere st condition = find condition (obj_values (sb_byId st))"

definition getCategoryInTeamByType :: "sidebar_store \<Rightarrow> string \<Rightarrow> string \<Rightarrow> channel_category option" where
  "getCategoryInTeamByType st teamId categoryType =
     getCategoryWhere st (\<lambda>c. cat_type c = categoryType \<and> cat_team_id c = teamId)"

definition getCategoryInTeamWithChannel :: "sidebar_store \<Rightarrow> string \<Rightarrow> string \<Rightarrow> channel_category option" where
  "getCategoryInTeamWithChannel st teamId channelId =
     getCategoryWhere st (\<lambda>c. cat_team_id c = teamId \<and> channelId \<in> set (cat_channel_ids c))"

definition makeGetCategoriesForTeam :: "sidebar_store \<Rightarrow> string \<Rightarrow> channel_category option list" where
  "makeGetCategoriesForTeam st teamId =
     (case get (sb_orderByTeam st) teamId of None \<Rightarrow> [] | Some ids \<Rightarrow> map (get (sb_byId st)) ids)"

definition makeGetChannelsForIds :: "channels_state \<Rightarrow> string list \<Rightarrow> channel option list" where
  "makeGetChannelsForIds st ids = map (get (cs_channels st)) ids"

section \<open>Filters\<close>

definition sidebar_crt :: "sidebar_store \<Rightarrow> bool" where
  "sidebar_crt st = isCollapsedThreadsEnabled (sb_config st) (sb_preferences st)"

definition isUnreadChannel :: "sidebar_store \<Rightarrow> string \<Rightarrow> bool" where
  "isUnreadChannel st channelId = un_showUnread (channel_unread (sb_channels st) channelId (sidebar_crt st))"

text \<open>Channels that are not loaded are dropped here.\<close>

definition makeFilterArchivedChannels :: "sidebar_store \<Rightarrow> channel option list \<Rightarrow> channel list" where
  "makeFilterArchivedChannels st cs =
     filter (\<lambda>c. ch_id c = sb_current st \<or> ch_delete_at c = 0) (List.map_filter (\<lambda>c. c) cs)"

definition getTimestampFromPrefs :: "preferences \<Rightarrow> string \<Rightarrow> string \<Rightarrow> jsnum" where
  "getTimestampFromPrefs prefs category name =
     parseInt10 (case get prefs (getPreferenceKey category name) of None \<Rightarrow> ''0'' | Some p \<Rightarrow> pf_value p)"

definition getLastViewedAt :: "sidebar_store \<Rightarrow> channel \<Rightarrow> jsnum" where
  "getLastViewedAt st c =
     js_max (js_max (case get (cs_myMembers (sb_channels st)) (ch_id c) of None \<Rightarrow> Undefined | Some m \<Rightarrow> cm_last_viewed_at m)
                    (getTimestampFromPrefs (sb_prefs st) CATEGORY_CHANNEL_APPROXIMATE_VIEW_TIME (ch_id c)))
            (getTimestampFromPrefs (sb_prefs st) CATEGORY_CHANNEL_OPEN_TIME (ch_id c))"

text \<open>A channel with a user who was deactivated after it was last looked at is closed.\<close>

definition teammate_gone :: "sidebar_store \<Rightarrow> channel \<Rightarrow> bool" where
  "teammate_gone st c \<longleftrightarrow>
     (case get (uss_profiles (sb_users st)) (key_of (getUserIdFromChannelName (sb_me st) (ch_name c))) of
        None \<Rightarrow> True
      | Some teammate \<Rightarrow>
          js_less (getLastViewedAt st c) (case us_delete_at teammate of None \<Rightarrow> Undefined | Some t \<Rightarrow> Num t))"

definition stays_open :: "sidebar_store \<Rightarrow> channel \<Rightarrow> bool" where
  "stays_open st c \<longleftrightarrow>
     isUnreadChannel st (ch_id c) \<or> ch_id c = sb_current st \<or> \<not> (ch_type c = DM_CHANNEL \<and> teammate_gone st c)"

definition compare_visible :: "sidebar_store \<Rightarrow> channel \<Rightarrow> channel \<Rightarrow> int" where
  "compare_visible st a b =
     (if ch_id a = sb_current st then - 1
      else if ch_id b = sb_current st then 1
      else if isUnreadChannel st (ch_id a) \<and> \<not> isUnreadChannel st (ch_id b) then - 1
      else if \<not> isUnreadChannel st (ch_id a) \<and> isUnreadChannel st (ch_id b) then 1
      else
        (let aViewed = or_zero (getLastViewedAt st a); bViewed = or_zero (getLastViewedAt st b)
         in if js_less bViewed aViewed then - 1 else if js_less aViewed bViewed then 1 else 0))"

text \<open>\<open>slice(0, n)\<close> for the maximum of two numbers, which is \<open>NaN\<close> if one of them is.\<close>

definition slice_to :: "jsnum \<Rightarrow> 'a list \<Rightarrow> 'a list" where
  "slice_to n xs = (case n of Num k \<Rightarrow> take (nat k) xs | _ \<Rightarrow> [])"

definition DIRECT_MESSAGES :: string where "DIRECT_MESSAGES = ''direct_messages''"

definition makeFilterAutoclosedDMs :: "sidebar_store \<Rightarrow> channel list \<Rightarrow> string \<Rightarrow> channel list" where
  "makeFilterAutoclosedDMs st cs categoryType =
     (if categoryType \<noteq> DIRECT_MESSAGES then cs
      else
        (let unreadCount = length (filter (\<lambda>c. isUnreadChannel st (ch_id c)) cs);
             visibleChannels = js_sort (compare_visible st) (filter (stays_open st) cs);
             remaining = js_max (getVisibleDmGmLimit (sb_preferences st) None) (Num (int unreadCount));
             visibleChannelsSet = slice_to remaining visibleChannels
         in filter (\<lambda>c. c \<in> set visibleChannelsSet) cs))"

definition shown_by_preference :: "sidebar_store \<Rightarrow> channel \<Rightarrow> bool" where
  "shown_by_preference st c \<longleftrightarrow>
     (let preference = (if ch_type c = DM_CHANNEL
            then get (sb_prefs st) (getPreferenceKey CATEGORY_DIRECT_CHANNEL_SHOW (key_of (getUserIdFromChannelName (sb_me st) (ch_name c))))
            else get (sb_prefs st) (getPreferenceKey CATEGORY_GROUP_CHANNEL_SHOW (ch_id c)))
      in case preference of None \<Rightarrow> False | Some p \<Rightarrow> pf_value p \<noteq> ''false'')"

definition makeFilterManuallyClosedDMs :: "sidebar_store \<Rightarrow> channel list \<Rightarrow> channel list" where
  "makeFilterManuallyClosedDMs st cs =
     filter (\<lambda>c.
       if ch_type c \<noteq> DM_CHANNEL \<and> ch_type c \<noteq> GM_CHANNEL then True
       else if isUnreadChannel st (ch_id c) then True
       else if sb_current st = ch_id c then True
       else shown_by_preference st c) cs"

section \<open>Order\<close>

definition sidebar_locale :: "sidebar_store \<Rightarrow> string" where
  "sidebar_locale st = getUserLocale (sb_me st) (uss_profiles (sb_users st))"

definition makeCompareChannels ::
  "(string \<Rightarrow> string \<Rightarrow> int) \<Rightarrow> (channel \<Rightarrow> string) \<Rightarrow> channel_membership obj \<Rightarrow> channel \<Rightarrow> channel \<Rightarrow> int" where
  "makeCompareChannels lc getDisplayName members a b =
     (let aMuted = isChannelMuted (get members (ch_id a)); bMuted = isChannelMuted (get members (ch_id b))
      in if aMuted \<and> \<not> bMuted then 1 else if \<not> aMuted \<and> bMuted then - 1
         else lc (getDisplayName a) (getDisplayName b))"

definition makeSortChannelsByName :: "(string \<Rightarrow> string \<Rightarrow> string \<Rightarrow> int) \<Rightarrow> sidebar_store \<Rightarrow> channel list \<Rightarrow> channel list" where
  "makeSortChannelsByName lc st cs =
     js_sort (makeCompareChannels (lc (sidebar_locale st)) ch_display_name (cs_myMembers (sb_channels st))) cs"

text \<open>
  Users are named without the word for a missing one. The names of a group are those of its users that are known, without mine.
\<close>

definition name_with_dms :: "(string \<Rightarrow> string \<Rightarrow> string \<Rightarrow> int) \<Rightarrow> sidebar_store \<Rightarrow> channel \<Rightarrow> string" where
  "name_with_dms lc st c =
     (let profs = uss_profiles (sb_users st);
          setting = getTeammateNameDisplaySetting (sb_config st);
          shown = (\<lambda>user. displayUsername [] user setting False)
      in if ch_type c = DM_CHANNEL then shown (get profs (key_of (getUserIdFromChannelName (sb_me st) (ch_name c))))
         else if ch_type c = GM_CHANNEL
         then (let users = List.map_filter (\<lambda>username. find (\<lambda>p. us_username p = Some username) (obj_values profs))
                     (split_names (ch_display_name c));
                   userDisplayNames = map (\<lambda>u. shown (Some u)) (filter (\<lambda>u. us_id u \<noteq> sb_me st) users)
               in join '', '' (js_sort (lc (sidebar_locale st)) userDisplayNames))
         else ch_display_name c)"

definition makeSortChannelsByNameWithDMs ::
  "(string \<Rightarrow> string \<Rightarrow> string \<Rightarrow> int) \<Rightarrow> sidebar_store \<Rightarrow> channel list \<Rightarrow> channel list" where
  "makeSortChannelsByNameWithDMs lc st cs =
     js_sort (makeCompareChannels (lc (sidebar_locale st)) (name_with_dms lc st) (cs_myMembers (sb_channels st))) cs"

definition recency :: "bool \<Rightarrow> channel \<Rightarrow> int" where
  "recency crtEnabled c =
     max (if crtEnabled then (if ch_last_root_post_at c \<noteq> 0 then ch_last_root_post_at c else ch_last_post_at c)
          else ch_last_post_at c) (ch_create_at c)"

definition makeSortChannelsByRecency :: "sidebar_store \<Rightarrow> channel list \<Rightarrow> channel list" where
  "makeSortChannelsByRecency st cs = js_sort (\<lambda>a b. recency (sidebar_crt st) b - recency (sidebar_crt st) a) cs"

definition SORT_RECENCY :: string where "SORT_RECENCY = ''recent''"
definition SORT_ALPHABETICAL :: string where "SORT_ALPHABETICAL = ''alpha''"
definition SORT_DEFAULT :: string where "SORT_DEFAULT = []"

definition makeSortChannels ::
  "(string \<Rightarrow> string \<Rightarrow> string \<Rightarrow> int) \<Rightarrow> sidebar_store \<Rightarrow> channel list \<Rightarrow> channel_category \<Rightarrow> channel list" where
  "makeSortChannels lc st cs category =
     (if cat_sorting category = SORT_RECENCY then makeSortChannelsByRecency st cs
      else if cat_sorting category = SORT_ALPHABETICAL \<or> cat_sorting category = SORT_DEFAULT
      then (if list_ex (\<lambda>c. ch_type c = DM_CHANNEL \<or> ch_type c = GM_CHANNEL) cs
            then makeSortChannelsByNameWithDMs lc st cs else makeSortChannelsByName lc st cs)
      else cs)"

section \<open>The channels of a category\<close>

definition makeFilterAndSortChannelsForCategory ::
  "(string \<Rightarrow> string \<Rightarrow> string \<Rightarrow> int) \<Rightarrow> sidebar_store \<Rightarrow> channel option list \<Rightarrow> channel_category \<Rightarrow> channel list" where
  "makeFilterAndSortChannelsForCategory lc st originalChannels category =
     (let channels = makeFilterArchivedChannels st originalChannels;
          channels = makeFilterManuallyClosedDMs st channels;
          channels = makeFilterAutoclosedDMs st channels (cat_type category)
      in makeSortChannels lc st channels category)"

definition channels_of_category ::
  "(string \<Rightarrow> string \<Rightarrow> string \<Rightarrow> int) \<Rightarrow> sidebar_store \<Rightarrow> channel_category \<Rightarrow> channel list" where
  "channels_of_category lc st category =
     makeFilterAndSortChannelsForCategory lc st (makeGetChannelsForIds (sb_channels st) (cat_channel_ids category)) category"

definition makeGetChannelIdsForCategory ::
  "(string \<Rightarrow> string \<Rightarrow> string \<Rightarrow> int) \<Rightarrow> sidebar_store \<Rightarrow> channel_category \<Rightarrow> string list" where
  "makeGetChannelIdsForCategory lc st category = map ch_id (channels_of_category lc st category)"

text \<open>
  A category in the order of the team that is not loaded throws, and so does one that is stored under another id than its own,
  unless that id is in the order as well.
\<close>

fun by_category_loop ::
  "(string \<Rightarrow> string \<Rightarrow> string \<Rightarrow> int) \<Rightarrow> sidebar_store \<Rightarrow> string list \<Rightarrow> channel list obj \<Rightarrow> channel_category option list
     \<Rightarrow> channel list obj option" where
  "by_category_loop lc st ids channelsByCategory [] = Some channelsByCategory"
| "by_category_loop lc st ids channelsByCategory (None # rest) = None"
| "by_category_loop lc st ids channelsByCategory (Some category # rest) =
     (if cat_id category \<notin> set ids then None
      else by_category_loop lc st ids (put (cat_id category) (channels_of_category lc st category) channelsByCategory) rest)"

definition makeGetChannelsByCategory ::
  "(string \<Rightarrow> string \<Rightarrow> string \<Rightarrow> int) \<Rightarrow> sidebar_store \<Rightarrow> string \<Rightarrow> channel list obj option" where
  "makeGetChannelsByCategory lc st teamId =
     by_category_loop lc st (case get (sb_orderByTeam st) teamId of None \<Rightarrow> [] | Some ids \<Rightarrow> ids) []
       (makeGetCategoriesForTeam st teamId)"

end
