(* ===== verification/PreferencesProps.thy ===== *)
theory PreferencesProps
  imports Preferences
begin

text \<open>
  Preferences are read back as they were stored: the invariant that files them under category and name, what the
  selectors find, when the preferences of several users throw, and when replies are collapsed.
\<close>

section \<open>Keys\<close>

lemma key_eq:
  assumes "CHR ''-'' \<notin> set c" and "CHR ''-'' \<notin> set d"
  shows "getPreferenceKey c n = getPreferenceKey d m \<longleftrightarrow> c = d \<and> n = m"
proof
  assume "getPreferenceKey c n = getPreferenceKey d m"
  then have eq: "c @ CHR ''-'' # CHR ''-'' # n = d @ CHR ''-'' # CHR ''-'' # m" by (simp add: getPreferenceKey_def)
  have "c = takeWhile (\<lambda>x. x \<noteq> CHR ''-'') (c @ CHR ''-'' # CHR ''-'' # n)"
    "d = takeWhile (\<lambda>x. x \<noteq> CHR ''-'') (d @ CHR ''-'' # CHR ''-'' # m)"
    using assms by (simp_all add: takeWhile_append takeWhile_eq_all_conv [THEN iffD2])
  with eq show "c = d \<and> n = m" by simp
qed simp

lemma prefix_of_key:
  assumes "CHR ''-'' \<notin> set c" and "CHR ''-'' \<notin> set (pf_category p)"
  shows "starts_with (c @ ''--'') (preference_key p) \<longleftrightarrow> pf_category p = c"
proof
  assume "starts_with (c @ ''--'') (preference_key p)"
  then have "preference_key p = getPreferenceKey c (drop (length c + 2) (preference_key p))"
    by (simp add: starts_with_def getPreferenceKey_def) (metis append.assoc append_Cons append_Nil append_take_drop_id)
  then show "pf_category p = c" using key_eq [OF assms(2,1)] unfolding preference_key_def by metis
next
  assume "pf_category p = c"
  then show "starts_with (c @ ''--'') (preference_key p)"
    by (simp add: preference_key_def getPreferenceKey_def starts_with_def)
qed

text \<open>Two categories that end and begin with a dash share keys.\<close>

lemma key_collision: "getPreferenceKey ''a-'' ''b'' = getPreferenceKey ''a'' ''-b''"
  by (simp add: getPreferenceKey_def)

section \<open>Filed preferences\<close>

definition filed_preferences :: "preferences \<Rightarrow> bool" where
  "filed_preferences st \<longleftrightarrow> wf_obj st \<and> (\<forall>k p. get st k = Some p \<longrightarrow> preference_key p = k)"

lemma filed_put_preference: "filed_preferences st \<Longrightarrow> filed_preferences (put (preference_key p) p st)"
  by (auto simp: filed_preferences_def)

lemma filed_put_preferences: "filed_preferences st \<Longrightarrow> filed_preferences (put_preferences st ps)"
  unfolding put_preferences_def by (rule foldl_invariant) (auto intro: filed_put_preference)

lemma filed_Nil: "filed_preferences []"
  by (simp add: filed_preferences_def)

definition preferences_ok :: "preferences_state \<Rightarrow> bool" where
  "preferences_ok st \<longleftrightarrow> filed_preferences (prs_myPreferences st) \<and>
     (\<forall>u ps. get (prs_userPreferences st) u = Some ps \<longrightarrow> filed_preferences ps)"

lemma user_loop_filed:
  assumes "user_preferences_loop first nextState previous ps = Some (nextState', previous')"
    and "\<forall>u q. get nextState u = Some q \<longrightarrow> filed_preferences q"
  shows "\<forall>u q. get nextState' u = Some q \<longrightarrow> filed_preferences q"
  using assms
proof (induction ps arbitrary: nextState previous)
  case (Cons p ps)
  from Cons.prems(1) obtain theirs where theirs: "get nextState (pf_user_id p) = Some theirs"
    by (auto split: option.splits)
  then have "\<forall>u q. get (put (pf_user_id p) (put (preference_key p) p theirs) nextState) u = Some q \<longrightarrow> filed_preferences q"
    using Cons.prems(2) by (auto intro: filed_put_preference)
  with Cons.IH Cons.prems(1) theirs show ?case by (fastforce simp: Let_def)
qed simp

lemma mine_filed:
  assumes "filed_preferences st"
  shows "filed_preferences (upd st (myPreferences st a))"
  using assms by (cases a) (auto simp: myPreferences_def setAllPreferences_def filed_Nil filed_put_preferences
      split: option.splits, auto simp: filed_preferences_def)

lemma theirs_filed:
  assumes "\<forall>u q. get st u = Some q \<longrightarrow> filed_preferences q" and "userPreferences st a = Some n"
  shows "\<forall>u q. get (upd st n) u = Some q \<longrightarrow> filed_preferences q"
proof (cases a)
  case (RECEIVED_USER_PREFERENCES ps)
  with assms(2) obtain next' prev' where loop: "receive_user_preferences st ps = Some (next', prev')" "n = New next'"
    by (auto simp: userPreferences_def)
  show ?thesis
  proof (cases "ps = None \<or> ps = Some []")
    case True
    with loop assms(1) show ?thesis by (auto simp: receive_user_preferences_def)
  next
    case False
    then obtain p rest where ps: "ps = Some (p # rest)" by (cases ps) (auto simp: neq_Nil_conv)
    have "\<forall>u q. get (put (pf_user_id p) (get_or [] st (pf_user_id p)) st) u = Some q \<longrightarrow> filed_preferences q"
      using assms(1) by (auto simp: get_or_def filed_Nil split: option.splits)
    from user_loop_filed [OF _ this] loop ps show ?thesis
      by (simp add: receive_user_preferences_def del: user_preferences_loop.simps)
  qed
qed (use assms in \<open>auto simp: userPreferences_def setAllUserPreferences_def filed_Nil filed_put_preferences
    split: list.splits if_splits\<close>)

interpretation preference_store: redux_store preferences_reducer "\<lambda>_ _. True" preferences_ok init_preferences_state
proof
  show "preferences_ok init_preferences_state" by (simp add: preferences_ok_def init_preferences_state_def filed_Nil)
  show "preferences_ok st'" if "preferences_ok st" "preferences_reducer st a = Some st'" for st a st'
    using that mine_filed theirs_filed
    by (auto simp: preferences_reducer_def preferences_ok_def split: option.splits)
qed

text \<open>
  C25. In every state the preferences can reach, a selector gives exactly the value stored for the category and the name, or else the
  default, and the list of a category holds exactly its preferences, each once, as long as no category has a dash in its name.
\<close>

theorem preferences_read_back:
  assumes "reachable preferences_reducer (\<lambda>_ _. True) init_preferences_state st"
    and "\<forall>p \<in> set (obj_values (prs_myPreferences st)). CHR ''-'' \<notin> set (pf_category p)"
    and "CHR ''-'' \<notin> set category"
  shows "(\<forall>p \<in> set (obj_values (prs_myPreferences st)). pf_category p = category \<longrightarrow>
        get_preference st category (pf_name p) d None = pf_value p) \<and>
    ((\<forall>p \<in> set (obj_values (prs_myPreferences st)). \<not> (pf_category p = category \<and> pf_name p = name)) \<longrightarrow>
        get_preference st category name d None = d) \<and>
    mset (makeGetCategory category (prs_myPreferences st)) =
      filter_mset (\<lambda>p. pf_category p = category) (mset (obj_values (prs_myPreferences st)))"
proof (intro conjI ballI impI)
  let ?my = "prs_myPreferences st"
  have filed: "filed_preferences ?my"
    using preference_store.reachable_inv [OF assms(1)] by (simp add: preferences_ok_def)
  have entry: "get ?my (preference_key p) = Some p" if "p \<in> set (obj_values ?my)" for p
    using that filed values_in_get [of ?my p] by (auto simp: filed_preferences_def)
  show "get_preference st category (pf_name p) d None = pf_value p"
    if "p \<in> set (obj_values ?my)" "pf_category p = category" for p
    using entry [OF that(1)] that(2) by (simp add: get_preference_def getFromPreferences_def preference_key_def)
  show "get_preference st category name d None = d"
    if none: "\<forall>p \<in> set (obj_values ?my). \<not> (pf_category p = category \<and> pf_name p = name)"
  proof -
    have "get ?my (getPreferenceKey category name) = None"
    proof (rule ccontr)
      assume "get ?my (getPreferenceKey category name) \<noteq> None"
      then obtain p where p: "get ?my (getPreferenceKey category name) = Some p" by blast
      then have "p \<in> set (obj_values ?my)" by (rule get_in_values)
      moreover have "preference_key p = getPreferenceKey category name"
        using filed p by (simp add: filed_preferences_def)
      ultimately show False
        using none assms(2) key_eq [OF _ assms(3), of "pf_category p" "pf_name p" name]
        by (auto simp: preference_key_def)
    qed
    then show ?thesis by (simp add: get_preference_def getFromPreferences_def)
  qed
  have in_category: "starts_with (category @ ''--'') k \<longleftrightarrow> pf_category p = category" if "(k, p) \<in> set ?my" for k p
  proof -
    have "get ?my k = Some p" using that filed by (simp add: filed_preferences_def wf_obj_def)
    then have "preference_key p = k" using filed by (simp add: filed_preferences_def)
    moreover have "CHR ''-'' \<notin> set (pf_category p)" using that assms(2) by (force simp: obj_values_def)
    ultimately show ?thesis using prefix_of_key [OF assms(3)] by blast
  qed
  have "makeGetCategory category ?my = filter (\<lambda>p. pf_category p = category) (obj_values ?my)"
  proof -
    have "filter (\<lambda>(k, p). starts_with (category @ ''--'') k) ?my = filter (\<lambda>kp. pf_category (snd kp) = category) ?my"
      using in_category by (intro filter_cong) auto
    then show ?thesis by (simp add: makeGetCategory_def obj_values_def filter_map comp_def)
  qed
  then show "mset (makeGetCategory category ?my) = filter_mset (\<lambda>p. pf_category p = category) (mset (obj_values ?my))"
    by (simp add: mset_filter)
qed

definition sample_preference :: preference where
  "sample_preference = \<lparr>pf_category = ''flagged_post'', pf_name = ''p'', pf_user_id = ''u'', pf_value = ''true''\<rparr>"

lemma preferences_read_back_witness:
  "\<exists>st. get_preference st ''flagged_post'' ''p'' [] None = ''true'' \<and> get_preference st ''flagged_post'' ''q'' ''no'' None = ''no''"
proof -
  define st where "st = init_preferences_state\<lparr>prs_myPreferences := [(''flagged_post--p'', sample_preference)]\<rparr>"
  have "reachable preferences_reducer (\<lambda>_ _. True) init_preferences_state st"
    by (rule reachable_one [of _ _ "RECEIVED_PREFERENCES (Some [sample_preference])"])
      (simp_all add: preferences_reducer_def userPreferences_def myPreferences_def put_preferences_def st_def
        init_preferences_state_def preference_key_def getPreferenceKey_def sample_preference_def)
  from preferences_read_back [OF this, of "''flagged_post''" "[]" "''q''"] preferences_read_back [OF this, of "''flagged_post''" "''no''" "''q''"]
  show ?thesis
    by (intro exI [of _ st]) (simp add: st_def obj_values_def sample_preference_def)
qed

section \<open>Preferences of several users\<close>

lemma user_loop_throws:
  assumes "get nextState first \<noteq> None"
  shows "user_preferences_loop first nextState previous ps = None \<longleftrightarrow> (\<exists>q \<in> set ps. get nextState (pf_user_id q) = None)"
  using assms
proof (induction ps arbitrary: nextState previous)
  case (Cons p ps)
  show ?case
  proof (cases "get nextState (pf_user_id p)")
    case (Some theirs)
    have "get (put (pf_user_id p) theirs' nextState) i = None \<longleftrightarrow> get nextState i = None" for theirs' i
      using Some by auto
    with Cons Some show ?thesis by (simp add: Let_def)
  qed simp
qed simp

text \<open>
  Preferences received for several users throw exactly if there is none yet of a user other than the first.
\<close>

lemma preferences_of_others_throw:
  "preferences_reducer st (RECEIVED_USER_PREFERENCES (Some (p # ps))) = None \<longleftrightarrow>
     (\<exists>q \<in> set ps. pf_user_id q \<noteq> pf_user_id p \<and> get (prs_userPreferences st) (pf_user_id q) = None)"
proof -
  let ?start = "put (pf_user_id p) (get_or [] (prs_userPreferences st) (pf_user_id p)) (prs_userPreferences st)"
  have "receive_user_preferences (prs_userPreferences st) (Some (p # ps)) = None \<longleftrightarrow>
      (\<exists>q \<in> set (p # ps). get ?start (pf_user_id q) = None)"
    using user_loop_throws [of ?start "pf_user_id p" "prs_userPreferences st" "p # ps"]
    by (simp add: receive_user_preferences_def del: user_preferences_loop.simps)
  then show ?thesis by (auto simp: preferences_reducer_def userPreferences_def split: option.splits)
qed

text \<open>When they do not throw, what is received for another user is written into the previous state as well.\<close>

lemma previous_state_changed:
  "receive_user_preferences [(''v'', [])] (Some [sample_preference, sample_preference\<lparr>pf_user_id := ''v''\<rparr>]) =
     Some ([(''v'', [(''flagged_post--p'', sample_preference\<lparr>pf_user_id := ''v''\<rparr>)]), (''u'', [(''flagged_post--p'', sample_preference)])],
           [(''v'', [(''flagged_post--p'', sample_preference\<lparr>pf_user_id := ''v''\<rparr>)])])"
  by (simp add: receive_user_preferences_def sample_preference_def preference_key_def getPreferenceKey_def get_or_def Let_def)

section \<open>Collapsed replies\<close>

text \<open>
  Replies are collapsed for me exactly as the selector for any user finds with my preferences: always if the server says so, never if
  it forbids it or says nothing, and otherwise by the preference, whose default is the one of the server.
\<close>

lemma collapsed_threads_rule:
  "(isCollapsedThreadsEnabled config st \<longleftrightarrow>
     (case get config ''CollapsedThreads'' of
        None \<Rightarrow> False
      | Some v \<Rightarrow> v = ALWAYS_ON \<or>
          (v \<noteq> DISABLED \<and> (case get (prs_myPreferences st) (getPreferenceKey CATEGORY_DISPLAY_SETTINGS COLLAPSED_REPLY_THREADS) of
              None \<Rightarrow> v = DEFAULT_ON | Some p \<Rightarrow> pf_value p = ''on'')))) \<and>
   isCollapsedThreadsEnabledForUser config (prs_myPreferences st) = isCollapsedThreadsEnabled config st"
  by (auto simp: isCollapsedThreadsEnabled_def isCollapsedThreadsEnabledForUser_def isCollapsedThreadsAllowed_def
      getCollapsedThreadsPreference_def getCollapsedThreadsPreferenceFromPreferences_def get_preference_def getFromPreferences_def
      collapsed_default_def COLLAPSED_REPLY_THREADS_ON_def COLLAPSED_REPLY_THREADS_OFF_def ALWAYS_ON_def DISABLED_def
      DEFAULT_ON_def split: option.splits)

end
