(* ===== verification/SidebarProps.thy ===== *)
theory SidebarProps
  imports Sidebar PreferencesProps ChannelSamples "HOL-Library.Sublist"
begin

text \<open>
  What the sidebar shows of a category: which channels can be hidden, when unread ones are, how long the list of
  direct messages gets, and the orders.
\<close>

section \<open>Taking the first of a sorted list\<close>

lemma insert_by_cong: "\<forall>y \<in> set ys. cmp x y = cmp' x y \<Longrightarrow> insert_by cmp x ys = insert_by cmp' x ys"
  by (induction ys) auto

lemma js_sort_cong: "sorted_wrt (\<lambda>x y. cmp x y = cmp' x y) xs \<Longrightarrow> js_sort cmp xs = js_sort cmp' xs"
proof (induction xs)
  case (Cons x xs)
  then have "js_sort cmp xs = js_sort cmp' xs" by simp
  moreover have "insert_by cmp x (js_sort cmp' xs) = insert_by cmp' x (js_sort cmp' xs)"
    using Cons.prems by (intro insert_by_cong) simp
  ultimately show ?case by (simp add: js_sort_def)
qed (simp add: js_sort_def)

lemma first_ones_taken:
  assumes "sorted_wrt (\<lambda>a b. P b \<longrightarrow> P a) xs" and "length (filter P xs) \<le> n" and "x \<in> set xs" and "P x"
  shows "x \<in> set (take n xs)"
  using assms
proof (induction xs arbitrary: n)
  case (Cons y ys)
  then have "P y" by auto
  then obtain m where "n = Suc m" using Cons.prems(2) by (cases n) auto
  with Cons \<open>P y\<close> show ?case by auto
qed simp

section \<open>The order in which direct messages are kept\<close>

definition visible_rank :: "sidebar_store \<Rightarrow> channel \<Rightarrow> nat" where
  "visible_rank st c = (if ch_id c = sb_current st then 0 else if isUnreadChannel st (ch_id c) then 1 else 2)"

definition viewed_time :: "sidebar_store \<Rightarrow> channel \<Rightarrow> int" where
  "viewed_time st c = (case getLastViewedAt st c of Num t \<Rightarrow> t | _ \<Rightarrow> 0)"

text \<open>The comparator, made symmetric for the current channel compared with itself, which \<open>sort\<close> never does.\<close>

definition compare_ranked :: "sidebar_store \<Rightarrow> channel \<Rightarrow> channel \<Rightarrow> int" where
  "compare_ranked st a b =
     (if visible_rank st a = 0 \<and> visible_rank st b = 0 then 0 else compare_visible st a b)"

lemma compare_ranked_nonpos:
  "compare_ranked st a b \<le> 0 \<longleftrightarrow> visible_rank st a < visible_rank st b \<or>
     (visible_rank st a = visible_rank st b \<and> (visible_rank st a = 0 \<or> viewed_time st b \<le> viewed_time st a))"
proof -
  have "or_zero (getLastViewedAt st c) = Num (viewed_time st c)" for c
    by (simp add: viewed_time_def split: jsnum.splits)
  then show ?thesis
    by (auto simp: compare_ranked_def compare_visible_def visible_rank_def Let_def)
qed

interpretation visible: comparator_contract "compare_ranked st" for st
proof
  show "compare_ranked st x y \<le> 0 \<longleftrightarrow> 0 \<le> compare_ranked st y x" for x y
  proof -
    have "0 \<le> compare_ranked st y x \<longleftrightarrow> \<not> visible_rank st y < visible_rank st x \<and>
        \<not> (visible_rank st y = visible_rank st x \<and> visible_rank st y \<noteq> 0 \<and> viewed_time st x < viewed_time st y)"
    proof -
      have "or_zero (getLastViewedAt st c) = Num (viewed_time st c)" for c
        by (simp add: viewed_time_def split: jsnum.splits)
      then show ?thesis by (auto simp: compare_ranked_def compare_visible_def visible_rank_def Let_def)
    qed
    then show ?thesis unfolding compare_ranked_nonpos by linarith
  qed
  show "compare_ranked st x y \<le> 0 \<Longrightarrow> compare_ranked st y z \<le> 0 \<Longrightarrow> compare_ranked st x z \<le> 0" for x y z
    unfolding compare_ranked_nonpos by linarith
qed

lemma sorted_visible:
  assumes "distinct (map ch_id cs)"
  shows "js_sort (compare_visible st) cs = js_sort (compare_ranked st) cs"
proof (rule js_sort_cong)
  show "sorted_wrt (\<lambda>x y. compare_visible st x y = compare_ranked st x y) cs"
    using assms by (induction cs) (auto simp: compare_ranked_def visible_rank_def image_iff)
qed

lemma first_ranks_first:
  "sorted_wrt (\<lambda>a b. visible_rank st b \<le> 1 \<longrightarrow> visible_rank st a \<le> 1) (js_sort (compare_ranked st) cs)"
  by (rule sorted_wrt_mono_rel [OF _ visible.sorted_js_sort]) (auto simp: compare_ranked_nonpos)

section \<open>What the filters keep\<close>

text \<open>The channels of a category that are loaded, and that reach the last filter.\<close>

definition listed_channels :: "sidebar_store \<Rightarrow> channel_category \<Rightarrow> channel list" where
  "listed_channels st category = List.map_filter (get (cs_channels (sb_channels st))) (cat_channel_ids category)"

definition open_channels :: "sidebar_store \<Rightarrow> channel_category \<Rightarrow> channel list" where
  "open_channels st category =
     makeFilterManuallyClosedDMs st (filter (\<lambda>c. ch_id c = sb_current st \<or> ch_delete_at c = 0) (listed_channels st category))"

definition filed_channels :: "channels_state \<Rightarrow> bool" where
  "filed_channels cs \<longleftrightarrow> (\<forall>k c. get (cs_channels cs) k = Some c \<longrightarrow> ch_id c = k)"

lemma map_filter_get:
  "List.map_filter (\<lambda>c. c) (map f xs) = List.map_filter f xs"
  by (induction xs) (auto simp: List.map_filter_simps split: option.splits)

lemma channels_shown:
  "channels_of_category lc st category =
     makeSortChannels lc st (makeFilterAutoclosedDMs st (open_channels st category) (cat_type category)) category"
  by (simp add: channels_of_category_def makeFilterAndSortChannelsForCategory_def makeFilterArchivedChannels_def
      makeGetChannelsForIds_def map_filter_get open_channels_def listed_channels_def Let_def)

lemma mset_makeSortChannels [simp]: "mset (makeSortChannels lc st cs category) = mset cs"
  by (simp add: makeSortChannels_def makeSortChannelsByRecency_def makeSortChannelsByNameWithDMs_def makeSortChannelsByName_def)

lemma set_makeSortChannels [simp]: "set (makeSortChannels lc st cs category) = set cs"
  by (metis mset_makeSortChannels set_mset_mset)

lemma listed_ids:
  assumes "filed_channels (sb_channels st)"
  shows "map ch_id (listed_channels st category) =
    filter (\<lambda>i. get (cs_channels (sb_channels st)) i \<noteq> None) (cat_channel_ids category)"
proof -
  have "map ch_id (List.map_filter (get (cs_channels (sb_channels st))) ids) =
      filter (\<lambda>i. get (cs_channels (sb_channels st)) i \<noteq> None) ids" for ids
    using assms by (induction ids) (auto simp: List.map_filter_simps filed_channels_def split: option.splits)
  then show ?thesis by (simp add: listed_channels_def)
qed

lemma distinct_listed:
  assumes "filed_channels (sb_channels st)" and "distinct (cat_channel_ids category)"
  shows "distinct (map ch_id (listed_channels st category))"
  using assms(2) by (simp add: listed_ids [OF assms(1)])

lemma distinct_ids_filter: "distinct (map ch_id cs) \<Longrightarrow> distinct (map ch_id (filter P cs))"
  by (induction cs) auto

lemma distinct_open:
  assumes "filed_channels (sb_channels st)" and "distinct (cat_channel_ids category)"
  shows "distinct (map ch_id (open_channels st category))"
  using distinct_listed [OF assms] by (simp add: open_channels_def makeFilterManuallyClosedDMs_def distinct_ids_filter)

lemma open_channel_iff:
  "c \<in> set (open_channels st category) \<longleftrightarrow>
     (\<exists>i \<in> set (cat_channel_ids category). get (cs_channels (sb_channels st)) i = Some c) \<and>
     (ch_id c = sb_current st \<or> ch_delete_at c = 0) \<and>
     (ch_type c \<in> {DM_CHANNEL, GM_CHANNEL} \<longrightarrow>
        isUnreadChannel st (ch_id c) \<or> ch_id c = sb_current st \<or> shown_by_preference st c)"
  by (force simp: open_channels_def makeFilterManuallyClosedDMs_def listed_channels_def List.map_filter_def)

section \<open>Closing direct messages\<close>

lemma autoclose_keeps_first:
  assumes "distinct (map ch_id cs)" and "getVisibleDmGmLimit (sb_preferences st) None = Num limit"
    and "c \<in> set cs" and "visible_rank st c \<le> 1"
    and "int (length (filter (\<lambda>c. visible_rank st c \<le> 1) cs)) \<le>
           max limit (int (length (filter (\<lambda>c. isUnreadChannel st (ch_id c)) cs)))"
  shows "c \<in> set (makeFilterAutoclosedDMs st cs categoryType)"
proof -
  let ?vis = "js_sort (compare_ranked st) (filter (stays_open st) cs)"
  let ?n = "nat (max limit (int (length (filter (\<lambda>c. isUnreadChannel st (ch_id c)) cs))))"
  have stays: "stays_open st d" if "visible_rank st d \<le> 1" for d
    using that by (auto simp: visible_rank_def stays_open_def split: if_splits)
  have "mset (filter (\<lambda>c. visible_rank st c \<le> 1) ?vis) = mset (filter (\<lambda>c. visible_rank st c \<le> 1) cs)"
    using stays by (auto simp: mset_filter filter_filter_mset intro!: filter_mset_cong)
  then have "length (filter (\<lambda>c. visible_rank st c \<le> 1) ?vis) \<le> ?n"
    using assms(5) by (metis nat_mono nat_int size_mset)
  then have "c \<in> set (take ?n ?vis)"
    using assms(3,4) stays by (intro first_ones_taken [OF first_ranks_first]) auto
  then show ?thesis
    using assms(2,3) sorted_visible [OF distinct_ids_filter [OF assms(1)], of st "stays_open st"]
    by (simp add: makeFilterAutoclosedDMs_def slice_to_def Let_def)
qed

lemma autoclose_subset: "set (makeFilterAutoclosedDMs st cs categoryType) \<subseteq> set cs"
  by (auto simp: makeFilterAutoclosedDMs_def Let_def)

section \<open>Unread channels\<close>

lemma first_count:
  assumes "distinct (map ch_id cs)"
  shows "length (filter (\<lambda>c. visible_rank st c \<le> 1) cs) \<le> Suc (length (filter (\<lambda>c. isUnreadChannel st (ch_id c)) cs))"
    and "isUnreadChannel st (sb_current st) \<or> sb_current st \<notin> ch_id ` set cs \<Longrightarrow>
      length (filter (\<lambda>c. visible_rank st c \<le> 1) cs) = length (filter (\<lambda>c. isUnreadChannel st (ch_id c)) cs)"
proof -
  let ?first = "\<lambda>c. visible_rank st c \<le> 1" and ?unread = "\<lambda>c. isUnreadChannel st (ch_id c)"
  have "length (filter ?first cs) \<le> length (filter ?unread cs) + length (filter (\<lambda>c. ch_id c = sb_current st) cs)"
    by (induction cs) (auto simp: visible_rank_def)
  moreover have "length (filter (\<lambda>c. ch_id c = sb_current st) cs) \<le> 1"
    using assms by (induction cs) (auto simp: image_iff filter_empty_conv)
  ultimately show "length (filter ?first cs) \<le> Suc (length (filter ?unread cs))" by simp
  assume "isUnreadChannel st (sb_current st) \<or> sb_current st \<notin> ch_id ` set cs"
  then have "filter ?first cs = filter ?unread cs"
    by (intro filter_cong) (auto simp: visible_rank_def image_iff)
  then show "length (filter ?first cs) = length (filter ?unread cs)" by (rule arg_cong)
qed

lemma unread_count_bound:
  assumes "filed_channels (sb_channels st)" and "distinct (cat_channel_ids category)"
  shows "length (filter (\<lambda>c. isUnreadChannel st (ch_id c)) (open_channels st category)) \<le>
    length (filter (isUnreadChannel st) (cat_channel_ids category))"
proof -
  let ?xs = "map ch_id (filter (\<lambda>c. isUnreadChannel st (ch_id c)) (open_channels st category))"
  have "set ?xs \<subseteq> set (filter (isUnreadChannel st) (cat_channel_ids category))"
    using assms(1) by (auto simp: open_channel_iff filed_channels_def)
  moreover have "distinct ?xs" by (rule distinct_ids_filter [OF distinct_open [OF assms]])
  ultimately have "length ?xs \<le> card (set (filter (isUnreadChannel st) (cat_channel_ids category)))"
    by (metis List.finite_set card_mono distinct_card)
  also have "\<dots> \<le> length (filter (isUnreadChannel st) (cat_channel_ids category))" by (rule card_length)
  finally show ?thesis by simp
qed

text \<open>
  C18. The sidebar shows every channel of a category that has unread messages and is not archived, and the channel that is looked at,
  whatever the preferences; for the direct messages this holds as long as fewer channels are unread than may be visible,
  or the channel that is looked at is unread itself or elsewhere.
\<close>

theorem unread_channels_shown:
  assumes "filed_channels (sb_channels st)" and "distinct (cat_channel_ids category)"
    and "getVisibleDmGmLimit (sb_preferences st) None = Num limit"
    and "i \<in> set (cat_channel_ids category)" and "get (cs_channels (sb_channels st)) i = Some c"
    and "(isUnreadChannel st i \<and> ch_delete_at c = 0) \<or> i = sb_current st"
    and "cat_type category = DIRECT_MESSAGES \<Longrightarrow>
      int (length (filter (isUnreadChannel st) (cat_channel_ids category))) < limit \<or>
      isUnreadChannel st (sb_current st) \<or> sb_current st \<notin> set (cat_channel_ids category)"
  shows "c \<in> set (channels_of_category lc st category)"
proof -
  let ?open = "open_channels st category"
  have id: "ch_id c = i" using assms(1,5) by (simp add: filed_channels_def)
  then have open_c: "c \<in> set ?open" and first: "visible_rank st c \<le> 1"
    using assms(4,5,6) by (auto simp: open_channel_iff visible_rank_def)
  note distinct = distinct_open [OF assms(1,2)]
  have "c \<in> set (makeFilterAutoclosedDMs st ?open (cat_type category))"
  proof (cases "cat_type category = DIRECT_MESSAGES")
    case True
    show ?thesis
    proof (rule autoclose_keeps_first [OF distinct assms(3) open_c first])
      show "int (length (filter (\<lambda>c. visible_rank st c \<le> 1) ?open)) \<le>
          max limit (int (length (filter (\<lambda>c. isUnreadChannel st (ch_id c)) ?open)))"
      proof (cases "isUnreadChannel st (sb_current st) \<or> sb_current st \<notin> set (cat_channel_ids category)")
        case elsewhere: True
        have "sb_current st \<in> ch_id ` set ?open \<Longrightarrow> sb_current st \<in> set (cat_channel_ids category)"
          using assms(1) by (auto simp: open_channel_iff filed_channels_def)
        with elsewhere have "isUnreadChannel st (sb_current st) \<or> sb_current st \<notin> ch_id ` set ?open" by blast
        from first_count(2) [OF distinct this] show ?thesis by (simp only: max.cobounded2)
      next
        case False
        with assms(7) [OF True] first_count(1) [OF distinct, of st] unread_count_bound [OF assms(1,2)] show ?thesis
          by (simp add: le_max_iff_disj)
      qed
    qed
  qed (use open_c in \<open>simp add: makeFilterAutoclosedDMs_def\<close>)
  then show ?thesis by (simp add: channels_shown)
qed

definition sample_direct :: "string \<Rightarrow> channel" where
  "sample_direct i = (toClientChannel sample_channel)\<lparr>ch_id := i, ch_type := DM_CHANNEL, ch_name := ''u__x''\<rparr>"

text \<open>The channel \<open>a\<close> is looked at and read, \<open>b\<close> is unread; at most \<open>limit\<close> channels may be visible.\<close>

definition sample_sidebar :: "string \<Rightarrow> sidebar_store" where
  "sample_sidebar limit =
     \<lparr>sb_channels = init_channels_state\<lparr>cs_currentChannelId := ''a'',
        cs_channels := [(''a'', sample_direct ''a''), (''b'', sample_direct ''b'')],
        cs_myMembers := [(''a'', sample_member), (''b'', sample_member)],
        cs_messageCounts := [(''a'', \<lparr>mc_root = Num 2, mc_total = Num 3\<rparr>), (''b'', \<lparr>mc_root = Num 3, mc_total = Num 5\<rparr>)]\<rparr>,
      sb_users = init_users_state\<lparr>uss_currentUserId := ''u''\<rparr>,
      sb_preferences = \<lparr>prs_myPreferences = [(''sidebar_settings--limit_visible_dms_gms'',
         \<lparr>pf_category = CATEGORY_SIDEBAR_SETTINGS, pf_name = LIMIT_VISIBLE_DMS_GMS, pf_user_id = ''u'', pf_value = limit\<rparr>)],
         prs_userPreferences = []\<rparr>,
      sb_config = [], sb_byId = [], sb_orderByTeam = []\<rparr>"

definition sample_directs :: channel_category where
  "sample_directs = \<lparr>cat_id = ''k'', cat_user_id = ''u'', cat_team_id = ''t'', cat_type = DIRECT_MESSAGES, cat_display_name = [],
     cat_sorting = ''manual'', cat_channel_ids = [''a'', ''b''], cat_muted = False, cat_collapsed = False\<rparr>"

lemma sample_sidebar_facts:
  "isUnreadChannel (sample_sidebar l) ''b''" "\<not> isUnreadChannel (sample_sidebar l) ''a''"
  "filed_channels (sb_channels (sample_sidebar l))" "sb_current (sample_sidebar l) = ''a''"
  "getVisibleDmGmLimit (sb_preferences (sample_sidebar l)) None = parseInt10 l"
  "get (cs_channels (sb_channels (sample_sidebar l))) ''a'' = Some (sample_direct ''a'')"
  "get (cs_channels (sb_channels (sample_sidebar l))) ''b'' = Some (sample_direct ''b'')"
  by (simp_all add: isUnreadChannel_def sample_sidebar_def channel_unread_def calculateUnreadCount_def sidebar_crt_def
      isCollapsedThreadsEnabled_def isCollapsedThreadsAllowed_def channel_sample_defs isChannelMuted_def js_pos_def
      filed_channels_def sample_direct_def getVisibleDmGmLimit_def getInt_def get_preference_def getFromPreferences_def
      getPreferenceKey_def CATEGORY_SIDEBAR_SETTINGS_def LIMIT_VISIBLE_DMS_GMS_def Let_def)

lemma unread_channels_shown_witness:
  "sample_direct ''b'' \<in> set (channels_of_category (\<lambda>_ _ _. 0) (sample_sidebar ''40'') sample_directs)"
proof -
  have "parseInt10 ''40'' = Num 40"
    by (simp add: parseInt10_def is_blank_def is_digit_def digits_value_def)
  with unread_channels_shown [of "sample_sidebar ''40''" sample_directs 40 "''b''" "sample_direct ''b''" "\<lambda>_ _ _. 0"]
  show ?thesis
    by (simp add: sample_sidebar_facts sample_directs_def) (simp add: sample_direct_def channel_sample_defs)
qed

text \<open>
  At the limit the channel that is looked at takes the place of an unread one, although unread ones are meant to be always visible.
\<close>

lemma unread_channel_hidden:
  "channels_of_category lc (sample_sidebar ''1'') sample_directs = [sample_direct ''a'']"
proof -
  have ids: "ch_id (sample_direct i) = i" "ch_delete_at (sample_direct i) = 0" "ch_type (sample_direct i) = DM_CHANNEL" for i
    by (simp_all add: sample_direct_def channel_sample_defs)
  have "parseInt10 ''1'' = Num 1"
    by (simp add: parseInt10_def is_blank_def is_digit_def digits_value_def)
  moreover have "open_channels (sample_sidebar ''1'') sample_directs = [sample_direct ''a'', sample_direct ''b'']"
    by (simp add: open_channels_def makeFilterManuallyClosedDMs_def listed_channels_def sample_directs_def
        sample_sidebar_facts List.map_filter_simps ids)
  moreover have "ch_id (sample_direct ''a'') \<noteq> ch_id (sample_direct ''b'')" by (simp add: ids)
  then have "sample_direct ''a'' \<noteq> sample_direct ''b''" by metis
  ultimately show ?thesis
    by (simp add: channels_shown makeFilterAutoclosedDMs_def sample_directs_def js_sort_def compare_visible_def
        sample_sidebar_facts stays_open_def ids slice_to_def makeSortChannels_def SORT_RECENCY_def SORT_ALPHABETICAL_def
        SORT_DEFAULT_def)
qed

section \<open>What is shown, and in which order\<close>

lemma autoclose_length:
  assumes "distinct (map ch_id cs)" and "getVisibleDmGmLimit (sb_preferences st) None = Num limit"
  shows "int (length (makeFilterAutoclosedDMs st cs DIRECT_MESSAGES)) \<le>
    max limit (int (length (filter (\<lambda>c. isUnreadChannel st (ch_id c)) cs)))"
proof -
  let ?n = "nat (max limit (int (length (filter (\<lambda>c. isUnreadChannel st (ch_id c)) cs))))"
  let ?kept = "take ?n (js_sort (compare_visible st) (filter (stays_open st) cs))"
  have "distinct cs" using assms(1) by (simp add: distinct_map)
  then have "length (filter (\<lambda>c. c \<in> set ?kept) cs) = card (set (filter (\<lambda>c. c \<in> set ?kept) cs))"
    by (metis distinct_card distinct_filter)
  also have "\<dots> \<le> card (set ?kept)" by (rule card_mono) auto
  also have "\<dots> \<le> ?n" by (metis card_length length_take min.bounded_iff)
  finally show ?thesis by (simp add: makeFilterAutoclosedDMs_def assms(2) slice_to_def Let_def le_nat_iff)
qed

lemma autoclose_ids: "distinct (map ch_id cs) \<Longrightarrow> distinct (map ch_id (makeFilterAutoclosedDMs st cs ty))"
  by (simp add: makeFilterAutoclosedDMs_def Let_def distinct_ids_filter)

lemma autoclose_subseq: "subseq (makeFilterAutoclosedDMs st cs ty) cs"
  by (simp add: makeFilterAutoclosedDMs_def Let_def)

lemma open_subseq: "subseq (open_channels st category) (listed_channels st category)"
  unfolding open_channels_def makeFilterManuallyClosedDMs_def filter_filter by (rule subseq_filter_left)

lemma manual_order: "cat_sorting category = ''manual'' \<Longrightarrow> makeSortChannels lc st cs category = cs"
  by (simp add: makeSortChannels_def SORT_RECENCY_def SORT_ALPHABETICAL_def SORT_DEFAULT_def)

text \<open>
  C20. The sidebar shows nothing it should not: only loaded channels of the category, each once, archived ones only while
  they are looked at, direct and group messages only if they are unread, looked at or opened by a preference; of the direct
  messages at most as many as the limit allows or are unread; and a category in manual order keeps its order.
\<close>

theorem hidden_channels_stay_hidden:
  assumes "filed_channels (sb_channels st)" and "distinct (cat_channel_ids category)"
    and "getVisibleDmGmLimit (sb_preferences st) None = Num limit"
  shows "distinct (makeGetChannelIdsForCategory lc st category) \<and>
    (\<forall>c \<in> set (channels_of_category lc st category).
      ch_id c \<in> set (cat_channel_ids category) \<and> get (cs_channels (sb_channels st)) (ch_id c) = Some c \<and>
      (ch_delete_at c = 0 \<or> ch_id c = sb_current st) \<and>
      (ch_type c \<in> {DM_CHANNEL, GM_CHANNEL} \<longrightarrow>
         isUnreadChannel st (ch_id c) \<or> ch_id c = sb_current st \<or> shown_by_preference st c)) \<and>
    (cat_type category = DIRECT_MESSAGES \<longrightarrow> int (length (channels_of_category lc st category)) \<le>
      max limit (int (length (filter (isUnreadChannel st) (cat_channel_ids category))))) \<and>
    (cat_sorting category = ''manual'' \<longrightarrow>
      subseq (makeGetChannelIdsForCategory lc st category) (cat_channel_ids category))"
proof (intro conjI ballI impI)
  let ?open = "open_channels st category"
  let ?kept = "makeFilterAutoclosedDMs st ?open (cat_type category)"
  note distinct = distinct_open [OF assms(1,2)]
  have ids: "mset (makeGetChannelIdsForCategory lc st category) = mset (map ch_id ?kept)"
    by (simp add: makeGetChannelIdsForCategory_def channels_shown)
  show "distinct (makeGetChannelIdsForCategory lc st category)"
    using mset_eq_imp_distinct_iff [OF ids] autoclose_ids [OF distinct] by blast
  fix c assume "c \<in> set (channels_of_category lc st category)"
  then have c: "c \<in> set ?open" using autoclose_subset by (auto simp: channels_shown)
  then show "ch_id c \<in> set (cat_channel_ids category)" "get (cs_channels (sb_channels st)) (ch_id c) = Some c"
      "ch_delete_at c = 0 \<or> ch_id c = sb_current st"
    using assms(1) by (auto simp: open_channel_iff filed_channels_def)
  show "isUnreadChannel st (ch_id c) \<or> ch_id c = sb_current st \<or> shown_by_preference st c"
    if "ch_type c \<in> {DM_CHANNEL, GM_CHANNEL}"
    using c that by (auto simp: open_channel_iff)
next
  assume "cat_type category = DIRECT_MESSAGES"
  moreover have "length (channels_of_category lc st category) =
      length (makeFilterAutoclosedDMs st (open_channels st category) (cat_type category))"
    unfolding channels_shown by (metis mset_makeSortChannels size_mset)
  ultimately show "int (length (channels_of_category lc st category)) \<le>
      max limit (int (length (filter (isUnreadChannel st) (cat_channel_ids category))))"
    using autoclose_length [OF distinct_open [OF assms(1,2)] assms(3)] unread_count_bound [OF assms(1,2)]
    by (auto simp: le_max_iff_disj)
next
  assume "cat_sorting category = ''manual''"
  moreover have "subseq (map ch_id (makeFilterAutoclosedDMs st (open_channels st category) (cat_type category)))
      (map ch_id (listed_channels st category))"
    by (rule subseq_map [OF subseq_order.trans [OF autoclose_subseq open_subseq]])
  moreover have "subseq (map ch_id (listed_channels st category)) (cat_channel_ids category)"
    unfolding listed_ids [OF assms(1)] by (rule subseq_filter_left)
  ultimately show "subseq (makeGetChannelIdsForCategory lc st category) (cat_channel_ids category)"
    unfolding makeGetChannelIdsForCategory_def channels_shown by (metis manual_order subseq_order.trans)
qed

lemma hidden_channels_stay_hidden_witness:
  "length (channels_of_category (\<lambda>_ _ _. 0) (sample_sidebar ''1'') sample_directs) \<le> 1"
proof -
  have "parseInt10 ''1'' = Num 1"
    by (simp add: parseInt10_def is_blank_def is_digit_def digits_value_def)
  with hidden_channels_stay_hidden [of "sample_sidebar ''1''" sample_directs 1 "\<lambda>_ _ _. 0"] show ?thesis
    by (simp add: sample_sidebar_facts sample_directs_def)
qed

text \<open>The comparators of the sidebar are orders if the collation is.\<close>

lemma compare_channels_contract:
  "comparator_contract lc \<Longrightarrow> comparator_contract (makeCompareChannels lc name members)"
  unfolding comparator_contract_def makeCompareChannels_def Let_def by (auto; metis)

interpretation by_recency_of: comparator_contract "\<lambda>a b. recency crt b - recency crt a" for crt
  by unfold_locales auto

definition sidebar_muted :: "sidebar_store \<Rightarrow> channel \<Rightarrow> bool" where
  "sidebar_muted st c = isChannelMuted (get (cs_myMembers (sb_channels st)) (ch_id c))"

lemma sort_by_name_ordered:
  assumes "comparator_contract lc"
  shows "sorted_wrt (\<lambda>a b. (sidebar_muted st a \<longrightarrow> sidebar_muted st b) \<and>
      (sidebar_muted st a = sidebar_muted st b \<longrightarrow> lc (name a) (name b) \<le> 0))
    (js_sort (makeCompareChannels lc name (cs_myMembers (sb_channels st))) cs)"
  by (rule sorted_wrt_mono_rel [OF _ comparator_contract.sorted_js_sort [OF compare_channels_contract [OF assms]]])
    (auto simp: makeCompareChannels_def sidebar_muted_def Let_def split: if_splits)

text \<open>
  A category sorted by recency lists the channels with the latest messages first; one sorted by name lists muted channels
  last and otherwise goes by the names shown, of users by the setting for their names, whenever the collation is an order.
\<close>

theorem sidebar_order:
  assumes "comparator_contract (lc (sidebar_locale st))"
  shows "(cat_sorting category = ''recent'' \<longrightarrow>
      sorted_wrt (\<lambda>a b. recency (sidebar_crt st) b \<le> recency (sidebar_crt st) a) (channels_of_category lc st category)) \<and>
    (cat_sorting category \<in> {''alpha'', []} \<longrightarrow>
      sorted_wrt (\<lambda>a b. (sidebar_muted st a \<longrightarrow> sidebar_muted st b) \<and>
          (sidebar_muted st a = sidebar_muted st b \<longrightarrow>
             lc (sidebar_locale st) (name_with_dms lc st a) (name_with_dms lc st b) \<le> 0))
        (channels_of_category lc st category))"
proof (intro conjI impI)
  let ?kept = "makeFilterAutoclosedDMs st (open_channels st category) (cat_type category)"
  show "sorted_wrt (\<lambda>a b. recency (sidebar_crt st) b \<le> recency (sidebar_crt st) a) (channels_of_category lc st category)"
    if "cat_sorting category = ''recent''"
    using that by_recency_of.sorted_js_sort [of "sidebar_crt st" ?kept]
    by (simp add: channels_shown makeSortChannels_def SORT_RECENCY_def makeSortChannelsByRecency_def)
  assume alpha: "cat_sorting category \<in> {''alpha'', []}"
  show "sorted_wrt (\<lambda>a b. (sidebar_muted st a \<longrightarrow> sidebar_muted st b) \<and>
      (sidebar_muted st a = sidebar_muted st b \<longrightarrow>
         lc (sidebar_locale st) (name_with_dms lc st a) (name_with_dms lc st b) \<le> 0)) (channels_of_category lc st category)"
  proof (cases "list_ex (\<lambda>c. ch_type c = DM_CHANNEL \<or> ch_type c = GM_CHANNEL) ?kept")
    case True
    with alpha have "channels_of_category lc st category = makeSortChannelsByNameWithDMs lc st ?kept"
      by (auto simp: channels_shown makeSortChannels_def SORT_RECENCY_def SORT_ALPHABETICAL_def SORT_DEFAULT_def)
    then show ?thesis
      using sort_by_name_ordered [OF assms] by (simp add: makeSortChannelsByNameWithDMs_def)
  next
    case False
    with alpha have shown: "channels_of_category lc st category = makeSortChannelsByName lc st ?kept"
      by (auto simp: channels_shown makeSortChannels_def SORT_RECENCY_def SORT_ALPHABETICAL_def SORT_DEFAULT_def)
    have "name_with_dms lc st c = ch_display_name c" if "c \<in> set (makeSortChannelsByName lc st ?kept)" for c
      using that False by (auto simp: makeSortChannelsByName_def name_with_dms_def list_ex_iff)
    then show ?thesis
      unfolding shown
      by (intro sorted_wrt_mono_rel [OF _ sort_by_name_ordered [OF assms, of st ch_display_name ?kept,
            folded makeSortChannelsByName_def]]) auto
  qed
qed

lemma sidebar_order_witness:
  "sorted_wrt (\<lambda>a b. recency False b \<le> recency False a)
     (channels_of_category (\<lambda>_ _ _. 0) (sample_sidebar ''40'') (sample_directs\<lparr>cat_sorting := ''recent''\<rparr>))"
proof -
  have "comparator_contract (\<lambda>_ _. 0 :: int)" by unfold_locales auto
  moreover have "\<not> sidebar_crt (sample_sidebar ''40'')"
    by (simp add: sidebar_crt_def sample_sidebar_def isCollapsedThreadsEnabled_def isCollapsedThreadsAllowed_def)
  ultimately show ?thesis
    using sidebar_order [of "\<lambda>_ _ _. 0" "sample_sidebar ''40''" "sample_directs\<lparr>cat_sorting := ''recent''\<rparr>"] by simp
qed

section \<open>The sidebar of a team\<close>

lemma by_category_loop_done:
  assumes "\<forall>i \<in> set is. \<exists>c. get byId i = Some c \<and> cat_id c = i" and "set is \<subseteq> set ids"
  shows "\<exists>m. by_category_loop lc st ids acc (map (get byId) is) = Some m \<and>
    (\<forall>i. get m i = (if i \<in> set is then Some (channels_of_category lc st (the (get byId i))) else get acc i))"
  using assms
proof (induction "is" arbitrary: acc)
  case (Cons i "is")
  obtain c where c: "get byId i = Some c" "cat_id c = i" using Cons.prems(1) by auto
  have "\<exists>m. by_category_loop lc st ids (put i (channels_of_category lc st c) acc) (map (get byId) is) = Some m \<and>
    (\<forall>j. get m j = (if j \<in> set is then Some (channels_of_category lc st (the (get byId j)))
       else get (put i (channels_of_category lc st c) acc) j))"
    using Cons.prems by (intro Cons.IH) auto
  with Cons.prems(2) c show ?case by fastforce
qed simp

text \<open>
  C22. The sidebar of a team is computed without an exception whenever the categories in the order of the team are loaded, and shows for each of
  them, and for no other, its channels. A channel that is left is shown in none of them.
\<close>

theorem sidebar_of_team:
  assumes "filed_categories (sb_byId st)" and "filed_channels (sb_channels st)"
    and "\<forall>i \<in> set (get_or [] (sb_orderByTeam st) teamId). get (sb_byId st) i \<noteq> None"
    and "category_byId (sb_byId st) (Entities.ChannelTypes (Entities.LEAVE_CHANNEL left team)) = Some n"
  shows "\<exists>m m'. makeGetChannelsByCategory lc st teamId = Some m \<and>
      makeGetChannelsByCategory lc (st\<lparr>sb_byId := upd (sb_byId st) n\<rparr>) teamId = Some m' \<and>
      (\<forall>i. get m i = (if i \<in> set (get_or [] (sb_orderByTeam st) teamId)
         then map_option (channels_of_category lc st) (get (sb_byId st) i) else None)) \<and>
      (\<forall>i cs. get m' i = Some cs \<longrightarrow> left \<notin> ch_id ` set cs)"
proof -
  let ?ids = "get_or [] (sb_orderByTeam st) teamId" and ?st' = "st\<lparr>sb_byId := upd (sb_byId st) n\<rparr>"
  have by_category: "makeGetChannelsByCategory lc s teamId =
      by_category_loop lc s (get_or [] (sb_orderByTeam s) teamId) [] (map (get (sb_byId s)) (get_or [] (sb_orderByTeam s) teamId))" for s
    by (simp add: makeGetChannelsByCategory_def makeGetCategoriesForTeam_def get_or_def split: option.splits)
  have after: "get (upd (sb_byId st) n) k =
      map_option (\<lambda>c. c\<lparr>cat_channel_ids := filter (\<lambda>i. i \<noteq> left) (cat_channel_ids c)\<rparr>) (get (sb_byId st) k)" for k
    using left_channel_categories [OF assms(1), of left team k] assms(4) by simp
  have loaded: "\<exists>c. get (sb_byId st) i = Some c \<and> cat_id c = i" if "i \<in> set ?ids" for i
    using assms(3) that filed_category [OF assms(1)] by fastforce
  obtain m where m: "makeGetChannelsByCategory lc st teamId = Some m"
      "\<forall>i. get m i = (if i \<in> set ?ids then Some (channels_of_category lc st (the (get (sb_byId st) i))) else None)"
    using by_category_loop_done [of ?ids "sb_byId st" ?ids lc st "[]"] loaded unfolding by_category by auto
  have "\<exists>c. get (sb_byId ?st') i = Some c \<and> cat_id c = i" if "i \<in> set ?ids" for i
    using loaded [OF that] by (auto simp: after)
  then obtain m' where m': "makeGetChannelsByCategory lc ?st' teamId = Some m'"
      "\<forall>i. get m' i = (if i \<in> set ?ids then Some (channels_of_category lc ?st' (the (get (sb_byId ?st') i))) else None)"
    using by_category_loop_done [of ?ids "sb_byId ?st'" ?ids lc ?st' "[]"] unfolding by_category by auto
  have "left \<notin> ch_id ` set (channels_of_category lc ?st' c)" if "get (sb_byId ?st') k = Some c" for k c
  proof -
    have "left \<notin> set (cat_channel_ids c)" using that by (auto simp: after)
    moreover have "ch_id d \<in> set (cat_channel_ids c)" if "d \<in> set (channels_of_category lc ?st' c)" for d
    proof -
      have "d \<in> set (open_channels ?st' c)" using that autoclose_subset by (auto simp: channels_shown)
      then show ?thesis using assms(2) by (auto simp: open_channel_iff filed_channels_def)
    qed
    ultimately show ?thesis by blast
  qed
  moreover have "get (sb_byId ?st') i \<noteq> None" if "i \<in> set ?ids" for i
    using assms(3) that by (simp add: after)
  ultimately have "\<forall>i cs. get m' i = Some cs \<longrightarrow> left \<notin> ch_id ` set cs"
    using m'(2) by (metis option.distinct(1) option.exhaust_sel option.inject)
  moreover have "get m i = (if i \<in> set ?ids then map_option (channels_of_category lc st) (get (sb_byId st) i) else None)" for i
    using m(2) loaded by force
  ultimately show ?thesis using m(1) m'(1) by blast
qed

lemma sidebar_of_team_witness:
  "\<exists>m. makeGetChannelsByCategory (\<lambda>_ _ _. 0) ((sample_sidebar ''40'')\<lparr>sb_byId := [(''k'', sample_directs)],
     sb_orderByTeam := [(''t'', [''k''])]\<rparr>) ''t'' = Some m \<and> get m ''k'' \<noteq> None"
proof -
  let ?st = "(sample_sidebar ''40'')\<lparr>sb_byId := [(''k'', sample_directs)], sb_orderByTeam := [(''t'', [''k''])]\<rparr>"
  have "filed_categories (sb_byId ?st)"
    by (simp add: filed_categories_def wf_obj_def sample_directs_def)
  moreover have "filed_channels (sb_channels ?st)" using sample_sidebar_facts(3) by simp
  moreover have "\<exists>n. category_byId (sb_byId ?st) (Entities.ChannelTypes (Entities.LEAVE_CHANNEL ''a'' ''t'')) = Some n" by simp
  ultimately show ?thesis
    using sidebar_of_team [of ?st "''t''" "''a''" "''t''" _ "\<lambda>_ _ _. 0"] by (auto simp: get_or_def)
qed

section \<open>Closing a direct message\<close>

definition direct_show_preference :: "sidebar_store \<Rightarrow> channel \<Rightarrow> string \<Rightarrow> preference" where
  "direct_show_preference st c shown =
     \<lparr>pf_category = CATEGORY_DIRECT_CHANNEL_SHOW, pf_name = key_of (getUserIdFromChannelName (sb_me st) (ch_name c)),
      pf_user_id = sb_me st, pf_value = shown\<rparr>"

lemma crt_after_show_preference:
  assumes "preferences_reducer prefs (RECEIVED_PREFERENCES (Some [p])) = Some prefs'"
    and "pf_category p = CATEGORY_DIRECT_CHANNEL_SHOW"
  shows "isCollapsedThreadsEnabled config prefs' = isCollapsedThreadsEnabled config prefs"
    and "get (prs_myPreferences prefs') (preference_key p) = Some p"
proof -
  have mine: "prs_myPreferences prefs' = put (preference_key p) p (prs_myPreferences prefs)"
    using assms(1) by (auto simp: preferences_reducer_def userPreferences_def myPreferences_def put_preferences_def)
  then show "get (prs_myPreferences prefs') (preference_key p) = Some p" by simp
  have "preference_key p \<noteq> getPreferenceKey CATEGORY_DISPLAY_SETTINGS COLLAPSED_REPLY_THREADS"
    using assms(2) by (simp add: preference_key_def getPreferenceKey_def CATEGORY_DIRECT_CHANNEL_SHOW_def CATEGORY_DISPLAY_SETTINGS_def)
  then show "isCollapsedThreadsEnabled config prefs' = isCollapsedThreadsEnabled config prefs"
    unfolding isCollapsedThreadsEnabled_def getCollapsedThreadsPreference_def get_preference_def getFromPreferences_def
    by (simp add: mine)
qed

text \<open>
  Closing a direct message, which stores a preference, takes it out of the sidebar unless it is unread or looked at; opening it puts it back
  into every category but the one of direct messages, which closes by itself.
\<close>

theorem closed_direct_message_hidden:
  assumes "filed_channels (sb_channels st)"
    and "get (cs_channels (sb_channels st)) i = Some c" and "ch_type c = DM_CHANNEL"
    and "preferences_reducer (sb_preferences st)
      (RECEIVED_PREFERENCES (Some [direct_show_preference st c shown])) = Some prefs"
  defines "st' \<equiv> st\<lparr>sb_preferences := prefs\<rparr>"
  shows "(shown = ''false'' \<and> \<not> isUnreadChannel st i \<and> i \<noteq> sb_current st \<longrightarrow>
      c \<notin> set (channels_of_category lc st' category)) \<and>
    (shown \<noteq> ''false'' \<and> cat_type category \<noteq> DIRECT_MESSAGES \<and> i \<in> set (cat_channel_ids category) \<and> ch_delete_at c = 0 \<longrightarrow>
      c \<in> set (channels_of_category lc st' category))"
proof -
  have id: "ch_id c = i" using assms(1,2) by (simp add: filed_channels_def)
  have cat: "pf_category (direct_show_preference st c shown) = CATEGORY_DIRECT_CHANNEL_SHOW"
    by (simp add: direct_show_preference_def)
  note after = crt_after_show_preference [OF assms(4) cat]
  have unread: "isUnreadChannel st' j = isUnreadChannel st j" for j
    by (simp add: isUnreadChannel_def st'_def sidebar_crt_def after(1))
  have "get (sb_prefs st') (getPreferenceKey CATEGORY_DIRECT_CHANNEL_SHOW (key_of (getUserIdFromChannelName (sb_me st') (ch_name c)))) =
      Some (direct_show_preference st c shown)"
    using after(2) by (simp add: st'_def preference_key_def direct_show_preference_def)
  then have "shown_by_preference st' c \<longleftrightarrow> shown \<noteq> ''false''"
    by (simp add: shown_by_preference_def assms(3) direct_show_preference_def)
  then have "c \<in> set (open_channels st' category) \<longleftrightarrow>
      (\<exists>j \<in> set (cat_channel_ids category). get (cs_channels (sb_channels st)) j = Some c) \<and>
      (i = sb_current st \<or> ch_delete_at c = 0) \<and> (isUnreadChannel st i \<or> i = sb_current st \<or> shown \<noteq> ''false'')"
    by (simp add: open_channel_iff id unread assms(3)) (simp add: st'_def)
  then show ?thesis
    using autoclose_subset [of st' "open_channels st' category" "cat_type category"] assms(2)
    by (auto simp: channels_shown makeFilterAutoclosedDMs_def)
qed

lemma closed_direct_message_hidden_witness:
  "\<exists>st. sample_direct ''b'' \<notin> set (channels_of_category (\<lambda>_ _ _. 0) st sample_directs)"
proof -
  let ?st = "(sample_sidebar ''40'')\<lparr>sb_channels := (sb_channels (sample_sidebar ''40''))\<lparr>cs_messageCounts := []\<rparr>\<rparr>"
  have read: "\<not> isUnreadChannel ?st ''b''"
    by (simp add: isUnreadChannel_def channel_unread_def calculateUnreadCount_def Let_def split: option.splits)
  have "filed_channels (sb_channels ?st)" using sample_sidebar_facts(3) by (simp add: filed_channels_def)
  moreover have "get (cs_channels (sb_channels ?st)) ''b'' = Some (sample_direct ''b'')"
    using sample_sidebar_facts(7) by simp
  moreover have "ch_type (sample_direct ''b'') = DM_CHANNEL" by (simp add: sample_direct_def)
  moreover have "\<exists>prefs. preferences_reducer (sb_preferences ?st)
      (RECEIVED_PREFERENCES (Some [direct_show_preference ?st (sample_direct ''b'') ''false''])) = Some prefs"
    by (simp add: preferences_reducer_def userPreferences_def)
  moreover have "sb_current ?st = ''a''" using sample_sidebar_facts(4) by simp
  ultimately show ?thesis
    using closed_direct_message_hidden [of ?st "''b''" "sample_direct ''b''" "''false''" _ "\<lambda>_ _ _. 0" sample_directs] read by auto
qed

end
