(* ===== verification/Search.thy ===== *)
theory Search
  imports Preferences
begin

text \<open>
  \<open>reducers/entities/search.ts\<close> and what \<open>actions/search.ts\<close> dispatches for searches of posts and files: results and their
  pages, flagged and pinned posts. Requests are answered by arguments.
\<close>

section \<open>Data\<close>

record search_parameter =
  se_terms :: string
  se_is_or_search :: bool
  se_page :: nat
  se_per_page :: nat
  se_include_deleted_channels :: bool

text \<open>The last search in a team; a flag that was never set is \<open>None\<close>.\<close>

record current_search =
  cu_params :: search_parameter
  cu_isEnd :: "bool option"
  cu_isFilesEnd :: "bool option"

record truncation_info =
  tr_posts :: int
  tr_files :: int

record search_state =
  srs_flagged :: "string list"
  srs_pinned :: "string list obj"
  srs_results :: "string list"
  srs_fileResults :: "string list"
  srs_matches :: "string list obj"
  srs_current :: "current_search obj"
  srs_isSearchingTerm :: bool
  srs_isSearchGettingMore :: bool
  srs_isLimitedResults :: int
  srs_truncationInfo :: truncation_info

definition init_search_state :: search_state where
  "init_search_state = \<lparr>srs_flagged = [], srs_pinned = [], srs_results = [], srs_fileResults = [], srs_matches = [],
     srs_current = [], srs_isSearchingTerm = False, srs_isSearchGettingMore = False, srs_isLimitedResults = - 1,
     srs_truncationInfo = \<lparr>tr_posts = 0, tr_files = 0\<rparr>\<rparr>"

text \<open>What the server finds: \<open>matches\<close> may be missing, and the time is 0 when nothing is beyond the limit.\<close>

record search_results =
  sx_order :: "string list"
  sx_matches :: "string list obj option"
  sx_first_inaccessible_post_time :: int

datatype search_kind = SearchPosts | SearchFiles

datatype search_action =
    SEARCH_POSTS_REQUEST bool
  | SEARCH_POSTS_SUCCESS
  | RECEIVED_SEARCH_POSTS search_results bool
  | RECEIVED_SEARCH_FILES "string list" bool
  | RECEIVED_SEARCH_FLAGGED_POSTS "string list"
  | RECEIVED_SEARCH_PINNED_POSTS string "string list"
  | RECEIVED_SEARCH_TERM string search_parameter "bool option" "bool option"
  | RECEIVED_SEARCH_TRUNCATION_INFO int search_kind
  | REMOVE_SEARCH_POSTS
  | REMOVE_SEARCH_FILES
  | SearchPost post_action
  | SearchPreferences preference_action
  | SearchLogout
  | SearchOther string

section \<open>Slices\<close>

definition results :: "string list \<Rightarrow> search_action \<Rightarrow> string list nxt" where
  "results st a =
     (case a of
        RECEIVED_SEARCH_POSTS found isGettingMore \<Rightarrow>
          New (if isGettingMore then remdups_js (st @ sx_order found) else sx_order found)
      | SearchPost (POST_REMOVED p) \<Rightarrow>
          (case indexOf st (post_id p) of None \<Rightarrow> Same | Some i \<Rightarrow> New (remove_at i st))
      | REMOVE_SEARCH_POSTS \<Rightarrow> New []
      | SearchLogout \<Rightarrow> New []
      | _ \<Rightarrow> Same)"

definition fileResults :: "string list \<Rightarrow> search_action \<Rightarrow> string list nxt" where
  "fileResults st a =
     (case a of
        RECEIVED_SEARCH_FILES found isGettingMore \<Rightarrow> New (if isGettingMore then remdups_js (st @ found) else found)
      | REMOVE_SEARCH_FILES \<Rightarrow> New []
      | SearchLogout \<Rightarrow> New []
      | _ \<Rightarrow> Same)"

definition matches :: "string list obj \<Rightarrow> search_action \<Rightarrow> string list obj nxt" where
  "matches st a =
     (case a of
        RECEIVED_SEARCH_POSTS found isGettingMore \<Rightarrow>
          New (let found = (case sx_matches found of None \<Rightarrow> [] | Some m \<Rightarrow> m)
               in if isGettingMore then obj_spread st found else found)
      | SearchPost (POST_REMOVED p) \<Rightarrow> (if get st (post_id p) = None then Same else New (del (post_id p) st))
      | REMOVE_SEARCH_POSTS \<Rightarrow> New []
      | SearchLogout \<Rightarrow> New []
      | _ \<Rightarrow> Same)"

definition flag_step :: "string list \<times> bool \<Rightarrow> preference \<Rightarrow> string list \<times> bool" where
  "flag_step acc p =
     (let (nextState, hasNew) = acc
      in if pf_category p = CATEGORY_FLAGGED_POST \<and> (pf_name p = [] \<or> pf_name p \<notin> set nextState)
         then (pf_name p # nextState, True) else (nextState, hasNew))"

text \<open>The index is that of the previous list, also when entries before it have been removed already.\<close>

definition unflag_step :: "string list \<Rightarrow> string list \<times> bool \<Rightarrow> preference \<Rightarrow> string list \<times> bool" where
  "unflag_step st acc p =
     (let (nextState, removed) = acc
      in if pf_category p = CATEGORY_FLAGGED_POST
         then (case indexOf st (pf_name p) of None \<Rightarrow> (nextState, removed) | Some i \<Rightarrow> (remove_at i nextState, True))
         else (nextState, removed))"

definition flagged :: "string list \<Rightarrow> search_action \<Rightarrow> string list nxt" where
  "flagged st a =
     (case a of
        RECEIVED_SEARCH_FLAGGED_POSTS ids \<Rightarrow> New ids
      | SearchPost (POST_REMOVED p) \<Rightarrow>
          (case indexOf st (post_id p) of None \<Rightarrow> Same | Some i \<Rightarrow> New (remove_at i st))
      | SearchPreferences (RECEIVED_PREFERENCES (Some ps)) \<Rightarrow>
          (let (nextState, hasNew) = foldl flag_step (st, False) ps in if hasNew then New nextState else Same)
      | SearchPreferences (DELETED_PREFERENCES (Some ps)) \<Rightarrow>
          (let (nextState, removed) = foldl (unflag_step st) (st, False) ps in if removed then New nextState else Same)
      | REMOVE_SEARCH_POSTS \<Rightarrow> New []
      | SearchLogout \<Rightarrow> New []
      | _ \<Rightarrow> Same)"

definition removePinnedPost :: "string list obj \<Rightarrow> post \<Rightarrow> string list obj nxt" where
  "removePinnedPost st p =
     (case get st (channel_id p) of
        None \<Rightarrow> Same
      | Some ids \<Rightarrow>
          (case indexOf ids (post_id p) of None \<Rightarrow> Same | Some i \<Rightarrow> New (put (channel_id p) (remove_at i ids) st)))"

text \<open>The list of pinned posts of the action is reversed in place; \<open>pinned_order_after\<close> is what the action holds afterwards.\<close>

definition pinned :: "string list obj \<Rightarrow> search_action \<Rightarrow> string list obj nxt" where
  "pinned st a =
     (case a of
        RECEIVED_SEARCH_PINNED_POSTS channelId ids \<Rightarrow> New (put channelId (rev ids) st)
      | SearchPost (POST_DELETED p) \<Rightarrow> removePinnedPost st p
      | SearchPost (POST_REMOVED p) \<Rightarrow> removePinnedPost st p
      | SearchPost (RECEIVED_POST p crt) \<Rightarrow>
          (if p_is_pinned (core p)
           then (let ids = get_or [] st (channel_id p)
                 in New (put (channel_id p) (if post_id p \<in> set ids then ids else post_id p # ids) st))
           else removePinnedPost st p)
      | SearchLogout \<Rightarrow> New []
      | _ \<Rightarrow> Same)"

definition pinned_order_after :: "search_action \<Rightarrow> search_action" where
  "pinned_order_after a =
     (case a of RECEIVED_SEARCH_PINNED_POSTS channelId ids \<Rightarrow> RECEIVED_SEARCH_PINNED_POSTS channelId (rev ids) | _ \<Rightarrow> a)"

definition ALL_TEAMS :: string where "ALL_TEAMS = ''ALL_TEAMS''"

definition search_key :: "string \<Rightarrow> string" where
  "search_key teamId = (if teamId = [] then ALL_TEAMS else teamId)"

definition current_searches :: "current_search obj \<Rightarrow> search_action \<Rightarrow> current_search obj nxt" where
  "current_searches st a =
     (case a of
        RECEIVED_SEARCH_TERM teamId params isEnd isFilesEnd \<Rightarrow>
          New (put (search_key teamId)
            \<lparr>cu_params = params,
             cu_isEnd = (case (isEnd, get st (search_key teamId)) of (None, Some c) \<Rightarrow> cu_isEnd c | _ \<Rightarrow> isEnd),
             cu_isFilesEnd = (case (isFilesEnd, get st (search_key teamId)) of (None, Some c) \<Rightarrow> cu_isFilesEnd c | _ \<Rightarrow> isFilesEnd)\<rparr> st)
      | SearchLogout \<Rightarrow> New []
      | _ \<Rightarrow> Same)"

definition isSearchingTerm :: "bool \<Rightarrow> search_action \<Rightarrow> bool" where
  "isSearchingTerm st a =
     (case a of SEARCH_POSTS_REQUEST isGettingMore \<Rightarrow> \<not> isGettingMore | SEARCH_POSTS_SUCCESS \<Rightarrow> False | _ \<Rightarrow> st)"

definition isSearchGettingMore :: "bool \<Rightarrow> search_action \<Rightarrow> bool" where
  "isSearchGettingMore st a =
     (case a of SEARCH_POSTS_REQUEST isGettingMore \<Rightarrow> isGettingMore | SEARCH_POSTS_SUCCESS \<Rightarrow> False | _ \<Rightarrow> st)"

definition isLimitedResults :: "int \<Rightarrow> search_action \<Rightarrow> int" where
  "isLimitedResults st a =
     (case a of
        SEARCH_POSTS_REQUEST isGettingMore \<Rightarrow> (if isGettingMore then st else - 1)
      | RECEIVED_SEARCH_POSTS found _ \<Rightarrow>
          (if sx_first_inaccessible_post_time found \<noteq> 0 then sx_first_inaccessible_post_time found else st)
      | _ \<Rightarrow> st)"

definition truncationInfo :: "truncation_info \<Rightarrow> search_action \<Rightarrow> truncation_info nxt" where
  "truncationInfo st a =
     (case a of
        RECEIVED_SEARCH_TRUNCATION_INFO t k \<Rightarrow>
          New (case k of SearchPosts \<Rightarrow> st\<lparr>tr_posts := t\<rparr> | SearchFiles \<Rightarrow> st\<lparr>tr_files := t\<rparr>)
      | REMOVE_SEARCH_POSTS \<Rightarrow> New (st\<lparr>tr_posts := 0\<rparr>)
      | REMOVE_SEARCH_FILES \<Rightarrow> New (st\<lparr>tr_files := 0\<rparr>)
      | SearchLogout \<Rightarrow> New \<lparr>tr_posts = 0, tr_files = 0\<rparr>
      | _ \<Rightarrow> Same)"

definition search_reducer :: "search_state \<Rightarrow> search_action \<Rightarrow> search_state" where
  "search_reducer st a =
     \<lparr>srs_flagged = upd (srs_flagged st) (flagged (srs_flagged st) a),
      srs_pinned = upd (srs_pinned st) (pinned (srs_pinned st) a),
      srs_results = upd (srs_results st) (results (srs_results st) a),
      srs_fileResults = upd (srs_fileResults st) (fileResults (srs_fileResults st) a),
      srs_matches = upd (srs_matches st) (matches (srs_matches st) a),
      srs_current = upd (srs_current st) (current_searches (srs_current st) a),
      srs_isSearchingTerm = isSearchingTerm (srs_isSearchingTerm st) a,
      srs_isSearchGettingMore = isSearchGettingMore (srs_isSearchGettingMore st) a,
      srs_isLimitedResults = isLimitedResults (srs_isLimitedResults st) a,
      srs_truncationInfo = upd (srs_truncationInfo st) (truncationInfo (srs_truncationInfo st) a)\<rparr>"

section \<open>Searching\<close>

text \<open>
  What is dispatched when a search begins, and when it is answered; a request that fails dispatches nothing more to this reducer.
\<close>

definition search_posts_begun :: "search_parameter \<Rightarrow> search_action list" where
  "search_posts_begun params =
     (let isGettingMore = se_page params > 0
      in SEARCH_POSTS_REQUEST isGettingMore #
         (if isGettingMore then [] else [RECEIVED_SEARCH_TRUNCATION_INFO 0 SearchPosts]))"

definition search_posts_answered :: "string \<Rightarrow> search_parameter \<Rightarrow> search_results \<Rightarrow> search_action list" where
  "search_posts_answered teamId params found =
     [RECEIVED_SEARCH_POSTS found (se_page params > 0),
      RECEIVED_SEARCH_TERM teamId params (Some (sx_order found = [])) None,
      SEARCH_POSTS_SUCCESS] @
     (if sx_first_inaccessible_post_time found > 0
      then [RECEIVED_SEARCH_TRUNCATION_INFO (sx_first_inaccessible_post_time found) SearchPosts] else [])"

definition searchPostsWithParams :: "search_state \<Rightarrow> string \<Rightarrow> search_parameter \<Rightarrow> search_results option \<Rightarrow> search_state" where
  "searchPostsWithParams st teamId params answer =
     foldl search_reducer st (search_posts_begun params @
       (case answer of None \<Rightarrow> [] | Some found \<Rightarrow> search_posts_answered teamId params found))"

text \<open>The parameters of the next page, unless the last one was the end. Without a search in the team it throws.\<close>

definition next_page :: "search_state \<Rightarrow> string \<Rightarrow> search_parameter option option" where
  "next_page st teamId =
     (case get (srs_current st) (search_key teamId) of
        None \<Rightarrow> None
      | Some c \<Rightarrow> Some (if cu_isEnd c = Some True then None else Some ((cu_params c)\<lparr>se_page := se_page (cu_params c) + 1\<rparr>)))"

definition getMorePostsForSearch :: "search_state \<Rightarrow> string \<Rightarrow> search_results option \<Rightarrow> search_state option" where
  "getMorePostsForSearch st teamId answer =
     (case next_page st teamId of
        None \<Rightarrow> None
      | Some None \<Rightarrow> Some st
      | Some (Some params) \<Rightarrow> Some (searchPostsWithParams st teamId params answer))"

definition searchFilesWithParams :: "search_state \<Rightarrow> string \<Rightarrow> search_parameter \<Rightarrow> string list option \<Rightarrow> search_state" where
  "searchFilesWithParams st teamId params answer =
     foldl search_reducer st
       ((if se_page params > 0 then [] else [RECEIVED_SEARCH_TRUNCATION_INFO 0 SearchFiles]) @
        (case answer of None \<Rightarrow> []
         | Some ids \<Rightarrow> [RECEIVED_SEARCH_FILES ids (se_page params > 0),
             RECEIVED_SEARCH_TERM teamId params None (Some (ids = []))]))"

definition clearSearch :: "search_state \<Rightarrow> search_state" where
  "clearSearch st = foldl search_reducer st [REMOVE_SEARCH_POSTS, REMOVE_SEARCH_FILES]"

definition isSearchTruncated :: "search_state \<Rightarrow> search_kind \<Rightarrow> bool" where
  "isSearchTruncated st k \<longleftrightarrow>
     (case k of SearchPosts \<Rightarrow> tr_posts (srs_truncationInfo st) > 0 | SearchFiles \<Rightarrow> tr_files (srs_truncationInfo st) > 0)"

end
