(* ===== verification/SearchProps.thy ===== *)
theory SearchProps
  imports Search PreferencesProps
begin

text \<open>
  The pages of a search are put together without repeating a post; the list of flagged posts follows the preferences
  that flag them; a post is listed as pinned in its channel exactly while it is.
\<close>

section \<open>Pages\<close>

lemma remdups_js_snoc: "remdups_js (xs @ [x]) = set_add x (remdups_js xs)"
  by (simp add: remdups_js_def)

lemma remdups_js_distinct: "distinct xs \<Longrightarrow> remdups_js xs = xs"
proof (induction xs rule: rev_induct)
  case (snoc x xs)
  then show ?case by (simp add: remdups_js_snoc set_add_def)
qed (simp add: remdups_js_def)

lemma remdups_js_append: "remdups_js (remdups_js xs @ ys) = remdups_js (xs @ ys)"
proof (induction ys rule: rev_induct)
  case (snoc y ys)
  then show ?case by (metis append.assoc remdups_js_snoc)
qed (simp add: remdups_js_distinct)

definition answered_search :: "search_state \<Rightarrow> string \<Rightarrow> search_parameter \<Rightarrow> search_results list \<Rightarrow> string list \<Rightarrow> bool" where
  "answered_search st teamId params pages found \<longleftrightarrow>
     srs_results st = found \<and> \<not> srs_isSearchingTerm st \<and> \<not> srs_isSearchGettingMore st \<and>
     (\<exists>c. get (srs_current st) (search_key teamId) = Some c \<and>
        cu_params c = params\<lparr>se_page := length pages - 1\<rparr> \<and> cu_isEnd c = Some (sx_order (last pages) = []))"

lemma search_reducer_slices:
  "srs_results (search_reducer st a) = upd (srs_results st) (results (srs_results st) a)"
  "srs_current (search_reducer st a) = upd (srs_current st) (current_searches (srs_current st) a)"
  "srs_isSearchingTerm (search_reducer st a) = isSearchingTerm (srs_isSearchingTerm st) a"
  "srs_isSearchGettingMore (search_reducer st a) = isSearchGettingMore (srs_isSearchGettingMore st) a"
  by (simp_all add: search_reducer_def)

lemma search_answered:
  "answered_search (searchPostsWithParams st teamId (params\<lparr>se_page := n\<rparr>) (Some f)) teamId params (replicate n f @ [f])
     (if n > 0 then remdups_js (srs_results st @ sx_order f) else sx_order f)"
  by (simp add: answered_search_def searchPostsWithParams_def search_posts_begun_def search_posts_answered_def
      search_reducer_slices results_def current_searches_def isSearchingTerm_def isSearchGettingMore_def Let_def)

text \<open>Asking for more as often as there are answers.\<close>

definition more_pages :: "string \<Rightarrow> search_state option \<Rightarrow> search_results list \<Rightarrow> search_state option" where
  "more_pages teamId st fs = foldl (\<lambda>st f. Option.bind st (\<lambda>st. getMorePostsForSearch st teamId (Some f))) st fs"

lemma more_pages_loop:
  assumes "answered_search st teamId params pages (remdups_js (concat (map sx_order pages)))" and "pages \<noteq> []"
    and "list_all (\<lambda>f. sx_order f \<noteq> []) (butlast (pages @ fs))"
  shows "\<exists>st'. more_pages teamId (Some st) fs = Some st' \<and>
    answered_search st' teamId params (pages @ fs) (remdups_js (concat (map sx_order (pages @ fs))))"
  using assms
proof (induction fs arbitrary: st pages)
  case (Cons f fs)
  from Cons.prems(1) obtain c where c: "get (srs_current st) (search_key teamId) = Some c"
      "cu_params c = params\<lparr>se_page := length pages - 1\<rparr>" "cu_isEnd c = Some (sx_order (last pages) = [])"
      "srs_results st = remdups_js (concat (map sx_order pages))"
    by (auto simp: answered_search_def)
  have "last pages \<in> set (butlast (pages @ f # fs))"
    using Cons.prems(2) by (simp add: butlast_append)
  then have "sx_order (last pages) \<noteq> []" using Cons.prems(3) by (simp add: list_all_iff)
  then have more: "getMorePostsForSearch st teamId (Some f) =
      Some (searchPostsWithParams st teamId (params\<lparr>se_page := length pages\<rparr>) (Some f))"
    using c Cons.prems(2) by (simp add: getMorePostsForSearch_def next_page_def)
  have "answered_search (searchPostsWithParams st teamId (params\<lparr>se_page := length pages\<rparr>) (Some f)) teamId params
      (pages @ [f]) (remdups_js (concat (map sx_order (pages @ [f]))))"
    using search_answered [where st = st and teamId = teamId and params = params and n = "length pages" and f = f] Cons.prems(2)
    by (simp add: answered_search_def c(4) remdups_js_append)
  from Cons.IH [OF this] Cons.prems(3) more show ?case by (simp add: more_pages_def)
qed (simp add: more_pages_def)

text \<open>
  C21. A search that is continued page by page, until a page is empty, never throws; its results are the posts of the pages in
  the order in which they came, each once; and the end is known as soon as a page is empty, after which asking for more changes nothing.
\<close>

theorem search_pages:
  assumes "distinct (sx_order f)" and "se_page params = 0" and "list_all (\<lambda>f. sx_order f \<noteq> []) (butlast (f # fs))"
  shows "\<exists>st'. more_pages teamId (Some (searchPostsWithParams st teamId params (Some f))) fs = Some st' \<and>
    srs_results st' = remdups_js (concat (map sx_order (f # fs))) \<and> \<not> srs_isSearchingTerm st' \<and>
    (sx_order (last (f # fs)) = [] \<longrightarrow> getMorePostsForSearch st' teamId answer = Some st')"
proof -
  have "params\<lparr>se_page := 0\<rparr> = params" using assms(2) by simp
  then have "answered_search (searchPostsWithParams st teamId params (Some f)) teamId params [f]
      (remdups_js (concat (map sx_order [f])))"
    using search_answered [where st = st and teamId = teamId and params = params and n = 0 and f = f] by (simp add: remdups_js_distinct [OF assms(1)])
  from more_pages_loop [OF this, of fs] assms(3) obtain st' where
    st': "more_pages teamId (Some (searchPostsWithParams st teamId params (Some f))) fs = Some st'"
      "answered_search st' teamId params (f # fs) (remdups_js (concat (map sx_order (f # fs))))"
    by auto
  then show ?thesis by (auto simp: answered_search_def getMorePostsForSearch_def next_page_def)
qed

lemma search_pages_witness:
  "\<exists>st'. more_pages ''t'' (Some (searchPostsWithParams init_search_state ''t''
      \<lparr>se_terms = ''x'', se_is_or_search = False, se_page = 0, se_per_page = 2, se_include_deleted_channels = False\<rparr>
      (Some \<lparr>sx_order = [''a'', ''b''], sx_matches = None, sx_first_inaccessible_post_time = 0\<rparr>)))
      [\<lparr>sx_order = [''b'', ''c''], sx_matches = None, sx_first_inaccessible_post_time = 0\<rparr>] = Some st' \<and>
    srs_results st' = [''a'', ''b'', ''c'']"
  using search_pages [of "\<lparr>sx_order = [''a'', ''b''], sx_matches = None, sx_first_inaccessible_post_time = 0\<rparr>"
      "\<lparr>se_terms = ''x'', se_is_or_search = False, se_page = 0, se_per_page = 2, se_include_deleted_channels = False\<rparr>"
      "[\<lparr>sx_order = [''b'', ''c''], sx_matches = None, sx_first_inaccessible_post_time = 0\<rparr>]" "''t''" init_search_state]
  by (simp add: remdups_js_def set_add_def) blast

text \<open>A search that fails leaves the sign that a search is under way for ever.\<close>

lemma failed_search_keeps_searching:
  "se_page params = 0 \<Longrightarrow> srs_isSearchingTerm (searchPostsWithParams st teamId params None)"
  by (simp add: searchPostsWithParams_def search_posts_begun_def search_reducer_slices isSearchingTerm_def Let_def)

section \<open>Flagged posts\<close>

text \<open>The list of flagged posts is in step with the preferences.\<close>

definition flags_in_step :: "preferences_state \<Rightarrow> search_state \<Rightarrow> bool" where
  "flags_in_step prefs st \<longleftrightarrow> distinct (srs_flagged st) \<and> [] \<notin> set (srs_flagged st) \<and>
     (\<forall>n. n \<in> set (srs_flagged st) \<longleftrightarrow>
        n \<noteq> [] \<and> get (prs_myPreferences prefs) (getPreferenceKey CATEGORY_FLAGGED_POST n) \<noteq> None)"

definition flag_names :: "preference list \<Rightarrow> string set" where
  "flag_names ps = {pf_name p |p. p \<in> set ps \<and> pf_category p = CATEGORY_FLAGGED_POST}"

text \<open>What is asked of a preference: no category that begins like the key of a flag, and a flag names its post.\<close>

definition good_flag :: "preference \<Rightarrow> bool" where
  "good_flag p \<longleftrightarrow> \<not> starts_with ''flagged_post-'' (pf_category p) \<and> (pf_category p = CATEGORY_FLAGGED_POST \<longrightarrow> pf_name p \<noteq> [])"

lemma flag_names_Cons:
  "flag_names (p # ps) = (if pf_category p = CATEGORY_FLAGGED_POST then insert (pf_name p) (flag_names ps) else flag_names ps)"
  by (auto simp: flag_names_def)

lemma flag_key:
  assumes "good_flag p"
  shows "getPreferenceKey CATEGORY_FLAGGED_POST n = preference_key p \<longleftrightarrow> pf_category p = CATEGORY_FLAGGED_POST \<and> n = pf_name p"
proof
  let ?f = "''flagged_post''" and ?c = "pf_category p"
  assume "getPreferenceKey CATEGORY_FLAGGED_POST n = preference_key p"
  then have eq: "?f @ CHR ''-'' # CHR ''-'' # n = ?c @ CHR ''-'' # CHR ''-'' # pf_name p"
    by (simp add: getPreferenceKey_def preference_key_def CATEGORY_FLAGGED_POST_def)
  then obtain us where us: "?f = ?c @ us \<and> us @ CHR ''-'' # CHR ''-'' # n = CHR ''-'' # CHR ''-'' # pf_name p \<or>
      ?f @ us = ?c \<and> CHR ''-'' # CHR ''-'' # n = us @ CHR ''-'' # CHR ''-'' # pf_name p"
    unfolding append_eq_append_conv2 by blast
  have "us = []"
  proof (rule ccontr)
    assume "us \<noteq> []"
    then obtain u vs where u: "us = u # vs" by (cases us) auto
    from us show False
    proof
      assume "?f = ?c @ us \<and> us @ CHR ''-'' # CHR ''-'' # n = CHR ''-'' # CHR ''-'' # pf_name p"
      then have "CHR ''-'' \<in> set ?f" using u by (metis append_Cons in_set_conv_decomp list.inject)
      then show False by simp
    next
      assume "?f @ us = ?c \<and> CHR ''-'' # CHR ''-'' # n = us @ CHR ''-'' # CHR ''-'' # pf_name p"
      then have "?c = ?f @ CHR ''-'' # vs" using u by auto
      then show False using assms by (simp add: good_flag_def starts_with_def)
    qed
  qed
  then show "?c = CATEGORY_FLAGGED_POST \<and> n = pf_name p" using us by (auto simp: CATEGORY_FLAGGED_POST_def)
qed (simp add: preference_key_def)

lemma flag_loop:
  assumes "list_all good_flag ps" and "distinct fl"
  shows "distinct (fst (foldl flag_step (fl, b) ps)) \<and> set (fst (foldl flag_step (fl, b) ps)) = set fl \<union> flag_names ps \<and>
    (snd (foldl flag_step (fl, b) ps) \<longleftrightarrow> b \<or> \<not> flag_names ps \<subseteq> set fl)"
  using assms
proof (induction ps arbitrary: fl b)
  case (Cons p ps)
  show ?case
  proof (cases "pf_category p = CATEGORY_FLAGGED_POST \<and> pf_name p \<notin> set fl")
    case True
    with Cons.prems Cons.IH [of "pf_name p # fl" True] show ?thesis
      by (simp add: flag_step_def good_flag_def flag_names_Cons)
  next
    case False
    with Cons.prems Cons.IH [of fl b] show ?thesis
      by (auto simp: flag_step_def good_flag_def flag_names_Cons)
  qed
qed (simp add: flag_names_def)

lemma flags_received:
  assumes "list_all good_flag ps" and "distinct fl"
  shows "distinct (upd fl (flagged fl (SearchPreferences (RECEIVED_PREFERENCES (Some ps))))) \<and>
    set (upd fl (flagged fl (SearchPreferences (RECEIVED_PREFERENCES (Some ps))))) = set fl \<union> flag_names ps"
  using flag_loop [OF assms, of False] assms(2) by (auto simp: flagged_def split_beta)

lemma preferences_received:
  assumes "list_all good_flag ps"
  shows "get (put_preferences my ps) (getPreferenceKey CATEGORY_FLAGGED_POST n) \<noteq> None \<longleftrightarrow>
    get my (getPreferenceKey CATEGORY_FLAGGED_POST n) \<noteq> None \<or> n \<in> flag_names ps"
  using assms unfolding put_preferences_def dom_foldl_put
  by (auto simp: flag_key flag_names_def list_all_iff image_iff)

text \<open>With one flag to remove the index is right.\<close>

lemma unflag_others:
  "\<forall>p \<in> set ps. pf_category p \<noteq> CATEGORY_FLAGGED_POST \<Longrightarrow> foldl (unflag_step st) acc ps = acc"
  by (induction ps) (auto simp: unflag_step_def split_beta)

lemma flags_deleted:
  assumes "length (filter (\<lambda>p. pf_category p = CATEGORY_FLAGGED_POST) ps) \<le> 1"
  shows "upd fl (flagged fl (SearchPreferences (DELETED_PREFERENCES (Some ps)))) =
    (case find (\<lambda>p. pf_category p = CATEGORY_FLAGGED_POST) ps of None \<Rightarrow> fl | Some p \<Rightarrow> remove1 (pf_name p) fl)"
proof (cases "find (\<lambda>p. pf_category p = CATEGORY_FLAGGED_POST) ps")
  case None
  then have "\<forall>p \<in> set ps. pf_category p \<noteq> CATEGORY_FLAGGED_POST" by (simp add: find_None_iff)
  from unflag_others [OF this] None show ?thesis by (simp add: flagged_def)
next
  case (Some p)
  have skip: "\<forall>q \<in> set us. \<not> P q \<Longrightarrow> find P (us @ xs) = find P xs" for P us and xs :: "preference list"
    by (induction us) auto
  from Some have "\<exists>q \<in> set ps. pf_category q = CATEGORY_FLAGGED_POST" by (auto simp: find_Some_iff)
  then obtain us q vs where "ps = us @ q # vs" "pf_category q = CATEGORY_FLAGGED_POST"
      "\<forall>q \<in> set us. pf_category q \<noteq> CATEGORY_FLAGGED_POST"
    using split_list_first_prop [of ps "\<lambda>q. pf_category q = CATEGORY_FLAGGED_POST"] by blast
  moreover from this Some have "q = p" by (simp add: skip)
  ultimately have ps: "ps = us @ p # vs" "\<forall>q \<in> set us. pf_category q \<noteq> CATEGORY_FLAGGED_POST"
      "pf_category p = CATEGORY_FLAGGED_POST"
    by simp_all
  then have "\<forall>q \<in> set vs. pf_category q \<noteq> CATEGORY_FLAGGED_POST"
    using assms by (auto simp: filter_empty_conv)
  with ps Some show ?thesis
    using unflag_others [of us fl] unflag_others [of vs fl]
    by (auto simp: flagged_def unflag_step_def remove_at_indexOf indexOf_None remove1_idem split: option.splits)
qed

text \<open>The preferences an action brings, and what the reducer of searches sees of the action.\<close>

definition brought :: "preference_action \<Rightarrow> preference list" where
  "brought a =
     (case a of
        RECEIVED_ALL_PREFERENCES (Some ps) \<Rightarrow> ps
      | RECEIVED_PREFERENCES (Some ps) \<Rightarrow> ps
      | DELETED_PREFERENCES (Some ps) \<Rightarrow> ps
      | PreferenceLogin (Some ps) \<Rightarrow> ps
      | _ \<Rightarrow> [])"

definition search_view :: "preference_action \<Rightarrow> search_action" where
  "search_view a =
     (case a of PreferenceLogin ps \<Rightarrow> SearchOther [] | PreferenceLogout \<Rightarrow> SearchLogout | _ \<Rightarrow> SearchPreferences a)"

lemma deleted_in_step:
  assumes step: "flags_in_step prefs st" and good: "list_all good_flag ps"
    and one: "length (filter (\<lambda>p. pf_category p = CATEGORY_FLAGGED_POST) ps) \<le> 1"
    and prefs': "prs_myPreferences prefs' = foldl (\<lambda>next p. del (preference_key p) next) (prs_myPreferences prefs) ps"
  shows "flags_in_step prefs' (search_reducer st (SearchPreferences (DELETED_PREFERENCES (Some ps))))"
proof -
  let ?key = "getPreferenceKey CATEGORY_FLAGGED_POST" and ?fl = "srs_flagged st"
  let ?after = "upd ?fl (flagged ?fl (SearchPreferences (DELETED_PREFERENCES (Some ps))))"
  have old: "distinct ?fl" "[] \<notin> set ?fl" "\<And>n. n \<in> set ?fl \<longleftrightarrow> n \<noteq> [] \<and> get (prs_myPreferences prefs) (?key n) \<noteq> None"
    using step by (auto simp: flags_in_step_def)
  have gone: "get (prs_myPreferences prefs') (?key n) =
      (if n \<in> flag_names ps then None else get (prs_myPreferences prefs) (?key n))" for n
    using good by (auto simp: prefs' flag_key flag_names_def list_all_iff image_iff)
  have "set ?after = set ?fl - flag_names ps \<and> distinct ?after"
  proof (cases "find (\<lambda>p. pf_category p = CATEGORY_FLAGGED_POST) ps")
    case None
    then have "flag_names ps = {}" by (auto simp: find_None_iff flag_names_def)
    with None old(1) flags_deleted [OF one] show ?thesis by simp
  next
    case (Some p)
    have "flag_names ps = pf_name ` set (filter (\<lambda>p. pf_category p = CATEGORY_FLAGGED_POST) ps)"
      by (auto simp: flag_names_def)
    moreover have "p \<in> set (filter (\<lambda>p. pf_category p = CATEGORY_FLAGGED_POST) ps)"
      using Some by (auto simp: find_Some_iff)
    ultimately have "flag_names ps = {pf_name p}"
      using one by (cases "filter (\<lambda>p. pf_category p = CATEGORY_FLAGGED_POST) ps") auto
    with Some old(1) flags_deleted [OF one] show ?thesis by simp
  qed
  then show ?thesis using old gone by (auto simp: flags_in_step_def search_reducer_def)
qed

lemma received_in_step:
  assumes step: "flags_in_step prefs st" and good: "list_all good_flag ps"
    and prefs': "prs_myPreferences prefs' = put_preferences (prs_myPreferences prefs) ps"
  shows "flags_in_step prefs' (search_reducer st (SearchPreferences (RECEIVED_PREFERENCES (Some ps))))"
proof -
  have "[] \<notin> flag_names ps" using good by (auto simp: flag_names_def list_all_iff good_flag_def)
  then show ?thesis
    using step flags_received [OF good, of "srs_flagged st"] preferences_received [OF good, of "prs_myPreferences prefs"]
    by (auto simp: flags_in_step_def prefs' search_reducer_def)
qed

text \<open>All preferences at once replace what was flagged before, and leave the list alone.\<close>

lemma replaced_in_step:
  assumes step: "flags_in_step prefs st" and good: "list_all good_flag ps"
    and prefs': "prs_myPreferences prefs' = put_preferences [] ps" and same: "srs_flagged st' = srs_flagged st"
  shows "flags_in_step prefs' st' \<longleftrightarrow> flag_names ps = set (srs_flagged st)"
proof -
  have "[] \<notin> flag_names ps" using good by (auto simp: flag_names_def list_all_iff good_flag_def)
  then show ?thesis
    using step preferences_received [OF good, of "[]"] by (auto simp: flags_in_step_def prefs' same)
qed

text \<open>
  C24. The flagged posts and the preferences that flag them: whatever an action does to the preferences, the two stay in step, in
  all cases but one. When all preferences arrive at once, as after a login, they replace the old ones while the list of flagged
  posts stays, so the two stay in step exactly if the new ones flag the posts that are listed. It is asked that no category
  begins with flagged_post-, that a flag that is brought names a post, and that at most one flag is deleted at once.
\<close>

theorem flagged_posts_follow_preferences:
  assumes "flags_in_step prefs st" and "preferences_reducer prefs a = Some prefs'" and "list_all good_flag (brought a)"
    and "\<forall>ps. a = DELETED_PREFERENCES (Some ps) \<longrightarrow> length (filter (\<lambda>p. pf_category p = CATEGORY_FLAGGED_POST) ps) \<le> 1"
  shows "flags_in_step prefs' (search_reducer st (search_view a)) \<longleftrightarrow>
    (case a of
       RECEIVED_ALL_PREFERENCES ps \<Rightarrow> flag_names (brought a) = set (srs_flagged st)
     | PreferenceLogin ps \<Rightarrow> flag_names (brought a) = set (srs_flagged st)
     | _ \<Rightarrow> True)"
proof -
  have mine: "prs_myPreferences prefs' = upd (prs_myPreferences prefs) (myPreferences (prs_myPreferences prefs) a)"
    using assms(2) by (auto simp: preferences_reducer_def split: option.splits)
  have quiet: "flags_in_step prefs' st'"
    if "prs_myPreferences prefs' = prs_myPreferences prefs" "srs_flagged st' = srs_flagged st" for st'
    using assms(1) that by (simp add: flags_in_step_def)
  note simps = mine myPreferences_def search_view_def search_reducer_def flagged_def brought_def setAllPreferences_def put_preferences_def
  show ?thesis
  proof (cases a)
    case (RECEIVED_ALL_PREFERENCES ps)
    then show ?thesis
      using replaced_in_step [OF assms(1,3), of prefs' "search_reducer st (search_view a)"]
      by (cases ps) (simp_all add: simps)
  next
    case (PreferenceLogin ps)
    then show ?thesis
      using replaced_in_step [OF assms(1,3), of prefs' "search_reducer st (search_view a)"]
      by (cases ps) (simp_all add: simps)
  next
    case (RECEIVED_PREFERENCES ps)
    then show ?thesis
    proof (cases ps)
      case None
      then show ?thesis using RECEIVED_PREFERENCES by (simp add: quiet simps)
    next
      case (Some qs)
      then show ?thesis
        using RECEIVED_PREFERENCES assms(3) received_in_step [OF assms(1), of qs prefs']
        by (simp add: mine myPreferences_def search_view_def brought_def)
    qed
  next
    case (DELETED_PREFERENCES ps)
    then show ?thesis
    proof (cases ps)
      case None
      then show ?thesis using DELETED_PREFERENCES by (simp add: quiet simps)
    next
      case (Some qs)
      then show ?thesis
        using DELETED_PREFERENCES assms(3,4) deleted_in_step [OF assms(1), of qs prefs']
        by (simp add: mine myPreferences_def search_view_def brought_def)
    qed
  next
    case PreferenceLogout
    then show ?thesis by (simp add: flags_in_step_def simps)
  qed (simp_all add: quiet simps)
qed

lemma flagged_posts_follow_preferences_witness:
  "\<exists>prefs st. flags_in_step prefs st \<and> srs_flagged st = [''p'']"
proof -
  have "flags_in_step init_preferences_state init_search_state"
    by (simp add: flags_in_step_def init_preferences_state_def init_search_state_def)
  moreover have "list_all good_flag [sample_preference]" by (simp add: good_flag_def sample_preference_def starts_with_def)
  moreover obtain prefs' where prefs': "preferences_reducer init_preferences_state (RECEIVED_PREFERENCES (Some [sample_preference])) = Some prefs'"
    by (simp add: preferences_reducer_def userPreferences_def)
  ultimately have "flags_in_step prefs' (search_reducer init_search_state (SearchPreferences (RECEIVED_PREFERENCES (Some [sample_preference]))))"
    using flagged_posts_follow_preferences [of init_preferences_state init_search_state
        "RECEIVED_PREFERENCES (Some [sample_preference])" prefs'] by (simp add: brought_def search_view_def)
  then show ?thesis
    by (rule_tac x = prefs' in exI, rule_tac x = "search_reducer init_search_state (SearchPreferences (RECEIVED_PREFERENCES (Some [sample_preference])))" in exI)
      (simp add: search_reducer_def flagged_def init_search_state_def flag_step_def sample_preference_def CATEGORY_FLAGGED_POST_def)
qed

text \<open>With two flags at once the wrong post is taken off the list.\<close>

lemma wrong_post_unflagged:
  "upd [''p'', ''q'', ''r''] (flagged [''p'', ''q'', ''r''] (SearchPreferences (DELETED_PREFERENCES
     (Some [sample_preference, sample_preference\<lparr>pf_name := ''q''\<rparr>])))) = [''q'']"
  by (simp add: flagged_def unflag_step_def sample_preference_def CATEGORY_FLAGGED_POST_def remove_at_def)

section \<open>Pinned posts\<close>

text \<open>
  A post that is received is listed in its channel exactly if it is pinned, a deleted or removed one is not, and nothing else changes.
\<close>

lemma pinned_after:
  assumes "distinct (get_or [] (srs_pinned st) (channel_id p))"
    and "a \<in> {RECEIVED_POST p crt, POST_DELETED p, POST_REMOVED p}"
  shows "let after = srs_pinned (search_reducer st (SearchPost a)) in
    set (get_or [] after (channel_id p)) = set (get_or [] (srs_pinned st) (channel_id p)) - {post_id p} \<union>
      (if a = RECEIVED_POST p crt \<and> p_is_pinned (core p) then {post_id p} else {}) \<and>
    distinct (get_or [] after (channel_id p)) \<and> (\<forall>k. k \<noteq> channel_id p \<longrightarrow> get after k = get (srs_pinned st) k)"
proof -
  have removed: "set (get_or [] (upd st (removePinnedPost st p)) (channel_id p)) = set (get_or [] st (channel_id p)) - {post_id p} \<and>
      distinct (get_or [] (upd st (removePinnedPost st p)) (channel_id p)) \<and>
      (\<forall>k. k \<noteq> channel_id p \<longrightarrow> get (upd st (removePinnedPost st p)) k = get st k)"
    if "distinct (get_or [] st (channel_id p))" for st
    using that by (auto simp: removePinnedPost_def get_or_def indexOf_None remove_at_indexOf split: option.splits)
  consider (pinned) "a = RECEIVED_POST p crt" "p_is_pinned (core p)" | (other) "pinned (srs_pinned st) (SearchPost a) = removePinnedPost (srs_pinned st) p"
      "\<not> (a = RECEIVED_POST p crt \<and> p_is_pinned (core p))"
    using assms(2) by (cases "p_is_pinned (core p)") (auto simp: pinned_def)
  then show ?thesis
  proof cases
    case pinned
    then show ?thesis using assms(1) by (auto simp: search_reducer_def pinned_def Let_def)
  next
    case other
    then show ?thesis using removed [OF assms(1)] by (auto simp: search_reducer_def Let_def)
  qed
qed

end
