(* ===== verification/DataLoader.thy ===== *)
theory DataLoader
  imports Prelude
begin

text \<open>
  \<open>utils/data_loader.ts\<close>: identifiers of data to load are collected and fetched in batches, either whenever an interval passes
  or a while after the first of them was asked for. Identifiers are strings; a \<open>Set\<close> is the list of its elements in the
  order of insertion. A timer is a flag that says whether it runs; promises have numbers.
\<close>

section \<open>DataLoader\<close>

record data_loader =
  dl_maxBatchSize :: nat
  dl_pendingIdentifiers :: "string list"

definition data_queue :: "string list \<Rightarrow> string list \<Rightarrow> string list" where
  "data_queue pending identifiersToLoad =
     foldl (\<lambda>ps identifier. if identifier = [] then ps else set_add identifier ps) pending identifiersToLoad"

definition queue :: "'a data_loader_scheme \<Rightarrow> string list \<Rightarrow> 'a data_loader_scheme" where
  "queue dl identifiersToLoad =
     dl\<lparr>dl_pendingIdentifiers := data_queue (dl_pendingIdentifiers dl) identifiersToLoad\<rparr>"

text \<open>The batch so far and the identifiers left; at least one is taken, whatever the size.\<close>

fun batch_loop :: "nat \<Rightarrow> string list \<Rightarrow> string list \<Rightarrow> string list \<times> string list" where
  "batch_loop maxBatchSize nextBatch [] = (nextBatch, [])"
| "batch_loop maxBatchSize nextBatch (identifier # rest) =
     (if length nextBatch + 1 \<ge> maxBatchSize then (nextBatch @ [identifier], rest)
      else batch_loop maxBatchSize (nextBatch @ [identifier]) rest)"

text \<open>The batch, and whether there is more to load.\<close>

definition prepareBatch :: "'a data_loader_scheme \<Rightarrow> 'a data_loader_scheme \<times> string list \<times> bool" where
  "prepareBatch dl =
     (let pending = dl_pendingIdentifiers dl;
          (nextBatch, rest) = (if length pending \<ge> dl_maxBatchSize dl then batch_loop (dl_maxBatchSize dl) [] pending
                               else (pending, []))
      in (dl\<lparr>dl_pendingIdentifiers := rest\<rparr>, nextBatch, rest \<noteq> []))"

definition isBusy :: "'a data_loader_scheme \<Rightarrow> bool" where
  "isBusy dl \<longleftrightarrow> dl_pendingIdentifiers dl \<noteq> []"

section \<open>BackgroundDataLoader\<close>

record background_loader = data_loader +
  bg_interval :: bool

datatype background_event = BackgroundQueue "string list" | StartInterval | StopInterval | FetchBatchNow

definition fetchBatchNow :: "background_loader \<Rightarrow> background_loader \<times> string list list" where
  "fetchBatchNow bl =
     (let (bl', identifiers, _) = prepareBatch bl in (bl', if identifiers = [] then [] else [identifiers]))"

text \<open>A step and the batches that are fetched; the interval, while it runs, calls \<open>fetchBatchNow\<close>.\<close>

fun background_step :: "background_loader \<Rightarrow> background_event \<Rightarrow> background_loader \<times> string list list" where
  "background_step bl (BackgroundQueue ids) = (queue bl ids, [])"
| "background_step bl StartInterval = (bl\<lparr>bg_interval := True\<rparr>, [])"
| "background_step bl StopInterval = (bl\<lparr>bg_interval := False\<rparr>, [])"
| "background_step bl FetchBatchNow = fetchBatchNow bl"

definition background_busy :: "background_loader \<Rightarrow> bool" where
  "background_busy bl \<longleftrightarrow> isBusy bl \<or> bg_interval bl"

section \<open>DelayedDataLoader\<close>

record delayed_loader = data_loader +
  dy_timeout :: bool
  dy_timeoutCallbacks :: "(nat \<times> string list) list"

definition startTimeoutIfNeeded :: "delayed_loader \<Rightarrow> delayed_loader" where
  "startTimeoutIfNeeded dl = (if dy_timeout dl then dl else dl\<lparr>dy_timeout := True\<rparr>)"

definition delayed_queue :: "delayed_loader \<Rightarrow> string list \<Rightarrow> delayed_loader" where
  "delayed_queue dl ids = startTimeoutIfNeeded (queue dl ids)"

definition queueAndWait :: "delayed_loader \<Rightarrow> nat \<Rightarrow> string list \<Rightarrow> delayed_loader" where
  "queueAndWait dl promise ids =
     (let dl = queue dl ids
      in startTimeoutIfNeeded (dl\<lparr>dy_timeoutCallbacks := dy_timeoutCallbacks dl @ [(promise, remdups_js ids)]\<rparr>))"

text \<open>What happens when the timer expires: the loader, and the batch that is fetched.\<close>

definition timeout_expired :: "delayed_loader \<Rightarrow> delayed_loader \<times> string list" where
  "timeout_expired dl =
     (let (dl, identifiers, moreToLoad) = prepareBatch (dl\<lparr>dy_timeout := False\<rparr>)
      in (if moreToLoad then startTimeoutIfNeeded dl else dl, identifiers))"

text \<open>The loader, and the promises that are resolved, when a batch has been fetched.\<close>

definition resolveCompletedCallbacks :: "delayed_loader \<Rightarrow> string list \<Rightarrow> delayed_loader \<times> nat list" where
  "resolveCompletedCallbacks dl identifiers =
     (let callbacks = map (\<lambda>(k, ids). (k, filter (\<lambda>i. i \<notin> set identifiers) ids)) (dy_timeoutCallbacks dl)
      in (dl\<lparr>dy_timeoutCallbacks := filter (\<lambda>(k, ids). ids \<noteq> []) callbacks\<rparr>,
          map fst (filter (\<lambda>(k, ids). ids = []) callbacks)))"

definition delayed_busy :: "delayed_loader \<Rightarrow> bool" where
  "delayed_busy dl \<longleftrightarrow> isBusy dl \<or> dy_timeoutCallbacks dl \<noteq> [] \<or> dy_timeout dl"

end
