(* ===== verification/DataLoaderProps.thy ===== *)
theory DataLoaderProps
  imports DataLoader
begin

text \<open>
  The loader that waits, together with what surrounds it: the batches being fetched and the promises handed out. A promise is
  resolved exactly when everything it asked for has been fetched since; nothing that was asked for is forgotten; and when the
  timer keeps expiring and the server keeps answering, every promise is resolved.
\<close>

section \<open>Batches\<close>

lemma batch_loop_append: "fst (batch_loop m acc is) @ snd (batch_loop m acc is) = acc @ is"
  by (induction m acc "is" rule: batch_loop.induct) auto

lemma batch_loop_length: "length acc < max 1 m \<Longrightarrow> length (fst (batch_loop m acc is)) \<le> max 1 m"
  by (induction m acc "is" rule: batch_loop.induct) auto

lemma batch_loop_nonempty: "acc \<noteq> [] \<or> is \<noteq> [] \<Longrightarrow> fst (batch_loop m acc is) \<noteq> []"
  by (induction m acc "is" rule: batch_loop.induct) auto

text \<open>A batch is taken from the front of what is pending, is not empty unless nothing is, and is not too long.\<close>

lemma batch_taken:
  obtains batch rest where "prepareBatch dl = (dl\<lparr>dl_pendingIdentifiers := rest\<rparr>, batch, rest \<noteq> [])"
    and "dl_pendingIdentifiers dl = batch @ rest" and "batch = [] \<longleftrightarrow> dl_pendingIdentifiers dl = []"
    and "length batch \<le> max 1 (dl_maxBatchSize dl)"
proof (cases "length (dl_pendingIdentifiers dl) \<ge> dl_maxBatchSize dl")
  case True
  let ?r = "batch_loop (dl_maxBatchSize dl) [] (dl_pendingIdentifiers dl)"
  have "prepareBatch dl = (dl\<lparr>dl_pendingIdentifiers := snd ?r\<rparr>, fst ?r, snd ?r \<noteq> [])"
    using True by (simp add: prepareBatch_def Let_def split_beta)
  then show ?thesis
    using that [of "snd ?r" "fst ?r"] batch_loop_append [of "dl_maxBatchSize dl" "[]" "dl_pendingIdentifiers dl"]
      batch_loop_length [of "[]" "dl_maxBatchSize dl" "dl_pendingIdentifiers dl"]
      batch_loop_nonempty [of "[]" "dl_pendingIdentifiers dl" "dl_maxBatchSize dl"]
    by (cases "dl_pendingIdentifiers dl = []") auto
next
  case False
  then show ?thesis using that [of "[]" "dl_pendingIdentifiers dl"] by (simp add: prepareBatch_def)
qed

section \<open>The loader in its world\<close>

text \<open>
  Each promise is kept with what it asked for and the batches that were fetched since.
\<close>

record loader_world =
  lw_loader :: delayed_loader
  lw_inflight :: "string list list"
  lw_promises :: "(nat \<times> string list \<times> string list list) list"
  lw_resolved :: "nat list"

datatype loader_event = CallQueue "string list" | CallQueueAndWait "string list" | TimerExpires | BatchFetched nat

text \<open>The timer expires only if it runs; a batch is fetched only if it is under way. A batch that fails is never fetched.\<close>

fun world_step :: "loader_world \<Rightarrow> loader_event \<Rightarrow> loader_world option" where
  "world_step w (CallQueue ids) = Some (w\<lparr>lw_loader := delayed_queue (lw_loader w) ids\<rparr>)"
| "world_step w (CallQueueAndWait ids) =
     Some (w\<lparr>lw_loader := queueAndWait (lw_loader w) (length (lw_promises w)) ids,
             lw_promises := lw_promises w @ [(length (lw_promises w), ids, [])]\<rparr>)"
| "world_step w TimerExpires =
     (if dy_timeout (lw_loader w)
      then Some (w\<lparr>lw_loader := fst (timeout_expired (lw_loader w)),
                   lw_inflight := lw_inflight w @ [snd (timeout_expired (lw_loader w))]\<rparr>)
      else None)"
| "world_step w (BatchFetched n) =
     (if n < length (lw_inflight w)
      then (let batch = lw_inflight w ! n; (dl, resolved) = resolveCompletedCallbacks (lw_loader w) batch
            in Some (w\<lparr>lw_loader := dl, lw_inflight := remove_at n (lw_inflight w),
                       lw_promises := map (\<lambda>(k, ids, fetched). (k, ids, fetched @ [batch])) (lw_promises w),
                       lw_resolved := lw_resolved w @ resolved\<rparr>))
      else None)"

definition init_world :: "nat \<Rightarrow> loader_world" where
  "init_world maxBatchSize =
     \<lparr>lw_loader = \<lparr>dl_maxBatchSize = maxBatchSize, dl_pendingIdentifiers = [], dy_timeout = False, dy_timeoutCallbacks = []\<rparr>,
      lw_inflight = [], lw_promises = [], lw_resolved = []\<rparr>"

definition complete :: "string list \<Rightarrow> string list list \<Rightarrow> bool" where
  "complete ids fetched \<longleftrightarrow> fetched \<noteq> [] \<and> set ids \<subseteq> set (concat fetched)"

definition waiting_callbacks :: "(nat \<times> string list \<times> string list list) list \<Rightarrow> (nat \<times> string list) list" where
  "waiting_callbacks ps =
     map (\<lambda>(k, ids, fetched). (k, filter (\<lambda>i. i \<notin> set (concat fetched)) (remdups_js ids)))
       (filter (\<lambda>(k, ids, fetched). \<not> complete ids fetched) ps)"

text \<open>What a promise still waits for is pending or under way, but for the empty identifiers.\<close>

definition covered :: "(nat \<times> string list \<times> string list list) list \<Rightarrow> string set \<Rightarrow> bool \<Rightarrow> bool" where
  "covered ps coming pending_or_flying \<longleftrightarrow>
     (\<forall>(k, ids, fetched) \<in> set ps.
        set ids - set (concat fetched) - {[]} \<subseteq> coming \<and> (fetched = [] \<longrightarrow> pending_or_flying))"

definition coming_of :: "loader_world \<Rightarrow> string set" where
  "coming_of w = set (dl_pendingIdentifiers (lw_loader w)) \<union> set (concat (lw_inflight w))"

definition completed :: "(nat \<times> string list \<times> string list list) list \<Rightarrow> nat set" where
  "completed ps = {k. \<exists>ids fetched. (k, ids, fetched) \<in> set ps \<and> complete ids fetched}"

definition world_ok :: "loader_world \<Rightarrow> bool" where
  "world_ok w \<longleftrightarrow>
     dy_timeoutCallbacks (lw_loader w) = waiting_callbacks (lw_promises w) \<and>
     map fst (lw_promises w) = [0..<length (lw_promises w)] \<and>
     set (lw_resolved w) = completed (lw_promises w) \<and>
     covered (lw_promises w) (coming_of w) (dy_timeout (lw_loader w) \<or> lw_inflight w \<noteq> []) \<and>
     (dl_pendingIdentifiers (lw_loader w) \<noteq> [] \<longrightarrow> dy_timeout (lw_loader w))"

lemma covered_mono: "covered ps A b \<Longrightarrow> A \<subseteq> B \<Longrightarrow> (b \<Longrightarrow> c) \<Longrightarrow> covered ps B c"
  unfolding covered_def by fastforce

lemma covered_append: "covered (ps @ qs) A b \<longleftrightarrow> covered ps A b \<and> covered qs A b"
  by (simp add: covered_def ball_Un)

lemma covered_fetched:
  "covered ps A b \<Longrightarrow> A \<subseteq> B \<union> set batch \<Longrightarrow> covered (map (\<lambda>(k, ids, fetched). (k, ids, fetched @ [batch])) ps) B c"
  unfolding covered_def by fastforce

lemma queue_set: "set (data_queue pending ids) = set pending \<union> (set ids - {[]})"
  unfolding data_queue_def by (induction ids arbitrary: pending) auto

lemma queue_loader: "queue dl ids = dl\<lparr>dl_pendingIdentifiers := data_queue (dl_pendingIdentifiers dl) ids\<rparr>"
  by (simp add: queue_def)

lemma start_timeout [simp]: "startTimeoutIfNeeded dl = dl\<lparr>dy_timeout := True\<rparr>"
  by (simp add: startTimeoutIfNeeded_def)

lemma world_ok_queue:
  assumes "world_ok w" "world_step w (CallQueue ids) = Some w'"
  shows "world_ok w'"
proof -
  have w': "w' = w\<lparr>lw_loader := (queue (lw_loader w) ids)\<lparr>dy_timeout := True\<rparr>\<rparr>"
    using assms(2) by (simp add: delayed_queue_def)
  have "covered (lw_promises w') (coming_of w') True"
    using assms(1) by (auto simp: world_ok_def w' coming_of_def queue_loader queue_set elim!: covered_mono)
  then show ?thesis using assms(1) by (simp add: world_ok_def w' queue_loader)
qed

lemma completed_simps [simp]:
  "completed (ps @ [(k, ids, [])]) = completed ps"
  "waiting_callbacks (ps @ [(k, ids, [])]) = waiting_callbacks ps @ [(k, remdups_js ids)]"
  by (auto simp: completed_def waiting_callbacks_def complete_def)

lemma world_ok_wait:
  assumes "world_ok w" "world_step w (CallQueueAndWait ids) = Some w'"
  shows "world_ok w'"
proof -
  let ?p = "(length (lw_promises w), ids, [])" and ?q = "queue (lw_loader w) ids"
  have w': "w' = w\<lparr>lw_loader := ?q\<lparr>dy_timeoutCallbacks := dy_timeoutCallbacks ?q @ [(length (lw_promises w), remdups_js ids)],
                               dy_timeout := True\<rparr>,
                  lw_promises := lw_promises w @ [?p]\<rparr>"
    using assms(2) by (simp add: queueAndWait_def Let_def)
  have "covered (lw_promises w) (coming_of w') True"
    using assms(1) by (auto simp: world_ok_def w' coming_of_def queue_loader queue_set elim!: covered_mono)
  moreover have "covered [?p] (coming_of w') True"
    by (auto simp: covered_def w' coming_of_def queue_loader queue_set)
  ultimately have "covered (lw_promises w') (coming_of w') True" by (simp add: w' covered_append)
  then show ?thesis using assms(1) by (simp add: world_ok_def w' queue_loader)
qed

lemma world_ok_timer:
  assumes "world_ok w" "world_step w TimerExpires = Some w'"
  shows "world_ok w'"
proof -
  let ?dl = "(lw_loader w)\<lparr>dy_timeout := False\<rparr>"
  obtain batch rest where b: "prepareBatch ?dl = (?dl\<lparr>dl_pendingIdentifiers := rest\<rparr>, batch, rest \<noteq> [])"
    and p: "dl_pendingIdentifiers ?dl = batch @ rest"
    by (rule batch_taken)
  have w': "w' = w\<lparr>lw_loader := ?dl\<lparr>dl_pendingIdentifiers := rest, dy_timeout := rest \<noteq> []\<rparr>,
                  lw_inflight := lw_inflight w @ [batch]\<rparr>"
    using assms(2) b by (auto simp: timeout_expired_def split: if_splits)
  have "covered (lw_promises w') (coming_of w') (rest \<noteq> [] \<or> True)"
    using assms(1) p by (auto simp: world_ok_def w' coming_of_def elim!: covered_mono)
  then show ?thesis using assms(1) by (simp add: world_ok_def w')
qed

lemma complete_more: "complete ids (fetched @ [batch]) \<longleftrightarrow> set ids \<subseteq> set (concat fetched) \<union> set batch"
  by (auto simp: complete_def)

lemma waiting_Cons [simp]:
  "waiting_callbacks ((k, ids, fetched) # ps) =
     (if complete ids fetched then [] else [(k, filter (\<lambda>i. i \<notin> set (concat fetched)) (remdups_js ids))]) @ waiting_callbacks ps"
  by (simp add: waiting_callbacks_def)

lemma completed_Cons [simp]:
  "completed ((k, ids, fetched) # ps) = (if complete ids fetched then {k} else {}) \<union> completed ps"
  by (auto simp: completed_def)

lemma nothing_waited: "waiting_callbacks [] = []" "completed [] = {}"
  by (simp_all add: waiting_callbacks_def completed_def)

lemma still_missing:
  "filter (\<lambda>i. i \<notin> set batch) (filter (\<lambda>i. i \<notin> set (concat fetched)) (remdups_js ids)) = [] \<longleftrightarrow>
     complete ids (fetched @ [batch])"
  by (auto simp: complete_def filter_empty_conv)

lemma missing_more:
  "filter (\<lambda>i. i \<notin> set batch) (filter (\<lambda>i. i \<notin> set (concat fetched)) xs) =
     filter (\<lambda>i. i \<notin> set (concat (fetched @ [batch]))) xs"
  by (induction xs) auto

lemma complete_stays: "complete ids fetched \<Longrightarrow> complete ids (fetched @ [batch])"
  by (auto simp: complete_def)

lemma waiting_fetched:
  "filter (\<lambda>(k, ids). ids \<noteq> []) (map (\<lambda>(k, ids). (k, filter (\<lambda>i. i \<notin> set batch) ids)) (waiting_callbacks ps))
   = waiting_callbacks (map (\<lambda>(k, ids, fetched). (k, ids, fetched @ [batch])) ps)"
proof (induction ps)
  case (Cons p ps)
  obtain k ids fetched where p: "p = (k, ids, fetched)" by (cases p)
  show ?case
  proof (cases "complete ids fetched")
    case True
    then show ?thesis using Cons complete_stays [OF True] by (simp add: p del: concat_append)
  next
    case False
    then show ?thesis using Cons still_missing [of batch fetched ids]
      by (simp add: p missing_more del: concat_append filter_filter set_concat)
  qed
qed (simp add: nothing_waited)

lemma resolved_fetched:
  "completed ps \<union>
     fst ` set (filter (\<lambda>(k, ids). ids = []) (map (\<lambda>(k, ids). (k, filter (\<lambda>i. i \<notin> set batch) ids)) (waiting_callbacks ps)))
   = completed (map (\<lambda>(k, ids, fetched). (k, ids, fetched @ [batch])) ps)"
proof (induction ps)
  case (Cons p ps)
  obtain k ids fetched where p: "p = (k, ids, fetched)" by (cases p)
  let ?old = "fst ` set (filter (\<lambda>(k, ids). ids = [])
                (map (\<lambda>(k, ids). (k, filter (\<lambda>i. i \<notin> set batch) ids)) (waiting_callbacks ps)))"
  show ?case
  proof (cases "complete ids fetched")
    case True
    then show ?thesis using Cons complete_stays [OF True] by (simp add: p del: set_filter set_map)
  next
    case False
    have "fst ` set (filter (\<lambda>(k, ids). ids = [])
            (map (\<lambda>(k, ids). (k, filter (\<lambda>i. i \<notin> set batch) ids)) (waiting_callbacks (p # ps))))
          = (if complete ids (fetched @ [batch]) then {k} else {}) \<union> ?old"
      using False still_missing [of batch fetched ids] by (simp add: p del: set_filter set_map filter_filter set_concat)
    then show ?thesis using Cons False by (simp add: p Un_left_commute del: set_filter set_map)
  qed
qed (simp add: nothing_waited)

lemma completed_iff:
  assumes "world_ok w" and "(k, ids, fetched) \<in> set (lw_promises w)"
  shows "k \<in> set (lw_resolved w) \<longleftrightarrow> complete ids fetched"
proof -
  have "distinct (map fst (lw_promises w))" using assms(1) by (simp add: world_ok_def)
  then have "k \<in> completed (lw_promises w) \<longleftrightarrow> complete ids fetched"
    using assms(2) by (auto simp: completed_def dest: eq_key_imp_eq_value)
  then show ?thesis using assms(1) by (simp add: world_ok_def)
qed

lemma concat_remove_at: "n < length xs \<Longrightarrow> set (concat xs) = set (xs ! n) \<union> set (concat (remove_at n xs))"
  by (subst id_take_nth_drop [of n xs]) (auto simp: remove_at_def)

lemma world_ok_fetched:
  assumes "world_ok w" "world_step w (BatchFetched n) = Some w'"
  shows "world_ok w'"
proof -
  let ?batch = "lw_inflight w ! n"
  let ?cs = "map (\<lambda>(k, ids). (k, filter (\<lambda>i. i \<notin> set ?batch) ids)) (waiting_callbacks (lw_promises w))"
  have n: "n < length (lw_inflight w)" using assms(2) by (simp split: if_splits)
  have w': "w' = w\<lparr>lw_loader := (lw_loader w)\<lparr>dy_timeoutCallbacks := filter (\<lambda>(k, ids). ids \<noteq> []) ?cs\<rparr>,
      lw_inflight := remove_at n (lw_inflight w),
      lw_promises := map (\<lambda>(k, ids, fetched). (k, ids, fetched @ [?batch])) (lw_promises w),
      lw_resolved := lw_resolved w @ map fst (filter (\<lambda>(k, ids). ids = []) ?cs)\<rparr>"
    using assms n by (simp add: world_ok_def resolveCompletedCallbacks_def Let_def)
  have "covered (lw_promises w') (coming_of w') b" for b
    using assms(1) concat_remove_at [OF n] by (auto simp: world_ok_def w' coming_of_def elim!: covered_fetched)
  moreover have "map fst (lw_promises w') = [0..<length (lw_promises w')]"
    using assms(1) by (simp add: world_ok_def w' comp_def split_beta)
  moreover have "set (lw_resolved w') = completed (lw_promises w')"
    using assms(1) resolved_fetched [of "lw_promises w" ?batch] by (simp add: world_ok_def w' del: set_filter)
  moreover have "dy_timeoutCallbacks (lw_loader w') = waiting_callbacks (lw_promises w')"
    by (simp add: w' waiting_fetched del: filter_map)
  moreover have "dl_pendingIdentifiers (lw_loader w') \<noteq> [] \<longrightarrow> dy_timeout (lw_loader w')"
    using assms(1) by (simp add: world_ok_def w')
  ultimately show ?thesis unfolding world_ok_def by blast
qed

interpretation data_loading: redux_store world_step "\<lambda>_ _. True" world_ok "init_world m" for m
proof
  show "world_ok (init_world m)"
    by (simp add: world_ok_def init_world_def waiting_callbacks_def completed_def covered_def)
  show "world_ok w \<Longrightarrow> True \<Longrightarrow> world_step w e = Some w' \<Longrightarrow> world_ok w'" for w e w'
    using world_ok_queue world_ok_wait world_ok_timer world_ok_fetched by (cases e) blast+
qed

text \<open>C23. A promise of \<open>queueAndWait\<close> has been resolved exactly when a batch was fetched since and the batches fetched
  since hold all that it asked for; and nothing that a promise still waits for is forgotten: it is pending, with the timer
  running, or in a batch under way. (The empty identifier is the exception: it is never loaded.)\<close>

theorem promises_resolved_when_fetched:
  assumes "reachable world_step (\<lambda>_ _. True) (init_world m) w"
    and "(k, ids, fetched) \<in> set (lw_promises w)"
  shows "(k \<in> set (lw_resolved w) \<longleftrightarrow> fetched \<noteq> [] \<and> set ids \<subseteq> set (concat fetched)) \<and>
         set ids - set (concat fetched) - {[]}
           \<subseteq> set (dl_pendingIdentifiers (lw_loader w)) \<union> set (concat (lw_inflight w)) \<and>
         (dl_pendingIdentifiers (lw_loader w) = [] \<or> dy_timeout (lw_loader w))"
proof -
  have ok: "world_ok w" by (rule data_loading.reachable_inv [OF assms(1)])
  note completed_iff [OF ok assms(2)]
  moreover have "set ids - set (concat fetched) - {[]} \<subseteq> coming_of w"
    using ok assms(2) unfolding world_ok_def covered_def by fastforce
  ultimately show ?thesis using ok unfolding world_ok_def complete_def coming_of_def by blast
qed

lemma all_events_admissible: "all_admissible world_step (\<lambda>_ _. True) w es"
  by (induction es arbitrary: w) (simp_all split: option.splits)

definition two_people :: loader_world where
  "two_people = the (dispatch_all world_step (init_world 1) [CallQueueAndWait [''ann'', ''bob''], TimerExpires, BatchFetched 0])"

lemma promises_resolved_when_fetched_witness:
  "set (lw_resolved two_people) = {} \<and> set (dl_pendingIdentifiers (lw_loader two_people)) = {''bob''} \<and>
   dy_timeout (lw_loader two_people) \<and>
   set [''ann'', ''bob''] - {''ann''} - {[]}
     \<subseteq> set (dl_pendingIdentifiers (lw_loader two_people)) \<union> set (concat (lw_inflight two_people))"
proof -
  have run: "dispatch_all world_step (init_world 1) [CallQueueAndWait [''ann'', ''bob''], TimerExpires, BatchFetched 0] = Some two_people"
    unfolding two_people_def by code_simp
  have "reachable world_step (\<lambda>_ _. True) (init_world 1) two_people"
    by (rule dispatch_all_reachable [OF reachable.start all_events_admissible run])
  moreover have "(0, [''ann'', ''bob''], [[''ann'']]) \<in> set (lw_promises two_people)"
    unfolding two_people_def by code_simp
  moreover have "lw_resolved two_people = [] \<and> dl_pendingIdentifiers (lw_loader two_people) = [''bob'']"
    unfolding two_people_def by code_simp
  ultimately show ?thesis using promises_resolved_when_fetched [of 1 two_people 0 "[''ann'', ''bob'']" "[[''ann'']]"] by simp
qed

section \<open>The server answers\<close>

text \<open>The timer expires for as long as it runs, at most \<open>n\<close> times; then the batches under way are fetched, oldest first.\<close>

fun expire_all :: "nat \<Rightarrow> loader_world \<Rightarrow> loader_world" where
  "expire_all 0 w = w"
| "expire_all (Suc n) w = (case world_step w TimerExpires of None \<Rightarrow> w | Some w' \<Rightarrow> expire_all n w')"

fun fetch_all :: "nat \<Rightarrow> loader_world \<Rightarrow> loader_world" where
  "fetch_all 0 w = w"
| "fetch_all (Suc n) w = (case world_step w (BatchFetched 0) of None \<Rightarrow> w | Some w' \<Rightarrow> fetch_all n w')"

definition settle_loader :: "loader_world \<Rightarrow> loader_world" where
  "settle_loader w =
     (let w = expire_all (length (dl_pendingIdentifiers (lw_loader w)) + 1) w in fetch_all (length (lw_inflight w)) w)"

definition asked :: "loader_world \<Rightarrow> (nat \<times> string list) list" where
  "asked w = map (\<lambda>(k, ids, _). (k, ids)) (lw_promises w)"

lemma timer_shortens:
  assumes "world_step w TimerExpires = Some w'"
  shows "asked w' = asked w"
    and "dy_timeout (lw_loader w') \<Longrightarrow>
      length (dl_pendingIdentifiers (lw_loader w')) < length (dl_pendingIdentifiers (lw_loader w))"
proof -
  let ?dl = "(lw_loader w)\<lparr>dy_timeout := False\<rparr>"
  obtain batch rest where b: "prepareBatch ?dl = (?dl\<lparr>dl_pendingIdentifiers := rest\<rparr>, batch, rest \<noteq> [])"
    and p: "dl_pendingIdentifiers ?dl = batch @ rest" and "batch = [] \<longleftrightarrow> dl_pendingIdentifiers ?dl = []"
    by (rule batch_taken)
  moreover have w': "w' = w\<lparr>lw_loader := ?dl\<lparr>dl_pendingIdentifiers := rest, dy_timeout := rest \<noteq> []\<rparr>,
                  lw_inflight := lw_inflight w @ [batch]\<rparr>"
    using assms b by (auto simp: timeout_expired_def split: if_splits)
  ultimately show "asked w' = asked w"
    and "dy_timeout (lw_loader w') \<Longrightarrow>
      length (dl_pendingIdentifiers (lw_loader w')) < length (dl_pendingIdentifiers (lw_loader w))"
    by (auto simp: asked_def)
qed

lemma expire_all_stops:
  "world_ok w \<Longrightarrow> length (dl_pendingIdentifiers (lw_loader w)) < n \<Longrightarrow>
   world_ok (expire_all n w) \<and> asked (expire_all n w) = asked w \<and> \<not> dy_timeout (lw_loader (expire_all n w))"
proof (induction n arbitrary: w)
  case (Suc n)
  show ?case
  proof (cases "world_step w TimerExpires")
    case None
    then show ?thesis using Suc.prems by (simp split: if_splits)
  next
    case (Some w')
    have ok: "world_ok w'" and a: "asked w' = asked w" using world_ok_timer Suc.prems(1) timer_shortens(1) Some by blast+
    show ?thesis
    proof (cases "dy_timeout (lw_loader w')")
      case True
      then show ?thesis using Suc.IH [OF ok] timer_shortens(2) [OF Some True] Suc.prems(2) Some a by simp
    next
      case False
      then have "expire_all n w' = w'" by (cases n) simp_all
      then show ?thesis using Some ok a False by simp
    qed
  qed
qed simp

lemma fetch_step:
  assumes "world_step w (BatchFetched 0) = Some w'"
  shows "asked w' = asked w" "dy_timeout (lw_loader w') = dy_timeout (lw_loader w)"
    "lw_inflight w' = tl (lw_inflight w)"
  using assms
  by (auto simp: asked_def resolveCompletedCallbacks_def Let_def remove_at_def drop_Suc split_beta comp_def split: if_splits)

lemma fetch_all_empties:
  "world_ok w \<Longrightarrow> length (lw_inflight w) \<le> n \<Longrightarrow>
   world_ok (fetch_all n w) \<and> asked (fetch_all n w) = asked w \<and>
   dy_timeout (lw_loader (fetch_all n w)) = dy_timeout (lw_loader w) \<and> lw_inflight (fetch_all n w) = []"
proof (induction n arbitrary: w)
  case (Suc n)
  show ?case
  proof (cases "world_step w (BatchFetched 0)")
    case None
    then show ?thesis using Suc.prems by (simp add: Let_def split_beta split: if_splits)
  next
    case (Some w')
    have "world_ok w'" using world_ok_fetched Suc.prems(1) Some by blast
    then show ?thesis using Suc.IH [of w'] fetch_step [OF Some] Suc.prems(2) Some by simp
  qed
qed simp

text \<open>C19. Whatever was asked for and in whatever order, when the timer keeps expiring (at most one more time than there are
  identifiers pending) and the server answers the batches, every promise is resolved that did not ask for the empty
  identifier, and the timer no longer runs.\<close>

theorem promises_are_resolved:
  assumes "reachable world_step (\<lambda>_ _. True) (init_world m) w"
    and "(k, ids, fetched) \<in> set (lw_promises w)" and "[] \<notin> set ids"
  shows "k \<in> set (lw_resolved (settle_loader w)) \<and>
         \<not> isBusy (lw_loader (settle_loader w)) \<and> \<not> dy_timeout (lw_loader (settle_loader w))"
proof -
  define w' where "w' = expire_all (length (dl_pendingIdentifiers (lw_loader w)) + 1) w"
  have settle: "settle_loader w = fetch_all (length (lw_inflight w')) w'" by (simp add: settle_loader_def Let_def w'_def)
  have "world_ok w'" "asked w' = asked w" "\<not> dy_timeout (lw_loader w')"
    using expire_all_stops [OF data_loading.reachable_inv [OF assms(1)]] unfolding w'_def by (simp_all del: expire_all.simps)
  then have ok: "world_ok (settle_loader w)" and a: "asked (settle_loader w) = asked w"
    and t: "\<not> dy_timeout (lw_loader (settle_loader w))" and i: "lw_inflight (settle_loader w) = []"
    using fetch_all_empties [of w' "length (lw_inflight w')"] by (simp_all add: settle)
  have p: "dl_pendingIdentifiers (lw_loader (settle_loader w)) = []" using ok t by (auto simp: world_ok_def)
  have "(k, ids) \<in> set (asked w)" using assms(2) by (force simp: asked_def)
  then have "(k, ids) \<in> set (asked (settle_loader w))" by (simp only: a)
  then obtain fetched' where f: "(k, ids, fetched') \<in> set (lw_promises (settle_loader w))" by (auto simp: asked_def)
  have "complete ids fetched'"
    using ok t i p f assms(3) unfolding world_ok_def covered_def complete_def coming_of_def by fastforce
  then have "k \<in> set (lw_resolved (settle_loader w))"
    using completed_iff [OF ok f] by blast
  then show ?thesis using t p by (simp add: isBusy_def)
qed

lemma promises_are_resolved_witness:
  "0 \<in> set (lw_resolved (settle_loader two_people)) \<and> \<not> dy_timeout (lw_loader (settle_loader two_people))"
proof -
  have run: "dispatch_all world_step (init_world 1) [CallQueueAndWait [''ann'', ''bob''], TimerExpires, BatchFetched 0] = Some two_people"
    unfolding two_people_def by code_simp
  have "reachable world_step (\<lambda>_ _. True) (init_world 1) two_people"
    by (rule dispatch_all_reachable [OF reachable.start all_events_admissible run])
  moreover have "(0, [''ann'', ''bob''], [[''ann'']]) \<in> set (lw_promises two_people)"
    unfolding two_people_def by code_simp
  ultimately show ?thesis using promises_are_resolved [of 1 two_people 0 "[''ann'', ''bob'']" "[[''ann'']]"] by simp
qed

text \<open>The callback of \<open>queueAndWait\<close> keeps the empty identifier that \<open>queue\<close> leaves out, so that its promise is
  never resolved.\<close>

lemma empty_identifier_waits_for_ever:
  assumes "reachable world_step (\<lambda>_ _. True) (init_world m) w"
    and "(k, ids, fetched) \<in> set (lw_promises w)" and "[] \<in> set ids" and "[] \<notin> set (concat fetched)"
  shows "k \<notin> set (lw_resolved w)"
proof -
  have ok: "world_ok w" by (rule data_loading.reachable_inv [OF assms(1)])
  show ?thesis using completed_iff [OF ok assms(2)] assms(3,4) unfolding complete_def by blast
qed

end
