(* ===== verification/RootStore.thy ===== *)
theory RootStore
  imports ThreadsProps Categories ChannelSetsProps GroupStoreProps PreferencesProps Permissions Sidebar Search
begin

text \<open>
  \<open>reducers/entities/index.ts\<close>: the reducers modelled so far in one store. An action belongs to a namespace of
  \<open>action_types/\<close> and is given to every reducer; each of them knows the actions of some namespaces, the
  others are \<open>OtherTypes\<close> for it. Reducers of the file that are not modelled, and those of files, scheduled posts and apps,
  are left out. The configuration is the slice of \<open>general.ts\<close> that the selectors read.
\<close>

section \<open>State\<close>

record root_store =
  rt_entities :: entities
  rt_users :: users_state
  rt_posts :: posts_state
  rt_threads :: threads_state
  rt_byId :: category_map
  rt_orderByTeam :: "string list obj"
  rt_groups :: groups_state
  rt_roles :: roles_state
  rt_preferences :: preferences_state
  rt_search :: search_state
  rt_config :: client_config

abbreviation rt_channels :: "root_store \<Rightarrow> channels_state" where
  "rt_channels st \<equiv> en_channels (rt_entities st)"

abbreviation rt_teams :: "root_store \<Rightarrow> teams_state" where
  "rt_teams st \<equiv> en_teams (rt_entities st)"

definition init_root :: root_store where
  "init_root = \<lparr>rt_entities = \<lparr>en_channels = init_channels_state, en_teams = init_teams_state\<rparr>, rt_users = init_users_state,
     rt_posts = initial_posts, rt_threads = initial_threads, rt_byId = [], rt_orderByTeam = [], rt_groups = init_groups_state,
     rt_roles = init_roles_state, rt_preferences = init_preferences_state, rt_search = init_search_state, rt_config = []\<rparr>"

section \<open>Actions\<close>

text \<open>
  \<open>GroupsAssociated\<close> is one of the four actions that bring the groups of a team or a channel: the groups, and the same
  action with their ids only. \<open>GroupAction\<close>, \<open>PreferenceAction\<close>, \<open>RoleAction\<close> and \<open>SearchAction\<close> carry what is
  in the namespace itself: not the associations, logins, logouts, posts and preferences that those reducers read as well.
\<close>

datatype config_action = CLIENT_CONFIG_RECEIVED client_config | SET_CONFIG_AND_LICENSE client_config | CLIENT_CONFIG_RESET

datatype root_action =
    PostAction post_action
  | ThreadAction thread_action
  | CategoryAction category_action
  | ChannelAction channel_types
  | GmConverted string string
  | TeamAction team_types
  | UserAction user_types
  | GroupAction group_store_action
  | GroupLink group_types
  | GroupsAssociated group_types "group list"
  | RoleAction role_action
  | PreferenceAction preference_action
  | SearchAction search_action
  | ConfigAction config_action
  | OtherAction string

text \<open>
  What posts, threads and categories read. A channel that was left may have no team. The team of a deleted channel, which only
  the threads read, makes no difference to them and is left empty.
\<close>

definition entity_of :: "root_action \<Rightarrow> action" where
  "entity_of a =
     (case a of
        PostAction p \<Rightarrow> Entities.PostTypes p
      | ThreadAction t \<Rightarrow> ThreadTypes t
      | CategoryAction c \<Rightarrow> ChannelCategoryTypes c
      | ChannelAction c \<Rightarrow>
          (case c of
             LEAVE_CHANNEL (Some d) \<Rightarrow> Entities.ChannelTypes (Entities.LEAVE_CHANNEL (cl_id d) (or_empty (cl_team_id d)))
           | RECEIVED_CHANNEL_DELETED i deleteAt \<Rightarrow> Entities.ChannelTypes (Entities.RECEIVED_CHANNEL_DELETED i [])
           | _ \<Rightarrow> Entities.OtherTypes [])
      | GmConverted i team \<Rightarrow> Entities.ChannelTypes (GM_CONVERTED_TO_CHANNEL i team)
      | TeamAction t \<Rightarrow>
          (case t of
             LEAVE_TEAM i \<Rightarrow> Entities.TeamTypes (Entities.LEAVE_TEAM i)
           | RECEIVED_MY_TEAM_UNREADS us \<Rightarrow> Entities.TeamTypes (Entities.RECEIVED_MY_TEAM_UNREADS us)
           | _ \<Rightarrow> Entities.OtherTypes [])
      | UserAction LOGOUT_SUCCESS \<Rightarrow> Entities.UserTypes Entities.LOGOUT_SUCCESS
      | _ \<Rightarrow> Entities.OtherTypes [])"

text \<open>What channels, teams and users read.\<close>

definition redux_of :: "root_action \<Rightarrow> redux_action" where
  "redux_of a =
     (case a of
        PostAction (Entities.RECEIVED_NEW_POST p crt) \<Rightarrow> PostTypes (RECEIVED_NEW_POST p crt)
      | ChannelAction c \<Rightarrow> ChannelTypes c
      | TeamAction t \<Rightarrow> TeamTypes t
      | UserAction u \<Rightarrow> UserTypes u
      | GroupAction (GROUPS_BY_CHANNEL m) \<Rightarrow>
          GroupTypes (RECEIVED_ALL_GROUPS_ASSOCIATED_TO_CHANNELS_IN_TEAM
            (map (\<lambda>(k, gs). (k, map_option (map grp_id) gs)) m))
      | GroupLink g \<Rightarrow> GroupTypes g
      | GroupsAssociated g gs \<Rightarrow> GroupTypes g
      | _ \<Rightarrow> OtherTypes [])"

definition group_of :: "root_action \<Rightarrow> group_store_action" where
  "group_of a = (case a of GroupAction g \<Rightarrow> g | GroupsAssociated _ gs \<Rightarrow> GROUPS_ASSOCIATED gs | _ \<Rightarrow> GroupOther [])"

definition role_of :: "root_action \<Rightarrow> role_action" where
  "role_of a = (case a of RoleAction r \<Rightarrow> r | UserAction LOGOUT_SUCCESS \<Rightarrow> RoleLogout | _ \<Rightarrow> RoleOther [])"

text \<open>The data of a login has no preferences here.\<close>

definition preference_of :: "root_action \<Rightarrow> preference_action" where
  "preference_of a =
     (case a of
        PreferenceAction p \<Rightarrow> p
      | UserAction (LOGIN user ts teamMembers teamUnreads) \<Rightarrow> PreferenceLogin None
      | UserAction LOGOUT_SUCCESS \<Rightarrow> PreferenceLogout
      | _ \<Rightarrow> PreferenceOther [])"

definition search_of :: "root_action \<Rightarrow> search_action" where
  "search_of a =
     (case a of
        SearchAction s \<Rightarrow> s
      | PostAction p \<Rightarrow> SearchPost p
      | PreferenceAction p \<Rightarrow> SearchPreferences p
      | UserAction LOGOUT_SUCCESS \<Rightarrow> SearchLogout
      | _ \<Rightarrow> SearchOther [])"

lemmas projection_defs = entity_of_def redux_of_def group_of_def role_of_def preference_of_def search_of_def

section \<open>Reducer\<close>

text \<open>\<open>config\<close> of \<open>general.ts\<close>. The data of a login has no configuration here.\<close>

definition config_reducer :: "client_config \<Rightarrow> root_action \<Rightarrow> client_config" where
  "config_reducer st a =
     (case a of
        ConfigAction (CLIENT_CONFIG_RECEIVED c) \<Rightarrow> obj_spread st c
      | ConfigAction (SET_CONFIG_AND_LICENSE c) \<Rightarrow> obj_spread st c
      | ConfigAction CLIENT_CONFIG_RESET \<Rightarrow> []
      | UserAction LOGOUT_SUCCESS \<Rightarrow> []
      | _ \<Rightarrow> st)"

definition root_step :: "root_store \<Rightarrow> root_action \<Rightarrow> root_store option" where
  "root_step st a =
     (case (entities_step (rt_entities st) (redux_of a), store_step (rt_posts st) (entity_of a),
            threads_step (rt_threads st) (entity_of a), category_byId (rt_byId st) (entity_of a),
            groups_reducer (rt_groups st) (group_of a), preferences_reducer (rt_preferences st) (preference_of a)) of
        (Some ents, Some posts, Some threads, Some byId, Some grps, Some prefs) \<Rightarrow> Some
          \<lparr>rt_entities = ents,
           rt_users = users_reducer (rt_users st) (redux_of a),
           rt_posts = posts,
           rt_threads = threads,
           rt_byId = upd (rt_byId st) byId,
           rt_orderByTeam = upd (rt_orderByTeam st) (orderByTeam (rt_orderByTeam st) (entity_of a)),
           rt_groups = grps,
           rt_roles = roles_reducer (rt_roles st) (role_of a),
           rt_preferences = prefs,
           rt_search = search_reducer (rt_search st) (search_of a),
           rt_config = config_reducer (rt_config st) a\<rparr>
      | _ \<Rightarrow> None)"

section \<open>What the selectors see\<close>

definition permissions_of :: "root_store \<Rightarrow> permission_store" where
  "permissions_of st = \<lparr>pm_users = rt_users st, pm_teams = rt_teams st, pm_channels = rt_channels st,
     pm_groups = rt_groups st, pm_roles = rt_roles st\<rparr>"

definition sidebar_of :: "root_store \<Rightarrow> sidebar_store" where
  "sidebar_of st = \<lparr>sb_channels = rt_channels st, sb_users = rt_users st, sb_preferences = rt_preferences st,
     sb_config = rt_config st, sb_byId = rt_byId st, sb_orderByTeam = rt_orderByTeam st\<rparr>"

end
