(* ===== verification/WebsocketEvents.thy ===== *)
theory WebsocketEvents
  imports RootStore
begin

text \<open>
  \<open>channels/src/actions/websocket_actions.jsx\<close>: what the events of the server do to the store. A handler reads the
  state and gives its effects in order: actions that are dispatched, requests that are sent (what they dispatch when they
  are answered is not part of the handler), and what the user sees. The texts of the event that are JSON come parsed. A property
  of an event that may be missing is an option.
\<close>

section \<open>Effects\<close>

datatype store_request =
    LoadRoles "string list"
  | LoadChannels
  | LoadUser string
  | RemoveNotVisibleUsers
  | GetChannelStats string
  | GetMemberCountsByGroup string
  | GetMyChannelMember string
  | FetchChannelAndAddToSidebar string
  | FetchStatusesAndProfiles post
  | FetchThread string string string
  | GetPostThread string
  | GetMyTeamMembers
  | FetchMyCategories string bool
  | FetchGroup string
  | LoadProfilesForDM
  | LoadProfilesForGM
  | GetCustomEmoji string
  | LoadCustomEmoji "string option"
  | UpdateThreadRead string string string int

text \<open>
  \<open>Throw\<close> is an exception that ends the handler. \<open>OpenRemovedModal\<close> shows the name of the channel with the given id, and who
  removed me. \<open>ReplaceLocation\<close> goes to the channel of a name in a team, \<open>PushTeamChannel\<close> to one below the url of a team.
\<close>

datatype store_effect =
    Dispatch root_action
  | Ask store_request
  | CloseRightHandSide
  | OpenRemovedModal "string option" "string option"
  | RedirectToDefaultTeam
  | PushTeamChannel string string
  | RedirectHome
  | ReplaceLocation string string
  | UpdateThreadLastOpened string int
  | Throw

fun perform :: "root_store \<Rightarrow> store_effect list \<Rightarrow> root_store option" where
  "perform st [] = Some st"
| "perform st (Dispatch a # es) = (case root_step st a of None \<Rightarrow> None | Some st' \<Rightarrow> perform st' es)"
| "perform st (Throw # es) = None"
| "perform st (_ # es) = perform st es"

abbreviation dispatch_batch :: "root_action list \<Rightarrow> store_effect list" where
  "dispatch_batch \<equiv> map Dispatch"

abbreviation rt_me :: "root_store \<Rightarrow> string" where
  "rt_me st \<equiv> uss_currentUserId (rt_users st)"

definition getCurrentUser :: "root_store \<Rightarrow> user_profile option" where
  "getCurrentUser st = get (uss_profiles (rt_users st)) (rt_me st)"

definition getChannel :: "root_store \<Rightarrow> string \<Rightarrow> channel option" where
  "getChannel st i = get (cs_channels (rt_channels st)) i"

definition collapsed_threads :: "root_store \<Rightarrow> bool" where
  "collapsed_threads st = isCollapsedThreadsEnabled (rt_config st) (rt_preferences st)"

section \<open>Channels\<close>

definition handleChannelUpdatedEvent :: "root_store \<Rightarrow> server_channel \<Rightarrow> store_effect list" where
  "handleChannelUpdatedEvent st c =
     dispatch_batch (ChannelAction (RECEIVED_CHANNEL c) #
       (case getChannel st (ch_id c) of
          None \<Rightarrow> []
        | Some existing \<Rightarrow>
            if ch_type existing = GM_CHANNEL \<and> ch_type c = PRIVATE_CHANNEL then [GmConverted (ch_id c) (ch_team_id c)] else [])) @
     (if ch_id c = cs_currentChannelId (rt_channels st)
      then [ReplaceLocation (if ch_team_id c \<noteq> [] then ch_team_id c else tes_currentTeamId (rt_teams st)) (ch_name c)] else [])"

definition handleDirectAddedEvent :: "string \<Rightarrow> store_effect list" where
  "handleDirectAddedEvent channelId = [Ask (FetchChannelAndAddToSidebar channelId)]"

definition handleGroupAddedEvent :: "string \<Rightarrow> store_effect list" where
  "handleGroupAddedEvent channelId = [Ask (FetchChannelAndAddToSidebar channelId)]"

definition handleChannelMemberUpdatedEvent :: "channel_membership \<Rightarrow> store_effect list" where
  "handleChannelMemberUpdatedEvent m =
     [Ask (LoadRoles (split_on (CHR '' '') (cm_roles m))), Dispatch (ChannelAction (RECEIVED_MY_CHANNEL_MEMBER (Some m)))]"

definition handleChannelDeletedEvent :: "string \<Rightarrow> int \<Rightarrow> store_effect list" where
  "handleChannelDeletedEvent channelId deleteAt = [Dispatch (ChannelAction (RECEIVED_CHANNEL_DELETED channelId deleteAt))]"

definition handleChannelUnarchivedEvent :: "string \<Rightarrow> store_effect list" where
  "handleChannelUnarchivedEvent channelId = [Dispatch (ChannelAction (RECEIVED_CHANNEL_UNARCHIVED channelId))]"

definition handleChannelSchemeUpdatedEvent :: "string \<Rightarrow> store_effect list" where
  "handleChannelSchemeUpdatedEvent channelId = [Ask (GetMyChannelMember channelId)]"

text \<open>The three conditions on the licence and the configuration under which members are counted by group.\<close>

definition counts_by_group :: "root_store \<Rightarrow> string obj \<Rightarrow> bool" where
  "counts_by_group st license \<longleftrightarrow>
     get license ''IsLicensed'' = Some ''true'' \<and> get license ''LDAPGroups'' = Some ''true'' \<and>
     get (rt_config st) ''EnableConfirmNotificationsToChannel'' = Some ''true''"

definition handleUserAddedEvent :: "root_store \<Rightarrow> string obj \<Rightarrow> string \<Rightarrow> string \<Rightarrow> string option \<Rightarrow> store_effect list" where
  "handleUserAddedEvent st license channelId userId teamId =
     (if cs_currentChannelId (rt_channels st) = channelId
      then [Ask (GetChannelStats channelId), Dispatch (UserAction (RECEIVED_PROFILE_IN_CHANNEL channelId userId))] @
           (if counts_by_group st license then [Ask (GetMemberCountsByGroup channelId)] else [])
      else []) @
     (if rt_me st = userId then [Ask (FetchChannelAndAddToSidebar channelId)] else []) @
     (if has_text teamId \<and> get (rt_config st) ''RestrictDirectMessage'' = Some ''team''
      then [Dispatch (ChannelAction RESTRICTED_DMS_TEAMS_CHANGED)] else [])"

text \<open>
  The event goes to the removed user with the channel in its data, and to the channel with the user in its data; \<open>rhs\<close> is the
  channel of the right-hand side.
\<close>

record user_removed =
  ur_broadcast_user_id :: string
  ur_broadcast_channel_id :: string
  ur_channel_id :: "string option"
  ur_user_id :: "string option"
  ur_remover_id :: "string option"

definition leave_action :: "root_store \<Rightarrow> user_removed \<Rightarrow> root_action" where
  "leave_action st msg =
     ChannelAction (LEAVE_CHANNEL (Some
       \<lparr>cl_id = key_of (ur_channel_id msg), cl_user_id = ur_broadcast_user_id msg,
        cl_team_id = map_option ch_team_id (getChannel st (key_of (ur_channel_id msg))), cl_type = None\<rparr>))"

definition i_was_removed :: "root_store \<Rightarrow> string \<Rightarrow> user_profile \<Rightarrow> user_removed \<Rightarrow> store_effect list" where
  "i_was_removed st rhs currentUser msg =
     (let current = getChannel st (cs_currentChannelId (rt_channels st));
          here = (ur_channel_id msg = map_option ch_id current)
      in [Ask LoadChannels] @
         (if ur_channel_id msg = Some rhs then [CloseRightHandSide] else []) @
         (if here \<and> ur_remover_id msg \<noteq> Some (ur_broadcast_user_id msg)
          then (if get (uss_profiles (rt_users st)) (key_of (ur_remover_id msg)) = None
                then [Ask (LoadUser (key_of (ur_remover_id msg)))] else []) @
               [OpenRemovedModal (map_option ch_id current) (ur_remover_id msg)]
          else []) @
         [Dispatch (leave_action st msg)] @
         (if here then [RedirectToDefaultTeam] else []) @
         (if isPartner (or_empty (us_roles currentUser)) then [Ask RemoveNotVisibleUsers] else []))"

definition known_member :: "root_store \<Rightarrow> string \<Rightarrow> bool" where
  "known_member st userId \<longleftrightarrow>
     list_ex (\<lambda>members. get members userId \<noteq> None) (obj_values (cs_membersInChannel (rt_channels st)))"

definition other_was_removed :: "root_store \<Rightarrow> string obj \<Rightarrow> user_profile \<Rightarrow> user_removed \<Rightarrow> store_effect list" where
  "other_was_removed st license currentUser msg =
     (let current = getChannel st (cs_currentChannelId (rt_channels st)); userId = key_of (ur_user_id msg)
      in (if Some (ur_broadcast_channel_id msg) = map_option ch_id current
          then [Ask (GetChannelStats (ur_broadcast_channel_id msg)),
                Dispatch (UserAction (RECEIVED_PROFILE_NOT_IN_CHANNEL (ur_broadcast_channel_id msg) userId))] @
               (if counts_by_group st license then [Ask (GetMemberCountsByGroup (ur_broadcast_channel_id msg))] else [])
          else []) @
         (case getChannel st (ur_broadcast_channel_id msg) of
            None \<Rightarrow> []
          | Some c \<Rightarrow>
              if isPartner (or_empty (us_roles currentUser)) \<and> \<not> known_member st userId
              then dispatch_batch [UserAction (PROFILE_NO_LONGER_VISIBLE userId),
                                   TeamAction (REMOVE_MEMBER_FROM_TEAM (ch_team_id c) userId)]
              else []))"

definition VIEW_MEMBERS :: string where "VIEW_MEMBERS = ''view_members''"

text \<open>Who may not see the members of the team forgets that whoever left the channel is one.\<close>

definition forget_member :: "root_store \<Rightarrow> user_removed \<Rightarrow> store_effect list" where
  "forget_member st msg =
     (let channelId = (if ur_broadcast_channel_id msg \<noteq> [] then ur_broadcast_channel_id msg else key_of (ur_channel_id msg));
          userId = (if ur_broadcast_user_id msg \<noteq> [] then ur_broadcast_user_id msg else key_of (ur_user_id msg))
      in case getChannel st channelId of
           None \<Rightarrow> []
         | Some c \<Rightarrow>
             (case (haveISystemPermission (permissions_of st) VIEW_MEMBERS,
                    haveITeamPermission (permissions_of st) (ch_team_id c) VIEW_MEMBERS) of
                (Some system, Some team) \<Rightarrow>
                  if \<not> system \<and> \<not> team
                  then dispatch_batch [UserAction (RECEIVED_PROFILE_NOT_IN_TEAM (ch_team_id c) userId),
                                       TeamAction (REMOVE_MEMBER_FROM_TEAM (ch_team_id c) userId)]
                  else []
              | _ \<Rightarrow> [Throw]))"

definition handleUserRemovedEvent :: "root_store \<Rightarrow> string obj \<Rightarrow> string \<Rightarrow> user_removed \<Rightarrow> store_effect list" where
  "handleUserRemovedEvent st license rhs msg =
     (case getCurrentUser st of
        None \<Rightarrow> [Throw]
      | Some currentUser \<Rightarrow>
          (if ur_broadcast_user_id msg = us_id currentUser then i_was_removed st rhs currentUser msg
           else other_was_removed st license currentUser msg) @
          forget_member st msg)"

section \<open>Teams\<close>

text \<open>\<open>console\<close> tells whether the system console is open.\<close>

definition team_left_actions :: "root_store \<Rightarrow> string \<Rightarrow> string \<Rightarrow> root_action list" where
  "team_left_actions st teamId userId =
     [UserAction (RECEIVED_PROFILE_NOT_IN_TEAM teamId userId), TeamAction (REMOVE_MEMBER_FROM_TEAM teamId userId)] @
     map (\<lambda>c. ChannelAction (REMOVE_MEMBER_FROM_CHANNEL c userId)) (get_or [] (cs_channelsInTeam (rt_channels st)) teamId) @
     (if get (rt_config st) ''RestrictDirectMessage'' = Some ''team'' then [ChannelAction RESTRICTED_DMS_TEAMS_CHANGED] else [])"

definition handleLeaveTeamEvent :: "root_store \<Rightarrow> bool \<Rightarrow> string \<Rightarrow> string \<Rightarrow> store_effect list" where
  "handleLeaveTeamEvent st console teamId userId =
     dispatch_batch (team_left_actions st teamId userId) @
     (case getCurrentUser st of
        None \<Rightarrow> [Throw]
      | Some currentUser \<Rightarrow>
          if us_id currentUser = userId
          then [Dispatch (TeamAction (LEAVE_TEAM teamId))] @
               (if tes_currentTeamId (rt_teams st) = teamId \<and> \<not> console then [RedirectToDefaultTeam] else []) @
               (if isPartner (or_empty (us_roles currentUser)) then [Ask RemoveNotVisibleUsers] else [])
          else
            (case get (tes_teams (rt_teams st)) teamId of
               None \<Rightarrow> []
             | Some t \<Rightarrow>
                 if isPartner (or_empty (us_roles currentUser)) \<and> \<not> known_member st userId
                 then dispatch_batch [UserAction (PROFILE_NO_LONGER_VISIBLE userId),
                                      TeamAction (REMOVE_MEMBER_FROM_TEAM (te_id t) userId)]
                 else []))"

definition handleUpdateTeamEvent :: "team \<Rightarrow> store_effect list" where
  "handleUpdateTeamEvent t = [Dispatch (TeamAction (UPDATED_TEAM t))]"

definition getMyTeams :: "root_store \<Rightarrow> team list" where
  "getMyTeams st =
     filter (\<lambda>t. get (tes_myMembers (rt_teams st)) (te_id t) \<noteq> None \<and> te_delete_at t = 0) (obj_values (tes_teams (rt_teams st)))"

text \<open>The team to go to when the current one is deleted: the first other one in the order of my memberships.\<close>

definition replacement_team :: "root_store \<Rightarrow> string \<Rightarrow> string option" where
  "replacement_team st deleted =
     (let teamMembers = obj_values (tes_myMembers (rt_teams st));
          teamMember = find (\<lambda>m. tm_user_id m = rt_me st \<and> tm_team_id m = tes_currentTeamId (rt_teams st)) teamMembers;
          mine = foldl (\<lambda>ts t. put (te_id t) t ts) [] (getMyTeams st)
      in case teamMember of
           None \<Rightarrow> None
         | Some m \<Rightarrow>
             if deleted = tm_team_id m
             then map_option tm_team_id (find (\<lambda>m. (case get mine (tm_team_id m) of None \<Rightarrow> False
                    | Some t \<Rightarrow> te_delete_at t = 0) \<and> deleted \<noteq> tm_team_id m) teamMembers)
             else None)"

text \<open>
  Where a team is entered: its default channel if I am in it or may join it, else the first of my channels there by name.
  \<open>lower\<close> and \<open>lc\<close> are \<open>toLowerCase\<close> and \<open>localeCompare\<close>. The selectors read the roles and the locale of my profile and
  throw without them.
\<close>

definition JOIN_PUBLIC_CHANNELS :: string where "JOIN_PUBLIC_CHANNELS = ''join_public_channels''"

definition getDefaultChannelForTeams :: "root_store \<Rightarrow> channel obj" where
  "getDefaultChannelForTeams st =
     foldl (\<lambda>result c. if ch_name c = DEFAULT_CHANNEL then put (ch_team_id c) c result else result) []
       (obj_values (cs_channels (rt_channels st)))"

definition my_channels_in ::
  "(string \<Rightarrow> string) \<Rightarrow> (string \<Rightarrow> string \<Rightarrow> string \<Rightarrow> int) \<Rightarrow> root_store \<Rightarrow> string \<Rightarrow> string \<Rightarrow> channel list" where
  "my_channels_in lower lc st locale teamId =
     js_sort (sortChannelsByDisplayName lower (lc locale))
       (filter (\<lambda>c. ch_team_id c = teamId \<and> get (cs_myMembers (rt_channels st)) (ch_id c) \<noteq> None)
         (obj_values (cs_channels (rt_channels st))))"

definition getMyFirstChannelForTeams ::
  "(string \<Rightarrow> string) \<Rightarrow> (string \<Rightarrow> string \<Rightarrow> string \<Rightarrow> int) \<Rightarrow> root_store \<Rightarrow> channel obj option" where
  "getMyFirstChannelForTeams lower lc st =
     (case getCurrentUser st of
        None \<Rightarrow> None
      | Some currentUser \<Rightarrow>
          (let locale = (if has_text (us_locale currentUser) then or_empty (us_locale currentUser) else DEFAULT_LOCALE)
           in Some (foldl (\<lambda>result t. case my_channels_in lower lc st locale (te_id t) of
                [] \<Rightarrow> result | c # cs \<Rightarrow> put (te_id t) c result) [] (getMyTeams st))))"

definition getRedirectChannelNameForTeam ::
  "(string \<Rightarrow> string) \<Rightarrow> (string \<Rightarrow> string \<Rightarrow> string \<Rightarrow> int) \<Rightarrow> root_store \<Rightarrow> string \<Rightarrow> string option" where
  "getRedirectChannelNameForTeam lower lc st teamId =
     (case haveITeamPermission (permissions_of st) teamId JOIN_PUBLIC_CHANNELS of
        None \<Rightarrow> None
      | Some canIJoin \<Rightarrow>
          (let member = (case get (getDefaultChannelForTeams st) teamId of
                 None \<Rightarrow> False | Some c \<Rightarrow> get (cs_myMembers (rt_channels st)) (ch_id c) \<noteq> None)
           in if member \<or> canIJoin then Some DEFAULT_CHANNEL
              else (case getMyFirstChannelForTeams lower lc st of
                      None \<Rightarrow> None
                    | Some firsts \<Rightarrow>
                        (case get firsts teamId of
                           None \<Rightarrow> Some DEFAULT_CHANNEL
                         | Some c \<Rightarrow> Some (if ch_name c \<noteq> [] then ch_name c else DEFAULT_CHANNEL)))))"

definition getCurrentTeamUrl :: "root_store \<Rightarrow> string" where
  "getCurrentTeamUrl st =
     (let siteURL = key_of (get (rt_config st) ''SiteURL'')
      in case get (tes_teams (rt_teams st)) (tes_currentTeamId (rt_teams st)) of
           None \<Rightarrow> siteURL
         | Some t \<Rightarrow> siteURL @ ''/'' @ te_name t)"

text \<open>The last effects of a deletion are computed from the state in which the other team has been selected.\<close>

definition enter_team ::
  "(string \<Rightarrow> string) \<Rightarrow> (string \<Rightarrow> string \<Rightarrow> string \<Rightarrow> int) \<Rightarrow> root_store \<Rightarrow> string \<Rightarrow> store_effect list" where
  "enter_team lower lc st teamId =
     (case getRedirectChannelNameForTeam lower lc st teamId of
        None \<Rightarrow> [Throw]
      | Some redirectChannel \<Rightarrow> [PushTeamChannel (getCurrentTeamUrl st) redirectChannel])"

definition team_deleted_effects :: "team \<Rightarrow> store_effect list" where
  "team_deleted_effects deletedTeam =
     dispatch_batch [TeamAction (RECEIVED_TEAM_DELETED (te_id deletedTeam)), TeamAction (UPDATED_TEAM deletedTeam)]"

definition handleDeleteTeamEvent ::
  "(string \<Rightarrow> string) \<Rightarrow> (string \<Rightarrow> string \<Rightarrow> string \<Rightarrow> int) \<Rightarrow> root_store \<Rightarrow> team \<Rightarrow> store_effect list" where
  "handleDeleteTeamEvent lower lc st deletedTeam =
     (case get (tes_teams (rt_teams st)) (te_id deletedTeam) of
        None \<Rightarrow> []
      | Some t \<Rightarrow>
          if te_delete_at t \<noteq> 0 then []
          else if tes_currentTeamId (rt_teams st) = te_id deletedTeam
          then (case replacement_team st (te_id deletedTeam) of
                  Some (c # i) \<Rightarrow>
                    (let selected = team_deleted_effects deletedTeam @ [Dispatch (TeamAction (SELECT_TEAM (c # i)))]
                     in selected @ (case perform st selected of None \<Rightarrow> [] | Some st' \<Rightarrow> enter_team lower lc st' (c # i)))
                | _ \<Rightarrow> team_deleted_effects deletedTeam @ [RedirectHome])
          else team_deleted_effects deletedTeam)"

definition handleUpdateMemberRoleEvent :: "team_membership \<Rightarrow> store_effect list" where
  "handleUpdateMemberRoleEvent m =
     [Ask (LoadRoles (split_on (CHR '' '') (tm_roles m))), Dispatch (TeamAction (RECEIVED_MY_TEAM_MEMBER m))]"

definition handleUpdateTeamSchemeEvent :: "store_effect list" where
  "handleUpdateTeamSchemeEvent = [Ask GetMyTeamMembers]"

section \<open>Posts and threads\<close>

definition handlePostEditEvent :: "root_store \<Rightarrow> post \<Rightarrow> store_effect list" where
  "handlePostEditEvent st p =
     [Dispatch (PostAction (RECEIVED_POST p (collapsed_threads st))), Ask (FetchStatusesAndProfiles p)]"

definition getThread :: "root_store \<Rightarrow> string \<Rightarrow> user_thread option" where
  "getThread st threadId = (if threadId = [] then None else get (ts_threads (rt_threads st)) threadId)"

definition decrementThreadCounts :: "root_store \<Rightarrow> post \<Rightarrow> store_effect list" where
  "decrementThreadCounts st p =
     (case getThread st (post_id p) of
        None \<Rightarrow> []
      | Some thread \<Rightarrow>
          if t_unread_replies thread = 0 \<and> t_unread_mentions thread = 0 then []
          else
            (case getChannel st (channel_id p) of
               None \<Rightarrow> []
             | Some c \<Rightarrow>
                 [Dispatch (ThreadAction (DECREMENT_THREAD_COUNTS
                    (if ch_team_id c \<noteq> [] then ch_team_id c else tes_currentTeamId (rt_teams st))
                    (t_unread_replies thread) (t_unread_mentions thread) (ch_type c)))]))"

definition getTeamIdFromPost :: "root_store \<Rightarrow> post \<Rightarrow> string option" where
  "getTeamIdFromPost st p =
     (case getChannel st (channel_id p) of
        None \<Rightarrow> None
      | Some c \<Rightarrow> Some (if ch_type c = DM_CHANNEL \<or> ch_type c = GM_CHANNEL then tes_currentTeamId (rt_teams st) else ch_team_id c))"

text \<open>
  What comes before the answer to \<open>GetPostThread\<close>. \<open>GetChannelStats\<close> of a pinned post comes after the answer if there is one.
\<close>

definition handlePostDeleteEvent :: "root_store \<Rightarrow> post \<Rightarrow> store_effect list" where
  "handlePostDeleteEvent st p =
     (if root_id p = [] \<and> collapsed_threads st then decrementThreadCounts st p else []) @
     [Dispatch (PostAction (POST_DELETED p))] @
     (if root_id p \<noteq> [] \<and> collapsed_threads st
      then (case getThread st (root_id p) of
              Some thread \<Rightarrow>
                (if has_text (getTeamIdFromPost st p)
                 then [Ask (FetchThread (rt_me st) (or_empty (getTeamIdFromPost st p)) (root_id p))] else [])
            | None \<Rightarrow> [Ask (GetPostThread (root_id p))])
      else []) @
     (if p_is_pinned (core p) then [Ask (GetChannelStats (channel_id p))] else [])"

definition handlePostUnreadEvent :: "post_unread \<Rightarrow> store_effect list" where
  "handlePostUnreadEvent u = [Dispatch (ChannelAction (POST_UNREAD_SUCCESS u))]"

definition handleReactionAddedEvent :: "reaction \<Rightarrow> store_effect list" where
  "handleReactionAddedEvent r = [Ask (GetCustomEmoji (r_emoji_name r)), Dispatch (PostAction (RECEIVED_REACTION r))]"

definition handleReactionRemovedEvent :: "reaction \<Rightarrow> store_effect list" where
  "handleReactionRemovedEvent r = [Dispatch (PostAction (REACTION_DELETED r))]"

definition handlePostAcknowledgementAdded :: "post_acknowledgement \<Rightarrow> store_effect list" where
  "handlePostAcknowledgementAdded a = [Dispatch (PostAction (CREATE_ACK_POST_SUCCESS a))]"

definition handlePostAcknowledgementRemoved :: "post_acknowledgement \<Rightarrow> store_effect list" where
  "handlePostAcknowledgementRemoved a = [Dispatch (PostAction (DELETE_ACK_POST_SUCCESS a))]"

text \<open>\<open>handleReadChanged\<close> of \<open>actions/threads.ts\<close>; a channel that is not loaded has no type.\<close>

record thread_read_data =
  tr_lastViewedAt :: int
  tr_prevUnreadMentions :: "int option"
  tr_newUnreadMentions :: int
  tr_prevUnreadReplies :: "int option"
  tr_newUnreadReplies :: int

definition handleReadChanged :: "root_store \<Rightarrow> string \<Rightarrow> string \<Rightarrow> string \<Rightarrow> thread_read_data \<Rightarrow> root_action" where
  "handleReadChanged st threadId teamId channelId d =
     ThreadAction (READ_CHANGED_THREAD
       \<lparr>rc_id = threadId, rc_teamId = teamId, rc_channelId = channelId, rc_lastViewedAt = tr_lastViewedAt d,
        rc_prevUnreadMentions = tr_prevUnreadMentions d, rc_newUnreadMentions = tr_newUnreadMentions d,
        rc_prevUnreadReplies = tr_prevUnreadReplies d, rc_newUnreadReplies = tr_newUnreadReplies d,
        rc_channelType = (case getChannel st channelId of None \<Rightarrow> [] | Some c \<Rightarrow> ch_type c),
        rc_isUrgent = (case getThread st threadId of None \<Rightarrow> False | Some t \<Rightarrow> t_is_urgent t)\<rparr>)"

definition handleAllThreadsInChannelMarkedRead :: "root_store \<Rightarrow> string \<Rightarrow> int \<Rightarrow> root_action list" where
  "handleAllThreadsInChannelMarkedRead st channelId lastViewedAt =
     (case getChannel st channelId of
        None \<Rightarrow> []
      | Some c \<Rightarrow> map (\<lambda>t. ThreadAction (READ_CHANGED_THREAD
          \<lparr>rc_id = t_id t, rc_teamId = ch_team_id c, rc_channelId = channelId, rc_lastViewedAt = lastViewedAt,
           rc_prevUnreadMentions = None, rc_newUnreadMentions = 0, rc_prevUnreadReplies = None, rc_newUnreadReplies = 0,
           rc_channelType = [], rc_isUrgent = t_is_urgent t\<rparr>)) (getThreadsOfChannel (ts_threads (rt_threads st)) channelId))"

text \<open>The thread of the event or, without one, all of a channel or of the team; \<open>open_thread\<close> tells which thread is on the screen.\<close>

definition handleThreadReadChanged ::
  "root_store \<Rightarrow> (string \<Rightarrow> bool) \<Rightarrow> string \<Rightarrow> string \<Rightarrow> string \<Rightarrow> string \<Rightarrow> thread_read_data \<Rightarrow> store_effect list" where
  "handleThreadReadChanged st open_thread threadId teamId channelId broadcastChannelId d =
     (if threadId \<noteq> []
      then
        (let thread = get (ts_threads (rt_threads st)) threadId
         in (case thread of None \<Rightarrow> [] | Some t \<Rightarrow> if open_thread (t_id t) then [] else [UpdateThreadLastOpened (t_id t) (tr_lastViewedAt d)]) @
            [Dispatch (handleReadChanged st threadId teamId channelId (d\<lparr>
               tr_prevUnreadMentions := (case thread of Some t \<Rightarrow> Some (t_unread_mentions t) | None \<Rightarrow> tr_prevUnreadMentions d),
               tr_prevUnreadReplies := (case thread of Some t \<Rightarrow> Some (t_unread_replies t) | None \<Rightarrow> tr_prevUnreadReplies d)\<rparr>))])
      else if broadcastChannelId \<noteq> []
      then dispatch_batch (handleAllThreadsInChannelMarkedRead st broadcastChannelId (tr_lastViewedAt d))
      else [Dispatch (ThreadAction (ALL_TEAM_THREADS_READ teamId))])"

text \<open>\<open>handleFollowChanged\<close> of \<open>actions/threads.ts\<close>.\<close>

definition follow_changed_action :: "string \<Rightarrow> string \<Rightarrow> bool \<Rightarrow> root_action" where
  "follow_changed_action threadId teamId following = ThreadAction (FOLLOW_CHANGED_THREAD threadId teamId following)"

definition handleThreadFollowChanged :: "root_store \<Rightarrow> string \<Rightarrow> string \<Rightarrow> bool \<Rightarrow> int \<Rightarrow> store_effect list" where
  "handleThreadFollowChanged st teamId threadId state replyCount =
     (if getThread st threadId = None \<and> state \<and> replyCount \<noteq> 0 then [Ask (FetchThread (rt_me st) teamId threadId)] else []) @
     [Dispatch (follow_changed_action threadId teamId state)]"

text \<open>A thread as the server sends it: its post and the profiles of its participants come with it.\<close>

record thread_data =
  td_thread :: user_thread
  td_post :: post
  td_participants :: "user_profile list"

text \<open>
  The channel's type and the urgency in \<open>handleReadChanged\<close> are those of the state after the thread has been received: the
  channels are the same there, and the thread is the one received. Its other numbers are compared with those from before.
\<close>

definition handleThreadArrived ::
  "root_store \<Rightarrow> thread_data \<Rightarrow> string \<Rightarrow> int option \<Rightarrow> int option \<Rightarrow> store_effect list" where
  "handleThreadArrived st d teamId previousUnreadReplies previousUnreadMentions =
     (let thread = (td_thread d)\<lparr>t_is_following := True\<rparr>; old = get (ts_threads (rt_threads st)) (t_id thread)
      in [Dispatch (UserAction (RECEIVED_PROFILES_LIST (Some (filter (\<lambda>u. us_id u \<noteq> rt_me st) (td_participants d))))),
          Dispatch (PostAction (RECEIVED_POST (upd_core (\<lambda>c. c\<lparr>p_update_at := 0\<rparr>) (td_post d)) (collapsed_threads st))),
          Dispatch (ThreadAction (RECEIVED_THREAD thread teamId))] @
         (if previousUnreadMentions \<noteq> None \<and> previousUnreadReplies \<noteq> None \<or> old \<noteq> None
          then [Dispatch (ThreadAction (READ_CHANGED_THREAD
                 \<lparr>rc_id = t_id thread, rc_teamId = teamId, rc_channelId = channel_id (td_post d),
                  rc_lastViewedAt = t_last_viewed_at thread,
                  rc_prevUnreadMentions = (case old of Some t \<Rightarrow> Some (t_unread_mentions t) | None \<Rightarrow> previousUnreadMentions),
                  rc_newUnreadMentions = t_unread_mentions thread,
                  rc_prevUnreadReplies = (case old of Some t \<Rightarrow> Some (t_unread_replies t) | None \<Rightarrow> previousUnreadReplies),
                  rc_newUnreadReplies = t_unread_replies thread,
                  rc_channelType = (case getChannel st (channel_id (td_post d)) of None \<Rightarrow> [] | Some c \<Rightarrow> ch_type c),
                  rc_isUrgent = (t_id thread \<noteq> [] \<and> t_is_urgent thread)\<rparr>))]
          else []))"

text \<open>
  \<open>reading\<close> tells whether the thread is on the screen of an active window and was not marked as unread by hand; \<open>now\<close> is
  the clock.
\<close>

definition handleThreadUpdated ::
  "root_store \<Rightarrow> bool \<Rightarrow> int \<Rightarrow> thread_data \<Rightarrow> string \<Rightarrow> int option \<Rightarrow> int option \<Rightarrow> store_effect list" where
  "handleThreadUpdated st reading now d teamId previousUnreadReplies previousUnreadMentions =
     (let thread = td_thread d;
          followed = (if rt_me st = user_id (td_post d) then thread\<lparr>t_is_following := True\<rparr> else thread);
          lastViewedAt = (case t_last_reply_at thread of None \<Rightarrow> now | Some r \<Rightarrow> if now < r then r + 1 else now)
      in if reading
         then [Ask (UpdateThreadRead (rt_me st) (tes_currentTeamId (rt_teams st)) (t_id thread) lastViewedAt)] @
              handleThreadArrived st
                (d\<lparr>td_thread := followed\<lparr>t_last_viewed_at := lastViewedAt, t_unread_mentions := 0, t_unread_replies := 0\<rparr>\<rparr>)
                teamId previousUnreadReplies previousUnreadMentions
         else handleThreadArrived st (d\<lparr>td_thread := followed\<rparr>) teamId previousUnreadReplies previousUnreadMentions)"

section \<open>Users, roles, groups\<close>

text \<open>
  \<open>emoji_of\<close> reads the emoji of a custom status out of its JSON text; it is \<open>None\<close> where that is no JSON text and throws.
\<close>

definition handleUserUpdatedEvent ::
  "root_store \<Rightarrow> (string \<Rightarrow> string option option) \<Rightarrow> user_profile option \<Rightarrow> store_effect list" where
  "handleUserUpdatedEvent st emoji_of user =
     (case user of
        None \<Rightarrow> [Throw]
      | Some u \<Rightarrow>
          (case us_props u of
             None \<Rightarrow> []
           | Some props \<Rightarrow>
               (if has_text (get props ''customStatus'')
                then (case emoji_of (or_empty (get props ''customStatus'')) of None \<Rightarrow> [Throw] | Some e \<Rightarrow> [Ask (LoadCustomEmoji e)])
                else [Ask (LoadCustomEmoji None)])) @
          (case getCurrentUser st of
             None \<Rightarrow> [Throw]
           | Some me \<Rightarrow>
               if us_id me = us_id u
               then (if (case (us_update_at u, us_update_at me) of (Some a, Some b) \<Rightarrow> a > b | _ \<Rightarrow> False)
                     then [Dispatch (UserAction (RECEIVED_ME u))] @
                          (case us_roles u of None \<Rightarrow> [Throw] | Some r \<Rightarrow> [Ask (LoadRoles (split_on (CHR '' '') r))])
                     else [])
               else [Dispatch (UserAction (RECEIVED_PROFILE u))]))"

text \<open>\<open>includes\<close> looks for a part of the text; a profile without roles throws.\<close>

definition handleUserRoleUpdated :: "root_store \<Rightarrow> bool \<Rightarrow> string \<Rightarrow> string \<Rightarrow> store_effect list" where
  "handleUserRoleUpdated st console userId newRoles =
     (case get (uss_profiles (rt_users st)) userId of
        None \<Rightarrow> []
      | Some user \<Rightarrow>
          (case us_roles user of
             None \<Rightarrow> [Throw]
           | Some old \<Rightarrow>
               [Dispatch (UserAction (RECEIVED_PROFILE (user\<lparr>us_roles := Some newRoles\<rparr>))),
                Ask (LoadRoles (split_on (CHR '' '') newRoles))] @
               (if contains SYSTEM_ADMIN_ROLE old \<and> \<not> contains SYSTEM_ADMIN_ROLE newRoles \<and> console
                then [RedirectToDefaultTeam] else [])))"

definition handleStatusChangedEvent :: "string \<Rightarrow> string \<Rightarrow> store_effect list" where
  "handleStatusChangedEvent userId status = [Dispatch (UserAction (RECEIVED_STATUSES [(userId, status)]))]"

definition handleRoleAddedEvent :: "role \<Rightarrow> store_effect list" where
  "handleRoleAddedEvent r = [Dispatch (RoleAction (RECEIVED_ROLE (Some r)))]"

definition handleRoleUpdatedEvent :: "role \<Rightarrow> store_effect list" where
  "handleRoleUpdatedEvent r = [Dispatch (RoleAction (RECEIVED_ROLE (Some r)))]"

definition handleRoleRemovedEvent :: "role \<Rightarrow> store_effect list" where
  "handleRoleRemovedEvent r = [Dispatch (RoleAction (ROLE_DELETED (Some r)))]"

definition handleGroupUpdatedEvent :: "group \<Rightarrow> store_effect list" where
  "handleGroupUpdatedEvent g = [Dispatch (GroupAction (PATCHED_GROUP g))]"

definition handleMyGroupUpdate :: "string \<Rightarrow> string \<Rightarrow> store_effect list" where
  "handleMyGroupUpdate groupId userId =
     dispatch_batch [GroupAction (ADD_MY_GROUP groupId), GroupAction (RECEIVED_MEMBER_TO_ADD_TO_GROUP groupId userId),
                     UserAction (RECEIVED_PROFILES_FOR_GROUP groupId (Some [userId]))]"

text \<open>A group that is not loaded is fetched, and then \<open>handleMyGroupUpdate\<close> follows if there was no error.\<close>

definition handleGroupAddedMemberEvent :: "root_store \<Rightarrow> string \<Rightarrow> string \<Rightarrow> store_effect list" where
  "handleGroupAddedMemberEvent st groupId userId =
     (if rt_me st = userId
      then (if get (grs_groups (rt_groups st)) groupId \<noteq> None then handleMyGroupUpdate groupId userId else [Ask (FetchGroup groupId)])
      else [])"

definition handleGroupDeletedMemberEvent :: "root_store \<Rightarrow> string \<Rightarrow> string \<Rightarrow> store_effect list" where
  "handleGroupDeletedMemberEvent st groupId userId =
     (if rt_me st = userId
      then dispatch_batch [GroupAction (REMOVE_MY_GROUP groupId),
             UserAction (RECEIVED_PROFILES_LIST_TO_REMOVE_FROM_GROUP groupId (Some [userId])),
             GroupAction (RECEIVED_MEMBER_TO_REMOVE_FROM_GROUP groupId userId)]
      else [])"

definition handleGroupAssociatedToTeamEvent :: "string \<Rightarrow> string \<Rightarrow> store_effect list" where
  "handleGroupAssociatedToTeamEvent teamId groupId = [Dispatch (GroupLink (RECEIVED_GROUP_ASSOCIATED_TO_TEAM teamId [groupId]))]"

definition handleGroupNotAssociatedToTeamEvent :: "string \<Rightarrow> string \<Rightarrow> store_effect list" where
  "handleGroupNotAssociatedToTeamEvent teamId groupId =
     [Dispatch (GroupLink (RECEIVED_GROUP_NOT_ASSOCIATED_TO_TEAM teamId [groupId]))]"

definition handleGroupAssociatedToChannelEvent :: "string \<Rightarrow> string \<Rightarrow> store_effect list" where
  "handleGroupAssociatedToChannelEvent channelId groupId =
     [Dispatch (GroupLink (RECEIVED_GROUP_ASSOCIATED_TO_CHANNEL channelId [groupId]))]"

definition handleGroupNotAssociatedToChannelEvent :: "string \<Rightarrow> string \<Rightarrow> store_effect list" where
  "handleGroupNotAssociatedToChannelEvent channelId groupId =
     [Dispatch (GroupLink (RECEIVED_GROUP_NOT_ASSOCIATED_TO_CHANNEL channelId [groupId]))]"

section \<open>Preferences and categories\<close>

definition addedNewDmUser :: "preference \<Rightarrow> bool" where
  "addedNewDmUser p \<longleftrightarrow> pf_category p = CATEGORY_DIRECT_CHANNEL_SHOW \<and> pf_value p = ''true''"

definition addedNewGmUser :: "preference \<Rightarrow> bool" where
  "addedNewGmUser p \<longleftrightarrow> pf_category p = CATEGORY_GROUP_CHANNEL_SHOW \<and> pf_value p = ''true''"

definition handlePreferencesChangedEvent :: "preference list \<Rightarrow> store_effect list" where
  "handlePreferencesChangedEvent ps =
     [Dispatch (PreferenceAction (RECEIVED_PREFERENCES (Some ps)))] @
     (if findIndex addedNewDmUser ps \<noteq> None then [Ask LoadProfilesForDM] else []) @
     (if findIndex addedNewGmUser ps \<noteq> None then [Ask LoadProfilesForGM] else [])"

definition handlePreferenceChangedEvent :: "preference \<Rightarrow> store_effect list" where
  "handlePreferenceChangedEvent p =
     [Dispatch (PreferenceAction (RECEIVED_PREFERENCES (Some [p])))] @
     (if addedNewDmUser p then [Ask LoadProfilesForDM] else []) @
     (if addedNewGmUser p then [Ask LoadProfilesForGM] else [])"

definition handlePreferencesDeletedEvent :: "preference list \<Rightarrow> store_effect list" where
  "handlePreferencesDeletedEvent ps = [Dispatch (PreferenceAction (DELETED_PREFERENCES (Some ps)))]"

text \<open>Creating, updating and deleting a category all fetch the categories of the team, if it is the current one.\<close>

definition category_event :: "root_store \<Rightarrow> string \<Rightarrow> bool \<Rightarrow> store_effect list" where
  "category_event st teamId isWebSocket =
     (if teamId = [] then [] else if teamId \<noteq> tes_currentTeamId (rt_teams st) then [] else [Ask (FetchMyCategories teamId isWebSocket)])"

definition handleSidebarCategoryCreated :: "root_store \<Rightarrow> string \<Rightarrow> store_effect list" where
  "handleSidebarCategoryCreated st teamId = category_event st teamId False"

definition handleSidebarCategoryUpdated :: "root_store \<Rightarrow> string \<Rightarrow> store_effect list" where
  "handleSidebarCategoryUpdated st teamId = category_event st teamId True"

definition handleSidebarCategoryDeleted :: "root_store \<Rightarrow> string \<Rightarrow> store_effect list" where
  "handleSidebarCategoryDeleted st teamId = category_event st teamId False"

definition handleSidebarCategoryOrderUpdated :: "string \<Rightarrow> string list \<Rightarrow> store_effect list" where
  "handleSidebarCategoryOrderUpdated teamId ord = [Dispatch (CategoryAction (RECEIVED_CATEGORY_ORDER teamId ord))]"

definition handleConfigChanged :: "client_config \<Rightarrow> store_effect list" where
  "handleConfigChanged c = [Dispatch (ConfigAction (CLIENT_CONFIG_RECEIVED c))]"

end
