(* ===== verification/RootStoreProps.thy ===== *)
theory RootStoreProps
  imports RootStore SidebarProps
begin

text \<open>
  What the reducers guarantee holds in the whole store: the invariants of its parts, together, are an invariant of
  \<open>reducers/entities/index.ts\<close>.
\<close>

section \<open>Channels and categories stay filed\<close>

definition filed_map :: "channel obj \<Rightarrow> bool" where
  "filed_map st \<longleftrightarrow> (\<forall>k c. get st k = Some c \<longrightarrow> ch_id c = k)"

lemma filed_map_put: "filed_map st \<Longrightarrow> ch_id c = k \<Longrightarrow> filed_map (put k c st)"
  by (simp add: filed_map_def)

lemma filed_map_del: "filed_map st \<Longrightarrow> filed_map (del k st)"
  by (simp add: filed_map_def)

lemma filed_map_Nil: "filed_map []"
  by (simp add: filed_map_def)

lemma filed_map_get: "filed_map st \<Longrightarrow> get st k = Some c \<Longrightarrow> ch_id c = k"
  by (simp add: filed_map_def)

lemma id_keep_display_name: "ch_id (keep_display_name st c) = ch_id c"
  by (simp add: keep_display_name_def split: option.splits)

lemma filed_map_received: "filed_map st \<Longrightarrow> filed_map (upd st (channels_received st data))"
  unfolding channels_received_def
  by (auto intro!: foldl_invariant [where I = filed_map] filed_map_put simp: id_keep_display_name)

lemma filed_map_update:
  "filed_map st \<Longrightarrow> (\<And>c. ch_id (f c) = ch_id c) \<Longrightarrow> filed_map (upd st (update_channel st i f))"
  unfolding update_channel_def by (auto intro: filed_map_put dest: filed_map_get split: option.split)

lemma filed_map_spread:
  assumes "filed_map st"
  shows "filed_map (obj_spread st (channelListToMap cs))"
proof -
  have "filed_map (channelListToMap cs)"
    unfolding channelListToMap_def by (rule foldl_invariant [where I = filed_map]) (simp_all add: filed_map_put filed_map_Nil)
  then show ?thesis using assms unfolding filed_map_def
    by (simp add: get_obj_spread_wf wf_channelListToMap split: option.split)
qed

lemma filed_map_new_post: "filed_map st \<Longrightarrow> filed_map (upd st (new_post_in_channel st p crt))"
  unfolding new_post_in_channel_def Let_def by (auto intro!: filed_map_put simp: filed_map_get split: option.split)

lemma filed_map_policies:
  "filed_map st \<Longrightarrow> filed_map (foldl (\<lambda>next i. upd next (update_channel next i (\<lambda>c. c\<lparr>ch_policy_id := None\<rparr>))) st is)"
  by (rule foldl_invariant [where I = filed_map]) (auto intro: filed_map_update)

lemma channels_stay_filed:
  assumes "filed_map st"
  shows "filed_map (upd st (channels st a))"
proof -
  note simps = channels_def Let_def assms filed_map_received filed_map_update filed_map_spread filed_map_new_post
    filed_map_policies filed_map_put filed_map_del filed_map_Nil id_keep_display_name
  show ?thesis
  proof (cases a)
    case (ChannelTypes t)
    then show ?thesis
    proof (cases t)
      case (LEAVE_CHANNEL d)
      then show ?thesis using ChannelTypes by (cases d) (simp_all add: simps)
    qed (simp_all add: simps)
  next
    case (AdminTypes t)
    then show ?thesis by (cases t) (simp_all add: simps)
  next
    case (UserTypes t)
    then show ?thesis by (cases t) (simp_all add: simps)
  next
    case (SchemeTypes t)
    then show ?thesis by (cases t) (simp_all add: simps)
  next
    case (PostTypes t)
    then show ?thesis by (cases t) (simp_all add: simps)
  qed (simp_all add: simps)
qed

lemma filed_channels_step:
  "filed_channels cs \<Longrightarrow> channels_reducer cs a = Some cs' \<Longrightarrow> filed_channels cs'"
  using channels_stay_filed [of "cs_channels cs" a]
  by (auto simp: filed_channels_def filed_map_def [symmetric] channels_reducer_def split: option.splits)

lemma filed_categories_iff:
  "filed_categories st \<longleftrightarrow> wf_obj st \<and> (\<forall>k c. get st k = Some c \<longrightarrow> cat_id c = k \<and> distinct (cat_channel_ids c))"
proof
  show "wf_obj st \<and> (\<forall>k c. get st k = Some c \<longrightarrow> cat_id c = k \<and> distinct (cat_channel_ids c))" if "filed_categories st"
    using filed_category [OF that] that by (simp add: filed_categories_def)
  show "filed_categories st" if "wf_obj st \<and> (\<forall>k c. get st k = Some c \<longrightarrow> cat_id c = k \<and> distinct (cat_channel_ids c))"
    unfolding filed_categories_def list_all_iff
  proof (intro conjI ballI)
    show "wf_obj st" using that by blast
    fix e assume "e \<in> set st"
    then have "get st (fst e) = Some (snd e)" using that by (simp add: wf_obj_def)
    then show "case e of (k, c) \<Rightarrow> cat_id c = k \<and> distinct (cat_channel_ids c)" using that by (simp add: split_beta)
  qed
qed

lemma filed_categories_put:
  "filed_categories st \<Longrightarrow> distinct (cat_channel_ids c) \<Longrightarrow> cat_id c = k \<Longrightarrow> filed_categories (put k c st)"
  by (simp add: filed_categories_iff)

lemma filed_categories_del: "filed_categories st \<Longrightarrow> filed_categories (del k st)"
  by (simp add: filed_categories_iff)

definition once_each :: "Entities.action \<Rightarrow> bool" where
  "once_each a \<longleftrightarrow>
     (case a of
        ChannelCategoryTypes (RECEIVED_CATEGORIES cs ws) \<Rightarrow> list_all (\<lambda>c. distinct (cat_channel_ids c)) cs
      | ChannelCategoryTypes (RECEIVED_CATEGORY c) \<Rightarrow> distinct (cat_channel_ids c)
      | _ \<Rightarrow> True)"

lemma receive_categories_filed:
  "receive_categories st ws ns cs = Some ns' \<Longrightarrow> list_all (\<lambda>c. distinct (cat_channel_ids c)) cs \<Longrightarrow>
   filed_categories ns \<Longrightarrow> filed_categories ns'"
proof (induction cs arbitrary: ns)
  case (Cons c cs)
  have "filed_categories (put (cat_id c) (c\<lparr>cat_collapsed := b\<rparr>) ns)" "filed_categories (put (cat_id c) c ns)" for b
    using Cons.prems(2,3) by (auto intro!: filed_categories_put)
  then show ?case using Cons by (auto split: if_splits option.splits)
qed simp

lemma leave_step_filed:
  "filed_categories (fst acc) \<Longrightarrow> distinct (cat_channel_ids c) \<Longrightarrow> filed_categories (fst (category_leave_step ch acc c))"
  by (auto simp: category_leave_step_def distinct_remove_at split: option.split prod.split intro!: filed_categories_put)

lemma gm_converted_filed:
  assumes "filed_categories st"
  shows "filed_categories (categories_gm_converted st ch team)"
proof -
  have "filed_categories (map (\<lambda>(i, c). (i, gm_converted ch team i c)) st)"
    using assms by (auto simp: filed_categories_def wf_obj_def list_all_iff gm_converted_def indexOf_None comp_def split_beta)
  then show ?thesis by (simp add: categories_gm_converted_def)
qed

lemma categories_stay_filed:
  assumes filed: "filed_categories st" and a: "once_each a" and n: "category_byId st a = Some n"
  shows "filed_categories (upd st n)"
proof -
  have left: "filed_categories (upd st (categories_left_channel st ch))" for ch
  proof -
    have "filed_categories (fst (foldl (category_leave_step ch) (st, False) (obj_values st)))"
    proof (rule foldl_invariant [where I = "\<lambda>acc. filed_categories (fst acc)"])
      fix acc :: "category_map \<times> bool" and c
      assume "c \<in> set (obj_values st)" "filed_categories (fst acc)"
      moreover from this filed have "distinct (cat_channel_ids c)"
        by (auto simp: filed_categories_def list_all_iff obj_values_def)
      ultimately show "filed_categories (fst (category_leave_step ch acc c))" by (blast intro: leave_step_filed)
    qed (simp add: filed)
    then show ?thesis using filed by (simp add: categories_left_channel_def Let_def split_beta)
  qed
  have team: "filed_categories (foldl (\<lambda>ns c. del (cat_id c) ns) st cs)" for cs
    by (rule foldl_invariant [where I = filed_categories]) (simp_all add: filed filed_categories_del)
  show ?thesis
    using filed a n left gm_converted_filed [OF filed]
    by (cases "(st, a)" rule: category_byId.cases)
      (auto simp: once_each_def categories_left_team_def Let_def team
        intro: filed_categories_put filed_categories_del receive_categories_filed filed_categories_iff [THEN iffD2] split: if_splits)
qed

section \<open>Teams stay filed\<close>

definition filed_teams :: "team obj \<Rightarrow> bool" where
  "filed_teams st \<longleftrightarrow> wf_obj st \<and> (\<forall>k t. get st k = Some t \<longrightarrow> te_id t = k)"

text \<open>The one action that brings teams with keys of their own.\<close>

definition brings_filed_teams :: "redux_action \<Rightarrow> bool" where
  "brings_filed_teams a \<longleftrightarrow> (case a of TeamTypes (RECEIVED_TEAMS data) \<Rightarrow> filed_teams data | _ \<Rightarrow> True)"

lemma filed_teams_put: "filed_teams st \<Longrightarrow> te_id t = k \<Longrightarrow> filed_teams (put k t st)"
  by (simp add: filed_teams_def)

lemma filed_teams_del: "filed_teams st \<Longrightarrow> filed_teams (del k st)"
  by (simp add: filed_teams_def)

lemma filed_teams_Nil: "filed_teams []"
  by (simp add: filed_teams_def)

lemma filed_teams_spread: "filed_teams st \<Longrightarrow> filed_teams data \<Longrightarrow> filed_teams (obj_spread st data)"
  by (auto simp: filed_teams_def get_obj_spread_wf wf_obj_spread split: option.splits)

lemma filed_teamListToMap: "filed_teams (teamListToMap ts)"
  unfolding teamListToMap_def by (rule foldl_invariant [where I = filed_teams]) (simp_all add: filed_teams_put filed_teams_Nil)

lemma filed_update_team:
  assumes "filed_teams st" and "\<And>t. te_id (f t) = te_id t"
  shows "filed_teams (upd st (update_team st i f))"
  using assms by (auto simp: update_team_def filed_teams_def split: option.split)

lemma filed_delete_own: "filed_teams st \<Longrightarrow> filed_teams (upd st (delete_own st i))"
  by (simp add: delete_own_def filed_teams_del)

lemma filed_team_policies:
  "filed_teams st \<Longrightarrow> filed_teams (foldl (\<lambda>next i. upd next (update_team next i (\<lambda>t. t\<lparr>te_policy_id := None\<rparr>))) st is)"
  by (rule foldl_invariant [where I = filed_teams]) (auto intro: filed_update_team)

lemma teams_stay_filed:
  assumes "filed_teams st" and "brings_filed_teams a"
  shows "filed_teams (upd st (teams st a))"
proof -
  note simps = teams_def assms(1) filed_teams_put filed_teams_del filed_teams_Nil filed_teams_spread filed_teamListToMap
    filed_update_team filed_delete_own filed_team_policies
  show ?thesis
  proof (cases a)
    case (TeamTypes t)
    then show ?thesis using assms(2) by (cases t) (simp_all add: simps brings_filed_teams_def)
  next
    case (AdminTypes t)
    then show ?thesis by (cases t) (simp_all add: simps)
  next
    case (UserTypes t)
    then show ?thesis by (cases t) (simp_all add: simps)
  next
    case (SchemeTypes t)
    then show ?thesis by (cases t) (simp_all add: simps)
  qed (simp_all add: simps)
qed

section \<open>The parts of the next state\<close>

lemma root_step_parts:
  assumes "root_step st a = Some st'"
  shows "entities_step (rt_entities st) (redux_of a) = Some (rt_entities st')"
    and "channels_reducer (rt_channels st) (redux_of a) = Some (rt_channels st')"
    and "rt_teams st' = teams_reducer (rt_teams st) (redux_of a)"
    and "rt_users st' = users_reducer (rt_users st) (redux_of a)"
    and "store_step (rt_posts st) (entity_of a) = Some (rt_posts st')"
    and "threads_step (rt_threads st) (entity_of a) = Some (rt_threads st')"
    and "groups_reducer (rt_groups st) (group_of a) = Some (rt_groups st')"
    and "preferences_reducer (rt_preferences st) (preference_of a) = Some (rt_preferences st')"
    and "rt_roles st' = roles_reducer (rt_roles st) (role_of a)"
    and "rt_search st' = search_reducer (rt_search st) (search_of a)"
    and "rt_orderByTeam st' = upd (rt_orderByTeam st) (orderByTeam (rt_orderByTeam st) (entity_of a))"
    and "\<exists>n. category_byId (rt_byId st) (entity_of a) = Some n \<and> rt_byId st' = upd (rt_byId st) n"
    and "rt_config st' = config_reducer (rt_config st) a"
  using assms by (auto simp: root_step_def entities_step_def split: option.splits)

text \<open>The store throws exactly when one of its parts does.\<close>

lemma root_step_throws:
  "root_step st a = None \<longleftrightarrow>
     entities_step (rt_entities st) (redux_of a) = None \<or> store_step (rt_posts st) (entity_of a) = None \<or>
     threads_step (rt_threads st) (entity_of a) = None \<or> category_byId (rt_byId st) (entity_of a) = None \<or>
     groups_reducer (rt_groups st) (group_of a) = None \<or> preferences_reducer (rt_preferences st) (preference_of a) = None"
  by (simp add: root_step_def split: option.splits)

section \<open>Actions that only teams and users read\<close>

lemma posts_other: "store_step s (Entities.OtherTypes x) = Some s"
  by (simp add: store_step_def reducer_def Let_def)

lemma threads_other: "threads_step s (Entities.OtherTypes x) = Some s"
  by (simp add: threads_step_def threads_root_reducer_def Let_def)

lemma groups_other: "groups_reducer s (GroupOther x) = Some s"
  by (simp add: groups_reducer_def syncables_def groups_slice_def group_stats_slice_def myGroups_def)

lemma preferences_other: "preferences_reducer s (PreferenceOther x) = Some s"
  by (simp add: preferences_reducer_def userPreferences_def myPreferences_def)

lemma roles_other: "roles_reducer s (RoleOther x) = s"
  by (simp add: roles_reducer_def roles_slice_def pending_def)

lemma search_other: "search_reducer s (SearchOther x) = s"
  by (simp add: search_reducer_def results_def fileResults_def matches_def flagged_def pinned_def current_searches_def
      isSearchingTerm_def isSearchGettingMore_def isLimitedResults_def truncationInfo_def)

lemma redux_ignores:
  "channels_reducer cs (OtherTypes x) = Some cs" "teams_reducer ts (OtherTypes x) = ts" "users_reducer us (OtherTypes x) = us"
  by (simp_all add: channels_reducer_def currentChannelId_def channels_def channelsInTeam_def myMembers_def roles_def
      membersInChannel_def stats_def groupsAssociatedToChannel_def totalCount_def manuallyUnread_def channelModerations_def
      channelMemberCountsByGroup_def messageCounts_def channelsMemberCount_def restrictedDMs_def teams_reducer_def
      currentTeamId_def teams_def myTeamMembers_def membersInTeam_def team_stats_reducer_def groupsAssociatedToTeam_def
      totalTeamCount_def contentFlaggingStatus_def users_reducer_def currentUserId_def
      isManualStatus_def mySessions_def myAudits_def profiles_def profilesInTeam_def profilesNotInTeam_def profilesWithoutTeam_def
      profilesInChannel_def profilesNotInChannel_def profilesInGroup_def profilesNotInGroup_def statuses_def user_stats_def
      filteredStats_def myUserAccessTokens_def lastActivity_def dndEndTimes_def)

lemmas others = posts_other threads_other groups_other preferences_other roles_other search_other

lemma quiet_step:
  assumes "entity_of a = Entities.OtherTypes []" "group_of a = GroupOther []" "role_of a = RoleOther []"
    and "preference_of a = PreferenceOther []" "search_of a = SearchOther []" "config_reducer (rt_config st) a = rt_config st"
    and "channels_reducer (rt_channels st) (redux_of a) = Some (rt_channels st)"
  shows "root_step st a = Some (st\<lparr>
    rt_entities := (rt_entities st)\<lparr>en_teams := teams_reducer (rt_teams st) (redux_of a)\<rparr>,
    rt_users := users_reducer (rt_users st) (redux_of a)\<rparr>)"
  using assms by (simp add: root_step_def entities_step_def others)

lemma channels_ignore:
  "channels_reducer cs (UserTypes (RECEIVED_PROFILE_NOT_IN_TEAM t u)) = Some cs"
  "channels_reducer cs (TeamTypes (REMOVE_MEMBER_FROM_TEAM t u)) = Some cs"
  "channels_reducer cs (TeamTypes (RECEIVED_TEAM_DELETED i)) = Some cs"
  "channels_reducer cs (TeamTypes (UPDATED_TEAM tm)) = Some cs"
  "channels_reducer cs (TeamTypes (SELECT_TEAM i)) = Some cs"
  by (simp_all add: channels_reducer_def currentChannelId_def channels_def channelsInTeam_def myMembers_def roles_def
      membersInChannel_def stats_def groupsAssociatedToChannel_def totalCount_def manuallyUnread_def channelModerations_def
      channelMemberCountsByGroup_def messageCounts_def channelsMemberCount_def restrictedDMs_def)

section \<open>The invariant of the store\<close>

definition root_ok :: "root_store \<Rightarrow> bool" where
  "root_ok st \<longleftrightarrow> filed_teams (tes_teams (rt_teams st)) \<and> filed_channels (rt_channels st) \<and> sets_ok (rt_channels st) \<and> posts_ok (rt_posts st) \<and>
     threads_ok (rt_threads st) \<and> filed_categories (rt_byId st) \<and> groups_ok (rt_groups st) \<and> preferences_ok (rt_preferences st)"

text \<open>What is asked of an action is what the parts ask.\<close>

definition root_admissible :: "root_store \<Rightarrow> root_action \<Rightarrow> bool" where
  "root_admissible st a \<longleftrightarrow> brings_filed_teams (redux_of a) \<and> keeps_team (rt_channels st) (redux_of a) \<and> admissible (rt_posts st) (entity_of a) \<and>
     threads_admissible (rt_threads st) (entity_of a) \<and> once_each (entity_of a) \<and>
     groups_admissible (rt_groups st) (group_of a)"

interpretation whole_store: redux_store root_step root_admissible root_ok init_root
proof
  show "root_ok init_root"
    unfolding root_ok_def init_root_def
    using team_sets.inv_init posts_store.inv_init threads_store.inv_init group_store.inv_init preference_store.inv_init
    by (simp add: filed_channels_def filed_categories_def init_channels_state_def init_teams_state_def filed_teams_Nil)
  show "root_ok st'" if "root_ok st" "root_admissible st a" "root_step st a = Some st'" for st a st'
  proof -
    note parts = root_step_parts [OF that(3)]
    have "filed_categories (rt_byId st')"
      using parts(12) categories_stay_filed that(1,2) unfolding root_ok_def root_admissible_def by fastforce
    moreover have "filed_teams (tes_teams (rt_teams st'))"
      using parts(3) teams_stay_filed that(1,2) unfolding root_ok_def root_admissible_def by (simp add: teams_reducer_def)
    ultimately show ?thesis
      using that(1,2) filed_channels_step [OF _ parts(2)] team_sets.inv_step [OF _ _ parts(2)]
        posts_store.inv_step [OF _ _ parts(5)] threads_store.inv_step [OF _ _ parts(6)]
        group_store.inv_step [OF _ _ parts(7)] preference_store.inv_step [OF _ _ parts(8)]
      unfolding root_ok_def root_admissible_def by blast
  qed
qed


definition sample_team :: team where
  "sample_team = \<lparr>te_id = ''t'', te_create_at = 1, te_update_at = 1, te_delete_at = 0, te_display_name = ''T'', te_name = ''t'',
     te_description = [], te_email = [], te_type = ''O'', te_company_name = [], te_allowed_domains = [], te_invite_id = [],
     te_allow_open_invite = False, te_scheme_id = [], te_group_constrained = False, te_policy_id = None,
     te_last_team_icon_update = None\<rparr>"

text \<open>
  C9. While the actions respect the conditions below, the parts of the whole store agree in every state it reaches: every channel,
  team, post, category and group is filed under its id, and so is every thread that has a post; the channels a team lists are
  loaded and of that team; the threads a team lists are loaded; no category names a channel twice; my groups are loaded, each
  named once; and every preference is filed under its category and name.
  The conditions, which the reducers do not check themselves: channels that are received are in the team the store has them in,
  one received twice at once is in one team, and a channel that is left names its team, which alone lists its threads; following
  changes only for a thread whose root post is loaded; posts are received as the newest ones, after others, only for a channel
  without a most recent block; categories arrive naming each channel once; a list of teams arrives filed under their ids; my groups
  arrive each once, and I am added only to a group that is loaded. Without them the parts need not agree: following a thread whose
  root is not loaded files a post without its id, and leaving a direct channel leaves its threads listed.
\<close>

theorem whole_store_consistent:
  assumes "reachable root_step root_admissible init_root st"
  shows "(\<forall>k c. get (cs_channels (rt_channels st)) k = Some c \<longrightarrow> ch_id c = k) \<and>
    (\<forall>k t. get (tes_teams (rt_teams st)) k = Some t \<longrightarrow> te_id t = k) \<and>
    (\<forall>k p. get (s_posts (rt_posts st)) k = Some p \<longrightarrow> post_id p = k) \<and>
    (\<forall>k t p. get (ts_threads (rt_threads st)) k = Some t \<and> t_post t = Some p \<longrightarrow> t_id t = k) \<and>
    (\<forall>k c. get (rt_byId st) k = Some c \<longrightarrow> cat_id c = k \<and> distinct (cat_channel_ids c)) \<and>
    (\<forall>k g. get (grs_groups (rt_groups st)) k = Some g \<longrightarrow> grp_id g = k) \<and>
    (\<forall>team i. i \<in> set (get_or [] (cs_channelsInTeam (rt_channels st)) team) \<longrightarrow>
       (\<exists>c. get (cs_channels (rt_channels st)) i = Some c \<and> ch_team_id c = team)) \<and>
    (\<forall>team i. i \<in> set (get_or [] (ts_threadsInTeam (rt_threads st)) team) \<union>
        set (get_or [] (ts_unreadThreadsInTeam (rt_threads st)) team) \<longrightarrow> get (ts_threads (rt_threads st)) i \<noteq> None) \<and>
    distinct (grs_myGroups (rt_groups st)) \<and>
    (\<forall>i \<in> set (grs_myGroups (rt_groups st)). get (grs_groups (rt_groups st)) i \<noteq> None) \<and>
    filed_preferences (prs_myPreferences (rt_preferences st))"
proof -
  have ok: "root_ok st" by (rule whole_store.reachable_inv [OF assms])
  then have "filed_channels (rt_channels st)" "filed_teams (tes_teams (rt_teams st))" "posts_ok (rt_posts st)"
    "threads_ok (rt_threads st)" "filed_categories (rt_byId st)" "groups_ok (rt_groups st)" "sets_ok (rt_channels st)"
    "preferences_ok (rt_preferences st)"
    by (simp_all add: root_ok_def)
  then show ?thesis
    unfolding filed_channels_def filed_teams_def posts_ok_def filed_def threads_ok_def filed_threads_def filed_categories_iff
      groups_ok_def sets_ok_def preferences_ok_def lists_ok_def loaded_ids_def
    by (intro conjI) (blast | fastforce)+
qed


lemma whole_store_consistent_witness:
  "\<exists>st t. root_step init_root (TeamAction (UPDATED_TEAM sample_team)) = Some st \<and>
     get (tes_teams (rt_teams st)) ''t'' = Some t \<and> te_id t = ''t''"
proof -
  let ?a = "TeamAction (UPDATED_TEAM sample_team)"
  obtain st where st: "root_step init_root ?a = Some st"
    "tes_teams (rt_teams st) = put ''t'' sample_team (tes_teams (rt_teams init_root))"
    using quiet_step [of ?a init_root]
    by (auto simp: projection_defs config_reducer_def channels_ignore teams_reducer_def teams_def sample_team_def)
  have "root_admissible init_root ?a"
    by (simp add: root_admissible_def brings_filed_teams_def keeps_team_def received_channels_def once_each_def groups_admissible_def
        projection_defs)
  then have "reachable root_step root_admissible init_root st" using st(1) by (rule reachable_one [where a = ?a])
  then have "\<forall>k t. get (tes_teams (rt_teams st)) k = Some t \<longrightarrow> te_id t = k" by (rule whole_store_consistent [THEN conjunct2, THEN conjunct1])
  moreover have "get (tes_teams (rt_teams st)) ''t'' = Some sample_team" using st(2) by simp
  ultimately show ?thesis using st(1) by blast
qed

end
