(* ===== verification/WebsocketEventsProps.thy ===== *)
theory WebsocketEventsProps
  imports WebsocketEvents RootStoreProps
begin

text \<open>
  What the events of the server leave in the whole store: a channel I was removed from, a team that is deleted, a group I join.
\<close>

section \<open>Performing effects\<close>

lemma perform_append:
  "perform st (es @ fs) = (case perform st es of None \<Rightarrow> None | Some st' \<Rightarrow> perform st' fs)"
  by (induction st es rule: perform.induct) (auto split: option.split)

lemma perform_dispatches: "perform st (dispatch_batch as) = dispatch_all root_step st as"
  by (induction as arbitrary: st) (auto split: option.split)

section \<open>Whoever left is forgotten as a member of the team\<close>

lemma forgotten_member:
  "\<exists>ts us. perform st (dispatch_batch [UserAction (RECEIVED_PROFILE_NOT_IN_TEAM t u), TeamAction (REMOVE_MEMBER_FROM_TEAM t u)]) =
     Some (st\<lparr>rt_entities := (rt_entities st)\<lparr>en_teams := ts\<rparr>, rt_users := us\<rparr>)"
proof -
  have quiet: "\<exists>ts us. root_step st a = Some (st\<lparr>rt_entities := (rt_entities st)\<lparr>en_teams := ts\<rparr>, rt_users := us\<rparr>)"
    if "a = UserAction (RECEIVED_PROFILE_NOT_IN_TEAM t u) \<or> a = TeamAction (REMOVE_MEMBER_FROM_TEAM t u)" for st a
  proof -
    have "root_step st a = Some (st\<lparr>
        rt_entities := (rt_entities st)\<lparr>en_teams := teams_reducer (rt_teams st) (redux_of a)\<rparr>,
        rt_users := users_reducer (rt_users st) (redux_of a)\<rparr>)"
      by (rule quiet_step) (use that in \<open>auto simp: projection_defs config_reducer_def channels_ignore\<close>)
    then show ?thesis by blast
  qed
  obtain ts us where "root_step st (UserAction (RECEIVED_PROFILE_NOT_IN_TEAM t u)) =
      Some (st\<lparr>rt_entities := (rt_entities st)\<lparr>en_teams := ts\<rparr>, rt_users := us\<rparr>)"
    using quiet by blast
  moreover obtain ts' us' where "root_step (st\<lparr>rt_entities := (rt_entities st)\<lparr>en_teams := ts\<rparr>, rt_users := us\<rparr>)
      (TeamAction (REMOVE_MEMBER_FROM_TEAM t u)) =
      Some (st\<lparr>rt_entities := (rt_entities st)\<lparr>en_teams := ts'\<rparr>, rt_users := us'\<rparr>)"
    using quiet [of "TeamAction (REMOVE_MEMBER_FROM_TEAM t u)" "st\<lparr>rt_entities := (rt_entities st)\<lparr>en_teams := ts\<rparr>, rt_users := us\<rparr>"]
    by auto
  ultimately show ?thesis by auto
qed

lemma forget_member_rest:
  assumes "getCurrentUser st = Some me" and "us_roles me \<noteq> None"
  shows "\<exists>ts us. perform st' (forget_member st msg) = Some (st'\<lparr>rt_entities := (rt_entities st')\<lparr>en_teams := ts\<rparr>, rt_users := us\<rparr>)"
proof -
  have same: "st' = st'\<lparr>rt_entities := (rt_entities st')\<lparr>en_teams := rt_teams st'\<rparr>, rt_users := rt_users st'\<rparr>" by simp
  obtain ps where ps: "getMySystemPermissions (permissions_of st) = Some ps"
    using assms by (auto simp: getMySystemPermissions_def getMySystemRoles_def permissions_of_def getCurrentUser_def)
  have "perform st' (forget_member st msg) = Some st' \<or>
      (\<exists>t u. forget_member st msg = dispatch_batch [UserAction (RECEIVED_PROFILE_NOT_IN_TEAM t u), TeamAction (REMOVE_MEMBER_FROM_TEAM t u)])"
    unfolding forget_member_def Let_def haveISystemPermission_def haveITeamPermission_def ps
    by (auto split: option.split)
  then show ?thesis using forgotten_member same by metis
qed

section \<open>Removed from a channel\<close>

lemma i_was_removed_step: "perform st (i_was_removed st' rhs me msg) = root_step st (leave_action st' msg)"
  by (simp add: i_was_removed_def Let_def perform_append split: option.split)


lemma entity_leave_action:
  "entity_of (leave_action st msg) =
     Entities.ChannelTypes (Entities.LEAVE_CHANNEL (key_of (ur_channel_id msg))
       (or_empty (map_option ch_team_id (getChannel st (key_of (ur_channel_id msg))))))"
  by (simp add: entity_of_def leave_action_def)

lemma others_leave_action:
  "group_of (leave_action st msg) = GroupOther []" "role_of (leave_action st msg) = RoleOther []"
  "preference_of (leave_action st msg) = PreferenceOther []" "search_of (leave_action st msg) = SearchOther []"
  by (simp_all add: projection_defs leave_action_def)

lemma leave_action_admissible:
  assumes "threads_admissible (rt_threads st) (entity_of (leave_action st msg))"
  shows "root_admissible st (leave_action st msg)"
proof -
  have "keeps_team (rt_channels st) (redux_of (leave_action st msg))"
    by (auto simp: keeps_team_def leave_action_def redux_of_def getChannel_def received_channels_def)
  moreover have "brings_filed_teams (redux_of (leave_action st msg))"
    by (simp add: brings_filed_teams_def leave_action_def redux_of_def)
  ultimately show ?thesis
    using assms by (simp add: root_admissible_def entity_leave_action others_leave_action once_each_def groups_admissible_def)
qed

lemma channels_leave:
  "\<exists>cs'. channels_reducer cs (ChannelTypes (LEAVE_CHANNEL (Some d))) = Some cs' \<and>
     cs_channels cs' = del (cl_id d) (cs_channels cs) \<and> cs_myMembers cs' = del (cl_id d) (cs_myMembers cs) \<and>
     cs_roles cs' = del (cl_id d) (cs_roles cs)"
  by (simp add: channels_reducer_def myMembers_def channels_def roles_def)

lemma threads_leave:
  assumes "filed_threads (ts_threads s)" and "threads_step s (Entities.ChannelTypes (Entities.LEAVE_CHANNEL ch team)) = Some s'"
  shows "get (ts_threads s') k = Some t \<Longrightarrow> get (ts_threads s) k = Some t \<and> (\<forall>p. t_post t = Some p \<longrightarrow> tp_channel_id p \<noteq> ch)"
proof -
  let ?l = "getThreadsOfChannel (ts_threads s) ch"
  have s': "ts_threads s' = upd (ts_threads s) (threads_deleted (ts_threads s) (Some ?l))"
    using assms(2) by (auto simp: threads_step_def threads_root_reducer_def Let_def upd_same split: if_splits option.splits)
  assume "get (ts_threads s') k = Some t"
  then have t: "get (ts_threads s) k = Some t" "k \<notin> t_id ` set ?l"
    by (auto simp: s' threads_deleted_def split: if_splits)
  have "k \<in> t_id ` set ?l" if "t_post t = Some p" "tp_channel_id p = ch" for p
  proof (rule image_eqI)
    show "t \<in> set ?l" using that get_in_values [OF t(1)] by (simp add: getThreadsOfChannel_def)
    show "k = t_id t" using assms(1) t(1) that(1) by (fastforce simp: filed_threads_def)
  qed
  then show "get (ts_threads s) k = Some t \<and> (\<forall>p. t_post t = Some p \<longrightarrow> tp_channel_id p \<noteq> ch)" using t by blast
qed


text \<open>The one action of the handler that changes what the channel left behind.\<close>

lemma leave_action_step:
  assumes ok: "root_ok st" and adm: "threads_admissible (rt_threads st) (entity_of (leave_action st msg))"
    and ch: "ch = key_of (ur_channel_id msg)"
  shows "\<exists>st'. root_step st (leave_action st msg) = Some st' \<and> root_ok st' \<and>
    cs_channels (rt_channels st') = del ch (cs_channels (rt_channels st)) \<and>
    cs_myMembers (rt_channels st') = del ch (cs_myMembers (rt_channels st)) \<and>
    cs_roles (rt_channels st') = del ch (cs_roles (rt_channels st)) \<and>
    (\<exists>team. store_step (rt_posts st) (Entities.ChannelTypes (Entities.LEAVE_CHANNEL ch team)) = Some (rt_posts st') \<and>
      threads_step (rt_threads st) (Entities.ChannelTypes (Entities.LEAVE_CHANNEL ch team)) = Some (rt_threads st')) \<and>
    (\<forall>k. get (rt_byId st') k =
      map_option (\<lambda>c. c\<lparr>cat_channel_ids := filter (\<lambda>i. i \<noteq> ch) (cat_channel_ids c)\<rparr>) (get (rt_byId st) k))"
proof -
  let ?a = "leave_action st msg" and ?team = "or_empty (map_option ch_team_id (getChannel st ch))"
  have e: "entity_of ?a = Entities.ChannelTypes (Entities.LEAVE_CHANNEL ch ?team)" by (simp add: entity_leave_action ch)
  have adm': "root_admissible st ?a" using adm by (rule leave_action_admissible)
  obtain posts where posts: "store_step (rt_posts st) (entity_of ?a) = Some posts"
    by (simp add: e store_step_def reducer_def Let_def)
  obtain threads where threads: "threads_step (rt_threads st) (entity_of ?a) = Some threads"
    using ok adm threads_store.step_total unfolding root_ok_def by blast
  have filed: "filed_categories (rt_byId st)" using ok by (simp add: root_ok_def)
  obtain n where n: "category_byId (rt_byId st) (entity_of ?a) = Some n"
    using left_channel_categories [OF filed, of ch ?team] by (auto simp: e)
  obtain cs where cs: "channels_reducer (rt_channels st) (redux_of ?a) = Some cs" "cs_channels cs = del ch (cs_channels (rt_channels st))"
    "cs_myMembers cs = del ch (cs_myMembers (rt_channels st))" "cs_roles cs = del ch (cs_roles (rt_channels st))"
    using channels_leave [of "rt_channels st"] by (fastforce simp: leave_action_def redux_of_def ch)
  then obtain st' where st': "root_step st ?a = Some st'"
    using posts threads n by (simp add: root_step_def entities_step_def others others_leave_action)
  note parts = root_step_parts [OF st']
  have "get (rt_byId st') k =
      map_option (\<lambda>c. c\<lparr>cat_channel_ids := filter (\<lambda>i. i \<noteq> ch) (cat_channel_ids c)\<rparr>) (get (rt_byId st) k)" for k
    using left_channel_categories [OF filed, of ch ?team k] parts(12) by (auto simp: e)
  moreover have "root_ok st'" using whole_store.inv_step [OF ok adm' st'] .
  ultimately show ?thesis using st' cs parts(2,5,6) by (auto simp: e)
qed

text \<open>
  C8. When the server says that I was removed from a channel, the handler never throws, if the threads of the channel are
  listed in its own team only: the channel, my membership, my roles in it, its posts, its threads and its place in every
  category and team are gone, every other channel and membership and every post elsewhere is as it was, no thread appears, and
  what a team lists, of channels as of threads, is still loaded.
\<close>

theorem removed_from_channel:
  assumes "root_ok st" and "getCurrentUser st = Some me" and "us_roles me \<noteq> None"
    and "ur_broadcast_user_id msg = us_id me" and "ur_channel_id msg = Some ch"
    and "threads_admissible (rt_threads st) (entity_of (leave_action st msg))"
  shows "\<exists>st'. perform st (handleUserRemovedEvent st license rhs msg) = Some st' \<and>
    (\<forall>k. get (cs_channels (rt_channels st')) k = (if k = ch then None else get (cs_channels (rt_channels st)) k)) \<and>
    (\<forall>k. get (cs_myMembers (rt_channels st')) k = (if k = ch then None else get (cs_myMembers (rt_channels st)) k)) \<and>
    (\<forall>k. get (cs_roles (rt_channels st')) k = (if k = ch then None else get (cs_roles (rt_channels st)) k)) \<and>
    (\<forall>team i. i \<in> set (get_or [] (cs_channelsInTeam (rt_channels st')) team) \<longrightarrow>
       i \<noteq> ch \<and> (\<exists>c. get (cs_channels (rt_channels st')) i = Some c \<and> ch_team_id c = team)) \<and>
    (\<forall>k. get (s_posts (rt_posts st')) k = (case get (s_posts (rt_posts st)) k of
       None \<Rightarrow> None | Some p \<Rightarrow> if channel_id p = ch then None else Some p)) \<and>
    get (s_postsInChannel (rt_posts st')) ch = None \<and>
    (\<forall>k t. get (ts_threads (rt_threads st')) k = Some t \<longrightarrow>
       get (ts_threads (rt_threads st)) k = Some t \<and> (\<forall>p. t_post t = Some p \<longrightarrow> tp_channel_id p \<noteq> ch)) \<and>
    (\<forall>team i. i \<in> set (get_or [] (ts_threadsInTeam (rt_threads st')) team) \<longrightarrow> get (ts_threads (rt_threads st')) i \<noteq> None) \<and>
    (\<forall>k. get (rt_byId st') k =
       map_option (\<lambda>c. c\<lparr>cat_channel_ids := filter (\<lambda>i. i \<noteq> ch) (cat_channel_ids c)\<rparr>) (get (rt_byId st) k))"
proof -
  obtain s1 team where s1: "root_step st (leave_action st msg) = Some s1" "root_ok s1"
    "cs_channels (rt_channels s1) = del ch (cs_channels (rt_channels st))"
    "cs_myMembers (rt_channels s1) = del ch (cs_myMembers (rt_channels st))"
    "cs_roles (rt_channels s1) = del ch (cs_roles (rt_channels st))"
    "store_step (rt_posts st) (Entities.ChannelTypes (Entities.LEAVE_CHANNEL ch team)) = Some (rt_posts s1)"
    "threads_step (rt_threads st) (Entities.ChannelTypes (Entities.LEAVE_CHANNEL ch team)) = Some (rt_threads s1)"
    "\<And>k. get (rt_byId s1) k =
       map_option (\<lambda>c. c\<lparr>cat_channel_ids := filter (\<lambda>i. i \<noteq> ch) (cat_channel_ids c)\<rparr>) (get (rt_byId st) k)"
    using leave_action_step [OF assms(1,6)] assms(5) by (auto simp: key_of_def)
  obtain ts us where rest: "perform s1 (forget_member st msg) = Some (s1\<lparr>rt_entities := (rt_entities s1)\<lparr>en_teams := ts\<rparr>, rt_users := us\<rparr>)"
    using forget_member_rest [OF assms(2,3)] by blast
  have "perform st (handleUserRemovedEvent st license rhs msg) = Some (s1\<lparr>rt_entities := (rt_entities s1)\<lparr>en_teams := ts\<rparr>, rt_users := us\<rparr>)"
    using assms(2,4) by (simp add: handleUserRemovedEvent_def perform_append i_was_removed_step s1(1) rest)
  moreover have "posts_ok (rt_posts st)" "filed_threads (ts_threads (rt_threads st))"
    using assms(1) by (simp_all add: root_ok_def threads_ok_def)
  note posts = left_channel [OF this(1) s1(6)] and threads = threads_leave [OF this(2) s1(7)]
  have "i \<noteq> ch \<and> (\<exists>c. get (cs_channels (rt_channels s1)) i = Some c \<and> ch_team_id c = t)"
    if "i \<in> set (get_or [] (cs_channelsInTeam (rt_channels s1)) t)" for t i
    using that s1(2,3) by (fastforce simp: root_ok_def sets_ok_def)
  moreover have "get (ts_threads (rt_threads s1)) i \<noteq> None" if "i \<in> set (get_or [] (ts_threadsInTeam (rt_threads s1)) t)" for t i
    using that s1(2) by (auto simp: root_ok_def threads_ok_def lists_ok_def loaded_ids_def)
  moreover have "get (s_postsInChannel (rt_posts s1)) ch = None" using posts by simp
  moreover note s1(3-5,8) posts threads
  ultimately show ?thesis
    by (intro exI [of _ "s1\<lparr>rt_entities := (rt_entities s1)\<lparr>en_teams := ts\<rparr>, rt_users := us\<rparr>"] conjI allI impI) (simp_all, (metis option.distinct(1))+)
qed


section \<open>A deleted team\<close>

lemma team_action_step:
  assumes "a = RECEIVED_TEAM_DELETED i \<or> a = UPDATED_TEAM t \<or> a = SELECT_TEAM i"
  shows "root_step st (TeamAction a) = Some (st\<lparr>
    rt_entities := (rt_entities st)\<lparr>en_teams := teams_reducer (rt_teams st) (TeamTypes a)\<rparr>,
    rt_users := users_reducer (rt_users st) (TeamTypes a)\<rparr>)"
proof -
  have "redux_of (TeamAction a) = TeamTypes a" by (simp add: redux_of_def)
  moreover have "root_step st (TeamAction a) = Some (st\<lparr>
      rt_entities := (rt_entities st)\<lparr>en_teams := teams_reducer (rt_teams st) (redux_of (TeamAction a))\<rparr>,
      rt_users := users_reducer (rt_users st) (redux_of (TeamAction a))\<rparr>)"
    by (rule quiet_step) (use assms in \<open>auto simp: projection_defs config_reducer_def channels_ignore\<close>)
  ultimately show ?thesis by simp
qed

lemma get_foldl_teams:
  "\<forall>x\<in>set xs. \<forall>y\<in>set xs. te_id x = te_id y \<longrightarrow> x = y \<Longrightarrow>
   get (foldl (\<lambda>ts t. put (te_id t) t ts) [] xs) i = Some t \<longleftrightarrow> t \<in> set xs \<and> te_id t = i"
proof (induction xs rule: rev_induct)
  case (snoc x xs)
  then have "get (foldl (\<lambda>ts t. put (te_id t) t ts) [] xs) i = Some t \<longleftrightarrow> t \<in> set xs \<and> te_id t = i" by simp
  then show ?case using snoc.prems by auto
qed simp

lemma my_team_map:
  assumes "filed_teams (tes_teams (rt_teams st))"
  shows "get (foldl (\<lambda>ts t. put (te_id t) t ts) [] (getMyTeams st)) i = Some t \<longleftrightarrow>
    get (tes_teams (rt_teams st)) i = Some t \<and> te_delete_at t = 0 \<and> get (tes_myMembers (rt_teams st)) i \<noteq> None"
    (is "?l \<longleftrightarrow> ?r")
proof -
  have mine: "t \<in> set (getMyTeams st) \<longleftrightarrow> get (tes_teams (rt_teams st)) (te_id t) = Some t \<and> te_delete_at t = 0 \<and>
      get (tes_myMembers (rt_teams st)) (te_id t) \<noteq> None" for t
    using assms values_in_get [of "tes_teams (rt_teams st)" t] get_in_values [of "tes_teams (rt_teams st)" "te_id t" t]
    by (auto simp: filed_teams_def getMyTeams_def)
  have "?l \<longleftrightarrow> t \<in> set (getMyTeams st) \<and> te_id t = i"
    by (rule get_foldl_teams) (auto simp: mine)
  then show ?thesis using assms by (auto simp: mine filed_teams_def)
qed

lemma replacement_team_Some:
  assumes "filed_teams (tes_teams (rt_teams st))" and "replacement_team st deleted = Some i"
  shows "i \<noteq> deleted \<and> (\<exists>t. get (tes_teams (rt_teams st)) i = Some t \<and> te_delete_at t = 0) \<and>
    get (tes_myMembers (rt_teams st)) i \<noteq> None"
  using assms(2) my_team_map [OF assms(1)]
  by (auto simp: replacement_team_def Let_def find_Some_iff split: option.splits if_splits)

definition my_active_team :: "root_store \<Rightarrow> string \<Rightarrow> bool" where
  "my_active_team st i \<longleftrightarrow> get (tes_myMembers (rt_teams st)) i \<noteq> None \<and>
     (\<exists>t. get (tes_teams (rt_teams st)) i = Some t \<and> te_delete_at t = 0)"

lemma replacement_team_None:
  assumes "filed_teams (tes_teams (rt_teams st))" and "tes_currentTeamId (rt_teams st) = deleted"
    and "replacement_team st deleted = None"
    and "m \<in> set (obj_values (tes_myMembers (rt_teams st)))" "tm_user_id m = rt_me st" "tm_team_id m = deleted"
    and "m' \<in> set (obj_values (tes_myMembers (rt_teams st)))" "tm_team_id m' \<noteq> deleted"
  shows "\<not> my_active_team st (tm_team_id m')"
proof -
  let ?mine = "foldl (\<lambda>ts t. put (te_id t) t ts) [] (getMyTeams st)"
  obtain m0 where m0: "find (\<lambda>m. tm_user_id m = rt_me st \<and> tm_team_id m = deleted)
      (obj_values (tes_myMembers (rt_teams st))) = Some m0" "tm_team_id m0 = deleted"
    using assms(4-6) by (metis (mono_tags, lifting) find_None_iff find_Some_iff option.exhaust)
  then have "find (\<lambda>m. (case get ?mine (tm_team_id m) of None \<Rightarrow> False | Some t \<Rightarrow> te_delete_at t = 0) \<and> deleted \<noteq> tm_team_id m)
      (obj_values (tes_myMembers (rt_teams st))) = None"
    using assms(2,3) by (simp add: replacement_team_def Let_def)
  then have "\<not> (case get ?mine (tm_team_id m') of None \<Rightarrow> False | Some t \<Rightarrow> te_delete_at t = 0)"
    using assms(7,8) by (auto simp: find_None_iff)
  then show ?thesis
    using my_team_map [OF assms(1), of "tm_team_id m'"] by (auto simp: my_active_team_def split: option.splits) blast
qed


lemma users_ignore_team_action:
  assumes "a = RECEIVED_TEAM_DELETED i \<or> a = UPDATED_TEAM t \<or> a = SELECT_TEAM i"
  shows "uss_currentUserId (users_reducer us (TeamTypes a)) = uss_currentUserId us"
    and "uss_profiles (users_reducer us (TeamTypes a)) = uss_profiles us"
  using assms by (auto simp: users_reducer_def currentUserId_def profiles_def)

lemma team_action_keeps_me:
  assumes "a = RECEIVED_TEAM_DELETED i \<or> a = UPDATED_TEAM t \<or> a = SELECT_TEAM i"
    and "root_step st (TeamAction a) = Some st'"
  shows "getCurrentUser st' = getCurrentUser st \<and> rt_channels st' = rt_channels st"
  using assms(2) team_action_step [OF assms(1), of st] users_ignore_team_action [OF assms(1), of "rt_users st"]
  by (auto simp: getCurrentUser_def)

lemma have_permission_total:
  assumes "getCurrentUser st = Some me" and "us_roles me \<noteq> None"
  shows "haveITeamPermission (permissions_of st) team p \<noteq> None"
  using assms by (auto simp: haveITeamPermission_def getMySystemPermissions_def getMySystemRoles_def permissions_of_def
      getCurrentUser_def split: option.split)

lemma first_channel_in_team:
  assumes "getMyFirstChannelForTeams lower lc st = Some firsts" and "get firsts team = Some c"
  shows "c \<in> set (obj_values (cs_channels (rt_channels st))) \<and> ch_team_id c = team \<and>
    get (cs_myMembers (rt_channels st)) (ch_id c) \<noteq> None"
proof -
  obtain loc where firsts: "firsts = foldl (\<lambda>result t. case my_channels_in lower lc st loc (te_id t) of
      [] \<Rightarrow> result | c # cs \<Rightarrow> put (te_id t) c result) [] (getMyTeams st)"
    using assms(1) by (auto simp: getMyFirstChannelForTeams_def Let_def split: option.splits)
  have first: "c \<in> set (my_channels_in lower lc st loc team)"
    if "get (foldl (\<lambda>result t. case my_channels_in lower lc st loc (te_id t) of
        [] \<Rightarrow> result | c # cs \<Rightarrow> put (te_id t) c result) [] ts) team = Some c" for ts
    using that by (induction ts rule: rev_induct) (auto split: list.splits if_splits)
  then show ?thesis using assms(2) by (auto simp: firsts my_channels_in_def)
qed

text \<open>With my roles loaded, a team can always be entered, by its default channel or by a channel of it that I am in.\<close>

lemma enter_team_total:
  assumes "getCurrentUser st = Some me" and "us_roles me \<noteq> None"
  shows "\<exists>name. getRedirectChannelNameForTeam lower lc st team = Some name \<and> (name = DEFAULT_CHANNEL \<or>
    (\<exists>c \<in> set (obj_values (cs_channels (rt_channels st))). ch_name c = name \<and> ch_team_id c = team \<and>
      get (cs_myMembers (rt_channels st)) (ch_id c) \<noteq> None))"
proof -
  obtain join where join: "haveITeamPermission (permissions_of st) team JOIN_PUBLIC_CHANNELS = Some join"
    using have_permission_total [OF assms] by blast
  obtain firsts where firsts: "getMyFirstChannelForTeams lower lc st = Some firsts"
    using assms(1) by (simp add: getMyFirstChannelForTeams_def)
  show ?thesis
  proof (cases "get firsts team")
    case None
    then show ?thesis using join firsts by (auto simp: getRedirectChannelNameForTeam_def Let_def)
  next
    case (Some c)
    then show ?thesis using join firsts first_channel_in_team [OF firsts Some]
      by (auto simp: getRedirectChannelNameForTeam_def Let_def)
  qed
qed

text \<open>
  C10. When the team I am looking at, which is loaded and not archived, is deleted, the parts of the store agree, no team has the
  empty id and my profile is loaded with its roles, the handler does not throw: I am no member of that team any more, and either
  another team is selected, which I am a member of and which is not archived, and the view goes to its default channel or to a
  channel of it that I am in, below the url of that team; or the view goes to the front page: then none of my memberships is mine in
  the deleted team, or none is in another team like that.
\<close>

theorem deleted_team_replaced:
  assumes "root_ok st" and "get (tes_teams (rt_teams st)) (te_id d) = Some t" and "te_delete_at t = 0"
    and "tes_currentTeamId (rt_teams st) = te_id d" and "get (tes_teams (rt_teams st)) [] = None"
    and "getCurrentUser st = Some me" and "us_roles me \<noteq> None"
  shows "\<exists>st'. perform st (handleDeleteTeamEvent lower lc st d) = Some st' \<and>
    get (tes_myMembers (rt_teams st')) (te_id d) = None \<and> get (tes_teams (rt_teams st')) (te_id d) = Some d \<and>
    (tes_currentTeamId (rt_teams st') \<noteq> te_id d \<and> my_active_team st' (tes_currentTeamId (rt_teams st')) \<and>
     (\<exists>name. PushTeamChannel (getCurrentTeamUrl st') name \<in> set (handleDeleteTeamEvent lower lc st d) \<and>
        (name = DEFAULT_CHANNEL \<or>
         (\<exists>c \<in> set (obj_values (cs_channels (rt_channels st'))). ch_name c = name \<and>
            ch_team_id c = tes_currentTeamId (rt_teams st') \<and> get (cs_myMembers (rt_channels st')) (ch_id c) \<noteq> None))) \<or>
     RedirectHome \<in> set (handleDeleteTeamEvent lower lc st d) \<and>
     (\<forall>m\<in>set (obj_values (tes_myMembers (rt_teams st))). \<forall>m'\<in>set (obj_values (tes_myMembers (rt_teams st))).
        tm_user_id m = rt_me st \<and> tm_team_id m = te_id d \<and> tm_team_id m' \<noteq> te_id d \<longrightarrow> \<not> my_active_team st (tm_team_id m')))"
proof -
  note reducers = teams_reducer_def teams_def myTeamMembers_def currentTeamId_def delete_own_def
  have filed: "filed_teams (tes_teams (rt_teams st))" using assms(1) by (simp add: root_ok_def)
  obtain s0 where s0: "root_step st (TeamAction (RECEIVED_TEAM_DELETED (te_id d))) = Some s0"
    using team_action_step [of "RECEIVED_TEAM_DELETED (te_id d)" "te_id d"] by blast
  obtain s1 where s1: "root_step s0 (TeamAction (UPDATED_TEAM d)) = Some s1"
    using team_action_step [of "UPDATED_TEAM d"] by blast
  have teams1: "tes_myMembers (rt_teams s1) = del (te_id d) (tes_myMembers (rt_teams st))"
    "tes_teams (rt_teams s1) = put (te_id d) d (del (te_id d) (tes_teams (rt_teams st)))"
    "tes_currentTeamId (rt_teams s1) = te_id d"
    using s0 s1 assms(2,4) by (auto simp: team_action_step reducers)
  have me1: "getCurrentUser s1 = Some me"
    using team_action_keeps_me [OF _ s0, of "te_id d"] team_action_keeps_me [OF _ s1, where t = d] assms(6) by simp
  have p1: "perform st (team_deleted_effects d) = Some s1" by (simp add: team_deleted_effects_def s0 s1)
  show ?thesis
  proof (cases "replacement_team st (te_id d)")
    case None
    then have h: "handleDeleteTeamEvent lower lc st d = team_deleted_effects d @ [RedirectHome]"
      using assms(2-4) by (simp add: handleDeleteTeamEvent_def)
    have "perform st (handleDeleteTeamEvent lower lc st d) = Some s1" by (simp add: h perform_append p1)
    moreover have "RedirectHome \<in> set (handleDeleteTeamEvent lower lc st d)" by (simp add: h)
    ultimately show ?thesis using teams1(1,2) replacement_team_None [OF filed assms(4) None] by auto
  next
    case (Some i)
    note i = replacement_team_Some [OF filed Some]
    then obtain c cs where ne: "i = c # cs" using assms(5) by (cases i) auto
    obtain s2 where s2: "root_step s1 (TeamAction (SELECT_TEAM i)) = Some s2"
      using team_action_step [of "SELECT_TEAM i" i] by blast
    have teams2: "tes_currentTeamId (rt_teams s2) = i"
      "tes_teams (rt_teams s2) = tes_teams (rt_teams s1)" "tes_myMembers (rt_teams s2) = tes_myMembers (rt_teams s1)"
      using s2 by (auto simp: team_action_step reducers)
    have "getCurrentUser s2 = Some me" using team_action_keeps_me [OF _ s2, of i] me1 by simp
    then obtain name where name: "getRedirectChannelNameForTeam lower lc s2 i = Some name"
      "name = DEFAULT_CHANNEL \<or> (\<exists>c \<in> set (obj_values (cs_channels (rt_channels s2))). ch_name c = name \<and> ch_team_id c = i \<and>
        get (cs_myMembers (rt_channels s2)) (ch_id c) \<noteq> None)"
      using enter_team_total [OF _ assms(7)] by blast
    have p2: "perform st (team_deleted_effects d @ [Dispatch (TeamAction (SELECT_TEAM i))]) = Some s2"
      by (simp add: perform_append p1 s2)
    have h: "handleDeleteTeamEvent lower lc st d =
        (team_deleted_effects d @ [Dispatch (TeamAction (SELECT_TEAM i))]) @ [PushTeamChannel (getCurrentTeamUrl s2) name]"
      using assms(2-4) Some p2 name(1) by (simp add: handleDeleteTeamEvent_def ne enter_team_def)
    have "perform st (handleDeleteTeamEvent lower lc st d) = Some s2" unfolding h by (simp add: perform_append p1 s2)
    moreover have "PushTeamChannel (getCurrentTeamUrl s2) name \<in> set (handleDeleteTeamEvent lower lc st d)" by (simp add: h)
    moreover have "my_active_team s2 i" using i by (auto simp: my_active_team_def teams1(2) teams2 teams1(1))
    ultimately show ?thesis using teams1(1,2) teams2 i name(2)
      by (intro exI [of _ s2] conjI disjI1) auto
  qed
qed

section \<open>The threads of a channel are read\<close>

lemma read_action_step:
  "root_step st (ThreadAction (READ_CHANGED_THREAD rc)) =
     map_option (\<lambda>ts. st\<lparr>rt_threads := ts\<rparr>) (threads_step (rt_threads st) (ThreadTypes (READ_CHANGED_THREAD rc)))"
  by (simp add: root_step_def entities_step_def projection_defs others redux_ignores config_reducer_def store_step_def reducer_def
      Let_def split: option.split)


definition read_all :: "string \<Rightarrow> string \<Rightarrow> int \<Rightarrow> user_thread \<Rightarrow> read_changed" where
  "read_all team ch at t = \<lparr>rc_id = t_id t, rc_teamId = team, rc_channelId = ch, rc_lastViewedAt = at,
     rc_prevUnreadMentions = None, rc_newUnreadMentions = 0, rc_prevUnreadReplies = None, rc_newUnreadReplies = 0,
     rc_channelType = [], rc_isUrgent = t_is_urgent t\<rparr>"

definition zero_unread :: "threads_state \<Rightarrow> string \<Rightarrow> bool" where
  "zero_unread s i \<longleftrightarrow> (\<exists>t. get (ts_threads s) i = Some t \<and> t_unread_replies t = 0 \<and> t_unread_mentions t = 0)"

lemma read_all_step:
  assumes "threads_ok s"
  shows "\<exists>s'. threads_step s (ThreadTypes (READ_CHANGED_THREAD (read_all team ch at t))) = Some s' \<and> threads_ok s' \<and>
    zero_unread s' (t_id t) \<and> (\<forall>k. k \<noteq> t_id t \<longrightarrow> get (ts_threads s') k = get (ts_threads s) k) \<and>
    (\<forall>T. set (get_or [] (ts_unreadThreadsInTeam s') T) =
       set (get_or [] (ts_unreadThreadsInTeam s) T) - (if team = [] \<or> team = T then {t_id t} else {})) \<and>
    (\<forall>T c. get (ts_counts s) T = Some c \<longrightarrow>
       map_option c_total_unread_threads (get (ts_counts s') T) = Some (c_total_unread_threads c))"
proof -
  let ?rc = "read_all team ch at t"
  obtain s' where s': "threads_step s (ThreadTypes (READ_CHANGED_THREAD ?rc)) = Some s'" "threads_ok s'"
    using threads_ok_step [OF assms, of "ThreadTypes (READ_CHANGED_THREAD ?rc)"] by auto
  have "ts_threads s' = upd (ts_threads s) (thread_read (ts_threads s) ?rc)"
    "ts_counts s' = upd (ts_counts s) (handleReadChangedThread (ts_counts s) ?rc team (t_is_urgent t))"
    using s'(1) by (auto simp: threads_step_def threads_root_reducer_def Let_def upd_same read_all_def isDmGmChannel_def
        simp del: unreadThreadsInTeamReducer.simps split: if_splits option.splits)
  moreover note read_thread_not_unread [OF assms _ _ s'(1)]
  ultimately show ?thesis using s'
    by (auto simp: read_all_def thread_read_def handleReadChangedThread_def Let_def or_0_def zero_unread_def)
qed

lemma read_all_steps:
  "threads_ok (rt_threads st) \<Longrightarrow>
   \<exists>ts. perform st (dispatch_batch (map (\<lambda>t. ThreadAction (READ_CHANGED_THREAD (read_all team ch at t))) xs)) =
      Some (st\<lparr>rt_threads := ts\<rparr>) \<and>
    (\<forall>t\<in>set xs. zero_unread ts (t_id t)) \<and>
    (\<forall>k. k \<notin> t_id ` set xs \<longrightarrow> get (ts_threads ts) k = get (ts_threads (rt_threads st)) k) \<and>
    (\<forall>T. set (get_or [] (ts_unreadThreadsInTeam ts) T) =
       set (get_or [] (ts_unreadThreadsInTeam (rt_threads st)) T) - (if team = [] \<or> team = T then t_id ` set xs else {})) \<and>
    (\<forall>T c. get (ts_counts (rt_threads st)) T = Some c \<longrightarrow>
       map_option c_total_unread_threads (get (ts_counts ts) T) = Some (c_total_unread_threads c))"
proof (induction xs arbitrary: st)
  case Nil
  show ?case by (rule exI [of _ "rt_threads st"]) simp
next
  case (Cons t xs)
  obtain s1 where s1: "threads_step (rt_threads st) (ThreadTypes (READ_CHANGED_THREAD (read_all team ch at t))) = Some s1"
    "threads_ok s1" "zero_unread s1 (t_id t)"
    "\<And>k. k \<noteq> t_id t \<Longrightarrow> get (ts_threads s1) k = get (ts_threads (rt_threads st)) k"
    "\<And>T. set (get_or [] (ts_unreadThreadsInTeam s1) T) =
       set (get_or [] (ts_unreadThreadsInTeam (rt_threads st)) T) - (if team = [] \<or> team = T then {t_id t} else {})"
    "\<And>T c. get (ts_counts (rt_threads st)) T = Some c \<Longrightarrow>
       map_option c_total_unread_threads (get (ts_counts s1) T) = Some (c_total_unread_threads c)"
    using read_all_step [OF Cons.prems, of team ch at t] by blast
  obtain ts where ts: "perform (st\<lparr>rt_threads := s1\<rparr>)
      (dispatch_batch (map (\<lambda>t. ThreadAction (READ_CHANGED_THREAD (read_all team ch at t))) xs)) = Some (st\<lparr>rt_threads := ts\<rparr>)"
    "\<And>t. t\<in>set xs \<Longrightarrow> zero_unread ts (t_id t)"
    "\<And>k. k \<notin> t_id ` set xs \<Longrightarrow> get (ts_threads ts) k = get (ts_threads s1) k"
    "\<And>T. set (get_or [] (ts_unreadThreadsInTeam ts) T) =
       set (get_or [] (ts_unreadThreadsInTeam s1) T) - (if team = [] \<or> team = T then t_id ` set xs else {})"
    "\<And>T c. get (ts_counts s1) T = Some c \<Longrightarrow>
       map_option c_total_unread_threads (get (ts_counts ts) T) = Some (c_total_unread_threads c)"
    using Cons.IH [of "st\<lparr>rt_threads := s1\<rparr>"] s1(2) by auto
  have "zero_unread ts (t_id t)"
    using s1(3) ts(2,3) by (cases "t_id t \<in> t_id ` set xs") (auto simp: zero_unread_def)
  moreover have "map_option c_total_unread_threads (get (ts_counts ts) T) = Some (c_total_unread_threads c)"
    if "get (ts_counts (rt_threads st)) T = Some c" for T c
    using s1(6) [OF that] ts(5) by fastforce
  ultimately show ?case
    using s1(1,4,5) ts(1-4) by (intro exI [of _ ts]) (auto simp: read_action_step)
qed

text \<open>
  C12. When I read the threads of a channel elsewhere, every loaded thread of the channel has nothing unread any more and leaves
  the unread threads of its team, every other thread is as it was, and the handler never throws. But the number of unread threads
  of a team stays as it was: the actions say nothing of what was unread before, and the reducer takes that for nothing.
\<close>

theorem channel_threads_read:
  assumes "root_ok st" and "getChannel st ch = Some c" and "ch \<noteq> []"
  shows "\<exists>st'. perform st (handleThreadReadChanged st open_thread [] teamId channelId ch d) = Some st' \<and>
    (\<forall>k t p. get (ts_threads (rt_threads st)) k = Some t \<and> t_post t = Some p \<and> tp_channel_id p = ch \<longrightarrow>
       zero_unread (rt_threads st') k \<and>
       (ch_team_id c \<noteq> [] \<longrightarrow> k \<notin> set (get_or [] (ts_unreadThreadsInTeam (rt_threads st')) (ch_team_id c)))) \<and>
    (\<forall>k. k \<notin> t_id ` set (getThreadsOfChannel (ts_threads (rt_threads st)) ch) \<longrightarrow>
       get (ts_threads (rt_threads st')) k = get (ts_threads (rt_threads st)) k) \<and>
    (\<forall>T n. get (ts_counts (rt_threads st)) T = Some n \<longrightarrow>
       map_option c_total_unread_threads (get (ts_counts (rt_threads st')) T) = Some (c_total_unread_threads n)) \<and>
    rt_entities st' = rt_entities st \<and> rt_posts st' = rt_posts st"
proof -
  let ?xs = "getThreadsOfChannel (ts_threads (rt_threads st)) ch"
  have ok: "threads_ok (rt_threads st)" and filed: "filed_threads (ts_threads (rt_threads st))"
    using assms(1) by (simp_all add: root_ok_def threads_ok_def)
  have h: "handleThreadReadChanged st open_thread [] teamId channelId ch d =
      dispatch_batch (map (\<lambda>t. ThreadAction (READ_CHANGED_THREAD (read_all (ch_team_id c) ch (tr_lastViewedAt d) t))) ?xs)"
    using assms(2,3) by (simp add: handleThreadReadChanged_def handleAllThreadsInChannelMarkedRead_def read_all_def)
  have listed: "k \<in> t_id ` set ?xs"
    if "get (ts_threads (rt_threads st)) k = Some t" "t_post t = Some p" "tp_channel_id p = ch" for k t p
  proof (rule image_eqI)
    show "t \<in> set ?xs" using that get_in_values [OF that(1)] by (simp add: getThreadsOfChannel_def)
    show "k = t_id t" using filed that(1,2) by (fastforce simp: filed_threads_def)
  qed
  obtain ts where ts: "perform st (handleThreadReadChanged st open_thread [] teamId channelId ch d) = Some (st\<lparr>rt_threads := ts\<rparr>)"
    "\<And>t. t\<in>set ?xs \<Longrightarrow> zero_unread ts (t_id t)"
    "\<And>k. k \<notin> t_id ` set ?xs \<Longrightarrow> get (ts_threads ts) k = get (ts_threads (rt_threads st)) k"
    "\<And>T. set (get_or [] (ts_unreadThreadsInTeam ts) T) =
       set (get_or [] (ts_unreadThreadsInTeam (rt_threads st)) T) - (if ch_team_id c = [] \<or> ch_team_id c = T then t_id ` set ?xs else {})"
    "\<And>T n. get (ts_counts (rt_threads st)) T = Some n \<Longrightarrow>
       map_option c_total_unread_threads (get (ts_counts ts) T) = Some (c_total_unread_threads n)"
    unfolding h using read_all_steps [OF ok, of "ch_team_id c" ch "tr_lastViewedAt d" ?xs] by blast
  have "zero_unread ts k \<and> (ch_team_id c \<noteq> [] \<longrightarrow> k \<notin> set (get_or [] (ts_unreadThreadsInTeam ts) (ch_team_id c)))"
    if "get (ts_threads (rt_threads st)) k = Some t" "t_post t = Some p" "tp_channel_id p = ch" for k t p
    using listed [OF that] ts(2,4) by auto
  then show ?thesis using ts(1,3,5) by (intro exI [of _ "st\<lparr>rt_threads := ts\<rparr>"]) simp
qed


section \<open>A thread arrives\<close>







section \<open>The theorems at work\<close>

text \<open>Two teams of mine; the first is selected and has a channel with an unread thread.\<close>

definition sample_whole :: root_store where
  "sample_whole = init_root\<lparr>
     rt_entities := \<lparr>en_channels = sample_channels,
       en_teams = init_teams_state\<lparr>tes_currentTeamId := ''t'',
         tes_teams := [(''t'', sample_team), (''t2'', sample_team\<lparr>te_id := ''t2''\<rparr>)],
         tes_myMembers := [(''t'', no_team_membership\<lparr>tm_team_id := ''t'', tm_user_id := ''u''\<rparr>),
                           (''t2'', no_team_membership\<lparr>tm_team_id := ''t2'', tm_user_id := ''u''\<rparr>)]\<rparr>\<rparr>,
     rt_users := init_users_state\<lparr>uss_currentUserId := ''u'',
       uss_profiles := [(''u'', no_profile\<lparr>us_id := ''u'', us_roles := Some ''system_user''\<rparr>)]\<rparr>,
     rt_threads := initial_threads\<lparr>ts_threads := [(''t1'', sample_thread ''t1'' ''c'' 5)],
       ts_threadsInTeam := [(''t'', [''t1''])], ts_unreadThreadsInTeam := [(''t'', [''t1''])],
       ts_counts := [(''t'', \<lparr>c_total = Num 4, c_total_unread_threads = Num 3, c_total_unread_mentions = Num 0,
         c_total_unread_urgent_mentions = Num 0\<rparr>)]\<rparr>\<rparr>"

lemma sample_whole_ok: "root_ok sample_whole"
proof -
  have "posts_ok (rt_posts sample_whole)" "groups_ok (rt_groups sample_whole)" "preferences_ok (rt_preferences sample_whole)"
    "filed_categories (rt_byId sample_whole)"
    using whole_store.inv_init by (simp_all add: root_ok_def sample_whole_def init_root_def)
  moreover have "filed_teams (tes_teams (rt_teams sample_whole))" "filed_channels (rt_channels sample_whole)"
    "sets_ok (rt_channels sample_whole)"
    by (auto simp: sample_whole_def filed_teams_def sample_team_def filed_channels_def sets_ok_def channel_sample_defs wf_obj_def
        get_or_def init_channels_state_def)
  moreover have "threads_ok (rt_threads sample_whole)"
    by (auto simp: sample_whole_def threads_ok_def filed_threads_def sample_thread_def lists_ok_def loaded_ids_def get_or_def
        initial_threads_def)
  ultimately show ?thesis by (simp add: root_ok_def)
qed

definition sample_removal :: user_removed where
  "sample_removal = \<lparr>ur_broadcast_user_id = ''u'', ur_broadcast_channel_id = [], ur_channel_id = Some ''c'', ur_user_id = None,
     ur_remover_id = Some ''x''\<rparr>"

lemma removed_from_channel_witness:
  "\<exists>st'. perform sample_whole (handleUserRemovedEvent sample_whole [] [] sample_removal) = Some st' \<and>
     get (cs_channels (rt_channels sample_whole)) ''c'' \<noteq> None \<and> get (cs_channels (rt_channels st')) ''c'' = None \<and>
     get (cs_myMembers (rt_channels st')) ''c'' = None"
proof -
  have "getCurrentUser sample_whole = Some (no_profile\<lparr>us_id := ''u'', us_roles := Some ''system_user''\<rparr>)"
    by (simp add: getCurrentUser_def sample_whole_def)
  moreover have "threads_admissible (rt_threads sample_whole) (entity_of (leave_action sample_whole sample_removal))"
    by (simp add: entity_leave_action unlisted_elsewhere_def sample_removal_def key_of_def getChannel_def or_empty_def sample_whole_def
        channel_sample_defs sample_thread_def getThreadsOfChannel_def toClientChannel_def)
  moreover have "get (cs_channels (rt_channels sample_whole)) ''c'' \<noteq> None" by (simp add: sample_whole_def channel_sample_defs)
  ultimately show ?thesis
    using removed_from_channel [OF sample_whole_ok, where msg = sample_removal and ch = "''c''" and license = "[]" and rhs = "[]"]
    by (fastforce simp: sample_removal_def)
qed

lemma deleted_team_replaced_witness:
  "\<exists>st' name. perform sample_whole (handleDeleteTeamEvent id (\<lambda>_ _ _. 0) sample_whole (sample_team\<lparr>te_delete_at := 9\<rparr>)) = Some st' \<and>
     get (tes_myMembers (rt_teams st')) ''t'' = None \<and> tes_currentTeamId (rt_teams st') \<noteq> ''t'' \<and>
     PushTeamChannel (getCurrentTeamUrl st') name \<in>
       set (handleDeleteTeamEvent id (\<lambda>_ _ _. 0) sample_whole (sample_team\<lparr>te_delete_at := 9\<rparr>))"
proof -
  let ?d = "sample_team\<lparr>te_delete_at := 9\<rparr>"
  have team: "get (tes_teams (rt_teams sample_whole)) (te_id ?d) = Some sample_team" "te_delete_at sample_team = 0"
    "tes_currentTeamId (rt_teams sample_whole) = te_id ?d" "get (tes_teams (rt_teams sample_whole)) [] = None"
    "getCurrentUser sample_whole = Some (no_profile\<lparr>us_id := ''u'', us_roles := Some ''system_user''\<rparr>)"
    by (simp_all add: sample_whole_def sample_team_def getCurrentUser_def)
  have "replacement_team sample_whole ''t'' = Some ''t2''"
    by (simp add: replacement_team_def getMyTeams_def sample_whole_def sample_team_def Let_def no_team_membership_def obj_values_def)
  then have "RedirectHome \<notin> set (handleDeleteTeamEvent id (\<lambda>_ _ _. 0) sample_whole ?d)"
    using team by (auto simp: handleDeleteTeamEvent_def enter_team_def team_deleted_effects_def sample_team_def Let_def split: option.splits)
  then show ?thesis
    using deleted_team_replaced [OF sample_whole_ok team, of id "\<lambda>_ _ _. 0"] by (auto simp: sample_team_def)
qed

lemma channel_threads_read_witness:
  "\<exists>st'. perform sample_whole (handleThreadReadChanged sample_whole (\<lambda>_. False) [] ''t'' [] ''c''
       \<lparr>tr_lastViewedAt = 9, tr_prevUnreadMentions = None, tr_newUnreadMentions = 0, tr_prevUnreadReplies = None,
        tr_newUnreadReplies = 0\<rparr>) = Some st' \<and> \<not> zero_unread (rt_threads sample_whole) ''t1'' \<and> zero_unread (rt_threads st') ''t1''"
proof -
  have c: "getChannel sample_whole ''c'' = Some (toClientChannel sample_channel)"
    by (simp add: getChannel_def sample_whole_def channel_sample_defs)
  have t: "get (ts_threads (rt_threads sample_whole)) ''t1'' = Some (sample_thread ''t1'' ''c'' 5)"
    "t_post (sample_thread ''t1'' ''c'' 5) = Some \<lparr>tp_channel_id = ''c'', tp_user_id = ''u1''\<rparr>"
    by (simp_all add: sample_whole_def sample_thread_def)
  then have "\<not> zero_unread (rt_threads sample_whole) ''t1''" by (simp add: zero_unread_def sample_thread_def)
  with channel_threads_read [OF sample_whole_ok c, of "\<lambda>_. False" "''t''" "[]"] t show ?thesis by fastforce
qed



end
