(* ===== verification/Spec2Isabelle.thy ===== *)
theory Spec2Isabelle
  imports PostsReducer ThreadsProps PostListProps Categories ScheduledPosts Files WebSocketProps CommandSuggestProps
    UnreadBadge TeamsProps UsersProps UserUtilsProps ChannelUtilsProps PermissionsProps
    SidebarProps SearchProps DataLoaderProps WebsocketEventsProps
begin

text \<open>
  The message store of the web client, the connection that feeds it, and the apps: the reducers that
  keep posts, their order, followed threads, channel categories, scheduled posts and files, and the list
  of items a channel shows; the reducers of channels, teams and users with the counting of what is unread;
  the websocket client; the bindings of apps and the parser that turns a slash
  command into a call of an app. Paths below are relative to
  \<open>src/webapp/channels/src/packages/mattermost-redux/src/\<close> unless they start with \<open>channels/\<close> or
  \<open>platform/\<close>, which are under \<open>src/webapp/\<close>; types come from \<open>src/webapp/platform/types/src/\<close>.

  How the parts interact. The server's events and the answers to requests become actions. Every
  reducer gets every action and answers with its next state, or with the very object it was
  given when nothing changes. \<open>reducers/entities/posts.ts\<close> hands an action first to the map of
  posts and then gives its next state to the reducers of the order and of the threads, which read
  creation times, root ids and channels from it. \<open>reducers/entities/threads/index.ts\<close> computes the
  threads a left channel had and gives them to the lists and the counters. Categories, scheduled
  posts and files depend on no other slice. \<open>utils/post_list.ts\<close> reads the posts of a channel in
  their order and produces the items to render. The reducers of channels and of teams get the same actions:
  those that count unread messages change the member of the channel, its totals and the member of the
  team; \<open>actions/channels.ts\<close> makes them up from the state, \<open>utils/channel_utils.ts\<close> reads the difference
  of totals and read counts, and \<open>selectors/entities/channels.ts\<close> sums it up for the badge. \<open>platform/client/src/websocket.ts\<close> keeps one connection to
  the server, numbers its events and delivers them to its listeners. Bindings of apps are cleaned by
  \<open>utils/apps.ts\<close> before \<open>reducers/entities/apps.ts\<close> keeps them; \<open>app_command_parser.ts\<close> (in
  \<open>channels/src/components/suggestion/command_provider/app_command_parser/\<close>) reads them with
  \<open>selectors/entities/apps.ts\<close>, matches and parses a command with the form of its binding, which it may
  have to fetch from the app and then caches in the store, and composes the call.

  The theories.

  Prelude: objects used as maps (association lists in insertion order, \<open>get\<close>, \<open>put\<close>, \<open>del\<close>,
  \<open>obj_spread\<close>), the result of a reducer (\<open>Same\<close> for the identical object, \<open>New s\<close>), arrays
  (\<open>indexOf\<close>, \<open>remove_at\<close>), sets kept as arrays, \<open>Array.sort\<close> with a comparator that may look up a
  missing post, numbers that may be \<open>undefined\<close> or \<open>NaN\<close>, and the interface of a store.

  Entities: the records and data types of posts, threads, categories, scheduled posts, files, the
  states of the reducers, one datatype of actions per file of \<open>action_types/\<close>, and the constants
  of \<open>constants/posts.ts\<close> the reducers use. PostUtils: \<open>utils/post_utils.ts\<close>. Samples: posts the
  witnesses share.

  PostMap and PostMapProps: \<open>removeUnneededMetadata\<close>, \<open>nextPostsReplies\<close>, \<open>handlePosts\<close>,
  \<open>handlePostReceived\<close>, \<open>handlePendingPosts\<close>. The received post is an argument and a result, since
  the code writes \<open>is_following\<close> into it. The lemmas give the store after each action (what a
  lookup returns), that posts stay filed under their ids, when a deletion throws, and what
  survives of metadata.

  PostOrder and PostOrderProps: \<open>postsInChannel\<close>, \<open>mergePostBlocks\<close>, \<open>mergePostOrder\<close>. The lemmas
  state that merging blocks loses and invents no post, leaves no two blocks overlapping, keeps at
  most one most recent block, and when it throws; and how a created post replaces its pending copy.

  PostThreads and PostThreadsProps: \<open>postsInThread\<close>, \<open>reactions\<close>, \<open>acknowledgements\<close>, \<open>openGraph\<close>,
  \<open>postEditHistory\<close>, \<open>currentFocusedPostId\<close>, \<open>messagesHistory\<close> with the selector that reads it,
  \<open>limitedViews\<close>. The lemmas say what each holds after an action.

  PostsReducer: the default export of \<open>posts.ts\<close>, with the slices it compares to decide whether the
  state changed; the invariant of its reachable states and what a removal, a departure, a logout
  and a created post leave in the whole state.

  ThreadsReducer and ThreadsProps: \<open>threads/index.ts\<close>, \<open>threadsInTeam.ts\<close>, \<open>counts.ts\<close>. The lemmas
  show that a listed thread is loaded, so that no access fails, with the one departure that breaks
  this; how reading changes the unread lists; and the bounds of the counters.

  PostList and PostListProps: \<open>utils/post_list.ts\<close> with \<open>getUserCurrentTimezone\<close>. The lemmas
  relate the items to the posts they stand for: combining is undone by splitting, separators cut
  the list into days, the marker of new messages is where it belongs, and a combined post names
  everyone it is about. NumberStrings: printing and parsing integers, which list items and urls use.

  Categories: \<open>reducers/entities/channel_categories.ts\<close> and \<open>utils/array_utils.ts\<close>. ScheduledPosts:
  \<open>reducers/entities/scheduled_posts.ts\<close> and the conversions in \<open>schedule_post.ts\<close>. Files:
  \<open>reducers/entities/files.ts\<close>.

  ChannelEntities, UserEntities, ReduxActions: the records of channels, memberships, teams, users and
  sessions, the states of their reducers, and one datatype of actions per file of \<open>action_types/\<close> for
  the actions these reducers read. Channels: \<open>reducers/entities/channels.ts\<close> with
  \<open>channels/message_counts.ts\<close>; a channel from the server is a \<open>server_channel\<close>, which extends the record of
  the stored channel by the totals of its messages. Teams: \<open>reducers/entities/teams.ts\<close> and
  \<open>utils/team_utils.ts\<close>. Users: \<open>reducers/entities/users.ts\<close>; absent properties of a profile are \<open>None\<close>, so that
  merging two profiles is defined property by property. UsersProps: what of my private data survives a
  merge, that a user who is no longer visible is forgotten, and that team lists are disjoint.

  ChannelUnreads: the two reducers in one store, \<open>calculateUnreadCount\<close>, the actions that mark channels as
  read and unread, \<open>new_post.ts\<close>, leaving and converting a channel, the selectors of the badge and of the
  unread channels. ChannelUnreadsProps: the counts as a refinement of a ledger of arriving posts and readings,
  the invariant of the totals from which reading never throws, memberships that arrive late. UnreadBadge: the badge and
  the sidebar agree; the order of unread channels; names of direct channels. ChannelSetsProps: the lists
  of the channels of a team name loaded channels, and what a conversion does to the counts. TeamsProps: my memberships after lists of members and teams.
  ChannelSamples: a store the witnesses share.

  UserUtils and UserUtilsProps: \<open>utils/user_utils.ts\<close>: the name a user is shown by, roles as words of a text, what is
  searched for a user, filters by role. ChannelUtils and ChannelUtilsProps: the rest of \<open>utils/channel_utils.ts\<close>: the names of
  direct and group channels, the comparators of lists of channels, names for urls. The lemmas show that typing a part of a
  name finds its user, that the two variants that complete a channel agree, and what a cleaned name consists of.

  GroupStore and GroupStoreProps: \<open>reducers/entities/groups.ts\<close>, \<open>reducers/entities/roles.ts\<close>, \<open>utils/group_utils.ts\<close>,
  the selectors of \<open>selectors/entities/groups.ts\<close> and \<open>loadRolesIfNeeded\<close> of \<open>actions/roles.ts\<close>. The lemmas show that
  the groups I am in are loaded in every reachable state, which may be mentioned, and that every role is asked for once.
  Permissions: \<open>selectors/entities/roles.ts\<close> and \<open>roles_helpers.ts\<close>, over the stores of users, teams, channels, groups and roles.

  Preferences and PreferencesProps: \<open>reducers/entities/preferences.ts\<close> with the key of a preference and the selectors
  that read them; a value that was stored is read back. Sidebar and SidebarProps: \<open>selectors/entities/channel_categories.ts\<close>,
  over the stores of channels, users, preferences and categories: which channels a category shows and in which order; that
  unread channels are shown, that nothing is shown that should not be, and how many. Search and SearchProps:
  \<open>reducers/entities/search.ts\<close> and the searches of \<open>actions/search.ts\<close>: the results of pages, and when flagged posts
  stay in step with the preferences that flag them, which they do unless all preferences are replaced at once.

  RootStore and RootStoreProps: these reducers in one store (\<open>reducers/entities/index.ts\<close>), with what each reads of an
  action. The lemmas show that the parts stay consistent together and that every channel, team and category stays filed under
  its id, while the actions respect the conditions collected in \<open>root_admissible\<close>, which the reducers do not check. WebsocketEvents and WebsocketEventsProps: the handlers of \<open>channels/src/actions/websocket_actions.jsx\<close>, as effects on the
  whole store, with what they call of \<open>actions/threads.ts\<close>. The lemmas say what is left of a channel I was removed from, where the
  view goes when its team is deleted (with the channel to enter, from \<open>selectors/entities/channels.ts\<close>), and how the unread threads are counted.

  DataLoader and DataLoaderProps: \<open>utils/data_loader.ts\<close>. The lemmas put the loader that waits in a world of batches under
  way and promises: a promise is resolved when everything it asked for has been fetched, and it is, when the server answers.

  WebSocket and WebSocketProps: \<open>WebSocketClient\<close> as a machine. \<open>react\<close> is one event (a call of a method,
  an event of the socket or of the browser, a timer) and gives the next client and what the outside sees:
  connections, requests, calls of listeners. The lemmas show that listeners get the server's events in order
  whatever happens (a refinement of the stream of numbered events), that a client that was not closed has a
  connection or a timer and comes back, how long it waits, and where a lost connection is resumed.

  AppBindings and AppBindingsProps: the types of \<open>apps.ts\<close> and the cleaning of bindings, forms and options.
  Strings here are lists of UTF-16 code units, since users and apps write them. The lemmas show what is
  valid afterwards, at every depth. AppCalls and AppCallsProps: \<open>channels/src/utils/apps.ts\<close>,
  \<open>channels/src/actions/apps.ts\<close>, the reducers and selectors of apps and the cache of forms; the invariant of
  that part of the store.

  CommandParser, CommandParserProps, CommandRoundtrip: \<open>ParsedCommand\<close>. \<open>match_step\<close> and \<open>form_step\<close> are one
  round of the two loops, one definition per state of the second. The lemmas show that both loops end, which
  errors cannot occur, that values have the types the form gives them, and that a command printed from
  values is parsed back to them. CommandCall and CommandCallProps: \<open>composeCommandSubmitCall\<close> and
  \<open>composeFormFromCommand\<close>: defaults, required fields, and the expansion of users, channels and options; the
  lemmas reduce both passes over the form, whose lookups are answered in any order, to one field at a time, and show by an
  invariant of the first loop (\<open>path_inv\<close>) that the binding it ends with is the one the words of the command lead to.

  CommandSuggest and CommandSuggestProps: what is offered while a command is typed (\<open>getSuggestions\<close>, the
  suggestions of \<open>mentions/index.ts\<close> and the lists of \<open>command_provider.tsx\<close>). The lemmas put suggestions in the place
  of what is typed and parse the result again: a subcommand, a flag or an option accepted is the one that was offered.

  Conventions. A step that may throw returns an option, and \<open>None\<close> is the exception. An absent
  property is \<open>None\<close>, or the empty string or 0 where the code tests it for truth only. Times and
  counts are \<open>int\<close>: the code only adds, subtracts and compares them, far below \<open>2 ^ 53\<close>. Ids are
  not numerals, so objects keep the order of insertion. Array writes the code makes on objects
  that others hold (the received post, the previous array of scheduled posts, the reversed list
  of activities) are extra results.

  Interfaces. \<open>comparator_contract\<close> is what \<open>Array.sort\<close> relies on and what sorting then
  guarantees; it is interpreted for \<open>comparePosts\<close>, for the comparison by creation time, for
  the one of blocks, and for those of the sidebar: which channels stay visible, and the order by recency. \<open>stored_property\<close> carries a property of single posts through every action of
  \<open>handlePosts\<close>; it is interpreted for being filed under one's id and for carrying no spread
  metadata. \<open>redux_store\<close> is a step, the actions it may get and an invariant, and gives the
  invariant for every reachable state; \<open>total_store\<close> adds that the step never throws. They are
  interpreted for the posts, for the followed threads, for the websocket client, for the store of channels, for the groups, for the
  preferences, for the data loader and for the whole store. \<open>trace_refinement\<close> is a
  machine whose outputs are, step by step, words of a specification; it gives the same for every run, and is
  interpreted for the websocket client and the stream of numbered events. \<open>field_pass\<close> is a pass over all fields
  of a form at the same time in which what becomes of a field depends on its own value only; it is interpreted
  for the defaults and for the expansion.

  Bounds. \<open>handlePostReceived\<close> calls itself for a previewed post with a level one higher and
  returns at once above level 1; \<open>2 - level\<close> decreases, so it is total without fuel. The loop of
  \<open>mergePostBlocks\<close> shortens the list in each round. The loop of \<open>matchBinding\<close> moves the
  cursor or changes its state in a fixed order, three ranks per character. The loop of \<open>parseForm\<close> is a
  partial function, since a boolean flag without a value sends the cursor back; a lexicographic measure of
  the positions left, the text left and the cursor shows that it returns for every text, so that no fuel is
  needed. All other loops run over a list. The message
  history holds 100 messages, a combined item stands for 100 posts.

  Parameters. \<open>local\<close> is the offset of the browser's time zone in minutes at a time
  (\<open>Date.getTimezoneOffset\<close>) and \<open>zone_of\<close> is the lookup of a zone by name in the library moment; \<open>lower\<close> is
  \<open>toLowerCase\<close>, the case mapping of Unicode; \<open>lc\<close> is \<open>localeCompare\<close> for a locale and \<open>someone\<close> the translation of that word; the current time (\<open>Date.now()\<close>) is an argument of the actions that ask for it; the random part of a pause is an argument of the event that
  sets it; \<open>execute\<close> is the request to an app, \<open>fm\<close> the translation of a message, a \<open>directory\<close> what the store and
  the server answer about users and channels, and \<open>arrive\<close> the order in which answers come in; a \<open>suggest_env\<close>
  adds the texts of suggestions and what the server finds for the beginning of a name. The texts of
  websocket events that are JSON come parsed; what is on the screen is an argument of their handlers. The theorems hold
  for all of them, with the permutation and what two lookups of one user have in common as hypotheses.

  Not modelled: memoisation of selectors, the run-time type guards of \<open>post_list.ts\<close> and \<open>apps.ts\<close>,
  \<open>canEditPost\<close> (it asks the permission selectors only), the texts of messages, most actions, network and user
  interface, and of the websocket events those about plugins, apps, drafts, bookmarks, limits and reconnecting. Fields named \<open>__proto__\<close> are left out of account, and so are values of a user or channel field that
  are neither a string nor a list of strings. Next in order:
  the other reducers under \<open>reducers/entities/\<close> (typing, emojis, bookmarks, general), themes and the settings that are
  stored as JSON texts.
\<close>

end
